(* ===== verification/Js_Prelude.thy ===== *)
theory Js_Prelude
  imports Main "HOL-Library.Word"
begin

text \<open>
  The part of JavaScript and of Node's standard library that the modelled sources share:
  errors as values, byte buffers, big- and little-endian integers, clamped slices and
  hexadecimal strings, together with the lemmas the component theories rest on.

  \<^item> A \<open>Buffer\<close> or \<open>Uint8Array\<close> is a list of 8-bit words.
  \<^item> A function that can throw returns \<open>'a result\<close>: \<open>Inl\<close> holds the thrown value.
  \<^item> Offsets and lengths are natural numbers: no modelled source passes a fractional one.
\<close>

section \<open>Errors as values\<close>

datatype js_error =
    RangeError
  | TypeError
  | SyntaxError
  | JsError string

type_synonym 'a result = "js_error + 'a"

text \<open>Sequencing of throwing statements: the first throw ends the computation.\<close>

fun bindR :: "'e + 'a \<Rightarrow> ('a \<Rightarrow> 'e + 'b) \<Rightarrow> 'e + 'b" where
  "bindR (Inl e) f = Inl e"
| "bindR (Inr x) f = f x"

definition guardR :: "bool \<Rightarrow> 'e \<Rightarrow> 'e + unit" where
  "guardR c e = (if c then Inr () else Inl e)"

text \<open>A \<open>try\<close> block whose handler returns \<open>undefined\<close>.\<close>

definition try_undefined :: "'e + 'a \<Rightarrow> 'a option" where
  "try_undefined r = (case r of Inl _ \<Rightarrow> None | Inr x \<Rightarrow> Some x)"

fun mapR :: "('a \<Rightarrow> 'e + 'b) \<Rightarrow> 'a list \<Rightarrow> 'e + 'b list" where
  "mapR f [] = Inr []"
| "mapR f (x # xs) = bindR (f x) (\<lambda>y. bindR (mapR f xs) (\<lambda>ys. Inr (y # ys)))"

lemma bindR_Inr_iff: "bindR m f = Inr y \<longleftrightarrow> (\<exists>x. m = Inr x \<and> f x = Inr y)"
  by (cases m) auto

lemma bindR_Inl_iff: "bindR m f = Inl e \<longleftrightarrow> m = Inl e \<or> (\<exists>x. m = Inr x \<and> f x = Inl e)"
  by (cases m) auto

lemma bindR_assoc: "bindR (bindR m f) g = bindR m (\<lambda>x. bindR (f x) g)"
  by (cases m) auto

lemma guardR_Inr [simp]: "guardR c e = Inr u \<longleftrightarrow> c"
  by (simp add: guardR_def)

lemma guardR_Inl [simp]: "guardR c e = Inl e' \<longleftrightarrow> \<not> c \<and> e = e'"
  by (simp add: guardR_def)

lemma guardR_True [simp]: "guardR True e = Inr ()"
  by (simp add: guardR_def)

lemma guardR_False [simp]: "guardR False e = Inl e"
  by (simp add: guardR_def)

lemma try_undefined_simps [simp]:
  "try_undefined (Inl e) = None" "try_undefined (Inr x) = Some x"
  by (simp_all add: try_undefined_def)

lemma try_undefined_Some: "try_undefined r = Some x \<longleftrightarrow> r = Inr x"
  by (cases r) simp_all

lemma mapR_Inr_map: "(\<And>x. x \<in> set xs \<Longrightarrow> f x = Inr (g x)) \<Longrightarrow> mapR f xs = Inr (map g xs)"
  by (induction xs) auto

lemma mapR_length: "mapR f xs = Inr ys \<Longrightarrow> length ys = length xs"
  by (induction xs arbitrary: ys) (auto simp: bindR_Inr_iff)

section \<open>Byte buffers\<close>

type_synonym byte = "8 word"
type_synonym bytes = "byte list"

text \<open>\<open>xs.subarray(s, e)\<close> and \<open>xs.slice(s, e)\<close> for offsets that are not negative: both ends
  are clamped to the length.\<close>

definition subarray :: "'a list \<Rightarrow> nat \<Rightarrow> nat \<Rightarrow> 'a list" where
  "subarray xs s e = take (e - s) (drop s xs)"

text \<open>\<open>Array.prototype.slice\<close> with optional, possibly negative arguments.\<close>

definition js_index :: "nat \<Rightarrow> int \<Rightarrow> nat" where
  "js_index n i = (if i < 0 then nat (max 0 (int n + i)) else min n (nat i))"

definition js_slice :: "'a list \<Rightarrow> int option \<Rightarrow> int option \<Rightarrow> 'a list" where
  "js_slice xs s e =
     subarray xs
       (case s of None \<Rightarrow> 0 | Some i \<Rightarrow> js_index (length xs) i)
       (case e of None \<Rightarrow> length xs | Some i \<Rightarrow> js_index (length xs) i)"

text \<open>\<open>dst.set(src, offset)\<close>: a source that does not fit is a \<open>RangeError\<close>.\<close>

definition buf_set :: "bytes \<Rightarrow> bytes \<Rightarrow> nat \<Rightarrow> bytes result" where
  "buf_set b src offs =
     (if offs + length src \<le> length b
      then Inr (take offs b @ src @ drop (offs + length src) b)
      else Inl RangeError)"

lemma subarray_append_left [simp]:
  "e \<le> length xs \<Longrightarrow> subarray (xs @ ys) s e = subarray xs s e"
  by (cases "s \<le> length xs") (simp_all add: subarray_def)

lemma subarray_mid: "subarray (pre @ mid @ post) (length pre) (length pre + length mid) = mid"
  by (simp add: subarray_def)

lemma subarray_mid':
  "s = length pre \<Longrightarrow> e = s + length mid \<Longrightarrow> subarray (pre @ mid @ post) s e = mid"
  by (simp add: subarray_def)

lemma subarray_all [simp]: "subarray xs 0 (length xs) = xs"
  by (simp add: subarray_def)

lemma subarray_end: "subarray (pre @ rest) (length pre) (length (pre @ rest)) = rest"
  by (simp add: subarray_def)

lemma length_subarray: "length (subarray xs s e) = min e (length xs) - s"
  by (auto simp: subarray_def min_def)

lemma set_subarray: "set (subarray xs s e) \<subseteq> set xs"
  unfolding subarray_def by (meson order_trans set_drop_subset set_take_subset)

lemma length_js_slice_le: "length (js_slice xs s e) \<le> length xs"
  by (simp add: js_slice_def length_subarray)

lemma js_slice_None [simp]: "js_slice xs None None = xs"
  by (simp add: js_slice_def)

lemma subarray_map: "subarray (map f xs) s e = map f (subarray xs s e)"
  by (simp add: subarray_def take_map drop_map)

lemma js_slice_map: "js_slice (map f xs) s e = map f (js_slice xs s e)"
  by (simp add: js_slice_def subarray_map split: option.split)

lemma buf_set_mid:
  "length src = length mid \<Longrightarrow>
   buf_set (pre @ mid @ post) src (length pre) = Inr (pre @ src @ post)"
  by (simp add: buf_set_def)

section \<open>Integers in buffers\<close>

text \<open>Unsigned integers, most significant byte first and least significant byte first.\<close>

fun le_nat :: "bytes \<Rightarrow> nat" where
  "le_nat [] = 0"
| "le_nat (b # bs) = unat b + 256 * le_nat bs"

definition be_nat :: "bytes \<Rightarrow> nat" where
  "be_nat bs = le_nat (rev bs)"

fun le_bytes :: "nat \<Rightarrow> nat \<Rightarrow> bytes" where
  "le_bytes 0 n = []"
| "le_bytes (Suc w) n = of_nat (n mod 256) # le_bytes w (n div 256)"

definition be_bytes :: "nat \<Rightarrow> nat \<Rightarrow> bytes" where
  "be_bytes w n = rev (le_bytes w n)"

lemma le_bytes_numeral:
  "le_bytes (numeral k) n = of_nat (n mod 256) # le_bytes (pred_numeral k) (n div 256)"
  by (simp only: numeral_eq_Suc le_bytes.simps)

lemma length_le_bytes [simp]: "length (le_bytes w n) = w"
  by (induction w arbitrary: n) auto

lemma length_be_bytes [simp]: "length (be_bytes w n) = w"
  by (simp add: be_bytes_def)

lemma unat_byte_less: "unat (b :: byte) < 256"
  using unsigned_less [of b] by simp

lemma unat_of_nat_byte [simp]: "unat (of_nat (n mod 256) :: byte) = n mod 256"
  by (simp add: unat_of_nat take_bit_eq_mod)

lemma unat_of_nat_small [simp]: "n < 256 \<Longrightarrow> unat (of_nat n :: byte) = n"
  by (simp add: unat_of_nat take_bit_eq_mod)

lemma le_nat_le_bytes [simp]: "le_nat (le_bytes w n) = n mod 256 ^ w"
proof (induction w arbitrary: n)
  case 0
  show ?case by simp
next
  case (Suc w)
  have "n mod 256 + 256 * ((n div 256) mod 256 ^ w) = n mod 256 ^ Suc w"
    by (simp add: mod_mult2_eq [of n 256 "256 ^ w"] add.commute)
  with Suc show ?case by simp
qed

lemma be_nat_be_bytes [simp]: "be_nat (be_bytes w n) = n mod 256 ^ w"
  by (simp add: be_nat_def be_bytes_def)

lemma le_bytes_le_nat [simp]: "le_bytes (length bs) (le_nat bs) = bs"
proof (induction bs)
  case (Cons b bs)
  have "(unat b + 256 * le_nat bs) mod 256 = unat b"
    using unat_byte_less [of b] by simp
  moreover have "(unat b + 256 * le_nat bs) div 256 = le_nat bs"
    using unat_byte_less [of b] by simp
  ultimately show ?case using Cons by simp
qed simp

lemma be_bytes_be_nat [simp]: "be_bytes (length bs) (be_nat bs) = bs"
proof -
  have "le_bytes (length (rev bs)) (le_nat (rev bs)) = rev bs"
    by (rule le_bytes_le_nat)
  then show ?thesis by (simp add: be_bytes_def be_nat_def)
qed

lemma le_nat_less: "le_nat bs < 256 ^ length bs"
proof (induction bs)
  case (Cons b bs)
  then have "le_nat bs + 1 \<le> 256 ^ length bs" by simp
  then have "256 * (le_nat bs + 1) \<le> 256 * 256 ^ length bs" by (rule mult_le_mono2)
  with unat_byte_less [of b] show ?case by simp
qed simp

lemma be_nat_less: "be_nat bs < 256 ^ length bs"
  using le_nat_less [of "rev bs"] by (simp add: be_nat_def)

lemma bytes_nat_inverse:
  "length bs = w \<Longrightarrow> le_bytes w (le_nat bs) = bs"
  "length bs = w \<Longrightarrow> be_bytes w (be_nat bs) = bs"
  using le_bytes_le_nat be_bytes_be_nat by blast+

lemma be_bytes_eq_iff:
  "m < 256 ^ w \<Longrightarrow> n < 256 ^ w \<Longrightarrow> be_bytes w m = be_bytes w n \<longleftrightarrow> m = n"
  by (metis be_nat_be_bytes mod_less)

text \<open>Node's checked readers: an offset outside the buffer is a \<open>RangeError\<close>.\<close>

definition readUIntBE :: "nat \<Rightarrow> bytes \<Rightarrow> nat \<Rightarrow> nat result" where
  "readUIntBE w b offs =
     (if offs + w \<le> length b then Inr (be_nat (subarray b offs (offs + w))) else Inl RangeError)"

definition readUIntLE :: "nat \<Rightarrow> bytes \<Rightarrow> nat \<Rightarrow> nat result" where
  "readUIntLE w b offs =
     (if offs + w \<le> length b then Inr (le_nat (subarray b offs (offs + w))) else Inl RangeError)"

abbreviation readUInt8 :: "bytes \<Rightarrow> nat \<Rightarrow> nat result" where
  "readUInt8 \<equiv> readUIntBE 1"

abbreviation readUInt16BE :: "bytes \<Rightarrow> nat \<Rightarrow> nat result" where
  "readUInt16BE \<equiv> readUIntBE 2"

abbreviation readUInt32BE :: "bytes \<Rightarrow> nat \<Rightarrow> nat result" where
  "readUInt32BE \<equiv> readUIntBE 4"

text \<open>Two's complement reading of a \<open>w\<close>-byte pattern.\<close>

definition to_signed :: "nat \<Rightarrow> nat \<Rightarrow> int" where
  "to_signed w n = (if n < 256 ^ w div 2 then int n else int n - 256 ^ w)"

definition readIntBE :: "nat \<Rightarrow> bytes \<Rightarrow> nat \<Rightarrow> int result" where
  "readIntBE w b offs = bindR (readUIntBE w b offs) (\<lambda>n. Inr (to_signed w n))"

lemma readUIntBE_at:
  "length mid = w \<Longrightarrow> readUIntBE w (pre @ mid @ post) (length pre) = Inr (be_nat mid)"
  by (simp add: readUIntBE_def subarray_def)

lemma readUIntLE_at:
  "length mid = w \<Longrightarrow> readUIntLE w (pre @ mid @ post) (length pre) = Inr (le_nat mid)"
  by (simp add: readUIntLE_def subarray_def)

lemma readUInt8_at: "readUIntBE (Suc 0) (pre @ b # post) (length pre) = Inr (unat b)"
  using readUIntBE_at [of "[b]" 1 pre post] by (simp add: be_nat_def)

lemma readUIntBE_at':
  "length mid = w \<Longrightarrow> offs = length pre \<Longrightarrow> readUIntBE w (pre @ mid @ post) offs = Inr (be_nat mid)"
  by (simp add: readUIntBE_at)

lemma readUInt8_at': "offs = length pre \<Longrightarrow> readUIntBE (Suc 0) (pre @ b # post) offs = Inr (unat b)"
  by (simp add: readUInt8_at)

lemma readUIntBE_short: "length b < offs + w \<Longrightarrow> readUIntBE w b offs = Inl RangeError"
  by (simp add: readUIntBE_def)

lemma readUIntBE_less: "readUIntBE w b offs = Inr n \<Longrightarrow> n < 256 ^ w"
  using be_nat_less [of "subarray b offs (offs + w)"]
  by (auto simp: readUIntBE_def length_subarray split: if_splits)

lemma readUIntBE_bound: "readUIntBE w b offs = Inr n \<Longrightarrow> offs + w \<le> length b"
  by (simp add: readUIntBE_def split: if_splits)

section \<open>Hexadecimal strings\<close>

definition hex_digits :: string where
  "hex_digits = ''0123456789abcdef''"

definition hex_char :: "nat \<Rightarrow> char" where
  "hex_char n = hex_digits ! (n mod 16)"

definition hex_byte :: "byte \<Rightarrow> string" where
  "hex_byte b = [hex_char (unat b div 16), hex_char (unat b mod 16)]"

text \<open>\<open>buf.toString("hex")\<close>.\<close>

definition to_hex :: "bytes \<Rightarrow> string" where
  "to_hex bs = concat (map hex_byte bs)"

text \<open>The value of one hexadecimal digit, upper or lower case.\<close>

definition unhex_char :: "char \<Rightarrow> nat option" where
  "unhex_char c =
     (let n = of_char c :: nat in
      if 48 \<le> n \<and> n \<le> 57 then Some (n - 48)
      else if 97 \<le> n \<and> n \<le> 102 then Some (n - 87)
      else if 65 \<le> n \<and> n \<le> 70 then Some (n - 55)
      else None)"

text \<open>\<open>Buffer.from(s, "hex")\<close>: decoding stops at the first pair that is not hexadecimal.\<close>

fun from_hex :: "string \<Rightarrow> bytes" where
  "from_hex (c # d # cs) =
     (case (unhex_char c, unhex_char d) of
        (Some h, Some l) \<Rightarrow> of_nat (16 * h + l) # from_hex cs
      | _ \<Rightarrow> [])"
| "from_hex _ = []"

lemma unhex_hex_char: "n < 16 \<Longrightarrow> unhex_char (hex_char n) = Some n"
proof -
  assume "n < 16"
  then have "n \<in> set [0..<16]" by simp
  moreover have "\<forall>n \<in> set [0..<16]. unhex_char (hex_char n) = Some n"
    by code_simp
  ultimately show ?thesis by blast
qed

lemma unat_div16 [simp]: "unat (b :: byte) div 16 < 16"
  using unat_byte_less [of b] by simp

lemma from_hex_hex_byte [simp]: "from_hex (hex_byte b @ cs) = b # from_hex cs"
proof -
  have "unhex_char (hex_char (unat b div 16)) = Some (unat b div 16)"
    by (rule unhex_hex_char) simp
  moreover have "unhex_char (hex_char (unat b mod 16)) = Some (unat b mod 16)"
    by (rule unhex_hex_char) simp
  moreover have "16 * (unat b div 16) + unat b mod 16 = unat b" by simp
  then have "of_nat (16 * (unat b div 16) + unat b mod 16) = b" by simp
  ultimately show ?thesis by (simp add: hex_byte_def)
qed

lemma from_hex_to_hex [simp]: "from_hex (to_hex bs) = bs"
  by (induction bs) (simp_all add: to_hex_def)

lemma to_hex_Nil [simp]: "to_hex [] = []"
  by (simp add: to_hex_def)

lemma length_to_hex [simp]: "length (to_hex bs) = 2 * length bs"
  by (induction bs) (simp_all add: to_hex_def hex_byte_def)

lemma to_hex_inj: "to_hex xs = to_hex ys \<longleftrightarrow> xs = ys"
  by (metis from_hex_to_hex)

lemma to_hex_append [simp]: "to_hex (xs @ ys) = to_hex xs @ to_hex ys"
  by (simp add: to_hex_def)

lemma take_to_hex: "take (2 * n) (to_hex bs) = to_hex (take n bs)"
proof (induction bs arbitrary: n)
  case (Cons b bs)
  then show ?case
    by (cases n) (simp_all add: to_hex_def hex_byte_def)
qed (simp add: to_hex_def)

section \<open>Base64 strings\<close>

text \<open>The value of one character, in the standard or the URL-safe alphabet.\<close>

definition base64_value :: "char \<Rightarrow> nat option" where
  "base64_value c =
     (let n = of_char c :: nat in
      if 65 \<le> n \<and> n \<le> 90 then Some (n - 65)
      else if 97 \<le> n \<and> n \<le> 122 then Some (n - 71)
      else if 48 \<le> n \<and> n \<le> 57 then Some (n + 4)
      else if n = 43 \<or> n = 45 then Some 62
      else if n = 47 \<or> n = 95 then Some 63
      else None)"

fun sextets_bytes :: "nat list \<Rightarrow> bytes" where
  "sextets_bytes (a # b # c # d # rest) =
     of_nat (4 * a + b div 16) # of_nat (16 * (b mod 16) + c div 4) # of_nat (64 * (c mod 4) + d)
       # sextets_bytes rest"
| "sextets_bytes [a, b, c] = [of_nat (4 * a + b div 16), of_nat (16 * (b mod 16) + c div 4)]"
| "sextets_bytes [a, b] = [of_nat (4 * a + b div 16)]"
| "sextets_bytes _ = []"

text \<open>\<open>Buffer.from(s, "base64")\<close>: characters outside the alphabet are skipped, and decoding stops at
  the padding.\<close>

definition from_base64 :: "string \<Rightarrow> bytes" where
  "from_base64 s = sextets_bytes (List.map_filter base64_value (takeWhile (\<lambda>c. c \<noteq> CHR ''='') s))"

text \<open>\<open>buffer.toString("base64")\<close>, with padding.\<close>

definition base64_char :: "nat \<Rightarrow> char" where
  "base64_char n = char_of (if n < 26 then n + 65 else if n < 52 then n + 71 else if n < 62 then n - 4
     else if n = 62 then 43 else 47)"

fun to_base64 :: "bytes \<Rightarrow> string" where
  "to_base64 (x # y # z # rest) =
     base64_char (unat x div 4) # base64_char (16 * (unat x mod 4) + unat y div 16)
       # base64_char (4 * (unat y mod 16) + unat z div 64) # base64_char (unat z mod 64) # to_base64 rest"
| "to_base64 [x, y] =
     [base64_char (unat x div 4), base64_char (16 * (unat x mod 4) + unat y div 16), base64_char (4 * (unat y mod 16)), CHR ''='']"
| "to_base64 [x] = [base64_char (unat x div 4), base64_char (16 * (unat x mod 4)), CHR ''='', CHR ''='']"
| "to_base64 [] = []"

lemma base64_value_char [simp]: "n < 64 \<Longrightarrow> base64_value (base64_char n) = Some n"
  by (auto simp: base64_value_def base64_char_def Let_def)

lemma base64_char_pad [simp]: "n < 64 \<Longrightarrow> base64_char n \<noteq> CHR ''=''"
  using base64_value_char [of n] by (auto simp: base64_value_def)

lemma byte_div: "x < 256 \<Longrightarrow> x div 4 < (64 :: nat)" "x < 256 \<Longrightarrow> x div 16 < (16 :: nat)" "x < 256 \<Longrightarrow> x div 64 < (4 :: nat)"
  by (simp_all add: less_mult_imp_div_less)

lemma base64_sextets:
  "x < 256 \<Longrightarrow> x div 4 < (64 :: nat)" "y < 256 \<Longrightarrow> 16 * (x mod 4) + y div 16 < (64 :: nat)" "16 * (x mod 4) < (64 :: nat)"
  "z < 256 \<Longrightarrow> 4 * (y mod 16) + z div 64 < (64 :: nat)" "4 * (y mod 16) < (64 :: nat)" "z mod 64 < (64 :: nat)"
  using byte_div [of x] byte_div [of y] byte_div [of z] mod_less_divisor [of 4 x] mod_less_divisor [of 16 y] by auto

lemma sextet_split: "y < 256 \<Longrightarrow> (16 * a + y div 16) div 16 = (a :: nat)" "y < 256 \<Longrightarrow> (16 * a + y div 16) mod 16 = y div 16"
  "z < 256 \<Longrightarrow> (4 * b + z div 64) div 4 = (b :: nat)" "z < 256 \<Longrightarrow> (4 * b + z div 64) mod 4 = z div 64"
  using byte_div by simp_all

lemma byte_of_sextets:
  "y < 256 \<Longrightarrow> 4 * (x div 4) + (16 * (x mod 4) + y div 16) div 16 = (x :: nat)"
  "y < 256 \<Longrightarrow> z < 256 \<Longrightarrow> 16 * ((16 * (x mod 4) + y div 16) mod 16) + (4 * (y mod 16) + z div 64) div 4 = (y :: nat)"
  "z < 256 \<Longrightarrow> 64 * ((4 * (y mod 16) + z div 64) mod 4) + z mod 64 = (z :: nat)"
  "y < 256 \<Longrightarrow> 16 * ((16 * (x mod 4) + y div 16) mod 16) + (4 * (y mod 16)) div 4 = (y :: nat)"
  "4 * (x div 4) + (16 * (x mod 4)) div 16 = (x :: nat)"
  by (simp_all add: sextet_split)

lemma base64_value_chars:
  "base64_value (base64_char (unat (x :: byte) div 4)) = Some (unat x div 4)"
  "base64_value (base64_char (16 * (n mod 4) + unat (y :: byte) div 16)) = Some (16 * (n mod 4) + unat y div 16)"
  "base64_value (base64_char (4 * (n mod 16) + unat (z :: byte) div 64)) = Some (4 * (n mod 16) + unat z div 64)"
  "base64_value (base64_char (n mod 64)) = Some (n mod 64)"
  "base64_value (base64_char (16 * (n mod 4))) = Some (16 * (n mod 4))"
  "base64_value (base64_char (4 * (n mod 16))) = Some (4 * (n mod 16))"
  by (simp_all add: base64_sextets unat_byte_less)

lemma base64_chars_pad:
  "base64_char (unat (x :: byte) div 4) \<noteq> CHR ''=''"
  "base64_char (16 * (n mod 4) + unat (y :: byte) div 16) \<noteq> CHR ''=''"
  "base64_char (4 * (n mod 16) + unat (z :: byte) div 64) \<noteq> CHR ''=''"
  "base64_char (n mod 64) \<noteq> CHR ''=''"
  "base64_char (16 * (n mod 4)) \<noteq> CHR ''=''"
  "base64_char (4 * (n mod 16)) \<noteq> CHR ''=''"
  by (simp_all add: base64_sextets unat_byte_less)

lemma from_base64_to_base64 [simp]: "from_base64 (to_base64 bs) = bs"
proof (induction bs rule: to_base64.induct)
  case (1 x y z rest)
  then show ?case
    unfolding from_base64_def to_base64.simps
    by (simp only: takeWhile.simps base64_chars_pad if_True not_False_eq_True simp_thms List.map_filter_simps base64_value_chars
        option.case sextets_bytes.simps byte_of_sextets unat_byte_less of_nat_unat ucast_id)
qed (simp_all only: from_base64_def to_base64.simps takeWhile.simps base64_chars_pad if_True if_False not_False_eq_True simp_thms
    List.map_filter_simps base64_value_chars option.case sextets_bytes.simps byte_of_sextets unat_byte_less of_nat_unat ucast_id)

section \<open>Association lists\<close>

lemma map_of_rev_distinct: "distinct (map fst xs) \<Longrightarrow> map_of (rev xs) = map_of xs"
  by (simp add: map_of_inject_set rev_map [symmetric])

section \<open>Strings\<close>

text \<open>\<open>Buffer.from(s)\<close> of a string of ASCII characters.\<close>

definition ascii :: "string \<Rightarrow> bytes" where
  "ascii s = map of_char s"

definition starts_with :: "string \<Rightarrow> string \<Rightarrow> bool" where
  "starts_with p s = (take (length p) s = p)"

lemma starts_with_append [simp]: "starts_with p (p @ s)"
  by (simp add: starts_with_def)

lemma starts_withD: "starts_with p s \<Longrightarrow> s = p @ drop (length p) s"
  by (metis append_take_drop_id starts_with_def)

text \<open>\<open>s.replace(p, "")\<close> for a string \<open>p\<close>: the first occurrence is removed.\<close>

fun remove_first :: "string \<Rightarrow> string \<Rightarrow> string" where
  "remove_first p [] = []"
| "remove_first p (ch # s) = (if starts_with p (ch # s) then drop (length p) (ch # s) else ch # remove_first p s)"

text \<open>\<open>toString()\<close> of a natural number.\<close>

fun decimal :: "nat \<Rightarrow> string" where
  "decimal n = (if n < 10 then [char_of (48 + n)] else decimal (n div 10) @ [char_of (48 + n mod 10)])"

declare decimal.simps [simp del]

end
