(* ===== verification/Buffer_Layout.thy ===== *)
theory Buffer_Layout
  imports Js_Prelude
begin

text \<open>
  Byte layouts. The classes \<open>UIntBE\<close> and \<open>HexBytes\<close> of
  \<open>governance_payload/BufferLayoutExt.ts\<close> are layouts of this program; the packages
  \<open>@solana/buffer-layout\<close> and \<open>bigint-buffer\<close> are third-party code. What the program takes
  from them is the record \<^typ>\<open>'pk\<close>-free parameter \<open>L :: buffer_layout_lib\<close>, and the locale
  \<open>buffer_layout\<close> states the documented behaviour the program relies on. The last section
  shows that the contract can be met, by an instance written from the documentation.

  \<open>lays_out l v bs\<close> says that layout \<open>l\<close> writes the value \<open>v\<close> as the bytes \<open>bs\<close> at any
  offset of any buffer, and reads it back; it composes over structures and sequences.
\<close>

section \<open>Values and layouts\<close>

datatype jsval =
    JUndefined
  | JNum int
  | JBig int
  | JStr string
  | JBytes bytes
  | JArr "jsval list"
  | JObj "(string \<times> jsval) list"

text \<open>The members of a \<open>Layout\<close>. Encoding returns the updated buffer and the number of bytes
  written; a negative span marks a layout of variable length.\<close>

record layout =
  l_span :: int
  l_property :: "string option"
  l_decode :: "bytes \<Rightarrow> nat \<Rightarrow> jsval result"
  l_encode :: "jsval \<Rightarrow> bytes \<Rightarrow> nat \<Rightarrow> (bytes \<times> nat) result"
  l_getSpan :: "bytes \<Rightarrow> nat \<Rightarrow> int result"

record buffer_layout_lib =
  bl_u8 :: "string option \<Rightarrow> layout"
  bl_u16 :: "string option \<Rightarrow> layout"
  bl_u16be :: "string option \<Rightarrow> layout"
  bl_u32 :: "string option \<Rightarrow> layout"
  bl_u32be :: "string option \<Rightarrow> layout"
  bl_blob :: "nat \<Rightarrow> string option \<Rightarrow> layout"
  bl_greedy_blob :: "string option \<Rightarrow> layout"
  bl_struct :: "layout list \<Rightarrow> string option \<Rightarrow> layout"
  bl_seq :: "layout \<Rightarrow> nat \<Rightarrow> string option \<Rightarrow> layout"
  bl_getSpan :: "int \<Rightarrow> int result"
  bi_toBigIntBE :: "bytes \<Rightarrow> int"
  bi_toBufferBE :: "int \<Rightarrow> nat \<Rightarrow> bytes"

text \<open>Reading the members of a decoded object.\<close>

definition js_get :: "jsval \<Rightarrow> string \<Rightarrow> jsval" where
  "js_get v k =
     (case v of JObj kvs \<Rightarrow> (case map_of kvs k of Some x \<Rightarrow> x | None \<Rightarrow> JUndefined)
      | _ \<Rightarrow> JUndefined)"

fun as_int :: "jsval \<Rightarrow> int" where
  "as_int (JNum n) = n"
| "as_int (JBig n) = n"
| "as_int _ = 0"

fun as_str :: "jsval \<Rightarrow> string" where
  "as_str (JStr s) = s"
| "as_str _ = []"

fun as_bytes :: "jsval \<Rightarrow> bytes" where
  "as_bytes (JBytes b) = b"
| "as_bytes _ = []"

fun as_list :: "jsval \<Rightarrow> jsval list" where
  "as_list (JArr xs) = xs"
| "as_list _ = []"

section \<open>Layouts of the program: \<open>BufferLayoutExt.ts\<close>\<close>

definition UIntBE :: "buffer_layout_lib \<Rightarrow> nat \<Rightarrow> string option \<Rightarrow> layout" where
  "UIntBE L span property =
     \<lparr> l_span = int span,
       l_property = property,
       l_decode = (\<lambda>b offs. Inr (JBig (bi_toBigIntBE L (subarray b offs (offs + span))))),
       l_encode = (\<lambda>src b offs.
         case src of
           JBig n \<Rightarrow> bindR (buf_set b (bi_toBufferBE L n span) offs) (\<lambda>b'. Inr (b', span))
         | _ \<Rightarrow> Inl TypeError),
       l_getSpan = (\<lambda>b offs. bl_getSpan L (int span)) \<rparr>"

text \<open>\<open>Buffer.alloc(n)\<close> followed by \<open>buffer.write(src, "hex")\<close>: as many decoded bytes as fit,
  over zeros.\<close>

definition alloc_write_hex :: "nat \<Rightarrow> string \<Rightarrow> bytes" where
  "alloc_write_hex n src =
     (let w = take n (from_hex src) in w @ replicate (n - length w) 0)"

definition HexBytes :: "buffer_layout_lib \<Rightarrow> nat \<Rightarrow> string option \<Rightarrow> layout" where
  "HexBytes L span property =
     \<lparr> l_span = int span,
       l_property = property,
       l_decode = (\<lambda>b offs. Inr (JStr (to_hex (subarray b offs (offs + span))))),
       l_encode = (\<lambda>src b offs.
         case src of
           JStr s \<Rightarrow> bindR (buf_set b (alloc_write_hex span s) offs) (\<lambda>b'. Inr (b', span))
         | _ \<Rightarrow> Inl TypeError),
       l_getSpan = (\<lambda>b offs. bl_getSpan L (int span)) \<rparr>"

definition u64be :: "buffer_layout_lib \<Rightarrow> string option \<Rightarrow> layout" where
  "u64be L property = UIntBE L 8 property"

definition u256be :: "buffer_layout_lib \<Rightarrow> string option \<Rightarrow> layout" where
  "u256be L property = UIntBE L 32 property"

definition hexBytes :: "buffer_layout_lib \<Rightarrow> nat \<Rightarrow> string option \<Rightarrow> layout" where
  "hexBytes L numBytes property = HexBytes L numBytes property"

section \<open>What structures and sequences do\<close>

text \<open>The documented traversals: each field is read or written at the offset where the previous
  one ended.\<close>

fun decode_fields :: "layout list \<Rightarrow> bytes \<Rightarrow> nat \<Rightarrow> (string \<times> jsval) list result" where
  "decode_fields [] b offs = Inr []"
| "decode_fields (f # fs) b offs =
     bindR (l_decode f b offs) (\<lambda>v.
     bindR (l_getSpan f b offs) (\<lambda>s.
     bindR (decode_fields fs b (offs + nat s)) (\<lambda>kvs.
       Inr ((case l_property f of Some k \<Rightarrow> (k, v) # kvs | None \<Rightarrow> kvs)))))"

fun encode_fields :: "(layout \<times> jsval) list \<Rightarrow> bytes \<Rightarrow> nat \<Rightarrow> nat \<Rightarrow> (bytes \<times> nat) result" where
  "encode_fields [] b offs fin = Inr (b, fin)"
| "encode_fields ((f, v) # fvs) b offs fin =
     bindR (l_encode f v b offs) (\<lambda>(b', w).
     bindR (if l_span f < 0 then l_getSpan f b' offs else Inr (l_span f)) (\<lambda>s.
       encode_fields fvs b' (offs + nat s) (offs + w)))"

fun fields_span :: "layout list \<Rightarrow> bytes \<Rightarrow> nat \<Rightarrow> int result" where
  "fields_span [] b offs = Inr 0"
| "fields_span (f # fs) b offs =
     bindR (l_getSpan f b offs) (\<lambda>s.
     bindR (fields_span fs b (offs + nat s)) (\<lambda>r. Inr (s + r)))"

fun decode_seq :: "layout \<Rightarrow> nat \<Rightarrow> bytes \<Rightarrow> nat \<Rightarrow> jsval list result" where
  "decode_seq e 0 b offs = Inr []"
| "decode_seq e (Suc n) b offs =
     bindR (l_decode e b offs) (\<lambda>v.
     bindR (l_getSpan e b offs) (\<lambda>s.
     bindR (decode_seq e n b (offs + nat s)) (\<lambda>vs. Inr (v # vs))))"

fun encode_seq :: "layout \<Rightarrow> jsval list \<Rightarrow> bytes \<Rightarrow> nat \<Rightarrow> (bytes \<times> nat) result" where
  "encode_seq e [] b offs = Inr (b, 0)"
| "encode_seq e (v # vs) b offs =
     bindR (l_encode e v b offs) (\<lambda>(b', w).
     bindR (encode_seq e vs b' (offs + w)) (\<lambda>(b'', w'). Inr (b'', w + w')))"

definition sum_spans :: "layout list \<Rightarrow> int" where
  "sum_spans fs = (if (\<exists>f \<in> set fs. l_span f < 0) then -1 else sum_list (map l_span fs))"

section \<open>Composable codecs\<close>

definition lays_out :: "layout \<Rightarrow> jsval \<Rightarrow> bytes \<Rightarrow> bool" where
  "lays_out l v bs \<longleftrightarrow>
     (\<forall>pre mid post. length mid = length bs \<longrightarrow>
        l_encode l v (pre @ mid @ post) (length pre) = Inr (pre @ bs @ post, length bs)) \<and>
     (\<forall>pre post. l_decode l (pre @ bs @ post) (length pre) = Inr v) \<and>
     (\<forall>pre post. l_getSpan l (pre @ bs @ post) (length pre) = Inr (int (length bs))) \<and>
     (0 \<le> l_span l \<longrightarrow> l_span l = int (length bs))"

lemma lays_outI:
  assumes "\<And>pre mid post. length mid = length bs \<Longrightarrow>
      l_encode l v (pre @ mid @ post) (length pre) = Inr (pre @ bs @ post, length bs)"
    and "\<And>pre post. l_decode l (pre @ bs @ post) (length pre) = Inr v"
    and "\<And>pre post. l_getSpan l (pre @ bs @ post) (length pre) = Inr (int (length bs))"
    and "0 \<le> l_span l \<Longrightarrow> l_span l = int (length bs)"
  shows "lays_out l v bs"
  using assms by (simp add: lays_out_def)

lemma lays_out_encode:
  "lays_out l v bs \<Longrightarrow> length mid = length bs \<Longrightarrow> offs = length pre \<Longrightarrow>
   l_encode l v (pre @ mid @ post) offs = Inr (pre @ bs @ post, length bs)"
  by (simp add: lays_out_def)

lemma lays_out_decode:
  "lays_out l v bs \<Longrightarrow> offs = length pre \<Longrightarrow> l_decode l (pre @ bs @ post) offs = Inr v"
  by (simp add: lays_out_def)

lemma lays_out_getSpan:
  "lays_out l v bs \<Longrightarrow> offs = length pre \<Longrightarrow>
   l_getSpan l (pre @ bs @ post) offs = Inr (int (length bs))"
  by (simp add: lays_out_def)

lemma lays_out_span: "lays_out l v bs \<Longrightarrow> 0 \<le> l_span l \<Longrightarrow> l_span l = int (length bs)"
  by (simp add: lays_out_def)

text \<open>A row is the field, its value and its bytes.\<close>

type_synonym row = "layout \<times> jsval \<times> bytes"

fun row_bytes :: "row list \<Rightarrow> bytes" where
  "row_bytes [] = []"
| "row_bytes ((f, v, bs) # rs) = bs @ row_bytes rs"

definition rows_ok :: "row list \<Rightarrow> bool" where
  "rows_ok rs \<longleftrightarrow> list_all (\<lambda>(f, v, bs). lays_out f v bs \<and> l_property f \<noteq> None) rs"

definition row_object :: "row list \<Rightarrow> (string \<times> jsval) list" where
  "row_object rs = map (\<lambda>(f, v, bs). (the (l_property f), v)) rs"

lemma rows_ok_simps [simp]:
  "rows_ok []"
  "rows_ok ((f, v, bs) # rs) \<longleftrightarrow> lays_out f v bs \<and> l_property f \<noteq> None \<and> rows_ok rs"
  by (simp_all add: rows_ok_def)

lemma row_object_simps [simp]:
  "row_object [] = []"
  "row_object ((f, v, bs) # rs) = (the (l_property f), v) # row_object rs"
  by (simp_all add: row_object_def)

lemma decode_fields_append:
  "rows_ok rs \<Longrightarrow> offs = length pre \<Longrightarrow>
   decode_fields (map fst rs @ fs) (pre @ row_bytes rs @ post) offs =
     bindR (decode_fields fs (pre @ row_bytes rs @ post) (offs + length (row_bytes rs)))
       (\<lambda>kvs. Inr (row_object rs @ kvs))"
proof (induction rs arbitrary: pre offs)
  case Nil
  then show ?case by (cases "decode_fields fs (pre @ post) offs") simp_all
next
  case (Cons r rs)
  obtain f v bs where r: "r = (f, v, bs)" by (cases r) auto
  from Cons.prems r have ok: "lays_out f v bs" and p: "l_property f \<noteq> None" and "rows_ok rs"
    by auto
  from Cons.IH [OF this(3), of "offs + length bs" "pre @ bs"] Cons.prems(2)
  have "decode_fields (map fst rs @ fs) (pre @ bs @ row_bytes rs @ post) (offs + length bs) =
      bindR (decode_fields fs (pre @ bs @ row_bytes rs @ post) (offs + length bs + length (row_bytes rs)))
        (\<lambda>kvs. Inr (row_object rs @ kvs))" by simp
  with p r Cons.prems(2) show ?case
    by (auto simp: lays_out_decode [OF ok] lays_out_getSpan [OF ok] bindR_assoc add.assoc
        split: option.split)
qed

lemma decode_fields_rows:
  "rows_ok rs \<Longrightarrow> offs = length pre \<Longrightarrow>
   decode_fields (map fst rs) (pre @ row_bytes rs @ post) offs = Inr (row_object rs)"
  using decode_fields_append [of rs offs pre "[]" post] by simp

lemma fields_span_rows:
  "rows_ok rs \<Longrightarrow> offs = length pre \<Longrightarrow>
   fields_span (map fst rs) (pre @ row_bytes rs @ post) offs = Inr (int (length (row_bytes rs)))"
proof (induction rs arbitrary: pre offs)
  case (Cons r rs)
  obtain f v bs where r: "r = (f, v, bs)" by (cases r) auto
  from Cons.prems r have ok: "lays_out f v bs" and "rows_ok rs" by auto
  from Cons.IH [OF this(2), of "offs + length bs" "pre @ bs"] Cons.prems(2)
  have "fields_span (map fst rs) (pre @ bs @ row_bytes rs @ post) (offs + length bs)
      = Inr (int (length (row_bytes rs)))" by simp
  with r Cons.prems(2) show ?case by (simp add: lays_out_getSpan [OF ok])
qed simp

lemma encode_fields_rows:
  "rows_ok rs \<Longrightarrow> length mid = length (row_bytes rs) \<Longrightarrow> offs = length pre \<Longrightarrow>
   encode_fields (map (\<lambda>(f, v, bs). (f, v)) rs) (pre @ mid @ post) offs fin
     = Inr (pre @ row_bytes rs @ post,
            if rs = [] then fin else offs + length (row_bytes rs))"
proof (induction rs arbitrary: pre mid offs fin)
  case (Cons r rs)
  obtain f v bs where r: "r = (f, v, bs)" by (cases r) auto
  from Cons.prems r have ok: "lays_out f v bs" and oks: "rows_ok rs" by auto
  define m1 m2 where "m1 = take (length bs) mid" and "m2 = drop (length bs) mid"
  have mid: "mid = m1 @ m2" and l1: "length m1 = length bs"
    and l2: "length m2 = length (row_bytes rs)"
    using Cons.prems(2) r by (simp_all add: m1_def m2_def)
  have enc: "l_encode f v (pre @ m1 @ m2 @ post) offs = Inr (pre @ bs @ m2 @ post, length bs)"
    using lays_out_encode [OF ok l1 Cons.prems(3), of "m2 @ post"] by simp
  have span: "(if l_span f < 0 then l_getSpan f (pre @ bs @ m2 @ post) offs else Inr (l_span f))
      = Inr (int (length bs))"
    using lays_out_getSpan [OF ok Cons.prems(3), of "m2 @ post"] lays_out_span [OF ok] by auto
  have rest: "encode_fields (map (\<lambda>(f, v, bs). (f, v)) rs) (pre @ bs @ m2 @ post)
      (offs + length bs) (offs + length bs)
      = Inr (pre @ bs @ row_bytes rs @ post,
             if rs = [] then offs + length bs else offs + length bs + length (row_bytes rs))"
    using Cons.IH [OF oks l2, of "offs + length bs" "pre @ bs"] Cons.prems(3) by simp
  show ?case
    using enc span rest by (simp add: r mid)
qed simp

lemma decode_seq_rows:
  "list_all2 (lays_out e) vs bss \<Longrightarrow> offs = length pre \<Longrightarrow>
   decode_seq e (length vs) (pre @ concat bss @ post) offs = Inr vs"
proof (induction vs bss arbitrary: pre offs rule: list_all2_induct)
  case (Cons v vs bs bss)
  from Cons.IH [of "offs + length bs" "pre @ bs"] Cons.prems
  have "decode_seq e (length vs) (pre @ bs @ concat bss @ post) (offs + length bs) = Inr vs"
    by simp
  with Cons show ?case by (simp add: lays_out_decode lays_out_getSpan)
qed simp

lemma encode_seq_rows:
  "list_all2 (lays_out e) vs bss \<Longrightarrow> length mid = length (concat bss) \<Longrightarrow> offs = length pre \<Longrightarrow>
   encode_seq e vs (pre @ mid @ post) offs = Inr (pre @ concat bss @ post, length (concat bss))"
proof (induction vs bss arbitrary: pre mid offs rule: list_all2_induct)
  case (Cons v vs bs bss)
  define m1 m2 where "m1 = take (length bs) mid" and "m2 = drop (length bs) mid"
  have mid: "mid = m1 @ m2" and l1: "length m1 = length bs" and l2: "length m2 = length (concat bss)"
    using Cons.prems(1) by (simp_all add: m1_def m2_def)
  have "l_encode e v (pre @ m1 @ m2 @ post) offs = Inr (pre @ bs @ m2 @ post, length bs)"
    using lays_out_encode [OF Cons.hyps(1) l1 Cons.prems(2), of "m2 @ post"] by simp
  moreover have "encode_seq e vs (pre @ bs @ m2 @ post) (offs + length bs)
      = Inr (pre @ bs @ concat bss @ post, length (concat bss))"
    using Cons.IH [OF l2, of "offs + length bs" "pre @ bs"] Cons.prems(2) by simp
  ultimately show ?case by (simp add: mid)
qed simp

lemma fields_span_seq:
  "list_all2 (lays_out e) vs bss \<Longrightarrow> offs = length pre \<Longrightarrow>
   fields_span (replicate (length vs) e) (pre @ concat bss @ post) offs = Inr (int (length (concat bss)))"
proof (induction vs bss arbitrary: pre offs rule: list_all2_induct)
  case (Cons v vs bs bss)
  from Cons.IH [of "offs + length bs" "pre @ bs"] Cons.prems
  have "fields_span (replicate (length vs) e) (pre @ bs @ concat bss @ post) (offs + length bs)
      = Inr (int (length (concat bss)))" by simp
  with Cons show ?case by (simp add: lays_out_getSpan)
qed simp

section \<open>The contract of the layout packages\<close>

locale buffer_layout =
  fixes L :: buffer_layout_lib
  assumes u8: "n < 256 \<Longrightarrow> lays_out (bl_u8 L p) (JNum (int n)) [of_nat n]"
    and u16: "n < 65536 \<Longrightarrow> lays_out (bl_u16 L p) (JNum (int n)) (le_bytes 2 n)"
    and u16be: "n < 65536 \<Longrightarrow> lays_out (bl_u16be L p) (JNum (int n)) (be_bytes 2 n)"
    and u32: "n < 4294967296 \<Longrightarrow> lays_out (bl_u32 L p) (JNum (int n)) (le_bytes 4 n)"
    and u32be: "n < 4294967296 \<Longrightarrow> lays_out (bl_u32be L p) (JNum (int n)) (be_bytes 4 n)"
    and u8_short: "length b < offs + 1 \<Longrightarrow> l_decode (bl_u8 L p) b offs = Inl RangeError"
    and u16be_short: "length b < offs + 2 \<Longrightarrow> l_decode (bl_u16be L p) b offs = Inl RangeError"
    and u32_short: "length b < offs + 4 \<Longrightarrow> l_decode (bl_u32 L p) b offs = Inl RangeError"
    and u32be_short: "length b < offs + 4 \<Longrightarrow> l_decode (bl_u32be L p) b offs = Inl RangeError"
    and u8_encode_range: "i < 0 \<or> 256 \<le> i \<Longrightarrow> l_encode (bl_u8 L p) (JNum i) b offs = Inl RangeError"
    and uint_spans: "l_span (bl_u8 L p) = 1" "l_span (bl_u16 L p) = 2" "l_span (bl_u16be L p) = 2"
      "l_span (bl_u32 L p) = 4" "l_span (bl_u32be L p) = 4"
    and uint_properties: "l_property (bl_u8 L p) = p" "l_property (bl_u16 L p) = p"
      "l_property (bl_u16be L p) = p" "l_property (bl_u32 L p) = p" "l_property (bl_u32be L p) = p"
    and blob: "length bs = n \<Longrightarrow> lays_out (bl_blob L n p) (JBytes bs) bs"
    and blob_span: "l_span (bl_blob L n p) = int n"
    and blob_property: "l_property (bl_blob L n p) = p"
    and greedy_decode: "offs \<le> length b \<Longrightarrow> l_decode (bl_greedy_blob L p) b offs = Inr (JBytes (drop offs b))"
    and greedy_getSpan: "offs \<le> length b \<Longrightarrow> l_getSpan (bl_greedy_blob L p) b offs = Inr (int (length b - offs))"
    and greedy_span: "l_span (bl_greedy_blob L p) = -1"
    and greedy_property: "l_property (bl_greedy_blob L p) = p"
    and struct_decode: "l_decode (bl_struct L fs p) b offs = bindR (decode_fields fs b offs) (\<lambda>kvs. Inr (JObj kvs))"
    and struct_encode: "fvs \<noteq> [] \<Longrightarrow>
      list_all (\<lambda>(f, v). \<exists>k. l_property f = Some k \<and> map_of obj k = Some v) fvs \<Longrightarrow>
      l_encode (bl_struct L (map fst fvs) p) (JObj obj) b offs =
        bindR (encode_fields fvs b offs offs) (\<lambda>(b', fin). Inr (b', fin - offs))"
    and struct_span: "l_span (bl_struct L fs p) = sum_spans fs"
    and struct_getSpan: "l_getSpan (bl_struct L fs p) b offs =
      (if 0 \<le> sum_spans fs then Inr (sum_spans fs) else fields_span fs b offs)"
    and struct_property: "l_property (bl_struct L fs p) = p"
    and seq_decode: "l_decode (bl_seq L e n p) b offs = bindR (decode_seq e n b offs) (\<lambda>vs. Inr (JArr vs))"
    and seq_encode: "l_encode (bl_seq L e n p) (JArr vs) b offs = encode_seq e vs b offs"
    and seq_span: "l_span (bl_seq L e n p) = (if 0 \<le> l_span e then int n * l_span e else -1)"
    and seq_getSpan: "0 \<le> l_span e \<Longrightarrow> l_getSpan (bl_seq L e n p) b offs = Inr (int n * l_span e)"
    and seq_getSpan_variable: "l_span e < 0 \<Longrightarrow>
      l_getSpan (bl_seq L e n p) b offs = fields_span (replicate n e) b offs"
    and seq_property: "l_property (bl_seq L e n p) = p"
    and getSpan: "0 \<le> s \<Longrightarrow> bl_getSpan L s = Inr s"
    and toBigIntBE: "bi_toBigIntBE L bs = int (be_nat bs)"
    and toBufferBE: "n < 256 ^ w \<Longrightarrow> bi_toBufferBE L (int n) w = be_bytes w n"
begin

lemmas properties =
  uint_properties blob_property greedy_property struct_property seq_property

lemma UIntBE_ok:
  assumes "n < 256 ^ w"
  shows "lays_out (UIntBE L w p) (JBig (int n)) (be_bytes w n)"
  by (rule lays_outI)
    (simp_all add: UIntBE_def toBufferBE [OF assms] toBigIntBE getSpan buf_set_def subarray_def assms)

lemma u64be_ok: "n < 2 ^ 64 \<Longrightarrow> lays_out (u64be L p) (JBig (int n)) (be_bytes 8 n)"
  unfolding u64be_def by (rule UIntBE_ok) simp

lemma u256be_ok: "n < 2 ^ 256 \<Longrightarrow> lays_out (u256be L p) (JBig (int n)) (be_bytes 32 n)"
  unfolding u256be_def by (rule UIntBE_ok) simp

lemma hexBytes_ok:
  "length bs = w \<Longrightarrow> lays_out (hexBytes L w p) (JStr (to_hex bs)) bs"
  unfolding hexBytes_def
  by (rule lays_outI)
    (simp_all add: HexBytes_def alloc_write_hex_def getSpan buf_set_def subarray_def)

lemma struct_ok:
  assumes ok: "rows_ok rs" and ne: "rs \<noteq> []" and dist: "distinct (map fst (row_object rs))"
  shows "lays_out (bl_struct L (map fst rs) p) (JObj (row_object rs)) (row_bytes rs)"
proof (rule lays_outI)
  fix pre mid post :: bytes
  assume len: "length mid = length (row_bytes rs)"
  let ?fvs = "map (\<lambda>(f, v, bs). (f, v)) rs"
  have found: "list_all (\<lambda>(f, v). \<exists>k. l_property f = Some k \<and> map_of (row_object rs) k = Some v) ?fvs"
    using ok dist by (auto simp: list_all_iff rows_ok_def row_object_def
        intro!: map_of_is_SomeI)
      (force simp: image_iff)
  have same: "map fst ?fvs = map fst rs" by (simp add: case_prod_beta)
  have "l_encode (bl_struct L (map fst ?fvs) p) (JObj (row_object rs)) (pre @ mid @ post) (length pre)
      = Inr (pre @ row_bytes rs @ post, length (row_bytes rs))"
    using struct_encode [OF _ found, of p "pre @ mid @ post" "length pre"] ne
    by (simp add: encode_fields_rows [OF ok len] del: map_map)
  then show "l_encode (bl_struct L (map fst rs) p) (JObj (row_object rs)) (pre @ mid @ post)
      (length pre) = Inr (pre @ row_bytes rs @ post, length (row_bytes rs))"
    by (simp only: same)
next
  fix pre post :: bytes
  show "l_decode (bl_struct L (map fst rs) p) (pre @ row_bytes rs @ post) (length pre)
      = Inr (JObj (row_object rs))"
    by (simp add: struct_decode decode_fields_rows [OF ok])
next
  have sum: "0 \<le> sum_spans (map fst rs) \<Longrightarrow> sum_spans (map fst rs) = int (length (row_bytes rs))"
  proof -
    assume "0 \<le> sum_spans (map fst rs)"
    then have nn: "\<forall>r \<in> set rs. 0 \<le> l_span (fst r)" by (force simp: sum_spans_def split: if_splits)
    then have "sum_list (map l_span (map fst rs)) = int (length (row_bytes rs))"
      using ok by (induction rs rule: row_bytes.induct) (auto simp: lays_out_span)
    then show ?thesis using nn by (force simp: sum_spans_def)
  qed
  show "0 \<le> l_span (bl_struct L (map fst rs) p) \<Longrightarrow>
      l_span (bl_struct L (map fst rs) p) = int (length (row_bytes rs))"
    using sum by (simp add: struct_span)
  show "l_getSpan (bl_struct L (map fst rs) p) (pre @ row_bytes rs @ post) (length pre)
      = Inr (int (length (row_bytes rs)))" for pre post
    using sum by (simp add: struct_getSpan fields_span_rows [OF ok])
qed

lemma seq_ok:
  assumes "list_all2 (lays_out e) vs bss" "n = length vs"
  shows "lays_out (bl_seq L e n p) (JArr vs) (concat bss)"
proof (rule lays_outI)
  have len: "int (length (concat bss)) = int n * l_span e" if "0 \<le> l_span e"
    using assms(1) that unfolding assms(2)
    by (induction vs bss rule: list_all2_induct) (auto simp: lays_out_span algebra_simps)
  show "l_getSpan (bl_seq L e n p) (pre @ concat bss @ post) (length pre)
      = Inr (int (length (concat bss)))" for pre post
  proof (cases "0 \<le> l_span e")
    case True
    then show ?thesis by (simp add: seq_getSpan len)
  next
    case False
    then show ?thesis
      by (simp add: seq_getSpan_variable assms(2) fields_span_seq [OF assms(1)])
  qed
  show "0 \<le> l_span (bl_seq L e n p) \<Longrightarrow> l_span (bl_seq L e n p) = int (length (concat bss))"
    using len by (simp add: seq_span split: if_splits)
qed (simp_all add: seq_decode seq_encode decode_seq_rows [OF assms(1)] encode_seq_rows [OF assms(1)]
      assms(2))

end

section \<open>An instance of the contract\<close>

text \<open>The packages as their documentation describes them. It serves as the concrete library of
  the witnesses, and shows that the laws above are consistent.\<close>

definition doc_uint :: "nat \<Rightarrow> (nat \<Rightarrow> nat \<Rightarrow> bytes) \<Rightarrow> (bytes \<Rightarrow> nat) \<Rightarrow> string option \<Rightarrow> layout" where
  "doc_uint w wr rd p =
     \<lparr> l_span = int w, l_property = p,
       l_decode = (\<lambda>b offs. if offs + w \<le> length b
         then Inr (JNum (int (rd (subarray b offs (offs + w))))) else Inl RangeError),
       l_encode = (\<lambda>v b offs. case v of
           JNum i \<Rightarrow> if 0 \<le> i \<and> i < 256 ^ w
             then bindR (buf_set b (wr w (nat i)) offs) (\<lambda>b'. Inr (b', w)) else Inl RangeError
         | _ \<Rightarrow> Inl TypeError),
       l_getSpan = (\<lambda>b offs. Inr (int w)) \<rparr>"

definition doc_blob :: "nat \<Rightarrow> string option \<Rightarrow> layout" where
  "doc_blob n p =
     \<lparr> l_span = int n, l_property = p,
       l_decode = (\<lambda>b offs. Inr (JBytes (subarray b offs (offs + n)))),
       l_encode = (\<lambda>v b offs. case v of
           JBytes bs \<Rightarrow> if length bs = n
             then bindR (buf_set b bs offs) (\<lambda>b'. Inr (b', n)) else Inl TypeError
         | _ \<Rightarrow> Inl TypeError),
       l_getSpan = (\<lambda>b offs. Inr (int n)) \<rparr>"

definition doc_greedy_blob :: "string option \<Rightarrow> layout" where
  "doc_greedy_blob p =
     \<lparr> l_span = -1, l_property = p,
       l_decode = (\<lambda>b offs. if offs \<le> length b then Inr (JBytes (drop offs b)) else Inl RangeError),
       l_encode = (\<lambda>v b offs. case v of
           JBytes bs \<Rightarrow> bindR (buf_set b bs offs) (\<lambda>b'. Inr (b', length bs)) | _ \<Rightarrow> Inl TypeError),
       l_getSpan = (\<lambda>b offs. if offs \<le> length b then Inr (int (length b - offs)) else Inl RangeError) \<rparr>"

definition doc_pick :: "(string \<times> jsval) list \<Rightarrow> layout \<Rightarrow> (layout \<times> jsval) option" where
  "doc_pick obj f = (case l_property f of None \<Rightarrow> None
     | Some k \<Rightarrow> (case map_of obj k of None \<Rightarrow> None | Some v \<Rightarrow> Some (f, v)))"

definition doc_struct :: "layout list \<Rightarrow> string option \<Rightarrow> layout" where
  "doc_struct fs p =
     \<lparr> l_span = sum_spans fs, l_property = p,
       l_decode = (\<lambda>b offs. bindR (decode_fields fs b offs) (\<lambda>kvs. Inr (JObj kvs))),
       l_encode = (\<lambda>v b offs. case v of
           JObj obj \<Rightarrow> bindR (encode_fields (List.map_filter (doc_pick obj) fs) b offs offs)
             (\<lambda>(b', fin). Inr (b', fin - offs))
         | _ \<Rightarrow> Inl TypeError),
       l_getSpan = (\<lambda>b offs.
         if 0 \<le> sum_spans fs then Inr (sum_spans fs) else fields_span fs b offs) \<rparr>"

definition doc_seq :: "layout \<Rightarrow> nat \<Rightarrow> string option \<Rightarrow> layout" where
  "doc_seq e n p =
     \<lparr> l_span = (if 0 \<le> l_span e then int n * l_span e else -1), l_property = p,
       l_decode = (\<lambda>b offs. bindR (decode_seq e n b offs) (\<lambda>vs. Inr (JArr vs))),
       l_encode = (\<lambda>v b offs. case v of JArr vs \<Rightarrow> encode_seq e vs b offs | _ \<Rightarrow> Inl TypeError),
       l_getSpan = (\<lambda>b offs. if 0 \<le> l_span e then Inr (int n * l_span e)
         else fields_span (replicate n e) b offs) \<rparr>"

definition doc_lib :: buffer_layout_lib where
  "doc_lib =
     \<lparr> bl_u8 = doc_uint 1 le_bytes le_nat, bl_u16 = doc_uint 2 le_bytes le_nat,
       bl_u16be = doc_uint 2 be_bytes be_nat,
       bl_u32 = doc_uint 4 le_bytes le_nat, bl_u32be = doc_uint 4 be_bytes be_nat,
       bl_blob = doc_blob, bl_greedy_blob = doc_greedy_blob,
       bl_struct = doc_struct, bl_seq = doc_seq,
       bl_getSpan = (\<lambda>s. if 0 \<le> s then Inr s else Inl RangeError),
       bi_toBigIntBE = (\<lambda>bs. int (be_nat bs)), bi_toBufferBE = (\<lambda>n w. be_bytes w (nat n)) \<rparr>"

lemma doc_uint_ok:
  assumes "n < 256 ^ w" "\<And>m. length (wr w m) = w" "rd (wr w n) = n"
  shows "lays_out (doc_uint w wr rd p) (JNum (int n)) (wr w n)"
proof -
  have "int n < 256 ^ w" using assms(1) by (metis of_nat_less_iff of_nat_numeral of_nat_power)
  then show ?thesis
    by (intro lays_outI) (simp_all add: doc_uint_def buf_set_def subarray_def assms(2,3))
qed

lemma doc_pick_all:
  "list_all (\<lambda>(f, v). \<exists>k. l_property f = Some k \<and> map_of obj k = Some v) fvs \<Longrightarrow>
   List.map_filter (doc_pick obj) (map fst fvs) = fvs"
  by (induction fvs) (auto simp: doc_pick_def)

lemmas doc_defs = doc_lib_def doc_uint_def doc_blob_def doc_greedy_blob_def doc_struct_def doc_seq_def

interpretation doc: buffer_layout doc_lib
proof
  have u1: "lays_out (doc_uint 1 le_bytes le_nat p) (JNum (int n)) (le_bytes 1 n)" if "n < 256" for p n
    by (rule doc_uint_ok) (use that in simp_all)
  show "n < 256 \<Longrightarrow> lays_out (bl_u8 doc_lib p) (JNum (int n)) [of_nat n]" for n p
    using u1 [of n p] by (simp add: doc_lib_def)
  show "n < 65536 \<Longrightarrow> lays_out (bl_u16 doc_lib p) (JNum (int n)) (le_bytes 2 n)" for n p
    by (simp add: doc_lib_def doc_uint_ok)
  show "n < 65536 \<Longrightarrow> lays_out (bl_u16be doc_lib p) (JNum (int n)) (be_bytes 2 n)" for n p
    by (simp add: doc_lib_def doc_uint_ok)
  show "n < 4294967296 \<Longrightarrow> lays_out (bl_u32 doc_lib p) (JNum (int n)) (le_bytes 4 n)" for n p
    by (simp add: doc_lib_def doc_uint_ok)
  show "n < 4294967296 \<Longrightarrow> lays_out (bl_u32be doc_lib p) (JNum (int n)) (be_bytes 4 n)" for n p
    by (simp add: doc_lib_def doc_uint_ok)
  show "length bs = n \<Longrightarrow> lays_out (bl_blob doc_lib n p) (JBytes bs) bs" for bs n p
    by (rule lays_outI) (simp_all add: doc_defs buf_set_def subarray_def)
  show "fvs \<noteq> [] \<Longrightarrow>
      list_all (\<lambda>(f, v). \<exists>k. l_property f = Some k \<and> map_of obj k = Some v) fvs \<Longrightarrow>
      l_encode (bl_struct doc_lib (map fst fvs) p) (JObj obj) b offs =
        bindR (encode_fields fvs b offs offs) (\<lambda>(b', fin). Inr (b', fin - offs))" for fvs obj p b offs
    by (simp add: doc_lib_def doc_struct_def doc_pick_all)
qed (auto simp: doc_defs)

end
