(* ===== verification/Chains.thy ===== *)
theory Chains
  imports Js_Prelude "HOL-Library.DAList"
begin

text \<open>
  The chain registry of \<open>xc_admin_common/src/chains.ts\<close>: the table \<open>RECEIVER_CHAINS\<close>, its
  merge over the table of the Wormhole SDK, and the two lookups. The Wormhole table is code of
  a third-party package: it is the parameter \<open>wh\<close>, an arbitrary object with string keys.

  A JavaScript object with string keys is a \<^typ>\<open>(string, nat) alist\<close>: an association list
  without duplicate keys, in insertion order. Assigning an existing key keeps its place,
  a new key goes to the end, which is what \<^const>\<open>DAList.update\<close> does. (No chain name reads as
  an array index, the only kind of key that JavaScript orders differently.)
\<close>

section \<open>The registry\<close>

type_synonym chain_table = "(string, nat) alist"

definition RECEIVER_CHAINS_production :: "(string \<times> nat) list" where
  "RECEIVER_CHAINS_production =
    [(''unset'', 0),
     (''ethereum'', 2),
     (''bsc'', 4),
     (''polygon'', 5),
     (''avalanche'', 6),
     (''aurora'', 9),
     (''fantom'', 10),
     (''celo'', 14),
     (''injective'', 19),
     (''arbitrum'', 23),
     (''optimism'', 24),
     (''eclipse_devnet'', 40001),
     (''eclipse_testnet'', 40002),
     (''eclipse_mainnet'', 40003),
     (''mantis_testnet'', 40004),
     (''sonic_devnet'', 40005),
     (''sonic_testnet'', 40006),
     (''atlas_testnet'', 40007),
     (''mantis_mainnet'', 40008),
     (''sonic_mainnet'', 40009),
     (''cronos'', 60001),
     (''kcc'', 60002),
     (''zksync'', 60003),
     (''shimmer'', 60004),
     (''gnosis'', 60005),
     (''evmos'', 60006),
     (''neon'', 60007),
     (''polygon_zkevm'', 60008),
     (''canto'', 60009),
     (''meter'', 60010),
     (''mantle'', 60011),
     (''conflux_espace'', 60012),
     (''osmosis'', 60014),
     (''sei_pacific_1'', 60017),
     (''neutron'', 60019),
     (''juno'', 60020),
     (''kava'', 60022),
     (''wemix'', 60023),
     (''linea'', 60024),
     (''eos'', 60026),
     (''syndr'', 60027),
     (''scroll'', 60028),
     (''ronin'', 60029),
     (''horizen_eon'', 60030),
     (''boba'', 60031),
     (''manta'', 60032),
     (''chiliz'', 60033),
     (''zetachain'', 60034),
     (''astar_zkevm'', 60035),
     (''coredao'', 60036),
     (''viction'', 60037),
     (''stacks'', 60038),
     (''mode'', 60039),
     (''bttc'', 60040),
     (''zkfair'', 60041),
     (''hedera'', 60042),
     (''filecoin'', 60043),
     (''lightlink_phoenix'', 60044),
     (''injective_inevm'', 60045),
     (''blast'', 60046),
     (''merlin'', 60047),
     (''parallel'', 60048),
     (''iota'', 60049),
     (''flow_previewnet'', 60050),
     (''starknet'', 60051),
     (''opbnb'', 60052),
     (''gravity'', 60053),
     (''polynomial'', 60054),
     (''etherlink'', 60055),
     (''klaytn'', 60056),
     (''kinto'', 60057),
     (''b3_mainnet'', 60058),
     (''cronos_zkevm_mainnet'', 60059),
     (''idex_xchain_mainnet'', 60060),
     (''apechain_mainnet'', 60061),
     (''flow_mainnet'', 60062),
     (''sanko'', 60063),
     (''skate'', 60064),
     (''morph'', 60065),
     (''superseed_mainnet'', 60066),
     (''fuel_mainnet'', 60067),
     (''hemi_mainnet'', 60068),
     (''ton_mainnet'', 60069),
     (''horse_dream'', 60070),
     (''mathematician_in_heart'', 60071),
     (''fantom_sonic_mainnet'', 60072),
     (''eventum_mainnet'', 60073),
     (''threat_level_midnight'', 60074),
     (''just_breathe'', 60075),
     (''berachain_mainnet'', 60076),
     (''movement_mainnet'', 60077),
     (''story_mainnet'', 60078),
     (''hyperEVM'', 60079),
     (''bittensor_mainnet'', 60080)]"

definition RECEIVER_CHAINS_stable_testnets :: "(string \<times> nat) list" where
  "RECEIVER_CHAINS_stable_testnets =
    [(''injective_testnet'', 60013),
     (''osmosis_testnet_4'', 60015),
     (''osmosis_testnet_5'', 60016),
     (''sei_testnet_atlantic_2'', 60018),
     (''juno_testnet'', 60021),
     (''neutron_testnet_pion_1'', 60025)]"

definition RECEIVER_CHAINS_testnets :: "(string \<times> nat) list" where
  "RECEIVER_CHAINS_testnets =
    [(''linea_goerli'', 50001),
     (''fuji'', 50002),
     (''base_goerli'', 50003),
     (''cronos_testnet'', 50004),
     (''zksync_goerli'', 50005),
     (''canto_testnet'', 50006),
     (''polygon_zkevm_testnet'', 50007),
     (''aurora_testnet'', 50008),
     (''mantle_sepolia'', 50009),
     (''fantom_testnet'', 50010),
     (''mumbai'', 50011),
     (''neon_devnet'', 50012),
     (''chiado'', 50013),
     (''kava_testnet'', 50014),
     (''evmos_testnet'', 50015),
     (''bsc_testnet'', 50016),
     (''conflux_espace_testnet'', 50017),
     (''optimism_goerli'', 50018),
     (''wemix_testnet'', 50019),
     (''celo_alfajores_testnet'', 50020),
     (''syndr_nitro_testnet'', 50021),
     (''kcc_testnet'', 50022),
     (''eos_testnet'', 50023),
     (''meter_testnet'', 50024),
     (''shimmer_testnet'', 50025),
     (''scroll_sepolia'', 50026),
     (''saigon'', 50027),
     (''horizen_gobi'', 50028),
     (''sepolia'', 50029),
     (''arbitrum_sepolia'', 50030),
     (''boba_goerli'', 50031),
     (''manta_testnet'', 50032),
     (''optimism_sepolia'', 50033),
     (''chiliz_spicy'', 50034),
     (''zetachain_testnet'', 50035),
     (''astar_zkevm_testnet'', 50036),
     (''coredao_testnet'', 50037),
     (''viction_testnet'', 50038),
     (''stacks_testnet'', 50039),
     (''mode_testnet'', 50040),
     (''bttc_testnet'', 50041),
     (''zksync_sepolia'', 50042),
     (''base_sepolia'', 50043),
     (''movement_evm_devnet'', 50044),
     (''movement_m1_devnet'', 50045),
     (''zkfair_testnet'', 50046),
     (''blast_s2_testnet'', 50047),
     (''hedera_testnet'', 50048),
     (''filecoin_calibration'', 50049),
     (''lightlink_pegasus_testnet'', 50050),
     (''fantom_sonic_testnet'', 50052),
     (''dela_deperp_testnet'', 50053),
     (''injective_inevm_testnet'', 50054),
     (''idex_xchain_testnet'', 50055),
     (''berachain_testnet'', 50056),
     (''merlin_testnet'', 50057),
     (''manta_sepolia'', 50058),
     (''polygon_blackberry'', 50059),
     (''arbitrum_blueberry'', 50060),
     (''optimism_celestia_raspberry'', 50061),
     (''parallel_testnet'', 50062),
     (''polynomial_testnet'', 50063),
     (''linea_sepolia'', 50064),
     (''rol_testnet'', 50065),
     (''morph_testnet'', 50066),
     (''sei_evm_devnet'', 50067),
     (''boba_sepolia'', 50068),
     (''astar_zkyoto_testnet'', 50069),
     (''xion_testnet'', 50070),
     (''taiko_hekla'', 50071),
     (''olive_testnet'', 50072),
     (''orange_testnet'', 50073),
     (''polygon_amoy'', 50074),
     (''starknet_sepolia'', 50075),
     (''movement_m2_devnet'', 50076),
     (''taiko_mainnet'', 50077),
     (''sei_evm_mainnet'', 50078),
     (''kakarot_sepolia'', 50079),
     (''dela_mithreum_deperp_testnet'', 50080),
     (''berachain_testnet_v2'', 50081),
     (''opbnb_testnet'', 50082),
     (''etherlink_testnet'', 50083),
     (''fuel_testnet'', 50084),
     (''sei_evm_testnet'', 50085),
     (''klaytn_testnet'', 50086),
     (''morph_holesky_testnet'', 50087),
     (''tabi_testnet'', 50088),
     (''movement_suzuka_testnet'', 50089),
     (''b3_testnet'', 50090),
     (''cronos_zkevm_testnet'', 50091),
     (''reya_testnet'', 50092),
     (''movement_evm_devnet_imola'', 50093),
     (''flow_testnet'', 50094),
     (''apechain_testnet'', 50095),
     (''soneium_minato_testnet'', 50096),
     (''nighthawk'', 50097),
     (''unichain_sepolia'', 50099),
     (''abstract_testnet'', 50100),
     (''sanko_testnet'', 50101),
     (''skate_testnet'', 50102),
     (''movement_porto_testnet'', 50103),
     (''ton_testnet'', 50104),
     (''kraken_ink_testnet'', 50105),
     (''ethena_testnet'', 50106),
     (''superseed_testnet'', 50107),
     (''happy_bird_song_ends_with_tio'', 50108),
     (''hyperevm_testnet'', 50109),
     (''eventum_testnet'', 50110),
     (''fantom_sonic_devnet'', 50111),
     (''movement_bardock_testnet'', 50112),
     (''story_testnet'', 50113),
     (''coredao_testnet_v2'', 50114),
     (''bittensor_testnet'', 50115),
     (''monad_devnet'', 50116),
     (''monad_testnet'', 50117)]"

text \<open>Assigning a list of properties in turn: object literals and object spread.\<close>

fun spread :: "('k, 'v) alist \<Rightarrow> ('k \<times> 'v) list \<Rightarrow> ('k, 'v) alist" where
  "spread obj [] = obj"
| "spread obj ((k, v) # kvs) = spread (DAList.update k v obj) kvs"

definition RECEIVER_CHAINS_entries :: "(string \<times> nat) list" where
  "RECEIVER_CHAINS_entries =
     RECEIVER_CHAINS_production @ RECEIVER_CHAINS_stable_testnets @ RECEIVER_CHAINS_testnets"

definition RECEIVER_CHAINS :: chain_table where
  "RECEIVER_CHAINS = spread DAList.empty RECEIVER_CHAINS_entries"

definition CHAINS :: "chain_table \<Rightarrow> chain_table" where
  "CHAINS wh = spread wh (DAList.impl_of RECEIVER_CHAINS)"

definition toChainId :: "chain_table \<Rightarrow> string \<Rightarrow> nat option" where
  "toChainId wh chainName = DAList.lookup (CHAINS wh) chainName"

fun ids_to_names :: "(string \<times> nat) list \<Rightarrow> (nat \<rightharpoonup> string) \<Rightarrow> (nat \<rightharpoonup> string)" where
  "ids_to_names [] obj = obj"
| "ids_to_names ((name, cid) # es) obj = ids_to_names es (obj(cid \<mapsto> name))"

definition CHAIN_ID_TO_NAME :: "chain_table \<Rightarrow> (nat \<rightharpoonup> string)" where
  "CHAIN_ID_TO_NAME wh = ids_to_names (DAList.impl_of (CHAINS wh)) Map.empty"

definition toChainName :: "chain_table \<Rightarrow> nat \<Rightarrow> string option" where
  "toChainName wh chainId = CHAIN_ID_TO_NAME wh chainId"

section \<open>The contract of a chain registry\<close>

text \<open>
  What the governance codec relies on: a name that the reverse lookup returns maps back to the
  same identifier, and an identifier that some name has is known to the reverse lookup.
\<close>

locale chain_registry =
  fixes to_id :: "string \<Rightarrow> nat option"
    and to_name :: "nat \<Rightarrow> string option"
  assumes name_sound: "to_name i = Some n \<Longrightarrow> to_id n = Some i"
    and id_covered: "to_id n = Some i \<Longrightarrow> \<exists>m. to_name i = Some m"
begin

lemma canonical_name:
  assumes "to_id n = Some i"
  obtains m where "to_name i = Some m" "to_id m = Some i"
  using id_covered [OF assms] name_sound by blast

lemma to_name_inj: "to_name i = Some n \<Longrightarrow> to_name j = Some n \<Longrightarrow> i = j"
  by (metis name_sound option.inject)

lemma known_id_iff: "(\<exists>n. to_id n = Some i) \<longleftrightarrow> to_name i \<noteq> None"
  using name_sound id_covered by force

end

section \<open>Lemmas\<close>

lemma lookup_spread:
  "DAList.lookup (spread obj kvs) k =
     (case map_of (rev kvs) k of Some v \<Rightarrow> Some v | None \<Rightarrow> DAList.lookup obj k)"
  by (induction kvs arbitrary: obj rule: list.induct)
    (auto simp: DAList.lookup_update map_add_def split: option.splits)

lemma lookup_iff_entry: "DAList.lookup obj k = Some v \<longleftrightarrow> (k, v) \<in> set (DAList.impl_of obj)"
  by (simp add: DAList.lookup.rep_eq)

lemma ids_to_names_sound:
  "ids_to_names es obj i = Some n \<Longrightarrow> (n, i) \<in> set es \<or> obj i = Some n"
  by (induction es obj rule: ids_to_names.induct) (auto split: if_splits)

lemma ids_to_names_keeps: "obj i \<noteq> None \<Longrightarrow> ids_to_names es obj i \<noteq> None"
  by (induction es obj rule: ids_to_names.induct) auto

lemma ids_to_names_covers: "(n, i) \<in> set es \<Longrightarrow> ids_to_names es obj i \<noteq> None"
proof (induction es obj rule: ids_to_names.induct)
  case (2 name cid es obj)
  have keep: "ids_to_names es (obj(cid \<mapsto> name)) cid \<noteq> None"
    by (rule ids_to_names_keeps) simp
  from 2 keep show ?case by (cases "(n, i) = (name, cid)") (auto simp del: fun_upd_apply)
qed simp

interpretation registry: chain_registry "toChainId wh" "toChainName wh" for wh
proof
  fix i n
  assume "toChainName wh i = Some n"
  then show "toChainId wh n = Some i"
    by (auto simp: toChainName_def CHAIN_ID_TO_NAME_def toChainId_def lookup_iff_entry
        dest: ids_to_names_sound)
next
  fix n i
  assume "toChainId wh n = Some i"
  then show "\<exists>m. toChainName wh i = Some m"
    using ids_to_names_covers [of n i "DAList.impl_of (CHAINS wh)" Map.empty]
    by (auto simp: toChainName_def CHAIN_ID_TO_NAME_def toChainId_def lookup_iff_entry)
qed

text \<open>The identifiers of the table are pairwise distinct: each of its three parts is ascending,
  and the parts occupy disjoint ranges, apart from six identifiers checked one by one.\<close>

fun ascending :: "nat list \<Rightarrow> bool" where
  "ascending (x # y # zs) = (x < y \<and> ascending (y # zs))"
| "ascending _ = True"

lemma ascending_distinct: "ascending xs \<Longrightarrow> distinct xs"
proof -
  have "ascending xs \<Longrightarrow> sorted_wrt (<) xs"
    by (induction xs rule: ascending.induct) auto
  then show "ascending xs \<Longrightarrow> distinct xs"
    using strict_sorted_iff by blast
qed

lemma production_ids:
  "ascending (map snd RECEIVER_CHAINS_production)"
  "list_all (\<lambda>(n, i). i < 65536 \<and> (i < 50000 \<or> 60000 < i)) RECEIVER_CHAINS_production"
  by (simp_all add: RECEIVER_CHAINS_production_def)

lemma stable_testnet_ids:
  "ascending (map snd RECEIVER_CHAINS_stable_testnets)"
  "list_all (\<lambda>(n, i). i < 65536 \<and> 60000 < i) RECEIVER_CHAINS_stable_testnets"
  by (simp_all add: RECEIVER_CHAINS_stable_testnets_def)

lemma testnet_ids:
  "ascending (map snd RECEIVER_CHAINS_testnets)"
  "list_all (\<lambda>(n, i). 50000 \<le> i \<and> i \<le> 60000) RECEIVER_CHAINS_testnets"
  by (simp_all add: RECEIVER_CHAINS_testnets_def)

lemma stable_testnet_ids_fresh:
  "list_all (\<lambda>(n, i). i \<notin> set (map snd RECEIVER_CHAINS_production)) RECEIVER_CHAINS_stable_testnets"
  by (simp add: RECEIVER_CHAINS_production_def RECEIVER_CHAINS_stable_testnets_def)

lemma receiver_ids_distinct: "distinct (map snd RECEIVER_CHAINS_entries)"
proof -
  have "snd ` set RECEIVER_CHAINS_production \<inter> snd ` set RECEIVER_CHAINS_stable_testnets = {}"
    using stable_testnet_ids_fresh by (fastforce simp: list_all_iff)
  moreover have "snd ` set RECEIVER_CHAINS_production \<inter> snd ` set RECEIVER_CHAINS_testnets = {}"
    using production_ids(2) testnet_ids(2) by (fastforce simp: list_all_iff)
  moreover have "snd ` set RECEIVER_CHAINS_stable_testnets \<inter> snd ` set RECEIVER_CHAINS_testnets = {}"
    using stable_testnet_ids(2) testnet_ids(2) by (fastforce simp: list_all_iff)
  ultimately show ?thesis
    using production_ids(1) stable_testnet_ids(1) testnet_ids(1)
    by (simp add: RECEIVER_CHAINS_entries_def ascending_distinct Int_Un_distrib)
qed

lemma receiver_ids_bound: "(n, i) \<in> set RECEIVER_CHAINS_entries \<Longrightarrow> i < 65536"
  using production_ids(2) stable_testnet_ids(2) testnet_ids(2)
  by (force simp: RECEIVER_CHAINS_entries_def list_all_iff)

lemma spread_entries:
  "DAList.lookup (spread obj kvs) k = Some v \<Longrightarrow>
   (k, v) \<in> set kvs \<or> DAList.lookup obj k = Some v"
  by (auto simp: lookup_spread dest: map_of_SomeD split: option.splits)

lemma receiver_entry:
  "DAList.lookup RECEIVER_CHAINS n = Some i \<Longrightarrow>
   (n, i) \<in> set RECEIVER_CHAINS_entries"
  unfolding RECEIVER_CHAINS_def by (auto dest!: spread_entries)

lemma receiver_id_inj:
  assumes "DAList.lookup RECEIVER_CHAINS m = Some i" "DAList.lookup RECEIVER_CHAINS n = Some i"
  shows "m = n"
  using receiver_entry [OF assms(1)] receiver_entry [OF assms(2)] receiver_ids_distinct
  by (metis (no_types, lifting) distinct_map inj_onD snd_conv prod.inject)

lemma receiver_id_less: "DAList.lookup RECEIVER_CHAINS n = Some i \<Longrightarrow> i < 65536"
  by (rule receiver_ids_bound) (rule receiver_entry)

lemma toChainId_cases:
  "toChainId wh n =
     (case DAList.lookup RECEIVER_CHAINS n of Some i \<Rightarrow> Some i | None \<Rightarrow> DAList.lookup wh n)"
proof -
  have "map_of (rev (DAList.impl_of RECEIVER_CHAINS)) = map_of (DAList.impl_of RECEIVER_CHAINS)"
    by (rule map_of_rev_distinct) simp
  then show ?thesis
    by (simp add: toChainId_def CHAINS_def lookup_spread)
      (simp add: DAList.lookup.rep_eq)
qed

lemma receiver_name_back:
  assumes "DAList.lookup RECEIVER_CHAINS n = Some i"
    and "\<And>m. DAList.lookup RECEIVER_CHAINS m = None \<Longrightarrow> DAList.lookup wh m \<noteq> Some i"
  shows "toChainName wh i = Some n"
proof -
  have "toChainId wh n = Some i" using assms(1) by (simp add: toChainId_cases)
  then obtain m where m: "toChainName wh i = Some m" "toChainId wh m = Some i"
    by (rule registry.canonical_name)
  have "DAList.lookup RECEIVER_CHAINS m = Some i"
    using m(2) assms(2) [of m] by (auto simp: toChainId_cases split: option.splits)
  then have "m = n" using assms(1) by (rule receiver_id_inj)
  with m show ?thesis by simp
qed

lemma lookup_RECEIVER_ethereum: "DAList.lookup RECEIVER_CHAINS ''ethereum'' = Some 2"
  by (simp add: RECEIVER_CHAINS_def lookup_spread RECEIVER_CHAINS_entries_def
      RECEIVER_CHAINS_production_def RECEIVER_CHAINS_stable_testnets_def RECEIVER_CHAINS_testnets_def)

section \<open>Properties\<close>

text \<open>The registry never confuses chains. A name returned for an identifier maps back to
  that identifier, whatever table the Wormhole SDK provides.\<close>

theorem toChainName_sound: "toChainName wh i = Some n \<Longrightarrow> toChainId wh n = Some i"
  by (rule registry.name_sound)

theorem toChainName_sound_witness:
  "toChainName DAList.empty 2 = Some ''ethereum'' \<and> toChainId DAList.empty ''ethereum'' = Some 2"
proof -
  have "toChainName DAList.empty 2 = Some ''ethereum''"
    by (rule receiver_name_back) (simp_all add: lookup_RECEIVER_ethereum)
  with toChainName_sound [OF this] show ?thesis by simp
qed

text \<open>A receiver chain overrides the Wormhole table, and its name and identifier determine
  each other as soon as no chain that only Wormhole knows uses the same identifier. Its
  identifier fits the 16-bit field of the governance header.\<close>

theorem receiver_chain_roundtrip:
  assumes "DAList.lookup RECEIVER_CHAINS n = Some i"
    and "\<And>m. DAList.lookup RECEIVER_CHAINS m = None \<Longrightarrow> DAList.lookup wh m \<noteq> Some i"
  shows "toChainId wh n = Some i \<and> toChainName wh i = Some n \<and> i < 65536"
  using assms receiver_name_back [OF assms] by (simp add: toChainId_cases receiver_id_less)

theorem receiver_chain_roundtrip_witness:
  "toChainId (DAList.update ''solana'' (1::nat) DAList.empty) ''ethereum'' = Some 2 \<and>
   toChainName (DAList.update ''solana'' (1::nat) DAList.empty) 2 = Some ''ethereum'' \<and> (2::nat) < 65536"
proof (rule receiver_chain_roundtrip)
  show "DAList.lookup RECEIVER_CHAINS ''ethereum'' = Some 2"
    by (rule lookup_RECEIVER_ethereum)
  show "DAList.lookup (DAList.update ''solana'' (1::nat) DAList.empty) m \<noteq> Some 2" for m
    by (simp add: DAList.lookup_update)
qed

end
