(* ===== verification/Governance_Payload.thy ===== *)
theory Governance_Payload
  imports Buffer_Layout Chains
begin

text \<open>
  The governance messages of \<open>xc_admin_common/src/governance_payload\<close>: the header, the thirteen
  kinds of action with their encoders and decoders, and the dispatcher
  \<open>decodeGovernancePayload\<close>.

  Parameters: the chain table \<open>wh\<close> of the Wormhole SDK, the layout packages \<open>L\<close>, and, for
  \<open>ExecutePostedVaa\<close>, the \<open>PublicKey\<close> class and the constant \<open>PACKET_DATA_SIZE\<close> of
  \<open>@solana/web3.js\<close>, the record \<open>W\<close>. A function that returns \<open>undefined\<close> or throws has type
  \<open>'a option result\<close>: \<open>Inr None\<close> is \<open>undefined\<close> and \<open>Inl\<close> a throw.
\<close>

section \<open>\<open>PythGovernanceAction.ts\<close>: action names and the header\<close>

datatype ActionName =
    ExecutePostedVaa_name
  | UpgradeContract_name
  | AuthorizeGovernanceDataSourceTransfer_name
  | SetDataSources_name
  | SetFee_name
  | SetValidPeriod_name
  | RequestGovernanceDataSourceTransfer_name
  | SetWormholeAddress_name
  | SetFeeInToken_name
  | Execute_name

definition MAGIC_NUMBER :: nat where "MAGIC_NUMBER = 0x4d475450"
definition MODULE_EXECUTOR :: nat where "MODULE_EXECUTOR = 0"
definition MODULE_TARGET :: nat where "MODULE_TARGET = 1"
definition MODULE_EVM_EXECUTOR :: nat where "MODULE_EVM_EXECUTOR = 2"

fun ExecutorAction :: "ActionName \<Rightarrow> nat option" where
  "ExecutorAction ExecutePostedVaa_name = Some 0"
| "ExecutorAction _ = None"

fun TargetAction :: "ActionName \<Rightarrow> nat option" where
  "TargetAction UpgradeContract_name = Some 0"
| "TargetAction AuthorizeGovernanceDataSourceTransfer_name = Some 1"
| "TargetAction SetDataSources_name = Some 2"
| "TargetAction SetFee_name = Some 3"
| "TargetAction SetValidPeriod_name = Some 4"
| "TargetAction RequestGovernanceDataSourceTransfer_name = Some 5"
| "TargetAction SetWormholeAddress_name = Some 6"
| "TargetAction SetFeeInToken_name = Some 7"
| "TargetAction _ = None"

fun EvmExecutorAction :: "ActionName \<Rightarrow> nat option" where
  "EvmExecutorAction Execute_name = Some 0"
| "EvmExecutorAction _ = None"

definition toActionName :: "int \<Rightarrow> int \<Rightarrow> ActionName option" where
  "toActionName moduleId actionId =
     (if moduleId = int MODULE_EXECUTOR \<and> actionId = 0 then Some ExecutePostedVaa_name
      else if moduleId = int MODULE_TARGET then
        (if actionId = 0 then Some UpgradeContract_name
         else if actionId = 1 then Some AuthorizeGovernanceDataSourceTransfer_name
         else if actionId = 2 then Some SetDataSources_name
         else if actionId = 3 then Some SetFee_name
         else if actionId = 4 then Some SetValidPeriod_name
         else if actionId = 5 then Some RequestGovernanceDataSourceTransfer_name
         else if actionId = 6 then Some SetWormholeAddress_name
         else if actionId = 7 then Some SetFeeInToken_name
         else None)
      else if moduleId = int MODULE_EVM_EXECUTOR \<and> actionId = 0 then Some Execute_name
      else None)"

text \<open>What the sources take from \<open>@solana/web3.js\<close> here.\<close>

record 'pk web3_lib =
  w3_PACKET_DATA_SIZE :: nat
  w3_newPublicKey :: "bytes \<Rightarrow> 'pk result"
  w3_toBytes :: "'pk \<Rightarrow> bytes"

locale web3 =
  fixes W :: "'pk web3_lib"
  assumes packet_data_size: "w3_PACKET_DATA_SIZE W = 1232"
    and toBytes_length: "length (w3_toBytes W k) = 32"
    and new_toBytes: "w3_newPublicKey W (w3_toBytes W k) = Inr k"

record PythGovernanceHeader =
  h_targetChainId :: string
  h_action :: ActionName

definition header_layout :: "buffer_layout_lib \<Rightarrow> layout" where
  "header_layout L =
     bl_struct L
       [bl_u32 L (Some ''magicNumber''), bl_u8 L (Some ''module''), bl_u8 L (Some ''action''),
        bl_u16be L (Some ''chain'')]
       (Some ''header'')"

definition header_span :: nat where "header_span = 8"

definition safeLayoutDecode :: "layout \<Rightarrow> bytes \<Rightarrow> jsval option" where
  "safeLayoutDecode lay data = try_undefined (l_decode lay data 0)"

definition header_decode ::
  "chain_table \<Rightarrow> buffer_layout_lib \<Rightarrow> bytes \<Rightarrow> PythGovernanceHeader option" where
  "header_decode wh L data =
     (case safeLayoutDecode (header_layout L) data of
        None \<Rightarrow> None
      | Some deserialized \<Rightarrow>
          if js_get deserialized ''magicNumber'' \<noteq> JNum (int MAGIC_NUMBER) then None
          else (case toChainName wh (nat (as_int (js_get deserialized ''chain''))) of
              None \<Rightarrow> None
            | Some chainName \<Rightarrow>
                if chainName = [] then None else
                (case toActionName (as_int (js_get deserialized ''module''))
                        (as_int (js_get deserialized ''action'')) of
                   None \<Rightarrow> None
                 | Some actionName \<Rightarrow>
                     Some \<lparr> h_targetChainId = chainName, h_action = actionName \<rparr>)))"

definition header_encode ::
  "chain_table \<Rightarrow> buffer_layout_lib \<Rightarrow> 'pk web3_lib \<Rightarrow> PythGovernanceHeader \<Rightarrow> bytes result" where
  "header_encode wh L W h =
     (let buffer = replicate (w3_PACKET_DATA_SIZE W) 0;
          (module, act) =
            (case ExecutorAction (h_action h) of
               Some a \<Rightarrow> (MODULE_EXECUTOR, a)
             | None \<Rightarrow>
                 (case TargetAction (h_action h) of
                    Some a \<Rightarrow> (MODULE_TARGET, a)
                  | None \<Rightarrow> (MODULE_EVM_EXECUTOR, the (EvmExecutorAction (h_action h)))))
      in case toChainId wh (h_targetChainId h) of
           None \<Rightarrow> Inl (JsError ''Invalid chain id'')
         | Some chain \<Rightarrow>
             bindR (l_encode (header_layout L)
                 (JObj [(''magicNumber'', JNum (int MAGIC_NUMBER)), (''module'', JNum (int module)),
                        (''action'', JNum (int act)), (''chain'', JNum (int chain))])
                 buffer 0)
               (\<lambda>(buffer', span). Inr (subarray buffer' 0 span)))"

section \<open>\<open>PythGovernanceActionImpl\<close>: actions with a layout\<close>

definition encodeWithPayload ::
  "chain_table \<Rightarrow> buffer_layout_lib \<Rightarrow> 'pk web3_lib \<Rightarrow> string \<Rightarrow> ActionName \<Rightarrow> layout \<Rightarrow> jsval
   \<Rightarrow> bytes result" where
  "encodeWithPayload wh L W targetChainId action payloadLayout payload =
     bindR (header_encode wh L W \<lparr> h_targetChainId = targetChainId, h_action = action \<rparr>)
       (\<lambda>headerBuffer.
     bindR (l_encode payloadLayout payload (replicate (nat (l_span payloadLayout)) 0) 0)
       (\<lambda>(payloadBuffer, _). Inr (headerBuffer @ payloadBuffer)))"

definition decodeWithPayload ::
  "chain_table \<Rightarrow> buffer_layout_lib \<Rightarrow> bytes \<Rightarrow> ActionName \<Rightarrow> layout
   \<Rightarrow> (PythGovernanceHeader \<times> jsval) option" where
  "decodeWithPayload wh L buffer requiredAction payloadLayout =
     (case header_decode wh L buffer of
        None \<Rightarrow> None
      | Some header \<Rightarrow>
          if h_action header \<noteq> requiredAction then None
          else (case safeLayoutDecode payloadLayout (subarray buffer header_span (length buffer)) of
              None \<Rightarrow> None
            | Some payload \<Rightarrow> Some (header, payload)))"

section \<open>The actions\<close>

record DataSource =
  emitterChain :: nat
  emitterAddress :: string

record 'pk account_meta =
  am_pubkey :: 'pk
  am_isSigner :: bool
  am_isWritable :: bool

record 'pk instruction =
  ix_programId :: 'pk
  ix_keys :: "'pk account_meta list"
  ix_data :: bytes

datatype 'pk PythGovernanceAction =
    ExecutePostedVaa string "'pk instruction list"
  | CosmosUpgradeContract string int
  | UpgradeContract256Bit string string
  | EvmUpgradeContract string string
  | AuthorizeGovernanceDataSourceTransfer string bytes
  | RequestGovernanceDataSourceTransfer string int
  | SetDataSources string "DataSource list"
  | SetFee string int int
  | SetFeeInToken string int int bytes
  | SetValidPeriod string int
  | EvmSetWormholeAddress string string
  | StarknetSetWormholeAddress string string
  | EvmExecute string string string int bytes

subsection \<open>Layouts\<close>

definition CosmosUpgradeContract_layout :: "buffer_layout_lib \<Rightarrow> layout" where
  "CosmosUpgradeContract_layout L = bl_struct L [u64be L (Some ''codeId'')] None"

definition UpgradeContract256Bit_layout :: "buffer_layout_lib \<Rightarrow> layout" where
  "UpgradeContract256Bit_layout L = bl_struct L [hexBytes L 32 (Some ''hash'')] None"

definition EvmUpgradeContract_layout :: "buffer_layout_lib \<Rightarrow> layout" where
  "EvmUpgradeContract_layout L = bl_struct L [hexBytes L 20 (Some ''address'')] None"

definition RequestGovernanceDataSourceTransfer_layout :: "buffer_layout_lib \<Rightarrow> layout" where
  "RequestGovernanceDataSourceTransfer_layout L =
     bl_struct L [bl_u32be L (Some ''governanceDataSourceIndex'')] None"

definition DataSourceLayout :: "buffer_layout_lib \<Rightarrow> layout" where
  "DataSourceLayout L =
     bl_struct L [bl_u16be L (Some ''emitterChain''), hexBytes L 32 (Some ''emitterAddress'')] None"

definition SetFee_layout :: "buffer_layout_lib \<Rightarrow> layout" where
  "SetFee_layout L =
     bl_struct L [u64be L (Some ''newFeeValue''), u64be L (Some ''newFeeExpo'')] None"

definition SetFeeInToken_layout :: "buffer_layout_lib \<Rightarrow> layout" where
  "SetFeeInToken_layout L =
     bl_struct L [u64be L (Some ''newFeeValue''), u64be L (Some ''newFeeExpo''),
                  bl_u8 L (Some ''tokenLen'')] None"

definition SetValidPeriod_layout :: "buffer_layout_lib \<Rightarrow> layout" where
  "SetValidPeriod_layout L = bl_struct L [u64be L (Some ''newValidPeriod'')] None"

definition EvmSetWormholeAddress_layout :: "buffer_layout_lib \<Rightarrow> layout" where
  "EvmSetWormholeAddress_layout L = bl_struct L [hexBytes L 20 (Some ''address'')] None"

definition StarknetSetWormholeAddress_layout :: "buffer_layout_lib \<Rightarrow> layout" where
  "StarknetSetWormholeAddress_layout L = bl_struct L [hexBytes L 32 (Some ''address'')] None"

definition EvmExecute_layout :: "buffer_layout_lib \<Rightarrow> layout" where
  "EvmExecute_layout L =
     bl_struct L [hexBytes L 20 (Some ''executorAddress''), hexBytes L 20 (Some ''callAddress''),
                  u256be L (Some ''value''), bl_greedy_blob L (Some ''calldata'')] None"

definition EvmExecute_layout_with_known_span :: "buffer_layout_lib \<Rightarrow> nat \<Rightarrow> layout" where
  "EvmExecute_layout_with_known_span L n =
     bl_struct L [hexBytes L 20 (Some ''executorAddress''), hexBytes L 20 (Some ''callAddress''),
                  u256be L (Some ''value''), bl_blob L n (Some ''calldata'')] None"

text \<open>The class \<open>Vector\<close> of \<open>ExecutePostedVaa.ts\<close>: a 32-bit count, then the elements.\<close>

definition Vector :: "buffer_layout_lib \<Rightarrow> layout \<Rightarrow> string option \<Rightarrow> layout" where
  "Vector L element property =
     \<lparr> l_span = -1,
       l_property = property,
       l_decode = (\<lambda>b offs.
         bindR (l_decode (bl_u32 L None) b offs) (\<lambda>len.
           l_decode (bl_seq L element (nat (as_int len)) None) b (offs + 4))),
       l_encode = (\<lambda>src b offs.
         l_encode (bl_struct L [bl_u32 L (Some ''length''),
                                bl_seq L element (length (as_list src)) (Some ''elements'')] None)
           (JObj [(''length'', JNum (int (length (as_list src)))), (''elements'', src)]) b offs),
       l_getSpan = (\<lambda>b offs.
         bindR (l_decode (bl_u32 L None) b offs) (\<lambda>len. Inr (4 + l_span element * as_int len))) \<rparr>"

definition accountMetaLayout :: "buffer_layout_lib \<Rightarrow> layout" where
  "accountMetaLayout L =
     bl_struct L [bl_blob L 32 (Some ''pubkey''), bl_u8 L (Some ''isSigner''),
                  bl_u8 L (Some ''isWritable'')] None"

definition instructionDataLayout :: "buffer_layout_lib \<Rightarrow> layout" where
  "instructionDataLayout L =
     bl_struct L [bl_blob L 32 (Some ''programId''), Vector L (accountMetaLayout L) (Some ''accounts''),
                  Vector L (bl_u8 L None) (Some ''data'')] None"

definition ExecutePostedVaa_layout :: "buffer_layout_lib \<Rightarrow> layout" where
  "ExecutePostedVaa_layout L = Vector L (instructionDataLayout L) (Some ''instructions'')"

subsection \<open>Decoders\<close>

definition CosmosUpgradeContract_decode ::
  "chain_table \<Rightarrow> buffer_layout_lib \<Rightarrow> bytes \<Rightarrow> 'pk PythGovernanceAction option" where
  "CosmosUpgradeContract_decode wh L data =
     (case decodeWithPayload wh L data UpgradeContract_name (CosmosUpgradeContract_layout L) of
        None \<Rightarrow> None
      | Some (header, payload) \<Rightarrow>
          Some (CosmosUpgradeContract (h_targetChainId header) (as_int (js_get payload ''codeId''))))"

definition UpgradeContract256Bit_decode ::
  "chain_table \<Rightarrow> buffer_layout_lib \<Rightarrow> bytes \<Rightarrow> 'pk PythGovernanceAction option" where
  "UpgradeContract256Bit_decode wh L data =
     (case decodeWithPayload wh L data UpgradeContract_name (UpgradeContract256Bit_layout L) of
        None \<Rightarrow> None
      | Some (header, payload) \<Rightarrow>
          Some (UpgradeContract256Bit (h_targetChainId header) (as_str (js_get payload ''hash''))))"

definition EvmUpgradeContract_decode ::
  "chain_table \<Rightarrow> buffer_layout_lib \<Rightarrow> bytes \<Rightarrow> 'pk PythGovernanceAction option" where
  "EvmUpgradeContract_decode wh L data =
     (case decodeWithPayload wh L data UpgradeContract_name (EvmUpgradeContract_layout L) of
        None \<Rightarrow> None
      | Some (header, payload) \<Rightarrow>
          Some (EvmUpgradeContract (h_targetChainId header) (as_str (js_get payload ''address''))))"

definition AuthorizeGovernanceDataSourceTransfer_decode ::
  "chain_table \<Rightarrow> buffer_layout_lib \<Rightarrow> bytes \<Rightarrow> 'pk PythGovernanceAction option" where
  "AuthorizeGovernanceDataSourceTransfer_decode wh L data =
     (case header_decode wh L data of
        None \<Rightarrow> None
      | Some header \<Rightarrow>
          if h_action header \<noteq> AuthorizeGovernanceDataSourceTransfer_name then None
          else Some (AuthorizeGovernanceDataSourceTransfer (h_targetChainId header)
                 (subarray data header_span (length data))))"

definition RequestGovernanceDataSourceTransfer_decode ::
  "chain_table \<Rightarrow> buffer_layout_lib \<Rightarrow> bytes \<Rightarrow> 'pk PythGovernanceAction option" where
  "RequestGovernanceDataSourceTransfer_decode wh L data =
     (case decodeWithPayload wh L data RequestGovernanceDataSourceTransfer_name (RequestGovernanceDataSourceTransfer_layout L) of
        None \<Rightarrow> None
      | Some (header, payload) \<Rightarrow>
          Some (RequestGovernanceDataSourceTransfer (h_targetChainId header) (as_int (js_get payload ''governanceDataSourceIndex''))))"

fun decode_data_sources ::
  "buffer_layout_lib \<Rightarrow> bytes \<Rightarrow> nat \<Rightarrow> nat \<Rightarrow> DataSource list result" where
  "decode_data_sources L data index 0 = Inr []"
| "decode_data_sources L data index (Suc n) =
     bindR (l_decode (DataSourceLayout L) data index) (\<lambda>v.
     bindR (decode_data_sources L data (index + nat (l_span (DataSourceLayout L))) n) (\<lambda>rest.
       Inr (\<lparr> emitterChain = nat (as_int (js_get v ''emitterChain'')),
              emitterAddress = as_str (js_get v ''emitterAddress'') \<rparr> # rest)))"

definition SetDataSources_decode ::
  "chain_table \<Rightarrow> buffer_layout_lib \<Rightarrow> bytes \<Rightarrow> 'pk PythGovernanceAction option result" where
  "SetDataSources_decode wh L data =
     (case header_decode wh L data of
        None \<Rightarrow> Inr None
      | Some header \<Rightarrow>
          if h_action header \<noteq> SetDataSources_name then Inr None
          else
            bindR (l_decode (bl_u8 L None) data header_span) (\<lambda>numSources.
            bindR (decode_data_sources L data (header_span + 1) (nat (as_int numSources))) (\<lambda>dataSources.
              Inr (Some (SetDataSources (h_targetChainId header) dataSources)))))"

definition SetFee_decode ::
  "chain_table \<Rightarrow> buffer_layout_lib \<Rightarrow> bytes \<Rightarrow> 'pk PythGovernanceAction option" where
  "SetFee_decode wh L data =
     (case decodeWithPayload wh L data SetFee_name (SetFee_layout L) of
        None \<Rightarrow> None
      | Some (header, payload) \<Rightarrow>
          Some (SetFee (h_targetChainId header) (as_int (js_get payload ''newFeeValue''))
            (as_int (js_get payload ''newFeeExpo''))))"

definition SetFeeInToken_decode ::
  "chain_table \<Rightarrow> buffer_layout_lib \<Rightarrow> bytes \<Rightarrow> 'pk PythGovernanceAction option result" where
  "SetFeeInToken_decode wh L data =
     (case header_decode wh L data of
        None \<Rightarrow> Inr None
      | Some header \<Rightarrow>
          if h_action header \<noteq> SetFeeInToken_name then Inr None
          else
            bindR (l_decode (SetFeeInToken_layout L) data header_span) (\<lambda>fields.
              Inr (Some (SetFeeInToken (h_targetChainId header)
                (as_int (js_get fields ''newFeeValue'')) (as_int (js_get fields ''newFeeExpo''))
                (drop (header_span + nat (l_span (SetFeeInToken_layout L))) data)))))"

definition SetValidPeriod_decode ::
  "chain_table \<Rightarrow> buffer_layout_lib \<Rightarrow> bytes \<Rightarrow> 'pk PythGovernanceAction option" where
  "SetValidPeriod_decode wh L data =
     (case decodeWithPayload wh L data SetValidPeriod_name (SetValidPeriod_layout L) of
        None \<Rightarrow> None
      | Some (header, payload) \<Rightarrow>
          Some (SetValidPeriod (h_targetChainId header) (as_int (js_get payload ''newValidPeriod''))))"

definition EvmSetWormholeAddress_decode ::
  "chain_table \<Rightarrow> buffer_layout_lib \<Rightarrow> bytes \<Rightarrow> 'pk PythGovernanceAction option" where
  "EvmSetWormholeAddress_decode wh L data =
     (case decodeWithPayload wh L data SetWormholeAddress_name (EvmSetWormholeAddress_layout L) of
        None \<Rightarrow> None
      | Some (header, payload) \<Rightarrow>
          Some (EvmSetWormholeAddress (h_targetChainId header) (as_str (js_get payload ''address''))))"

definition StarknetSetWormholeAddress_decode ::
  "chain_table \<Rightarrow> buffer_layout_lib \<Rightarrow> bytes \<Rightarrow> 'pk PythGovernanceAction option" where
  "StarknetSetWormholeAddress_decode wh L data =
     (case decodeWithPayload wh L data SetWormholeAddress_name (StarknetSetWormholeAddress_layout L) of
        None \<Rightarrow> None
      | Some (header, payload) \<Rightarrow>
          Some (StarknetSetWormholeAddress (h_targetChainId header) (as_str (js_get payload ''address''))))"

definition EvmExecute_decode ::
  "chain_table \<Rightarrow> buffer_layout_lib \<Rightarrow> bytes \<Rightarrow> 'pk PythGovernanceAction option" where
  "EvmExecute_decode wh L data =
     (case decodeWithPayload wh L data Execute_name (EvmExecute_layout L) of
        None \<Rightarrow> None
      | Some (header, payload) \<Rightarrow>
          Some (EvmExecute (h_targetChainId header) (as_str (js_get payload ''executorAddress''))
            (as_str (js_get payload ''callAddress''))
            (as_int (js_get payload ''value'')) (as_bytes (js_get payload ''calldata''))))"

definition decode_account_meta :: "'pk web3_lib \<Rightarrow> jsval \<Rightarrow> 'pk account_meta result" where
  "decode_account_meta W acc =
     bindR (w3_newPublicKey W (as_bytes (js_get acc ''pubkey''))) (\<lambda>pubkey.
       Inr \<lparr> am_pubkey = pubkey,
             am_isSigner = (as_int (js_get acc ''isSigner'') \<noteq> 0),
             am_isWritable = (as_int (js_get acc ''isWritable'') \<noteq> 0) \<rparr>)"

definition decode_instruction :: "'pk web3_lib \<Rightarrow> jsval \<Rightarrow> 'pk instruction result" where
  "decode_instruction W ix =
     bindR (w3_newPublicKey W (as_bytes (js_get ix ''programId''))) (\<lambda>programId.
     bindR (mapR (decode_account_meta W) (as_list (js_get ix ''accounts''))) (\<lambda>keys.
       Inr \<lparr> ix_programId = programId, ix_keys = keys,
             ix_data = map (\<lambda>n. of_int (as_int n)) (as_list (js_get ix ''data'')) \<rparr>))"

definition ExecutePostedVaa_decode ::
  "chain_table \<Rightarrow> buffer_layout_lib \<Rightarrow> 'pk web3_lib \<Rightarrow> bytes
   \<Rightarrow> 'pk PythGovernanceAction option result" where
  "ExecutePostedVaa_decode wh L W data =
     (case header_decode wh L data of
        None \<Rightarrow> Inr None
      | Some header \<Rightarrow>
          (case safeLayoutDecode (ExecutePostedVaa_layout L) (drop header_span data) of
             None \<Rightarrow> Inr None
           | Some deserialized \<Rightarrow>
               bindR (mapR (decode_instruction W) (as_list deserialized)) (\<lambda>instructions.
                 Inr (Some (ExecutePostedVaa (h_targetChainId header) instructions)))))"

subsection \<open>Encoders\<close>

definition encode_account_meta :: "'pk web3_lib \<Rightarrow> 'pk account_meta \<Rightarrow> jsval" where
  "encode_account_meta W acc =
     JObj [(''pubkey'', JBytes (w3_toBytes W (am_pubkey acc))),
           (''isSigner'', JNum (if am_isSigner acc then 1 else 0)),
           (''isWritable'', JNum (if am_isWritable acc then 1 else 0))]"

definition encode_instruction :: "'pk web3_lib \<Rightarrow> 'pk instruction \<Rightarrow> jsval" where
  "encode_instruction W ix =
     JObj [(''programId'', JBytes (w3_toBytes W (ix_programId ix))),
           (''accounts'', JArr (map (encode_account_meta W) (ix_keys ix))),
           (''data'', JArr (map (\<lambda>b. JNum (uint b)) (ix_data ix)))]"

definition ExecutePostedVaa_encode ::
  "chain_table \<Rightarrow> buffer_layout_lib \<Rightarrow> 'pk web3_lib \<Rightarrow> string \<Rightarrow> 'pk instruction list
   \<Rightarrow> bytes result" where
  "ExecutePostedVaa_encode wh L W targetChainId instructions =
     bindR (header_encode wh L W
              \<lparr> h_targetChainId = targetChainId, h_action = ExecutePostedVaa_name \<rparr>)
       (\<lambda>headerBuffer.
     bindR (l_encode (ExecutePostedVaa_layout L) (JArr (map (encode_instruction W) instructions))
              (replicate (w3_PACKET_DATA_SIZE W) 0) 0)
       (\<lambda>(buffer, span). Inr (headerBuffer @ subarray buffer 0 span)))"

definition AuthorizeGovernanceDataSourceTransfer_encode ::
  "chain_table \<Rightarrow> buffer_layout_lib \<Rightarrow> 'pk web3_lib \<Rightarrow> string \<Rightarrow> bytes \<Rightarrow> bytes result" where
  "AuthorizeGovernanceDataSourceTransfer_encode wh L W targetChainId claimVaa =
     bindR (header_encode wh L W
              \<lparr> h_targetChainId = targetChainId,
                h_action = AuthorizeGovernanceDataSourceTransfer_name \<rparr>)
       (\<lambda>headerBuffer. Inr (headerBuffer @ claimVaa))"

definition encode_data_source :: "buffer_layout_lib \<Rightarrow> DataSource \<Rightarrow> bytes result" where
  "encode_data_source L source =
     bindR (l_encode (DataSourceLayout L)
              (JObj [(''emitterChain'', JNum (int (emitterChain source))),
                     (''emitterAddress'', JStr (emitterAddress source))])
              (replicate (nat (l_span (DataSourceLayout L))) 0) 0)
       (\<lambda>(buf, _). Inr buf)"

definition SetDataSources_encode ::
  "chain_table \<Rightarrow> buffer_layout_lib \<Rightarrow> 'pk web3_lib \<Rightarrow> string \<Rightarrow> DataSource list \<Rightarrow> bytes result" where
  "SetDataSources_encode wh L W targetChainId dataSources =
     bindR (header_encode wh L W
              \<lparr> h_targetChainId = targetChainId, h_action = SetDataSources_name \<rparr>)
       (\<lambda>headerBuffer.
     bindR (l_encode (bl_u8 L None) (JNum (int (length dataSources))) [0] 0)
       (\<lambda>(numSourcesBuf, _).
     bindR (mapR (encode_data_source L) dataSources)
       (\<lambda>dataSourceBufs. Inr (headerBuffer @ numSourcesBuf @ concat dataSourceBufs))))"

definition SetFeeInToken_encode ::
  "chain_table \<Rightarrow> buffer_layout_lib \<Rightarrow> 'pk web3_lib \<Rightarrow> string \<Rightarrow> int \<Rightarrow> int \<Rightarrow> bytes
   \<Rightarrow> bytes result" where
  "SetFeeInToken_encode wh L W targetChainId newFeeValue newFeeExpo token =
     bindR (header_encode wh L W
              \<lparr> h_targetChainId = targetChainId, h_action = SetFeeInToken_name \<rparr>)
       (\<lambda>headerBuffer.
     bindR (l_encode (SetFeeInToken_layout L)
              (JObj [(''newFeeValue'', JBig newFeeValue), (''newFeeExpo'', JBig newFeeExpo),
                     (''tokenLen'', JNum (int (length token)))])
              (replicate (nat (l_span (SetFeeInToken_layout L))) 0) 0)
       (\<lambda>(fieldsBuf, _). Inr (headerBuffer @ fieldsBuf @ token)))"

definition CosmosUpgradeContract_encode ::
  "chain_table \<Rightarrow> buffer_layout_lib \<Rightarrow> 'pk web3_lib \<Rightarrow> string \<Rightarrow> int \<Rightarrow> bytes result" where
  "CosmosUpgradeContract_encode wh L W targetChainId codeId =
     encodeWithPayload wh L W targetChainId UpgradeContract_name (CosmosUpgradeContract_layout L)
       (JObj [(''codeId'', JBig codeId)])"

definition UpgradeContract256Bit_encode ::
  "chain_table \<Rightarrow> buffer_layout_lib \<Rightarrow> 'pk web3_lib \<Rightarrow> string \<Rightarrow> string \<Rightarrow> bytes result" where
  "UpgradeContract256Bit_encode wh L W targetChainId hash =
     encodeWithPayload wh L W targetChainId UpgradeContract_name (UpgradeContract256Bit_layout L)
       (JObj [(''hash'', JStr hash)])"

definition EvmUpgradeContract_encode ::
  "chain_table \<Rightarrow> buffer_layout_lib \<Rightarrow> 'pk web3_lib \<Rightarrow> string \<Rightarrow> string \<Rightarrow> bytes result" where
  "EvmUpgradeContract_encode wh L W targetChainId address =
     encodeWithPayload wh L W targetChainId UpgradeContract_name (EvmUpgradeContract_layout L)
       (JObj [(''address'', JStr address)])"

definition RequestGovernanceDataSourceTransfer_encode ::
  "chain_table \<Rightarrow> buffer_layout_lib \<Rightarrow> 'pk web3_lib \<Rightarrow> string \<Rightarrow> int \<Rightarrow> bytes result" where
  "RequestGovernanceDataSourceTransfer_encode wh L W targetChainId index =
     encodeWithPayload wh L W targetChainId RequestGovernanceDataSourceTransfer_name (RequestGovernanceDataSourceTransfer_layout L)
       (JObj [(''governanceDataSourceIndex'', JNum index)])"

definition SetFee_encode ::
  "chain_table \<Rightarrow> buffer_layout_lib \<Rightarrow> 'pk web3_lib \<Rightarrow> string \<Rightarrow> int \<Rightarrow> int \<Rightarrow> bytes result" where
  "SetFee_encode wh L W targetChainId newFeeValue newFeeExpo =
     encodeWithPayload wh L W targetChainId SetFee_name (SetFee_layout L)
       (JObj [(''newFeeValue'', JBig newFeeValue), (''newFeeExpo'', JBig newFeeExpo)])"

definition SetValidPeriod_encode ::
  "chain_table \<Rightarrow> buffer_layout_lib \<Rightarrow> 'pk web3_lib \<Rightarrow> string \<Rightarrow> int \<Rightarrow> bytes result" where
  "SetValidPeriod_encode wh L W targetChainId newValidPeriod =
     encodeWithPayload wh L W targetChainId SetValidPeriod_name (SetValidPeriod_layout L)
       (JObj [(''newValidPeriod'', JBig newValidPeriod)])"

definition EvmSetWormholeAddress_encode ::
  "chain_table \<Rightarrow> buffer_layout_lib \<Rightarrow> 'pk web3_lib \<Rightarrow> string \<Rightarrow> string \<Rightarrow> bytes result" where
  "EvmSetWormholeAddress_encode wh L W targetChainId address =
     encodeWithPayload wh L W targetChainId SetWormholeAddress_name (EvmSetWormholeAddress_layout L)
       (JObj [(''address'', JStr address)])"

definition StarknetSetWormholeAddress_encode ::
  "chain_table \<Rightarrow> buffer_layout_lib \<Rightarrow> 'pk web3_lib \<Rightarrow> string \<Rightarrow> string \<Rightarrow> bytes result" where
  "StarknetSetWormholeAddress_encode wh L W targetChainId address =
     encodeWithPayload wh L W targetChainId SetWormholeAddress_name (StarknetSetWormholeAddress_layout L)
       (JObj [(''address'', JStr address)])"

definition EvmExecute_encode ::
  "chain_table \<Rightarrow> buffer_layout_lib \<Rightarrow> 'pk web3_lib \<Rightarrow> string \<Rightarrow> string \<Rightarrow> string \<Rightarrow> int \<Rightarrow> bytes \<Rightarrow> bytes result" where
  "EvmExecute_encode wh L W targetChainId executorAddress callAddress value calldata =
     encodeWithPayload wh L W targetChainId Execute_name (EvmExecute_layout_with_known_span L (length calldata))
       (JObj [(''executorAddress'', JStr executorAddress), (''callAddress'', JStr callAddress),
              (''value'', JBig value), (''calldata'', JBytes calldata)])"

text \<open>The method \<open>encode()\<close> of the interface \<open>PythGovernanceAction\<close>, by class.\<close>

fun encode ::
  "chain_table \<Rightarrow> buffer_layout_lib \<Rightarrow> 'pk web3_lib \<Rightarrow> 'pk PythGovernanceAction \<Rightarrow> bytes result" where
  "encode wh L W (ExecutePostedVaa c ixs) = ExecutePostedVaa_encode wh L W c ixs"
| "encode wh L W (CosmosUpgradeContract c codeId) = CosmosUpgradeContract_encode wh L W c codeId"
| "encode wh L W (UpgradeContract256Bit c hash) = UpgradeContract256Bit_encode wh L W c hash"
| "encode wh L W (EvmUpgradeContract c address) = EvmUpgradeContract_encode wh L W c address"
| "encode wh L W (AuthorizeGovernanceDataSourceTransfer c vaa) = AuthorizeGovernanceDataSourceTransfer_encode wh L W c vaa"
| "encode wh L W (RequestGovernanceDataSourceTransfer c index) = RequestGovernanceDataSourceTransfer_encode wh L W c index"
| "encode wh L W (SetDataSources c sources) = SetDataSources_encode wh L W c sources"
| "encode wh L W (SetFee c value expo) = SetFee_encode wh L W c value expo"
| "encode wh L W (SetFeeInToken c value expo token) = SetFeeInToken_encode wh L W c value expo token"
| "encode wh L W (SetValidPeriod c period) = SetValidPeriod_encode wh L W c period"
| "encode wh L W (EvmSetWormholeAddress c address) = EvmSetWormholeAddress_encode wh L W c address"
| "encode wh L W (StarknetSetWormholeAddress c address) = StarknetSetWormholeAddress_encode wh L W c address"
| "encode wh L W (EvmExecute c executor callee value calldata) = EvmExecute_encode wh L W c executor callee value calldata"

section \<open>\<open>index.ts\<close>: the dispatcher\<close>

definition decodeGovernancePayload ::
  "chain_table \<Rightarrow> buffer_layout_lib \<Rightarrow> 'pk web3_lib \<Rightarrow> bytes
   \<Rightarrow> 'pk PythGovernanceAction option result" where
  "decodeGovernancePayload wh L W data =
     (case header_decode wh L data of
        None \<Rightarrow> Inr None
      | Some header \<Rightarrow>
          (case h_action header of
             ExecutePostedVaa_name \<Rightarrow> ExecutePostedVaa_decode wh L W data
           | UpgradeContract_name \<Rightarrow>
               (let payloadLength = int (length data) - int header_span in
                if payloadLength = l_span (CosmosUpgradeContract_layout L)
                then Inr (CosmosUpgradeContract_decode wh L data)
                else if payloadLength = l_span (UpgradeContract256Bit_layout L)
                then Inr (UpgradeContract256Bit_decode wh L data)
                else if payloadLength = l_span (EvmUpgradeContract_layout L)
                then Inr (EvmUpgradeContract_decode wh L data)
                else Inr None)
           | AuthorizeGovernanceDataSourceTransfer_name \<Rightarrow>
               Inr (AuthorizeGovernanceDataSourceTransfer_decode wh L data)
           | SetDataSources_name \<Rightarrow> SetDataSources_decode wh L data
           | SetFee_name \<Rightarrow> Inr (SetFee_decode wh L data)
           | SetFeeInToken_name \<Rightarrow> SetFeeInToken_decode wh L data
           | SetValidPeriod_name \<Rightarrow> Inr (SetValidPeriod_decode wh L data)
           | RequestGovernanceDataSourceTransfer_name \<Rightarrow>
               Inr (RequestGovernanceDataSourceTransfer_decode wh L data)
           | SetWormholeAddress_name \<Rightarrow>
               (let payloadLength = int (length data) - int header_span in
                if payloadLength = l_span (EvmSetWormholeAddress_layout L)
                then Inr (EvmSetWormholeAddress_decode wh L data)
                else if payloadLength = l_span (StarknetSetWormholeAddress_layout L)
                then Inr (StarknetSetWormholeAddress_decode wh L data)
                else Inr None)
           | Execute_name \<Rightarrow> Inr (EvmExecute_decode wh L data)))"

end
