(* ===== verification/Governance_Codec.thy ===== *)
theory Governance_Codec
  imports Governance_Payload
begin

text \<open>
  Correctness of the governance codec: the wire format as an explicit specification, the
  encoders refine it, and the dispatcher decodes every well-formed action to itself.
  The proofs live in the locale \<open>governance_codec\<close>, which joins the contracts of the layout
  packages and of \<open>@solana/web3.js\<close>; the properties at the end restate them over the model.
\<close>

section \<open>The wire format\<close>

fun module_of :: "ActionName \<Rightarrow> nat" where
  "module_of ExecutePostedVaa_name = 0"
| "module_of Execute_name = 2"
| "module_of _ = 1"

fun action_of :: "ActionName \<Rightarrow> nat" where
  "action_of ExecutePostedVaa_name = 0"
| "action_of UpgradeContract_name = 0"
| "action_of AuthorizeGovernanceDataSourceTransfer_name = 1"
| "action_of SetDataSources_name = 2"
| "action_of SetFee_name = 3"
| "action_of SetValidPeriod_name = 4"
| "action_of RequestGovernanceDataSourceTransfer_name = 5"
| "action_of SetWormholeAddress_name = 6"
| "action_of SetFeeInToken_name = 7"
| "action_of Execute_name = 0"

text \<open>The magic bytes are the ASCII text \<open>PTGM\<close>; the chain is big-endian.\<close>

definition header_bytes :: "ActionName \<Rightarrow> nat \<Rightarrow> bytes" where
  "header_bytes a chain =
     [0x50, 0x54, 0x47, 0x4d, of_nat (module_of a), of_nat (action_of a)] @ be_bytes 2 chain"

fun action_name :: "'pk PythGovernanceAction \<Rightarrow> ActionName" where
  "action_name (ExecutePostedVaa _ _) = ExecutePostedVaa_name"
| "action_name (CosmosUpgradeContract _ _) = UpgradeContract_name"
| "action_name (UpgradeContract256Bit _ _) = UpgradeContract_name"
| "action_name (EvmUpgradeContract _ _) = UpgradeContract_name"
| "action_name (AuthorizeGovernanceDataSourceTransfer _ _) = AuthorizeGovernanceDataSourceTransfer_name"
| "action_name (RequestGovernanceDataSourceTransfer _ _) = RequestGovernanceDataSourceTransfer_name"
| "action_name (SetDataSources _ _) = SetDataSources_name"
| "action_name (SetFee _ _ _) = SetFee_name"
| "action_name (SetFeeInToken _ _ _ _) = SetFeeInToken_name"
| "action_name (SetValidPeriod _ _) = SetValidPeriod_name"
| "action_name (EvmSetWormholeAddress _ _) = SetWormholeAddress_name"
| "action_name (StarknetSetWormholeAddress _ _) = SetWormholeAddress_name"
| "action_name (EvmExecute _ _ _ _ _) = Execute_name"

fun action_chain :: "'pk PythGovernanceAction \<Rightarrow> string" where
  "action_chain (ExecutePostedVaa c _) = c"
| "action_chain (CosmosUpgradeContract c _) = c"
| "action_chain (UpgradeContract256Bit c _) = c"
| "action_chain (EvmUpgradeContract c _) = c"
| "action_chain (AuthorizeGovernanceDataSourceTransfer c _) = c"
| "action_chain (RequestGovernanceDataSourceTransfer c _) = c"
| "action_chain (SetDataSources c _) = c"
| "action_chain (SetFee c _ _) = c"
| "action_chain (SetFeeInToken c _ _ _) = c"
| "action_chain (SetValidPeriod c _) = c"
| "action_chain (EvmSetWormholeAddress c _) = c"
| "action_chain (StarknetSetWormholeAddress c _) = c"
| "action_chain (EvmExecute c _ _ _ _) = c"

definition source_bytes :: "DataSource \<Rightarrow> bytes" where
  "source_bytes s = be_bytes 2 (emitterChain s) @ from_hex (emitterAddress s)"

definition meta_bytes :: "('pk \<Rightarrow> bytes) \<Rightarrow> 'pk account_meta \<Rightarrow> bytes" where
  "meta_bytes key m =
     key (am_pubkey m) @ [of_bool (am_isSigner m), of_bool (am_isWritable m)]"

definition instruction_bytes :: "('pk \<Rightarrow> bytes) \<Rightarrow> 'pk instruction \<Rightarrow> bytes" where
  "instruction_bytes key ix =
     key (ix_programId ix) @ le_bytes 4 (length (ix_keys ix)) @ concat (map (meta_bytes key) (ix_keys ix))
       @ le_bytes 4 (length (ix_data ix)) @ ix_data ix"

fun payload_bytes :: "('pk \<Rightarrow> bytes) \<Rightarrow> 'pk PythGovernanceAction \<Rightarrow> bytes" where
  "payload_bytes key (ExecutePostedVaa _ ixs) =
     le_bytes 4 (length ixs) @ concat (map (instruction_bytes key) ixs)"
| "payload_bytes key (CosmosUpgradeContract _ n) = be_bytes 8 (nat n)"
| "payload_bytes key (UpgradeContract256Bit _ h) = from_hex h"
| "payload_bytes key (EvmUpgradeContract _ h) = from_hex h"
| "payload_bytes key (AuthorizeGovernanceDataSourceTransfer _ vaa) = vaa"
| "payload_bytes key (RequestGovernanceDataSourceTransfer _ n) = be_bytes 4 (nat n)"
| "payload_bytes key (SetDataSources _ ss) = of_nat (length ss) # concat (map source_bytes ss)"
| "payload_bytes key (SetFee _ v e) = be_bytes 8 (nat v) @ be_bytes 8 (nat e)"
| "payload_bytes key (SetFeeInToken _ v e tok) =
     be_bytes 8 (nat v) @ be_bytes 8 (nat e) @ of_nat (length tok) # tok"
| "payload_bytes key (SetValidPeriod _ n) = be_bytes 8 (nat n)"
| "payload_bytes key (EvmSetWormholeAddress _ h) = from_hex h"
| "payload_bytes key (StarknetSetWormholeAddress _ h) = from_hex h"
| "payload_bytes key (EvmExecute _ ea ca v d) = from_hex ea @ from_hex ca @ be_bytes 32 (nat v) @ d"

text \<open>Well-formed actions: integers in range, hexadecimal fields in canonical lower case and of
  the right width, and instruction lists that fit a Solana packet.\<close>

definition hex_of :: "nat \<Rightarrow> string \<Rightarrow> bool" where
  "hex_of n s \<longleftrightarrow> to_hex (from_hex s) = s \<and> length s = 2 * n"

definition fits :: "nat \<Rightarrow> int \<Rightarrow> bool" where
  "fits w i \<longleftrightarrow> 0 \<le> i \<and> i < 256 ^ w"

definition source_wf :: "DataSource \<Rightarrow> bool" where
  "source_wf s \<longleftrightarrow> emitterChain s < 65536 \<and> hex_of 32 (emitterAddress s)"

fun wf_action :: "('pk \<Rightarrow> bytes) \<Rightarrow> 'pk PythGovernanceAction \<Rightarrow> bool" where
  "wf_action key (ExecutePostedVaa c ixs) \<longleftrightarrow> length (payload_bytes key (ExecutePostedVaa c ixs)) \<le> 1232"
| "wf_action key (CosmosUpgradeContract _ n) \<longleftrightarrow> fits 8 n"
| "wf_action key (UpgradeContract256Bit _ h) \<longleftrightarrow> hex_of 32 h"
| "wf_action key (EvmUpgradeContract _ h) \<longleftrightarrow> hex_of 20 h"
| "wf_action key (AuthorizeGovernanceDataSourceTransfer _ _) \<longleftrightarrow> True"
| "wf_action key (RequestGovernanceDataSourceTransfer _ n) \<longleftrightarrow> fits 4 n"
| "wf_action key (SetDataSources _ ss) \<longleftrightarrow>
     length ss < 256 \<and> list_all source_wf ss"
| "wf_action key (SetFee _ v e) \<longleftrightarrow> fits 8 v \<and> fits 8 e"
| "wf_action key (SetFeeInToken _ v e tok) \<longleftrightarrow> fits 8 v \<and> fits 8 e \<and> length tok < 256"
| "wf_action key (SetValidPeriod _ n) \<longleftrightarrow> fits 8 n"
| "wf_action key (EvmSetWormholeAddress _ h) \<longleftrightarrow> hex_of 20 h"
| "wf_action key (StarknetSetWormholeAddress _ h) \<longleftrightarrow> hex_of 32 h"
| "wf_action key (EvmExecute _ ea ca v d) \<longleftrightarrow> hex_of 20 ea \<and> hex_of 20 ca \<and> fits 32 v"

text \<open>A chain the registry knows under one name, with an identifier of 16 bits.\<close>

definition chain_ok :: "chain_table \<Rightarrow> string \<Rightarrow> nat \<Rightarrow> bool" where
  "chain_ok wh c i \<longleftrightarrow>
     toChainId wh c = Some i \<and> toChainName wh i = Some c \<and> i < 65536 \<and> c \<noteq> []"

lemma length_header_bytes [simp]: "length (header_bytes a i) = 8"
  by (simp add: header_bytes_def)

lemma hex_ofD:
  assumes "hex_of n s"
  shows "length (from_hex s) = n" "to_hex (from_hex s) = s"
  using assms length_to_hex [of "from_hex s"] by (auto simp: hex_of_def)

lemma fitsD:
  assumes "fits w i"
  shows "int (nat i) = i" "nat i < 256 ^ w"
  using assms by (auto simp: fits_def nat_less_iff)

lemma toActionName_of: "toActionName (int (module_of a)) (int (action_of a)) = Some a"
  by (cases a) (simp_all add: toActionName_def MODULE_EXECUTOR_def MODULE_TARGET_def MODULE_EVM_EXECUTOR_def)

lemma toActionName_Some:
  assumes "toActionName m n = Some a"
  shows "m = int (module_of a)" "n = int (action_of a)"
  using assms
  by (auto simp: toActionName_def MODULE_EXECUTOR_def MODULE_TARGET_def MODULE_EVM_EXECUTOR_def
      split: if_splits)

lemma module_action_less: "module_of a < 256" "action_of a < 256"
  by (cases a; simp)+

lemma le_bytes_MAGIC: "le_bytes 4 MAGIC_NUMBER = [0x50, 0x54, 0x47, 0x4d]"
  by (simp add: MAGIC_NUMBER_def le_bytes_numeral)

section \<open>The header\<close>

locale governance_codec = buffer_layout L + web3 W
  for L :: buffer_layout_lib and W :: "'pk web3_lib" +
  fixes wh :: chain_table
begin

lemmas layout_properties = properties u64be_def u256be_def hexBytes_def UIntBE_def HexBytes_def

lemma header_fields_ok:
  assumes "m < 256" "n < 256" "i < 65536" "magic < 4294967296"
  shows "lays_out (header_layout L)
     (JObj [(''magicNumber'', JNum (int magic)), (''module'', JNum (int m)),
            (''action'', JNum (int n)), (''chain'', JNum (int i))])
     (le_bytes 4 magic @ [of_nat m, of_nat n] @ be_bytes 2 i)"
  using struct_ok [of "[(bl_u32 L (Some ''magicNumber''), JNum (int magic), le_bytes 4 magic),
      (bl_u8 L (Some ''module''), JNum (int m), [of_nat m]),
      (bl_u8 L (Some ''action''), JNum (int n), [of_nat n]),
      (bl_u16be L (Some ''chain''), JNum (int i), be_bytes 2 i)]" "Some ''header''"]
  by (simp add: header_layout_def u32 u8 u16be assms properties)

lemma header_encode_ok:
  assumes "toChainId wh c = Some i" "i < 65536"
  shows "header_encode wh L W \<lparr> h_targetChainId = c, h_action = a \<rparr> = Inr (header_bytes a i)"
proof -
  have lay: "lays_out (header_layout L)
     (JObj [(''magicNumber'', JNum (int MAGIC_NUMBER)), (''module'', JNum (int (module_of a))),
            (''action'', JNum (int (action_of a))), (''chain'', JNum (int i))]) (header_bytes a i)"
    using header_fields_ok [OF module_action_less assms(2), of MAGIC_NUMBER]
    by (simp add: header_bytes_def le_bytes_MAGIC) (simp add: MAGIC_NUMBER_def)
  have "replicate 1232 0 = [] @ replicate 8 0 @ (replicate 1224 0 :: bytes)"
    by (simp flip: replicate_add)
  then have "l_encode (header_layout L)
     (JObj [(''magicNumber'', JNum (int MAGIC_NUMBER)), (''module'', JNum (int (module_of a))),
            (''action'', JNum (int (action_of a))), (''chain'', JNum (int i))])
     (replicate 1232 0) 0 = Inr (header_bytes a i @ replicate 1224 0, 8)"
    using lays_out_encode [OF lay, of "replicate 8 0" 0 "[]" "replicate 1224 0"] by simp
  then show ?thesis
    by (cases a) (simp_all add: header_encode_def packet_data_size assms(1) subarray_def
        MODULE_EXECUTOR_def MODULE_TARGET_def MODULE_EVM_EXECUTOR_def)
qed

lemma header_decode_ok:
  assumes "toChainName wh i = Some c" "i < 65536" "c \<noteq> []"
  shows "header_decode wh L (header_bytes a i @ rest) = Some \<lparr> h_targetChainId = c, h_action = a \<rparr>"
proof -
  have "l_decode (header_layout L) ([] @ header_bytes a i @ rest) 0 = Inr
     (JObj [(''magicNumber'', JNum (int MAGIC_NUMBER)), (''module'', JNum (int (module_of a))),
            (''action'', JNum (int (action_of a))), (''chain'', JNum (int i))])"
    by (rule lays_out_decode)
      (use header_fields_ok [OF module_action_less assms(2), of MAGIC_NUMBER a a] in
        \<open>simp_all add: header_bytes_def le_bytes_MAGIC\<close>, simp add: MAGIC_NUMBER_def)
  then show ?thesis
    by (simp add: header_decode_def safeLayoutDecode_def js_get_def assms toActionName_of)
qed

text \<open>Conversely, the decoder accepts nothing else.\<close>

lemma header_decode_fields:
  "l_decode (header_layout L) (a # b # c # d # m # n # x # y # rest) 0 = Inr
     (JObj [(''magicNumber'', JNum (int (le_nat [a, b, c, d]))),
            (''module'', JNum (int (unat m))), (''action'', JNum (int (unat n))),
            (''chain'', JNum (int (be_nat [x, y])))])"
proof -
  have "le_nat [a, b, c, d] < 4294967296" "be_nat [x, y] < 65536"
    using le_nat_less [of "[a, b, c, d]"] be_nat_less [of "[x, y]"] by simp_all
  note ok = header_fields_ok [OF unat_byte_less [of m] unat_byte_less [of n] this(2,1)]
  have "le_bytes 4 (le_nat [a, b, c, d]) = [a, b, c, d]" "be_bytes 2 (be_nat [x, y]) = [x, y]"
    by (rule bytes_nat_inverse; simp)+
  with lays_out_decode [OF ok, of 0 "[]" rest] show ?thesis by simp
qed

lemma header_decode_short:
  assumes "length data < 8"
  shows "header_decode wh L data = None"
proof (cases "l_decode (header_layout L) data 0")
  case (Inr v)
  have s8: "l_getSpan (bl_u8 L p) data k = Inr 1" if "k < length data" for k p
    using lays_out_getSpan [OF u8 [OF unat_byte_less, of p "data ! k"], of k "take k data" "drop (Suc k) data"] that
    by (simp add: id_take_nth_drop [symmetric])
  have s32: "l_getSpan (bl_u32 L p) data 0 = Inr 4" if "4 \<le> length data" for p
  proof -
    have "length (take 4 data) = 4" using that by simp
    then have "le_nat (take 4 data) < 4294967296" "le_bytes 4 (le_nat (take 4 data)) = take 4 data"
      using le_nat_less [of "take 4 data"] le_bytes_le_nat [of "take 4 data"] by simp_all
    with lays_out_getSpan [OF u32, of "le_nat (take 4 data)" 0 "[]" p "drop 4 data"] that
    show ?thesis by simp
  qed
  from Inr assms show ?thesis
    using u32_short [of data 0 "Some ''magicNumber''"] u8_short [of data 4 "Some ''module''"]
      u8_short [of data 5 "Some ''action''"] u16be_short [of data 6 "Some ''chain''"]
      s32 s8
    by (cases "length data < 4"; cases "length data < 5"; cases "length data < 6")
      (auto simp: header_layout_def struct_decode bindR_Inr_iff)
qed (simp add: header_decode_def safeLayoutDecode_def)

lemma header_decode_only:
  assumes "header_decode wh L data = Some h"
  shows "\<exists>i rest. data = header_bytes (h_action h) i @ rest \<and> i < 65536
           \<and> toChainName wh i = Some (h_targetChainId h)"
proof -
  from assms header_decode_short have "8 \<le> length data"
    by (cases "length data < 8") simp_all
  then obtain a b c d m n x y rest where data: "data = a # b # c # d # m # n # x # y # rest"
    by (auto simp: numeral_eq_Suc Suc_le_length_iff)
  from assms have mag: "le_nat [a, b, c, d] = MAGIC_NUMBER"
    and act: "toActionName (int (unat m)) (int (unat n)) = Some (h_action h)"
    and chain: "toChainName wh (be_nat [x, y]) = Some (h_targetChainId h)"
    by (auto simp: header_decode_def data safeLayoutDecode_def header_decode_fields js_get_def
        simp del: le_nat.simps split: option.splits if_splits)
  have "[a, b, c, d] = [0x50, 0x54, 0x47, 0x4d]"
    using bytes_nat_inverse(1) [of "[a, b, c, d]" 4] le_bytes_MAGIC mag by (simp del: le_nat.simps)
  moreover have "unat m = module_of (h_action h)" "unat n = action_of (h_action h)"
    using toActionName_Some [OF act] by (simp_all only: of_nat_eq_iff)
  then have "m = of_nat (module_of (h_action h))" "n = of_nat (action_of (h_action h))"
    by (simp_all flip: \<open>unat m = _\<close> \<open>unat n = _\<close>)
  moreover have "be_bytes 2 (be_nat [x, y]) = [x, y]" "be_nat [x, y] < 65536"
    using bytes_nat_inverse(2) [of "[x, y]" 2] be_nat_less [of "[x, y]"] by simp_all
  ultimately show ?thesis
    using chain by (intro exI [of _ "be_nat [x, y]"] exI [of _ rest]) (simp add: data header_bytes_def)
qed

section \<open>Actions with a layout\<close>

lemma encodeWithPayload_ok:
  assumes "toChainId wh c = Some i" "i < 65536" "lays_out lay v bs" "0 \<le> l_span lay"
  shows "encodeWithPayload wh L W c a lay v = Inr (header_bytes a i @ bs)"
proof -
  have "nat (l_span lay) = length bs" using lays_out_span [OF assms(3,4)] by simp
  then have "l_encode lay v (replicate (nat (l_span lay)) 0) 0 = Inr (bs, length bs)"
    using lays_out_encode [OF assms(3), of "replicate (length bs) 0" 0 "[]" "[]"] by simp
  then show ?thesis by (simp add: encodeWithPayload_def header_encode_ok [OF assms(1,2)])
qed

lemma decodeWithPayload_ok:
  assumes "chain_ok wh c i" "lays_out lay v bs"
  shows "decodeWithPayload wh L (header_bytes a i @ bs) a lay
           = Some (\<lparr> h_targetChainId = c, h_action = a \<rparr>, v)"
proof -
  have "l_decode lay bs 0 = Inr v"
    using lays_out_decode [OF assms(2), of 0 "[]" "[]"] by simp
  then show ?thesis
    using assms(1)
    by (simp add: decodeWithPayload_def chain_ok_def header_decode_ok safeLayoutDecode_def
        subarray_def header_span_def)
qed

lemma big_fits:
  assumes "fits w n"
  shows "lays_out (UIntBE L w p) (JBig n) (be_bytes w (nat n))"
  using UIntBE_ok [of "nat n" w p] fitsD [OF assms] by simp

lemma hex_fits:
  assumes "hex_of w s"
  shows "lays_out (hexBytes L w p) (JStr s) (from_hex s)"
  using hexBytes_ok [of "from_hex s" w p] hex_ofD [OF assms] by simp

lemma one_field:
  assumes "lays_out f v bs" "l_property f = Some k"
  shows "lays_out (bl_struct L [f] p) (JObj [(k, v)]) bs"
  using struct_ok [of "[(f, v, bs)]" p] assms by simp

lemmas layout_defs = CosmosUpgradeContract_layout_def UpgradeContract256Bit_layout_def
  EvmUpgradeContract_layout_def RequestGovernanceDataSourceTransfer_layout_def
  SetFee_layout_def SetValidPeriod_layout_def EvmSetWormholeAddress_layout_def
  StarknetSetWormholeAddress_layout_def SetFeeInToken_layout_def DataSourceLayout_def
  EvmExecute_layout_with_known_span_def

lemma field_spans: "l_span (UIntBE L w p) = int w" "l_span (hexBytes L w p) = int w"
  by (simp_all add: UIntBE_def hexBytes_def HexBytes_def)

lemma layout_spans [simp]:
  "l_span (CosmosUpgradeContract_layout L) = 8"
  "l_span (UpgradeContract256Bit_layout L) = 32"
  "l_span (EvmUpgradeContract_layout L) = 20"
  "l_span (RequestGovernanceDataSourceTransfer_layout L) = 4"
  "l_span (SetFee_layout L) = 16"
  "l_span (SetValidPeriod_layout L) = 8"
  "l_span (EvmSetWormholeAddress_layout L) = 20"
  "l_span (StarknetSetWormholeAddress_layout L) = 32"
  "l_span (SetFeeInToken_layout L) = 17"
  "l_span (DataSourceLayout L) = 34"
  "l_span (EvmExecute_layout_with_known_span L n) = 72 + int n"
  by (simp_all add: layout_defs struct_span sum_spans_def field_spans u64be_def u256be_def
      uint_spans blob_span)

lemma property_simps [simp]:
  "l_property (UIntBE L w p) = p" "l_property (hexBytes L w p) = p"
  by (simp_all add: UIntBE_def hexBytes_def HexBytes_def)

lemma simple_layouts_ok:
  "fits 8 n \<Longrightarrow> lays_out (CosmosUpgradeContract_layout L) (JObj [(''codeId'', JBig n)]) (be_bytes 8 (nat n))"
  "hex_of 32 h \<Longrightarrow> lays_out (UpgradeContract256Bit_layout L) (JObj [(''hash'', JStr h)]) (from_hex h)"
  "hex_of 20 h \<Longrightarrow> lays_out (EvmUpgradeContract_layout L) (JObj [(''address'', JStr h)]) (from_hex h)"
  "fits 8 n \<Longrightarrow> lays_out (SetValidPeriod_layout L) (JObj [(''newValidPeriod'', JBig n)]) (be_bytes 8 (nat n))"
  "hex_of 20 h \<Longrightarrow> lays_out (EvmSetWormholeAddress_layout L) (JObj [(''address'', JStr h)]) (from_hex h)"
  "hex_of 32 h \<Longrightarrow> lays_out (StarknetSetWormholeAddress_layout L) (JObj [(''address'', JStr h)]) (from_hex h)"
  by (simp_all add: layout_defs u64be_def one_field big_fits hex_fits)

lemma request_layout_ok:
  assumes "fits 4 n"
  shows "lays_out (RequestGovernanceDataSourceTransfer_layout L)
    (JObj [(''governanceDataSourceIndex'', JNum n)]) (be_bytes 4 (nat n))"
  using one_field [OF u32be [of "nat n"], of "Some ''governanceDataSourceIndex''"]
    fitsD [OF assms] by (simp add: layout_defs properties)

lemma fee_layouts_ok:
  assumes "fits 8 v" "fits 8 e"
  shows "lays_out (SetFee_layout L) (JObj [(''newFeeValue'', JBig v), (''newFeeExpo'', JBig e)])
      (be_bytes 8 (nat v) @ be_bytes 8 (nat e))"
    and "n < 256 \<Longrightarrow> lays_out (SetFeeInToken_layout L)
      (JObj [(''newFeeValue'', JBig v), (''newFeeExpo'', JBig e), (''tokenLen'', JNum (int n))])
      (be_bytes 8 (nat v) @ be_bytes 8 (nat e) @ [of_nat n])"
  using struct_ok [of "[(u64be L (Some ''newFeeValue''), JBig v, be_bytes 8 (nat v)),
      (u64be L (Some ''newFeeExpo''), JBig e, be_bytes 8 (nat e))]" None]
    struct_ok [of "[(u64be L (Some ''newFeeValue''), JBig v, be_bytes 8 (nat v)),
      (u64be L (Some ''newFeeExpo''), JBig e, be_bytes 8 (nat e)),
      (bl_u8 L (Some ''tokenLen''), JNum (int n), [of_nat n])]" None]
  by (simp_all add: layout_defs u64be_def big_fits assms u8 properties)

lemma source_layout_ok:
  assumes "emitterChain s < 65536" "hex_of 32 (emitterAddress s)"
  shows "lays_out (DataSourceLayout L)
    (JObj [(''emitterChain'', JNum (int (emitterChain s))), (''emitterAddress'', JStr (emitterAddress s))])
    (source_bytes s)"
  using struct_ok [of "[(bl_u16be L (Some ''emitterChain''), JNum (int (emitterChain s)), be_bytes 2 (emitterChain s)),
      (hexBytes L 32 (Some ''emitterAddress''), JStr (emitterAddress s), from_hex (emitterAddress s))]" None]
  by (simp add: layout_defs source_bytes_def u16be hex_fits assms properties)

lemma execute_layout_encodes:
  assumes "hex_of 20 ea" "hex_of 20 ca" "fits 32 v"
  shows "lays_out (EvmExecute_layout_with_known_span L (length d))
    (JObj [(''executorAddress'', JStr ea), (''callAddress'', JStr ca), (''value'', JBig v), (''calldata'', JBytes d)])
    (from_hex ea @ from_hex ca @ be_bytes 32 (nat v) @ d)"
  using struct_ok [of "[(hexBytes L 20 (Some ''executorAddress''), JStr ea, from_hex ea),
      (hexBytes L 20 (Some ''callAddress''), JStr ca, from_hex ca),
      (u256be L (Some ''value''), JBig v, be_bytes 32 (nat v)),
      (bl_blob L (length d) (Some ''calldata''), JBytes d, d)]" None]
  by (simp add: layout_defs u256be_def big_fits hex_fits assms blob properties)

lemma execute_layout_decodes:
  assumes "hex_of 20 ea" "hex_of 20 ca" "fits 32 v"
  shows "l_decode (EvmExecute_layout L) (from_hex ea @ from_hex ca @ be_bytes 32 (nat v) @ d) 0 = Inr
    (JObj [(''executorAddress'', JStr ea), (''callAddress'', JStr ca), (''value'', JBig v), (''calldata'', JBytes d)])"
proof -
  let ?rs = "[(hexBytes L 20 (Some ''executorAddress''), JStr ea, from_hex ea),
      (hexBytes L 20 (Some ''callAddress''), JStr ca, from_hex ca),
      (u256be L (Some ''value''), JBig v, be_bytes 32 (nat v))]"
  have "rows_ok ?rs" by (simp add: u256be_def big_fits hex_fits assms)
  from decode_fields_append [OF this, of 0 "[]" "[bl_greedy_blob L (Some ''calldata'')]" d]
  show ?thesis
    by (simp add: EvmExecute_layout_def struct_decode greedy_decode greedy_getSpan properties
        hex_ofD(1) [OF assms(1)] hex_ofD(1) [OF assms(2)] u256be_def)
qed

section \<open>Instruction lists\<close>

lemma Vector_rows:
  assumes "list_all2 (lays_out e) vs bss" "length vs < 4294967296"
  shows "lays_out (bl_struct L [bl_u32 L (Some ''length''), bl_seq L e (length vs) (Some ''elements'')] None)
    (JObj [(''length'', JNum (int (length vs))), (''elements'', JArr vs)])
    (le_bytes 4 (length vs) @ concat bss)"
  using struct_ok [of "[(bl_u32 L (Some ''length''), JNum (int (length vs)), le_bytes 4 (length vs)),
      (bl_seq L e (length vs) (Some ''elements''), JArr vs, concat bss)]" None]
  by (simp add: u32 seq_ok assms properties)

lemma Vector_encode:
  assumes "list_all2 (lays_out e) vs bss" "length vs < 4294967296"
    and "length mid = 4 + length (concat bss)" "offs = length pre"
  shows "l_encode (Vector L e p) (JArr vs) (pre @ mid @ post) offs =
    Inr (pre @ (le_bytes 4 (length vs) @ concat bss) @ post, 4 + length (concat bss))"
  using lays_out_encode [OF Vector_rows [OF assms(1,2)], of mid offs pre post] assms(3,4)
  by (simp add: Vector_def)

lemma Vector_decode:
  assumes "list_all2 (lays_out e) vs bss" "length vs < 4294967296" "offs = length pre"
  shows "l_decode (Vector L e p) (pre @ (le_bytes 4 (length vs) @ concat bss) @ post) offs = Inr (JArr vs)"
  using lays_out_decode [OF u32 [OF assms(2)], of offs pre None "concat bss @ post"]
    decode_seq_rows [OF assms(1), of "offs + 4" "pre @ le_bytes 4 (length vs)" post] assms(3)
  by (simp add: Vector_def seq_decode)

lemma Vector_ok:
  assumes "list_all2 (lays_out e) vs bss" "length vs < 4294967296" "0 \<le> l_span e"
  shows "lays_out (Vector L e p) (JArr vs) (le_bytes 4 (length vs) @ concat bss)"
proof (rule lays_outI)
  have "int (length (concat bss)) = int (length vs) * l_span e"
    using assms(1,3)
    by (induction vs bss rule: list_all2_induct) (auto simp: lays_out_span algebra_simps)
  then show "l_getSpan (Vector L e p) (pre @ (le_bytes 4 (length vs) @ concat bss) @ post) (length pre) =
      Inr (int (length (le_bytes 4 (length vs) @ concat bss)))" for pre post
    using lays_out_decode [OF u32 [OF assms(2)], of "length pre" pre None "concat bss @ post"]
    by (simp add: Vector_def algebra_simps)
qed (use Vector_encode [OF assms(1,2)] Vector_decode [OF assms(1,2)] in \<open>simp_all add: Vector_def\<close>)

lemma meta_layout_ok: "lays_out (accountMetaLayout L) (encode_account_meta W m) (meta_bytes (w3_toBytes W) m)"
  using struct_ok [of "[(bl_blob L 32 (Some ''pubkey''), JBytes (w3_toBytes W (am_pubkey m)), w3_toBytes W (am_pubkey m)),
      (bl_u8 L (Some ''isSigner''), JNum (int (of_bool (am_isSigner m))), [of_nat (of_bool (am_isSigner m))]),
      (bl_u8 L (Some ''isWritable''), JNum (int (of_bool (am_isWritable m))), [of_nat (of_bool (am_isWritable m))])]" None]
    u8 [of "of_bool (am_isSigner m)" "Some ''isSigner''"] u8 [of "of_bool (am_isWritable m)" "Some ''isWritable''"]
  by (auto simp: accountMetaLayout_def encode_account_meta_def meta_bytes_def blob toBytes_length properties
      split: if_splits)

lemma instruction_layout_ok:
  assumes "length (ix_keys ix) < 4294967296" "length (ix_data ix) < 4294967296"
  shows "lays_out (instructionDataLayout L) (encode_instruction W ix) (instruction_bytes (w3_toBytes W) ix)"
proof -
  have metas: "list_all2 (lays_out (accountMetaLayout L)) (map (encode_account_meta W) (ix_keys ix))
      (map (meta_bytes (w3_toBytes W)) (ix_keys ix))"
    by (simp add: list_all2_map1 list_all2_map2 list_all2_refl meta_layout_ok)
  have u8s: "lays_out (bl_u8 L None) (JNum (uint b)) [b]" for b :: byte
    using u8 [OF unat_byte_less, of None b] by simp
  have data: "list_all2 (lays_out (bl_u8 L None)) (map (\<lambda>b. JNum (uint b)) (ix_data ix)) (map (\<lambda>b. [b]) (ix_data ix))"
    by (simp add: list_all2_map1 list_all2_map2 list_all2_refl u8s)
  have "lays_out (Vector L (accountMetaLayout L) (Some ''accounts'')) (JArr (map (encode_account_meta W) (ix_keys ix)))
      (le_bytes 4 (length (ix_keys ix)) @ concat (map (meta_bytes (w3_toBytes W)) (ix_keys ix)))"
    using Vector_ok [OF metas, of "Some ''accounts''"] assms(1)
    by (simp add: accountMetaLayout_def struct_span sum_spans_def blob_span uint_spans)
  moreover have "lays_out (Vector L (bl_u8 L None) (Some ''data'')) (JArr (map (\<lambda>b. JNum (uint b)) (ix_data ix)))
      (le_bytes 4 (length (ix_data ix)) @ ix_data ix)"
    using Vector_ok [OF data, of "Some ''data''"] assms(2) by (simp add: uint_spans)
  ultimately show ?thesis
    using struct_ok [of "[(bl_blob L 32 (Some ''programId''), JBytes (w3_toBytes W (ix_programId ix)), w3_toBytes W (ix_programId ix)),
      (Vector L (accountMetaLayout L) (Some ''accounts''), JArr (map (encode_account_meta W) (ix_keys ix)),
        le_bytes 4 (length (ix_keys ix)) @ concat (map (meta_bytes (w3_toBytes W)) (ix_keys ix))),
      (Vector L (bl_u8 L None) (Some ''data''), JArr (map (\<lambda>b. JNum (uint b)) (ix_data ix)),
        le_bytes 4 (length (ix_data ix)) @ ix_data ix)]" None]
    by (simp add: instructionDataLayout_def encode_instruction_def instruction_bytes_def blob toBytes_length
        properties Vector_def)
qed

lemma length_meta_bytes: "length (meta_bytes (w3_toBytes W) m) = 34"
  by (simp add: meta_bytes_def toBytes_length)

lemma decode_encode_meta: "decode_account_meta W (encode_account_meta W m) = Inr m"
  by (simp add: decode_account_meta_def encode_account_meta_def js_get_def new_toBytes)

lemma decode_encode_instruction: "decode_instruction W (encode_instruction W ix) = Inr ix"
proof -
  have "mapR (decode_account_meta W) (map (encode_account_meta W) ms) = Inr ms" for ms
    by (induction ms) (simp_all add: decode_encode_meta)
  then show ?thesis
    by (simp add: decode_instruction_def encode_instruction_def js_get_def new_toBytes comp_def)
qed

lemma length_instruction_bytes:
  "length (instruction_bytes (w3_toBytes W) ix) = 40 + 34 * length (ix_keys ix) + length (ix_data ix)"
proof -
  have "length (concat (map (meta_bytes (w3_toBytes W)) ms)) = 34 * length ms" for ms
    by (induction ms) (simp_all add: length_meta_bytes)
  then show ?thesis by (simp add: instruction_bytes_def toBytes_length)
qed

lemma instructions_ok:
  assumes "length (concat (map (instruction_bytes (w3_toBytes W)) ixs)) \<le> 1228"
  shows "list_all2 (lays_out (instructionDataLayout L)) (map (encode_instruction W) ixs)
      (map (instruction_bytes (w3_toBytes W)) ixs)" "length ixs < 4294967296"
proof -
  have "length (instruction_bytes (w3_toBytes W) ix) \<le> 1228" if "ix \<in> set ixs" for ix
  proof -
    have "length (instruction_bytes (w3_toBytes W) ix)
        \<le> sum_list (map length (map (instruction_bytes (w3_toBytes W)) ixs))"
      using that by (auto intro: member_le_sum_list)
    with assms show ?thesis by (simp add: length_concat)
  qed
  then have "lays_out (instructionDataLayout L) (encode_instruction W ix) (instruction_bytes (w3_toBytes W) ix)"
    if "ix \<in> set ixs" for ix
    using that by (fastforce simp: length_instruction_bytes intro!: instruction_layout_ok)
  then show "list_all2 (lays_out (instructionDataLayout L)) (map (encode_instruction W) ixs)
      (map (instruction_bytes (w3_toBytes W)) ixs)"
    by (simp add: list_all2_map1 list_all2_map2 list_all2_same)
  have "length xs \<le> length (concat (map (instruction_bytes (w3_toBytes W)) xs))" for xs
    by (induction xs) (simp_all add: length_instruction_bytes)
  from this [of ixs] assms show "length ixs < 4294967296" by linarith
qed

lemma ExecutePostedVaa_encode_ok:
  assumes "toChainId wh c = Some i" "i < 65536"
    and "length (payload_bytes (w3_toBytes W) (ExecutePostedVaa c ixs)) \<le> 1232"
  shows "ExecutePostedVaa_encode wh L W c ixs
    = Inr (header_bytes ExecutePostedVaa_name i @ payload_bytes (w3_toBytes W) (ExecutePostedVaa c ixs))"
proof -
  let ?bs = "concat (map (instruction_bytes (w3_toBytes W)) ixs)"
  have len: "length ?bs \<le> 1228" using assms(3) by simp
  have "replicate 1232 0 = [] @ replicate (4 + length ?bs) 0 @ (replicate (1228 - length ?bs) 0 :: bytes)"
    using len by (simp flip: replicate_add)
  then have "l_encode (ExecutePostedVaa_layout L) (JArr (map (encode_instruction W) ixs)) (replicate 1232 0) 0
      = Inr ((le_bytes 4 (length ixs) @ ?bs) @ replicate (1228 - length ?bs) 0, 4 + length ?bs)"
    using Vector_encode [OF instructions_ok(1) [OF len], of "replicate (4 + length ?bs) 0" 0 "[]"
        "Some ''instructions''" "replicate (1228 - length ?bs) 0"] instructions_ok(2) [OF len]
    by (simp add: ExecutePostedVaa_layout_def)
  then show ?thesis
    by (simp add: ExecutePostedVaa_encode_def header_encode_ok [OF assms(1,2)] packet_data_size subarray_def)
qed

lemma ExecutePostedVaa_decode_ok:
  assumes "chain_ok wh c i"
    and "length (payload_bytes (w3_toBytes W) (ExecutePostedVaa c ixs)) \<le> 1232"
  shows "ExecutePostedVaa_decode wh L W
      (header_bytes ExecutePostedVaa_name i @ payload_bytes (w3_toBytes W) (ExecutePostedVaa c ixs))
    = Inr (Some (ExecutePostedVaa c ixs))"
proof -
  let ?bs = "concat (map (instruction_bytes (w3_toBytes W)) ixs)"
  have len: "length ?bs \<le> 1228" using assms(2) by simp
  have "l_decode (ExecutePostedVaa_layout L) (le_bytes 4 (length ixs) @ ?bs) 0
      = Inr (JArr (map (encode_instruction W) ixs))"
    using Vector_decode [OF instructions_ok(1) [OF len], of 0 "[]" "Some ''instructions''" "[]"]
      instructions_ok(2) [OF len]
    by (simp add: ExecutePostedVaa_layout_def)
  moreover have "mapR (decode_instruction W) (map (encode_instruction W) xs) = Inr xs" for xs
    by (induction xs) (simp_all add: decode_encode_instruction)
  ultimately show ?thesis
    using assms(1)
    by (simp add: ExecutePostedVaa_decode_def chain_ok_def header_decode_ok header_span_def safeLayoutDecode_def)
qed

section \<open>Data sources\<close>

lemma length_source_bytes: "source_wf s \<Longrightarrow> length (source_bytes s) = 34"
  by (simp add: source_wf_def source_bytes_def hex_ofD)

lemma encode_data_source_ok:
  assumes "source_wf s"
  shows "encode_data_source L s = Inr (source_bytes s)"
  using lays_out_encode [OF source_layout_ok, of s "replicate 34 0" 0 "[]" "[]"] assms
    length_source_bytes [OF assms]
  by (simp add: encode_data_source_def source_wf_def)

lemma SetDataSources_encode_ok:
  assumes "toChainId wh c = Some i" "i < 65536" "length ss < 256" "list_all source_wf ss"
  shows "SetDataSources_encode wh L W c ss = Inr (header_bytes SetDataSources_name i
    @ of_nat (length ss) # concat (map source_bytes ss))"
proof -
  have "mapR (encode_data_source L) ss = Inr (map source_bytes ss)"
    using assms(4) by (intro mapR_Inr_map) (auto simp: list_all_iff encode_data_source_ok)
  then show ?thesis
    using lays_out_encode [OF u8 [OF assms(3)], of "[0]" 0 "[]" None "[]"]
    by (simp add: SetDataSources_encode_def header_encode_ok [OF assms(1,2)])
qed

lemma decode_data_sources_ok:
  "list_all source_wf ss \<Longrightarrow> index = length pre \<Longrightarrow>
   decode_data_sources L (pre @ concat (map source_bytes ss) @ post) index (length ss) = Inr ss"
proof (induction ss arbitrary: pre index)
  case (Cons s ss)
  from Cons.prems have wf: "source_wf s" and wfs: "list_all source_wf ss" by simp_all
  from Cons.IH [OF wfs, of "index + 34" "pre @ source_bytes s"] Cons.prems(2) length_source_bytes [OF wf]
  have rest: "decode_data_sources L (pre @ source_bytes s @ concat (map source_bytes ss) @ post) (index + 34) (length ss) = Inr ss"
    by simp
  have "l_decode (DataSourceLayout L) (pre @ source_bytes s @ concat (map source_bytes ss) @ post) index = Inr
    (JObj [(''emitterChain'', JNum (int (emitterChain s))), (''emitterAddress'', JStr (emitterAddress s))])"
    by (rule lays_out_decode [OF source_layout_ok]) (use wf Cons.prems(2) in \<open>simp_all add: source_wf_def\<close>)
  with rest show ?case by (simp add: js_get_def)
qed simp

lemma SetDataSources_decode_ok:
  assumes "chain_ok wh c i" "length ss < 256" "list_all source_wf ss"
  shows "SetDataSources_decode wh L (header_bytes SetDataSources_name i
    @ of_nat (length ss) # concat (map source_bytes ss)) = Inr (Some (SetDataSources c ss))"
  using lays_out_decode [OF u8 [OF assms(2)], of 8 "header_bytes SetDataSources_name i" None "concat (map source_bytes ss)"]
    decode_data_sources_ok [OF assms(3), of 9 "header_bytes SetDataSources_name i @ [of_nat (length ss)]" "[]"]
    assms(1)
  by (simp add: SetDataSources_decode_def chain_ok_def header_decode_ok header_span_def)

section \<open>The whole codec\<close>

theorem encode_wire:
  assumes "toChainId wh (action_chain a) = Some i" "i < 65536" "wf_action (w3_toBytes W) a"
  shows "encode wh L W a = Inr (header_bytes (action_name a) i @ payload_bytes (w3_toBytes W) a)"
proof (cases a)
  case (SetDataSources c ss)
  then show ?thesis using assms SetDataSources_encode_ok [of c i ss] by simp
next
  case (SetFeeInToken c v e tok)
  with assms have "lays_out (SetFeeInToken_layout L)
      (JObj [(''newFeeValue'', JBig v), (''newFeeExpo'', JBig e), (''tokenLen'', JNum (int (length tok)))])
      (be_bytes 8 (nat v) @ be_bytes 8 (nat e) @ [of_nat (length tok)])"
    by (simp add: fee_layouts_ok)
  from lays_out_encode [OF this, of "replicate 17 0" 0 "[]" "[]"] SetFeeInToken show ?thesis
    using header_encode_ok assms by (simp add: SetFeeInToken_encode_def)
qed (use assms ExecutePostedVaa_encode_ok header_encode_ok in
  \<open>simp_all add: AuthorizeGovernanceDataSourceTransfer_encode_def CosmosUpgradeContract_encode_def
    UpgradeContract256Bit_encode_def EvmUpgradeContract_encode_def SetFee_encode_def SetValidPeriod_encode_def
    RequestGovernanceDataSourceTransfer_encode_def EvmSetWormholeAddress_encode_def
    StarknetSetWormholeAddress_encode_def EvmExecute_encode_def encodeWithPayload_ok simple_layouts_ok
    request_layout_ok fee_layouts_ok execute_layout_encodes\<close>)

lemma simple_decodes:
  assumes c: "chain_ok wh c i"
  shows "fits 8 n \<Longrightarrow> CosmosUpgradeContract_decode wh L (header_bytes UpgradeContract_name i @ be_bytes 8 (nat n))
      = Some (CosmosUpgradeContract c n)"
    and "hex_of 32 h \<Longrightarrow> UpgradeContract256Bit_decode wh L (header_bytes UpgradeContract_name i @ from_hex h)
      = Some (UpgradeContract256Bit c h)"
    and "hex_of 20 h \<Longrightarrow> EvmUpgradeContract_decode wh L (header_bytes UpgradeContract_name i @ from_hex h)
      = Some (EvmUpgradeContract c h)"
    and "fits 8 n \<Longrightarrow> SetValidPeriod_decode wh L (header_bytes SetValidPeriod_name i @ be_bytes 8 (nat n))
      = Some (SetValidPeriod c n)"
    and "hex_of 20 h \<Longrightarrow> EvmSetWormholeAddress_decode wh L (header_bytes SetWormholeAddress_name i @ from_hex h)
      = Some (EvmSetWormholeAddress c h)"
    and "hex_of 32 h \<Longrightarrow> StarknetSetWormholeAddress_decode wh L (header_bytes SetWormholeAddress_name i @ from_hex h)
      = Some (StarknetSetWormholeAddress c h)"
    and "fits 4 n \<Longrightarrow> RequestGovernanceDataSourceTransfer_decode wh L
      (header_bytes RequestGovernanceDataSourceTransfer_name i @ be_bytes 4 (nat n))
      = Some (RequestGovernanceDataSourceTransfer c n)"
    and "fits 8 v \<Longrightarrow> fits 8 e \<Longrightarrow> SetFee_decode wh L
      (header_bytes SetFee_name i @ be_bytes 8 (nat v) @ be_bytes 8 (nat e)) = Some (SetFee c v e)"
  using simple_layouts_ok [THEN decodeWithPayload_ok [OF c]] request_layout_ok [THEN decodeWithPayload_ok [OF c]]
    fee_layouts_ok(1) [THEN decodeWithPayload_ok [OF c]]
  by (simp_all add: js_get_def CosmosUpgradeContract_decode_def UpgradeContract256Bit_decode_def
      EvmUpgradeContract_decode_def SetFee_decode_def SetValidPeriod_decode_def
      RequestGovernanceDataSourceTransfer_decode_def EvmSetWormholeAddress_decode_def
      StarknetSetWormholeAddress_decode_def)

theorem decode_wire:
  assumes chain: "chain_ok wh (action_chain a) i" and wf: "wf_action (w3_toBytes W) a"
  shows "decodeGovernancePayload wh L W (header_bytes (action_name a) i @ payload_bytes (w3_toBytes W) a)
    = Inr (Some a)"
proof -
  have hdr: "header_decode wh L (header_bytes (action_name a) i @ payload_bytes (w3_toBytes W) a)
      = Some \<lparr> h_targetChainId = action_chain a, h_action = action_name a \<rparr>"
    using chain by (simp add: chain_ok_def header_decode_ok)
  note dispatch = decodeGovernancePayload_def hdr js_get_def
  show ?thesis
  proof (cases a)
    case (ExecutePostedVaa c ixs)
    with chain wf hdr ExecutePostedVaa_decode_ok [of c i ixs] show ?thesis by (simp add: dispatch)
  next
    case (SetDataSources c ss)
    with chain wf hdr show ?thesis by (simp add: dispatch SetDataSources_decode_ok)
  next
    case (SetFeeInToken c v e tok)
    with wf have "lays_out (SetFeeInToken_layout L)
      (JObj [(''newFeeValue'', JBig v), (''newFeeExpo'', JBig e), (''tokenLen'', JNum (int (length tok)))])
      (be_bytes 8 (nat v) @ be_bytes 8 (nat e) @ [of_nat (length tok)])"
      by (simp add: fee_layouts_ok)
    from lays_out_decode [OF this, of 8 "header_bytes SetFeeInToken_name i" tok] SetFeeInToken hdr
    show ?thesis by (simp add: dispatch SetFeeInToken_decode_def header_span_def)
  next
    case (EvmExecute c ea ca v d)
    with wf hdr execute_layout_decodes [of ea ca v d] show ?thesis
      by (simp add: dispatch EvmExecute_decode_def decodeWithPayload_def safeLayoutDecode_def
          subarray_def header_span_def)
  next
    case (AuthorizeGovernanceDataSourceTransfer c vaa)
    with hdr show ?thesis
      by (simp add: dispatch AuthorizeGovernanceDataSourceTransfer_decode_def subarray_def header_span_def)
  qed (use chain wf hdr in
    \<open>simp_all add: dispatch header_span_def hex_ofD(1) simple_decodes\<close>)
qed

section \<open>Errors\<close>

lemma header_encode_unknown:
  "toChainId wh c = None \<Longrightarrow>
   header_encode wh L W \<lparr> h_targetChainId = c, h_action = a \<rparr> = Inl (JsError ''Invalid chain id'')"
  by (simp add: header_encode_def Let_def split: option.split)

lemma encode_unknown_chain:
  assumes "toChainId wh (action_chain a) = None"
  shows "encode wh L W a = Inl (JsError ''Invalid chain id'')"
  using assms header_encode_unknown
  by (cases a) (simp_all add: encodeWithPayload_def ExecutePostedVaa_encode_def SetDataSources_encode_def
      SetFeeInToken_encode_def
      AuthorizeGovernanceDataSourceTransfer_encode_def CosmosUpgradeContract_encode_def
      UpgradeContract256Bit_encode_def EvmUpgradeContract_encode_def SetFee_encode_def SetValidPeriod_encode_def
      RequestGovernanceDataSourceTransfer_encode_def EvmSetWormholeAddress_encode_def
      StarknetSetWormholeAddress_encode_def EvmExecute_encode_def)

lemma too_many_sources:
  assumes "toChainId wh c = Some i" "i < 65536" "256 \<le> length ss"
  shows "encode wh L W (SetDataSources c ss) = Inl RangeError"
  using assms u8_encode_range [of "int (length ss)" None "[0]" 0]
  by (simp add: SetDataSources_encode_def header_encode_ok)

text \<open>A \<open>SetFee\<close> message that ends after its header is still decoded: \<open>UIntBE\<close> reads the bytes
  that are there, and none of them is the number 0.\<close>

lemma SetFee_truncated:
  assumes "chain_ok wh c i"
  shows "decodeGovernancePayload wh L W (header_bytes SetFee_name i) = Inr (Some (SetFee c 0 0))"
proof -
  have "header_decode wh L (header_bytes SetFee_name i) = Some \<lparr> h_targetChainId = c, h_action = SetFee_name \<rparr>"
    using assms header_decode_ok [of i c SetFee_name "[]"] by (simp add: chain_ok_def)
  moreover have "l_decode (SetFee_layout L) [] 0
      = Inr (JObj [(''newFeeValue'', JBig 0), (''newFeeExpo'', JBig 0)])"
    by (simp add: SetFee_layout_def struct_decode u64be_def UIntBE_def toBigIntBE getSpan subarray_def be_nat_def)
  ultimately show ?thesis
    by (simp add: decodeGovernancePayload_def SetFee_decode_def decodeWithPayload_def safeLayoutDecode_def
        subarray_def header_span_def js_get_def)
qed

end

section \<open>A concrete \<open>@solana/web3.js\<close>\<close>

definition doc_web3 :: "256 word web3_lib" where
  "doc_web3 = \<lparr> w3_PACKET_DATA_SIZE = 1232,
     w3_newPublicKey = (\<lambda>bs. if length bs \<le> 32 then Inr (of_nat (be_nat bs)) else Inl TypeError),
     w3_toBytes = (\<lambda>k. be_bytes 32 (unat k)) \<rparr>"

interpretation doc_web3: web3 doc_web3
proof
  fix k :: "256 word"
  have "unat k < 256 ^ 32" using unsigned_less [of k] by simp
  then show "w3_newPublicKey doc_web3 (w3_toBytes doc_web3 k) = Inr k"
    by (simp add: doc_web3_def)
qed (simp_all add: doc_web3_def)

interpretation doc_codec: governance_codec doc_lib doc_web3 wh for wh
  by unfold_locales

text \<open>The chain \<open>ethereum\<close> of the Wormhole table, for the witnesses.\<close>

definition sample_wormhole :: chain_table where
  "sample_wormhole = DAList.update ''ethereum'' 2 (DAList.update ''solana'' 1 DAList.empty)"

lemma sample_chain_ok: "chain_ok sample_wormhole ''ethereum'' 2"
proof -
  have "toChainName sample_wormhole 2 = Some ''ethereum''"
    by (rule receiver_name_back)
      (auto simp: lookup_RECEIVER_ethereum sample_wormhole_def DAList.lookup_update split: if_splits)
  with registry.name_sound [OF this] show ?thesis by (simp add: chain_ok_def)
qed

section \<open>Properties\<close>

lemma governance_codecI: "buffer_layout L \<Longrightarrow> web3 W \<Longrightarrow> governance_codec L W"
  by (simp add: governance_codec_def)

text \<open>C1. Round trip: every well-formed governance action, whichever of the thirteen kinds it is,
  is encoded without a throw, and the dispatcher \<open>decodeGovernancePayload\<close> decodes the bytes to
  that same action.\<close>

theorem governance_roundtrip:
  assumes "buffer_layout L" "web3 W" "chain_ok wh (action_chain a) i" "wf_action (w3_toBytes W) a"
  shows "bindR (encode wh L W a) (decodeGovernancePayload wh L W) = Inr (Some a)"
  using governance_codec.encode_wire [OF governance_codecI [OF assms(1,2)] _ _ assms(4)] assms(3)
    governance_codec.decode_wire [OF governance_codecI [OF assms(1,2)] assms(3,4)]
  by (simp add: chain_ok_def)

definition sample_instruction :: "256 word instruction" where
  "sample_instruction = \<lparr> ix_programId = 7,
     ix_keys = [\<lparr> am_pubkey = 11, am_isSigner = True, am_isWritable = False \<rparr>], ix_data = [1, 2, 3] \<rparr>"

theorem governance_roundtrip_witness:
  "bindR (encode sample_wormhole doc_lib doc_web3 (ExecutePostedVaa ''ethereum'' [sample_instruction]))
     (decodeGovernancePayload sample_wormhole doc_lib doc_web3)
   = Inr (Some (ExecutePostedVaa ''ethereum'' [sample_instruction]))"
proof (rule governance_roundtrip)
  show "wf_action (w3_toBytes doc_web3) (ExecutePostedVaa ''ethereum'' [sample_instruction])"
    by (simp add: doc_codec.length_instruction_bytes sample_instruction_def)
  show "chain_ok sample_wormhole (action_chain (ExecutePostedVaa ''ethereum'' [sample_instruction])) 2"
    by (simp add: sample_chain_ok)
qed (rule doc.buffer_layout_axioms doc_web3.web3_axioms)+

text \<open>C2. Refinement of the wire format: what \<open>encode\<close> writes is the eight-byte header (the magic
  \<open>PTGM\<close>, module, action and big-endian target chain) followed by the payload of the documented
  format, field by field.\<close>

theorem encode_refines_wire_format:
  assumes "buffer_layout L" "web3 W" "toChainId wh (action_chain a) = Some i" "i < 65536"
    "wf_action (w3_toBytes W) a"
  shows "encode wh L W a = Inr (header_bytes (action_name a) i @ payload_bytes (w3_toBytes W) a)"
  using assms(3-) by (rule governance_codec.encode_wire [OF governance_codecI [OF assms(1,2)]])

theorem encode_refines_wire_format_witness:
  "encode sample_wormhole doc_lib doc_web3 (SetFee ''ethereum'' 258 3)
   = Inr [0x50, 0x54, 0x47, 0x4d, 1, 3, 0, 2, 0, 0, 0, 0, 0, 0, 1, 2, 0, 0, 0, 0, 0, 0, 0, 3]"
  using encode_refines_wire_format [OF doc.buffer_layout_axioms doc_web3.web3_axioms,
      of sample_wormhole "SetFee ''ethereum'' 258 3" 2] sample_chain_ok
  by (simp add: chain_ok_def fits_def header_bytes_def be_bytes_def le_bytes_numeral)

text \<open>C3. The header is not malleable: the decoder accepts a message exactly when it starts with
  the header of some action and of some known chain, and it returns that action and chain. In
  particular every message shorter than eight bytes is refused.\<close>

theorem header_decode_exact:
  assumes "buffer_layout L" "web3 W"
  shows "header_decode wh L data = Some h \<longleftrightarrow>
    (\<exists>i rest. data = header_bytes (h_action h) i @ rest \<and> i < 65536
       \<and> toChainName wh i = Some (h_targetChainId h) \<and> h_targetChainId h \<noteq> [])"
proof -
  note G = governance_codecI [OF assms]
  have "h_targetChainId h \<noteq> []" if "header_decode wh L data = Some h"
    using that by (auto simp: header_decode_def split: option.splits if_splits)
  then show ?thesis
    using governance_codec.header_decode_only [OF G, of wh data h]
      governance_codec.header_decode_ok [OF G, of wh _ "h_targetChainId h" "h_action h"]
    by auto
qed

theorem header_decode_exact_witness:
  "header_decode sample_wormhole doc_lib ([0x50, 0x54, 0x47, 0x4d, 1, 3, 0, 2] @ [9])
     = Some \<lparr> h_targetChainId = ''ethereum'', h_action = SetFee_name \<rparr>"
  unfolding header_decode_exact [OF doc.buffer_layout_axioms doc_web3.web3_axioms]
  using sample_chain_ok
  by (intro exI [of _ 2] exI [of _ "[9]"])
    (simp add: header_bytes_def be_bytes_def le_bytes_numeral chain_ok_def)

text \<open>Errors of the encoder: an unknown target chain makes every kind of action throw
  \<open>Invalid chain id\<close>, and more than 255 data sources make \<open>SetDataSources\<close> throw, so that a
  count that does not fit its byte is never written.\<close>

theorem encode_errors:
  assumes "buffer_layout L" "web3 W"
  shows "(toChainId wh (action_chain a) = None \<longrightarrow> encode wh L W a = Inl (JsError ''Invalid chain id'')) \<and>
    (toChainId wh c = Some i \<and> i < 65536 \<and> 256 \<le> length ss \<longrightarrow>
       encode wh L W (SetDataSources c ss) = Inl RangeError)"
  using governance_codec.encode_unknown_chain [OF governance_codecI [OF assms]]
    governance_codec.too_many_sources [OF governance_codecI [OF assms]] by blast

theorem encode_errors_witness:
  "encode sample_wormhole doc_lib doc_web3 (SetDataSources ''ethereum''
     (replicate 256 \<lparr> emitterChain = 1, emitterAddress = [] \<rparr>)) = Inl RangeError"
  using encode_errors [OF doc.buffer_layout_axioms doc_web3.web3_axioms, of sample_wormhole
      "SetFee [] 0 0" "''ethereum''" 2 "replicate 256 \<lparr> emitterChain = 1, emitterAddress = [] \<rparr>"]
    sample_chain_ok
  by (simp add: chain_ok_def)

text \<open>A truncated \<open>SetFee\<close> message is not refused: the header alone decodes to the action that
  sets the fee to zero.\<close>

theorem SetFee_accepts_truncated:
  assumes "buffer_layout L" "web3 W" "chain_ok wh c i"
  shows "decodeGovernancePayload wh L W (header_bytes SetFee_name i) = Inr (Some (SetFee c 0 0))"
  using governance_codec.SetFee_truncated [OF governance_codecI [OF assms(1,2)] assms(3)] .

theorem SetFee_accepts_truncated_witness:
  "decodeGovernancePayload sample_wormhole doc_lib doc_web3 [0x50, 0x54, 0x47, 0x4d, 1, 3, 0, 2]
     = Inr (Some (SetFee ''ethereum'' 0 0))"
  using SetFee_accepts_truncated [OF doc.buffer_layout_axioms doc_web3.web3_axioms sample_chain_ok]
  by (simp add: header_bytes_def be_bytes_def le_bytes_numeral)

end
