(* ===== verification/Solana_Transaction.thy ===== *)
theory Solana_Transaction
  imports Governance_Payload
begin

text \<open>
  \<open>target_chains/solana/sdk/js/solana_utils\<close>: the size of a Solana transaction, the
  \<open>TransactionBuilder\<close> that batches instructions, and the loop that sends transactions and waits
  for their confirmation (\<open>transaction.ts\<close>, \<open>jito.ts\<close>).

  Instruction constructors of \<open>@solana/web3.js\<close> are the record \<open>S\<close>. Each call of
  \<open>Math.random\<close> is an argument, the index it selects. A transaction is the list of its
  instructions; compiling it to a message is the library's business. Arrays are values: the
  callers of the builder hand it a separate \<open>signers\<close> array for every instruction.
\<close>

section \<open>\<open>jito.ts\<close>\<close>

record 'pk solana_lib =
  sl_PACKET_DATA_SIZE :: nat
  sl_newPublicKey :: "string \<Rightarrow> 'pk"
  sl_setComputeUnitLimit :: "nat \<Rightarrow> 'pk instruction"
  sl_setComputeUnitPrice :: "nat \<Rightarrow> 'pk instruction"
  sl_transfer :: "'pk \<Rightarrow> 'pk \<Rightarrow> nat \<Rightarrow> 'pk instruction"

definition TIP_ACCOUNTS :: "string list" where
  "TIP_ACCOUNTS =
    [''HFqU5x63VTqvQss8hp11i4wVV8bD44PvwucfZ2bU7gRe'',
     ''Cw8CFyM9FkoMi7K7Crf6HNQqf4uEMzpKw6QNghXLvLkY'',
     ''DfXygSm4jCyNCybVYYK6DwvWqjKee8pbDmJGcLWNDXjh'',
     ''ADaUMid9yfUytqMBgopwjb2DTLSokTSzL1zt6iGPaS49'',
     ''3AVi9Tg9Uo68tJfuvoKvqKNWKkC5wPdSSdeBnizKZ6jT'',
     ''DttWaMuVvTiduZRnguLF7jNxTgiMBZ1hyAumKUiL2KRL'',
     ''96gYZGLnJYVFmbjzopPSU6QiEV5fGqZNyN9nmNhvrZU5'',
     ''ADuUkR4vqLUMWXxW9gh6D6L8pMSawimctcNZ5pGwDcEt'']"

definition getRandomTipAccount :: "'pk solana_lib \<Rightarrow> nat \<Rightarrow> 'pk" where
  "getRandomTipAccount S randomInt = sl_newPublicKey S (TIP_ACCOUNTS ! randomInt)"

definition buildJitoTipInstruction :: "'pk solana_lib \<Rightarrow> nat \<Rightarrow> 'pk \<Rightarrow> nat \<Rightarrow> 'pk instruction" where
  "buildJitoTipInstruction S randomInt payer lamports =
     sl_transfer S payer (getRandomTipAccount S randomInt) lamports"

section \<open>The size of a transaction\<close>

definition DEFAULT_COMPUTE_BUDGET_UNITS :: nat where "DEFAULT_COMPUTE_BUDGET_UNITS = 200000"

definition getSizeOfCompressedU16 :: "nat \<Rightarrow> nat" where
  "getSizeOfCompressedU16 n = 1 + of_bool (n \<ge> 128) + of_bool (n \<ge> 16384)"

definition getSizeOfTransaction ::
  "'pk instruction list \<Rightarrow> bool \<Rightarrow> 'pk list option \<Rightarrow> nat" where
  "getSizeOfTransaction instructions versionedTransaction addressLookupTable =
     (let programs = set (map ix_programId instructions);
          keys = concat (map ix_keys instructions);
          signers = set (map am_pubkey (filter am_isSigner keys));
          allAccounts = programs \<union> set (map am_pubkey keys);
          instruction_sizes = sum_list (map (\<lambda>ix.
            1 + getSizeOfCompressedU16 (length (ix_keys ix)) + length (ix_keys ix)
              + getSizeOfCompressedU16 (length (ix_data ix)) + length (ix_data ix)) instructions);
          (accounts, numberOfAddressLookups) =
            (case addressLookupTable of
               None \<Rightarrow> (allAccounts, 0)
             | Some lookupTableAddresses \<Rightarrow>
                 (let kept = (allAccounts - set lookupTableAddresses) \<union> programs \<union> signers
                  in (kept, card allAccounts - card kept)))
      in getSizeOfCompressedU16 (card signers) + card signers * 64 + 3
         + getSizeOfCompressedU16 (card accounts) + 32 * card accounts + 32
         + getSizeOfCompressedU16 (length instructions) + instruction_sizes
         + (if versionedTransaction then 1 + getSizeOfCompressedU16 0 else 0)
         + (if versionedTransaction \<and> addressLookupTable \<noteq> None then 32 else 0)
         + (if versionedTransaction \<and> addressLookupTable \<noteq> None then 2 else 0)
         + numberOfAddressLookups)"

section \<open>\<open>TransactionBuilder\<close>\<close>

record ('ix, 'sg) InstructionWithEphemeralSigners =
  i_instruction :: 'ix
  i_signers :: "'sg list"
  i_computeUnits :: "nat option"

record PriorityFeeConfig =
  computeUnitPriceMicroLamports :: "nat option"
  tightComputeBudget :: bool
  jitoTipLamports :: "nat option"
  jitoBundleSize :: "nat option"

record ('pk, 'sg) batch =
  b_instructions :: "'pk instruction list"
  b_signers :: "'sg list"
  b_computeUnits :: nat

record ('pk, 'sg) TransactionBuilder =
  transactionInstructions :: "('pk, 'sg) batch list"
  payer :: 'pk
  addressLookupTable :: "'pk list option"

definition new_TransactionBuilder :: "'pk \<Rightarrow> 'pk list option \<Rightarrow> ('pk, 'sg) TransactionBuilder" where
  "new_TransactionBuilder p lut =
     \<lparr> transactionInstructions = [], payer = p, addressLookupTable = lut \<rparr>"

text \<open>\<open>x ?? 0\<close>.\<close>

definition or_zero :: "nat option \<Rightarrow> nat" where
  "or_zero x = (case x of None \<Rightarrow> 0 | Some n \<Rightarrow> n)"

definition new_batch :: "('pk instruction, 'sg) InstructionWithEphemeralSigners \<Rightarrow> ('pk, 'sg) batch" where
  "new_batch args = \<lparr> b_instructions = [i_instruction args], b_signers = i_signers args,
     b_computeUnits = or_zero (i_computeUnits args) \<rparr>"

definition addInstruction ::
  "'pk solana_lib \<Rightarrow> nat \<Rightarrow> ('pk instruction, 'sg) InstructionWithEphemeralSigners
   \<Rightarrow> ('pk, 'sg) TransactionBuilder \<Rightarrow> ('pk, 'sg) TransactionBuilder" where
  "addInstruction S randomInt args tb =
     (if length (transactionInstructions tb) = 0
      then tb\<lparr> transactionInstructions := [new_batch args] \<rparr>
      else
        (let lst = last (transactionInstructions tb);
             sizeWithComputeUnits = getSizeOfTransaction
               (b_instructions lst @ [i_instruction args, buildJitoTipInstruction S randomInt (payer tb) 1,
                  sl_setComputeUnitLimit S 1]) True (addressLookupTable tb)
         in if sizeWithComputeUnits \<le> sl_PACKET_DATA_SIZE S
            then tb\<lparr> transactionInstructions := butlast (transactionInstructions tb) @
               [\<lparr> b_instructions = b_instructions lst @ [i_instruction args],
                  b_signers = b_signers lst @ i_signers args,
                  b_computeUnits = b_computeUnits lst + or_zero (i_computeUnits args) \<rparr>] \<rparr>
            else tb\<lparr> transactionInstructions := transactionInstructions tb @ [new_batch args] \<rparr>))"

text \<open>Each instruction comes with the random index its call draws.\<close>

fun addInstructions ::
  "'pk solana_lib \<Rightarrow> (nat \<times> ('pk instruction, 'sg) InstructionWithEphemeralSigners) list
   \<Rightarrow> ('pk, 'sg) TransactionBuilder \<Rightarrow> ('pk, 'sg) TransactionBuilder" where
  "addInstructions S [] tb = tb"
| "addInstructions S ((randomInt, args) # rest) tb = addInstructions S rest (addInstruction S randomInt args tb)"

text \<open>A number that is \<open>undefined\<close> or 0 is falsy.\<close>

definition truthy :: "nat option \<Rightarrow> bool" where
  "truthy x \<longleftrightarrow> (case x of None \<Rightarrow> False | Some n \<Rightarrow> n \<noteq> 0)"

definition bundle_size :: "PriorityFeeConfig \<Rightarrow> ('pk, 'sg) TransactionBuilder \<Rightarrow> nat" where
  "bundle_size args tb =
     (if truthy (jitoBundleSize args) then the (jitoBundleSize args)
      else length (transactionInstructions tb))"

definition instructionsWithComputeBudget ::
  "'pk solana_lib \<Rightarrow> (nat \<Rightarrow> nat) \<Rightarrow> PriorityFeeConfig \<Rightarrow> ('pk, 'sg) TransactionBuilder
   \<Rightarrow> nat \<Rightarrow> ('pk, 'sg) batch \<Rightarrow> 'pk instruction list" where
  "instructionsWithComputeBudget S randomInt args tb index b =
     b_instructions b
     @ (if b_computeUnits b > DEFAULT_COMPUTE_BUDGET_UNITS * length (b_instructions b)
           \<or> tightComputeBudget args
        then [sl_setComputeUnitLimit S (b_computeUnits b)] else [])
     @ (if truthy (computeUnitPriceMicroLamports args)
        then [sl_setComputeUnitPrice S (the (computeUnitPriceMicroLamports args))] else [])
     @ (if truthy (jitoTipLamports args) \<and> index mod bundle_size args tb = 0
        then [buildJitoTipInstruction S (randomInt index) (payer tb) (the (jitoTipLamports args))]
        else [])"

text \<open>The loop that keeps instructions while they fit.\<close>

fun instructionsToSend ::
  "('ix list \<Rightarrow> nat) \<Rightarrow> nat \<Rightarrow> 'ix list \<Rightarrow> 'ix list \<Rightarrow> 'ix list" where
  "instructionsToSend sizeOf limit toSend [] = toSend"
| "instructionsToSend sizeOf limit toSend (ix # ixs) =
     (if sizeOf (toSend @ [ix]) > limit then toSend
      else instructionsToSend sizeOf limit (toSend @ [ix]) ixs)"

definition buildVersionedTransactions ::
  "'pk solana_lib \<Rightarrow> (nat \<Rightarrow> nat) \<Rightarrow> PriorityFeeConfig \<Rightarrow> ('pk, 'sg) TransactionBuilder
   \<Rightarrow> ('pk instruction list \<times> 'sg list) list" where
  "buildVersionedTransactions S randomInt args tb =
     map (\<lambda>(index, b).
        (instructionsToSend (\<lambda>ixs. getSizeOfTransaction ixs True (addressLookupTable tb))
           (sl_PACKET_DATA_SIZE S) [] (instructionsWithComputeBudget S randomInt args tb index b),
         b_signers b))
       (enumerate 0 (transactionInstructions tb))"

text \<open>The same loop for legacy transactions throws when not even the first instruction fits.\<close>

fun instructionsToSend_legacy ::
  "('ix list \<Rightarrow> nat) \<Rightarrow> nat \<Rightarrow> 'ix list \<Rightarrow> 'ix list \<Rightarrow> 'ix list result" where
  "instructionsToSend_legacy sizeOf limit toSend [] = Inr toSend"
| "instructionsToSend_legacy sizeOf limit toSend (ix # ixs) =
     (if sizeOf (toSend @ [ix]) > limit
      then (if length toSend = 0
            then Inl (JsError ''An instruction is too big to be sent in a transaction'')
            else Inr toSend)
      else instructionsToSend_legacy sizeOf limit (toSend @ [ix]) ixs)"

definition buildLegacyTransactions ::
  "'pk solana_lib \<Rightarrow> (nat \<Rightarrow> nat) \<Rightarrow> PriorityFeeConfig \<Rightarrow> ('pk, 'sg) TransactionBuilder
   \<Rightarrow> ('pk instruction list \<times> 'sg list) list result" where
  "buildLegacyTransactions S randomInt args tb =
     mapR (\<lambda>(index, b).
        bindR (instructionsToSend_legacy (\<lambda>ixs. getSizeOfTransaction ixs False None)
                 (sl_PACKET_DATA_SIZE S) [] (instructionsWithComputeBudget S randomInt args tb index b))
          (\<lambda>ixs. Inr (ixs, b_signers b)))
       (enumerate 0 (transactionInstructions tb))"

definition batchIntoLegacyTransactions ::
  "'pk solana_lib \<Rightarrow> 'pk \<Rightarrow> (nat \<Rightarrow> nat) \<Rightarrow> (nat \<times> 'pk instruction) list \<Rightarrow> PriorityFeeConfig
   \<Rightarrow> 'pk instruction list list result" where
  "batchIntoLegacyTransactions S unique randomInt instructions priorityFeeConfig =
     (let transactionBuilder = addInstructions S
            (map (\<lambda>(r, ix). (r, \<lparr> i_instruction = ix, i_signers = ([] :: unit list), i_computeUnits = None \<rparr>))
               instructions)
            (new_TransactionBuilder unique None)
      in bindR (buildLegacyTransactions S randomInt priorityFeeConfig transactionBuilder)
           (\<lambda>txs. Inr (map fst txs)))"

definition batchIntoVersionedTransactions ::
  "'pk solana_lib \<Rightarrow> 'pk \<Rightarrow> (nat \<Rightarrow> nat) \<Rightarrow> (nat \<times> ('pk instruction, 'sg) InstructionWithEphemeralSigners) list
   \<Rightarrow> PriorityFeeConfig \<Rightarrow> 'pk list option \<Rightarrow> ('pk instruction list \<times> 'sg list) list" where
  "batchIntoVersionedTransactions S p randomInt instructions priorityFeeConfig lut =
     buildVersionedTransactions S randomInt priorityFeeConfig
       (addInstructions S instructions (new_TransactionBuilder p lut))"

definition addPriorityFee ::
  "'pk solana_lib \<Rightarrow> 'pk instruction list \<Rightarrow> PriorityFeeConfig \<Rightarrow> 'pk instruction list" where
  "addPriorityFee S transaction priorityFeeConfig =
     (if truthy (computeUnitPriceMicroLamports priorityFeeConfig)
      then transaction @ [sl_setComputeUnitPrice S (the (computeUnitPriceMicroLamports priorityFeeConfig))]
      else transaction)"

section \<open>Sending\<close>

text \<open>The confirmation loop of \<open>sendTransactions\<close>. Each round is the outcome of one race between
  the confirmation and the retry timer: \<open>None\<close> when the timer won. The function returns the
  confirmation, if any, and how often the transaction was sent; \<open>None\<close> means that it still waits
  when the given rounds are over.\<close>

fun confirm_loop :: "nat option \<Rightarrow> nat \<Rightarrow> 'r option list \<Rightarrow> ('r option \<times> nat) option" where
  "confirm_loop maxRetries retryCount [] = None"
| "confirm_loop maxRetries retryCount (Some r # rounds) = Some (Some r, retryCount)"
| "confirm_loop maxRetries retryCount (None # rounds) =
     (if truthy maxRetries \<and> the maxRetries < retryCount then Some (None, retryCount)
      else confirm_loop maxRetries (Suc retryCount) rounds)"

text \<open>A signature result is the error of the transaction, if it failed. The transactions are given
  by their signatures and the races of their confirmation loops.\<close>

fun sendTransactions ::
  "nat option \<Rightarrow> (string \<times> string option option list) list \<Rightarrow> string list \<Rightarrow> string list result option" where
  "sendTransactions maxRetries [] signatures = Some (Inr signatures)"
| "sendTransactions maxRetries ((txSignature, rounds) # txs) signatures =
     (case confirm_loop maxRetries 0 rounds of
        None \<Rightarrow> None
      | Some (Some (Some err), _) \<Rightarrow>
          Some (Inl (JsError (''Transaction '' @ txSignature @ '' has failed with error: '' @ err)))
      | Some (None, _) \<Rightarrow> Some (Inl (JsError ''Failed to land the transaction''))
      | Some (Some None, _) \<Rightarrow> sendTransactions maxRetries txs (signatures @ [txSignature]))"

section \<open>Sizes grow with the transaction\<close>

lemma getSizeOfCompressedU16_mono: "m \<le> n \<Longrightarrow> getSizeOfCompressedU16 m \<le> getSizeOfCompressedU16 n"
  by (auto simp: getSizeOfCompressedU16_def)

lemma lookup_size_mono:
  fixes A B P Q :: "'a set"
  assumes "finite B" "finite Q" "A \<subseteq> B" "P \<subseteq> Q" "Q \<subseteq> B" "P \<subseteq> A"
  shows "32 * card ((A - T) \<union> P) + (card A - card ((A - T) \<union> P))
       \<le> 32 * card ((B - T) \<union> Q) + (card B - card ((B - T) \<union> Q))"
proof -
  let ?K = "(A - T) \<union> P" and ?L = "(B - T) \<union> Q"
  have fin: "finite A" "finite ?L" using assms finite_subset by auto
  have "card ?K \<le> card ?L" using assms fin by (intro card_mono) auto
  moreover have "card ?K \<le> card A" "card ?L \<le> card B" using assms fin by (intro card_mono; auto)+
  moreover have "card A \<le> card B" using assms by (intro card_mono) auto
  ultimately show ?thesis by linarith
qed

lemma getSizeOfTransaction_mono:
  "getSizeOfTransaction xs v lut \<le> getSizeOfTransaction (xs @ ys) v lut"
proof -
  define prog where "prog zs = set (map ix_programId zs)" for zs :: "'a instruction list"
  define sign where "sign zs = set (map am_pubkey (filter am_isSigner (concat (map ix_keys zs))))"
    for zs :: "'a instruction list"
  define acct where "acct zs = prog zs \<union> set (map am_pubkey (concat (map ix_keys zs)))"
    for zs :: "'a instruction list"
  have sub: "prog xs \<subseteq> prog (xs @ ys)" "sign xs \<subseteq> sign (xs @ ys)" "acct xs \<subseteq> acct (xs @ ys)"
    by (auto simp: prog_def sign_def acct_def)
  have inc: "prog zs \<union> sign zs \<subseteq> acct zs" "finite (acct zs)" "finite (sign zs)" "finite (prog zs)" for zs
    by (auto simp: prog_def sign_def acct_def)
  have cards: "card (sign xs) \<le> card (sign (xs @ ys))" "card (acct xs) \<le> card (acct (xs @ ys))"
    using sub inc by (auto intro: card_mono)
  have kept: "card ((acct xs - T) \<union> prog xs \<union> sign xs) \<le> card ((acct (xs @ ys) - T) \<union> prog (xs @ ys) \<union> sign (xs @ ys))" for T
    using sub inc by (intro card_mono) auto
  have look: "32 * card ((acct xs - T) \<union> prog xs \<union> sign xs) + (card (acct xs) - card ((acct xs - T) \<union> prog xs \<union> sign xs))
      \<le> 32 * card ((acct (xs @ ys) - T) \<union> prog (xs @ ys) \<union> sign (xs @ ys))
        + (card (acct (xs @ ys)) - card ((acct (xs @ ys) - T) \<union> prog (xs @ ys) \<union> sign (xs @ ys)))" for T
    unfolding Un_assoc by (rule lookup_size_mono) (use sub inc in auto)
  note U16 = getSizeOfCompressedU16_mono [OF cards(1)] getSizeOfCompressedU16_mono [OF cards(2)]
    getSizeOfCompressedU16_mono [of "length xs" "length (xs @ ys)"]
  show ?thesis
  proof (cases lut)
    case None
    then show ?thesis
      unfolding getSizeOfTransaction_def Let_def prog_def [symmetric] sign_def [symmetric] acct_def [symmetric]
      using cards U16 by simp
  next
    case (Some T)
    then show ?thesis
      unfolding getSizeOfTransaction_def Let_def prog_def [symmetric] sign_def [symmetric] acct_def [symmetric]
      using cards(1) U16(1,3) look [of "set T"] getSizeOfCompressedU16_mono [OF kept [of "set T"]] by simp
  qed
qed

section \<open>Packing under a size limit\<close>

text \<open>What the packing loops need of the size function: a longer transaction is not smaller.\<close>

locale packing =
  fixes sizeOf :: "'ix list \<Rightarrow> nat" and limit :: nat
  assumes size_mono: "sizeOf xs \<le> sizeOf (xs @ ys)"
begin

lemma toSend_prefix: "\<exists>rest. xs = kept @ rest \<and> instructionsToSend sizeOf limit acc xs = acc @ kept
    \<and> (kept = [] \<or> sizeOf (acc @ kept) \<le> limit) \<and> (rest \<noteq> [] \<longrightarrow> limit < sizeOf (acc @ kept @ [hd rest]))"
  if "kept = drop (length acc) (instructionsToSend sizeOf limit acc xs)" for kept
  using that
proof (induction xs arbitrary: acc kept)
  case (Cons x xs)
  show ?case
  proof (cases "sizeOf (acc @ [x]) > limit")
    case True
    then show ?thesis using Cons.prems by simp
  next
    case False
    define k where "k = drop (length (acc @ [x])) (instructionsToSend sizeOf limit (acc @ [x]) xs)"
    from Cons.IH [OF k_def] obtain rest where rest: "xs = k @ rest"
      "instructionsToSend sizeOf limit (acc @ [x]) xs = acc @ x # k"
      "k = [] \<or> sizeOf (acc @ x # k) \<le> limit"
      "rest \<noteq> [] \<longrightarrow> limit < sizeOf (acc @ x # k @ [hd rest])" by auto
    with False Cons.prems show ?thesis by auto
  qed
qed simp

lemma toSend_fits:
  "instructionsToSend sizeOf limit [] xs = [] \<or> sizeOf (instructionsToSend sizeOf limit [] xs) \<le> limit"
  using toSend_prefix [of "drop 0 (instructionsToSend sizeOf limit [] xs)" "[]" xs] by auto

text \<open>Whatever fits as a whole is kept as a whole.\<close>

lemma toSend_keeps:
  assumes "sizeOf us \<le> limit \<or> us = []"
  shows "\<exists>extra. instructionsToSend sizeOf limit [] (us @ xs) = us @ extra \<and> (\<exists>rest. xs = extra @ rest)"
proof -
  define kept where "kept = instructionsToSend sizeOf limit [] (us @ xs)"
  obtain rest where rest: "us @ xs = kept @ rest" "rest \<noteq> [] \<longrightarrow> limit < sizeOf (kept @ [hd rest])"
    using toSend_prefix [of kept "[]" "us @ xs"] by (auto simp: kept_def)
  have "length us \<le> length kept"
  proof (rule ccontr)
    assume less: "\<not> length us \<le> length kept"
    then obtain zs where zs: "us = kept @ zs" "zs \<noteq> []"
      using rest(1) by (auto simp: append_eq_append_conv2)
    then have hd: "rest \<noteq> []" "hd rest = hd zs" using rest(1) by auto
    then have "us = (kept @ [hd rest]) @ tl zs" using zs by simp
    then have "sizeOf (kept @ [hd rest]) \<le> sizeOf us" by (metis size_mono)
    with rest(2) hd assms zs show False by auto
  qed
  then obtain extra where "kept = us @ extra" using rest(1) by (auto simp: append_eq_append_conv2)
  then show ?thesis using rest(1) unfolding kept_def [symmetric] by auto
qed

lemma legacy_loop:
  "instructionsToSend_legacy sizeOf limit acc xs =
     (if acc = [] \<and> xs \<noteq> [] \<and> limit < sizeOf [hd xs]
      then Inl (JsError ''An instruction is too big to be sent in a transaction'')
      else Inr (instructionsToSend sizeOf limit acc xs))"
  by (induction xs arbitrary: acc) auto

end

interpretation versioned: packing "\<lambda>ixs. getSizeOfTransaction ixs True lut" limit for lut limit
  by unfold_locales (rule getSizeOfTransaction_mono)

interpretation legacy: packing "\<lambda>ixs. getSizeOfTransaction ixs False None" limit for limit
  by unfold_locales (rule getSizeOfTransaction_mono)

section \<open>The builder's invariant\<close>

text \<open>The batches hold all instructions in order with their signers, none is empty, and a batch of
  more than one instruction fits a packet together with a tip and a compute budget.\<close>

definition batch_fits :: "'pk solana_lib \<Rightarrow> 'pk \<Rightarrow> 'pk list option \<Rightarrow> ('pk, 'sg) batch \<Rightarrow> bool" where
  "batch_fits S p lut b \<longleftrightarrow> length (b_instructions b) \<le> 1 \<or>
     (\<exists>r. getSizeOfTransaction (b_instructions b @ [buildJitoTipInstruction S r p 1, sl_setComputeUnitLimit S 1])
        True lut \<le> sl_PACKET_DATA_SIZE S)"

definition builder_inv ::
  "'pk solana_lib \<Rightarrow> ('pk instruction, 'sg) InstructionWithEphemeralSigners list \<Rightarrow> ('pk, 'sg) TransactionBuilder \<Rightarrow> bool" where
  "builder_inv S added tb \<longleftrightarrow>
     concat (map b_instructions (transactionInstructions tb)) = map i_instruction added \<and>
     concat (map b_signers (transactionInstructions tb)) = concat (map i_signers added) \<and>
     sum_list (map b_computeUnits (transactionInstructions tb)) = sum_list (map (or_zero \<circ> i_computeUnits) added) \<and>
     (\<forall>b \<in> set (transactionInstructions tb). b_instructions b \<noteq> [] \<and> batch_fits S (payer tb) (addressLookupTable tb) b)"

lemma builder_inv_new: "builder_inv S [] (new_TransactionBuilder p lut)"
  by (simp add: builder_inv_def new_TransactionBuilder_def)

lemma builder_inv_push:
  "builder_inv S added tb \<Longrightarrow>
   builder_inv S (added @ [a]) (tb\<lparr> transactionInstructions := transactionInstructions tb @ [new_batch a] \<rparr>)"
  by (auto simp: builder_inv_def new_batch_def batch_fits_def)

lemma builder_inv_addInstruction:
  assumes "builder_inv S added tb"
  shows "builder_inv S (added @ [a]) (addInstruction S r a tb)"
proof (cases "transactionInstructions tb" rule: rev_cases)
  case Nil
  then show ?thesis using builder_inv_push [OF assms, of a] by (simp add: addInstruction_def)
next
  case (snoc bs b)
  then show ?thesis
    using builder_inv_push [OF assms, of a] assms
    by (auto simp: addInstruction_def Let_def builder_inv_def batch_fits_def)
qed

lemma addInstruction_fixed [simp]:
  "payer (addInstruction S r a tb) = payer tb"
  "addressLookupTable (addInstruction S r a tb) = addressLookupTable tb"
  by (simp_all add: addInstruction_def Let_def)

lemma addInstructions_fixed [simp]:
  "payer (addInstructions S xs tb) = payer tb"
  "addressLookupTable (addInstructions S xs tb) = addressLookupTable tb"
  by (induction S xs tb rule: addInstructions.induct) simp_all

lemma builder_inv_addInstructions:
  "builder_inv S added tb \<Longrightarrow> builder_inv S (added @ map snd xs) (addInstructions S xs tb)"
proof (induction S xs tb arbitrary: added rule: addInstructions.induct)
  case (2 S r a rest tb)
  from "2.IH" [OF builder_inv_addInstruction [OF "2.prems", of a r]] show ?case by simp
qed simp

section \<open>What is sent\<close>

definition budget_instructions :: "'pk solana_lib \<Rightarrow> 'pk \<Rightarrow> 'pk instruction set" where
  "budget_instructions S p = range (sl_setComputeUnitLimit S) \<union> range (sl_setComputeUnitPrice S)
     \<union> {buildJitoTipInstruction S r p l | r l. True}"

text \<open>The transactions carry the user's instructions, in order and without loss, each followed
  only by compute budget instructions and tips.\<close>

definition carries ::
  "'pk solana_lib \<Rightarrow> 'pk \<Rightarrow> 'pk instruction list \<Rightarrow> 'pk instruction list list \<Rightarrow> bool" where
  "carries S p ixs txs \<longleftrightarrow>
     (\<exists>us es. txs = map2 (@) us es \<and> length us = length es \<and> concat us = ixs \<and>
        set (concat es) \<subseteq> budget_instructions S p)"

lemma budget_suffix:
  "\<exists>es. instructionsWithComputeBudget S rnd args tb i b = b_instructions b @ es
     \<and> set es \<subseteq> budget_instructions S (payer tb)"
  by (auto simp: instructionsWithComputeBudget_def budget_instructions_def)

lemma legacy_smaller: "getSizeOfTransaction ixs False None \<le> getSizeOfTransaction ixs True None"
  by (simp add: getSizeOfTransaction_def Let_def)

lemma batch_prefix_fits:
  assumes "batch_fits S p lut b" "length (b_instructions b) \<noteq> 1" "b_instructions b \<noteq> []"
  shows "getSizeOfTransaction (b_instructions b) True lut \<le> sl_PACKET_DATA_SIZE S"
proof -
  have "\<not> length (b_instructions b) \<le> 1" using assms(2,3) by (cases "b_instructions b") auto
  with assms(1) obtain r where "getSizeOfTransaction (b_instructions b @ [buildJitoTipInstruction S r p 1, sl_setComputeUnitLimit S 1])
        True lut \<le> sl_PACKET_DATA_SIZE S" by (auto simp: batch_fits_def)
  with getSizeOfTransaction_mono [of "b_instructions b" True lut] show ?thesis using le_trans by blast
qed

lemma builder_members:
  assumes "builder_inv S added tb"
  shows "i_instruction ` set added = (\<Union>b \<in> set (transactionInstructions tb). set (b_instructions b))"
proof -
  have "set (map i_instruction added) = set (concat (map b_instructions (transactionInstructions tb)))"
    using assms by (simp only: builder_inv_def)
  then show ?thesis by simp
qed

lemma all_batches_fit:
  assumes inv: "builder_inv S added tb" and b: "b \<in> set (transactionInstructions tb)"
    and fits: "list_all (\<lambda>a. getSizeOfTransaction [i_instruction a] True (addressLookupTable tb) \<le> sl_PACKET_DATA_SIZE S) added"
  shows "getSizeOfTransaction (b_instructions b) True (addressLookupTable tb) \<le> sl_PACKET_DATA_SIZE S"
proof (cases "length (b_instructions b) = 1")
  case True
  then obtain ix where ix: "b_instructions b = [ix]" by (auto simp: length_Suc_conv)
  then have "ix \<in> i_instruction ` set added" using b unfolding builder_members [OF inv] by force
  then show ?thesis using fits ix by (auto simp: list_all_iff)
next
  case False
  have "batch_fits S (payer tb) (addressLookupTable tb) b" "b_instructions b \<noteq> []"
    using inv b by (simp_all add: builder_inv_def)
  from batch_prefix_fits [OF this(1) False this(2)] show ?thesis .
qed

lemma carries_batches:
  assumes inv: "builder_inv S added tb"
    and sent: "\<And>i b. b \<in> set (transactionInstructions tb) \<Longrightarrow>
      \<exists>es. f i b = b_instructions b @ es \<and> set es \<subseteq> budget_instructions S (payer tb)"
  shows "carries S (payer tb) (map i_instruction added) (map (\<lambda>(i, b). f i b) (enumerate 0 (transactionInstructions tb)))"
proof -
  let ?bs = "transactionInstructions tb"
  define extra where "extra i b = drop (length (b_instructions b)) (f i b)" for i b
  have f: "f i b = b_instructions b @ extra i b" "set (extra i b) \<subseteq> budget_instructions S (payer tb)"
    if "b \<in> set ?bs" for i b
    using sent [OF that, of i] by (auto simp: extra_def)
  have mem: "b \<in> set ?bs" if "(i, b) \<in> set (enumerate 0 ?bs)" for i b
    using that by (metis in_set_zip enumerate_eq_zip snd_conv nth_mem)
  let ?us = "map b_instructions ?bs" and ?es = "map (\<lambda>(i, b). extra i b) (enumerate 0 ?bs)"
  have "map (\<lambda>(i, b). f i b) (enumerate 0 ?bs) = map2 (@) ?us ?es"
    by (rule nth_equalityI) (simp_all add: nth_enumerate_eq f(1))
  moreover have "set (concat ?es) \<subseteq> budget_instructions S (payer tb)"
    using f(2) mem by fastforce
  ultimately show ?thesis
    using inv unfolding carries_def builder_inv_def by (intro exI [of _ ?us] exI [of _ ?es]) simp
qed

lemma versioned_carries:
  assumes "builder_inv S added tb"
    and "list_all (\<lambda>a. getSizeOfTransaction [i_instruction a] True (addressLookupTable tb) \<le> sl_PACKET_DATA_SIZE S) added"
  shows "carries S (payer tb) (map i_instruction added) (map fst (buildVersionedTransactions S rnd args tb))"
proof -
  let ?f = "\<lambda>i b. instructionsToSend (\<lambda>ixs. getSizeOfTransaction ixs True (addressLookupTable tb))
           (sl_PACKET_DATA_SIZE S) [] (instructionsWithComputeBudget S rnd args tb i b)"
  have "\<exists>es. ?f i b = b_instructions b @ es \<and> set es \<subseteq> budget_instructions S (payer tb)"
    if b: "b \<in> set (transactionInstructions tb)" for i b
  proof -
    obtain es where es: "instructionsWithComputeBudget S rnd args tb i b = b_instructions b @ es"
      "set es \<subseteq> budget_instructions S (payer tb)" using budget_suffix by blast
    from versioned.toSend_keeps [of "b_instructions b" "addressLookupTable tb" "sl_PACKET_DATA_SIZE S" es]
      all_batches_fit [OF assms(1) b assms(2)] es
    show ?thesis by fastforce
  qed
  from carries_batches [OF assms(1) this] show ?thesis
    by (simp add: buildVersionedTransactions_def case_prod_beta' comp_def)
qed

lemma getSizeOfTransaction_swap: "getSizeOfTransaction (xs @ ys) v lut = getSizeOfTransaction (ys @ xs) v lut"
proof -
  have sets: "set (map ix_programId (xs @ ys)) = set (map ix_programId (ys @ xs))"
    "set (map am_pubkey (filter am_isSigner (concat (map ix_keys (xs @ ys))))) =
     set (map am_pubkey (filter am_isSigner (concat (map ix_keys (ys @ xs)))))"
    "set (map am_pubkey (concat (map ix_keys (xs @ ys)))) = set (map am_pubkey (concat (map ix_keys (ys @ xs))))"
    by auto
  have sums: "sum_list (map f (xs @ ys)) = sum_list (map f (ys @ xs))" "length (xs @ ys) = length (ys @ xs)"
    for f :: "'a instruction \<Rightarrow> nat" by simp_all
  show ?thesis unfolding getSizeOfTransaction_def Let_def sets sums ..
qed

lemma getSizeOfTransaction_member:
  assumes "ix \<in> set ixs"
  shows "getSizeOfTransaction [ix] v lut \<le> getSizeOfTransaction ixs v lut"
proof -
  from assms obtain xs ys where "ixs = xs @ ix # ys" by (meson split_list)
  then have "getSizeOfTransaction ixs v lut = getSizeOfTransaction ([ix] @ ys @ xs) v lut"
    using getSizeOfTransaction_swap [of xs "ix # ys"] by simp
  then show ?thesis using getSizeOfTransaction_mono [of "[ix]" v lut "ys @ xs"] by simp
qed

text \<open>Every instruction of the builder fits alone as soon as the first ones of the batches do.\<close>

lemma legacy_batch:
  assumes "builder_inv S added tb" "addressLookupTable tb = None" "b \<in> set (transactionInstructions tb)"
  shows "getSizeOfTransaction (b_instructions b) False None \<le> sl_PACKET_DATA_SIZE S \<longleftrightarrow>
    getSizeOfTransaction [hd (b_instructions b)] False None \<le> sl_PACKET_DATA_SIZE S"
proof (cases "length (b_instructions b) = 1")
  case True
  then show ?thesis by (auto simp: length_Suc_conv)
next
  case False
  have ne: "b_instructions b \<noteq> []" and fits: "batch_fits S (payer tb) None b"
    using assms by (auto simp: builder_inv_def)
  have "getSizeOfTransaction (b_instructions b) False None \<le> sl_PACKET_DATA_SIZE S"
    using batch_prefix_fits [OF fits False ne] legacy_smaller le_trans by blast
  moreover have "getSizeOfTransaction [hd (b_instructions b)] False None \<le> getSizeOfTransaction (b_instructions b) False None"
    using ne by (intro getSizeOfTransaction_member) simp
  ultimately show ?thesis by simp
qed

lemma legacy_fit_iff:
  assumes "builder_inv S added tb" "addressLookupTable tb = None"
  shows "list_all (\<lambda>a. getSizeOfTransaction [i_instruction a] False None \<le> sl_PACKET_DATA_SIZE S) added \<longleftrightarrow>
    list_all (\<lambda>b. getSizeOfTransaction (b_instructions b) False None \<le> sl_PACKET_DATA_SIZE S) (transactionInstructions tb)"
    (is "?L \<longleftrightarrow> ?R")
proof
  note mem = builder_members [OF assms(1)]
  show "?L \<Longrightarrow> ?R"
  proof (unfold list_all_iff, intro ballI)
    fix b assume L: "\<forall>a \<in> set added. getSizeOfTransaction [i_instruction a] False None \<le> sl_PACKET_DATA_SIZE S"
      and b: "b \<in> set (transactionInstructions tb)"
    have "hd (b_instructions b) \<in> set (b_instructions b)" using assms(1) b by (auto simp: builder_inv_def)
    then have "hd (b_instructions b) \<in> i_instruction ` set added" using mem b by auto
    with L legacy_batch [OF assms b] show "getSizeOfTransaction (b_instructions b) False None \<le> sl_PACKET_DATA_SIZE S"
      by auto
  qed
  show "?R \<Longrightarrow> ?L"
  proof (unfold list_all_iff, intro ballI)
    fix a assume R: "\<forall>b \<in> set (transactionInstructions tb). getSizeOfTransaction (b_instructions b) False None \<le> sl_PACKET_DATA_SIZE S"
      and "a \<in> set added"
    then obtain b where "b \<in> set (transactionInstructions tb)" "i_instruction a \<in> set (b_instructions b)"
      using mem by blast
    with R getSizeOfTransaction_member [of "i_instruction a" "b_instructions b" False None]
    show "getSizeOfTransaction [i_instruction a] False None \<le> sl_PACKET_DATA_SIZE S" using le_trans by blast
  qed
qed

lemma legacy_sent:
  assumes inv: "builder_inv S added tb" and lut: "addressLookupTable tb = None"
    and fits: "list_all (\<lambda>a. getSizeOfTransaction [i_instruction a] False None \<le> sl_PACKET_DATA_SIZE S) added"
  shows "\<exists>txs. buildLegacyTransactions S rnd args tb = Inr txs \<and>
    carries S (payer tb) (map i_instruction added) (map fst txs)"
proof -
  let ?size = "\<lambda>ixs. getSizeOfTransaction ixs False None"
  let ?f = "\<lambda>i b. instructionsToSend ?size (sl_PACKET_DATA_SIZE S) [] (instructionsWithComputeBudget S rnd args tb i b)"
  let ?bs = "transactionInstructions tb"
  have fit: "?size (b_instructions b) \<le> sl_PACKET_DATA_SIZE S" if "b \<in> set ?bs" for b
    using fits that legacy_fit_iff [OF inv lut] by (simp add: list_all_iff)
  have "\<exists>es. ?f i b = b_instructions b @ es \<and> set es \<subseteq> budget_instructions S (payer tb)" if b: "b \<in> set ?bs" for i b
  proof -
    obtain es where es: "instructionsWithComputeBudget S rnd args tb i b = b_instructions b @ es"
      "set es \<subseteq> budget_instructions S (payer tb)" using budget_suffix by blast
    from legacy.toSend_keeps [of "b_instructions b" "sl_PACKET_DATA_SIZE S" es] fit [OF b] es
    show ?thesis by fastforce
  qed
  note carry = carries_batches [OF inv this]
  have mem: "b \<in> set ?bs" if "(i, b) \<in> set (enumerate 0 ?bs)" for i b
    using that by (metis in_set_zip enumerate_eq_zip snd_conv nth_mem)
  have "instructionsToSend_legacy ?size (sl_PACKET_DATA_SIZE S) [] (instructionsWithComputeBudget S rnd args tb i b) = Inr (?f i b)"
    if b: "b \<in> set ?bs" for i b
  proof -
    have ne: "b_instructions b \<noteq> []" using inv b by (auto simp: builder_inv_def)
    then have "hd (instructionsWithComputeBudget S rnd args tb i b) = hd (b_instructions b)"
      by (simp add: instructionsWithComputeBudget_def)
    with legacy_batch [OF inv lut b] fit [OF b] show ?thesis
      by (auto simp: legacy.legacy_loop)
  qed
  then have "buildLegacyTransactions S rnd args tb = Inr (map (\<lambda>(i, b). (?f i b, b_signers b)) (enumerate 0 ?bs))"
    unfolding buildLegacyTransactions_def by (intro mapR_Inr_map) (auto dest: mem)
  then show ?thesis using carry by (simp add: comp_def case_prod_beta')
qed

lemma mapR_Inl: "x \<in> set xs \<Longrightarrow> f x = Inl e \<Longrightarrow> \<exists>e'. mapR f xs = Inl e'"
proof (induction xs)
  case (Cons y ys)
  then show ?case by (cases "f y"; cases "mapR f ys") auto
qed simp

lemma legacy_throws:
  assumes inv: "builder_inv S added tb" and lut: "addressLookupTable tb = None"
    and big: "\<not> list_all (\<lambda>a. getSizeOfTransaction [i_instruction a] False None \<le> sl_PACKET_DATA_SIZE S) added"
  shows "\<exists>e. buildLegacyTransactions S rnd args tb = Inl e"
proof -
  let ?bs = "transactionInstructions tb"
  from big legacy_fit_iff [OF inv lut] obtain b where b: "b \<in> set ?bs"
    "sl_PACKET_DATA_SIZE S < getSizeOfTransaction (b_instructions b) False None"
    unfolding list_all_iff by (meson not_less)
  then obtain i where i: "(i, b) \<in> set (enumerate 0 ?bs)"
    by (metis in_set_conv_nth length_enumerate nth_enumerate_eq nth_mem)
  have ne: "b_instructions b \<noteq> []" using inv b by (auto simp: builder_inv_def)
  then have "hd (instructionsWithComputeBudget S rnd args tb i b) = hd (b_instructions b)"
    "instructionsWithComputeBudget S rnd args tb i b \<noteq> []"
    by (simp_all add: instructionsWithComputeBudget_def)
  with legacy_batch [OF inv lut b(1)] b(2)
  have "instructionsToSend_legacy (\<lambda>ixs. getSizeOfTransaction ixs False None) (sl_PACKET_DATA_SIZE S) []
      (instructionsWithComputeBudget S rnd args tb i b)
      = Inl (JsError ''An instruction is too big to be sent in a transaction'')"
    by (simp add: legacy.legacy_loop)
  then show ?thesis unfolding buildLegacyTransactions_def by (intro mapR_Inl [OF i]) simp
qed

section \<open>Confirmation\<close>

lemma confirm_loop_bound:
  assumes "confirm_loop (Some m) k rounds = Some (c, n)" "m \<noteq> 0" "k \<le> Suc m"
  shows "n \<le> Suc m"
  using assms
  by (induction "Some m" k rounds rule: confirm_loop.induct) (auto simp: truthy_def split: if_splits)

lemma confirm_loop_returns:
  "m \<noteq> 0 \<Longrightarrow> k \<le> Suc m \<Longrightarrow> Suc m - k < length rounds \<Longrightarrow> \<exists>r. confirm_loop (Some m) k rounds = Some r"
proof (induction "Some m" k rounds rule: confirm_loop.induct)
  case (3 k rounds)
  then show ?case by (cases "k = Suc m") (auto simp: truthy_def)
qed (auto simp: truthy_def)

section \<open>Properties\<close>

text \<open>C19. The builder loses nothing: after any sequence of \<open>addInstruction\<close> calls the batches, read
  one after the other, are exactly the added instructions in order, with their signers and
  compute units; no batch is empty, and every batch of two or more instructions fits a packet
  together with a tip and a compute budget instruction.\<close>

theorem TransactionBuilder_invariant:
  "builder_inv S (map snd xs) (addInstructions S xs (new_TransactionBuilder p lut))"
  using builder_inv_addInstructions [OF builder_inv_new [of S p lut], of xs] by simp

text \<open>\<open>batchIntoVersionedTransactions\<close>: every transaction it builds is empty or within the
  packet size, and if each instruction fits a packet alone, the transactions carry all of them
  in order, followed only by compute budget instructions and tips.\<close>

theorem batchIntoVersionedTransactions_carries:
  "list_all (\<lambda>(ixs, sgs). ixs = [] \<or> getSizeOfTransaction ixs True lut \<le> sl_PACKET_DATA_SIZE S)
     (batchIntoVersionedTransactions S p rnd xs cfg lut) \<and>
   (list_all (\<lambda>(r, a). getSizeOfTransaction [i_instruction a] True lut \<le> sl_PACKET_DATA_SIZE S) xs \<longrightarrow>
      carries S p (map (\<lambda>(r, a). i_instruction a) xs) (map fst (batchIntoVersionedTransactions S p rnd xs cfg lut)))"
proof -
  let ?tb = "addInstructions S xs (new_TransactionBuilder p lut)"
  have inv: "builder_inv S (map snd xs) ?tb"
    using builder_inv_addInstructions [OF builder_inv_new [of S p lut], of xs] by simp
  have tb: "payer ?tb = p" "addressLookupTable ?tb = lut" by (simp_all add: new_TransactionBuilder_def)
  show ?thesis
    using versioned.toSend_fits versioned_carries [OF inv, of rnd cfg] tb
    by (auto simp: batchIntoVersionedTransactions_def buildVersionedTransactions_def list_all_iff
        case_prod_beta' comp_def)
qed

text \<open>A library whose instruction constructors have the documented sizes.\<close>

definition sample_solana :: "nat solana_lib" where
  "sample_solana = \<lparr> sl_PACKET_DATA_SIZE = 1232, sl_newPublicKey = length,
     sl_setComputeUnitLimit = (\<lambda>u. \<lparr> ix_programId = 1, ix_keys = [], ix_data = 2 # le_bytes 4 u \<rparr>),
     sl_setComputeUnitPrice = (\<lambda>u. \<lparr> ix_programId = 1, ix_keys = [], ix_data = 3 # le_bytes 8 u \<rparr>),
     sl_transfer = (\<lambda>from to l. \<lparr> ix_programId = 0,
        ix_keys = [\<lparr> am_pubkey = from, am_isSigner = True, am_isWritable = True \<rparr>,
                   \<lparr> am_pubkey = to, am_isSigner = False, am_isWritable = True \<rparr>],
        ix_data = [2, 0, 0, 0] @ le_bytes 8 l \<rparr>) \<rparr>"

definition sample_ix :: "nat \<Rightarrow> nat instruction" where
  "sample_ix n = \<lparr> ix_programId = 9, ix_keys = [], ix_data = replicate n 0 \<rparr>"

definition no_fees :: PriorityFeeConfig where
  "no_fees = \<lparr> computeUnitPriceMicroLamports = None, tightComputeBudget = False,
     jitoTipLamports = None, jitoBundleSize = None \<rparr>"

lemma size_sample_ix:
  "getSizeOfTransaction [sample_ix n] v None =
     72 + getSizeOfCompressedU16 n + n + (if v then 2 else 0)"
  by (simp add: getSizeOfTransaction_def sample_ix_def getSizeOfCompressedU16_def)

theorem batchIntoVersionedTransactions_carries_witness:
  "carries sample_solana 5 [sample_ix 100, sample_ix 1000]
     (map fst (batchIntoVersionedTransactions sample_solana 5 (\<lambda>_. 0)
        [(0, \<lparr> i_instruction = sample_ix 100, i_signers = [''k''], i_computeUnits = None \<rparr>),
         (1, \<lparr> i_instruction = sample_ix 1000, i_signers = [], i_computeUnits = Some 7 \<rparr>)] no_fees None))"
proof -
  let ?xs = "[(0, \<lparr> i_instruction = sample_ix 100, i_signers = [''k''], i_computeUnits = None \<rparr>),
    (1, \<lparr> i_instruction = sample_ix 1000, i_signers = [], i_computeUnits = Some 7 \<rparr>)]"
  have "list_all (\<lambda>(r, a). getSizeOfTransaction [i_instruction a] True None \<le> sl_PACKET_DATA_SIZE sample_solana) ?xs"
    by (simp add: size_sample_ix getSizeOfCompressedU16_def sample_solana_def)
  with batchIntoVersionedTransactions_carries [of None sample_solana 5 "\<lambda>_. 0" ?xs no_fees] show ?thesis by simp
qed

text \<open>\<open>batchIntoLegacyTransactions\<close> is all or nothing: it returns transactions exactly when
  every instruction fits a packet alone, and then they carry all the instructions in order;
  otherwise it throws.\<close>

theorem batchIntoLegacyTransactions_total:
  "case batchIntoLegacyTransactions S u rnd ixs cfg of
     Inr txs \<Rightarrow> list_all (\<lambda>(r, ix). getSizeOfTransaction [ix] False None \<le> sl_PACKET_DATA_SIZE S) ixs
       \<and> carries S u (map snd ixs) txs
   | Inl e \<Rightarrow> \<not> list_all (\<lambda>(r, ix). getSizeOfTransaction [ix] False None \<le> sl_PACKET_DATA_SIZE S) ixs"
proof -
  let ?xs = "map (\<lambda>(r, ix). (r, \<lparr> i_instruction = ix, i_signers = ([] :: unit list), i_computeUnits = None \<rparr>)) ixs"
  let ?tb = "addInstructions S ?xs (new_TransactionBuilder u None)"
  let ?fit = "list_all (\<lambda>(r, ix). getSizeOfTransaction [ix] False None \<le> sl_PACKET_DATA_SIZE S) ixs"
  have inv: "builder_inv S (map snd ?xs) ?tb"
    using builder_inv_addInstructions [OF builder_inv_new [of S u None], of ?xs] by simp
  have tb: "payer ?tb = u" "addressLookupTable ?tb = None" by (simp_all add: new_TransactionBuilder_def)
  have user: "map i_instruction (map snd ?xs) = map snd ixs" by (simp add: comp_def case_prod_beta')
  have fit: "list_all (\<lambda>a. getSizeOfTransaction [i_instruction a] False None \<le> sl_PACKET_DATA_SIZE S) (map snd ?xs) = ?fit"
    by (simp add: list.pred_map comp_def case_prod_beta')
  have eq: "batchIntoLegacyTransactions S u rnd ixs cfg = bindR (buildLegacyTransactions S rnd cfg ?tb) (\<lambda>txs. Inr (map fst txs))"
    by (simp only: batchIntoLegacyTransactions_def Let_def)
  show ?thesis
  proof (cases ?fit)
    case True
    from legacy_sent [OF inv tb(2), of rnd cfg, unfolded fit user tb(1), OF this]
    obtain txs where "buildLegacyTransactions S rnd cfg ?tb = Inr txs" "carries S u (map snd ixs) (map fst txs)" by blast
    with True show ?thesis unfolding eq by simp
  next
    case False
    from legacy_throws [OF inv tb(2), of rnd cfg, unfolded fit, OF this]
    obtain e where "buildLegacyTransactions S rnd cfg ?tb = Inl e" by blast
    with False show ?thesis unfolding eq by simp
  qed
qed

text \<open>An instruction that does not fit a packet is dropped silently by the versioned builder,
  which returns an empty transaction for it.\<close>

theorem versioned_drops_oversized:
  assumes "sl_PACKET_DATA_SIZE S < getSizeOfTransaction [i_instruction a] True lut"
  shows "batchIntoVersionedTransactions S p rnd [(r, a)] cfg lut = [([], i_signers a)]"
  using assms
  by (simp add: batchIntoVersionedTransactions_def buildVersionedTransactions_def addInstruction_def
      new_TransactionBuilder_def new_batch_def instructionsWithComputeBudget_def)

theorem versioned_drops_oversized_witness:
  "batchIntoVersionedTransactions sample_solana 5 (\<lambda>_. 0)
     [(0, \<lparr> i_instruction = sample_ix 2000, i_signers = [''k''], i_computeUnits = None \<rparr>)] no_fees None = [([], [''k''])]"
  using versioned_drops_oversized [of sample_solana "\<lparr> i_instruction = sample_ix 2000, i_signers = [''k''], i_computeUnits = None \<rparr>" None]
  by (simp add: size_sample_ix sample_solana_def)

text \<open>With a retry limit \<open>m\<close> the confirmation loop of \<open>sendTransactions\<close> ends within \<open>m + 2\<close>
  rounds, whatever the network answers, and sends the transaction at most \<open>m + 1\<close> times.\<close>

theorem sendTransactions_bounded:
  assumes "m \<noteq> 0" "m + 2 \<le> length rounds"
  shows "\<exists>c n. confirm_loop (Some m) 0 rounds = Some (c, n) \<and> n \<le> m + 1"
proof -
  from assms confirm_loop_returns [of m 0 rounds] obtain c n where "confirm_loop (Some m) 0 rounds = Some (c, n)"
    by auto
  with confirm_loop_bound [OF this assms(1)] show ?thesis by auto
qed

theorem sendTransactions_bounded_witness:
  "\<exists>c n. confirm_loop (Some 1) 0 [None, None, None :: nat option] = Some (c, n) \<and> n \<le> 1 + 1"
  by (rule sendTransactions_bounded) simp_all

lemma sendTransactions_Inr:
  "sendTransactions mr txs acc = Some (Inr sigs) \<longleftrightarrow>
     sigs = acc @ map fst txs \<and> list_all (\<lambda>(sig, rounds). \<exists>n. confirm_loop mr 0 rounds = Some (Some None, n)) txs"
  by (induction mr txs acc rule: sendTransactions.induct)
    (auto split: option.splits)

text \<open>C20. \<open>sendTransactions\<close> returns signatures only when every transaction was confirmed without an
  error, and then it returns the signatures of all of them, in order.\<close>

theorem sendTransactions_all_confirmed:
  "sendTransactions mr txs [] = Some (Inr sigs) \<longleftrightarrow>
     sigs = map fst txs \<and> list_all (\<lambda>(sig, rounds). \<exists>n. confirm_loop mr 0 rounds = Some (Some None, n)) txs"
  using sendTransactions_Inr [of mr txs "[]"] by simp

end
