(* ===== verification/Price_Store.thy ===== *)
theory Price_Store
  imports Governance_Payload
begin

text \<open>
  \<open>xc_admin_common/src/price_store.ts\<close>: the instructions of the price store program that a proposal may
  contain, how they are made and how reviewers of a proposal see them.

  The class \<open>PublicKey\<close> of \<open>@solana/web3.js\<close> is the record \<open>pubkey_lib\<close>; the locale \<open>pubkeys\<close> says that a key is
  its 32 bytes. Addresses derived from seeds are arbitrary functions of them.
\<close>

section \<open>Public keys\<close>

record 'pk pubkey_lib =
  pk_toBuffer :: "'pk \<Rightarrow> bytes"
  pk_new :: "bytes \<Rightarrow> 'pk"
  pk_toBase58 :: "'pk \<Rightarrow> string"
  pk_ofBase58 :: "string \<Rightarrow> 'pk"
  pk_findProgramAddress :: "bytes list \<Rightarrow> 'pk \<Rightarrow> 'pk \<times> byte"
  pk_createWithSeed :: "'pk \<Rightarrow> string \<Rightarrow> 'pk \<Rightarrow> 'pk"
  pk_systemProgram :: 'pk
  pk_createAccountWithSeed :: "'pk \<Rightarrow> 'pk \<Rightarrow> 'pk \<Rightarrow> string \<Rightarrow> nat \<Rightarrow> nat \<Rightarrow> 'pk \<Rightarrow> 'pk instruction"

locale pubkeys =
  fixes P :: "'pk pubkey_lib"
  assumes length_toBuffer [simp]: "length (pk_toBuffer P k) = 32"
    and new_toBuffer [simp]: "pk_new P (pk_toBuffer P k) = k"
    and toBuffer_new: "length b = 32 \<Longrightarrow> pk_toBuffer P (pk_new P b) = b"

definition string_bytes :: "string \<Rightarrow> bytes" where
  "string_bytes = map of_char"

section \<open>Making instructions\<close>

definition PRICE_STORE_PROGRAM_ID :: "'pk pubkey_lib \<Rightarrow> 'pk" where
  "PRICE_STORE_PROGRAM_ID P = pk_ofBase58 P ''3m6sv6HGqEbuyLV84mD7rJn4MAC9LhUa1y1AUNVqcPfr''"

datatype 'pk PriceStoreInstruction =
    Initialize (payerKey: 'pk) (init_authorityKey: 'pk)
  | InitializePublisher (authorityKey: 'pk) (publisherKey: 'pk) (bufferKey: 'pk)

datatype InstructionId = Id_Initialize | Id_SubmitPrices | Id_InitializePublisher

fun id_byte :: "InstructionId \<Rightarrow> byte" where
  "id_byte Id_Initialize = 0"
| "id_byte Id_SubmitPrices = 1"
| "id_byte Id_InitializePublisher = 2"

definition PRICE_STORE_BUFFER_SPACE :: nat where
  "PRICE_STORE_BUFFER_SPACE = 100048"

definition findPriceStoreConfigAddress :: "'pk pubkey_lib \<Rightarrow> 'pk \<times> byte" where
  "findPriceStoreConfigAddress P = pk_findProgramAddress P [string_bytes ''CONFIG''] (PRICE_STORE_PROGRAM_ID P)"

definition findPriceStorePublisherConfigAddress :: "'pk pubkey_lib \<Rightarrow> 'pk \<Rightarrow> 'pk \<times> byte" where
  "findPriceStorePublisherConfigAddress P publisher =
     pk_findProgramAddress P [string_bytes ''PUBLISHER_CONFIG'', pk_toBuffer P publisher] (PRICE_STORE_PROGRAM_ID P)"

abbreviation meta :: "'pk \<Rightarrow> bool \<Rightarrow> bool \<Rightarrow> 'pk account_meta" where
  "meta k s w \<equiv> \<lparr> am_pubkey = k, am_isSigner = s, am_isWritable = w \<rparr>"

definition createPriceStoreInstruction :: "'pk pubkey_lib \<Rightarrow> 'pk PriceStoreInstruction \<Rightarrow> 'pk instruction" where
  "createPriceStoreInstruction P data =
     (case data of
        Initialize payer authority \<Rightarrow>
          (let (configKey, configBump) = findPriceStoreConfigAddress P
           in \<lparr> ix_programId = PRICE_STORE_PROGRAM_ID P,
                ix_keys = [meta payer True True, meta configKey False True, meta (pk_systemProgram P) False False],
                ix_data = [id_byte Id_Initialize, configBump] @ pk_toBuffer P authority \<rparr>)
      | InitializePublisher authority publisher buffer \<Rightarrow>
          (let (configKey, configBump) = findPriceStoreConfigAddress P;
               (publisherConfigKey, publisherConfigBump) = findPriceStorePublisherConfigAddress P publisher
           in \<lparr> ix_programId = PRICE_STORE_PROGRAM_ID P,
                ix_keys = [meta authority True True, meta configKey False False, meta publisherConfigKey False True,
                  meta buffer False True, meta (pk_systemProgram P) False False],
                ix_data = [id_byte Id_InitializePublisher, configBump, publisherConfigBump] @ pk_toBuffer P publisher \<rparr>))"

section \<open>Parsing instructions\<close>

definition accountEquals :: "'pk account_meta \<Rightarrow> 'pk account_meta \<Rightarrow> bool" where
  "accountEquals a b \<longleftrightarrow>
     am_isSigner a = am_isSigner b \<and> am_isWritable a = am_isWritable b \<and> am_pubkey a = am_pubkey b"

definition read_fields :: "'pk pubkey_lib \<Rightarrow> 'pk instruction \<Rightarrow> 'pk PriceStoreInstruction result" where
  "read_fields P ix =
     (let instructionId = to_signed 1 (unat (ix_data ix ! 0)) in
      if instructionId = 0 then
        (if length (ix_data ix) < 34 then Inl (JsError ''instruction data is too short'')
         else if length (ix_keys ix) \<noteq> 3 then Inl (JsError ''invalid number of accounts'')
         else Inr (Initialize (am_pubkey (ix_keys ix ! 0)) (pk_new P (subarray (ix_data ix) 2 34))))
      else if instructionId = 2 then
        (if length (ix_data ix) < 35 then Inl (JsError ''instruction data is too short'')
         else if length (ix_keys ix) \<noteq> 5 then Inl (JsError ''invalid number of accounts'')
         else Inr (InitializePublisher (am_pubkey (ix_keys ix ! 0)) (pk_new P (subarray (ix_data ix) 3 35))
                     (am_pubkey (ix_keys ix ! 3))))
      else if instructionId = 1 then Inl (JsError ''SubmitPrices instruction is not supported'')
      else Inl (JsError ''unrecognized instruction id''))"

definition parsePriceStoreInstruction :: "'pk pubkey_lib \<Rightarrow> 'pk instruction \<Rightarrow> 'pk PriceStoreInstruction result" where
  "parsePriceStoreInstruction P ix =
     (if ix_programId ix \<noteq> PRICE_STORE_PROGRAM_ID P then Inl (JsError ''program ID mismatch'')
      else if length (ix_data ix) < 1 then Inl (JsError ''instruction data is too short'')
      else bindR (read_fields P ix) (\<lambda>data.
        let expected = createPriceStoreInstruction P data in
        if ix_data expected \<noteq> ix_data ix then Inl (JsError ''invalid instruction data'')
        else if list_ex (\<lambda>(ex, k). \<not> accountEquals ex k) (zip (ix_keys expected) (ix_keys ix))
        then Inl (JsError ''invalid accounts'')
        else Inr data))"

text \<open>What a reviewer is shown: the parsed instruction, or an unrecognised one with the reason.\<close>

datatype 'pk PriceStoreMultisigInstruction =
    Recognized "'pk PriceStoreInstruction" "'pk account_meta list"
  | Unrecognized bytes js_error "'pk account_meta list"

definition fromTransactionInstruction :: "'pk pubkey_lib \<Rightarrow> 'pk instruction \<Rightarrow> 'pk PriceStoreMultisigInstruction" where
  "fromTransactionInstruction P ix =
     (case parsePriceStoreInstruction P ix of
        Inl e \<Rightarrow> Unrecognized (ix_data ix) e (ix_keys ix)
      | Inr result \<Rightarrow> Recognized result (ix_keys ix))"

section \<open>Deterministic buffer accounts\<close>

text \<open>\<open>MAX_SEED_LENGTH\<close> of \<open>@solana/web3.js\<close> is 32.\<close>

definition PRICE_FEED_OPS_KEY :: "'pk pubkey_lib \<Rightarrow> 'pk" where
  "PRICE_FEED_OPS_KEY P = pk_ofBase58 P ''ACzP6RC98vcBk9oTeAwcH1o5HJvtBzU59b5nqdwc7Cxy''"

definition findDetermisticPublisherBufferAddress :: "'pk pubkey_lib \<Rightarrow> 'pk \<Rightarrow> 'pk \<times> string" where
  "findDetermisticPublisherBufferAddress P publisher =
     (let seedPrefix = ''Buffer'';
          seed = seedPrefix @ take (32 - length seedPrefix) (pk_toBase58 P publisher)
      in (pk_createWithSeed P (PRICE_FEED_OPS_KEY P) seed (PRICE_STORE_PROGRAM_ID P), seed))"

definition createDeterministicPublisherBufferAccountInstruction ::
  "'pk pubkey_lib \<Rightarrow> nat \<Rightarrow> 'pk \<Rightarrow> 'pk \<Rightarrow> 'pk instruction" where
  "createDeterministicPublisherBufferAccountInstruction P rent base publisher =
     (let (buffer, seed) = findDetermisticPublisherBufferAddress P publisher
      in pk_createAccountWithSeed P base base buffer seed PRICE_STORE_BUFFER_SPACE rent (PRICE_STORE_PROGRAM_ID P))"

definition createDetermisticPriceStoreInitializePublisherInstruction ::
  "'pk pubkey_lib \<Rightarrow> 'pk \<Rightarrow> 'pk \<Rightarrow> 'pk instruction" where
  "createDetermisticPriceStoreInitializePublisherInstruction P authority publisher =
     (let buffer = fst (findDetermisticPublisherBufferAddress P publisher)
      in createPriceStoreInstruction P (InitializePublisher authority publisher buffer))"

section \<open>Whether accounts exist\<close>

text \<open>\<open>getAccountInfo\<close> is the node's answer, \<open>None\<close> for \<open>null\<close>.\<close>

definition isPriceStorePublisherInitialized :: "'pk pubkey_lib \<Rightarrow> ('pk \<Rightarrow> 'info option) \<Rightarrow> 'pk \<Rightarrow> bool" where
  "isPriceStorePublisherInitialized P getAccountInfo publisher \<longleftrightarrow>
     getAccountInfo (fst (findPriceStorePublisherConfigAddress P publisher)) \<noteq> None"

definition isPriceStoreInitialized :: "'pk pubkey_lib \<Rightarrow> ('pk \<Rightarrow> 'info option) \<Rightarrow> bool" where
  "isPriceStoreInitialized P getAccountInfo \<longleftrightarrow> getAccountInfo (fst (findPriceStoreConfigAddress P)) \<noteq> None"

section \<open>Lemmas\<close>

lemma accounts_equal:
  "length xs = length ys \<Longrightarrow> \<not> list_ex (\<lambda>(ex, k). \<not> accountEquals ex k) (zip xs ys) \<longleftrightarrow> xs = ys"
proof (induction xs ys rule: list_induct2)
  case (Cons x xs y ys)
  have "accountEquals x y \<longleftrightarrow> x = y" by (cases x; cases y) (auto simp: accountEquals_def)
  with Cons.IH show ?case by simp
qed simp

lemma id_of_byte:
  "to_signed 1 (unat (b :: byte)) = 0 \<longleftrightarrow> b = 0" "to_signed 1 (unat (b :: byte)) = 2 \<longleftrightarrow> b = 2"
proof -
  have "b = 0 \<longleftrightarrow> unat b = 0" "b = 2 \<longleftrightarrow> unat b = 2" by (simp_all add: word_unat_eq_iff)
  moreover have "to_signed 1 n = 0 \<longleftrightarrow> n = 0" "to_signed 1 n = 2 \<longleftrightarrow> n = 2" if "n < 256" for n
    using that by (auto simp: to_signed_def)
  ultimately show "to_signed 1 (unat b) = 0 \<longleftrightarrow> b = 0" "to_signed 1 (unat b) = 2 \<longleftrightarrow> b = 2"
    using unat_byte_less [of b] by (simp_all only:)
qed

lemma create_simps:
  "ix_programId (createPriceStoreInstruction P d) = PRICE_STORE_PROGRAM_ID P"
  "ix_keys (createPriceStoreInstruction P (Initialize p a)) =
     [meta p True True, meta (fst (findPriceStoreConfigAddress P)) False True, meta (pk_systemProgram P) False False]"
  "ix_keys (createPriceStoreInstruction P (InitializePublisher a q b)) =
     [meta a True True, meta (fst (findPriceStoreConfigAddress P)) False False,
      meta (fst (findPriceStorePublisherConfigAddress P q)) False True, meta b False True, meta (pk_systemProgram P) False False]"
  "ix_data (createPriceStoreInstruction P (Initialize p a)) =
     [0, snd (findPriceStoreConfigAddress P)] @ pk_toBuffer P a"
  "ix_data (createPriceStoreInstruction P (InitializePublisher a q b)) =
     [2, snd (findPriceStoreConfigAddress P), snd (findPriceStorePublisherConfigAddress P q)] @ pk_toBuffer P q"
  by (cases d) (simp_all add: createPriceStoreInstruction_def Let_def case_prod_unfold)

context pubkeys
begin

lemma read_fields_create: "read_fields P (createPriceStoreInstruction P d) = Inr d"
proof (cases d)
  case (Initialize p a)
  have "subarray (ix_data (createPriceStoreInstruction P d)) 2 34 = pk_toBuffer P a"
    using subarray_mid' [of 2 "[0, snd (findPriceStoreConfigAddress P)]" 34 "pk_toBuffer P a" "[]"]
    by (simp add: Initialize create_simps)
  then show ?thesis by (simp add: Initialize read_fields_def create_simps to_signed_def)
next
  case (InitializePublisher a q b)
  have "subarray (ix_data (createPriceStoreInstruction P d)) 3 35 = pk_toBuffer P q"
    using subarray_mid' [of 3 "[2, snd (findPriceStoreConfigAddress P), snd (findPriceStorePublisherConfigAddress P q)]"
        35 "pk_toBuffer P q" "[]"]
    by (simp add: InitializePublisher create_simps)
  then show ?thesis by (simp add: InitializePublisher read_fields_def create_simps to_signed_def)
qed

lemma create_parse: "parsePriceStoreInstruction P (createPriceStoreInstruction P d) = Inr d"
proof -
  have "ix_data (createPriceStoreInstruction P d) \<noteq> []" by (cases d) (simp_all add: create_simps)
  then show ?thesis
    using accounts_equal [OF refl, of "ix_keys (createPriceStoreInstruction P d)"]
    by (simp add: parsePriceStoreInstruction_def read_fields_create create_simps(1) Let_def)
qed

lemma read_fields_keys:
  "read_fields P ix = Inr d \<Longrightarrow> length (ix_keys (createPriceStoreInstruction P d)) = length (ix_keys ix)"
  by (auto simp: read_fields_def Let_def create_simps split: if_splits)

lemma parse_create:
  assumes "parsePriceStoreInstruction P ix = Inr d"
  shows "ix = createPriceStoreInstruction P d"
proof -
  let ?e = "createPriceStoreInstruction P d"
  from assms have p: "ix_programId ix = PRICE_STORE_PROGRAM_ID P" and r: "read_fields P ix = Inr d"
    and d: "ix_data ?e = ix_data ix"
    and k: "\<not> list_ex (\<lambda>(ex, k). \<not> accountEquals ex k) (zip (ix_keys ?e) (ix_keys ix))"
    by (auto simp: parsePriceStoreInstruction_def Let_def bindR_Inr_iff split: if_splits)
  have "ix_keys ?e = ix_keys ix" using k accounts_equal [OF read_fields_keys [OF r]] by simp
  moreover have "ix_programId ?e = PRICE_STORE_PROGRAM_ID P" by (rule create_simps(1))
  ultimately show ?thesis using p d by (cases ix; cases ?e) simp
qed

end

section \<open>The documented keys\<close>

text \<open>Keys as 256-bit words.\<close>

definition word_key :: "bytes \<Rightarrow> 256 word" where
  "word_key b = of_nat (be_nat b)"

definition doc_keys :: "256 word pubkey_lib" where
  "doc_keys = \<lparr> pk_toBuffer = (\<lambda>k. be_bytes 32 (unat k)), pk_new = word_key,
     pk_toBase58 = (\<lambda>k. to_hex (be_bytes 32 (unat k))), pk_ofBase58 = (\<lambda>s. word_key (string_bytes s)),
     pk_findProgramAddress = (\<lambda>seeds k. (k + word_key (concat seeds), 255)),
     pk_createWithSeed = (\<lambda>k s p. k + word_key (string_bytes s) + p), pk_systemProgram = 0,
     pk_createAccountWithSeed = (\<lambda>from base new s space rent prog.
       \<lparr> ix_programId = 0, ix_keys = [meta from True True, meta new False True], ix_data = string_bytes s \<rparr>) \<rparr>"

interpretation doc_keys: pubkeys doc_keys
proof
  fix k :: "256 word" and b :: bytes
  have "unat k < 256 ^ 32" using unsigned_less [of k, where ?'a = nat] by simp
  then show "pk_new doc_keys (pk_toBuffer doc_keys k) = k" by (simp add: doc_keys_def word_key_def)
  show "pk_toBuffer doc_keys (pk_new doc_keys b) = b" if b: "length b = 32"
  proof -
    have "be_nat b < 2 ^ 256" using be_nat_less [of b] b by simp
    then have "unat (word_key b) = be_nat b" by (simp add: word_key_def unsigned_of_nat take_bit_nat_eq_self)
    then show ?thesis using be_bytes_be_nat [of b] b by (simp add: doc_keys_def)
  qed
qed (simp add: doc_keys_def)

section \<open>Properties\<close>

text \<open>C4. What reviewers see is what will be executed: the parser recognises exactly the instructions that
  \<open>createPriceStoreInstruction\<close> makes, with the same program, accounts, flags and data, and gives
  back their fields; every other instruction is shown as unrecognised, with its data and accounts.\<close>

theorem price_store_parse_exact:
  assumes "pubkeys P"
  shows "(parsePriceStoreInstruction P ix = Inr d \<longleftrightarrow> ix = createPriceStoreInstruction P d) \<and>
         (case fromTransactionInstruction P ix of
            Recognized result keys \<Rightarrow> ix = createPriceStoreInstruction P result \<and> keys = ix_keys ix
          | Unrecognized data e keys \<Rightarrow> (\<nexists>result. ix = createPriceStoreInstruction P result) \<and>
              data = ix_data ix \<and> keys = ix_keys ix)"
  using pubkeys.parse_create [OF assms] pubkeys.create_parse [OF assms]
  by (fastforce simp: fromTransactionInstruction_def split: sum.split)

theorem price_store_parse_exact_witness:
  "parsePriceStoreInstruction doc_keys (createPriceStoreInstruction doc_keys (Initialize 5 6)) = Inr (Initialize 5 6)"
  using price_store_parse_exact [OF doc_keys.pubkeys_axioms] by blast

end
