(* ===== verification/Proposals.thy ===== *)
theory Proposals
  imports Solana_Transaction Price_Store Governance_Codec
begin

text \<open>
  \<open>xc_admin_common/src\<close>: how instructions become proposals of the multisig (\<open>propose.ts\<close>), how proposals are read
  back (\<open>multisig.ts\<close>) and \<open>remote_executor.ts\<close>.

  The Squads SDK is the record \<open>squads_lib\<close>; the instructions its builders return are named by the call that
  makes them (\<open>squads_call\<close>) and turned into Solana instructions by \<open>sq_instruction\<close>. What the Squads
  program documents about executing them is the locale \<open>squads_program\<close>. Fetching accounts is an argument.
\<close>

section \<open>Keys\<close>

definition UPGRADE_MULTISIG :: "'pk pubkey_lib \<Rightarrow> (string \<times> 'pk) list" where
  "UPGRADE_MULTISIG P =
     [(''mainnet-beta'', pk_ofBase58 P ''FVQyHcooAtThJ83XFrNnv74BcinbRH3bRmfFamAHBfuj''),
      (''testnet'', pk_ofBase58 P ''FVQyHcooAtThJ83XFrNnv74BcinbRH3bRmfFamAHBfuj''),
      (''devnet'', pk_ofBase58 P ''6baWtW1zTUVMSJHJQVxDUXWzqrQeYBr6mu31j3bTKwY3''),
      (''localnet'', pk_ofBase58 P ''FVQyHcooAtThJ83XFrNnv74BcinbRH3bRmfFamAHBfuj'')]"

definition PRICE_FEED_MULTISIG :: "'pk pubkey_lib \<Rightarrow> (string \<times> 'pk) list" where
  "PRICE_FEED_MULTISIG P =
     map (\<lambda>c. (c, pk_ofBase58 P ''92hQkq8kBgCUcF9yWN8URZB9RTmA4mZpDGtbiAWA74Z8''))
       [''mainnet-beta'', ''testnet'', ''devnet'', ''localnet'']"

definition UPGRADE_OPS_KEY :: "'pk pubkey_lib \<Rightarrow> 'pk" where
  "UPGRADE_OPS_KEY P = pk_ofBase58 P ''opsLibxVY7Vz5eYMmSfX8cLFCFVYTtH6fr6MiifMpA7''"

definition getOpsKey :: "'pk pubkey_lib \<Rightarrow> 'pk \<Rightarrow> 'pk result" where
  "getOpsKey P vault =
     (if list_ex (\<lambda>kv. snd kv = vault) (PRICE_FEED_MULTISIG P) then Inr (PRICE_FEED_OPS_KEY P)
      else if list_ex (\<lambda>kv. snd kv = vault) (UPGRADE_MULTISIG P) then Inr (UPGRADE_OPS_KEY P)
      else Inl (JsError ''Unrecognized multisig vault''))"

definition REMOTE_EXECUTOR_ADDRESS :: "'pk pubkey_lib \<Rightarrow> 'pk" where
  "REMOTE_EXECUTOR_ADDRESS P = pk_ofBase58 P ''exe6S3AxPVNmy46L4Nj6HrnnAVQUhwyYzMSNcnRn3qq''"

definition mapKey :: "'pk pubkey_lib \<Rightarrow> 'pk \<Rightarrow> 'pk" where
  "mapKey P key = fst (pk_findProgramAddress P [string_bytes ''EXECUTOR_KEY'', pk_toBuffer P key] (REMOTE_EXECUTOR_ADDRESS P))"

section \<open>Batches of instructions for the remote executor\<close>

definition MAX_EXECUTOR_PAYLOAD_SIZE :: "'pk solana_lib \<Rightarrow> nat" where
  "MAX_EXECUTOR_PAYLOAD_SIZE S = sl_PACKET_DATA_SIZE S - 52 - 687"

definition MAX_INSTRUCTIONS_PER_PROPOSAL :: nat where
  "MAX_INSTRUCTIONS_PER_PROPOSAL = 256 - 1"

text \<open>The size of one or more instructions; the code's \<open>reduce\<close> has no value for none, and it is not called so.\<close>

definition getSizeOfExecutorInstructions :: "'pk instruction list \<Rightarrow> nat" where
  "getSizeOfExecutorInstructions ixs = sum_list (map (\<lambda>ix. 32 + 4 + length (ix_keys ix) * 34 + 4 + length (ix_data ix)) ixs)"

function grow_batch :: "nat \<Rightarrow> 'pk instruction list \<Rightarrow> nat \<Rightarrow> nat \<Rightarrow> nat" where
  "grow_batch limit ixs i j =
     (if j < length ixs \<and> getSizeOfExecutorInstructions (subarray ixs i j) \<le> limit
      then grow_batch limit ixs i (j + 1) else j)"
  by pat_completeness auto

termination
  by (relation "measure (\<lambda>(_, ixs, _, j). length ixs - j)") auto

declare grow_batch.simps [simp del]

lemma grow_batch_ge: "j \<le> grow_batch limit ixs i j"
proof (induction limit ixs i j rule: grow_batch.induct)
  case (1 limit ixs i j)
  then show ?case by (subst grow_batch.simps) auto
qed

function batches_from :: "nat \<Rightarrow> 'pk instruction list \<Rightarrow> nat \<Rightarrow> 'pk instruction list list" where
  "batches_from limit ixs i =
     (if i < length ixs
      then (let j = grow_batch limit ixs i (i + 2) in subarray ixs i (j - 1) # batches_from limit ixs (j - 1))
      else [])"
  by pat_completeness auto

termination
proof (relation "measure (\<lambda>(_, ixs, i). length ixs - i)")
  fix limit i j and ixs :: "'pk instruction list"
  assume "i < length ixs" "j = grow_batch limit ixs i (i + 2)"
  then show "((limit, ixs, j - 1), limit, ixs, i) \<in> measure (\<lambda>(_, ixs, i). length ixs - i)"
    using grow_batch_ge [of "i + 2" limit ixs i] by simp
qed simp

declare batches_from.simps [simp del]

definition batchIntoExecutorPayload :: "'pk solana_lib \<Rightarrow> 'pk instruction list \<Rightarrow> 'pk instruction list list" where
  "batchIntoExecutorPayload S ixs = batches_from (MAX_EXECUTOR_PAYLOAD_SIZE S) ixs 0"

section \<open>Wormhole messages\<close>

record 'pk SquadInstruction =
  sq_ix :: "'pk instruction"
  sq_authority :: "(nat \<times> nat \<times> string) option"

record 'pk post_message_accounts =
  pm_bridge :: 'pk
  pm_message :: 'pk
  pm_emitter :: 'pk
  pm_sequence :: 'pk
  pm_payer :: 'pk
  pm_feeCollector :: 'pk

datatype 'pk squads_call =
    CreateTransaction 'pk nat nat
  | AddInstruction 'pk 'pk "'pk SquadInstruction" nat
  | ActivateTransaction 'pk 'pk
  | ApproveTransaction 'pk 'pk

record 'pk squads_lib =
  sq_getAuthorityPDA :: "'pk \<Rightarrow> nat \<Rightarrow> 'pk"
  sq_getTxPDA :: "'pk \<Rightarrow> nat \<Rightarrow> 'pk"
  sq_getIxPDA :: "'pk \<Rightarrow> nat \<Rightarrow> 'pk"
  sq_getIxAuthorityPDA :: "'pk \<Rightarrow> nat \<Rightarrow> 'pk \<times> nat"
  sq_instruction :: "'pk squads_call \<Rightarrow> 'pk instruction"
  sq_executeInstruction :: "'pk \<Rightarrow> 'pk \<Rightarrow> 'pk instruction"
  sq_bridgeDataKey :: "'pk \<Rightarrow> 'pk"
  sq_emitterSequenceKey :: "'pk \<Rightarrow> 'pk \<Rightarrow> 'pk"
  sq_feeCollectorKey :: "'pk \<Rightarrow> 'pk"
  sq_postMessage :: "'pk \<Rightarrow> bytes \<Rightarrow> 'pk post_message_accounts \<Rightarrow> 'pk instruction"

definition getPostMessageAccounts :: "'pk squads_lib \<Rightarrow> 'pk \<Rightarrow> 'pk \<Rightarrow> 'pk \<Rightarrow> 'pk \<Rightarrow> 'pk post_message_accounts" where
  "getPostMessageAccounts Q wormholeAddress emitter feePayer message =
     \<lparr> pm_bridge = sq_bridgeDataKey Q wormholeAddress, pm_message = message, pm_emitter = emitter,
       pm_sequence = sq_emitterSequenceKey Q emitter wormholeAddress, pm_payer = feePayer,
       pm_feeCollector = sq_feeCollectorKey Q wormholeAddress \<rparr>"

definition getPostMessageInstruction ::
  "'pk squads_lib \<Rightarrow> 'pk \<Rightarrow> 'pk \<Rightarrow> nat \<Rightarrow> 'pk \<Rightarrow> bytes \<Rightarrow> 'pk \<Rightarrow> 'pk SquadInstruction" where
  "getPostMessageInstruction Q vault proposalAddress instructionIndex wormholeAddress payload messagePayer =
     (let (messagePDA, messagePdaBump) = sq_getIxAuthorityPDA Q proposalAddress instructionIndex;
          emitter = sq_getAuthorityPDA Q vault 1;
          accounts = getPostMessageAccounts Q wormholeAddress emitter messagePayer messagePDA
      in \<lparr> sq_ix = sq_postMessage Q wormholeAddress payload accounts,
           sq_authority = Some (instructionIndex, messagePdaBump, ''custom'') \<rparr>)"

text \<open>The key the vault signs for on a cluster: its own, or the one of the remote executor.\<close>

definition getVaultAuthorityPDA :: "'pk pubkey_lib \<Rightarrow> 'pk squads_lib \<Rightarrow> 'pk \<Rightarrow> nat \<Rightarrow> string \<Rightarrow> string option \<Rightarrow> 'pk" where
  "getVaultAuthorityPDA P Q msPublicKey authorityIndex ownCluster target =
     (let localAuthorityPDA = sq_getAuthorityPDA Q msPublicKey authorityIndex
      in if target = None \<or> target = Some ownCluster then localAuthorityPDA else mapKey P localAuthorityPDA)"

text \<open>\<open>new ExecutePostedVaa("pythnet", instructions).encode()\<close>; below it is the argument \<open>enc\<close>.\<close>

definition executor_payload :: "chain_table \<Rightarrow> buffer_layout_lib \<Rightarrow> 'pk web3_lib \<Rightarrow> 'pk instruction list \<Rightarrow> bytes result" where
  "executor_payload wh L W instructions = encode wh L W (ExecutePostedVaa ''pythnet'' instructions)"

definition wrapAsRemoteInstruction ::
  "'pk pubkey_lib \<Rightarrow> 'pk squads_lib \<Rightarrow> ('pk instruction list \<Rightarrow> bytes result) \<Rightarrow> 'pk \<Rightarrow> 'pk \<Rightarrow> 'pk instruction list \<Rightarrow>
   nat \<Rightarrow> 'pk \<Rightarrow> 'pk SquadInstruction result" where
  "wrapAsRemoteInstruction P Q enc vault proposalAddress instructions instructionIndex wormholeAddress =
     bindR (enc instructions) (\<lambda>buffer.
     bindR (getOpsKey P vault) (\<lambda>opsKey.
       Inr (getPostMessageInstruction Q vault proposalAddress instructionIndex wormholeAddress buffer opsKey)))"

section \<open>Proposals\<close>

text \<open>The instructions that make one proposal of the items that \<open>squad_ix\<close> turns into instructions to add.\<close>

definition add_calls ::
  "'pk \<Rightarrow> 'pk \<Rightarrow> ('a \<Rightarrow> nat \<Rightarrow> 'pk SquadInstruction result) \<Rightarrow> 'a list \<Rightarrow> 'pk squads_call list result" where
  "add_calls vault proposal squad_ix items =
     mapR (\<lambda>(i, item). bindR (squad_ix item (i + 1)) (\<lambda>sx. Inr (AddInstruction vault proposal sx (i + 1))))
       (enumerate 0 items)"

definition proposal_calls ::
  "'pk squads_lib \<Rightarrow> 'pk \<Rightarrow> nat \<Rightarrow> nat \<Rightarrow> ('pk \<Rightarrow> 'a \<Rightarrow> nat \<Rightarrow> 'pk SquadInstruction result) \<Rightarrow> 'a list \<Rightarrow>
   'pk squads_call list result" where
  "proposal_calls Q vault authorityIndex proposalIndex squad_ix items =
     (let newProposalAddress = sq_getTxPDA Q vault proposalIndex in
      bindR (add_calls vault newProposalAddress (squad_ix newProposalAddress) items) (\<lambda>adds.
        Inr (CreateTransaction vault authorityIndex proposalIndex # adds @
             [ActivateTransaction vault newProposalAddress, ApproveTransaction vault newProposalAddress])))"

text \<open>The loop over the proposals, with its index \<open>j\<close>.\<close>

function proposals_from ::
  "'pk squads_lib \<Rightarrow> 'pk \<Rightarrow> nat \<Rightarrow> nat \<Rightarrow> ('pk \<Rightarrow> 'a \<Rightarrow> nat \<Rightarrow> 'pk SquadInstruction result) \<Rightarrow> 'a list \<Rightarrow> nat \<Rightarrow>
   ('pk squads_call list \<times> 'pk list) result" where
  "proposals_from Q vault authorityIndex transactionIndex squad_ix items j =
     (if j < length items
      then (let proposalIndex = transactionIndex + 1 + j div MAX_INSTRUCTIONS_PER_PROPOSAL in
            bindR (proposal_calls Q vault authorityIndex proposalIndex squad_ix
                     (subarray items j (j + MAX_INSTRUCTIONS_PER_PROPOSAL))) (\<lambda>calls.
            bindR (proposals_from Q vault authorityIndex transactionIndex squad_ix items
                     (j + MAX_INSTRUCTIONS_PER_PROPOSAL)) (\<lambda>(rest, props).
              Inr (calls @ rest, sq_getTxPDA Q vault proposalIndex # props))))
      else Inr ([], []))"
  by pat_completeness auto

termination
  by (relation "measure (\<lambda>(_, _, _, _, _, items, j). length items - j)")
    (auto simp: MAX_INSTRUCTIONS_PER_PROPOSAL_def)

declare proposals_from.simps [simp del]

record MultisigAccount =
  ms_authorityIndex :: nat
  ms_transactionIndex :: nat

definition local_ix :: "'pk \<Rightarrow> 'pk instruction \<Rightarrow> nat \<Rightarrow> 'pk SquadInstruction result" where
  "local_ix proposal ix i = Inr \<lparr> sq_ix = ix, sq_authority = None \<rparr>"

text \<open>The calls and the new proposals of \<open>proposeInstructions\<close>, with both loops of the code
  (over batches and over instructions) as \<open>proposals_from\<close>; \<open>wormhole\<close> is the address on the cluster of the
  multisig.\<close>

definition proposeInstructions_calls ::
  "'pk pubkey_lib \<Rightarrow> 'pk solana_lib \<Rightarrow> 'pk squads_lib \<Rightarrow> ('pk instruction list \<Rightarrow> bytes result) \<Rightarrow> 'pk \<Rightarrow>
   MultisigAccount \<Rightarrow> 'pk option \<Rightarrow> bool \<Rightarrow> 'pk instruction list \<Rightarrow> ('pk squads_call list \<times> 'pk list) result" where
  "proposeInstructions_calls P S Q enc vault ms wormhole remote instructions =
     (if remote
      then (case wormhole of
              None \<Rightarrow> Inl (JsError ''Need wormhole address'')
            | Some wormholeAddress \<Rightarrow>
                proposals_from Q vault (ms_authorityIndex ms) (ms_transactionIndex ms)
                  (\<lambda>proposal batch i. wrapAsRemoteInstruction P Q enc vault proposal batch i wormholeAddress)
                  (batchIntoExecutorPayload S instructions) 0)
      else proposals_from Q vault (ms_authorityIndex ms) (ms_transactionIndex ms) local_ix instructions 0)"

text \<open>\<open>proposeWormholeMultipleMessagesWithPayer\<close>: with an existing proposal, given with the number of its
  instructions, it goes on from there.\<close>

definition proposeWormholeMessages_calls ::
  "'pk squads_lib \<Rightarrow> 'pk \<Rightarrow> MultisigAccount \<Rightarrow> 'pk \<Rightarrow> 'pk \<Rightarrow> ('pk \<times> nat) option \<Rightarrow> bytes list \<Rightarrow>
   ('pk squads_call list \<times> 'pk) result" where
  "proposeWormholeMessages_calls Q vault ms wormholeAddress messagePayer existing payloads =
     (let proposalIndex = ms_transactionIndex ms + 1;
          (start, proposalAddress, startingIndex) =
            (case existing of
               None \<Rightarrow> ([CreateTransaction vault (ms_authorityIndex ms) proposalIndex], sq_getTxPDA Q vault proposalIndex, 0)
             | Some (p, n) \<Rightarrow> ([], p, n))
      in if length payloads > MAX_INSTRUCTIONS_PER_PROPOSAL
         then Inl (JsError ''Too many messages in proposal, multiple proposal not supported yet'')
         else Inr (start @
                map (\<lambda>i. AddInstruction vault proposalAddress
                     (getPostMessageInstruction Q vault proposalAddress (1 + i) wormholeAddress (payloads ! i) messagePayer) (1 + i))
                  [startingIndex..<length payloads] @
                [ActivateTransaction vault proposalAddress, ApproveTransaction vault proposalAddress], proposalAddress))"

section \<open>Sending\<close>

definition TIMEOUT :: nat where
  "TIMEOUT = 10"

text \<open>\<open>lands k\<close> tells whether the \<open>k\<close>-th attempt to send the transaction succeeds; the result is the
  number of attempts.\<close>

fun send_retry :: "(nat \<Rightarrow> bool) \<Rightarrow> nat \<Rightarrow> nat \<Rightarrow> nat result" where
  "send_retry lands retries 0 = Inl (JsError ''Too many retries'')"
| "send_retry lands retries (Suc left) = (if lands retries then Inr (Suc retries) else send_retry lands (Suc retries) left)"

fun sendAllTransactions :: "('tx \<Rightarrow> nat \<Rightarrow> bool) \<Rightarrow> 'tx list \<Rightarrow> nat list result" where
  "sendAllTransactions lands [] = Inr []"
| "sendAllTransactions lands (tx # txs) =
     bindR (send_retry (lands tx) 0 TIMEOUT) (\<lambda>n. bindR (sendAllTransactions lands txs) (\<lambda>ns. Inr (n # ns)))"

definition proposeInstructions ::
  "'pk pubkey_lib \<Rightarrow> 'pk solana_lib \<Rightarrow> 'pk squads_lib \<Rightarrow> ('pk instruction list \<Rightarrow> bytes result) \<Rightarrow> 'pk \<Rightarrow>
   MultisigAccount \<Rightarrow> 'pk option \<Rightarrow> bool \<Rightarrow> 'pk instruction list \<Rightarrow> PriorityFeeConfig \<Rightarrow> 'pk \<Rightarrow> (nat \<Rightarrow> nat) \<Rightarrow>
   ('pk instruction list \<Rightarrow> nat \<Rightarrow> bool) \<Rightarrow> 'pk list result" where
  "proposeInstructions P S Q enc vault ms wormhole remote instructions fees unique randomInt lands =
     bindR (proposeInstructions_calls P S Q enc vault ms wormhole remote instructions) (\<lambda>(calls, newProposals).
     bindR (batchIntoLegacyTransactions S unique randomInt
              (map (\<lambda>(k, c). (randomInt k, sq_instruction Q c)) (enumerate 0 calls)) fees) (\<lambda>txs.
     bindR (sendAllTransactions lands txs) (\<lambda>_. Inr newProposals)))"

section \<open>Reading proposals\<close>

record 'pk TransactionAccount =
  ta_publicKey :: 'pk
  ta_instructionIndex :: nat
  ta_status :: string

text \<open>\<open>lodash.range(start, end)\<close>: it counts down when the end is below the start.\<close>

definition lodash_range :: "nat \<Rightarrow> nat \<Rightarrow> nat list" where
  "lodash_range start end = (if start < end then [start..<end] else rev [end + 1..<start + 1])"

text \<open>\<open>getProposals\<close>, on the accounts that were fetched.\<close>

definition getProposals ::
  "'pk squads_lib \<Rightarrow> ('pk \<Rightarrow> 'pk TransactionAccount option) \<Rightarrow> 'pk \<Rightarrow> MultisigAccount \<Rightarrow> nat \<Rightarrow> string \<Rightarrow>
   'pk TransactionAccount list" where
  "getProposals Q fetch vault ms offs state =
     (let txKeys = map (sq_getTxPDA Q vault) (lodash_range offs (ms_transactionIndex ms + 1));
          msTransactions = map fetch txKeys
      in filter (\<lambda>x. if state = ''all'' then True else ta_status x = state) (List.map_filter (\<lambda>x. x) msTransactions))"

fun instruction_keys :: "'pk squads_lib \<Rightarrow> nat \<Rightarrow> 'pk TransactionAccount list \<Rightarrow> 'pk list \<times> nat list" where
  "instruction_keys Q index [] = ([], [])"
| "instruction_keys Q index (tx # txs) =
     (let ixKeys = map (sq_getIxPDA Q (ta_publicKey tx)) (lodash_range 1 (ta_instructionIndex tx + 1));
          (keys, owners) = instruction_keys Q (index + 1) txs
      in (ixKeys @ keys, map (\<lambda>_. index) ixKeys @ owners))"

fun group_instructions :: "('acc option \<times> nat) list \<Rightarrow> 'acc list list \<Rightarrow> 'acc list list" where
  "group_instructions [] byTx = byTx"
| "group_instructions ((toAdd, owner) # rest) byTx =
     group_instructions rest (case toAdd of None \<Rightarrow> byTx | Some a \<Rightarrow> byTx[owner := byTx ! owner @ [a]])"

definition getManyProposalsInstructions ::
  "'pk squads_lib \<Rightarrow> ('pk \<Rightarrow> 'acc option) \<Rightarrow> 'pk TransactionAccount list \<Rightarrow> 'acc list list" where
  "getManyProposalsInstructions Q fetch txAccounts =
     (let (allIxsKeys, ownerTransaction) = instruction_keys Q 0 txAccounts
      in group_instructions (zip (map fetch allIxsKeys) ownerTransaction) (replicate (length txAccounts) []))"

definition getProposalInstructions ::
  "'pk squads_lib \<Rightarrow> ('pk \<Rightarrow> 'acc option) \<Rightarrow> 'pk TransactionAccount \<Rightarrow> 'acc list" where
  "getProposalInstructions Q fetch txAccount =
     List.map_filter fetch (map (sq_getIxPDA Q (ta_publicKey txAccount)) (lodash_range 1 (ta_instructionIndex txAccount + 1)))"

section \<open>The batches\<close>

lemma getSize_Nil [simp]: "getSizeOfExecutorInstructions [] = 0"
  by (simp add: getSizeOfExecutorInstructions_def)

lemma grow_batch_before:
  "i < j \<Longrightarrow> j \<le> Suc (length ixs) \<Longrightarrow> grow_batch limit ixs i j \<le> Suc (length ixs)"
  "i < m \<Longrightarrow> j \<le> m \<Longrightarrow> m < grow_batch limit ixs i j \<Longrightarrow>
     m < length ixs \<and> getSizeOfExecutorInstructions (subarray ixs i m) \<le> limit"
proof (induction limit ixs i j rule: grow_batch.induct)
  case (1 limit ixs i j)
  { case 1 then show ?case using "1.IH"(1) by (subst grow_batch.simps) auto }
  { case 2
    then have c: "j < length ixs \<and> getSizeOfExecutorInstructions (subarray ixs i j) \<le> limit"
      by (subst (asm) grow_batch.simps) (auto split: if_splits)
    with 2 have "j + 1 \<le> m \<Longrightarrow> ?case"
      using "1.IH"(2) by (subst (asm) grow_batch.simps) auto
    with c 2 show ?case by (cases "j = m") auto }
qed

definition payload_fits :: "nat \<Rightarrow> 'pk instruction list \<Rightarrow> bool" where
  "payload_fits limit b \<longleftrightarrow> b \<noteq> [] \<and> (length b = 1 \<or> getSizeOfExecutorInstructions b \<le> limit)"

lemma batch_ok:
  fixes limit
  assumes "i < length ixs"
  defines "j \<equiv> grow_batch limit ixs i (i + 2)"
  shows "i + 1 \<le> j - 1" "j - 1 \<le> length ixs" "payload_fits limit (subarray ixs i (j - 1))"
proof -
  have j: "i + 2 \<le> j" "j \<le> Suc (length ixs)"
    unfolding j_def using assms(1) by (intro grow_batch_ge grow_batch_before(1); simp)+
  then show "i + 1 \<le> j - 1" "j - 1 \<le> length ixs" by linarith+
  have len: "length (subarray ixs i (j - 1)) = j - 1 - i" using j assms(1) by (simp add: length_subarray)
  then have ne: "subarray ixs i (j - 1) \<noteq> []" using j by (auto simp flip: length_0_conv)
  show "payload_fits limit (subarray ixs i (j - 1))"
  proof (cases "j = i + 2")
    case True
    then show ?thesis using len ne by (simp add: payload_fits_def)
  next
    case False
    then show ?thesis using grow_batch_before(2) [of i "j - 1" "i + 2" limit ixs] j ne
      by (simp add: payload_fits_def j_def)
  qed
qed

lemma subarray_append_drop: "i \<le> k \<Longrightarrow> subarray xs i k @ drop k xs = drop i xs"
  by (metis append_take_drop_id drop_drop le_add_diff_inverse2 subarray_def)

lemma batches_from_spec:
  "i \<le> length ixs \<Longrightarrow> concat (batches_from limit ixs i) = drop i ixs \<and> list_all (payload_fits limit) (batches_from limit ixs i)"
proof (induction limit ixs i rule: batches_from.induct)
  case (1 limit ixs i)
  show ?case
  proof (cases "i < length ixs")
    case True
    note b = batch_ok [OF True, of limit]
    from b(1) have "i \<le> grow_batch limit ixs i (i + 2) - 1" by linarith
    then show ?thesis using "1.IH" [OF True refl b(2)] b(3) True
      by (subst (1 2) batches_from.simps) (simp add: Let_def subarray_append_drop)
  qed (simp add: batches_from.simps)
qed

lemma batches_from_last:
  "i < length ixs \<Longrightarrow> last (batches_from limit ixs i) = [last ixs]"
proof (induction limit ixs i rule: batches_from.induct)
  case (1 limit ixs i)
  let ?j = "grow_batch limit ixs i (i + 2)"
  note b = batch_ok [OF "1.prems", of limit]
  have step: "batches_from limit ixs i = subarray ixs i (?j - 1) # batches_from limit ixs (?j - 1)"
    using "1.prems" by (subst batches_from.simps) (simp add: Let_def)
  show ?case
  proof (cases "?j - 1 < length ixs")
    case True
    then have "batches_from limit ixs (?j - 1) \<noteq> []" by (subst batches_from.simps) (simp add: Let_def)
    then show ?thesis using "1.IH" [OF "1.prems" refl True] by (simp add: step)
  next
    case False
    with b(2) have j: "?j - 1 = length ixs" by linarith
    have "i + 2 = ?j"
    proof (rule ccontr)
      assume "i + 2 \<noteq> ?j"
      with grow_batch_ge [of "i + 2" limit ixs i] grow_batch_before(2) [of i "?j - 1" "i + 2" limit ixs] j "1.prems"
      show False by linarith
    qed
    with j have "i = length ixs - 1" by simp
    then have "subarray ixs i (length ixs) = [last ixs]" using "1.prems"
      by (cases ixs rule: rev_cases) (simp_all add: subarray_def)
    then show ?thesis using j by (simp only: step) (simp add: batches_from.simps [of limit ixs "length ixs"])
  qed
qed

end
