(* ===== verification/Squads_Vault.thy ===== *)
theory Squads_Vault
  imports Proposals
begin

text \<open>
  What running the instructions of \<open>propose.ts\<close> does to the multisig. The Squads program is the locale
  \<open>squads_program\<close>: a state with an index of the last proposal and, for each proposal, its status and
  instructions, and one law per instruction. Then the properties of proposing and of reading proposals back.
\<close>

section \<open>The Squads program\<close>

type_synonym 'pk proposal = "string \<times> 'pk SquadInstruction list"

fun run_calls :: "('c \<Rightarrow> 's \<Rightarrow> 's option) \<Rightarrow> 'c list \<Rightarrow> 's \<Rightarrow> 's option" where
  "run_calls exec [] s = Some s"
| "run_calls exec (c # cs) s = Option.bind (exec c s) (run_calls exec cs)"

lemma run_calls_append: "run_calls exec (cs @ ds) s = Option.bind (run_calls exec cs s) (run_calls exec ds)"
  by (induction cs arbitrary: s) (simp_all split: bind_splits)

text \<open>The items of a proposal as the instructions with the numbers 1, 2, ...\<close>

definition numbered :: "('a \<Rightarrow> nat \<Rightarrow> 'b) \<Rightarrow> 'a list \<Rightarrow> 'b list" where
  "numbered f items = map (\<lambda>(i, item). f item (i + 1)) (enumerate 0 items)"

definition submitted :: "'pk proposal option \<Rightarrow> 'pk SquadInstruction list \<Rightarrow> bool" where
  "submitted p ixs \<longleftrightarrow> p = Some (''active'', ixs) \<or> p = Some (''executeReady'', ixs)"

definition adds :: "'pk \<Rightarrow> 'pk \<Rightarrow> nat \<Rightarrow> 'pk SquadInstruction list \<Rightarrow> 'pk squads_call list" where
  "adds vault p k sxs = map (\<lambda>(i, sx). AddInstruction vault p sx (i + 1)) (enumerate k sxs)"

locale squads_program =
  fixes Q :: "'pk squads_lib" and vault :: 'pk
    and exec :: "'pk squads_call \<Rightarrow> 's \<Rightarrow> 's option"
    and txIndex :: "'s \<Rightarrow> nat"
    and proposal :: "'s \<Rightarrow> 'pk \<Rightarrow> 'pk proposal option"
  assumes pda_inj: "inj_on (sq_getTxPDA Q vault) {..<2 ^ 32}"
    and exec_create: "n = txIndex s + 1 \<Longrightarrow> n < 2 ^ 32 \<Longrightarrow>
      \<exists>s'. exec (CreateTransaction vault a n) s = Some s' \<and> txIndex s' = n \<and>
           proposal s' = (proposal s)(sq_getTxPDA Q vault n \<mapsto> (''draft'', []))"
    and exec_add: "proposal s p = Some (''draft'', ixs) \<Longrightarrow> i = length ixs + 1 \<Longrightarrow> i < 256 \<Longrightarrow>
      \<exists>s'. exec (AddInstruction vault p sx i) s = Some s' \<and> txIndex s' = txIndex s \<and>
           proposal s' = (proposal s)(p \<mapsto> (''draft'', ixs @ [sx]))"
    and exec_activate: "proposal s p = Some (''draft'', ixs) \<Longrightarrow> ixs \<noteq> [] \<Longrightarrow>
      \<exists>s'. exec (ActivateTransaction vault p) s = Some s' \<and> txIndex s' = txIndex s \<and>
           proposal s' = (proposal s)(p \<mapsto> (''active'', ixs))"
    and exec_approve: "proposal s p = Some (''active'', ixs) \<Longrightarrow>
      \<exists>s' q. exec (ApproveTransaction vault p) s = Some s' \<and> txIndex s' = txIndex s \<and>
           proposal s' = (proposal s)(p \<mapsto> q) \<and> submitted (Some q) ixs"

section \<open>Running proposals\<close>

lemma numbered_simps [simp]: "length (numbered f items) = length items" "numbered f items = [] \<longleftrightarrow> items = []"
  by (simp_all add: numbered_def enumerate_eq_zip)

lemma add_calls_ok:
  assumes "\<And>item i. item \<in> set items \<Longrightarrow> squad_ix item i = Inr (f item i)"
  shows "add_calls vault p squad_ix items = Inr (adds vault p 0 (numbered f items))"
proof -
  have "add_calls vault p squad_ix items
      = Inr (map (\<lambda>(i, item). AddInstruction vault p (f item (i + 1)) (i + 1)) (enumerate 0 items))"
    unfolding add_calls_def using assms
    by (intro mapR_Inr_map) (auto simp: enumerate_eq_zip dest: set_zip_rightD)
  also have "map (\<lambda>(i, item). AddInstruction vault p (f item (i + 1)) (i + 1)) (enumerate k items)
      = map (\<lambda>(i, sx). AddInstruction vault p sx (i + 1))
          (enumerate k (map (\<lambda>(i, item). f item (i + 1)) (enumerate k items)))" for k
    by (induction items arbitrary: k) simp_all
  finally show ?thesis by (simp add: adds_def numbered_def)
qed

text \<open>From \<open>s\<close> to \<open>s'\<close> the proposals \<open>props\<close>, with the next indices, were made of \<open>chunks\<close> of at
  most 255 items and submitted; no other proposal changed.\<close>

definition proposed ::
  "'pk squads_lib \<Rightarrow> 'pk \<Rightarrow> ('s \<Rightarrow> nat) \<Rightarrow> ('s \<Rightarrow> 'pk \<Rightarrow> 'pk proposal option) \<Rightarrow> ('pk \<Rightarrow> 'a \<Rightarrow> nat \<Rightarrow> 'pk SquadInstruction) \<Rightarrow>
   's \<Rightarrow> 's \<Rightarrow> 'pk list \<Rightarrow> 'a list list \<Rightarrow> bool" where
  "proposed Q vault txIndex proposal f s s' props chunks \<longleftrightarrow>
     txIndex s' = txIndex s + length chunks \<and>
     props = map (sq_getTxPDA Q vault) [txIndex s + 1..<txIndex s + 1 + length chunks] \<and>
     list_all (\<lambda>c. c \<noteq> [] \<and> length c \<le> 255) chunks \<and>
     list_all2 (\<lambda>p c. submitted (proposal s' p) (numbered (f p) c)) props chunks \<and>
     (\<forall>p. p \<notin> set props \<longrightarrow> proposal s' p = proposal s p)"

lemma length_le_concat: "list_all (\<lambda>c. c \<noteq> [] \<and> length c \<le> m) cs \<Longrightarrow> length cs \<le> length (concat cs)"
proof (induction cs)
  case (Cons c cs)
  then have "0 < length c" by simp
  with Cons show ?case by (simp add: Suc_le_eq add_strict_increasing)
qed simp

context squads_program
begin

lemma run_adds:
  "proposal s p = Some (''draft'', pre) \<Longrightarrow> length pre + length sxs < 256 \<Longrightarrow>
   \<exists>s'. run_calls exec (adds vault p (length pre) sxs) s = Some s' \<and> txIndex s' = txIndex s \<and>
        proposal s' = (proposal s)(p \<mapsto> (''draft'', pre @ sxs))"
proof (induction sxs arbitrary: pre s)
  case (Cons sx sxs)
  from exec_add [OF Cons.prems(1) refl, of sx] Cons.prems(2) obtain t where
    t: "exec (AddInstruction vault p sx (length pre + 1)) s = Some t" "txIndex t = txIndex s"
      "proposal t = (proposal s)(p \<mapsto> (''draft'', pre @ [sx]))" by auto
  from t(3) have "proposal t p = Some (''draft'', pre @ [sx])" by simp
  moreover have "length (pre @ [sx]) + length sxs < 256" using Cons.prems(2) by simp
  ultimately obtain u where
    "run_calls exec (adds vault p (length (pre @ [sx])) sxs) t = Some u" "txIndex u = txIndex t"
    "proposal u = (proposal t)(p \<mapsto> (''draft'', (pre @ [sx]) @ sxs))"
    using Cons.IH [of t "pre @ [sx]"] by blast
  with t show ?case by (intro exI [of _ u]) (simp add: adds_def)
qed (auto simp: adds_def)

lemma run_finish:
  assumes "proposal s p = Some (''draft'', ixs)" "ixs \<noteq> []"
  shows "\<exists>s' q. run_calls exec [ActivateTransaction vault p, ApproveTransaction vault p] s = Some s' \<and>
      txIndex s' = txIndex s \<and> proposal s' = (proposal s)(p \<mapsto> q) \<and> submitted (Some q) ixs"
proof -
  from exec_activate [OF assms] obtain t where t: "exec (ActivateTransaction vault p) s = Some t"
    "txIndex t = txIndex s" "proposal t = (proposal s)(p \<mapsto> (''active'', ixs))" by blast
  from exec_approve [of t p ixs] t(3) obtain u q where "exec (ApproveTransaction vault p) t = Some u"
    "txIndex u = txIndex t" "proposal u = (proposal t)(p \<mapsto> q)" "submitted (Some q) ixs" by auto
  with t show ?thesis by (intro exI [of _ u] exI [of _ q]) simp
qed

lemma run_proposal:
  assumes "\<And>item i. item \<in> set items \<Longrightarrow> squad_ix p item i = Inr (f item i)"
    and "items \<noteq> []" "length items < 256" "n = txIndex s + 1" "n < 2 ^ 32" "p = sq_getTxPDA Q vault n"
  shows "\<exists>calls s' q. proposal_calls Q vault a n squad_ix items = Inr calls \<and> run_calls exec calls s = Some s' \<and>
      txIndex s' = n \<and> proposal s' = (proposal s)(p \<mapsto> q) \<and> submitted (Some q) (numbered f items)"
proof -
  from exec_create [OF assms(4,5), of a] obtain t where t: "exec (CreateTransaction vault a n) s = Some t"
    "txIndex t = n" "proposal t = (proposal s)(p \<mapsto> (''draft'', []))" using assms(6) by blast
  from run_adds [of t p "[]" "numbered f items"] t(3) assms(3) obtain u where
    u: "run_calls exec (adds vault p 0 (numbered f items)) t = Some u" "txIndex u = n"
      "proposal u = (proposal t)(p \<mapsto> (''draft'', numbered f items))" using t(2) by auto
  from run_finish [of u p "numbered f items"] u(3) assms(2) obtain v q where
    v: "run_calls exec [ActivateTransaction vault p, ApproveTransaction vault p] u = Some v" "txIndex v = n"
      "proposal v = (proposal u)(p \<mapsto> q)" "submitted (Some q) (numbered f items)" using u(2) by auto
  show ?thesis
    using t u v add_calls_ok [of items "squad_ix p" f vault p] assms(1,6)
    by (intro exI [of _ v] exI [of _ q] exI [of _ "CreateTransaction vault a n # adds vault p 0 (numbered f items) @
        [ActivateTransaction vault p, ApproveTransaction vault p]"])
      (simp add: proposal_calls_def Let_def run_calls_append)
qed

lemma proposed_Cons:
  assumes "proposed Q vault txIndex proposal f t s' props chunks" "txIndex t = n" "n + length chunks < 2 ^ 32"
    and "n = txIndex s + 1" "p = sq_getTxPDA Q vault n" "proposal t = (proposal s)(p \<mapsto> q)"
    and "submitted (Some q) (numbered (f p) c)" "c \<noteq> []" "length c \<le> 255"
  shows "proposed Q vault txIndex proposal f s s' (p # props) (c # chunks)"
proof -
  have props: "props = map (sq_getTxPDA Q vault) [n + 1..<n + 1 + length chunks]"
    using assms(1,2) by (simp add: proposed_def)
  have "p \<notin> set props"
  proof
    assume "p \<in> set props"
    then obtain m where "n < m" "m < n + 1 + length chunks" "sq_getTxPDA Q vault m = sq_getTxPDA Q vault n"
      unfolding props assms(5) by (auto simp: less_Suc_eq_le Suc_le_eq simp del: upt_Suc)
    with inj_onD [OF pda_inj, of m n] assms(3) show False by simp
  qed
  then have "submitted (proposal s' p) (numbered (f p) c)"
    using assms(1,6,7) by (auto simp: proposed_def)
  moreover from assms(1) have "list_all2 (\<lambda>p c. submitted (proposal s' p) (numbered (f p) c)) props chunks"
    unfolding proposed_def by blast
  ultimately have all: "list_all2 (\<lambda>p c. submitted (proposal s' p) (numbered (f p) c)) (p # props) (c # chunks)"
    by simp
  have eq: "p # props = map (sq_getTxPDA Q vault) [n..<n + 1 + length chunks]"
    unfolding props assms(5) by (simp add: upt_conv_Cons del: upt_Suc)
  have "proposal s' r = proposal s r" if "r \<notin> set (p # props)" for r
    using that assms(1,6) by (simp add: proposed_def)
  moreover have "list_all (\<lambda>c. c \<noteq> [] \<and> length c \<le> 255) (c # chunks)"
    using assms(1,8,9) unfolding proposed_def list.pred_inject(2) by blast
  moreover have "txIndex s' = n + length chunks" using assms(1,2) unfolding proposed_def by blast
  moreover have "p # props = map (sq_getTxPDA Q vault) [txIndex s + 1..<txIndex s + 1 + length (c # chunks)]"
    using eq unfolding assms(4) by (simp del: upt_Suc)
  ultimately show ?thesis using all assms(4) unfolding proposed_def by (metis add_Suc_right length_Cons plus_1_eq_Suc add.assoc)
qed

lemma run_proposals:
  assumes ok: "\<And>p item i. item \<in> set items \<Longrightarrow> squad_ix p item i = Inr (f p item i)"
    and bound: "ti + length items < 2 ^ 32"
  shows "255 dvd j \<Longrightarrow> txIndex s = ti + j div 255 \<Longrightarrow>
    \<exists>calls props s' chunks. proposals_from Q vault a ti squad_ix items j = Inr (calls, props) \<and>
      run_calls exec calls s = Some s' \<and> concat chunks = drop j items \<and>
      proposed Q vault txIndex proposal f s s' props chunks"
proof (induction "length items - j" arbitrary: j s rule: less_induct)
  case less
  show ?case
  proof (cases "j < length items")
    case False
    then show ?thesis by (subst proposals_from.simps) (auto simp: proposed_def)
  next
    case True
    define c where "c = subarray items j (j + 255)"
    define n where "n = ti + 1 + j div 255"
    define p where "p = sq_getTxPDA Q vault n"
    have c: "c \<noteq> []" "length c \<le> 255" "set c \<subseteq> set items"
      using True set_subarray [of items j] by (auto simp: c_def length_subarray simp flip: length_0_conv)
    have n: "n = txIndex s + 1" "n < 2 ^ 32" using less.prems bound True by (auto simp: n_def intro: le_less_trans [OF add_left_mono])
    have "\<And>item i. item \<in> set c \<Longrightarrow> squad_ix p item i = Inr (f p item i)" "length c < 256"
      using ok c by auto
    from run_proposal [of c squad_ix p "f p" n s a, OF this(1) c(1) this(2) n p_def] obtain calls t q where
      t: "proposal_calls Q vault a n squad_ix c = Inr calls" "run_calls exec calls s = Some t" "txIndex t = n"
        "proposal t = (proposal s)(p \<mapsto> q)" "submitted (Some q) (numbered (f p) c)" by blast
    have "255 dvd j + 255" "txIndex t = ti + (j + 255) div 255" "length items - (j + 255) < length items - j"
      using less.prems True t(3) by (auto simp: n_def)
    from less.hyps [OF this(3,1,2)] obtain rest props s' chunks where
      r: "proposals_from Q vault a ti squad_ix items (j + 255) = Inr (rest, props)"
        "run_calls exec rest t = Some s'" "concat chunks = drop (j + 255) items"
        "proposed Q vault txIndex proposal f t s' props chunks" by blast
    have "length chunks \<le> length items - (j + 255)"
      using r(3,4) length_le_concat [of 255 chunks] by (simp add: proposed_def)
    then have "n + length chunks < 2 ^ 32" using bound True unfolding n_def by linarith
    from proposed_Cons [OF r(4) t(3) this n(1) p_def t(4,5) c(1,2)]
    have "proposed Q vault txIndex proposal f s s' (p # props) (c # chunks)" .
    moreover have "concat (c # chunks) = drop j items" using r(3) subarray_append_drop [of j "j + 255" items]
      by (simp add: c_def)
    moreover have "proposals_from Q vault a ti squad_ix items j = Inr (calls @ rest, p # props)"
      using True r(1) t(1) by (subst proposals_from.simps)
        (simp add: Let_def MAX_INSTRUCTIONS_PER_PROPOSAL_def c_def n_def p_def)
    ultimately show ?thesis using r(2) t(2) by (intro exI [of _ "calls @ rest"] exI [of _ "p # props"] exI [of _ s']
      exI [of _ "c # chunks"]) (simp add: run_calls_append)
  qed
qed

end

section \<open>Messages\<close>

context governance_codec
begin

lemma length_instructions:
  "length (concat (map (instruction_bytes (w3_toBytes W)) ixs)) = getSizeOfExecutorInstructions ixs"
  by (induction ixs) (simp_all add: length_instruction_bytes getSizeOfExecutorInstructions_def)

lemma executor_message:
  assumes "chain_ok wh ''pythnet'' c" "getSizeOfExecutorInstructions b \<le> 1228"
  defines "m \<equiv> header_bytes ExecutePostedVaa_name c @ payload_bytes (w3_toBytes W) (ExecutePostedVaa ''pythnet'' b)"
  shows "executor_payload wh L W b = Inr m"
    and "decodeGovernancePayload wh L W m = Inr (Some (ExecutePostedVaa ''pythnet'' b))"
  using encode_wire [of "ExecutePostedVaa ''pythnet'' b" c] decode_wire [of "ExecutePostedVaa ''pythnet'' b" c] assms(1,2)
  by (simp_all add: executor_payload_def m_def length_instructions chain_ok_def)

end

section \<open>Resuming\<close>

lemma adds_append: "adds vault p k (xs @ ys) = adds vault p k xs @ adds vault p (k + length xs) ys"
  by (simp add: adds_def enumerate_append_eq)

lemma adds_split: "adds vault p 0 sxs = adds vault p 0 (take k sxs) @ adds vault p k (drop k sxs)"
  using adds_append [of vault p 0 "take k sxs" "drop k sxs"] by (cases "k \<le> length sxs") (simp_all add: adds_def)

lemma length_adds [simp]: "length (adds vault p k sxs) = length sxs"
  by (simp add: adds_def)

lemma upt_adds:
  "map (\<lambda>i. AddInstruction vault p (g (1 + i)  (xs ! i)) (1 + i)) [k..<length xs] =
   adds vault p k (drop k (numbered (\<lambda>x i. g i x) xs))"
  by (rule nth_equalityI)
    (simp_all add: adds_def numbered_def nth_enumerate_eq enumerate_eq_zip add.commute)

context squads_program
begin

lemma run_adds_in_steps:
  assumes "proposal s p = Some (''draft'', [])" "length sxs < 256"
  shows "\<exists>t. run_calls exec (adds vault p 0 (take k sxs)) s = Some t \<and> txIndex t = txIndex s \<and>
      proposal t = (proposal s)(p \<mapsto> (''draft'', take k sxs)) \<and>
      run_calls exec (adds vault p 0 sxs) s = run_calls exec (adds vault p k (drop k sxs)) t"
proof -
  have "length (take k sxs) < 256" using assms(2) by simp
  with run_adds [of s p "[]" "take k sxs"] assms(1) obtain t where
    t: "run_calls exec (adds vault p 0 (take k sxs)) s = Some t" "txIndex t = txIndex s"
      "proposal t = (proposal s)(p \<mapsto> (''draft'', take k sxs))" by auto
  then show ?thesis using adds_split [of vault p sxs k] by (simp add: run_calls_append)
qed

lemma run_in_steps:
  assumes "n = txIndex s + 1" "n < 2 ^ 32" "p = sq_getTxPDA Q vault n" "sxs \<noteq> []" "length sxs < 256"
  shows "\<exists>t s'. run_calls exec (CreateTransaction vault a n # adds vault p 0 (take k sxs)) s = Some t \<and>
      proposal t p = Some (''draft'', take k sxs) \<and>
      run_calls exec (adds vault p k (drop k sxs) @ [ActivateTransaction vault p, ApproveTransaction vault p]) t = Some s' \<and>
      submitted (proposal s' p) sxs"
proof -
  from exec_create [OF assms(1,2), of a] obtain u where u: "exec (CreateTransaction vault a n) s = Some u"
    "proposal u p = Some (''draft'', [])" using assms(3) by auto
  from run_adds_in_steps [OF u(2) assms(5), of k] obtain t where
    t: "run_calls exec (adds vault p 0 (take k sxs)) u = Some t" "proposal t p = Some (''draft'', take k sxs)"
      "run_calls exec (adds vault p 0 sxs) u = run_calls exec (adds vault p k (drop k sxs)) t" by auto
  from run_adds [of u p "[]" sxs] u(2) assms(5) obtain w where
    w: "run_calls exec (adds vault p 0 sxs) u = Some w" "proposal w p = Some (''draft'', sxs)" by auto
  from run_finish [OF w(2) assms(4)] obtain s' where
    s': "run_calls exec [ActivateTransaction vault p, ApproveTransaction vault p] w = Some s'" "submitted (proposal s' p) sxs"
    by auto
  have "run_calls exec (adds vault p k (drop k sxs)) t = Some w" using t(3) w(1) by simp
  with s'(1) have "run_calls exec (adds vault p k (drop k sxs) @ [ActivateTransaction vault p, ApproveTransaction vault p]) t
      = Some s'" by (simp only: run_calls_append Option.bind.simps)
  moreover have "run_calls exec (CreateTransaction vault a n # adds vault p 0 (take k sxs)) s = Some t"
    using u(1) t(1) by simp
  ultimately show ?thesis using t(2) s'(2) by blast
qed

end

section \<open>The documented program\<close>

record doc_multisig =
  dm_index :: nat
  dm_proposals :: "256 word \<Rightarrow> 256 word proposal option"

definition doc_squads :: "256 word squads_lib" where
  "doc_squads = \<lparr> sq_getAuthorityPDA = (\<lambda>v i. v + of_nat i + 2 ^ 40), sq_getTxPDA = (\<lambda>v n. v + of_nat n),
     sq_getIxPDA = (\<lambda>p i. p + of_nat i * 2 ^ 41), sq_getIxAuthorityPDA = (\<lambda>p i. (p + of_nat i * 2 ^ 51, 255)),
     sq_instruction = (\<lambda>c. \<lparr> ix_programId = 3, ix_keys = [],
       ix_data = (case c of CreateTransaction v a n \<Rightarrow> [0] | AddInstruction v p x i \<Rightarrow> 1 # ix_data (sq_ix x)
         | ActivateTransaction v p \<Rightarrow> [2] | ApproveTransaction v p \<Rightarrow> [3]) \<rparr>),
     sq_executeInstruction = (\<lambda>p i. \<lparr> ix_programId = 3, ix_keys = [meta p False True, meta i False False], ix_data = [4] \<rparr>),
     sq_bridgeDataKey = (\<lambda>w. w + 1), sq_emitterSequenceKey = (\<lambda>e w. e + w), sq_feeCollectorKey = (\<lambda>w. w + 2),
     sq_postMessage = (\<lambda>w payload accs. \<lparr> ix_programId = w, ix_keys = [meta (pm_message accs) True True],
       ix_data = payload \<rparr>) \<rparr>"

fun doc_exec :: "256 word squads_call \<Rightarrow> doc_multisig \<Rightarrow> doc_multisig option" where
  "doc_exec (CreateTransaction v a n) s =
     (if n = dm_index s + 1
      then Some \<lparr> dm_index = n, dm_proposals = (dm_proposals s)(sq_getTxPDA doc_squads v n \<mapsto> (''draft'', [])) \<rparr> else None)"
| "doc_exec (AddInstruction v p x i) s =
     (case dm_proposals s p of
        Some (st, ixs) \<Rightarrow> if st = ''draft'' \<and> i = length ixs + 1
          then Some (s\<lparr> dm_proposals := (dm_proposals s)(p \<mapsto> (st, ixs @ [x])) \<rparr>) else None
      | None \<Rightarrow> None)"
| "doc_exec (ActivateTransaction v p) s =
     (case dm_proposals s p of
        Some (st, ixs) \<Rightarrow> if st = ''draft'' \<and> ixs \<noteq> [] then Some (s\<lparr> dm_proposals := (dm_proposals s)(p \<mapsto> (''active'', ixs)) \<rparr>) else None
      | None \<Rightarrow> None)"
| "doc_exec (ApproveTransaction v p) s =
     (case dm_proposals s p of
        Some (st, ixs) \<Rightarrow> if st = ''active'' then Some (s\<lparr> dm_proposals := (dm_proposals s)(p \<mapsto> (''executeReady'', ixs)) \<rparr>) else None
      | None \<Rightarrow> None)"

interpretation doc_squads: squads_program doc_squads vault doc_exec dm_index dm_proposals for vault
proof
  show "inj_on (sq_getTxPDA doc_squads vault) {..<2 ^ 32}"
  proof (rule inj_onI)
    fix m n :: nat
    assume "m \<in> {..<2 ^ 32}" "n \<in> {..<2 ^ 32}" "sq_getTxPDA doc_squads vault m = sq_getTxPDA doc_squads vault n"
    then have "m < 2 ^ 256" "n < 2 ^ 256" "(of_nat m :: 256 word) = of_nat n"
      by (simp_all add: doc_squads_def)
    then show "m = n" by (simp add: word_of_nat_eq_iff take_bit_nat_eq_self)
  qed
qed (auto simp: submitted_def)

definition doc_solana :: "256 word solana_lib" where
  "doc_solana = \<lparr> sl_PACKET_DATA_SIZE = 1232, sl_newPublicKey = (\<lambda>s. word_key (string_bytes s)),
     sl_setComputeUnitLimit = (\<lambda>u. \<lparr> ix_programId = 1, ix_keys = [], ix_data = 2 # le_bytes 4 u \<rparr>),
     sl_setComputeUnitPrice = (\<lambda>u. \<lparr> ix_programId = 1, ix_keys = [], ix_data = 3 # le_bytes 8 u \<rparr>),
     sl_transfer = (\<lambda>from to l. \<lparr> ix_programId = 0, ix_keys = [meta from True True, meta to False True],
       ix_data = [2, 0, 0, 0] @ le_bytes 8 l \<rparr>) \<rparr>"

section \<open>Properties of proposing\<close>

text \<open>C5. The batches for the remote executor: together they are the given instructions in order, every batch
  fits the limit or is one instruction, and the last instruction is always a batch of its own.\<close>

theorem batchIntoExecutorPayload_exact:
  "concat (batchIntoExecutorPayload S instructions) = instructions \<and>
   list_all (payload_fits (MAX_EXECUTOR_PAYLOAD_SIZE S)) (batchIntoExecutorPayload S instructions) \<and>
   (instructions = [] \<or> last (batchIntoExecutorPayload S instructions) = [last instructions])"
  using batches_from_spec [of 0 instructions "MAX_EXECUTOR_PAYLOAD_SIZE S"]
    batches_from_last [of 0 instructions "MAX_EXECUTOR_PAYLOAD_SIZE S"]
  by (auto simp: batchIntoExecutorPayload_def)

text \<open>C7. Proposing on the multisig's own cluster: running the instructions of \<open>proposeInstructions\<close> succeeds
  and leaves the proposals with the next indices, whose addresses it returns, submitted and holding the given
  instructions in order, at most 255 each; no other proposal is touched.\<close>

theorem local_proposals_hold_instructions:
  assumes "squads_program Q vault exec txIndex proposal" "txIndex s = ms_transactionIndex ms"
    and "ms_transactionIndex ms + length instructions < 2 ^ 32"
  shows "\<exists>calls props s' chunks.
    proposeInstructions_calls P S Q enc vault ms wormhole False instructions = Inr (calls, props) \<and>
    run_calls exec calls s = Some s' \<and> concat chunks = instructions \<and>
    proposed Q vault txIndex proposal (\<lambda>p ix i. \<lparr> sq_ix = ix, sq_authority = None \<rparr>) s s' props chunks"
  using squads_program.run_proposals [OF assms(1), of instructions local_ix _ "ms_transactionIndex ms" 0 s] assms(2,3)
  by (simp add: proposeInstructions_calls_def local_ix_def)

theorem local_proposals_hold_instructions_witness:
  "\<exists>calls props s' chunks.
    proposeInstructions_calls doc_keys doc_solana doc_squads (\<lambda>_. Inr []) 5 \<lparr> ms_authorityIndex = 1, ms_transactionIndex = 7 \<rparr> None
      False (replicate 600 sample_instruction) = Inr (calls, props) \<and>
    run_calls doc_exec calls \<lparr> dm_index = 7, dm_proposals = Map.empty \<rparr> = Some s' \<and>
    concat chunks = replicate 600 sample_instruction \<and>
    proposed doc_squads 5 dm_index dm_proposals (\<lambda>p ix i. \<lparr> sq_ix = ix, sq_authority = None \<rparr>)
      \<lparr> dm_index = 7, dm_proposals = Map.empty \<rparr> s' props chunks"
  by (rule local_proposals_hold_instructions [OF doc_squads.squads_program_axioms]) simp_all

text \<open>C6. Proposing for another cluster: the proposals hold one Wormhole message for each batch of instructions,
  paid by the operations key and numbered within its proposal, the batches are together the given instructions
  in order, and the governance decoder reads each message back as its batch.\<close>

theorem remote_proposals_hold_messages:
  assumes "squads_program Q vault exec txIndex proposal" "txIndex s = ms_transactionIndex ms"
    and "ms_transactionIndex ms + length (batchIntoExecutorPayload S instructions) < 2 ^ 32"
    and "buffer_layout L" "web3 W" "chain_ok wh ''pythnet'' c" "MAX_EXECUTOR_PAYLOAD_SIZE S \<le> 1228"
    and "\<And>ix. ix \<in> set instructions \<Longrightarrow> getSizeOfExecutorInstructions [ix] \<le> 1228"
    and "getOpsKey P vault = Inr opsKey"
  shows "\<exists>calls props s' chunks payload.
    proposeInstructions_calls P S Q (executor_payload wh L W) vault ms (Some wormhole) True instructions = Inr (calls, props) \<and>
    run_calls exec calls s = Some s' \<and> concat (concat chunks) = instructions \<and>
    proposed Q vault txIndex proposal
      (\<lambda>p batch i. getPostMessageInstruction Q vault p i wormhole (payload batch) opsKey) s s' props chunks \<and>
    list_all (\<lambda>batch. decodeGovernancePayload wh L W (payload batch) = Inr (Some (ExecutePostedVaa ''pythnet'' batch)))
      (concat chunks)"
proof -
  let ?bs = "batchIntoExecutorPayload S instructions"
  define payload where "payload b = header_bytes ExecutePostedVaa_name c @
    payload_bytes (w3_toBytes W) (ExecutePostedVaa ''pythnet'' b)" for b
  have bs: "concat ?bs = instructions" "list_all (payload_fits (MAX_EXECUTOR_PAYLOAD_SIZE S)) ?bs"
    using batches_from_spec [of 0 instructions "MAX_EXECUTOR_PAYLOAD_SIZE S"] by (simp_all add: batchIntoExecutorPayload_def)
  have small: "getSizeOfExecutorInstructions b \<le> 1228" if "b \<in> set ?bs" for b
  proof (cases "length b = 1")
    case True
    then obtain ix where ix: "b = [ix]" by (auto simp: length_Suc_conv)
    with that have "ix \<in> set (concat ?bs)" by (metis UN_I list.set_intros(1) set_concat)
    then show ?thesis using assms(8) ix bs(1) by simp
  qed (use that bs(2) assms(7) in \<open>auto simp: list_all_iff payload_fits_def\<close>)
  note message = governance_codec.executor_message [OF governance_codecI [OF assms(4,5)] assms(6) small, folded payload_def]
  have "wrapAsRemoteInstruction P Q (executor_payload wh L W) vault p b i wormhole
      = Inr (getPostMessageInstruction Q vault p i wormhole (payload b) opsKey)" if "b \<in> set ?bs" for p b i
    using message(1) [OF that] assms(9) by (simp add: wrapAsRemoteInstruction_def)
  from squads_program.run_proposals [OF assms(1), where items = ?bs and ti = "ms_transactionIndex ms" and j = 0 and s = s
      and squad_ix = "\<lambda>p b i. wrapAsRemoteInstruction P Q (executor_payload wh L W) vault p b i wormhole"
      and a = "ms_authorityIndex ms", OF this assms(3)] assms(2)
  have "\<exists>calls props s' chunks.
    proposeInstructions_calls P S Q (executor_payload wh L W) vault ms (Some wormhole) True instructions = Inr (calls, props) \<and>
    run_calls exec calls s = Some s' \<and> concat chunks = ?bs \<and> proposed Q vault txIndex proposal
      (\<lambda>p batch i. getPostMessageInstruction Q vault p i wormhole (payload batch) opsKey) s s' props chunks"
    by (simp add: proposeInstructions_calls_def)
  then obtain calls props s' chunks where r:
    "proposeInstructions_calls P S Q (executor_payload wh L W) vault ms (Some wormhole) True instructions = Inr (calls, props)"
    "run_calls exec calls s = Some s'" "concat chunks = ?bs"
    "proposed Q vault txIndex proposal
      (\<lambda>p batch i. getPostMessageInstruction Q vault p i wormhole (payload batch) opsKey) s s' props chunks" by blast
  have "list_all (\<lambda>b. decodeGovernancePayload wh L W (payload b) = Inr (Some (ExecutePostedVaa ''pythnet'' b))) (concat chunks)"
    using message(2) r(3) by (simp add: list_all_iff)
  then show ?thesis using r bs(1)
    by (intro exI [of _ calls] exI [of _ props] exI [of _ s'] exI [of _ chunks] exI [of _ payload]) simp
qed

definition pythnet_wormhole :: chain_table where
  "pythnet_wormhole = DAList.update ''pythnet'' 26 DAList.empty"

lemma pythnet_chain_ok: "chain_ok pythnet_wormhole ''pythnet'' 26"
proof -
  have no: "DAList.lookup RECEIVER_CHAINS ''pythnet'' = None"
    by (simp add: RECEIVER_CHAINS_def lookup_spread RECEIVER_CHAINS_entries_def
        RECEIVER_CHAINS_production_def RECEIVER_CHAINS_stable_testnets_def RECEIVER_CHAINS_testnets_def)
  have "26 \<notin> set (map snd RECEIVER_CHAINS_entries)"
    by (simp add: RECEIVER_CHAINS_entries_def
        RECEIVER_CHAINS_production_def RECEIVER_CHAINS_stable_testnets_def RECEIVER_CHAINS_testnets_def)
  then have fresh: "DAList.lookup RECEIVER_CHAINS m \<noteq> Some 26" for m
    using receiver_entry [of m 26] by force
  have "toChainId pythnet_wormhole ''pythnet'' = Some 26"
    using no by (simp add: toChainId_cases pythnet_wormhole_def DAList.lookup_update)
  moreover from this obtain m where m: "toChainName pythnet_wormhole 26 = Some m" "toChainId pythnet_wormhole m = Some 26"
    by (rule registry.canonical_name)
  from m(2) have "m = ''pythnet''" using fresh [of m]
    by (auto simp: toChainId_cases pythnet_wormhole_def DAList.lookup_update split: option.splits if_splits)
  ultimately show ?thesis using m(1) by (simp add: chain_ok_def)
qed

theorem remote_proposals_hold_messages_witness:
  "\<exists>calls props s' chunks payload.
    proposeInstructions_calls doc_keys doc_solana doc_squads (executor_payload pythnet_wormhole doc_lib doc_web3)
      (pk_ofBase58 doc_keys ''92hQkq8kBgCUcF9yWN8URZB9RTmA4mZpDGtbiAWA74Z8'') \<lparr> ms_authorityIndex = 1, ms_transactionIndex = 7 \<rparr>
      (Some 9) True [sample_instruction, sample_instruction] = Inr (calls, props) \<and>
    run_calls doc_exec calls \<lparr> dm_index = 7, dm_proposals = Map.empty \<rparr> = Some s' \<and>
    concat (concat chunks) = [sample_instruction, sample_instruction] \<and>
    proposed doc_squads (pk_ofBase58 doc_keys ''92hQkq8kBgCUcF9yWN8URZB9RTmA4mZpDGtbiAWA74Z8'') dm_index dm_proposals
      (\<lambda>p batch i. getPostMessageInstruction doc_squads (pk_ofBase58 doc_keys ''92hQkq8kBgCUcF9yWN8URZB9RTmA4mZpDGtbiAWA74Z8'')
        p i 9 (payload batch) (PRICE_FEED_OPS_KEY doc_keys)) \<lparr> dm_index = 7, dm_proposals = Map.empty \<rparr> s' props chunks \<and>
    list_all (\<lambda>batch. decodeGovernancePayload pythnet_wormhole doc_lib doc_web3 (payload batch) =
      Inr (Some (ExecutePostedVaa ''pythnet'' batch))) (concat chunks)"
proof (rule remote_proposals_hold_messages [OF doc_squads.squads_program_axioms])
  show "chain_ok pythnet_wormhole ''pythnet'' 26" by (rule pythnet_chain_ok)
  show "getOpsKey doc_keys (pk_ofBase58 doc_keys ''92hQkq8kBgCUcF9yWN8URZB9RTmA4mZpDGtbiAWA74Z8'') = Inr (PRICE_FEED_OPS_KEY doc_keys)"
    by (simp add: getOpsKey_def PRICE_FEED_MULTISIG_def)
  have "length (batchIntoExecutorPayload doc_solana [sample_instruction, sample_instruction]) \<le> 2"
    by (simp add: batchIntoExecutorPayload_def batches_from.simps grow_batch.simps Let_def)
  then show "ms_transactionIndex \<lparr> ms_authorityIndex = 1, ms_transactionIndex = 7 \<rparr> +
      length (batchIntoExecutorPayload doc_solana [sample_instruction, sample_instruction]) < 2 ^ 32" by simp
  show "getSizeOfExecutorInstructions [ix] \<le> 1228" if "ix \<in> set [sample_instruction, sample_instruction]" for ix
    using that by (simp add: getSizeOfExecutorInstructions_def sample_instruction_def)
qed (simp_all add: doc.buffer_layout_axioms doc_web3.web3_axioms MAX_EXECUTOR_PAYLOAD_SIZE_def doc_solana_def)

text \<open>C8. Wormhole messages whose proposing was interrupted: after any number of the messages has been added, the run
  for the existing proposal adds exactly the others and leaves the proposal as the whole run would, submitted
  with all messages in order.\<close>

theorem interrupted_proposal_completes:
  assumes "squads_program Q vault exec txIndex proposal" "txIndex s = ms_transactionIndex ms" "ms_transactionIndex ms + 1 < 2 ^ 32"
    and "payloads \<noteq> []" "length payloads \<le> 255" "k \<le> length payloads"
  shows "\<exists>calls p t s'.
    proposeWormholeMessages_calls Q vault ms wormhole messagePayer None payloads = Inr (calls, p) \<and>
    run_calls exec (take (k + 1) calls) s = Some t \<and>
    map_option (length \<circ> snd) (proposal t p) = Some k \<and>
    proposeWormholeMessages_calls Q vault ms' wormhole messagePayer (Some (p, k)) payloads = Inr (drop (k + 1) calls, p) \<and>
    run_calls exec (drop (k + 1) calls) t = Some s' \<and> run_calls exec calls s = Some s' \<and>
    submitted (proposal s' p) (numbered (\<lambda>payload i. getPostMessageInstruction Q vault p i wormhole payload messagePayer) payloads)"
proof -
  define n where "n = ms_transactionIndex ms + 1"
  define p where "p = sq_getTxPDA Q vault n"
  define sxs where "sxs = numbered (\<lambda>payload i. getPostMessageInstruction Q vault p i wormhole payload messagePayer) payloads"
  define finish where "finish = [ActivateTransaction vault p, ApproveTransaction vault p]"
  note calls = proposeWormholeMessages_calls_def Let_def MAX_INSTRUCTIONS_PER_PROPOSAL_def
  have full: "proposeWormholeMessages_calls Q vault ms wormhole messagePayer None payloads =
      Inr (CreateTransaction vault (ms_authorityIndex ms) n # adds vault p 0 sxs @ finish, p)"
    using assms(5) upt_adds [of vault p "\<lambda>i x. getPostMessageInstruction Q vault p i wormhole x messagePayer" payloads 0]
    by (simp add: calls n_def p_def sxs_def finish_def)
  have resumed: "proposeWormholeMessages_calls Q vault ms' wormhole messagePayer (Some (p, k)) payloads =
      Inr (adds vault p k (drop k sxs) @ finish, p)"
    using assms(5) upt_adds [of vault p "\<lambda>i x. getPostMessageInstruction Q vault p i wormhole x messagePayer" payloads k]
    by (simp add: calls sxs_def finish_def)
  have ns: "n = txIndex s + 1" "n < 2 ^ 32" using assms(2,3) by (simp_all add: n_def)
  have sxs: "sxs \<noteq> []" "length sxs < 256" "length (take k sxs) = k" using assms(4-6) by (simp_all add: sxs_def)
  obtain t s' where t: "run_calls exec (CreateTransaction vault (ms_authorityIndex ms) n # adds vault p 0 (take k sxs)) s = Some t"
    "proposal t p = Some (''draft'', take k sxs)" "run_calls exec (adds vault p k (drop k sxs) @ finish) t = Some s'"
    "submitted (proposal s' p) sxs"
    using squads_program.run_in_steps [OF assms(1) ns p_def sxs(1,2), of "ms_authorityIndex ms" k, folded finish_def]
    by blast
  define calls where "calls = CreateTransaction vault (ms_authorityIndex ms) n # adds vault p 0 sxs @ finish"
  have parts: "take (k + 1) calls = CreateTransaction vault (ms_authorityIndex ms) n # adds vault p 0 (take k sxs)"
    "drop (k + 1) calls = adds vault p k (drop k sxs) @ finish"
    using adds_split [of vault p sxs k] sxs(3) by (simp_all add: calls_def)
  have whole: "run_calls exec calls s = Some s'"
    using run_calls_append [of exec "take (k + 1) calls" "drop (k + 1) calls" s]
    unfolding append_take_drop_id unfolding parts t(1) Option.bind.simps t(3) .
  show ?thesis
    using full resumed t whole sxs(3) unfolding calls_def [symmetric] parts [symmetric] sxs_def [symmetric]
    by - (rule exI [of _ calls], rule exI [of _ p], rule exI [of _ t], rule exI [of _ s'], simp add: sxs_def)
qed

theorem interrupted_proposal_completes_witness:
  "\<exists>calls p t s'.
    proposeWormholeMessages_calls doc_squads 5 \<lparr> ms_authorityIndex = 1, ms_transactionIndex = 7 \<rparr> 9 3 None [[1], [2], [3]]
      = Inr (calls, p) \<and>
    run_calls doc_exec (take (2 + 1) calls) \<lparr> dm_index = 7, dm_proposals = Map.empty \<rparr> = Some t \<and>
    map_option (length \<circ> snd) (dm_proposals t p) = Some 2 \<and>
    proposeWormholeMessages_calls doc_squads 5 \<lparr> ms_authorityIndex = 1, ms_transactionIndex = 8 \<rparr> 9 3 (Some (p, 2)) [[1], [2], [3]]
      = Inr (drop (2 + 1) calls, p) \<and>
    run_calls doc_exec (drop (2 + 1) calls) t = Some s' \<and>
    run_calls doc_exec calls \<lparr> dm_index = 7, dm_proposals = Map.empty \<rparr> = Some s' \<and>
    submitted (dm_proposals s' p) (numbered (\<lambda>payload i. getPostMessageInstruction doc_squads 5 p i 9 payload 3) [[1], [2], [3]])"
  by (rule interrupted_proposal_completes [OF doc_squads.squads_program_axioms]) simp_all

section \<open>Properties of reading proposals\<close>

lemma instruction_keys_spec:
  "instruction_keys Q index txs =
     (concat (map (\<lambda>tx. map (sq_getIxPDA Q (ta_publicKey tx)) (lodash_range 1 (ta_instructionIndex tx + 1))) txs),
      concat (map (\<lambda>(i, tx). replicate (length (lodash_range 1 (ta_instructionIndex tx + 1))) i) (enumerate index txs)))"
  by (induction txs arbitrary: index) (simp_all add: map_replicate_const)

lemma group_one:
  "group_instructions (zip (map fetch ks) (replicate (length ks) (length pre)) @ rest) (pre @ got # post)
   = group_instructions rest (pre @ (got @ List.map_filter fetch ks) # post)"
  by (induction ks arbitrary: got)
    (simp_all add: List.map_filter_simps nth_append list_update_append split: option.split)

lemma group_all:
  "group_instructions
     (zip (map fetch (concat kss)) (concat (map (\<lambda>(i, ks). replicate (length ks) i) (enumerate (length pre) kss))))
     (pre @ replicate (length kss) [])
   = pre @ map (List.map_filter fetch) kss"
proof (induction kss arbitrary: pre)
  case (Cons ks kss)
  show ?case
    using Cons [of "pre @ [List.map_filter fetch ks]"] group_one [of fetch ks pre _ "[]" "replicate (length kss) []"]
    by (simp add: zip_append)
qed simp

text \<open>Reading many proposals at once is the same as reading each: \<open>getManyProposalsInstructions\<close>, which
  fetches all instructions in one request and sorts them by their owners, gives for every proposal what
  \<open>getProposalInstructions\<close> gives, in the order of the proposals, leaving out accounts that do not exist.\<close>

theorem many_proposals_as_each:
  fixes Q :: "'pk squads_lib"
  shows "getManyProposalsInstructions Q fetch txAccounts = map (getProposalInstructions Q fetch) txAccounts"
proof -
  define keys where "keys tx = map (sq_getIxPDA Q (ta_publicKey tx)) (lodash_range 1 (ta_instructionIndex tx + 1))"
    for tx :: "'pk TransactionAccount"
  have each: "getProposalInstructions Q fetch = (\<lambda>tx. List.map_filter fetch (keys tx))"
    by (simp add: fun_eq_iff getProposalInstructions_def keys_def)
  have owners: "map (\<lambda>(i, tx). replicate (length (lodash_range 1 (ta_instructionIndex tx + 1))) i) (enumerate k txAccounts)
      = map (\<lambda>(i, ks). replicate (length ks) i) (enumerate k (map keys txAccounts))" for k
    by (induction txAccounts arbitrary: k) (simp_all add: keys_def)
  show ?thesis
    using group_all [of fetch "map keys txAccounts" "[]"]
    unfolding getManyProposalsInstructions_def instruction_keys_spec keys_def [symmetric] each owners Let_def prod.case
    by (simp add: comp_def)
qed

end
