(* ===== verification/Multisig_Parser.thy ===== *)
theory Multisig_Parser
  imports Price_Store Governance_Codec
begin

text \<open>
  \<open>xc_admin_common/src/multisig_transaction\<close>: what reviewers of a proposal are shown for each instruction, with
  \<open>cluster.ts\<close>, \<open>wormhole.ts\<close> and the program addresses. The Borsh coders and interface descriptions of Anchor and
  the decoders of \<open>@solana/web3.js\<close> are the record \<open>parser_lib\<close>; what they decode to is the type \<open>'d\<close>.
\<close>

section \<open>Clusters and addresses\<close>

definition isRemoteCluster :: "string \<Rightarrow> bool" where
  "isRemoteCluster cluster \<longleftrightarrow>
     cluster = ''pythnet'' \<or> cluster = ''pythtest-conformance'' \<or> cluster = ''pythtest-crosschain''"

definition getMultisigCluster :: "string \<Rightarrow> string" where
  "getMultisigCluster cluster =
     (if cluster = ''pythnet'' then ''mainnet-beta''
      else if cluster = ''pythtest-conformance'' then ''devnet''
      else if cluster = ''pythtest-crosschain'' then ''devnet''
      else cluster)"

definition getMaximumNumberOfPublishers :: "string \<Rightarrow> nat option" where
  "getMaximumNumberOfPublishers cluster =
     map_of [(''mainnet-beta'', 32), (''devnet'', 32), (''testnet'', 32), (''pythnet'', 64),
       (''pythtest-conformance'', 64), (''pythtest-crosschain'', 64), (''localnet'', 32)] cluster"

definition WORMHOLE_ADDRESS :: "'pk pubkey_lib \<Rightarrow> string \<Rightarrow> 'pk option" where
  "WORMHOLE_ADDRESS P cluster =
     map_of [(''mainnet-beta'', pk_ofBase58 P ''worm2ZoG2kUd4vFXhvjh93UUH596ayRfgQ2MgjNMTth''),
       (''pythtest-conformance'', pk_ofBase58 P ''EUrRARh92Cdc54xrDn6qzaqjA77NRrCcfbr8kPwoTL4z''),
       (''pythtest-crosschain'', pk_ofBase58 P ''EUrRARh92Cdc54xrDn6qzaqjA77NRrCcfbr8kPwoTL4z''),
       (''devnet'', pk_ofBase58 P ''3u8hJUVTA4jH1wYAyUur7FFZVQ8H635K3tSHHF4ssjQ5''),
       (''pythnet'', pk_ofBase58 P ''H3fxXJ86ADW2PNuDDmZJg6mzTtPxkYCpNuQUTgmJ7AjU''),
       (''localnet'', pk_ofBase58 P ''Bridge1p5gheXUvJ6jGWGeCsgPKgnE3YgdGKRVCMY9o'')] cluster"

definition MESSAGE_BUFFER_PROGRAM_ID :: "'pk pubkey_lib \<Rightarrow> 'pk" where
  "MESSAGE_BUFFER_PROGRAM_ID P = pk_ofBase58 P ''7Vbmv1jt4vyuqBZcpYPpnVhrqVe5e6ZPb6JxDcffRHUM''"

definition MESH_PROGRAM_ID :: "'pk pubkey_lib \<Rightarrow> 'pk" where
  "MESH_PROGRAM_ID P = pk_ofBase58 P ''SMPLVC8MxZ5Bf5EfF7PaMiTCxoBAcmkbM2vkrvMK8ho''"

definition STAKING_PROGRAM_ID :: "'pk pubkey_lib \<Rightarrow> 'pk" where
  "STAKING_PROGRAM_ID P = pk_ofBase58 P ''pytS9TjG1qyAZypk7n8rw8gfW9sUaqqYyMhJQ4E7JCQ''"

definition DEFAULT_RECEIVER_PROGRAM_ID :: "'pk pubkey_lib \<Rightarrow> 'pk" where
  "DEFAULT_RECEIVER_PROGRAM_ID P = pk_ofBase58 P ''rec5EKMGg6MxZYaMdyBfgwp4d5rB9T1VQH5pJv5LtFJ''"

definition BPF_UPGRADABLE_LOADER :: "'pk pubkey_lib \<Rightarrow> 'pk" where
  "BPF_UPGRADABLE_LOADER P = pk_ofBase58 P ''BPFLoaderUpgradeab1e11111111111111111111111''"

definition SOLANA_LAZER_PROGRAM_ID :: "'pk pubkey_lib \<Rightarrow> 'pk" where
  "SOLANA_LAZER_PROGRAM_ID P = pk_ofBase58 P ''pytd2yyk641x7ak7mkaasSJVXh6YYZnC7wTmtgAyxPt''"

section \<open>Parsed instructions\<close>

datatype MultisigInstructionProgram =
    PythOracle
  | WormholeBridge
  | MessageBuffer
  | Staking
  | Mesh
  | SystemProgram
  | BpfUpgradableLoader
  | SolanaStakingProgram
  | SolanaReceiver
  | UnrecognizedProgram
  | PythPriceStore
  | Lazer

fun getProgramName :: "MultisigInstructionProgram \<Rightarrow> string" where
  "getProgramName PythOracle = ''Pyth Oracle''"
| "getProgramName WormholeBridge = ''Wormhole''"
| "getProgramName MessageBuffer = ''Message Buffer''"
| "getProgramName SystemProgram = ''System Program''"
| "getProgramName BpfUpgradableLoader = ''BPF Upgradable Loader''"
| "getProgramName SolanaStakingProgram = ''Solana Staking Program''"
| "getProgramName Mesh = ''Mesh Multisig Program''"
| "getProgramName Staking = ''Pyth Staking Program''"
| "getProgramName SolanaReceiver = ''Pyth Solana Receiver''"
| "getProgramName PythPriceStore = ''Pyth Price Store''"
| "getProgramName UnrecognizedProgram = ''Unknown''"
| "getProgramName Lazer = ''Lazer''"

text \<open>Named accounts in the order of their insertion, \<open>None\<close> for \<open>undefined\<close>.\<close>

record 'pk AnchorAccounts =
  aa_named :: "(string \<times> 'pk account_meta option) list"
  aa_remaining :: "'pk account_meta list"

datatype ('pk, 'd) args =
    No_args
  | Raw_data bytes
  | Raw_error bytes js_error
  | Decoded 'd
  | Price_store "'pk PriceStoreInstruction"

record ('pk, 'd) MultisigInstruction =
  mi_program :: MultisigInstructionProgram
  mi_name :: string
  mi_args :: "('pk, 'd) args"
  mi_accounts :: "'pk AnchorAccounts"
  mi_governanceAction :: "'pk PythGovernanceAction option"

definition UNRECOGNIZED_INSTRUCTION :: string where
  "UNRECOGNIZED_INSTRUCTION = ''unrecognizedInstruction''"

text \<open>Third-party decoders: \<open>pl_decode\<close> is the coder of a program, \<open>pl_idl\<close> its instructions with the names of
  their accounts.\<close>

record ('pk, 'd) parser_lib =
  pl_decode :: "MultisigInstructionProgram \<Rightarrow> bytes \<Rightarrow> (string \<times> 'd) option result"
  pl_idl :: "MultisigInstructionProgram \<Rightarrow> (string \<times> string list) list"
  pl_payload :: "'d \<Rightarrow> bytes"
  pl_systemType :: "'pk instruction \<Rightarrow> string result"
  pl_systemDecode :: "string \<Rightarrow> 'pk instruction \<Rightarrow> 'd result"
  pl_stakeProgram :: 'pk
  pl_stakeType :: "'pk instruction \<Rightarrow> string result"
  pl_decodeDeactivate :: "'pk instruction \<Rightarrow> ('pk \<times> 'pk) result"
  pl_decodeDelegate :: "'pk instruction \<Rightarrow> ('pk \<times> 'pk \<times> 'pk) result"
  pl_decodeInitialize :: "'pk instruction \<Rightarrow> ('pk \<times> 'd) result"
  pl_pythProgramKey :: "string \<Rightarrow> 'pk"

section \<open>Accounts\<close>

fun resolve_loop :: "string list \<Rightarrow> nat \<Rightarrow> 'pk account_meta list \<Rightarrow> 'pk AnchorAccounts \<Rightarrow> 'pk AnchorAccounts" where
  "resolve_loop names idx [] acc = acc"
| "resolve_loop names idx (account # rest) acc =
     resolve_loop names (idx + 1) rest
       (if idx < length names
        then acc\<lparr> aa_named := AList.update (names ! idx) (Some account) (aa_named acc) \<rparr>
        else acc\<lparr> aa_remaining := aa_remaining acc @ [account] \<rparr>)"

definition resolveAccountNames :: "(string \<times> string list) list \<Rightarrow> string \<Rightarrow> 'pk instruction \<Rightarrow> 'pk AnchorAccounts" where
  "resolveAccountNames idl name ix =
     (case map_of idl name of
        None \<Rightarrow> \<lparr> aa_named = [], aa_remaining = ix_keys ix \<rparr>
      | Some names \<Rightarrow> resolve_loop names 0 (ix_keys ix) \<lparr> aa_named = [], aa_remaining = [] \<rparr>)"

text \<open>The object literals \<open>named: { name0: keys[0], ... }, remaining: keys.slice(n)\<close>.\<close>

definition positional :: "string list \<Rightarrow> 'pk instruction \<Rightarrow> 'pk AnchorAccounts" where
  "positional names ix =
     \<lparr> aa_named = map (\<lambda>(i, name). (name, if i < length (ix_keys ix) then Some (ix_keys ix ! i) else None)) (enumerate 0 names),
       aa_remaining = drop (length names) (ix_keys ix) \<rparr>"

definition parsed ::
  "MultisigInstructionProgram \<Rightarrow> string \<Rightarrow> ('pk, 'd) args \<Rightarrow> 'pk AnchorAccounts \<Rightarrow> ('pk, 'd) MultisigInstruction" where
  "parsed program name args accounts =
     \<lparr> mi_program = program, mi_name = name, mi_args = args, mi_accounts = accounts, mi_governanceAction = None \<rparr>"

definition unrecognized :: "MultisigInstructionProgram \<Rightarrow> 'pk instruction \<Rightarrow> ('pk, 'd) MultisigInstruction" where
  "unrecognized program ix =
     parsed program UNRECOGNIZED_INSTRUCTION (Raw_data (ix_data ix)) \<lparr> aa_named = [], aa_remaining = ix_keys ix \<rparr>"

section \<open>The parsers of the programs\<close>

text \<open>\<open>PythMultisigInstruction\<close> and \<open>LazerMultisigInstruction\<close>, and the end of \<open>AnchorMultisigInstruction\<close>.\<close>

definition from_coder ::
  "('pk, 'd) parser_lib \<Rightarrow> MultisigInstructionProgram \<Rightarrow> 'pk instruction \<Rightarrow> ('pk, 'd) MultisigInstruction result" where
  "from_coder A program ix =
     bindR (pl_decode A program (ix_data ix)) (\<lambda>deserializedData.
       case deserializedData of
         None \<Rightarrow> Inr (unrecognized program ix)
       | Some (name, data) \<Rightarrow>
           Inr (parsed program name (Decoded data) (resolveAccountNames (pl_idl A program) name ix)))"

definition Wormhole_fromTransactionInstruction ::
  "chain_table \<Rightarrow> buffer_layout_lib \<Rightarrow> 'pk web3_lib \<Rightarrow> ('pk, 'd) parser_lib \<Rightarrow> 'pk instruction \<Rightarrow>
   ('pk, 'd) MultisigInstruction result" where
  "Wormhole_fromTransactionInstruction wh L W A ix =
     bindR (pl_decode A WormholeBridge (ix_data ix)) (\<lambda>deserializedData.
       case deserializedData of
         None \<Rightarrow> Inr (unrecognized WormholeBridge ix)
       | Some (name, data) \<Rightarrow>
           if name = ''postMessage''
           then bindR (decodeGovernancePayload wh L W (pl_payload A data)) (\<lambda>decodedGovernanceAction.
             Inr ((parsed WormholeBridge name (Decoded data) (resolveAccountNames (pl_idl A WormholeBridge) name ix))
                  \<lparr> mi_governanceAction := decodedGovernanceAction \<rparr>))
           else Inr (parsed WormholeBridge name (Decoded data) (resolveAccountNames (pl_idl A WormholeBridge) name ix)))"

definition IDL_SET_BUFFER_DISCRIMINATOR :: bytes where
  "IDL_SET_BUFFER_DISCRIMINATOR = from_hex ''40f4bc78a7e9690a03''"

definition Anchor_fromTransactionInstruction ::
  "'pk pubkey_lib \<Rightarrow> ('pk, 'd) parser_lib \<Rightarrow> 'pk instruction \<Rightarrow> ('pk, 'd) MultisigInstruction result" where
  "Anchor_fromTransactionInstruction P A ix =
     (let programId = pk_toBase58 P (ix_programId ix);
          program =
            (if programId = pk_toBase58 P (MESSAGE_BUFFER_PROGRAM_ID P) then Some MessageBuffer
             else if programId = pk_toBase58 P (MESH_PROGRAM_ID P) then Some Mesh
             else if programId = pk_toBase58 P (STAKING_PROGRAM_ID P) then Some Staking
             else if programId = pk_toBase58 P (DEFAULT_RECEIVER_PROGRAM_ID P) then Some SolanaReceiver
             else None)
      in case program of
           None \<Rightarrow> Inr (unrecognized UnrecognizedProgram ix)
         | Some program \<Rightarrow>
             if ix_data ix = IDL_SET_BUFFER_DISCRIMINATOR
             then Inr (parsed program ''IdlSetBuffer'' No_args (positional [''buffer'', ''idlAccount'', ''idlAuthority''] ix))
             else from_coder A program ix)"

definition system_types :: "string list" where
  "system_types = [''AdvanceNonceAccount'', ''Allocate'', ''AllocateWithSeed'', ''Assign'', ''AssignWithSeed'',
     ''AuthorizeNonceAccount'', ''Create'', ''CreateWithSeed'', ''InitializeNonceAccount'', ''Transfer'',
     ''TransferWithSeed'', ''WithdrawNonceAccount'']"

text \<open>A \<open>try\<close> whose handler returns the unrecognised instruction.\<close>

definition try_parse ::
  "MultisigInstructionProgram \<Rightarrow> 'pk instruction \<Rightarrow> ('pk, 'd) MultisigInstruction result \<Rightarrow> ('pk, 'd) MultisigInstruction" where
  "try_parse program ix r = (case r of Inl _ \<Rightarrow> unrecognized program ix | Inr m \<Rightarrow> m)"

definition System_fromTransactionInstruction ::
  "('pk, 'd) parser_lib \<Rightarrow> 'pk instruction \<Rightarrow> ('pk, 'd) MultisigInstruction" where
  "System_fromTransactionInstruction A ix =
     try_parse SystemProgram ix
       (bindR (pl_systemType A ix) (\<lambda>instructionType.
        bindR (if instructionType \<in> set system_types
               then bindR (pl_systemDecode A instructionType ix) (\<lambda>d. Inr (Decoded d))
               else if instructionType = ''UpgradeNonceAccount'' then Inl (JsError ''UpgradeNonceAccount not implemented'')
               else Inr No_args) (\<lambda>data.
          Inr (parsed SystemProgram instructionType data \<lparr> aa_named = [], aa_remaining = [] \<rparr>))))"

definition Bpf_fromTransactionInstruction ::
  "buffer_layout_lib \<Rightarrow> 'pk instruction \<Rightarrow> ('pk, 'd) MultisigInstruction" where
  "Bpf_fromTransactionInstruction L ix =
     try_parse BpfUpgradableLoader ix
       (bindR (l_decode (bl_u32 L (Some ''instruction'')) (ix_data ix) 0) (\<lambda>typeIndex.
          if typeIndex = JNum 3
          then Inr (parsed BpfUpgradableLoader ''Upgrade'' No_args
                 (positional [''programData'', ''program'', ''buffer'', ''spill'', ''rent'', ''clock'', ''upgradeAuthority''] ix))
          else if typeIndex = JNum 4
          then Inr (parsed BpfUpgradableLoader ''SetAuthority'' No_args
                 (positional [''programData'', ''currentAuthority'', ''newAuthority''] ix))
          else if typeIndex = JNum 5
          then Inr (parsed BpfUpgradableLoader ''Close'' No_args
                 (if length (ix_keys ix) \<ge> 4
                  then positional [''programData'', ''spill'', ''upgradeAuthority'', ''program''] ix
                  else positional [''buffer'', ''spill'', ''upgradeAuthority''] ix))
          else Inl (JsError ''Not implemented'')))"

definition Stake_fromTransactionInstruction ::
  "('pk, 'd) parser_lib \<Rightarrow> 'pk instruction \<Rightarrow> ('pk, 'd) MultisigInstruction" where
  "Stake_fromTransactionInstruction A ix =
     try_parse SolanaStakingProgram ix
       (bindR (pl_stakeType A ix) (\<lambda>type.
          if type = ''Deactivate''
          then bindR (pl_decodeDeactivate A ix) (\<lambda>(stakePubkey, authorizedPubkey).
            Inr (parsed SolanaStakingProgram ''Deactivate'' No_args
              \<lparr> aa_named = [(''stakePubkey'', Some (meta stakePubkey False True)),
                   (''authorizedPubkey'', Some (meta authorizedPubkey True False))], aa_remaining = [] \<rparr>))
          else if type = ''Delegate''
          then bindR (pl_decodeDelegate A ix) (\<lambda>(stakePubkey, votePubkey, authorizedPubkey).
            Inr (parsed SolanaStakingProgram ''Delegate'' No_args
              \<lparr> aa_named = [(''stakePubkey'', Some (meta stakePubkey False True)),
                   (''votePubkey'', Some (meta votePubkey False False)),
                   (''authorizedPubkey'', Some (meta authorizedPubkey True False))], aa_remaining = [] \<rparr>))
          else if type = ''Initialize''
          then bindR (pl_decodeInitialize A ix) (\<lambda>(stakePubkey, authorizedAndLockup).
            Inr (parsed SolanaStakingProgram ''Initialize'' (Decoded authorizedAndLockup)
              \<lparr> aa_named = [(''stakePubkey'', Some (meta stakePubkey False True))], aa_remaining = [] \<rparr>))
          else Inl (JsError ''Unsupported instruction type'')))"

definition Price_store_parsed :: "'pk pubkey_lib \<Rightarrow> 'pk instruction \<Rightarrow> ('pk, 'd) MultisigInstruction" where
  "Price_store_parsed P ix =
     (case fromTransactionInstruction P ix of
        Recognized result keys \<Rightarrow>
          parsed PythPriceStore (case result of Initialize _ _ \<Rightarrow> ''Initialize'' | InitializePublisher _ _ _ \<Rightarrow> ''InitializePublisher'')
            (Price_store result) \<lparr> aa_named = [], aa_remaining = keys \<rparr>
      | Unrecognized data e keys \<Rightarrow>
          parsed PythPriceStore UNRECOGNIZED_INSTRUCTION (Raw_error data e) \<lparr> aa_named = [], aa_remaining = keys \<rparr>)"

section \<open>The dispatcher\<close>

record 'pk MultisigParser =
  mp_pythOracleAddress :: 'pk
  mp_wormholeBridgeAddress :: "'pk option"
  mp_pythPriceStoreAddress :: "'pk option"

definition fromCluster :: "'pk pubkey_lib \<Rightarrow> ('pk, 'd) parser_lib \<Rightarrow> string \<Rightarrow> 'pk MultisigParser" where
  "fromCluster P A cluster =
     \<lparr> mp_pythOracleAddress = pl_pythProgramKey A cluster, mp_wormholeBridgeAddress = WORMHOLE_ADDRESS P cluster,
       mp_pythPriceStoreAddress = Some (PRICE_STORE_PROGRAM_ID P) \<rparr>"

definition parseInstruction ::
  "'pk pubkey_lib \<Rightarrow> chain_table \<Rightarrow> buffer_layout_lib \<Rightarrow> 'pk web3_lib \<Rightarrow> ('pk, 'd) parser_lib \<Rightarrow> 'pk MultisigParser \<Rightarrow>
   'pk instruction \<Rightarrow> ('pk, 'd) MultisigInstruction result" where
  "parseInstruction P wh L W A parser ix =
     (let programId = ix_programId ix in
      if mp_wormholeBridgeAddress parser = Some programId then Wormhole_fromTransactionInstruction wh L W A ix
      else if programId = mp_pythOracleAddress parser then from_coder A PythOracle ix
      else if mp_pythPriceStoreAddress parser = Some programId then Inr (Price_store_parsed P ix)
      else if programId = MESSAGE_BUFFER_PROGRAM_ID P \<or> programId = MESH_PROGRAM_ID P \<or>
              programId = STAKING_PROGRAM_ID P \<or> programId = DEFAULT_RECEIVER_PROGRAM_ID P
      then Anchor_fromTransactionInstruction P A ix
      else if programId = pk_systemProgram P then Inr (System_fromTransactionInstruction A ix)
      else if programId = BPF_UPGRADABLE_LOADER P then Inr (Bpf_fromTransactionInstruction L ix)
      else if programId = pl_stakeProgram A then Inr (Stake_fromTransactionInstruction A ix)
      else if programId = SOLANA_LAZER_PROGRAM_ID P then from_coder A Lazer ix
      else Inr (unrecognized UnrecognizedProgram ix))"

section \<open>Every account is shown\<close>

text \<open>The shown accounts are the instruction's, in order; \<open>undefined\<close> ones can only follow.\<close>

definition shows_accounts :: "'pk AnchorAccounts \<Rightarrow> 'pk account_meta list \<Rightarrow> bool" where
  "shows_accounts acc keys \<longleftrightarrow>
     take (length keys) (map snd (aa_named acc) @ map Some (aa_remaining acc)) = map Some keys"

lemma shows_remaining [simp]: "shows_accounts \<lparr> aa_named = [], aa_remaining = keys \<rparr> keys"
  by (simp add: shows_accounts_def)

lemma update_new: "k \<notin> fst ` set al \<Longrightarrow> AList.update k v al = al @ [(k, v)]"
  by (induction al) auto

lemma resolve_loop_spec:
  "distinct names \<Longrightarrow> map fst (aa_named acc) = take idx names \<Longrightarrow> (idx < length names \<Longrightarrow> aa_remaining acc = []) \<Longrightarrow>
   map snd (aa_named (resolve_loop names idx keys acc)) @ map Some (aa_remaining (resolve_loop names idx keys acc))
   = map snd (aa_named acc) @ map Some (aa_remaining acc) @ map Some keys"
proof (induction keys arbitrary: idx acc)
  case (Cons account rest)
  show ?case
  proof (cases "idx < length names")
    case True
    have "names ! idx \<notin> set (take idx names)"
      using Cons.prems(1) True by (metis id_take_nth_drop distinct_append not_distinct_conv_prefix)
    then have "names ! idx \<notin> fst ` set (aa_named acc)" using Cons.prems(2) by (metis list.set_map)
    then have new: "AList.update (names ! idx) (Some account) (aa_named acc) = aa_named acc @ [(names ! idx, Some account)]"
      by (rule update_new)
    have "map fst (aa_named acc @ [(names ! idx, Some account)]) = take (idx + 1) names"
      using Cons.prems(2) True by (simp add: take_Suc_conv_app_nth)
    then show ?thesis
      using Cons.IH [of "acc\<lparr> aa_named := aa_named acc @ [(names ! idx, Some account)] \<rparr>" "idx + 1"] Cons.prems(1,3) True
      by (simp add: new)
  next
    case False
    then show ?thesis
      using Cons.IH [of "acc\<lparr> aa_remaining := aa_remaining acc @ [account] \<rparr>" "idx + 1"] Cons.prems(1,2) by simp
  qed
qed simp

lemma shows_resolved:
  assumes "\<And>name names. (name, names) \<in> set idl \<Longrightarrow> distinct names"
  shows "shows_accounts (resolveAccountNames idl name ix) (ix_keys ix)"
proof (cases "map_of idl name")
  case (Some names)
  with assms have "distinct names" by (blast dest: map_of_SomeD)
  from resolve_loop_spec [OF this, of "\<lparr> aa_named = [], aa_remaining = [] \<rparr>" 0 "ix_keys ix"] Some
  show ?thesis by (simp add: resolveAccountNames_def shows_accounts_def)
qed (simp add: resolveAccountNames_def)

lemma shows_positional: "shows_accounts (positional names ix) (ix_keys ix)"
proof -
  let ?ks = "ix_keys ix"
  have "take (length ?ks) (map snd (map (\<lambda>(i, name). (name, if i < length ?ks then Some (ks ! i) else None)) (enumerate 0 names))
      @ map Some (drop (length names) ?ks)) = map Some ?ks" if "ks = ?ks" for ks
    using that by (intro nth_equalityI) (auto simp: nth_append nth_enumerate_eq)
  then show ?thesis by (simp add: shows_accounts_def positional_def)
qed

lemma shows_unrecognized [simp]: "shows_accounts (mi_accounts (unrecognized program ix)) (ix_keys ix)"
  by (simp add: unrecognized_def parsed_def)

lemma parsed_simps [simp]:
  "mi_program (parsed program name args accounts) = program" "mi_accounts (parsed program name args accounts) = accounts"
  "mi_name (parsed program name args accounts) = name" "mi_governanceAction (parsed program name args accounts) = None"
  by (simp_all add: parsed_def)

lemma unrecognized_program [simp]: "mi_program (unrecognized program ix) = program"
  by (simp add: unrecognized_def)

definition idls_ok :: "('pk, 'd) parser_lib \<Rightarrow> bool" where
  "idls_ok A \<longleftrightarrow> (\<forall>program. \<forall>(name, names) \<in> set (pl_idl A program). distinct names)"

lemma shows_from_coder:
  "idls_ok A \<Longrightarrow> from_coder A program ix = Inr m \<Longrightarrow> mi_program m = program \<and> shows_accounts (mi_accounts m) (ix_keys ix)"
  using shows_resolved [of "pl_idl A program"]
  by (fastforce simp: from_coder_def bindR_Inr_iff idls_ok_def split: option.splits)

lemma shows_wormhole:
  "idls_ok A \<Longrightarrow> Wormhole_fromTransactionInstruction wh L W A ix = Inr m \<Longrightarrow>
   mi_program m = WormholeBridge \<and> shows_accounts (mi_accounts m) (ix_keys ix)"
  using shows_resolved [of "pl_idl A WormholeBridge"]
  by (fastforce simp: Wormhole_fromTransactionInstruction_def bindR_Inr_iff idls_ok_def split: option.splits if_splits)

lemma shows_bpf:
  "mi_program (Bpf_fromTransactionInstruction L ix) = BpfUpgradableLoader \<and>
   shows_accounts (mi_accounts (Bpf_fromTransactionInstruction L ix)) (ix_keys ix)"
  by (cases "l_decode (bl_u32 L (Some ''instruction'')) (ix_data ix) 0")
    (simp_all add: Bpf_fromTransactionInstruction_def try_parse_def shows_positional)

lemma shows_price_store:
  "mi_program (Price_store_parsed P ix) = PythPriceStore \<and> shows_accounts (mi_accounts (Price_store_parsed P ix)) (ix_keys ix)"
  by (simp add: Price_store_parsed_def fromTransactionInstruction_def split: sum.split)

section \<open>The program that is shown\<close>

fun program_address ::
  "'pk pubkey_lib \<Rightarrow> ('pk, 'd) parser_lib \<Rightarrow> 'pk MultisigParser \<Rightarrow> MultisigInstructionProgram \<Rightarrow> 'pk option" where
  "program_address P A parser PythOracle = Some (mp_pythOracleAddress parser)"
| "program_address P A parser WormholeBridge = mp_wormholeBridgeAddress parser"
| "program_address P A parser MessageBuffer = Some (MESSAGE_BUFFER_PROGRAM_ID P)"
| "program_address P A parser Staking = Some (STAKING_PROGRAM_ID P)"
| "program_address P A parser Mesh = Some (MESH_PROGRAM_ID P)"
| "program_address P A parser SystemProgram = Some (pk_systemProgram P)"
| "program_address P A parser BpfUpgradableLoader = Some (BPF_UPGRADABLE_LOADER P)"
| "program_address P A parser SolanaStakingProgram = Some (pl_stakeProgram A)"
| "program_address P A parser SolanaReceiver = Some (DEFAULT_RECEIVER_PROGRAM_ID P)"
| "program_address P A parser UnrecognizedProgram = None"
| "program_address P A parser PythPriceStore = mp_pythPriceStoreAddress parser"
| "program_address P A parser Lazer = Some (SOLANA_LAZER_PROGRAM_ID P)"

text \<open>A parsed instruction is shown with its program and with all its accounts, except that the decoders of the
  system and stake programs choose theirs.\<close>

definition shown_right ::
  "'pk pubkey_lib \<Rightarrow> ('pk, 'd) parser_lib \<Rightarrow> 'pk MultisigParser \<Rightarrow> 'pk instruction \<Rightarrow> ('pk, 'd) MultisigInstruction \<Rightarrow> bool" where
  "shown_right P A parser ix m \<longleftrightarrow>
     (if mi_program m = UnrecognizedProgram then \<forall>p. program_address P A parser p \<noteq> Some (ix_programId ix)
      else program_address P A parser (mi_program m) = Some (ix_programId ix)) \<and>
     (mi_program m \<in> {SystemProgram, SolanaStakingProgram} \<or> shows_accounts (mi_accounts m) (ix_keys ix))"

lemma shown_rightI:
  "program_address P A parser (mi_program m) = Some (ix_programId ix) \<Longrightarrow>
   mi_program m \<in> {SystemProgram, SolanaStakingProgram} \<or> shows_accounts (mi_accounts m) (ix_keys ix) \<Longrightarrow>
   shown_right P A parser ix m"
  by (auto simp: shown_right_def)

lemma anchor_body:
  assumes "idls_ok A" "(if ix_data ix = IDL_SET_BUFFER_DISCRIMINATOR
      then Inr (parsed program ''IdlSetBuffer'' No_args (positional [''buffer'', ''idlAccount'', ''idlAuthority''] ix))
      else from_coder A program ix) = Inr m"
  shows "mi_program m = program \<and> shows_accounts (mi_accounts m) (ix_keys ix)"
  using assms(2) shows_from_coder [OF assms(1), of program ix m] shows_positional by (auto split: if_splits)

lemma shown_anchor:
  assumes "idls_ok A" "inj (pk_toBase58 P)" "Anchor_fromTransactionInstruction P A ix = Inr m"
    and "ix_programId ix \<in> {MESSAGE_BUFFER_PROGRAM_ID P, MESH_PROGRAM_ID P, STAKING_PROGRAM_ID P, DEFAULT_RECEIVER_PROGRAM_ID P}"
  shows "shown_right P A parser ix m"
proof -
  obtain program where p: "program_address P A parser program = Some (ix_programId ix)"
    "(if ix_data ix = IDL_SET_BUFFER_DISCRIMINATOR
      then Inr (parsed program ''IdlSetBuffer'' No_args (positional [''buffer'', ''idlAccount'', ''idlAuthority''] ix))
      else from_coder A program ix) = Inr m"
  proof (cases "ix_programId ix = MESSAGE_BUFFER_PROGRAM_ID P")
    case True
    with assms(3) that [of MessageBuffer] show ?thesis by (simp add: Anchor_fromTransactionInstruction_def)
  next
    case mb: False
    show ?thesis
    proof (cases "ix_programId ix = MESH_PROGRAM_ID P")
      case True
      with mb assms(3) that [of Mesh] show ?thesis
        by (simp add: Anchor_fromTransactionInstruction_def inj_eq [OF assms(2)])
    next
      case mesh: False
      show ?thesis
        using mb mesh assms(3,4) that [of Staking] that [of SolanaReceiver]
        by (cases "ix_programId ix = STAKING_PROGRAM_ID P")
          (auto simp: Anchor_fromTransactionInstruction_def inj_eq [OF assms(2)] Let_def)
    qed
  qed
  from anchor_body [OF assms(1) p(2)] p(1) show ?thesis by (intro shown_rightI) simp_all
qed

lemma try_parse_program:
  "(\<And>m. r = Inr m \<Longrightarrow> mi_program m = program) \<Longrightarrow> mi_program (try_parse program ix r) = program"
  by (simp add: try_parse_def split: sum.split)

lemma system_program: "mi_program (System_fromTransactionInstruction A ix) = SystemProgram"
  unfolding System_fromTransactionInstruction_def by (rule try_parse_program) (auto simp: bindR_Inr_iff)

lemma stake_program: "mi_program (Stake_fromTransactionInstruction A ix) = SolanaStakingProgram"
  unfolding Stake_fromTransactionInstruction_def
  by (rule try_parse_program) (auto simp: bindR_Inr_iff split: if_splits)

lemma program_address_Some:
  "program_address P A parser p = Some k \<Longrightarrow>
   mp_wormholeBridgeAddress parser = Some k \<or> mp_pythOracleAddress parser = k \<or> mp_pythPriceStoreAddress parser = Some k \<or>
   k \<in> {MESSAGE_BUFFER_PROGRAM_ID P, MESH_PROGRAM_ID P, STAKING_PROGRAM_ID P, DEFAULT_RECEIVER_PROGRAM_ID P,
     pk_systemProgram P, BPF_UPGRADABLE_LOADER P, pl_stakeProgram A, SOLANA_LAZER_PROGRAM_ID P}"
  by (cases p) auto

section \<open>A concrete library\<close>

definition doc_parser :: "(256 word, bytes) parser_lib" where
  "doc_parser = \<lparr> pl_decode = (\<lambda>program b. Inr (case b of [] \<Rightarrow> None | c # rest \<Rightarrow> if c = 1 then Some (''postMessage'', rest) else None)),
     pl_idl = (\<lambda>program. [(''postMessage'', [''bridge'', ''message''])]), pl_payload = (\<lambda>d. d),
     pl_systemType = (\<lambda>ix. Inr ''Transfer''), pl_systemDecode = (\<lambda>t ix. Inr (ix_data ix)), pl_stakeProgram = 77,
     pl_stakeType = (\<lambda>ix. Inr ''Merge''), pl_decodeDeactivate = (\<lambda>ix. Inl TypeError), pl_decodeDelegate = (\<lambda>ix. Inl TypeError),
     pl_decodeInitialize = (\<lambda>ix. Inl TypeError), pl_pythProgramKey = (\<lambda>cluster. 78) \<rparr>"

lemma doc_idls_ok: "idls_ok doc_parser"
  by (simp add: idls_ok_def doc_parser_def)

lemma doc_base58_inj: "inj (pk_toBase58 doc_keys)"
proof (rule injI)
  fix k l :: "256 word"
  assume "pk_toBase58 doc_keys k = pk_toBase58 doc_keys l"
  then have "from_hex (to_hex (pk_toBuffer doc_keys k)) = from_hex (to_hex (pk_toBuffer doc_keys l))"
    by (simp add: doc_keys_def)
  then have "pk_new doc_keys (pk_toBuffer doc_keys k) = pk_new doc_keys (pk_toBuffer doc_keys l)" by simp
  then show "k = l" by (simp only: doc_keys.new_toBuffer)
qed

section \<open>Properties\<close>

text \<open>What is shown of an instruction is what it is: the program shown is the one the instruction calls, an unknown
  program is shown only when no known one has the address, and all accounts are shown, in order, whether
  they have names in the interface or not (the decoders of the system and stake programs choose theirs).\<close>

theorem parsed_instruction_shown:
  assumes "parseInstruction P wh L W A parser ix = Inr m" "idls_ok A" "inj (pk_toBase58 P)"
  shows "shown_right P A parser ix m"
proof -
  let ?k = "ix_programId ix"
  let ?anchor = "{MESSAGE_BUFFER_PROGRAM_ID P, MESH_PROGRAM_ID P, STAKING_PROGRAM_ID P, DEFAULT_RECEIVER_PROGRAM_ID P}"
  note parse = assms(1) [unfolded parseInstruction_def Let_def]
  consider (wormhole) "mp_wormholeBridgeAddress parser = Some ?k"
    | (pyth) "mp_wormholeBridgeAddress parser \<noteq> Some ?k" "?k = mp_pythOracleAddress parser"
    | (store) "mp_wormholeBridgeAddress parser \<noteq> Some ?k" "?k \<noteq> mp_pythOracleAddress parser" "mp_pythPriceStoreAddress parser = Some ?k"
    | (rest) "mp_wormholeBridgeAddress parser \<noteq> Some ?k" "?k \<noteq> mp_pythOracleAddress parser" "mp_pythPriceStoreAddress parser \<noteq> Some ?k"
    by blast
  then show ?thesis
  proof cases
    case wormhole
    with parse have "Wormhole_fromTransactionInstruction wh L W A ix = Inr m" by simp
    from shows_wormhole [OF assms(2) this] wormhole show ?thesis by (intro shown_rightI) simp_all
  next
    case pyth
    with parse have "from_coder A PythOracle ix = Inr m" by (simp split: if_splits)
    from shows_from_coder [OF assms(2) this] pyth show ?thesis by (intro shown_rightI) simp_all
  next
    case store
    with parse have "m = Price_store_parsed P ix" by (simp split: if_splits)
    then show ?thesis using store by (intro shown_rightI) (simp_all add: shows_price_store)
  next
    case rest
    note parse' = parse [unfolded if_not_P [OF rest(1)] if_not_P [OF rest(2)] if_not_P [OF rest(3)]]
    show ?thesis
    proof (cases "?k \<in> ?anchor")
      case True
      with parse' have "Anchor_fromTransactionInstruction P A ix = Inr m" by auto
      from shown_anchor [OF assms(2,3) this True] show ?thesis .
    next
      case False
      with parse' have "(if ?k = pk_systemProgram P then Inr (System_fromTransactionInstruction A ix)
          else if ?k = BPF_UPGRADABLE_LOADER P then Inr (Bpf_fromTransactionInstruction L ix)
          else if ?k = pl_stakeProgram A then Inr (Stake_fromTransactionInstruction A ix)
          else if ?k = SOLANA_LAZER_PROGRAM_ID P then from_coder A Lazer ix
          else Inr (unrecognized UnrecognizedProgram ix)) = Inr m" by auto
      then consider "?k = pk_systemProgram P" "m = System_fromTransactionInstruction A ix"
        | "?k = BPF_UPGRADABLE_LOADER P" "m = Bpf_fromTransactionInstruction L ix"
        | "?k = pl_stakeProgram A" "m = Stake_fromTransactionInstruction A ix"
        | "?k = SOLANA_LAZER_PROGRAM_ID P" "from_coder A Lazer ix = Inr m"
        | "?k \<notin> {pk_systemProgram P, BPF_UPGRADABLE_LOADER P, pl_stakeProgram A, SOLANA_LAZER_PROGRAM_ID P}"
          "m = unrecognized UnrecognizedProgram ix"
        by (auto split: if_splits)
      then show ?thesis
      proof cases
        case 5
        with rest False have "program_address P A parser p \<noteq> Some ?k" for p
          using program_address_Some [of P A parser p ?k] by auto
        with 5 show ?thesis by (simp add: shown_right_def)
      qed (auto intro!: shown_rightI simp: system_program stake_program shows_bpf dest: shows_from_coder [OF assms(2)])
    qed
  qed
qed

definition sample_post_message :: "bytes \<Rightarrow> 256 word instruction" where
  "sample_post_message payload = \<lparr> ix_programId = 9, ix_keys = [meta 3 False True], ix_data = 1 # payload \<rparr>"

definition sample_parser :: "256 word MultisigParser" where
  "sample_parser = \<lparr> mp_pythOracleAddress = 78, mp_wormholeBridgeAddress = Some 9, mp_pythPriceStoreAddress = None \<rparr>"

theorem parsed_instruction_shown_witness:
  "shown_right doc_keys doc_parser sample_parser (sample_post_message []\<lparr> ix_data := [2] \<rparr>)
     (unrecognized WormholeBridge (sample_post_message []\<lparr> ix_data := [2] \<rparr>))"
  by (rule parsed_instruction_shown [OF _ doc_idls_ok doc_base58_inj, of sample_wormhole doc_lib doc_web3])
    (simp add: parseInstruction_def sample_post_message_def sample_parser_def Wormhole_fromTransactionInstruction_def doc_parser_def)

text \<open>From the author to the reviewer: when the payload of a Wormhole message in a proposal was encoded from a
  well-formed governance action, the parser shows that same action with the message.\<close>

theorem governance_action_shown:
  assumes "buffer_layout L" "web3 W" "chain_ok wh (action_chain a) i" "wf_action (w3_toBytes W) a"
    and "encode wh L W a = Inr (pl_payload A data)"
    and "pl_decode A WormholeBridge (ix_data ix) = Inr (Some (''postMessage'', data))"
    and "mp_wormholeBridgeAddress parser = Some (ix_programId ix)"
  shows "\<exists>m. parseInstruction P wh L W A parser ix = Inr m \<and> mi_program m = WormholeBridge \<and>
    mi_name m = ''postMessage'' \<and> mi_governanceAction m = Some a"
proof -
  have "encode wh L W a = Inr (header_bytes (action_name a) i @ payload_bytes (w3_toBytes W) a)"
    using governance_codec.encode_wire [OF governance_codecI [OF assms(1,2)] _ _ assms(4)] assms(3)
    by (simp add: chain_ok_def)
  with assms(5) have "decodeGovernancePayload wh L W (pl_payload A data) = Inr (Some a)"
    using governance_codec.decode_wire [OF governance_codecI [OF assms(1,2)] assms(3,4)] by simp
  then show ?thesis using assms(6,7) by (simp add: parseInstruction_def Wormhole_fromTransactionInstruction_def)
qed

definition sample_action :: "256 word PythGovernanceAction" where
  "sample_action = SetValidPeriod ''ethereum'' 60"

definition sample_payload :: bytes where
  "sample_payload = header_bytes SetValidPeriod_name 2 @ be_bytes 8 60"

theorem governance_action_shown_witness:
  "\<exists>m. parseInstruction doc_keys sample_wormhole doc_lib doc_web3 doc_parser sample_parser (sample_post_message sample_payload) = Inr m \<and>
    mi_program m = WormholeBridge \<and> mi_name m = ''postMessage'' \<and> mi_governanceAction m = Some sample_action"
proof (rule governance_action_shown)
  show "chain_ok sample_wormhole (action_chain sample_action) 2" by (simp add: sample_action_def sample_chain_ok)
  show "encode sample_wormhole doc_lib doc_web3 sample_action = Inr (pl_payload doc_parser sample_payload)"
    using doc_codec.encode_wire [of sample_wormhole sample_action 2] sample_chain_ok
    by (simp add: sample_action_def sample_payload_def doc_parser_def fits_def chain_ok_def)
qed (simp_all add: doc.buffer_layout_axioms doc_web3.web3_axioms sample_action_def fits_def sample_post_message_def sample_parser_def
    doc_parser_def)

end
