(* ===== verification/Executor.thy ===== *)
theory Executor
  imports Squads_Vault Multisig_Parser
begin

text \<open>
  \<open>xc_admin_common/src/executor.ts\<close> and \<open>deterministic_oracle_accounts.ts\<close>: executing an approved proposal, one transaction
  for each of its instructions, from the first that has not been executed. Requests to the node are arguments;
  what sending a transaction does to the proposal is the contract \<open>squads_execution\<close>.
\<close>

section \<open>Oracle accounts\<close>

datatype AccountType = Price_account | Product_account | Other_account

definition getSeed :: "AccountType \<Rightarrow> string \<Rightarrow> string result" where
  "getSeed accountType symbol =
     (case accountType of
        Price_account \<Rightarrow> Inr (''price:'' @ symbol)
      | Product_account \<Rightarrow> Inr (''product:'' @ symbol)
      | Other_account \<Rightarrow> Inl (JsError ''Unimplemented''))"

definition getAccountTypeSize :: "AccountType \<Rightarrow> string \<Rightarrow> nat result" where
  "getAccountTypeSize accountType cluster =
     (case accountType of
        Price_account \<Rightarrow> Inr (if isRemoteCluster cluster then 12576 else 3312)
      | Product_account \<Rightarrow> Inr 512
      | Other_account \<Rightarrow> Inl (JsError ''Unimplemented''))"

definition findDetermisticAccountAddress ::
  "'pk pubkey_lib \<Rightarrow> ('pk, 'd) parser_lib \<Rightarrow> AccountType \<Rightarrow> string \<Rightarrow> string \<Rightarrow> ('pk \<times> string) result" where
  "findDetermisticAccountAddress P A accountType symbol cluster =
     bindR (getSeed accountType symbol) (\<lambda>fullSeed.
       let seed = take 32 fullSeed
       in Inr (pk_createWithSeed P (PRICE_FEED_OPS_KEY P) seed (pl_pythProgramKey A cluster), seed))"

text \<open>\<open>rent\<close> is \<open>connection.getMinimumBalanceForRentExemption\<close>.\<close>

definition getCreateAccountWithSeedInstruction ::
  "'pk pubkey_lib \<Rightarrow> ('pk, 'd) parser_lib \<Rightarrow> (nat \<Rightarrow> nat) \<Rightarrow> string \<Rightarrow> 'pk \<Rightarrow> string \<Rightarrow> AccountType \<Rightarrow> 'pk instruction result" where
  "getCreateAccountWithSeedInstruction P A rent cluster base symbol accountType =
     bindR (findDetermisticAccountAddress P A accountType symbol cluster) (\<lambda>(address, seed).
     bindR (getAccountTypeSize accountType cluster) (\<lambda>size.
       Inr (pk_createAccountWithSeed P base base address seed size (rent size) (pl_pythProgramKey A cluster))))"

section \<open>The transaction of one instruction\<close>

text \<open>What the executor asks the nodes, and its key.\<close>

record ('pk, 'd) executor_env =
  ex_wallet :: 'pk
  ex_wormholeFee :: nat
  ex_rent :: "nat \<Rightarrow> nat"
  ex_getInstruction :: "'pk \<Rightarrow> 'pk instruction result"
  ex_getAccountInfo :: "'pk \<Rightarrow> bytes option"
  ex_symbol :: "('pk, 'd) args \<Rightarrow> string"
  ex_productSymbol :: "bytes \<Rightarrow> string"

definition getPostMessageFeeInstruction ::
  "'pk solana_lib \<Rightarrow> 'pk squads_lib \<Rightarrow> ('pk, 'd) executor_env \<Rightarrow> 'pk \<Rightarrow> 'pk instruction" where
  "getPostMessageFeeInstruction S Q E wormholeBridgeAddress =
     sl_transfer S (ex_wallet E) (sq_feeCollectorKey Q wormholeBridgeAddress) (ex_wormholeFee E)"

text \<open>The instructions that come first: the fee of a Wormhole message, or the account a new product or price needs.\<close>

definition preparation ::
  "'pk pubkey_lib \<Rightarrow> 'pk solana_lib \<Rightarrow> 'pk squads_lib \<Rightarrow> ('pk, 'd) parser_lib \<Rightarrow> ('pk, 'd) executor_env \<Rightarrow>
   'pk MultisigParser \<Rightarrow> string \<Rightarrow> ('pk, 'd) MultisigInstruction \<Rightarrow> 'pk instruction list result" where
  "preparation P S Q A E parser cluster m =
     (if mi_program m = WormholeBridge \<and> mi_name m = ''postMessage''
      then (case mp_wormholeBridgeAddress parser of
              None \<Rightarrow> Inl TypeError
            | Some wormhole \<Rightarrow> Inr [getPostMessageFeeInstruction S Q E wormhole])
      else if mi_program m = PythOracle \<and> mi_name m = ''addProduct''
      then bindR (getCreateAccountWithSeedInstruction P A (ex_rent E) cluster (ex_wallet E) (ex_symbol E (mi_args m)) Product_account)
             (\<lambda>ix. Inr [ix])
      else if mi_program m = PythOracle \<and> mi_name m = ''addPrice''
      then (case map_of (aa_named (mi_accounts m)) ''productAccount'' of
              Some (Some product) \<Rightarrow>
                (case ex_getAccountInfo E (am_pubkey product) of
                   None \<Rightarrow> Inl (JsError ''Product account not found'')
                 | Some data \<Rightarrow>
                     bindR (getCreateAccountWithSeedInstruction P A (ex_rent E) cluster (ex_wallet E) (ex_productSymbol E data)
                              Price_account) (\<lambda>ix. Inr [ix]))
            | _ \<Rightarrow> Inl TypeError)
      else Inr [])"

text \<open>The libraries of the executor together.\<close>

record ('pk, 'd) executor_libs =
  lib_P :: "'pk pubkey_lib"
  lib_S :: "'pk solana_lib"
  lib_Q :: "'pk squads_lib"
  lib_wh :: chain_table
  lib_L :: buffer_layout_lib
  lib_W :: "'pk web3_lib"
  lib_A :: "('pk, 'd) parser_lib"

definition execute_transaction ::
  "('pk, 'd) executor_libs \<Rightarrow> ('pk, 'd) executor_env \<Rightarrow> string \<Rightarrow> PriorityFeeConfig \<Rightarrow> 'pk \<Rightarrow> nat \<Rightarrow> 'pk instruction list result" where
  "execute_transaction R E cluster fees proposal i =
     (let multisigParser = fromCluster (lib_P R) (lib_A R) cluster;
          instructionPda = sq_getIxPDA (lib_Q R) proposal i in
      bindR (ex_getInstruction E instructionPda) (\<lambda>instruction.
      bindR (parseInstruction (lib_P R) (lib_wh R) (lib_L R) (lib_W R) (lib_A R) multisigParser instruction) (\<lambda>m.
      bindR (preparation (lib_P R) (lib_S R) (lib_Q R) (lib_A R) E multisigParser cluster m) (\<lambda>pre.
        Inr (addPriorityFee (lib_S R) pre fees @ [sq_executeInstruction (lib_Q R) proposal instructionPda])))))"

section \<open>Executing a proposal\<close>

record 'pk proposal_account =
  pa_publicKey :: 'pk
  pa_executedIndex :: nat
  pa_instructionIndex :: nat

text \<open>\<open>send\<close> is \<open>sendTransactions\<close> for one transaction: the signatures or the error, and the next state of the chain.\<close>

fun execute_loop ::
  "(nat \<Rightarrow> 'tx result) \<Rightarrow> ('s \<Rightarrow> 'tx \<Rightarrow> 'sig list result \<times> 's) \<Rightarrow> nat list \<Rightarrow> 's \<Rightarrow> 'sig list result \<times> 's" where
  "execute_loop transaction send [] s = (Inr [], s)"
| "execute_loop transaction send (i # is) s =
     (case transaction i of
        Inl e \<Rightarrow> (Inl e, s)
      | Inr tx \<Rightarrow>
          (case send s tx of
             (Inl e, s') \<Rightarrow> (Inl e, s')
           | (Inr sigs, s') \<Rightarrow>
               (case execute_loop transaction send is s' of
                  (Inl e, s'') \<Rightarrow> (Inl e, s'')
                | (Inr rest, s'') \<Rightarrow> (Inr (sigs @ rest), s''))))"

definition executeProposal ::
  "('pk, 'd) executor_libs \<Rightarrow> ('pk, 'd) executor_env \<Rightarrow> string \<Rightarrow> PriorityFeeConfig \<Rightarrow>
   ('s \<Rightarrow> 'pk instruction list \<Rightarrow> 'sig list result \<times> 's) \<Rightarrow> 'pk proposal_account \<Rightarrow> 's \<Rightarrow> 'sig list result \<times> 's" where
  "executeProposal R E cluster fees send proposal =
     execute_loop (execute_transaction R E cluster fees (pa_publicKey proposal)) send
       [pa_executedIndex proposal + 1..<pa_instructionIndex proposal + 1]"

section \<open>The contract of the multisig program\<close>

text \<open>
  The program executes the instructions of a proposal in order. \<open>executed s\<close> is the index of the last one and \<open>history s\<close>
  the record of those that ran. Sending the transaction of the next instruction runs it; when sending fails, the
  transaction may have been included all the same.
\<close>

text \<open>From \<open>s\<close> to \<open>s'\<close> instructions ran in order, each once, from the next one on, and none after the \<open>n\<close>-th.\<close>

definition progress :: "('s \<Rightarrow> nat) \<Rightarrow> ('s \<Rightarrow> nat list) \<Rightarrow> nat \<Rightarrow> 's \<Rightarrow> 's \<Rightarrow> bool" where
  "progress executed history n s s' \<longleftrightarrow>
     executed s \<le> executed s' \<and> executed s' \<le> n \<and> history s' = history s @ [executed s + 1..<executed s' + 1]"

locale squads_execution =
  fixes Q :: "'pk squads_lib" and proposal :: 'pk
    and send :: "'s \<Rightarrow> 'pk instruction list \<Rightarrow> 'sig list result \<times> 's"
    and executed :: "'s \<Rightarrow> nat" and history :: "'s \<Rightarrow> nat list"
  assumes send_ok:
      "send s (pre @ [sq_executeInstruction Q proposal (sq_getIxPDA Q proposal (executed s + 1))]) = (Inr sigs, s') \<Longrightarrow>
       executed s' = executed s + 1 \<and> history s' = history s @ [executed s + 1]"
    and send_failed:
      "send s (pre @ [sq_executeInstruction Q proposal (sq_getIxPDA Q proposal (executed s + 1))]) = (Inl e, s') \<Longrightarrow>
       executed s' = executed s \<and> history s' = history s \<or> executed s' = executed s + 1 \<and> history s' = history s @ [executed s + 1]"
begin

lemma execute_loop_progress:
  assumes "\<And>i tx. transaction i = Inr tx \<Longrightarrow> \<exists>pre. tx = pre @ [sq_executeInstruction Q proposal (sq_getIxPDA Q proposal i)]"
    and "executed s \<le> n" "execute_loop transaction send [executed s + 1..<n + 1] s = (r, s')"
  shows "progress executed history n s s' \<and> (\<forall>sigs. r = Inr sigs \<longrightarrow> executed s' = n)"
  using assms(2,3)
proof (induction "n - executed s" arbitrary: s r)
  case 0
  then show ?case by (simp add: progress_def)
next
  case (Suc k)
  then have lt: "executed s < n" by simp
  then have upt: "[executed s + 1..<n + 1] = (executed s + 1) # [executed s + 2..<n + 1]"
    by (simp add: upt_conv_Cons)
  show ?case
  proof (cases "transaction (executed s + 1)")
    case (Inl e)
    with Suc.prems upt show ?thesis by (auto simp: progress_def)
  next
    case (Inr tx)
    with assms(1) obtain pre where tx: "tx = pre @ [sq_executeInstruction Q proposal (sq_getIxPDA Q proposal (executed s + 1))]"
      by blast
    obtain q t where sent: "send s tx = (q, t)" by fastforce
    show ?thesis
    proof (cases q)
      case (Inl e)
      with Suc.prems(2) upt Inr sent have "r = Inl e" "s' = t" by auto
      with send_failed [OF sent [unfolded tx Inl]] lt show ?thesis by (auto simp: progress_def)
    next
      case q: (Inr sigs)
      note t = send_ok [OF sent [unfolded tx q]]
      obtain r' where rest: "execute_loop transaction send [executed t + 1..<n + 1] t = (r', s')"
        and r: "\<forall>sigs. r = Inr sigs \<longrightarrow> (\<exists>rest. r' = Inr rest)"
        using Suc.prems(2) upt Inr sent q t by (auto split: prod.splits sum.splits)
      have "k = n - executed t" "executed t \<le> n" using Suc.hyps(2) t lt by auto
      from Suc.hyps(1) [OF this rest] have "progress executed history n t s'" "\<forall>sigs. r' = Inr sigs \<longrightarrow> executed s' = n" by auto
      with r t lt show ?thesis
        by (auto simp: progress_def upt_conv_Cons)
    qed
  qed
qed

end

lemma progress_trans:
  "progress executed history n s t \<Longrightarrow> progress executed history n t u \<Longrightarrow> progress executed history n s u"
proof -
  assume st: "progress executed history n s t" and tu: "progress executed history n t u"
  then have le: "executed s + 1 \<le> executed t + 1" "executed t \<le> executed u" by (simp_all add: progress_def)
  then obtain k where k: "executed u = executed t + k" using le_Suc_ex by blast
  have "[executed s + 1..<executed t + 1] @ [executed t + 1..<executed u + 1] = [executed s + 1..<executed u + 1]"
    using upt_add_eq_append [OF le(1), of k] by (simp add: k del: upt_Suc)
  with st tu show ?thesis by (simp add: progress_def del: upt_Suc)
qed

lemma execute_transaction_last:
  "execute_transaction R E cluster fees p i = Inr tx \<Longrightarrow>
   \<exists>pre. tx = pre @ [sq_executeInstruction (lib_Q R) p (sq_getIxPDA (lib_Q R) p i)]"
  by (auto simp: execute_transaction_def bindR_Inr_iff Let_def)

section \<open>A concrete chain\<close>

definition doc_send ::
  "256 word \<Rightarrow> nat \<times> nat list \<Rightarrow> 256 word instruction list \<Rightarrow> 256 word instruction list result \<times> (nat \<times> nat list)" where
  "doc_send p s tx =
     (if tx \<noteq> [] \<and> last tx = sq_executeInstruction doc_squads p (sq_getIxPDA doc_squads p (fst s + 1))
      then (Inr [last tx], (fst s + 1, snd s @ [fst s + 1])) else (Inl (JsError ''failed''), s))"

interpretation doc_execution: squads_execution doc_squads p "doc_send p" fst snd for p
  by unfold_locales (auto simp: doc_send_def)

definition doc_libs :: "(256 word, bytes) executor_libs" where
  "doc_libs = \<lparr> lib_P = doc_keys, lib_S = doc_solana, lib_Q = doc_squads, lib_wh = sample_wormhole, lib_L = doc_lib,
     lib_W = doc_web3, lib_A = doc_parser \<rparr>"

definition doc_env :: "(256 word, bytes) executor_env" where
  "doc_env = \<lparr> ex_wallet = 5, ex_wormholeFee = 100, ex_rent = (\<lambda>n. 2 * n),
     ex_getInstruction = (\<lambda>k. Inr (sample_post_message sample_payload)), ex_getAccountInfo = (\<lambda>k. None),
     ex_symbol = (\<lambda>a. []), ex_productSymbol = (\<lambda>b. []) \<rparr>"

section \<open>Properties\<close>

text \<open>C9. Executing a proposal, however often the executor is started and whichever requests fail: the instructions
  run in order, each at most once, starting behind the last one that was executed; and a run that returns has
  executed all of them.\<close>

theorem executeProposal_exactly_once:
  assumes "squads_execution (lib_Q R) (pa_publicKey proposal) send executed history"
    and "executed s \<le> pa_instructionIndex proposal"
    and "t = fold (\<lambda>E s. snd (executeProposal R E cluster fees send (proposal\<lparr> pa_executedIndex := executed s \<rparr>) s)) Es s"
    and "executeProposal R E cluster fees send (proposal\<lparr> pa_executedIndex := executed t \<rparr>) t = (r, u)"
  shows "progress executed history (pa_instructionIndex proposal) s u \<and>
    (\<forall>sigs. r = Inr sigs \<longrightarrow> executed u = pa_instructionIndex proposal)"
proof -
  let ?n = "pa_instructionIndex proposal"
  have run: "progress executed history ?n s s' \<and> (\<forall>sigs. r = Inr sigs \<longrightarrow> executed s' = ?n)"
    if "executed s \<le> ?n" "executeProposal R E cluster fees send (proposal\<lparr> pa_executedIndex := executed s \<rparr>) s = (r, s')" for E s r s'
  proof (rule squads_execution.execute_loop_progress [OF assms(1) _ that(1)])
    show "execute_loop (execute_transaction R E cluster fees (pa_publicKey proposal)) send [executed s + 1..<?n + 1] s = (r, s')"
      using that(2) by (simp add: executeProposal_def del: upt_Suc)
  qed (rule execute_transaction_last)
  have "progress executed history ?n s t"
    unfolding assms(3) using assms(2)
  proof (induction Es arbitrary: s)
    case (Cons E Es)
    obtain r s' where e: "executeProposal R E cluster fees send (proposal\<lparr> pa_executedIndex := executed s \<rparr>) s = (r, s')"
      using prod.exhaust_sel by blast
    from run [OF Cons.prems e] have "progress executed history ?n s s'" by blast
    moreover from this have "executed s' \<le> ?n" by (simp add: progress_def)
    ultimately show ?case using Cons.IH [of s'] e progress_trans by fastforce
  qed (simp add: progress_def)
  note st = this
  then have "executed t \<le> ?n" by (simp add: progress_def)
  note last = run [OF this assms(4)]
  show ?thesis using progress_trans [OF st conjunct1 [OF last]] conjunct2 [OF last] by (rule conjI)
qed

theorem executeProposal_exactly_once_witness:
  "\<exists>r u. executeProposal doc_libs doc_env ''mainnet-beta'' no_fees (doc_send 6)
      \<lparr> pa_publicKey = 6, pa_executedIndex = 1, pa_instructionIndex = 3 \<rparr> (1, [1]) = (r, u) \<and> progress fst snd 3 (1, [1]) u"
proof -
  let ?p = "\<lparr> pa_publicKey = 6 :: 256 word, pa_executedIndex = 1, pa_instructionIndex = 3 \<rparr>"
  obtain r u where e: "executeProposal doc_libs doc_env ''mainnet-beta'' no_fees (doc_send 6) ?p (1, [1]) = (r, u)"
    using prod.exhaust_sel by blast
  have "squads_execution (lib_Q doc_libs) (pa_publicKey ?p) (doc_send 6) fst snd"
    using doc_execution.squads_execution_axioms [of 6] by (simp add: doc_libs_def)
  from executeProposal_exactly_once [OF this, where s = "(1, [1])" and t = "(1, [1])" and Es = "[]" and E = doc_env and r = r and u = u
      and cluster = "''mainnet-beta''" and fees = no_fees] e
  show ?thesis by auto
qed

end
