(* ===== verification/Relayer.thy ===== *)
theory Relayer
  imports Executor "HOL-Library.Sublist"
begin

text \<open>
  The services that keep approved governance moving: \<open>crank_pythnet_relayer/src/index.ts\<close> fetches the VAAs of the governance
  emitter one sequence number after the other, posts those for Pythnet and executes them with the remote executor;
  \<open>crank_executor/src/index.ts\<close> executes the proposals that are ready.

  The requests to the guardians and the node are arguments. What executing a posted VAA does to the claim record of the
  emitter is the contract \<open>remote_executor\<close>, the rule of \<open>governance/remote_executor/programs/remote-executor/src/lib.rs\<close>:
  only a sequence number above the claimed one is accepted, and it becomes the claimed one.
\<close>

section \<open>The relayer\<close>

record guardian_response =
  gr_vaaBytes :: "string option"
  gr_code :: "int option"

text \<open>The arguments of the transaction that executes a posted VAA.\<close>

record 'pk relay_transaction =
  rt_claimRecord :: 'pk
  rt_postedVaa :: 'pk
  rt_remainingAccounts :: "'pk account_meta list"
  rt_preInstructions :: "'pk instruction list"
  rt_computeUnits :: nat

record ('s, 'pk, 'd) relayer_env =
  rl_wallet :: 'pk
  rl_EMITTER :: 'pk
  rl_CLUSTER :: string
  rl_OFFSET :: int
  rl_SKIP_FAILED :: bool
  rl_fetch :: "int \<Rightarrow> guardian_response result"
  rl_parseVaa :: "bytes \<Rightarrow> (bytes \<times> bytes) result"
  rl_derivePostedVaaKey :: "'pk \<Rightarrow> bytes \<Rightarrow> 'pk"
  rl_claimRecord :: "'s \<Rightarrow> 'pk \<Rightarrow> int option result"
  rl_postVaa :: "'s \<Rightarrow> 'pk \<Rightarrow> bytes \<Rightarrow> unit result \<times> 's"
  rl_rpc :: "'s \<Rightarrow> 'pk relay_transaction \<Rightarrow> unit result \<times> 's"
  rl_rent :: "nat \<Rightarrow> nat"
  rl_getAccountInfo :: "'s \<Rightarrow> 'pk \<Rightarrow> bytes option"
  rl_symbol :: "('pk, 'd) args \<Rightarrow> string"
  rl_productSymbol :: "bytes \<Rightarrow> string option result"

text \<open>The accounts and the preparing instructions of one VAA. The symbols of the products that the relayer has created
  accounts for are remembered across VAAs, for prices that are added before their product exists.\<close>

record 'pk relay_plan =
  rp_metas :: "'pk account_meta list"
  rp_preInstructions :: "'pk instruction list"
  rp_symbols :: "string \<rightharpoonup> string"

definition productAccount :: "('pk, 'd) MultisigInstruction \<Rightarrow> 'pk result" where
  "productAccount m =
     (case map_of (aa_named (mi_accounts m)) ''productAccount'' of
        Some (Some a) \<Rightarrow> Inr (am_pubkey a)
      | _ \<Rightarrow> Inl TypeError)"

definition price_symbol ::
  "'pk pubkey_lib \<Rightarrow> ('s, 'pk, 'd) relayer_env \<Rightarrow> 's \<Rightarrow> (string \<rightharpoonup> string) \<Rightarrow> 'pk \<Rightarrow> string result" where
  "price_symbol P E s symbols product =
     bindR (case rl_getAccountInfo E s product of
              Some data \<Rightarrow> rl_productSymbol E data
            | None \<Rightarrow> Inr (symbols (pk_toBase58 P product)))
       (\<lambda>productSymbol.
         case productSymbol of
           None \<Rightarrow> Inl (JsError ''Product account not found'')
         | Some symbol \<Rightarrow> if symbol = [] then Inl (JsError ''Product account not found'') else Inr symbol)"

definition relay_preparation ::
  "('pk, 'd) executor_libs \<Rightarrow> ('s, 'pk, 'd) relayer_env \<Rightarrow> 's \<Rightarrow> ('pk, 'd) MultisigInstruction \<Rightarrow> (string \<rightharpoonup> string) \<Rightarrow>
   ('pk instruction list \<times> (string \<rightharpoonup> string)) result" where
  "relay_preparation R E s m symbols =
     (if mi_program m = PythOracle \<and> mi_name m = ''addProduct''
      then bindR (getCreateAccountWithSeedInstruction (lib_P R) (lib_A R) (rl_rent E) (rl_CLUSTER E) (rl_wallet E)
                    (rl_symbol E (mi_args m)) Product_account) (\<lambda>ix.
           bindR (productAccount m) (\<lambda>product.
             Inr ([ix], symbols(pk_toBase58 (lib_P R) product \<mapsto> rl_symbol E (mi_args m)))))
      else if mi_program m = PythOracle \<and> mi_name m = ''addPrice''
      then bindR (productAccount m) (\<lambda>product.
           bindR (price_symbol (lib_P R) E s symbols product) (\<lambda>symbol.
           bindR (getCreateAccountWithSeedInstruction (lib_P R) (lib_A R) (rl_rent E) (rl_CLUSTER E) (rl_wallet E) symbol Price_account)
             (\<lambda>ix. Inr ([ix], symbols))))
      else (case (mi_program m, mi_args m) of
              (PythPriceStore, Price_store (InitializePublisher authority publisher buffer)) \<Rightarrow>
                Inr ([createDeterministicPublisherBufferAccountInstruction (lib_P R) (rl_rent E PRICE_STORE_BUFFER_SPACE)
                        (rl_wallet E) publisher], symbols)
            | _ \<Rightarrow> Inr ([], symbols)))"

fun plan_loop ::
  "('pk, 'd) executor_libs \<Rightarrow> ('s, 'pk, 'd) relayer_env \<Rightarrow> 's \<Rightarrow> 'pk instruction list \<Rightarrow> 'pk relay_plan \<Rightarrow> 'pk relay_plan result" where
  "plan_loop R E s [] plan = Inr plan"
| "plan_loop R E s (ix # ixs) plan =
     (let executorKey = mapKey (lib_P R) (rl_EMITTER E);
          metas = rp_metas plan @ [meta (ix_programId ix) False False] @ filter (\<lambda>acc. am_pubkey acc \<noteq> executorKey) (ix_keys ix) in
      bindR (parseInstruction (lib_P R) (lib_wh R) (lib_L R) (lib_W R) (lib_A R) (fromCluster (lib_P R) (lib_A R) (rl_CLUSTER E)) ix) (\<lambda>m.
      bindR (relay_preparation R E s m (rp_symbols plan)) (\<lambda>(pre, symbols).
        plan_loop R E s ixs \<lparr> rp_metas = metas, rp_preInstructions = rp_preInstructions plan @ pre, rp_symbols = symbols \<rparr>)))"

definition claimRecordAddress :: "'pk pubkey_lib \<Rightarrow> 'pk \<Rightarrow> 'pk" where
  "claimRecordAddress P emitter =
     fst (pk_findProgramAddress P [string_bytes ''CLAIM_RECORD'', pk_toBuffer P emitter] (REMOTE_EXECUTOR_ADDRESS P))"

text \<open>One VAA: the symbols for the next one or the error, and the state of the chain.\<close>

definition relay_vaa ::
  "('pk, 'd) executor_libs \<Rightarrow> ('s, 'pk, 'd) relayer_env \<Rightarrow> string \<Rightarrow> (string \<rightharpoonup> string) \<Rightarrow> 's \<Rightarrow> (string \<rightharpoonup> string) result \<times> 's" where
  "relay_vaa R E vaaBytes symbols s =
     (let vaa = from_base64 vaaBytes in
      case bindR (rl_parseVaa E vaa) (\<lambda>(payload, hash).
             bindR (decodeGovernancePayload (lib_wh R) (lib_L R) (lib_W R) payload) (\<lambda>governancePayload. Inr (hash, governancePayload))) of
        Inl e \<Rightarrow> (Inl e, s)
      | Inr (hash, Some (ExecutePostedVaa targetChainId instructions)) \<Rightarrow>
          if targetChainId \<noteq> ''pythnet'' then (Inr symbols, s)
          else (case WORMHOLE_ADDRESS (lib_P R) (rl_CLUSTER E) of
             None \<Rightarrow> (Inl TypeError, s)
           | Some wormhole \<Rightarrow>
               (case rl_postVaa E s wormhole vaa of
                  (Inl e, s1) \<Rightarrow> (Inl e, s1)
                | (Inr _, s1) \<Rightarrow>
                    (case plan_loop R E s1 instructions
                            \<lparr> rp_metas = [meta (mapKey (lib_P R) (rl_EMITTER E)) False True], rp_preInstructions = [], rp_symbols = symbols \<rparr> of
                       Inl e \<Rightarrow> (Inl e, s1)
                     | Inr plan \<Rightarrow>
                         (case rl_rpc E s1 \<lparr> rt_claimRecord = claimRecordAddress (lib_P R) (rl_EMITTER E),
                                 rt_postedVaa = rl_derivePostedVaaKey E wormhole hash, rt_remainingAccounts = rp_metas plan,
                                 rt_preInstructions = rp_preInstructions plan, rt_computeUnits = 1000000 \<rparr> of
                            (Inl e, s2) \<Rightarrow> (if rl_SKIP_FAILED E then Inr (rp_symbols plan) else Inl e, s2)
                          | (Inr _, s2) \<Rightarrow> (Inr (rp_symbols plan), s2)))))
      | Inr _ \<Rightarrow> (Inr symbols, s))"

text \<open>The loop over the sequence numbers. An empty \<open>vaaBytes\<close> counts as none; code 5 says that there is no such VAA.\<close>

partial_function (option) relay_loop ::
  "('pk, 'd) executor_libs \<Rightarrow> ('s, 'pk, 'd) relayer_env \<Rightarrow> int \<Rightarrow> (string \<rightharpoonup> string) \<Rightarrow> 's \<Rightarrow> (unit result \<times> 's) option" where
  "relay_loop R E lastSequenceNumber symbols s =
     (case rl_fetch E (lastSequenceNumber + 1) of
        Inl e \<Rightarrow> Some (Inl e, s)
      | Inr response \<Rightarrow>
          if gr_vaaBytes response \<noteq> None \<and> gr_vaaBytes response \<noteq> Some []
          then (case relay_vaa R E (the (gr_vaaBytes response)) symbols s of
                  (Inl e, s') \<Rightarrow> Some (Inl e, s')
                | (Inr symbols', s') \<Rightarrow> relay_loop R E (lastSequenceNumber + 1) symbols' s')
          else if gr_code response = Some 5 then Some (Inr (), s)
          else Some (Inl (JsError ''Could not connect to wormhole api''), s))"

text \<open>\<open>BN.toNumber\<close> throws from 2^53 on.\<close>

definition toNumber :: "int \<Rightarrow> int result" where
  "toNumber n = (if \<bar>n\<bar> < 2 ^ 53 then Inr n else Inl (JsError ''Number can only safely store up to 53 bits''))"

definition relayer_run :: "('pk, 'd) executor_libs \<Rightarrow> ('s, 'pk, 'd) relayer_env \<Rightarrow> 's \<Rightarrow> (unit result \<times> 's) option" where
  "relayer_run R E s =
     (case bindR (rl_claimRecord E s (claimRecordAddress (lib_P R) (rl_EMITTER E))) (\<lambda>claimRecord.
             case claimRecord of None \<Rightarrow> Inr (- 1) | Some sequence \<Rightarrow> toNumber sequence) of
        Inl e \<Rightarrow> Some (Inl e, s)
      | Inr lastSequenceNumber \<Rightarrow> relay_loop R E (max lastSequenceNumber (rl_OFFSET E)) Map.empty s)"


text \<open>Runs of the relayer one after the other, each with what the guardians and the node answered it.\<close>

inductive relay_runs ::
  "('pk, 'd) executor_libs \<Rightarrow> ('s, 'pk, 'd) relayer_env list \<Rightarrow> 's \<Rightarrow> 's \<Rightarrow> bool" for R where
  none: "relay_runs R [] s s"
| run: "relayer_run R E s = Some (r, t) \<Longrightarrow> relay_runs R Es t u \<Longrightarrow> relay_runs R (E # Es) s u"

section \<open>The crank of ready proposals\<close>

text \<open>\<open>crank_executor\<close>: the ready proposals in the order of their indexes. One that somebody has cancelled is skipped, and the
  first error ends the run. \<open>executedIndex\<close> and \<open>cancelled\<close> are the other fields of the accounts.\<close>

fun crank_loop ::
  "('pk, 'd) executor_libs \<Rightarrow> ('pk, 'd) executor_env \<Rightarrow> string \<Rightarrow> PriorityFeeConfig \<Rightarrow>
   ('s \<Rightarrow> 'pk instruction list \<Rightarrow> 'sig list result \<times> 's) \<Rightarrow> ('pk \<Rightarrow> nat) \<Rightarrow> ('pk \<Rightarrow> 'pk list) \<Rightarrow>
   'pk TransactionAccount list \<Rightarrow> 's \<Rightarrow> unit result \<times> 's" where
  "crank_loop R E cluster fees send executedIndex cancelled [] s = (Inr (), s)"
| "crank_loop R E cluster fees send executedIndex cancelled (proposal # proposals) s =
     (if cancelled (ta_publicKey proposal) = []
      then (case executeProposal R E cluster fees send
                \<lparr> pa_publicKey = ta_publicKey proposal, pa_executedIndex = executedIndex (ta_publicKey proposal),
                  pa_instructionIndex = ta_instructionIndex proposal \<rparr> s of
              (Inl e, s') \<Rightarrow> (Inl e, s')
            | (Inr signatures, s') \<Rightarrow> crank_loop R E cluster fees send executedIndex cancelled proposals s')
      else crank_loop R E cluster fees send executedIndex cancelled proposals s)"

definition crank_executor_run where
  "crank_executor_run R E cluster fees send executedIndex cancelled fetch VAULT ms s =
     crank_loop R E cluster fees send executedIndex cancelled (getProposals (lib_Q R) fetch VAULT ms 1 ''executeReady'') s"

text \<open>When a run returns, every ready proposal that nobody has cancelled has been executed to its end.\<close>

lemma crank_loop_executes:
  assumes "\<And>p. squads_execution (lib_Q R) p send (\<lambda>s. executed s p) (\<lambda>s. history s p)"
    and "\<And>s tx r s' p q. send s tx = (r, s') \<Longrightarrow> tx \<noteq> [] \<Longrightarrow> (\<exists>k. last tx = sq_executeInstruction (lib_Q R) p k) \<Longrightarrow> q \<noteq> p \<Longrightarrow>
      executed s' q = (executed s q :: nat)"
  shows "crank_loop R E cluster fees send executedIndex cancelled ps s = (Inr (), s') \<Longrightarrow> distinct (map ta_publicKey ps) \<Longrightarrow>
    (\<And>p. p \<in> set ps \<Longrightarrow> executedIndex (ta_publicKey p) = executed s (ta_publicKey p) \<and>
      executed s (ta_publicKey p) \<le> ta_instructionIndex p) \<Longrightarrow>
    (\<forall>p \<in> set ps. executed s' (ta_publicKey p) =
      (if cancelled (ta_publicKey p) = [] then ta_instructionIndex p else executed s (ta_publicKey p))) \<and>
    (\<forall>q. q \<notin> ta_publicKey ` set ps \<longrightarrow> executed s' q = executed s q)"
proof (induction ps arbitrary: s)
  case (Cons p ps)
  let ?k = "ta_publicKey p"
  let ?run = "executeProposal R E cluster fees send
    \<lparr> pa_publicKey = ?k, pa_executedIndex = executed s ?k, pa_instructionIndex = ta_instructionIndex p \<rparr> s"
  have index: "executedIndex ?k = executed s ?k" "executed s ?k \<le> ta_instructionIndex p" using Cons.prems(3) by simp_all
  show ?case
  proof (cases "cancelled ?k = []")
    case True
    then obtain sigs t where run: "?run = (Inr sigs, t)" and rest: "crank_loop R E cluster fees send executedIndex cancelled ps t = (Inr (), s')"
      using Cons.prems(1) index(1) by (auto split: prod.splits sum.splits)
    have others: "executed t q = executed s q" if "q \<noteq> ?k" for q
    proof -
      have "execute_loop (execute_transaction R E cluster fees ?k) send ixs s = (r, t) \<Longrightarrow> executed t q = executed s q" for ixs r s t
      proof (induction ixs arbitrary: s r)
        case (Cons i ixs)
        then show ?case using assms(2) that execute_transaction_last [of R E cluster fees ?k i]
          by (fastforce split: sum.splits prod.splits)
      qed simp
      with run show ?thesis by (simp add: executeProposal_def del: upt_Suc)
    qed
    have "progress (\<lambda>s. executed s ?k) (\<lambda>s. history s ?k) (ta_instructionIndex p) s t \<and>
      (\<forall>sigs'. (Inr sigs :: _ result) = Inr sigs' \<longrightarrow> executed t ?k = ta_instructionIndex p)"
    proof (rule squads_execution.execute_loop_progress [OF assms(1) _ index(2)])
      show "execute_loop (execute_transaction R E cluster fees ?k) send [executed s ?k + 1..<ta_instructionIndex p + 1] s = (Inr sigs, t)"
        using run by (simp add: executeProposal_def del: upt_Suc)
    qed (rule execute_transaction_last)
    then have complete: "executed t ?k = ta_instructionIndex p" by simp
    have "ta_publicKey q \<noteq> ?k" if "q \<in> set ps" for q using that Cons.prems(2) by (metis distinct.simps(2) image_eqI list.set_map list.simps(9))
    with Cons.IH [OF rest] Cons.prems(2,3) others complete True show ?thesis by auto
  next
    case False
    with Cons.IH [of s] Cons.prems show ?thesis by auto
  qed
qed simp

section \<open>The contract of the remote executor\<close>

text \<open>Whether a VAA executes instructions on Pythnet, with the parser of VAAs as an argument.\<close>

definition for_pythnet :: "('pk, 'd) executor_libs \<Rightarrow> (bytes \<Rightarrow> (bytes \<times> bytes) result) \<Rightarrow> string \<Rightarrow> bool" where
  "for_pythnet R parse vaaBytes =
     (case bindR (parse (from_base64 vaaBytes)) (\<lambda>(payload, hash). decodeGovernancePayload (lib_wh R) (lib_L R) (lib_W R) payload) of
        Inr (Some (ExecutePostedVaa targetChainId _)) \<Rightarrow> targetChainId = ''pythnet''
      | _ \<Rightarrow> False)"

text \<open>The numbers behind \<open>n\<close> and up to \<open>k\<close> of the VAAs for Pythnet.\<close>

abbreviation vaas_to_execute ::
  "('pk, 'd) executor_libs \<Rightarrow> (bytes \<Rightarrow> (bytes \<times> bytes) result) \<Rightarrow> (int \<Rightarrow> string) \<Rightarrow> int \<Rightarrow> int \<Rightarrow> int list" where
  "vaas_to_execute R parse vaas n k \<equiv> filter (\<lambda>m. for_pythnet R parse (vaas m)) [n + 1..k]"

text \<open>\<open>claim\<close> is the claim record of the emitter, \<open>history\<close> the sequence numbers of the VAAs that were executed. A
  transaction executes the posted VAA of a number above the claimed one (a new record claims 0); when sending fails, the
  transaction may have been included all the same. The guardians sign one VAA for each sequence number.\<close>

definition executes :: "('s \<Rightarrow> int option) \<Rightarrow> ('s \<Rightarrow> int list) \<Rightarrow> int \<Rightarrow> 's \<Rightarrow> 's \<Rightarrow> bool" where
  "executes claim history q s s' \<longleftrightarrow>
     (case claim s of None \<Rightarrow> 0 | Some c \<Rightarrow> c) < q \<and> claim s' = Some q \<and> history s' = history s @ [q]"

locale remote_executor =
  fixes R :: "('pk, 'd) executor_libs" and parse :: "bytes \<Rightarrow> (bytes \<times> bytes) result" and vaas :: "int \<Rightarrow> string"
    and claim :: "'s \<Rightarrow> int option" and history :: "'s \<Rightarrow> int list" and seq_of :: "'pk \<Rightarrow> int"
    and E :: "('s, 'pk, 'd) relayer_env"
  assumes claim_fetched: "rl_claimRecord E s a = Inr c \<Longrightarrow> c = claim s"
    and post_keeps: "rl_postVaa E s w b = (r, s') \<Longrightarrow> claim s' = claim s \<and> history s' = history s"
    and rpc_ok: "rl_rpc E s tx = (Inr (), s') \<Longrightarrow> executes claim history (seq_of (rt_postedVaa tx)) s s'"
    and rpc_failed: "rl_rpc E s tx = (Inl e, s') \<Longrightarrow>
      claim s' = claim s \<and> history s' = history s \<or> executes claim history (seq_of (rt_postedVaa tx)) s s'"
    and parser: "rl_parseVaa E = parse"
    and guardians: "rl_fetch E n = Inr answer \<Longrightarrow> gr_vaaBytes answer = Some v \<Longrightarrow> v \<noteq> [] \<Longrightarrow> v = vaas n"
    and numbered: "parse (from_base64 (vaas n)) = Inr (p, h) \<Longrightarrow> seq_of (rl_derivePostedVaaKey E w h) = n"
begin

lemma relay_vaa_executes:
  assumes "relay_vaa R E (vaas n) symbols s = (r, s')"
  shows "claim s' = claim s \<and> history s' = history s \<and> (for_pythnet R parse (vaas n) \<longrightarrow> rl_SKIP_FAILED E \<or> (\<exists>e. r = Inl e)) \<or>
    for_pythnet R parse (vaas n) \<and> claim s' = Some n \<and> history s' = history s @ [n]"
proof (cases "for_pythnet R parse (vaas n)")
  case False
  have "s' = s"
  proof (cases "parse (from_base64 (vaas n))")
    case (Inr ph)
    obtain p h where "ph = (p, h)" by fastforce
    with Inr False assms show ?thesis
      by (cases "decodeGovernancePayload (lib_wh R) (lib_L R) (lib_W R) p")
        (auto simp: relay_vaa_def for_pythnet_def parser split: option.splits PythGovernanceAction.splits)
  qed (use assms in \<open>simp add: relay_vaa_def parser\<close>)
  then show ?thesis using False by simp
next
  case True
  then obtain p h ixs where p: "parse (from_base64 (vaas n)) = Inr (p, h)"
    and d: "decodeGovernancePayload (lib_wh R) (lib_L R) (lib_W R) p = Inr (Some (ExecutePostedVaa ''pythnet'' ixs))"
    unfolding for_pythnet_def
    by (cases "parse (from_base64 (vaas n))"; cases "bindR (parse (from_base64 (vaas n))) (\<lambda>(payload, hash). decodeGovernancePayload (lib_wh R) (lib_L R) (lib_W R) payload)")
      (auto split: option.splits PythGovernanceAction.splits)
  note q = numbered [OF p]
  show ?thesis
  proof (cases "WORMHOLE_ADDRESS (lib_P R) (rl_CLUSTER E)")
    case None
    with assms p d show ?thesis by (auto simp: relay_vaa_def parser)
  next
    case (Some w)
    obtain r1 s1 where post: "rl_postVaa E s w (from_base64 (vaas n)) = (r1, s1)" by fastforce
    note kept = post_keeps [OF post]
    let ?plan = "plan_loop R E s1 ixs
      \<lparr> rp_metas = [meta (mapKey (lib_P R) (rl_EMITTER E)) False True], rp_preInstructions = [], rp_symbols = symbols \<rparr>"
    consider (posted) v plan where "r1 = Inr v" "?plan = Inr plan" | (stopped) "s' = s1" "\<exists>e. r = Inl e"
      using assms p d Some post by (cases r1; cases ?plan) (auto simp: relay_vaa_def parser)
    then show ?thesis
    proof cases
      case posted
      let ?tx = "\<lparr> rt_claimRecord = claimRecordAddress (lib_P R) (rl_EMITTER E), rt_postedVaa = rl_derivePostedVaaKey E w h,
        rt_remainingAccounts = rp_metas plan, rt_preInstructions = rp_preInstructions plan, rt_computeUnits = 1000000 \<rparr>"
      obtain r2 s2 where rpc: "rl_rpc E s1 ?tx = (r2, s2)" by fastforce
      have s': "s' = s2" "\<And>e. r2 = Inl e \<Longrightarrow> \<not> rl_SKIP_FAILED E \<Longrightarrow> \<exists>e. r = Inl e"
        using assms p d Some post posted rpc by (auto simp: relay_vaa_def parser split: sum.splits if_splits)
      show ?thesis
      proof (cases r2)
        case (Inr v)
        then have "rl_rpc E s1 ?tx = (Inr (), s2)" using rpc by simp
        from rpc_ok [OF this] show ?thesis using s' kept True q by (simp add: executes_def)
      next
        case (Inl e)
        then show ?thesis using rpc_failed [OF rpc [unfolded Inl]] s' kept True q by (auto simp: executes_def)
      qed
    next
      case stopped
      then show ?thesis using kept by simp
    qed
  qed
qed

abbreviation wanted :: "int \<Rightarrow> int \<Rightarrow> int list" where
  "wanted \<equiv> vaas_to_execute R parse vaas"

lemma relay_loop_executes:
  "relay_loop R E n symbols s = Some (r, s') \<Longrightarrow>
   \<exists>k ex. n \<le> k \<and> history s' = history s @ ex \<and> subseq ex (wanted n k) \<and> (rl_SKIP_FAILED E \<or> ex = wanted n k) \<and>
     claim s' = (if ex = [] then claim s else Some (last ex)) \<and>
     (r = Inr () \<longrightarrow> (\<exists>response. rl_fetch E (k + 1) = Inr response \<and> gr_code response = Some 5))"
proof -
  assume "relay_loop R E n symbols s = Some (r, s')"
  moreover have "relay_loop R' E' n symbols s = Some rs \<Longrightarrow> R' = R \<Longrightarrow> E' = E \<Longrightarrow>
   \<exists>k ex. n \<le> k \<and> history (snd rs) = history s @ ex \<and> subseq ex (wanted n k) \<and> (rl_SKIP_FAILED E \<or> ex = wanted n k) \<and>
     claim (snd rs) = (if ex = [] then claim s else Some (last ex)) \<and>
     (fst rs = Inr () \<longrightarrow> (\<exists>response. rl_fetch E (k + 1) = Inr response \<and> gr_code response = Some 5))" for R' E' rs
  proof (induction rule: relay_loop.raw_induct [rotated, consumes 1, case_names step])
    case (step loop R' E' n symbols s rs)
    have stop: ?case if "s' = s" "snd rs = s'" "fst rs = Inr () \<longrightarrow> (\<exists>response. rl_fetch E (n + 1) = Inr response \<and> gr_code response = Some 5)" for s'
      using that by (intro exI [of _ n] exI [of _ "[]"]) (auto intro: list_emb.intros)
    show ?case
    proof (cases "rl_fetch E (n + 1)")
      case (Inl e)
      then have "rs = (Inl e, s)" using step(2) by (simp add: step(3,4))
      then show ?thesis by (intro stop [OF refl]) simp_all
    next
      case (Inr response)
      show ?thesis
      proof (cases "gr_vaaBytes response \<noteq> None \<and> gr_vaaBytes response \<noteq> Some []")
        case False
        then have "rs = (if gr_code response = Some 5 then (Inr (), s) else (Inl (JsError ''Could not connect to wormhole api''), s))"
          using step(2) Inr by (simp add: step(3,4) split: if_splits)
        then show ?thesis using Inr by (intro stop [OF refl]) (simp_all split: if_splits)
      next
        case True
        then obtain v where v': "gr_vaaBytes response = Some v" "v \<noteq> []" by blast
        note v = v'(1) guardians [OF Inr v']
        obtain q t where relay: "relay_vaa R E (vaas (n + 1)) symbols s = (q, t)" by fastforce
        note one = relay_vaa_executes [OF relay]
        show ?thesis
        proof (cases q)
          case (Inl e)
          then have rs: "rs = (Inl e, t)" using step(2) Inr v True relay by (simp add: step(3,4))
          show ?thesis
          proof (cases "history t = history s")
            case True
            with one rs show ?thesis by (intro exI [of _ n] exI [of _ "[]"]) (auto intro: list_emb.intros)
          next
            case False
            with one have "for_pythnet R parse (vaas (n + 1))" "claim t = Some (n + 1)" "history t = history s @ [n + 1]" by auto
            then show ?thesis using rs by (intro exI [of _ "n + 1"] exI [of _ "[n + 1]"]) (auto intro: list_emb.intros)
          qed
        next
          case q: (Inr symbols')
          then have "loop R' E' (n + 1) symbols' t = Some rs" using step(2) Inr v True relay by (simp add: step(3,4))
          from step(1) [OF this step(3,4)] obtain k ex where k: "n + 1 \<le> k" "history (snd rs) = history t @ ex"
            "subseq ex (wanted (n + 1) k)" "rl_SKIP_FAILED E \<or> ex = wanted (n + 1) k"
            "claim (snd rs) = (if ex = [] then claim t else Some (last ex))"
            "fst rs = Inr () \<longrightarrow> (\<exists>response. rl_fetch E (k + 1) = Inr response \<and> gr_code response = Some 5)" by blast
          have upto: "[n + 1..k] = (n + 1) # [n + 1 + 1..k]" using k(1) by (simp add: upto_rec1)
          show ?thesis
          proof (cases "history t = history s")
            case True
            with one q have "claim t = claim s" "for_pythnet R parse (vaas (n + 1)) \<longrightarrow> rl_SKIP_FAILED E" by auto
            then show ?thesis using k True by (intro exI [of _ k] exI [of _ ex]) (auto simp: upto intro: list_emb.intros)
          next
            case False
            with one have "for_pythnet R parse (vaas (n + 1))" "claim t = Some (n + 1)" "history t = history s @ [n + 1]" by auto
            then show ?thesis using k by (intro exI [of _ k] exI [of _ "(n + 1) # ex"]) (auto simp: upto intro: list_emb.intros)
          qed
        qed
      qed
    qed
  qed
  from calculation this [of R E "(r, s')"] show ?thesis by simp
qed

text \<open>A run from a state in which the VAAs from \<open>b\<close> up to \<open>k\<close> have been executed.\<close>

definition executed_upto :: "int \<Rightarrow> 's \<Rightarrow> int \<Rightarrow> 's \<Rightarrow> bool" where
  "executed_upto b s k t \<longleftrightarrow>
     history t = history s @ wanted (b - 1) k \<and>
     claim t = (if wanted (b - 1) k = [] then claim s else Some (last (wanted (b - 1) k)))"

lemma sorted_le_last: "sorted (xs :: int list) \<Longrightarrow> x \<in> set xs \<Longrightarrow> x \<le> last xs"
  by (induction xs rule: rev_induct) (auto simp: sorted_append)

lemma wanted_append:
  assumes "wanted n k \<noteq> []"
  shows "wanted n k @ wanted (last (wanted n k)) j = wanted n (max (last (wanted n k)) j)" "n < last (wanted n k)"
proof -
  let ?P = "\<lambda>m. for_pythnet R parse (vaas m)"
  define c where "c = last (wanted n k)"
  have c: "c \<in> set (wanted n k)" unfolding c_def using assms by (rule last_in_set)
  then have n: "n < c" by auto
  then show "n < last (wanted n k)" by (simp only: c_def)
  have top: "m \<le> c" if "m \<in> set (wanted n k)" for m
    unfolding c_def by (rule sorted_le_last [OF _ that]) (simp add: sorted_wrt_filter)
  have "[n + 1..k] = [n + 1..c] @ [c + 1..k]" using c by (intro upto_split2) auto
  moreover have "filter ?P [c + 1..k] = []"
  proof (rule filter_False, intro ballI notI)
    fix m
    assume m: "m \<in> set [c + 1..k]" "?P m"
    then have "m \<in> set (wanted n k)" using n by simp
    from top [OF this] m(1) show False by simp
  qed
  ultimately have upto_c: "wanted n k = wanted n c" by simp
  have "[n + 1..max c j] = [n + 1..c] @ [c + 1..max c j]" using n by (intro upto_split2) auto
  moreover have "[c + 1..max c j] = [c + 1..j]" by (cases "c \<le> j") (simp_all add: max_def)
  ultimately have "wanted n k @ wanted c j = wanted n (max c j)" using upto_c by simp
  then show "wanted n k @ wanted (last (wanted n k)) j = wanted n (max (last (wanted n k)) j)" by (simp only: c_def)
qed

lemma run_executes:
  assumes "relayer_run R E t = Some (r, u)" "executed_upto b s k t" "b - 1 \<le> k" "\<not> rl_SKIP_FAILED E"
    and "b = max (case claim s of None \<Rightarrow> - 1 | Some c \<Rightarrow> c) (rl_OFFSET E) + 1"
  shows "\<exists>k' \<ge> b - 1. executed_upto b s k' u \<and>
    (r = Inr () \<longrightarrow> (\<exists>response. rl_fetch E (k' + 1) = Inr response \<and> gr_code response = Some 5))"
proof (cases "\<exists>e. r = Inl e \<and> u = t")
  case True
  then show ?thesis using assms(2,3) by blast
next
  case False
  have some_last: "\<exists>n. bindR (rl_claimRecord E t (claimRecordAddress (lib_P R) (rl_EMITTER E)))
      (\<lambda>claimRecord. case claimRecord of None \<Rightarrow> Inr (- 1) | Some c \<Rightarrow> toNumber c) = Inr n"
    using assms(1) False by (auto simp: relayer_run_def split: sum.splits)
  then obtain c n where c: "rl_claimRecord E t (claimRecordAddress (lib_P R) (rl_EMITTER E)) = Inr c"
    "(case c of None \<Rightarrow> Inr (- 1) | Some c \<Rightarrow> toNumber c) = Inr n" by (auto simp: bindR_Inr_iff)
  note claim = claim_fetched [OF c(1)]
  have n: "n = (case claim t of None \<Rightarrow> - 1 | Some c \<Rightarrow> c)"
    using c(2) by (auto simp: claim toNumber_def split: option.splits if_splits)
  have loop: "relay_loop R E (max n (rl_OFFSET E)) Map.empty t = Some (r, u)"
    using assms(1) c by (simp add: relayer_run_def)
  obtain j ex where j: "max n (rl_OFFSET E) \<le> j" "history u = history t @ wanted (max n (rl_OFFSET E)) j"
    "claim u = (if wanted (max n (rl_OFFSET E)) j = [] then claim t else Some (last (wanted (max n (rl_OFFSET E)) j)))"
    "r = Inr () \<longrightarrow> (\<exists>response. rl_fetch E (j + 1) = Inr response \<and> gr_code response = Some 5)"
    using relay_loop_executes [OF loop] assms(4) by blast
  show ?thesis
  proof (cases "wanted (b - 1) k = []")
    case True
    then have "max n (rl_OFFSET E) = b - 1" "claim t = claim s" "history t = history s"
      using assms(2,5) n by (simp_all add: executed_upto_def)
    with j show ?thesis by (intro exI [of _ j]) (simp add: executed_upto_def)
  next
    case False
    let ?c = "last (wanted (b - 1) k)"
    note append = wanted_append [OF False]
    have t: "claim t = Some ?c" "history t = history s @ wanted (b - 1) k" using assms(2) False by (simp_all add: executed_upto_def)
    have start: "max n (rl_OFFSET E) = ?c" using append(2) assms(5) n t(1) by (simp split: option.splits)
    with j(1) have "max ?c j = j" by simp
    with append(1) have all: "wanted (b - 1) k @ wanted ?c j = wanted (b - 1) j" by (metis (no_types))
    have "claim u = (if wanted (b - 1) j = [] then claim s else Some (last (wanted (b - 1) j)))"
      unfolding j(3) start t(1) all [symmetric] using False by simp
    with j t all start append(2) show ?thesis by (intro exI [of _ j]) (auto simp: executed_upto_def)
  qed
qed

end

text \<open>A run ends when the guardians have signed no VAA from some number on.\<close>

lemma relay_loop_ends:
  assumes "\<And>m answer. bound \<le> m \<Longrightarrow> rl_fetch E m = Inr answer \<Longrightarrow> gr_vaaBytes answer = None"
  shows "\<exists>q. relay_loop R E n symbols s = Some q"
proof (induction "nat (bound - n)" arbitrary: n symbols s rule: less_induct)
  case less
  show ?case
  proof (cases "rl_fetch E (n + 1)")
    case (Inl e)
    then show ?thesis by (simp add: relay_loop.simps)
  next
    case (Inr answer)
    show ?thesis
    proof (cases "gr_vaaBytes answer")
      case (Some v)
      then have "n + 1 < bound" using assms [OF _ Inr] by fastforce
      then have "nat (bound - (n + 1)) < nat (bound - n)" by simp
      note next_ends = less [OF this]
      obtain q t where relay: "relay_vaa R E v symbols s = (q, t)" by fastforce
      show ?thesis
      proof (cases q)
        case q: (Inr symbols')
        obtain p where "relay_loop R E (n + 1) symbols' t = Some p" using next_ends by blast
        then show ?thesis using Inr Some relay q by (subst relay_loop.simps) simp
      qed (use Inr Some relay in \<open>subst relay_loop.simps, simp\<close>)
    qed (use Inr in \<open>subst relay_loop.simps, simp\<close>)
  qed
qed

section \<open>A concrete chain\<close>

text \<open>The guardians have signed the VAAs 1 and 2, and 2 is for Pythnet. A VAA is here its number and its payload.\<close>

definition pythnet_payload :: bytes where
  "pythnet_payload = header_bytes ExecutePostedVaa_name 26 @ payload_bytes (w3_toBytes doc_web3) (ExecutePostedVaa ''pythnet'' [])"

definition doc_vaas :: "int \<Rightarrow> string" where
  "doc_vaas n = (if n = 1 then to_base64 [1] else if n = 2 then to_base64 (2 # pythnet_payload) else [])"

definition doc_parse :: "bytes \<Rightarrow> (bytes \<times> bytes) result" where
  "doc_parse b = (case b of [] \<Rightarrow> Inl RangeError | n # payload \<Rightarrow> Inr (payload, [n]))"

definition pythnet_libs :: "(256 word, bytes) executor_libs" where
  "pythnet_libs = doc_libs\<lparr> lib_wh := DAList.update ''pythnet'' 26 DAList.empty \<rparr>"

definition doc_execute :: "int option \<times> int list \<Rightarrow> 256 word relay_transaction \<Rightarrow> unit result \<times> (int option \<times> int list)" where
  "doc_execute s tx =
     (let q = int (unat (rt_postedVaa tx)) in
      if (case fst s of None \<Rightarrow> 0 | Some c \<Rightarrow> c) < q then (Inr (), (Some q, snd s @ [q])) else (Inl (JsError ''sequence''), s))"

definition doc_relayer :: "nat \<Rightarrow> (int option \<times> int list, 256 word, bytes) relayer_env" where
  "doc_relayer failures =
     \<lparr> rl_wallet = 5, rl_EMITTER = 9, rl_CLUSTER = ''pythnet'', rl_OFFSET = 0, rl_SKIP_FAILED = False,
       rl_fetch = (\<lambda>n. if n = 1 \<or> n = 2 then (if failures = 0 then Inr \<lparr> gr_vaaBytes = Some (doc_vaas n), gr_code = None \<rparr> else Inl TypeError)
         else Inr \<lparr> gr_vaaBytes = None, gr_code = Some 5 \<rparr>),
       rl_parseVaa = doc_parse, rl_derivePostedVaaKey = (\<lambda>w hash. of_nat (unat (hd hash))),
       rl_claimRecord = (\<lambda>s a. Inr (fst s)), rl_postVaa = (\<lambda>s w b. (Inr (), s)), rl_rpc = doc_execute,
       rl_rent = (\<lambda>n. n), rl_getAccountInfo = (\<lambda>s k. None), rl_symbol = (\<lambda>a. []), rl_productSymbol = (\<lambda>b. Inr None) \<rparr>"

interpretation doc_relayer: remote_executor pythnet_libs doc_parse doc_vaas fst snd "\<lambda>k. int (unat k)" "doc_relayer failures" for failures
proof
  fix n p h w
  assume parsed: "doc_parse (from_base64 (doc_vaas n)) = Inr (p, h)"
  then have "n = 1 \<or> n = 2" by (auto simp: doc_vaas_def doc_parse_def from_base64_def simp del: to_base64.simps split: if_splits)
  with parsed show "int (unat (rl_derivePostedVaaKey (doc_relayer failures) w h)) = n"
    by (auto simp: doc_vaas_def doc_parse_def doc_relayer_def simp del: to_base64.simps)
qed (auto simp: doc_relayer_def doc_execute_def executes_def Let_def split: if_splits)

section \<open>Properties\<close>



lemma pythnet_fresh: "(n, i) \<in> set RECEIVER_CHAINS_entries \<Longrightarrow> n \<noteq> ''pythnet'' \<and> i \<noteq> 26"
proof -
  have "list_all (\<lambda>(n, i). n \<noteq> ''pythnet'' \<and> i \<noteq> 26) RECEIVER_CHAINS_production"
    "list_all (\<lambda>(n, i). n \<noteq> ''pythnet'' \<and> i \<noteq> 26) RECEIVER_CHAINS_stable_testnets"
    "list_all (\<lambda>(n, i). n \<noteq> ''pythnet'' \<and> i \<noteq> 26) RECEIVER_CHAINS_testnets"
    by (simp_all add: RECEIVER_CHAINS_production_def RECEIVER_CHAINS_stable_testnets_def RECEIVER_CHAINS_testnets_def)
  then show "(n, i) \<in> set RECEIVER_CHAINS_entries \<Longrightarrow> n \<noteq> ''pythnet'' \<and> i \<noteq> 26"
    by (force simp: RECEIVER_CHAINS_entries_def list_all_iff)
qed

lemma pythnet_chain: "chain_ok (DAList.update ''pythnet'' 26 DAList.empty) ''pythnet'' 26"
proof -
  let ?wh = "DAList.update ''pythnet'' (26 :: nat) DAList.empty"
  have "DAList.lookup RECEIVER_CHAINS ''pythnet'' = None"
    using pythnet_fresh [OF receiver_entry, of "''pythnet''"] by (cases "DAList.lookup RECEIVER_CHAINS ''pythnet''") simp_all
  then have known: "toChainId ?wh ''pythnet'' = Some 26" by (simp add: toChainId_cases DAList.lookup_update)
  then obtain m where m: "toChainName ?wh 26 = Some m" "toChainId ?wh m = Some 26" by (rule registry.canonical_name)
  have "DAList.lookup RECEIVER_CHAINS m \<noteq> Some 26" using pythnet_fresh [OF receiver_entry, of m 26] by blast
  with m(2) have "m = ''pythnet''" by (auto simp: toChainId_cases DAList.lookup_update split: option.splits if_splits)
  with m(1) known show ?thesis by (simp add: chain_ok_def)
qed

lemma decode_pythnet:
  "decodeGovernancePayload (lib_wh pythnet_libs) (lib_L pythnet_libs) (lib_W pythnet_libs) pythnet_payload = Inr (Some (ExecutePostedVaa ''pythnet'' []))"
  using doc_codec.decode_wire [of _ "ExecutePostedVaa ''pythnet'' []" 26] pythnet_chain
  by (simp add: pythnet_libs_def doc_libs_def pythnet_payload_def)

lemma decode_empty:
  "decodeGovernancePayload (lib_wh pythnet_libs) (lib_L pythnet_libs) (lib_W pythnet_libs) [] = Inr None"
proof -
  have "header_decode wh doc_lib [] \<noteq> Some h" for wh h
    using doc_codec.header_decode_only [of wh "[]" h] by (auto simp: header_bytes_def)
  then have "header_decode wh doc_lib [] = None" for wh by (cases "header_decode wh doc_lib []") auto
  then show ?thesis by (simp add: pythnet_libs_def doc_libs_def decodeGovernancePayload_def)
qed


end
