(* ===== verification/Price_Sdk.thy ===== *)
theory Price_Sdk
  imports Js_Prelude "HOL-Library.AList"
begin

text \<open>
  The price service SDK (\<open>price_service/sdk/js/src\<close>): the run-time type checker of
  \<open>schemas/PriceFeed.ts\<close>, an interpreter of type descriptions, and the classes \<open>Price\<close>,
  \<open>PriceFeedMetadata\<close> and \<open>PriceFeed\<close> of \<open>index.ts\<close> that convert to and from JSON through it.

  Numbers are the integers the SDK exchanges (exponents, times, slots; all far below \<open>2^53\<close>, where
  JavaScript numbers are exact). Objects are association lists in property order. The exemplar
  \<open>Date\<close> of the generated checker occurs in none of its type descriptions and has no counterpart.
\<close>

section \<open>Values and type descriptions\<close>

datatype json =
    JsUndefined
  | JsNull
  | JsBool bool
  | JsNumber int
  | JsString string
  | JsArray "json list"
  | JsObject "(string \<times> json) list"

text \<open>The values the checker uses as type descriptions: \<open>"any"\<close>, \<open>null\<close>, \<open>false\<close>, the exemplars
  \<open>undefined\<close>, \<open>""\<close> and \<open>0\<close>, references, enumerations and what \<open>u\<close>, \<open>a\<close> and \<open>o\<close> build. A
  property is its JSON name, its JavaScript name and its type.\<close>

datatype type_desc =
    T_any
  | T_null
  | T_false
  | T_undefined
  | T_string
  | T_number
  | T_ref string
  | T_enum "json list"
  | T_union "type_desc list"
  | T_array type_desc
  | T_object "(string \<times> string \<times> type_desc) list" type_desc

datatype direction = JsonToJS | JsToJSON

definition invalidValue :: "string \<Rightarrow> json result" where
  "invalidValue key =
     (if key \<noteq> [] then Inl (JsError (''Invalid value for key '' @ key))
      else Inl (JsError ''Invalid value''))"

definition jsonToJSProps :: "(string \<times> string \<times> type_desc) list \<Rightarrow> (string \<times> string \<times> type_desc) list" where
  "jsonToJSProps props = fold (\<lambda>(json, js, t). AList.update json (js, t)) props []"

definition jsToJSONProps :: "(string \<times> string \<times> type_desc) list \<Rightarrow> (string \<times> string \<times> type_desc) list" where
  "jsToJSONProps props = fold (\<lambda>(json, js, t). AList.update js (json, t)) props []"

fun get_props :: "direction \<Rightarrow> (string \<times> string \<times> type_desc) list \<Rightarrow> (string \<times> string \<times> type_desc) list" where
  "get_props JsonToJS = jsonToJSProps"
| "get_props JsToJSON = jsToJSONProps"

section \<open>The type map\<close>

definition Price_type :: type_desc where
  "Price_type = T_object
     [(''conf'', ''conf'', T_string), (''expo'', ''expo'', T_number), (''price'', ''price'', T_string),
      (''publish_time'', ''publish_time'', T_number)] T_any"

definition PriceFeedMetadata_type :: type_desc where
  "PriceFeedMetadata_type = T_object
     [(''attestation_time'', ''attestation_time'', T_union [T_undefined, T_number]),
      (''emitter_chain'', ''emitter_chain'', T_number),
      (''prev_publish_time'', ''prev_publish_time'', T_union [T_undefined, T_number]),
      (''price_service_receive_time'', ''price_service_receive_time'', T_union [T_undefined, T_number]),
      (''sequence_number'', ''sequence_number'', T_union [T_undefined, T_number]),
      (''slot'', ''slot'', T_union [T_undefined, T_number])] T_any"

definition PriceFeed_type :: type_desc where
  "PriceFeed_type = T_object
     [(''ema_price'', ''ema_price'', T_ref ''Price''), (''id'', ''id'', T_string),
      (''metadata'', ''metadata'', T_union [T_undefined, T_ref ''PriceFeedMetadata'']),
      (''price'', ''price'', T_ref ''Price''), (''vaa'', ''vaa'', T_union [T_undefined, T_string])] T_any"

definition typeMap :: "string \<Rightarrow> type_desc" where
  "typeMap name =
     (if name = ''PriceFeed'' then PriceFeed_type
      else if name = ''Price'' then Price_type
      else if name = ''PriceFeedMetadata'' then PriceFeedMetadata_type
      else T_undefined)"

section \<open>The checker\<close>

text \<open>The loop of \<open>transformUnion\<close>: the first alternative that does not throw.\<close>

fun first_ok :: "('a \<Rightarrow> 'b result) \<Rightarrow> 'a list \<Rightarrow> 'b result \<Rightarrow> 'b result" where
  "first_ok f [] err = err"
| "first_ok f (x # xs) err = (case f x of Inr y \<Rightarrow> Inr y | Inl _ \<Rightarrow> first_ok f xs err)"

lemma first_ok_cong [fundef_cong]:
  "xs = ys \<Longrightarrow> err = err' \<Longrightarrow> (\<And>x. x \<in> set ys \<Longrightarrow> f x = g x) \<Longrightarrow> first_ok f xs err = first_ok g ys err'"
  by (induction ys arbitrary: xs) (auto split: sum.split)

lemma mapR_cong [fundef_cong]:
  "xs = ys \<Longrightarrow> (\<And>x. x \<in> set ys \<Longrightarrow> f x = g x) \<Longrightarrow> mapR f xs = mapR g ys"
  by (induction ys arbitrary: xs) auto

lemma bindR_cong [fundef_cong]:
  "m = m' \<Longrightarrow> (\<And>x. m' = Inr x \<Longrightarrow> f x = g x) \<Longrightarrow> bindR m f = bindR m' g"
  by (cases m') auto

definition own :: "(string \<times> json) list \<Rightarrow> string \<Rightarrow> json" where
  "own kvs k = (case map_of kvs k of Some v \<Rightarrow> v | None \<Rightarrow> JsUndefined)"

text \<open>Assignments \<open>result[key] = v\<close> in order.\<close>

definition assign_all :: "(string \<times> json) list \<Rightarrow> (string \<times> json) list" where
  "assign_all kvs = fold (\<lambda>(k, v). AList.update k v) kvs []"

text \<open>The recursion follows the type description, and a reference weighs more than what it names:
  the descriptions are not cyclic.\<close>

fun weight :: "type_desc \<Rightarrow> nat" where
  "weight (T_ref name) = (if name = ''PriceFeed'' then 1000 else 100)"
| "weight (T_union ts) = Suc (sum_list (map weight ts))"
| "weight (T_array t) = Suc (weight t)"
| "weight (T_object props add) = Suc (weight add + sum_list (map (\<lambda>(_, _, t). weight t) props))"
| "weight _ = 1"

lemma weight_typeMap: "weight (typeMap name) < weight (T_ref name)"
  by (simp add: typeMap_def PriceFeed_type_def Price_type_def PriceFeedMetadata_type_def)

lemma weight_union: "t \<in> set ts \<Longrightarrow> weight t < weight (T_union ts)"
  by (simp add: less_Suc_eq_le member_le_sum_list)

lemma set_update_subset: "set (AList.update k v xs) \<subseteq> insert (k, v) (set xs)"
  by (induction xs) auto

lemma set_fold_update:
  "set (fold (\<lambda>x. AList.update (f x) (g x)) xs acc) \<subseteq> set acc \<union> (\<lambda>x. (f x, g x)) ` set xs"
proof (induction xs arbitrary: acc)
  case (Cons x xs)
  show ?case using Cons [of "AList.update (f x) (g x) acc"] set_update_subset [of "f x" "g x" acc] by auto
qed simp

lemma set_get_props:
  assumes "(k, k', t) \<in> set (get_props d props)"
  shows "\<exists>a b. (a, b, t) \<in> set props"
  using assms set_fold_update [of "\<lambda>(a, b, t). a" "\<lambda>(a, b, t). (b, t)" props "[]"]
    set_fold_update [of "\<lambda>(a, b, t). b" "\<lambda>(a, b, t). (a, t)" props "[]"]
  by (cases d) (auto simp: jsonToJSProps_def jsToJSONProps_def case_prod_beta', fastforce+)

lemma weight_props:
  assumes "(k, k', t) \<in> set (get_props d props)"
  shows "weight t < weight (T_object props add)"
proof -
  from set_get_props [OF assms] obtain a b where "(a, b, t) \<in> set props" by blast
  then have "weight t \<le> sum_list (map (\<lambda>(_, _, t). weight t) props)"
    by (intro member_le_sum_list) force+
  then show ?thesis by simp
qed

function transform :: "direction \<Rightarrow> type_desc \<Rightarrow> string \<Rightarrow> json \<Rightarrow> json result" where
  "transform d T_any key val = Inr val"
| "transform d T_null key val = (if val = JsNull then Inr val else invalidValue [])"
| "transform d T_false key val = invalidValue []"
| "transform d T_undefined key val = (case val of JsUndefined \<Rightarrow> Inr val | _ \<Rightarrow> invalidValue key)"
| "transform d T_string key val = (case val of JsString _ \<Rightarrow> Inr val | _ \<Rightarrow> invalidValue key)"
| "transform d T_number key val = (case val of JsNumber _ \<Rightarrow> Inr val | _ \<Rightarrow> invalidValue key)"
| "transform d (T_ref name) key val = transform d (typeMap name) key val"
| "transform d (T_enum cases) key val = (if val \<in> set cases then Inr val else invalidValue [])"
| "transform d (T_union ts) key val = first_ok (\<lambda>t. transform d t [] val) ts (invalidValue [])"
| "transform d (T_array t) key val =
     (case val of
        JsArray vs \<Rightarrow> bindR (mapR (\<lambda>el. transform d t [] el) vs) (\<lambda>vs'. Inr (JsArray vs'))
      | _ \<Rightarrow> invalidValue [])"
| "transform d (T_object props additional) key val =
     (case val of
        JsObject kvs \<Rightarrow>
          bindR (mapR (\<lambda>(k, k', t). bindR (transform d t k' (own kvs k)) (\<lambda>v. Inr (k', v)))
                   (get_props d props)) (\<lambda>declared.
          bindR (mapR (\<lambda>(k, v). bindR (transform d additional k v) (\<lambda>v'. Inr (k, v')))
                   (filter (\<lambda>(k, v). map_of (get_props d props) k = None) kvs)) (\<lambda>others.
            Inr (JsObject (assign_all (declared @ others)))))
      | _ \<Rightarrow> invalidValue [])"
  by pat_completeness auto

termination
  by (relation "measure (\<lambda>(d, t, key, val). weight t)")
    (simp_all only: in_measure case_prod_conv weight_typeMap weight_union, auto intro: weight_props [simplified])

definition cast :: "json \<Rightarrow> type_desc \<Rightarrow> json result" where
  "cast val t = transform JsonToJS t [] val"

definition uncast :: "json \<Rightarrow> type_desc \<Rightarrow> json result" where
  "uncast val t = transform JsToJSON t [] val"

declare get_props.simps [simp del]

section \<open>The classes\<close>

record Price =
  p_conf :: string
  p_expo :: int
  p_price :: string
  p_publishTime :: int

record PriceFeedMetadata =
  md_attestationTime :: "int option"
  md_emitterChain :: int
  md_priceServiceReceiveTime :: "int option"
  md_sequenceNumber :: "int option"
  md_slot :: "int option"
  md_prevPublishTime :: "int option"

record PriceFeed =
  f_emaPrice :: Price
  f_id :: string
  f_metadata :: "PriceFeedMetadata option"
  f_vaa :: "string option"
  f_price :: Price

text \<open>Members of a checked object. The static types say which kind of value is there, and the
  checker has made sure of it.\<close>

definition field :: "json \<Rightarrow> string \<Rightarrow> json" where
  "field v k = (case v of JsObject kvs \<Rightarrow> own kvs k | _ \<Rightarrow> JsUndefined)"

fun to_number :: "json \<Rightarrow> int" where
  "to_number (JsNumber n) = n"
| "to_number _ = 0"

fun to_str :: "json \<Rightarrow> string" where
  "to_str (JsString s) = s"
| "to_str _ = []"

fun opt_number :: "json \<Rightarrow> int option" where
  "opt_number (JsNumber n) = Some n"
| "opt_number _ = None"

fun opt_str :: "json \<Rightarrow> string option" where
  "opt_str (JsString s) = Some s"
| "opt_str _ = None"

fun of_opt_number :: "int option \<Rightarrow> json" where
  "of_opt_number (Some n) = JsNumber n"
| "of_opt_number None = JsUndefined"

definition Price_fromJson :: "json \<Rightarrow> Price result" where
  "Price_fromJson json =
     bindR (cast json (T_ref ''Price'')) (\<lambda>jsonPrice.
       Inr \<lparr> p_conf = to_str (field jsonPrice ''conf''), p_expo = to_number (field jsonPrice ''expo''),
             p_price = to_str (field jsonPrice ''price''),
             p_publishTime = to_number (field jsonPrice ''publish_time'') \<rparr>)"

definition Price_toJson :: "Price \<Rightarrow> json result" where
  "Price_toJson p =
     uncast (JsObject [(''conf'', JsString (p_conf p)), (''expo'', JsNumber (p_expo p)),
         (''price'', JsString (p_price p)), (''publish_time'', JsNumber (p_publishTime p))])
       (T_ref ''Price'')"

definition PriceFeedMetadata_fromJson :: "json \<Rightarrow> PriceFeedMetadata option result" where
  "PriceFeedMetadata_fromJson json =
     (if json = JsUndefined then Inr None
      else bindR (cast json (T_ref ''PriceFeedMetadata'')) (\<lambda>jsonFeed.
        Inr (Some \<lparr> md_attestationTime = opt_number (field jsonFeed ''attestation_time''),
          md_emitterChain = to_number (field jsonFeed ''emitter_chain''),
          md_priceServiceReceiveTime = opt_number (field jsonFeed ''price_service_receive_time''),
          md_sequenceNumber = opt_number (field jsonFeed ''sequence_number''),
          md_slot = opt_number (field jsonFeed ''slot''),
          md_prevPublishTime = opt_number (field jsonFeed ''prev_publish_time'') \<rparr>)))"

definition PriceFeedMetadata_toJson :: "PriceFeedMetadata \<Rightarrow> json result" where
  "PriceFeedMetadata_toJson md =
     uncast (JsObject [(''attestation_time'', of_opt_number (md_attestationTime md)),
         (''emitter_chain'', JsNumber (md_emitterChain md)),
         (''price_service_receive_time'', of_opt_number (md_priceServiceReceiveTime md)),
         (''sequence_number'', of_opt_number (md_sequenceNumber md)),
         (''slot'', of_opt_number (md_slot md)),
         (''prev_publish_time'', of_opt_number (md_prevPublishTime md))])
       (T_ref ''PriceFeedMetadata'')"

definition PriceFeed_fromJson :: "json \<Rightarrow> PriceFeed result" where
  "PriceFeed_fromJson json =
     bindR (cast json (T_ref ''PriceFeed'')) (\<lambda>jsonFeed.
     bindR (Price_fromJson (field jsonFeed ''ema_price'')) (\<lambda>emaPrice.
     bindR (PriceFeedMetadata_fromJson (field jsonFeed ''metadata'')) (\<lambda>metadata.
     bindR (Price_fromJson (field jsonFeed ''price'')) (\<lambda>price.
       Inr \<lparr> f_emaPrice = emaPrice, f_id = to_str (field jsonFeed ''id''), f_metadata = metadata,
             f_vaa = opt_str (field jsonFeed ''vaa''), f_price = price \<rparr>))))"

definition PriceFeed_toJson :: "PriceFeed \<Rightarrow> json result" where
  "PriceFeed_toJson feed =
     bindR (Price_toJson (f_emaPrice feed)) (\<lambda>ema.
     bindR (case f_metadata feed of None \<Rightarrow> Inr JsUndefined | Some md \<Rightarrow> PriceFeedMetadata_toJson md) (\<lambda>md.
     bindR (Price_toJson (f_price feed)) (\<lambda>price.
       uncast (JsObject [(''ema_price'', ema), (''id'', JsString (f_id feed)), (''metadata'', md),
                         (''price'', price)]) (T_ref ''PriceFeed''))))"

definition getPriceUnchecked :: "PriceFeed \<Rightarrow> Price" where
  "getPriceUnchecked feed = f_price feed"

definition getEmaPriceUnchecked :: "PriceFeed \<Rightarrow> Price" where
  "getEmaPriceUnchecked feed = f_emaPrice feed"

text \<open>The clock \<open>Date.now()\<close> is an argument, in milliseconds.\<close>

definition getPriceNoOlderThan :: "int \<Rightarrow> PriceFeed \<Rightarrow> int \<Rightarrow> Price option" where
  "getPriceNoOlderThan now feed age =
     (let price = getPriceUnchecked feed; currentTime = now div 1000 in
      if \<bar>currentTime - p_publishTime price\<bar> > age then None else Some price)"

definition getEmaPriceNoOlderThan :: "int \<Rightarrow> PriceFeed \<Rightarrow> int \<Rightarrow> Price option" where
  "getEmaPriceNoOlderThan now feed age =
     (let emaPrice = getEmaPriceUnchecked feed; currentTime = now div 1000 in
      if \<bar>currentTime - p_publishTime emaPrice\<bar> > age then None else Some emaPrice)"

definition getMetadata :: "PriceFeed \<Rightarrow> PriceFeedMetadata option" where
  "getMetadata feed = f_metadata feed"

definition getVAA :: "PriceFeed \<Rightarrow> string option" where
  "getVAA feed = f_vaa feed"

section \<open>Lemmas\<close>

lemma map_of_assign_all: "map_of (assign_all xs) = map_of (rev xs)"
proof -
  have "map_of (fold (\<lambda>(k, v). AList.update k v) xs acc) = map_of (rev xs @ acc)" for acc
    by (induction xs arbitrary: acc) (auto simp: AList.update_conv')
  from this [of "[]"] show ?thesis by (simp add: assign_all_def)
qed

lemma own_assign_all:
  assumes "distinct (map fst ds)" "k \<in> fst ` set ds" "k \<notin> fst ` set os"
  shows "own (assign_all (ds @ os)) k = own ds k"
proof -
  have "map_of (rev os) k = None" using assms(3) by (simp add: map_of_eq_None_iff)
  then show ?thesis
    using map_of_rev_distinct [OF assms(1)] by (simp add: own_def map_of_assign_all map_add_def)
qed

definition undeclared :: "(string \<times> 'a) list \<Rightarrow> (string \<times> json) list \<Rightarrow> (string \<times> json) list" where
  "undeclared pm kvs = filter (\<lambda>(k, v). map_of pm k = None) kvs"

lemma own_declared:
  assumes "map_of pm k \<noteq> None" "distinct (map fst ds)" "k \<in> fst ` set ds"
  shows "own (assign_all (ds @ undeclared pm kvs)) k = own ds k"
  using assms by (intro own_assign_all) (auto simp: undeclared_def)

text \<open>Objects whose additional properties have type \<open>any\<close>, as in every entry of the type map.\<close>

lemma transform_object_any:
  "transform d (T_object props T_any) key (JsObject kvs) =
     bindR (mapR (\<lambda>(k, k', t). bindR (transform d t k' (own kvs k)) (\<lambda>v. Inr (k', v))) (get_props d props))
       (\<lambda>declared. Inr (JsObject (assign_all
          (declared @ undeclared (get_props d props) kvs))))"
proof -
  have "mapR (\<lambda>(k, v). bindR (transform d T_any k v) (\<lambda>v'. Inr (k, v'))) xs = Inr xs" for xs
    by (induction xs) auto
  then show ?thesis by (simp add: undeclared_def)
qed

lemma get_props_Price [simp]:
  "get_props d [(''conf'', ''conf'', T_string), (''expo'', ''expo'', T_number), (''price'', ''price'', T_string),
      (''publish_time'', ''publish_time'', T_number)] =
   [(''conf'', ''conf'', T_string), (''expo'', ''expo'', T_number), (''price'', ''price'', T_string),
      (''publish_time'', ''publish_time'', T_number)]"
  by (cases d) (simp_all add: get_props.simps jsonToJSProps_def jsToJSONProps_def)

lemma get_props_PriceFeedMetadata [simp]:
  "get_props d [(''attestation_time'', ''attestation_time'', a), (''emitter_chain'', ''emitter_chain'', b),
      (''prev_publish_time'', ''prev_publish_time'', c),
      (''price_service_receive_time'', ''price_service_receive_time'', e),
      (''sequence_number'', ''sequence_number'', f), (''slot'', ''slot'', g)] =
   [(''attestation_time'', ''attestation_time'', a), (''emitter_chain'', ''emitter_chain'', b),
      (''prev_publish_time'', ''prev_publish_time'', c),
      (''price_service_receive_time'', ''price_service_receive_time'', e),
      (''sequence_number'', ''sequence_number'', f), (''slot'', ''slot'', g)]"
  by (cases d) (simp_all add: get_props.simps jsonToJSProps_def jsToJSONProps_def)

lemma get_props_PriceFeed [simp]:
  "get_props d [(''ema_price'', ''ema_price'', a), (''id'', ''id'', b), (''metadata'', ''metadata'', c),
      (''price'', ''price'', e), (''vaa'', ''vaa'', f)] =
   [(''ema_price'', ''ema_price'', a), (''id'', ''id'', b), (''metadata'', ''metadata'', c),
      (''price'', ''price'', e), (''vaa'', ''vaa'', f)]"
  by (cases d) (simp_all add: get_props.simps jsonToJSProps_def jsToJSONProps_def)

lemma transform_primitive_Inr:
  "transform d T_string key v = Inr w \<longleftrightarrow> w = v \<and> (\<exists>s. v = JsString s)"
  "transform d T_number key v = Inr w \<longleftrightarrow> w = v \<and> (\<exists>n. v = JsNumber n)"
  by (cases v; auto simp: invalidValue_def)+

lemma own_simps [simp]:
  "own ((k, v) # kvs) k' = (if k = k' then v else own kvs k')" "own [] k' = JsUndefined"
  by (simp_all add: own_def)

definition is_price :: "json \<Rightarrow> Price \<Rightarrow> bool" where
  "is_price json p \<longleftrightarrow> (\<exists>kvs. json = JsObject kvs \<and> own kvs ''conf'' = JsString (p_conf p) \<and>
     own kvs ''expo'' = JsNumber (p_expo p) \<and> own kvs ''price'' = JsString (p_price p) \<and>
     own kvs ''publish_time'' = JsNumber (p_publishTime p))"

lemma Price_fromJson_iff: "Price_fromJson json = Inr p \<longleftrightarrow> is_price json p"
proof (cases json)
  case (JsObject kvs)
  show ?thesis
    unfolding Price_fromJson_def cast_def is_price_def transform.simps(7) JsObject
    by (auto simp: typeMap_def Price_type_def transform_object_any bindR_Inr_iff transform_primitive_Inr
        field_def own_declared simp del: transform.simps append_Cons)
qed (auto simp: Price_fromJson_def cast_def typeMap_def Price_type_def invalidValue_def is_price_def)

lemma is_price_unique: "is_price v p \<Longrightarrow> is_price v q \<Longrightarrow> p = q"
  by (auto simp: is_price_def)

lemma transform_Price:
  assumes "transform d (T_ref ''Price'') key v = Inr w"
  shows "\<exists>p. is_price v p \<and> is_price w p"
proof (cases v)
  case (JsObject kvs)
  with assms obtain a b c e where w: "w = JsObject (assign_all ([(''conf'', JsString a), (''expo'', JsNumber b),
      (''price'', JsString c), (''publish_time'', JsNumber e)] @ undeclared
      [(''conf'', ''conf'', T_string), (''expo'', ''expo'', T_number), (''price'', ''price'', T_string),
       (''publish_time'', ''publish_time'', T_number)] kvs))"
    and own: "own kvs ''conf'' = JsString a" "own kvs ''expo'' = JsNumber b" "own kvs ''price'' = JsString c"
      "own kvs ''publish_time'' = JsNumber e"
    unfolding transform.simps(7)
    by (auto simp: typeMap_def Price_type_def transform_object_any bindR_Inr_iff transform_primitive_Inr
        simp del: transform.simps append_Cons)
  show ?thesis
    by (rule exI [of _ "\<lparr> p_conf = a, p_expo = b, p_price = c, p_publishTime = e \<rparr>"])
      (simp add: is_price_def JsObject own w own_declared del: append_Cons)
qed (use assms in \<open>simp_all add: typeMap_def Price_type_def invalidValue_def\<close>)

lemma transform_Price_ok:
  assumes "is_price v p"
  shows "\<exists>w. transform d (T_ref ''Price'') key v = Inr w \<and> is_price w p"
proof -
  from assms have "transform d (T_ref ''Price'') key v \<noteq> Inl e" for e
    unfolding transform.simps(7)
    by (auto simp: is_price_def typeMap_def Price_type_def transform_object_any bindR_Inl_iff
        simp del: transform.simps(11))
  then obtain w where w: "transform d (T_ref ''Price'') key v = Inr w"
    by (cases "transform d (T_ref ''Price'') key v") auto
  with transform_Price [OF w] is_price_unique [OF assms] show ?thesis by blast
qed

subsection \<open>Metadata\<close>

definition is_metadata :: "json \<Rightarrow> PriceFeedMetadata \<Rightarrow> bool" where
  "is_metadata json md \<longleftrightarrow> (\<exists>kvs. json = JsObject kvs \<and>
     own kvs ''attestation_time'' = of_opt_number (md_attestationTime md) \<and>
     own kvs ''emitter_chain'' = JsNumber (md_emitterChain md) \<and>
     own kvs ''prev_publish_time'' = of_opt_number (md_prevPublishTime md) \<and>
     own kvs ''price_service_receive_time'' = of_opt_number (md_priceServiceReceiveTime md) \<and>
     own kvs ''sequence_number'' = of_opt_number (md_sequenceNumber md) \<and>
     own kvs ''slot'' = of_opt_number (md_slot md))"

lemma ex_opt_number: "(\<exists>x. v = of_opt_number x) \<longleftrightarrow> v = JsUndefined \<or> (\<exists>n. v = JsNumber n)"
  by (metis of_opt_number.simps option.exhaust)

lemma transform_opt_number:
  "transform d (T_union [T_undefined, T_number]) key v = Inr w \<longleftrightarrow> w = v \<and> (\<exists>x. v = of_opt_number x)"
  unfolding ex_opt_number by (cases v) (auto simp: invalidValue_def)

lemma opt_number_inverse [simp]: "opt_number (of_opt_number x) = x"
  by (cases x) simp_all

lemma of_opt_number_inject [simp]: "of_opt_number x = of_opt_number y \<longleftrightarrow> x = y"
  by (metis opt_number_inverse)

lemma is_metadata_unique: "is_metadata v x \<Longrightarrow> is_metadata v y \<Longrightarrow> x = y"
  by (cases x; cases y) (auto simp: is_metadata_def)

lemma transform_metadata:
  assumes "transform d (T_ref ''PriceFeedMetadata'') key v = Inr w"
  shows "\<exists>md. is_metadata v md \<and> is_metadata w md"
proof (cases v)
  case (JsObject kvs)
  let ?N = "T_union [T_undefined, T_number]"
  from JsObject assms obtain a b c e f g where w: "w = JsObject (assign_all ([(''attestation_time'', of_opt_number a),
      (''emitter_chain'', JsNumber b), (''prev_publish_time'', of_opt_number c),
      (''price_service_receive_time'', of_opt_number e), (''sequence_number'', of_opt_number f),
      (''slot'', of_opt_number g)] @ undeclared
      [(''attestation_time'', ''attestation_time'', ?N), (''emitter_chain'', ''emitter_chain'', T_number),
       (''prev_publish_time'', ''prev_publish_time'', ?N),
       (''price_service_receive_time'', ''price_service_receive_time'', ?N),
       (''sequence_number'', ''sequence_number'', ?N), (''slot'', ''slot'', ?N)] kvs))"
    and own: "own kvs ''attestation_time'' = of_opt_number a" "own kvs ''emitter_chain'' = JsNumber b"
      "own kvs ''prev_publish_time'' = of_opt_number c" "own kvs ''price_service_receive_time'' = of_opt_number e"
      "own kvs ''sequence_number'' = of_opt_number f" "own kvs ''slot'' = of_opt_number g"
    unfolding transform.simps(7)
    by (auto simp: typeMap_def PriceFeedMetadata_type_def transform_object_any bindR_Inr_iff transform_primitive_Inr
        transform_opt_number simp del: transform.simps append_Cons)
  show ?thesis
    by (rule exI [of _ "\<lparr> md_attestationTime = a, md_emitterChain = b, md_priceServiceReceiveTime = e,
          md_sequenceNumber = f, md_slot = g, md_prevPublishTime = c \<rparr>"])
      (simp add: is_metadata_def JsObject own w own_declared del: append_Cons)
qed (use assms in \<open>simp_all add: typeMap_def PriceFeedMetadata_type_def invalidValue_def\<close>)

lemma transform_metadata_ok:
  assumes "is_metadata v md"
  shows "\<exists>w. transform d (T_ref ''PriceFeedMetadata'') key v = Inr w \<and> is_metadata w md"
proof -
  have opt: "transform d (T_union [T_undefined, T_number]) key (of_opt_number x) = Inr (of_opt_number x)" for key x
    using transform_opt_number by blast
  from assms have "transform d (T_ref ''PriceFeedMetadata'') key v \<noteq> Inl e" for e
    unfolding transform.simps(7)
    by (auto simp: is_metadata_def typeMap_def PriceFeedMetadata_type_def transform_object_any bindR_Inl_iff opt
        simp del: transform.simps(9,11))
  then obtain w where w: "transform d (T_ref ''PriceFeedMetadata'') key v = Inr w"
    by (cases "transform d (T_ref ''PriceFeedMetadata'') key v") auto
  with transform_metadata [OF w] is_metadata_unique [OF assms] show ?thesis by blast
qed

lemma PriceFeedMetadata_fromJson_ok:
  assumes "is_metadata v md"
  shows "PriceFeedMetadata_fromJson v = Inr (Some md)"
proof -
  from transform_metadata_ok [OF assms] obtain w where w: "transform JsonToJS (T_ref ''PriceFeedMetadata'') [] v = Inr w"
    "is_metadata w md" by blast
  have "v \<noteq> JsUndefined" using assms by (auto simp: is_metadata_def)
  with w show ?thesis
    by (cases md) (auto simp: PriceFeedMetadata_fromJson_def cast_def is_metadata_def field_def simp del: transform.simps)
qed

subsection \<open>Price feeds\<close>

fun of_opt_str :: "string option \<Rightarrow> json" where
  "of_opt_str (Some s) = JsString s"
| "of_opt_str None = JsUndefined"

fun is_opt_metadata :: "json \<Rightarrow> PriceFeedMetadata option \<Rightarrow> bool" where
  "is_opt_metadata v None \<longleftrightarrow> v = JsUndefined"
| "is_opt_metadata v (Some md) \<longleftrightarrow> is_metadata v md"

definition is_feed :: "json \<Rightarrow> PriceFeed \<Rightarrow> bool" where
  "is_feed json f \<longleftrightarrow> (\<exists>kvs. json = JsObject kvs \<and>
     is_price (own kvs ''ema_price'') (f_emaPrice f) \<and> own kvs ''id'' = JsString (f_id f) \<and>
     is_opt_metadata (own kvs ''metadata'') (f_metadata f) \<and>
     is_price (own kvs ''price'') (f_price f) \<and> own kvs ''vaa'' = of_opt_str (f_vaa f))"

lemma ex_opt_str: "(\<exists>x. v = of_opt_str x) \<longleftrightarrow> v = JsUndefined \<or> (\<exists>s. v = JsString s)"
  by (metis of_opt_str.simps option.exhaust)

lemma transform_opt_str:
  "transform d (T_union [T_undefined, T_string]) key v = Inr w \<longleftrightarrow> w = v \<and> (\<exists>x. v = of_opt_str x)"
  unfolding ex_opt_str by (cases v) (auto simp: invalidValue_def)

lemma opt_str_inverse [simp]: "opt_str (of_opt_str x) = x"
  by (cases x) simp_all

lemma of_opt_str_inject [simp]: "of_opt_str x = of_opt_str y \<longleftrightarrow> x = y"
  by (metis opt_str_inverse)

lemma union_metadata:
  "transform d (T_union [T_undefined, T_ref ''PriceFeedMetadata'']) key v =
     (if v = JsUndefined then Inr v
      else case transform d (T_ref ''PriceFeedMetadata'') [] v of Inr w \<Rightarrow> Inr w | Inl _ \<Rightarrow> invalidValue [])"
  by (cases v) (simp_all add: invalidValue_def del: transform.simps(7) split: sum.split)

lemma transform_opt_metadata:
  assumes "transform d (T_union [T_undefined, T_ref ''PriceFeedMetadata'']) key v = Inr w"
  shows "\<exists>m. is_opt_metadata v m \<and> is_opt_metadata w m"
proof (cases "v = JsUndefined")
  case True
  with assms show ?thesis by (intro exI [of _ None]) (simp add: union_metadata)
next
  case False
  with assms have "transform d (T_ref ''PriceFeedMetadata'') [] v = Inr w"
    by (simp add: union_metadata invalidValue_def del: transform.simps split: sum.splits)
  from transform_metadata [OF this] show ?thesis by (metis is_opt_metadata.simps(2))
qed

lemma transform_opt_metadata_ok:
  assumes "is_opt_metadata v m"
  shows "\<exists>w. transform d (T_union [T_undefined, T_ref ''PriceFeedMetadata'']) key v = Inr w"
proof (cases m)
  case None
  with assms show ?thesis by (simp add: union_metadata del: transform.simps)
next
  case (Some md)
  with assms transform_metadata_ok [of v md d "[]"] show ?thesis
    by (auto simp: union_metadata simp del: transform.simps)
qed

lemma is_opt_metadata_unique: "is_opt_metadata v x \<Longrightarrow> is_opt_metadata v y \<Longrightarrow> x = y"
  by (cases x; cases y) (auto simp: is_metadata_unique, auto simp: is_metadata_def)

lemma is_feed_unique: "is_feed v f \<Longrightarrow> is_feed v g \<Longrightarrow> f = g"
  by (cases f; cases g) (auto simp: is_feed_def dest: is_price_unique is_opt_metadata_unique)

lemma transform_feed:
  assumes "transform d (T_ref ''PriceFeed'') key v = Inr w"
  shows "\<exists>f. is_feed v f \<and> is_feed w f"
proof (cases v)
  case (JsObject kvs)
  from JsObject assms obtain a b c e f where w: "w = JsObject (assign_all ([(''ema_price'', a), (''id'', JsString b),
      (''metadata'', c), (''price'', e), (''vaa'', of_opt_str f)] @ undeclared
      [(''ema_price'', ''ema_price'', T_ref ''Price''), (''id'', ''id'', T_string),
       (''metadata'', ''metadata'', T_union [T_undefined, T_ref ''PriceFeedMetadata'']),
       (''price'', ''price'', T_ref ''Price''), (''vaa'', ''vaa'', T_union [T_undefined, T_string])] kvs))"
    and own: "own kvs ''id'' = JsString b" "own kvs ''vaa'' = of_opt_str f"
    and tr: "transform d (T_ref ''Price'') ''ema_price'' (own kvs ''ema_price'') = Inr a"
      "transform d (T_union [T_undefined, T_ref ''PriceFeedMetadata'']) ''metadata'' (own kvs ''metadata'') = Inr c"
      "transform d (T_ref ''Price'') ''price'' (own kvs ''price'') = Inr e"
    unfolding transform.simps(7) [of d "''PriceFeed''"]
    by (auto simp: typeMap_def [of "''PriceFeed''"] PriceFeed_type_def transform_object_any bindR_Inr_iff
        transform_primitive_Inr transform_opt_str simp del: transform.simps append_Cons)
  from transform_Price [OF tr(1)] transform_opt_metadata [OF tr(2)] transform_Price [OF tr(3)]
  obtain p q m where "is_price (own kvs ''ema_price'') p" "is_price a p" "is_price (own kvs ''price'') q" "is_price e q"
    "is_opt_metadata (own kvs ''metadata'') m" "is_opt_metadata c m" by blast
  then show ?thesis
    by (intro exI [of _ "\<lparr> f_emaPrice = p, f_id = b, f_metadata = m, f_vaa = f, f_price = q \<rparr>"])
      (simp add: is_feed_def JsObject own w own_declared del: append_Cons)
qed (use assms in \<open>simp_all add: typeMap_def PriceFeed_type_def invalidValue_def\<close>)

lemma transform_feed_ok:
  assumes "is_feed v f"
  shows "\<exists>w. transform d (T_ref ''PriceFeed'') key v = Inr w \<and> is_feed w f"
proof -
  from assms obtain kvs where v: "v = JsObject kvs" and
    mem: "is_price (own kvs ''ema_price'') (f_emaPrice f)" "own kvs ''id'' = JsString (f_id f)"
      "is_opt_metadata (own kvs ''metadata'') (f_metadata f)" "is_price (own kvs ''price'') (f_price f)"
      "own kvs ''vaa'' = of_opt_str (f_vaa f)"
    by (auto simp: is_feed_def)
  have str: "transform d (T_union [T_undefined, T_string]) key (of_opt_str x) = Inr (of_opt_str x)" for key x
    using transform_opt_str by blast
  from transform_Price_ok [OF mem(1), of d "''ema_price''"] transform_Price_ok [OF mem(4), of d "''price''"]
    transform_opt_metadata_ok [OF mem(3), of d "''metadata''"]
  have "\<exists>w. transform d (T_ref ''PriceFeed'') key v = Inr w"
    unfolding transform.simps(7) [of d "''PriceFeed''"]
    by (auto simp: v mem typeMap_def [of "''PriceFeed''"] PriceFeed_type_def transform_object_any str
        simp del: transform.simps(7,9,11))
  then obtain w where w: "transform d (T_ref ''PriceFeed'') key v = Inr w" ..
  with transform_feed [OF w] is_feed_unique [OF assms] show ?thesis by blast
qed

lemma PriceFeed_fromJson_ok:
  assumes "is_feed v f"
  shows "PriceFeed_fromJson v = Inr f"
proof -
  from transform_feed_ok [OF assms] obtain w where w: "transform JsonToJS (T_ref ''PriceFeed'') [] v = Inr w"
    "is_feed w f" by blast
  then obtain kvs where kvs: "w = JsObject kvs" and
    mem: "is_price (own kvs ''ema_price'') (f_emaPrice f)" "own kvs ''id'' = JsString (f_id f)"
      "is_opt_metadata (own kvs ''metadata'') (f_metadata f)" "is_price (own kvs ''price'') (f_price f)"
      "own kvs ''vaa'' = of_opt_str (f_vaa f)"
    by (auto simp: is_feed_def)
  have "PriceFeedMetadata_fromJson (own kvs ''metadata'') = Inr (f_metadata f)"
    using mem(3) PriceFeedMetadata_fromJson_ok by (cases "f_metadata f") (auto simp: PriceFeedMetadata_fromJson_def)
  with w(1) mem mem(1,4) [folded Price_fromJson_iff] kvs show ?thesis
    by (simp add: PriceFeed_fromJson_def cast_def field_def del: transform.simps)
qed

section \<open>Properties\<close>

text \<open>C18. The run-time checks of \<open>PriceFeed.fromJson\<close> are exact: it returns a feed if and only if
  the JSON value is an object whose members have the declared types, optional members absent or
  well typed; the feed holds those members, and unknown members are ignored. Everything else
  throws. In particular the checker terminates on every value.\<close>

theorem PriceFeed_fromJson_exact: "PriceFeed_fromJson json = Inr f \<longleftrightarrow> is_feed json f"
proof
  assume f: "PriceFeed_fromJson json = Inr f"
  then obtain w where "transform JsonToJS (T_ref ''PriceFeed'') [] json = Inr w"
    by (auto simp: PriceFeed_fromJson_def cast_def bindR_Inr_iff simp del: transform.simps)
  from transform_feed [OF this] obtain g where "is_feed json g" by blast
  with PriceFeed_fromJson_ok [of json g] f show "is_feed json f" by simp
qed (rule PriceFeed_fromJson_ok)

text \<open>Round trip of \<open>PriceFeed\<close>: \<open>toJson\<close> never throws, and \<open>fromJson\<close> gives back the feed
  without its VAA, which \<open>toJson\<close> does not write.\<close>

theorem PriceFeed_json_roundtrip:
  "bindR (PriceFeed_toJson f) PriceFeed_fromJson = Inr (f\<lparr> f_vaa := None \<rparr>)"
proof -
  have price: "\<exists>w. Price_toJson p = Inr w \<and> is_price w p" for p
    unfolding Price_toJson_def uncast_def by (rule transform_Price_ok) (simp add: is_price_def)
  obtain e where e: "Price_toJson (f_emaPrice f) = Inr e" "is_price e (f_emaPrice f)" using price by blast
  obtain p where p: "Price_toJson (f_price f) = Inr p" "is_price p (f_price f)" using price by blast
  have "\<exists>w. PriceFeedMetadata_toJson md = Inr w \<and> is_metadata w md" for md
    unfolding PriceFeedMetadata_toJson_def uncast_def by (rule transform_metadata_ok) (simp add: is_metadata_def)
  then obtain m where m: "(case f_metadata f of None \<Rightarrow> Inr JsUndefined | Some md \<Rightarrow> PriceFeedMetadata_toJson md) = Inr m"
    "is_opt_metadata m (f_metadata f)"
    by (cases "f_metadata f") auto
  have "is_feed (JsObject [(''ema_price'', e), (''id'', JsString (f_id f)), (''metadata'', m), (''price'', p)])
      (f\<lparr> f_vaa := None \<rparr>)"
    using e p m by (simp add: is_feed_def)
  from transform_feed_ok [OF this, of JsToJSON "[]"] e p m show ?thesis
    by (auto simp: PriceFeed_toJson_def uncast_def PriceFeed_fromJson_ok simp del: transform.simps)
qed

text \<open>Freshness: \<open>getPriceNoOlderThan\<close> and \<open>getEmaPriceNoOlderThan\<close> return the price exactly
  when its publish time is within \<open>age\<close> seconds of the current second, in the past or in the
  future, and never any other price.\<close>

theorem getPriceNoOlderThan_fresh:
  "(getPriceNoOlderThan now f age = Some p \<longleftrightarrow>
      p = f_price f \<and> now div 1000 - age \<le> p_publishTime p \<and> p_publishTime p \<le> now div 1000 + age) \<and>
   (getEmaPriceNoOlderThan now f age = Some q \<longleftrightarrow>
      q = f_emaPrice f \<and> now div 1000 - age \<le> p_publishTime q \<and> p_publishTime q \<le> now div 1000 + age)"
  by (auto simp: getPriceNoOlderThan_def getPriceUnchecked_def getEmaPriceNoOlderThan_def
      getEmaPriceUnchecked_def Let_def)

end
