(* ===== verification/Price_Service_Client.thy ===== *)
theory Price_Service_Client
  imports Price_Sdk
begin

text \<open>
  \<open>price_service/client/js/src\<close>: the subscriptions of \<open>PriceServiceConnection.ts\<close> and the
  reconnecting socket of \<open>ResillientWebSocket.ts\<close>, both as state machines.

  A call of a method or an event handler is one step; the await points inside a call only wait for the
  socket to be ready and do not touch the state. Sockets are numbered in the order of their creation,
  timers and sleeping handlers are explicit in the state, and the events the environment may deliver
  are arguments.
\<close>

section \<open>\<open>utils.ts\<close>\<close>

definition removeLeading0xIfExists :: "string \<Rightarrow> string" where
  "removeLeading0xIfExists i = (if starts_with ''0x'' i then drop 2 i else i)"

section \<open>\<open>ResilientWebSocket\<close>\<close>

record rws =
  wsClient :: "nat option"
  wsOpen :: bool
  wsNext :: nat
  wsUserClosed :: bool
  wsFailedAttempts :: nat
  pingTimeout :: bool
  sleeping :: "nat list"
  waiting :: nat
  reconnects :: nat

definition new_ResilientWebSocket :: rws where
  "new_ResilientWebSocket =
     \<lparr> wsClient = None, wsOpen = False, wsNext = 0, wsUserClosed = True, wsFailedAttempts = 0,
       pingTimeout = False, sleeping = [], waiting = 0, reconnects = 0 \<rparr>"

definition expoBackoff :: "nat \<Rightarrow> nat" where
  "expoBackoff attempts = 2 ^ attempts * 100"

definition rws_startWebSocket :: "rws \<Rightarrow> rws" where
  "rws_startWebSocket s =
     (if wsClient s \<noteq> None then s
      else s\<lparr> wsClient := Some (wsNext s), wsOpen := False, wsNext := Suc (wsNext s), wsUserClosed := False \<rparr>)"

text \<open>\<open>heartbeat\<close> replaces the timer, so at most one is pending.\<close>

definition heartbeat :: "rws \<Rightarrow> rws" where
  "heartbeat s = s\<lparr> pingTimeout := True \<rparr>"

text \<open>The open handler of socket \<open>i\<close>; it reads \<open>this.wsClient!.on\<close>, so it ends in a \<open>TypeError\<close> when
  the client was closed in the meantime.\<close>

definition onopen :: "nat \<Rightarrow> rws \<Rightarrow> rws" where
  "onopen i s =
     (case wsClient s of
        None \<Rightarrow> s\<lparr> wsFailedAttempts := 0 \<rparr>
      | Some j \<Rightarrow> heartbeat (s\<lparr> wsFailedAttempts := 0, wsOpen := (wsOpen s \<or> i = j) \<rparr>))"

definition restartUnexpectedClosedWebsocket :: "rws \<Rightarrow> rws" where
  "restartUnexpectedClosedWebsocket s =
     (if wsUserClosed s then s
      else (let s' = rws_startWebSocket s in s'\<lparr> waiting := Suc (waiting s') \<rparr>))"

definition onclose :: "nat \<Rightarrow> rws \<Rightarrow> rws" where
  "onclose i s =
     (let s1 = s\<lparr> pingTimeout := False \<rparr> in
      if \<not> wsUserClosed s1
      then s1\<lparr> wsFailedAttempts := wsFailedAttempts s1 + 1, wsClient := None, wsOpen := False,
               sleeping := sleeping s1 @ [expoBackoff (wsFailedAttempts s1 + 1)] \<rparr>
      else s1)"

definition sleep_over :: "nat \<Rightarrow> rws \<Rightarrow> rws" where
  "sleep_over k s =
     restartUnexpectedClosedWebsocket (s\<lparr> sleeping := take k (sleeping s) @ drop (Suc k) (sleeping s) \<rparr>)"

text \<open>The callback of the ping timer: it terminates the socket, whose close event follows later.\<close>

definition ping_timed_out :: "rws \<Rightarrow> rws" where
  "ping_timed_out s = restartUnexpectedClosedWebsocket (s\<lparr> pingTimeout := False, wsOpen := False \<rparr>)"

text \<open>A restart that waits for readiness looks at the client again; \<open>elapsed\<close> tells that it has waited
  for more than five seconds.\<close>

definition poll_ready :: "bool \<Rightarrow> rws \<Rightarrow> rws" where
  "poll_ready elapsed s =
     (if waiting s = 0 then s
      else if wsClient s = None then s\<lparr> waiting := waiting s - 1 \<rparr>
      else if wsOpen s \<or> elapsed then s\<lparr> waiting := waiting s - 1, reconnects := Suc (reconnects s) \<rparr>
      else s)"

definition rws_closeWebSocket :: "rws \<Rightarrow> rws" where
  "rws_closeWebSocket s = s\<lparr> wsClient := None, wsOpen := False, wsUserClosed := True \<rparr>"

datatype rws_event =
    StartWebSocket
  | CloseWebSocket
  | Opened nat
  | Closed nat
  | Pinged
  | PingTimer
  | SleepOver nat
  | Poll bool

text \<open>Events that can happen in a state: a socket that was created, a pending timer, a sleeping handler.\<close>

inductive rws_step :: "rws \<Rightarrow> rws_event \<Rightarrow> rws \<Rightarrow> bool" where
  start: "rws_step s StartWebSocket (rws_startWebSocket s)"
| close: "rws_step s CloseWebSocket (rws_closeWebSocket s)"
| opened: "i < wsNext s \<Longrightarrow> rws_step s (Opened i) (onopen i s)"
| closed: "i < wsNext s \<Longrightarrow> rws_step s (Closed i) (onclose i s)"
| pinged: "0 < wsNext s \<Longrightarrow> rws_step s Pinged (heartbeat s)"
| ping_timer: "pingTimeout s \<Longrightarrow> rws_step s PingTimer (ping_timed_out s)"
| sleep_over: "k < length (sleeping s) \<Longrightarrow> rws_step s (SleepOver k) (sleep_over k s)"
| poll: "rws_step s (Poll elapsed) (poll_ready elapsed s)"

inductive rws_reach :: "rws_event list \<Rightarrow> rws \<Rightarrow> bool" where
  init: "rws_reach [] new_ResilientWebSocket"
| more: "rws_reach es s \<Longrightarrow> rws_step s e s' \<Longrightarrow> rws_reach (es @ [e]) s'"

inductive_cases rws_stepE: "rws_step s e s'"
inductive_simps rws_step_start: "rws_step s StartWebSocket s'"
inductive_simps rws_step_close: "rws_step s CloseWebSocket s'"
inductive_simps rws_step_closed: "rws_step s (Closed i) s'"

text \<open>The invariant: a socket that the user closed is gone and stays away; one that is not user-closed has
  a client or a handler that will make one.\<close>

definition rws_inv :: "rws \<Rightarrow> bool" where
  "rws_inv s \<longleftrightarrow> (wsUserClosed s \<longrightarrow> wsClient s = None) \<and>
     (\<not> wsUserClosed s \<longrightarrow> wsClient s \<noteq> None \<or> sleeping s \<noteq> []) \<and>
     (\<forall>i. wsClient s = Some i \<longrightarrow> i < wsNext s)"

lemma rws_inv_restart: "rws_inv s \<or> (\<not> wsUserClosed s \<and> (\<forall>i. wsClient s = Some i \<longrightarrow> i < wsNext s)) \<Longrightarrow>
    rws_inv (restartUnexpectedClosedWebsocket s)"
  by (auto simp: rws_inv_def restartUnexpectedClosedWebsocket_def rws_startWebSocket_def Let_def)

lemma rws_inv_step: "rws_step s e s' \<Longrightarrow> rws_inv s \<Longrightarrow> rws_inv s'"
proof (induction rule: rws_step.induct)
  case (ping_timer s)
  then show ?case unfolding ping_timed_out_def
    by (intro rws_inv_restart) (simp add: rws_inv_def)
next
  case (sleep_over k s)
  then show ?case unfolding sleep_over_def
    by (intro rws_inv_restart) (auto simp: rws_inv_def)
qed (auto simp: rws_inv_def rws_startWebSocket_def rws_closeWebSocket_def onopen_def heartbeat_def onclose_def
      poll_ready_def Let_def split: option.splits)

lemma rws_inv_reach: "rws_reach es s \<Longrightarrow> rws_inv s"
proof (induction rule: rws_reach.induct)
  case init
  show ?case by (simp add: rws_inv_def new_ResilientWebSocket_def)
next
  case (more es s e s')
  then show ?case using rws_inv_step by blast
qed

text \<open>Only \<open>startWebSocket\<close> ends a user's close.\<close>

lemma user_closed_step: "rws_step s e s' \<Longrightarrow> wsUserClosed s \<Longrightarrow> e \<noteq> StartWebSocket \<Longrightarrow> wsUserClosed s'"
  by (induction rule: rws_step.induct)
    (auto simp: rws_closeWebSocket_def onopen_def heartbeat_def onclose_def poll_ready_def ping_timed_out_def
      sleep_over_def restartUnexpectedClosedWebsocket_def Let_def split: option.splits)

inductive rws_steps :: "rws \<Rightarrow> rws_event list \<Rightarrow> rws \<Rightarrow> bool" where
  refl: "rws_steps s [] s"
| step: "rws_step s e s' \<Longrightarrow> rws_steps s' es s'' \<Longrightarrow> rws_steps s (e # es) s''"

lemma user_closed_steps:
  "rws_steps s es s' \<Longrightarrow> wsUserClosed s \<Longrightarrow> rws_inv s \<Longrightarrow> StartWebSocket \<notin> set es \<Longrightarrow> wsUserClosed s' \<and> rws_inv s'"
proof (induction rule: rws_steps.induct)
  case (step s e s' es s'')
  then show ?case using user_closed_step rws_inv_step by simp blast
qed simp

section \<open>\<open>PriceServiceConnection\<close>\<close>

record PriceFeedRequestConfig =
  rc_binary :: "bool option"
  rc_verbose :: "bool option"
  rc_allowOutOfOrder :: "bool option"

datatype ClientMessage =
    Subscribe "string list" PriceFeedRequestConfig
  | Unsubscribe "string list"

text \<open>What the connection does on the wire: opening a socket, sending, closing, and the socket
  having reconnected by itself.\<close>

datatype wire =
    WsConnect
  | WsSend ClientMessage
  | WsDisconnect
  | WsReconnected

text \<open>The map \<open>priceFeedCallbacks\<close> keeps insertion order; a \<open>Set\<close> of callbacks is a list without
  repetition.\<close>

record 'cb PriceServiceConnection =
  priceFeedCallbacks :: "(string \<times> 'cb list) list"
  hasWsClient :: bool
  wsEndpoint :: "string option"
  priceFeedRequestConfig :: PriceFeedRequestConfig
  wire_log :: "wire list"

definition emit :: "wire \<Rightarrow> 'cb PriceServiceConnection \<Rightarrow> 'cb PriceServiceConnection" where
  "emit w s = s\<lparr> wire_log := wire_log s @ [w] \<rparr>"

definition set_add :: "'a \<Rightarrow> 'a list \<Rightarrow> 'a list" where
  "set_add x xs = (if x \<in> set xs then xs else xs @ [x])"

definition psc_startWebSocket :: "'cb PriceServiceConnection \<Rightarrow> 'cb PriceServiceConnection result" where
  "psc_startWebSocket s =
     (case wsEndpoint s of
        None \<Rightarrow> Inl (JsError ''Websocket endpoint is undefined.'')
      | Some _ \<Rightarrow> Inr (emit WsConnect (s\<lparr> hasWsClient := True \<rparr>)))"

definition psc_closeWebSocket :: "'cb PriceServiceConnection \<Rightarrow> 'cb PriceServiceConnection" where
  "psc_closeWebSocket s =
     (if hasWsClient s then emit WsDisconnect s else s)\<lparr> hasWsClient := False, priceFeedCallbacks := [] \<rparr>"

fun subscribe_loop ::
  "'cb \<Rightarrow> string list \<Rightarrow> (string \<times> 'cb list) list \<Rightarrow> string list \<Rightarrow> (string \<times> 'cb list) list \<times> string list" where
  "subscribe_loop cb [] cbs newPriceIds = (cbs, newPriceIds)"
| "subscribe_loop cb (i # ids) cbs newPriceIds =
     (case map_of cbs i of
        None \<Rightarrow> subscribe_loop cb ids (cbs @ [(i, set_add cb [])]) (newPriceIds @ [i])
      | Some xs \<Rightarrow> subscribe_loop cb ids (AList.update i (set_add cb xs) cbs) newPriceIds)"

definition subscribePriceFeedUpdates ::
  "string list \<Rightarrow> 'cb \<Rightarrow> 'cb PriceServiceConnection \<Rightarrow> 'cb PriceServiceConnection result" where
  "subscribePriceFeedUpdates priceIds cb s =
     bindR (if hasWsClient s then Inr s else psc_startWebSocket s) (\<lambda>s1.
     let (cbs, newPriceIds) = subscribe_loop cb (map removeLeading0xIfExists priceIds) (priceFeedCallbacks s1) []
     in Inr (emit (WsSend (Subscribe newPriceIds (priceFeedRequestConfig s1)))
               (s1\<lparr> priceFeedCallbacks := cbs \<rparr>)))"

fun unsubscribe_loop ::
  "'cb option \<Rightarrow> string list \<Rightarrow> (string \<times> 'cb list) list \<Rightarrow> string list \<Rightarrow> (string \<times> 'cb list) list \<times> string list" where
  "unsubscribe_loop cb [] cbs removedPriceIds = (cbs, removedPriceIds)"
| "unsubscribe_loop cb (i # ids) cbs removedPriceIds =
     (case map_of cbs i of
        None \<Rightarrow> unsubscribe_loop cb ids cbs removedPriceIds
      | Some xs \<Rightarrow>
          (case cb of
             None \<Rightarrow> unsubscribe_loop cb ids (AList.delete i cbs) (removedPriceIds @ [i])
           | Some c \<Rightarrow>
               (let xs' = removeAll c xs in
                if length xs' = 0
                then unsubscribe_loop cb ids (AList.delete i cbs) (removedPriceIds @ [i])
                else unsubscribe_loop cb ids (AList.update i xs' cbs) removedPriceIds)))"

definition unsubscribePriceFeedUpdates ::
  "string list \<Rightarrow> 'cb option \<Rightarrow> 'cb PriceServiceConnection \<Rightarrow> 'cb PriceServiceConnection result" where
  "unsubscribePriceFeedUpdates priceIds cb s =
     bindR (if hasWsClient s then Inr s else psc_startWebSocket s) (\<lambda>s1.
     let (cbs, removedPriceIds) = unsubscribe_loop cb (map removeLeading0xIfExists priceIds) (priceFeedCallbacks s1) [];
         s2 = emit (WsSend (Unsubscribe removedPriceIds)) (s1\<lparr> priceFeedCallbacks := cbs \<rparr>)
     in Inr (if length (priceFeedCallbacks s2) = 0 then psc_closeWebSocket s2 else s2))"

definition onReconnect :: "'cb PriceServiceConnection \<Rightarrow> 'cb PriceServiceConnection" where
  "onReconnect s =
     (if length (priceFeedCallbacks s) > 0
      then emit (WsSend (Subscribe (map fst (priceFeedCallbacks s)) (priceFeedRequestConfig s))) s
      else s)"

text \<open>The message handler, on the result of \<open>JSON.parse\<close> (\<open>None\<close> when it throws): the callbacks it
  calls, an error passed to \<open>onWsError\<close>, or nothing. Reading a member of \<open>null\<close> throws.\<close>

datatype 'cb outcome =
    Calls "('cb \<times> PriceFeed) list"
  | WsError js_error
  | Ignored

definition onMessage :: "'cb PriceServiceConnection \<Rightarrow> json option \<Rightarrow> 'cb outcome result" where
  "onMessage s parsed =
     (case parsed of
        None \<Rightarrow> Inr (WsError SyntaxError)
      | Some message \<Rightarrow>
          if message = JsNull then Inl TypeError
          else if field message ''type'' = JsString ''response''
          then (if field message ''status'' = JsString ''error''
                then Inr (WsError (JsError (to_str (field message ''error'')))) else Inr Ignored)
          else if field message ''type'' = JsString ''price_update''
          then (case PriceFeed_fromJson (field message ''price_feed'') of
                  Inl e \<Rightarrow> Inr (WsError e)
                | Inr priceFeed \<Rightarrow>
                    (case map_of (priceFeedCallbacks s) (f_id priceFeed) of
                       None \<Rightarrow> Inr (Calls [])
                     | Some cbs \<Rightarrow> Inr (Calls (map (\<lambda>cb. (cb, priceFeed)) cbs))))
          else Inr Ignored)"

section \<open>The server's view\<close>

text \<open>The documented protocol: a new socket has no subscriptions, and messages add and remove them.\<close>

fun server_step :: "wire \<Rightarrow> string set \<Rightarrow> string set" where
  "server_step (WsSend (Subscribe ids _)) S = S \<union> set ids"
| "server_step (WsSend (Unsubscribe ids)) S = S - set ids"
| "server_step _ S = {}"

definition server :: "wire list \<Rightarrow> string set" where
  "server ws = fold server_step ws {}"

lemma server_snoc [simp]: "server (ws @ [w]) = server_step w (server ws)"
  by (simp add: server_def)

definition keys :: "(string \<times> 'cb list) list \<Rightarrow> string set" where
  "keys cbs = fst ` set cbs"

definition callbacks_ok :: "(string \<times> 'cb list) list \<Rightarrow> bool" where
  "callbacks_ok cbs \<longleftrightarrow> distinct (map fst cbs) \<and> (\<forall>(i, xs) \<in> set cbs. xs \<noteq> [] \<and> distinct xs)"

definition psc_inv :: "'cb PriceServiceConnection \<Rightarrow> bool" where
  "psc_inv s \<longleftrightarrow> callbacks_ok (priceFeedCallbacks s) \<and>
     (if hasWsClient s then server (wire_log s) = keys (priceFeedCallbacks s) else priceFeedCallbacks s = [])"

lemma map_of_keys: "map_of cbs i = None \<longleftrightarrow> i \<notin> keys cbs"
  by (simp add: keys_def map_of_eq_None_iff)

lemma keys_simps [simp]:
  "keys (cbs @ [(i, xs)]) = insert i (keys cbs)" "keys (AList.update i xs cbs) = insert i (keys cbs)"
  "keys (AList.delete i cbs) = keys cbs - {i}" "keys [] = {}"
  using arg_cong [OF AList.delete_keys [of i cbs], of set]
  by (auto simp: keys_def AList.dom_update)

lemma callbacks_ok_simps:
  "callbacks_ok cbs \<Longrightarrow> i \<notin> keys cbs \<Longrightarrow> callbacks_ok (cbs @ [(i, set_add cb [])])"
  "callbacks_ok cbs \<Longrightarrow> xs \<noteq> [] \<Longrightarrow> distinct xs \<Longrightarrow> callbacks_ok (AList.update i xs cbs)"
  "callbacks_ok cbs \<Longrightarrow> callbacks_ok (AList.delete i cbs)"
proof -
  show "callbacks_ok cbs \<Longrightarrow> i \<notin> keys cbs \<Longrightarrow> callbacks_ok (cbs @ [(i, set_add cb [])])"
    by (auto simp: callbacks_ok_def keys_def set_add_def)
  show "callbacks_ok cbs \<Longrightarrow> xs \<noteq> [] \<Longrightarrow> distinct xs \<Longrightarrow> callbacks_ok (AList.update i xs cbs)"
    using set_update_subset [of i xs cbs] by (auto simp: callbacks_ok_def AList.distinct_update)
  show "callbacks_ok cbs \<Longrightarrow> callbacks_ok (AList.delete i cbs)"
    using AList.distinct_delete [of cbs i] by (auto simp: callbacks_ok_def) (auto simp: AList.delete_eq)
qed

lemma subscribe_loop_spec:
  "subscribe_loop cb ids cbs new = (cbs', new') \<Longrightarrow> callbacks_ok cbs \<Longrightarrow>
   callbacks_ok cbs' \<and> keys cbs' = keys cbs \<union> set ids \<and> set new' = set new \<union> (keys cbs' - keys cbs)"
proof (induction ids arbitrary: cbs new)
  case (Cons i ids)
  show ?case
  proof (cases "map_of cbs i")
    case None
    then have "subscribe_loop cb ids (cbs @ [(i, set_add cb [])]) (new @ [i]) = (cbs', new')"
      using Cons.prems(1) by simp
    moreover have "callbacks_ok (cbs @ [(i, set_add cb [])])"
      using None Cons.prems(2) by (intro callbacks_ok_simps(1)) (simp_all add: map_of_keys)
    ultimately show ?thesis
      using Cons.IH [of "cbs @ [(i, set_add cb [])]" "new @ [i]"] None by (auto simp: map_of_keys)
  next
    case (Some xs)
    then have "i \<in> keys cbs" "xs \<noteq> []" "distinct xs"
      using Cons.prems(2) by (auto simp: keys_def callbacks_ok_def dest!: map_of_SomeD intro: rev_image_eqI)
    moreover then have "callbacks_ok (AList.update i (set_add cb xs) cbs)"
      using Cons.prems(2) by (intro callbacks_ok_simps(2)) (auto simp: set_add_def)
    ultimately show ?thesis
      using Cons.IH [of "AList.update i (set_add cb xs) cbs" new] Cons.prems Some by auto
  qed
qed auto

lemma unsubscribe_loop_spec:
  "unsubscribe_loop cb ids cbs rem = (cbs', rem') \<Longrightarrow> callbacks_ok cbs \<Longrightarrow>
   callbacks_ok cbs' \<and> keys cbs' \<subseteq> keys cbs \<and> set rem' = set rem \<union> (keys cbs - keys cbs')"
proof (induction ids arbitrary: cbs rem)
  case (Cons i ids)
  show ?case
  proof (cases "map_of cbs i")
    case None
    then show ?thesis using Cons by simp
  next
    case (Some xs)
    then have i: "i \<in> keys cbs" "distinct xs"
      using Cons.prems(2) by (auto simp: keys_def callbacks_ok_def dest!: map_of_SomeD intro: rev_image_eqI)
    have del: ?thesis if "unsubscribe_loop cb ids (AList.delete i cbs) (rem @ [i]) = (cbs', rem')"
      using Cons.IH [OF that] callbacks_ok_simps(3) [OF Cons.prems(2)] i(1) by auto
    show ?thesis
    proof (cases cb)
      case None
      then show ?thesis using Cons.prems(1) Some by (intro del) simp
    next
      case (Some c)
      show ?thesis
      proof (cases "removeAll c xs = []")
        case True
        then show ?thesis using Cons.prems(1) Some \<open>map_of cbs i = Some xs\<close> by (intro del) simp
      next
        case False
        then have ok: "callbacks_ok (AList.update i (removeAll c xs) cbs)"
          using Cons.prems(2) i(2) by (intro callbacks_ok_simps(2)) (auto simp: distinct_removeAll)
        have "unsubscribe_loop cb ids (AList.update i (removeAll c xs) cbs) rem = (cbs', rem')"
          using Cons.prems(1) Some \<open>map_of cbs i = Some xs\<close> False by simp
        from Cons.IH [OF this ok] i(1) show ?thesis by (auto simp: insert_absorb)
      qed
    qed
  qed
qed auto

lemma psc_inv_start:
  "psc_inv s \<Longrightarrow> (if hasWsClient s then Inr s else psc_startWebSocket s) = Inr s1 \<Longrightarrow> psc_inv s1 \<and> hasWsClient s1"
  by (auto simp: psc_startWebSocket_def psc_inv_def emit_def split: if_splits option.splits)

lemma subscribe_run:
  assumes "subscribePriceFeedUpdates ids cb s = Inr s'"
  obtains s1 cbs new where "(if hasWsClient s then Inr s else psc_startWebSocket s) = Inr s1"
    and "subscribe_loop cb (map removeLeading0xIfExists ids) (priceFeedCallbacks s1) [] = (cbs, new)"
    and "s' = emit (WsSend (Subscribe new (priceFeedRequestConfig s1))) (s1\<lparr> priceFeedCallbacks := cbs \<rparr>)"
  using assms unfolding subscribePriceFeedUpdates_def by (fastforce simp: bindR_Inr_iff Let_def split_beta)

lemma psc_inv_subscribe:
  assumes "psc_inv s" "subscribePriceFeedUpdates ids cb s = Inr s'"
  shows "psc_inv s'"
proof (rule subscribe_run [OF assms(2)])
  fix s1 cbs new
  assume s1: "(if hasWsClient s then Inr s else psc_startWebSocket s) = Inr s1"
    and l: "subscribe_loop cb (map removeLeading0xIfExists ids) (priceFeedCallbacks s1) [] = (cbs, new)"
    and s': "s' = emit (WsSend (Subscribe new (priceFeedRequestConfig s1))) (s1\<lparr> priceFeedCallbacks := cbs \<rparr>)"
  from psc_inv_start [OF assms(1) s1] subscribe_loop_spec [OF l] show ?thesis
    by (auto simp: psc_inv_def s' emit_def)
qed

lemma psc_inv_close: "psc_inv s \<Longrightarrow> psc_inv (psc_closeWebSocket s)"
  by (simp add: psc_inv_def psc_closeWebSocket_def callbacks_ok_def)

lemma unsubscribe_run:
  assumes "unsubscribePriceFeedUpdates ids cb s = Inr s'"
  obtains s1 cbs rem s2 where "(if hasWsClient s then Inr s else psc_startWebSocket s) = Inr s1"
    and "unsubscribe_loop cb (map removeLeading0xIfExists ids) (priceFeedCallbacks s1) [] = (cbs, rem)"
    and "s2 = emit (WsSend (Unsubscribe rem)) (s1\<lparr> priceFeedCallbacks := cbs \<rparr>)"
    and "s' = (if length (priceFeedCallbacks s2) = 0 then psc_closeWebSocket s2 else s2)"
  using assms unfolding unsubscribePriceFeedUpdates_def by (fastforce simp: bindR_Inr_iff Let_def split_beta)

lemma psc_inv_unsubscribe:
  assumes "psc_inv s" "unsubscribePriceFeedUpdates ids cb s = Inr s'"
  shows "psc_inv s'"
proof (rule unsubscribe_run [OF assms(2)])
  fix s1 cbs rem s2
  assume s1: "(if hasWsClient s then Inr s else psc_startWebSocket s) = Inr s1"
    and l: "unsubscribe_loop cb (map removeLeading0xIfExists ids) (priceFeedCallbacks s1) [] = (cbs, rem)"
    and s2: "s2 = emit (WsSend (Unsubscribe rem)) (s1\<lparr> priceFeedCallbacks := cbs \<rparr>)"
    and s': "s' = (if length (priceFeedCallbacks s2) = 0 then psc_closeWebSocket s2 else s2)"
  have "psc_inv s2"
    using psc_inv_start [OF assms(1) s1] unsubscribe_loop_spec [OF l] by (auto simp: psc_inv_def s2 emit_def)
  then show ?thesis using psc_inv_close by (auto simp: s')
qed

text \<open>The ways the state of a connection changes. A reconnected socket is a new socket for the server, and
  the handler runs at once. \<open>startWebSocket\<close> is the public method, called while there is no client (a
  second call would leave the subscriptions on the first socket).\<close>

inductive psc_step :: "'cb PriceServiceConnection \<Rightarrow> 'cb PriceServiceConnection \<Rightarrow> bool" where
  subscribe: "subscribePriceFeedUpdates ids cb s = Inr s' \<Longrightarrow> psc_step s s'"
| unsubscribe: "unsubscribePriceFeedUpdates ids cb' s = Inr s' \<Longrightarrow> psc_step s s'"
| reconnect: "hasWsClient s \<Longrightarrow> psc_step s (onReconnect (emit WsReconnected s))"
| start: "\<not> hasWsClient s \<Longrightarrow> psc_startWebSocket s = Inr s' \<Longrightarrow> psc_step s s'"
| close: "psc_step s (psc_closeWebSocket s)"

definition new_PriceServiceConnection ::
  "string option \<Rightarrow> PriceFeedRequestConfig \<Rightarrow> 'cb PriceServiceConnection" where
  "new_PriceServiceConnection endpoint config =
     \<lparr> priceFeedCallbacks = [], hasWsClient = False, wsEndpoint = endpoint, priceFeedRequestConfig = config,
       wire_log = [] \<rparr>"

lemma psc_inv_step: "psc_step s s' \<Longrightarrow> psc_inv s \<Longrightarrow> psc_inv s'"
proof (induction rule: psc_step.induct)
  case (reconnect s)
  then show ?case by (auto simp: psc_inv_def onReconnect_def emit_def keys_def server_def)
next
  case (start s s')
  then show ?case using psc_inv_start [of s s'] by simp
qed (auto intro: psc_inv_subscribe psc_inv_unsubscribe psc_inv_close)

inductive psc_reach :: "'cb PriceServiceConnection \<Rightarrow> bool" where
  init: "psc_reach (new_PriceServiceConnection endpoint config)"
| more: "psc_reach s \<Longrightarrow> psc_step s s' \<Longrightarrow> psc_reach s'"

lemma psc_inv_reach: "psc_reach s \<Longrightarrow> psc_inv s"
proof (induction rule: psc_reach.induct)
  case (init endpoint config)
  show ?case by (simp add: psc_inv_def new_PriceServiceConnection_def callbacks_ok_def)
next
  case (more s s')
  then show ?case using psc_inv_step by blast
qed

text \<open>What the loops do to the callbacks of one identifier.\<close>

lemma subscribe_loop_keeps:
  "subscribe_loop cb ids cbs new = (cbs', new') \<Longrightarrow> map_of cbs i = Some xs \<Longrightarrow>
   \<exists>ys. map_of cbs' i = Some ys \<and> set xs \<subseteq> set ys"
proof (induction ids arbitrary: cbs new xs)
  case (Cons j ids)
  show ?case
  proof (cases "map_of cbs j")
    case None
    with Cons.prems have "subscribe_loop cb ids (cbs @ [(j, set_add cb [])]) (new @ [j]) = (cbs', new')" by simp
    with Cons.IH [OF this] Cons.prems(2) show ?thesis by simp
  next
    case (Some zs)
    with Cons.prems have "subscribe_loop cb ids (AList.update j (set_add cb zs) cbs) new = (cbs', new')" by simp
    with Cons.IH [OF this] Cons.prems(2) Some show ?thesis
      by (cases "i = j") (fastforce simp: AList.update_conv' set_add_def split: if_splits)+
  qed
qed auto

lemma subscribe_loop_adds:
  "subscribe_loop cb ids cbs new = (cbs', new') \<Longrightarrow> i \<in> set ids \<Longrightarrow>
   \<exists>ys. map_of cbs' i = Some ys \<and> cb \<in> set ys"
proof (induction ids arbitrary: cbs new)
  case (Cons j ids)
  obtain cbs1 new1 xs where l: "subscribe_loop cb ids cbs1 new1 = (cbs', new')"
    and j: "map_of cbs1 j = Some xs" "cb \<in> set xs"
  proof (cases "map_of cbs j")
    case None
    with Cons.prems(1) that [of "cbs @ [(j, set_add cb [])]" "new @ [j]" "[cb]"] show ?thesis
      by (simp add: set_add_def map_add_def)
  next
    case (Some zs)
    with Cons.prems(1) that [of "AList.update j (set_add cb zs) cbs" new "set_add cb zs"] show ?thesis
      by (simp add: AList.update_conv' set_add_def)
  qed
  show ?case
    using Cons.IH [OF l] Cons.prems(2) subscribe_loop_keeps [OF l j(1)] j(2) by auto
qed simp

lemma unsubscribe_loop_removes:
  "unsubscribe_loop None ids cbs rem = (cbs', rem') \<Longrightarrow> i \<in> set ids \<or> i \<notin> keys cbs \<Longrightarrow> i \<notin> keys cbs'"
proof (induction ids arbitrary: cbs rem)
  case (Cons j ids)
  show ?case
  proof (cases "map_of cbs j")
    case None
    with Cons.prems have "unsubscribe_loop None ids cbs rem = (cbs', rem')" by simp
    with Cons.IH [OF this] Cons.prems(2) None show ?thesis by (auto simp: map_of_keys)
  next
    case (Some zs)
    with Cons.prems have "unsubscribe_loop None ids (AList.delete j cbs) (rem @ [j]) = (cbs', rem')" by simp
    with Cons.IH [OF this] Cons.prems(2) show ?thesis by auto
  qed
qed auto

definition price_update :: "json \<Rightarrow> json" where
  "price_update j = JsObject [(''type'', JsString ''price_update''), (''price_feed'', j)]"

lemma onMessage_price_update:
  "is_feed j feed \<Longrightarrow> onMessage s (Some (price_update j)) =
     Inr (Calls (map (\<lambda>cb. (cb, feed)) (case map_of (priceFeedCallbacks s) (f_id feed) of None \<Rightarrow> [] | Some cbs \<Rightarrow> cbs)))"
  by (simp add: onMessage_def price_update_def field_def PriceFeed_fromJson_ok split: option.splits)

lemma callbacks_distinct:
  "psc_inv s \<Longrightarrow> map_of (priceFeedCallbacks s) i = Some xs \<Longrightarrow> distinct xs"
  by (fastforce simp: psc_inv_def callbacks_ok_def dest: map_of_SomeD)

section \<open>Properties\<close>


lemma rws_reach_trace: "rws_reach es s \<Longrightarrow> rws_step s e s' \<Longrightarrow> es' = es @ [e] \<Longrightarrow> rws_reach es' s'"
  using rws_reach.more by blast

lemma reach_dropped:
  "rws_reach [StartWebSocket, Closed 0]
     (onclose 0 (rws_startWebSocket new_ResilientWebSocket))"
  by (rule rws_reach_trace [OF rws_reach_trace [OF rws_reach.init rws_step.start] rws_step.closed])
    (simp_all add: rws_startWebSocket_def new_ResilientWebSocket_def)


text \<open>A user's close is final: after \<open>closeWebSocket\<close>, whatever events the sockets, timers and
  sleeping handlers still deliver and in whatever order, no client is created until the user calls
  \<open>startWebSocket\<close>.\<close>

theorem user_close_final:
  assumes "rws_reach es s" and "rws_steps (rws_closeWebSocket s) es' s'" and "StartWebSocket \<notin> set es'"
  shows "wsUserClosed s' \<and> wsClient s' = None"
proof -
  have "rws_inv (rws_closeWebSocket s)"
    using rws_inv_step [OF rws_step.close] rws_inv_reach [OF assms(1)] by blast
  from user_closed_steps [OF assms(2) _ this assms(3)] show ?thesis
    by (simp add: rws_inv_def rws_closeWebSocket_def)
qed

theorem user_close_final_witness:
  "wsClient (sleep_over 0 (rws_closeWebSocket (onclose 0 (rws_startWebSocket new_ResilientWebSocket)))) = None"
proof -
  let ?s = "rws_closeWebSocket (onclose 0 (rws_startWebSocket new_ResilientWebSocket))"
  have "rws_step ?s (SleepOver 0) (sleep_over 0 ?s)"
    by (rule rws_step.sleep_over)
      (simp add: onclose_def rws_closeWebSocket_def rws_startWebSocket_def new_ResilientWebSocket_def Let_def)
  then have "rws_steps ?s [SleepOver 0] (sleep_over 0 ?s)" by (rule rws_steps.step [OF _ rws_steps.refl])
  from user_close_final [OF reach_dropped this] show ?thesis by simp
qed

text \<open>The close handler does not look at which socket it belongs to: when the user closes a socket
  and starts a new one before the close event of the old one arrives, that event drops the new client,
  which is open, without closing it.\<close>

theorem stale_close_drops_client:
  "\<exists>s. rws_reach [StartWebSocket, CloseWebSocket, StartWebSocket, Opened 1] s \<and>
       wsClient s = Some 1 \<and> wsOpen s \<and> rws_step s (Closed 0) (onclose 0 s) \<and> wsClient (onclose 0 s) = None"
proof -
  define s1 where "s1 = rws_startWebSocket new_ResilientWebSocket"
  define s3 where "s3 = rws_startWebSocket (rws_closeWebSocket s1)"
  note defs = s1_def s3_def new_ResilientWebSocket_def rws_startWebSocket_def rws_closeWebSocket_def
    onopen_def onclose_def heartbeat_def
  have "rws_reach [StartWebSocket] s1"
    unfolding s1_def by (rule rws_reach_trace [OF rws_reach.init rws_step.start]) simp
  from rws_reach_trace [OF rws_reach_trace [OF this rws_step.close] rws_step.start]
  have "rws_reach [StartWebSocket, CloseWebSocket, StartWebSocket] s3" by (simp add: s3_def)
  then have "rws_reach [StartWebSocket, CloseWebSocket, StartWebSocket, Opened 1] (onopen 1 s3)"
    by (rule rws_reach_trace [OF _ rws_step.opened]) (simp_all add: defs)
  moreover have "wsClient (onopen 1 s3) = Some 1" "wsOpen (onopen 1 s3)" "wsClient (onclose 0 (onopen 1 s3)) = None"
    by (simp_all add: defs)
  moreover have "rws_step (onopen 1 s3) (Closed 0) (onclose 0 (onopen 1 s3))"
    by (rule rws_step.closed) (simp add: defs)
  ultimately show ?thesis by blast
qed


definition sample_connection :: "nat PriceServiceConnection" where
  "sample_connection = new_PriceServiceConnection (Some ''ws'')
     \<lparr> rc_binary = None, rc_verbose = None, rc_allowOutOfOrder = None \<rparr>"

definition sample_subscribed :: "nat PriceServiceConnection" where
  "sample_subscribed = emit (WsSend (Subscribe [''ab'', ''cd''] (priceFeedRequestConfig sample_connection)))
     (emit WsConnect (sample_connection\<lparr> hasWsClient := True,
        priceFeedCallbacks := [(''ab'', [7]), (''cd'', [7])] \<rparr>))"

lemma sample_subscribe: "subscribePriceFeedUpdates [''0xab'', ''cd'', ''ab''] 7 sample_connection = Inr sample_subscribed"
  by (simp add: subscribePriceFeedUpdates_def sample_subscribed_def sample_connection_def psc_startWebSocket_def
      new_PriceServiceConnection_def emit_def set_add_def removeLeading0xIfExists_def starts_with_def)

lemma sample_reach: "psc_reach sample_connection" "psc_reach sample_subscribed"
  using psc_reach.more [OF _ psc_step.subscribe [OF sample_subscribe]]
  by (simp_all add: sample_connection_def psc_reach.init)


text \<open>Subscribing delivers: after \<open>subscribePriceFeedUpdates\<close> of a callback for a list of identifiers,
  with or without the leading \<open>0x\<close>, an update of any of them calls that callback with the parsed feed,
  and calls it once, however often it was registered.\<close>

theorem subscribed_callback_called_once:
  assumes "psc_reach s" and "subscribePriceFeedUpdates ids cb s = Inr s'" and "i \<in> set ids"
    and "is_feed j feed" and "f_id feed = removeLeading0xIfExists i"
  shows "\<exists>calls. onMessage s' (Some (price_update j)) = Inr (Calls calls) \<and> count_list calls (cb, feed) = 1"
proof -
  obtain s1 cbs new where
    l: "subscribe_loop cb (map removeLeading0xIfExists ids) (priceFeedCallbacks s1) [] = (cbs, new)"
    and "s' = emit (WsSend (Subscribe new (priceFeedRequestConfig s1))) (s1\<lparr> priceFeedCallbacks := cbs \<rparr>)"
    using subscribe_run [OF assms(2)] .
  then have s': "priceFeedCallbacks s' = cbs" by (simp add: emit_def)
  from subscribe_loop_adds [OF l, of "f_id feed"] assms(3,5) s' obtain xs
    where xs: "map_of (priceFeedCallbacks s') (f_id feed) = Some xs" "cb \<in> set xs" by auto
  have "distinct xs"
    using callbacks_distinct [OF psc_inv_subscribe [OF psc_inv_reach [OF assms(1)] assms(2)] xs(1)] .
  with xs(2) have "count_list (map (\<lambda>c. (c, feed)) xs) (cb, feed) = 1"
    by (induction xs) (auto simp: count_list_0_iff)
  with onMessage_price_update [OF assms(4), of s'] xs(1) show ?thesis by simp
qed

definition sample_price :: Price where
  "sample_price = \<lparr> p_conf = ''1'', p_expo = -8, p_price = ''100'', p_publishTime = 12 \<rparr>"

definition sample_price_json :: json where
  "sample_price_json = JsObject [(''conf'', JsString ''1''), (''expo'', JsNumber (-8)), (''price'', JsString ''100''),
     (''publish_time'', JsNumber 12)]"

definition sample_feed :: PriceFeed where
  "sample_feed = \<lparr> f_emaPrice = sample_price, f_id = ''ab'', f_metadata = None, f_vaa = None, f_price = sample_price \<rparr>"

definition sample_feed_json :: json where
  "sample_feed_json = JsObject [(''id'', JsString ''ab''), (''price'', sample_price_json), (''ema_price'', sample_price_json)]"

lemma sample_is_feed: "is_feed sample_feed_json sample_feed" "f_id sample_feed = removeLeading0xIfExists ''0xab''"
  by (simp_all add: is_feed_def is_price_def sample_feed_json_def sample_feed_def sample_price_json_def
      sample_price_def own_def removeLeading0xIfExists_def starts_with_def)

theorem subscribed_callback_called_once_witness:
  "\<exists>calls. onMessage sample_subscribed (Some (price_update sample_feed_json)) = Inr (Calls calls) \<and>
     count_list calls (7, sample_feed) = 1"
  by (rule subscribed_callback_called_once [OF sample_reach(1) sample_subscribe _ sample_is_feed]) simp

text \<open>Unsubscribing stops: after \<open>unsubscribePriceFeedUpdates\<close> without a callback, an update of one of
  the identifiers calls nobody, even one that was on its way when the identifiers were removed.\<close>

theorem unsubscribed_not_called:
  assumes "unsubscribePriceFeedUpdates ids None s = Inr s'" and "i \<in> set ids"
    and "is_feed j feed" and "f_id feed = removeLeading0xIfExists i"
  shows "onMessage s' (Some (price_update j)) = Inr (Calls [])"
proof -
  obtain s1 cbs rem s2 where
    l: "unsubscribe_loop None (map removeLeading0xIfExists ids) (priceFeedCallbacks s1) [] = (cbs, rem)"
    and "s2 = emit (WsSend (Unsubscribe rem)) (s1\<lparr> priceFeedCallbacks := cbs \<rparr>)"
    and "s' = (if length (priceFeedCallbacks s2) = 0 then psc_closeWebSocket s2 else s2)"
    using unsubscribe_run [OF assms(1)] .
  then have s': "priceFeedCallbacks s' = cbs \<or> priceFeedCallbacks s' = []"
    by (simp add: emit_def psc_closeWebSocket_def)
  have "f_id feed \<notin> keys cbs" using unsubscribe_loop_removes [OF l] assms(2,4) by simp
  then have "map_of (priceFeedCallbacks s') (f_id feed) = None" using s' by (auto simp: map_of_keys)
  then show ?thesis by (simp add: onMessage_price_update [OF assms(3)])
qed

definition sample_unsubscribed :: "nat PriceServiceConnection" where
  "sample_unsubscribed = emit (WsSend (Unsubscribe [''ab'']))
     (sample_subscribed\<lparr> priceFeedCallbacks := [(''cd'', [7])] \<rparr>)"

theorem unsubscribed_not_called_witness:
  "onMessage sample_unsubscribed (Some (price_update sample_feed_json)) = Inr (Calls [])"
proof (rule unsubscribed_not_called [OF _ _ sample_is_feed])
  show "unsubscribePriceFeedUpdates [''0xab''] None sample_subscribed = Inr sample_unsubscribed"
    by (simp add: unsubscribePriceFeedUpdates_def sample_unsubscribed_def sample_subscribed_def emit_def
        removeLeading0xIfExists_def starts_with_def)
qed simp

end
