(* ===== verification/Accumulator.thy ===== *)
theory Accumulator
  imports Js_Prelude
begin

text \<open>
  \<open>price_service/sdk/js/src/AccumulatorUpdateData.ts\<close>: the parser of accumulator update
  messages, the slicer that keeps a range of the updates, and the parsers of the two kinds of
  message an update carries. \<open>new BN(bytes, "be")\<close> of the package \<open>bn.js\<close> is the parameter
  \<open>bn\<close>; the locale \<open>bignum\<close> states what its documentation says.
\<close>

section \<open>The source\<close>

definition ACCUMULATOR_MAGIC :: string where "ACCUMULATOR_MAGIC = ''504e4155''"
definition MAJOR_VERSION :: byte where "MAJOR_VERSION = 1"
definition MINOR_VERSION :: byte where "MINOR_VERSION = 0"
definition KECCAK160_HASH_SIZE :: nat where "KECCAK160_HASH_SIZE = 20"
definition PRICE_FEED_MESSAGE_VARIANT :: nat where "PRICE_FEED_MESSAGE_VARIANT = 0"
definition TWAP_MESSAGE_VARIANT :: nat where "TWAP_MESSAGE_VARIANT = 1"

record update =
  u_message :: bytes
  u_proof :: "bytes list"

record AccumulatorUpdateData =
  a_vaa :: bytes
  a_updates :: "update list"

record PriceFeedMessage =
  pf_feedId :: bytes
  pf_price :: int
  pf_confidence :: int
  pf_exponent :: int
  pf_publishTime :: int
  pf_prevPublishTime :: int
  pf_emaPrice :: int
  pf_emaConf :: int

record TwapMessage =
  tw_feedId :: bytes
  tw_cumulativePrice :: int
  tw_cumulativeConf :: int
  tw_numDownSlots :: int
  tw_exponent :: int
  tw_publishTime :: int
  tw_prevPublishTime :: int
  tw_publishSlot :: int

text \<open>An index outside the buffer reads \<open>undefined\<close>, which is not equal to any version.\<close>

definition isAccumulatorUpdateData :: "bytes \<Rightarrow> bool" where
  "isAccumulatorUpdateData updateBytes \<longleftrightarrow>
     take 8 (to_hex updateBytes) = ACCUMULATOR_MAGIC \<and>
     4 < length updateBytes \<and> updateBytes ! 4 = MAJOR_VERSION \<and>
     5 < length updateBytes \<and> updateBytes ! 5 = MINOR_VERSION"

definition parsePriceFeedMessage :: "(bytes \<Rightarrow> int) \<Rightarrow> bytes \<Rightarrow> PriceFeedMessage result" where
  "parsePriceFeedMessage bn message =
     bindR (readUInt8 message 0) (\<lambda>variant.
     if variant \<noteq> PRICE_FEED_MESSAGE_VARIANT then Inl (JsError ''Not a price feed message'')
     else
       (let feedId = subarray message 1 33;
            price = bn (subarray message 33 41);
            confidence = bn (subarray message 41 49)
        in bindR (readIntBE 4 message 49) (\<lambda>exponent.
           Inr \<lparr> pf_feedId = feedId, pf_price = price, pf_confidence = confidence,
                 pf_exponent = exponent,
                 pf_publishTime = bn (subarray message 53 61),
                 pf_prevPublishTime = bn (subarray message 61 69),
                 pf_emaPrice = bn (subarray message 69 77),
                 pf_emaConf = bn (subarray message 77 85) \<rparr>)))"

definition parseTwapMessage :: "(bytes \<Rightarrow> int) \<Rightarrow> bytes \<Rightarrow> TwapMessage result" where
  "parseTwapMessage bn message =
     bindR (readUInt8 message 0) (\<lambda>variant.
     if variant \<noteq> TWAP_MESSAGE_VARIANT then Inl (JsError ''Not a twap message'')
     else
       (let feedId = subarray message 1 33;
            cumulativePrice = bn (subarray message 33 49);
            cumulativeConf = bn (subarray message 49 65);
            numDownSlots = bn (subarray message 65 73)
        in bindR (readIntBE 4 message 73) (\<lambda>exponent.
           Inr \<lparr> tw_feedId = feedId, tw_cumulativePrice = cumulativePrice,
                 tw_cumulativeConf = cumulativeConf, tw_numDownSlots = numDownSlots,
                 tw_exponent = exponent,
                 tw_publishTime = bn (subarray message 77 85),
                 tw_prevPublishTime = bn (subarray message 85 93),
                 tw_publishSlot = bn (subarray message 93 101) \<rparr>)))"

text \<open>The statements both functions below start with: they skip the trailing header and the
  proof type and return the offset and the size of the VAA.\<close>

definition read_vaa_span :: "bytes \<Rightarrow> (nat \<times> nat) result" where
  "read_vaa_span data =
     (if \<not> isAccumulatorUpdateData data then Inl (JsError ''Invalid accumulator message'')
      else
        bindR (readUInt8 data 6) (\<lambda>trailingPayloadSize.
        let cursor = 6 + (1 + trailingPayloadSize) + 1 in
        bindR (readUInt16BE data cursor) (\<lambda>vaaSize. Inr (cursor + 2, vaaSize))))"

text \<open>The loops over the updates, with the cursor as a loop variable.\<close>

fun slice_updates :: "nat \<Rightarrow> bytes \<Rightarrow> nat \<Rightarrow> (bytes list \<times> nat) result" where
  "slice_updates 0 data cursor = Inr ([], cursor)"
| "slice_updates (Suc n) data updateStart =
     bindR (readUInt16BE data updateStart) (\<lambda>messageSize.
     let cursor = updateStart + 2 + messageSize in
     bindR (readUInt8 data cursor) (\<lambda>numProofs.
     let cursor' = cursor + 1 + KECCAK160_HASH_SIZE * numProofs in
     bindR (slice_updates n data cursor') (\<lambda>(rest, fin).
       Inr (subarray data updateStart cursor' # rest, fin))))"

definition sliceAccumulatorUpdateData ::
  "bytes \<Rightarrow> int option \<Rightarrow> int option \<Rightarrow> bytes result" where
  "sliceAccumulatorUpdateData data start end' =
     bindR (read_vaa_span data) (\<lambda>(vaaStart, vaaSize).
     let endOfVaa = vaaStart + vaaSize in
     bindR (readUInt8 data endOfVaa) (\<lambda>numUpdates.
     bindR (slice_updates numUpdates data (endOfVaa + 1)) (\<lambda>(updates, cursor).
     if cursor \<noteq> length data then Inl (JsError ''Didn't reach the end of the message'')
     else
       (let sliceUpdates = js_slice updates start end' in
        Inr (subarray data 0 endOfVaa @ [of_nat (length sliceUpdates)] @ concat sliceUpdates)))))"

fun parse_proof :: "nat \<Rightarrow> bytes \<Rightarrow> nat \<Rightarrow> bytes list \<times> nat" where
  "parse_proof 0 data cursor = ([], cursor)"
| "parse_proof (Suc n) data cursor =
     (let (rest, fin) = parse_proof n data (cursor + KECCAK160_HASH_SIZE)
      in (subarray data cursor (cursor + KECCAK160_HASH_SIZE) # rest, fin))"

fun parse_updates :: "nat \<Rightarrow> bytes \<Rightarrow> nat \<Rightarrow> (update list \<times> nat) result" where
  "parse_updates 0 data cursor = Inr ([], cursor)"
| "parse_updates (Suc n) data cursor =
     bindR (readUInt16BE data cursor) (\<lambda>messageSize.
     let message = subarray data (cursor + 2) (cursor + 2 + messageSize);
         cursor' = cursor + 2 + messageSize in
     bindR (readUInt8 data cursor') (\<lambda>numProofs.
     let (proof, cursor'') = parse_proof numProofs data (cursor' + 1) in
     bindR (parse_updates n data cursor'') (\<lambda>(rest, fin).
       Inr (\<lparr> u_message = message, u_proof = proof \<rparr> # rest, fin))))"

definition parseAccumulatorUpdateData :: "bytes \<Rightarrow> AccumulatorUpdateData result" where
  "parseAccumulatorUpdateData data =
     bindR (read_vaa_span data) (\<lambda>(cursor, vaaSize).
     let vaa = subarray data cursor (cursor + vaaSize) in
     bindR (readUInt8 data (cursor + vaaSize)) (\<lambda>numUpdates.
     bindR (parse_updates numUpdates data (cursor + vaaSize + 1)) (\<lambda>(updates, fin).
     if fin \<noteq> length data then Inl (JsError ''Didn't reach the end of the message'')
     else Inr \<lparr> a_vaa = vaa, a_updates = updates \<rparr>)))"

section \<open>The wire format\<close>

definition update_bytes :: "update \<Rightarrow> bytes" where
  "update_bytes u = be_bytes 2 (length (u_message u)) @ u_message u
     @ [of_nat (length (u_proof u))] @ concat (u_proof u)"

definition wf_update :: "update \<Rightarrow> bool" where
  "wf_update u \<longleftrightarrow> length (u_message u) < 65536 \<and> length (u_proof u) < 256
     \<and> (\<forall>h \<in> set (u_proof u). length h = 20)"

text \<open>What precedes the updates: magic, version, trailing header, proof type and the VAA.\<close>

definition prefix_bytes :: "bytes \<Rightarrow> byte \<Rightarrow> bytes \<Rightarrow> bytes" where
  "prefix_bytes trailing proofType vaa =
     [0x50, 0x4e, 0x41, 0x55, 1, 0, of_nat (length trailing)] @ trailing @ [proofType]
       @ be_bytes 2 (length vaa) @ vaa"

definition accumulator_bytes :: "bytes \<Rightarrow> byte \<Rightarrow> AccumulatorUpdateData \<Rightarrow> bytes" where
  "accumulator_bytes trailing proofType d =
     prefix_bytes trailing proofType (a_vaa d) @ [of_nat (length (a_updates d))]
       @ concat (map update_bytes (a_updates d))"

definition wf_data :: "AccumulatorUpdateData \<Rightarrow> bool" where
  "wf_data d \<longleftrightarrow> length (a_vaa d) < 65536 \<and> length (a_updates d) < 256 \<and> list_all wf_update (a_updates d)"

section \<open>Reading and dropping\<close>

lemma drop_subarray: "c + n \<le> length xs \<Longrightarrow> drop c xs = subarray xs c (c + n) @ drop (c + n) xs"
  by (simp add: subarray_def) (metis add.commute append_take_drop_id drop_drop)

lemma readUIntBE_drop:
  assumes "readUIntBE w data c = Inr n"
  shows "drop c data = be_bytes w n @ drop (c + w) data" "n < 256 ^ w" "c + w \<le> length data"
proof -
  show le: "c + w \<le> length data" using assms by (rule readUIntBE_bound)
  then have "n = be_nat (subarray data c (c + w))" using assms by (simp add: readUIntBE_def)
  moreover have "length (subarray data c (c + w)) = w" using le by (simp add: length_subarray)
  ultimately have "be_bytes w n = subarray data c (c + w)" by (simp add: bytes_nat_inverse)
  then show "drop c data = be_bytes w n @ drop (c + w) data" using drop_subarray [OF le] by simp
  show "n < 256 ^ w" using assms by (rule readUIntBE_less)
qed

lemma be_bytes_1: "be_bytes (Suc 0) n = [of_nat n]"
proof -
  have "(of_nat (n mod 256) :: byte) = of_nat n"
    by transfer (simp add: take_bit_eq_mod zmod_int)
  then show ?thesis by (simp add: be_bytes_def)
qed

lemma of_nat_read: "drop c data = be_bytes 1 n @ drop (c + 1) data \<Longrightarrow> drop c data = of_nat n # drop (c + 1) data"
  by (simp add: be_bytes_1)

section \<open>The updates\<close>

lemma parse_proof_cursor: "snd (parse_proof n data c) = c + 20 * n"
  by (induction n data c rule: parse_proof.induct)
    (simp_all add: KECCAK160_HASH_SIZE_def case_prod_beta Let_def)

lemma parse_proof_at:
  "\<forall>h \<in> set hs. length h = 20 \<Longrightarrow>
   parse_proof (length hs) (pre @ concat hs @ post) (length pre) = (hs, length pre + 20 * length hs)"
proof (induction hs arbitrary: pre)
  case (Cons h hs)
  have "parse_proof (length hs) (pre @ h @ concat hs @ post) (length pre + 20)
      = (hs, length pre + 20 + 20 * length hs)"
    using Cons.IH [of "pre @ h"] Cons.prems by simp
  moreover have "subarray (pre @ h @ concat hs @ post) (length pre) (length pre + 20) = h"
    using Cons.prems by (intro subarray_mid') simp_all
  ultimately show ?case by (simp add: KECCAK160_HASH_SIZE_def)
qed simp

lemma parse_proof_drop:
  "c + 20 * n \<le> length data \<Longrightarrow> hs = fst (parse_proof n data c) \<Longrightarrow>
   drop c data = concat hs @ drop (c + 20 * n) data \<and> length hs = n \<and> (\<forall>h \<in> set hs. length h = 20)"
proof (induction n data c arbitrary: hs rule: parse_proof.induct)
  case (2 n data c)
  let ?rest = "fst (parse_proof n data (c + 20))"
  have "c + 20 + 20 * n \<le> length data" using 2(2) by simp
  then have IH: "drop (c + 20) data = concat ?rest @ drop (c + 20 + 20 * n) data \<and> length ?rest = n
      \<and> (\<forall>h \<in> set ?rest. length h = 20)"
    using 2(1) by (simp add: KECCAK160_HASH_SIZE_def)
  have "drop c data = subarray data c (c + 20) @ drop (c + 20) data"
    using 2(2) by (intro drop_subarray) simp
  then show ?case
    using IH 2(2,3) by (auto simp: KECCAK160_HASH_SIZE_def case_prod_beta Let_def length_subarray algebra_simps)
qed simp

lemma length_concat_hashes: "\<forall>h \<in> set hs. length h = 20 \<Longrightarrow> length (concat hs) = 20 * length hs"
  by (induction hs) auto

lemma length_update_bytes:
  "wf_update u \<Longrightarrow> length (update_bytes u) = 3 + length (u_message u) + 20 * length (u_proof u)"
  by (simp add: update_bytes_def wf_update_def length_concat_hashes)

text \<open>One iteration of either loop on the bytes of an update.\<close>

lemma read_update_at:
  assumes "wf_update u"
  shows "readUInt16BE (pre @ update_bytes u @ post) (length pre) = Inr (length (u_message u))"
    and "readUInt8 (pre @ update_bytes u @ post) (length pre + 2 + length (u_message u))
      = Inr (length (u_proof u))"
  using assms readUIntBE_at [of "be_bytes 2 (length (u_message u))" 2 pre
      "u_message u @ [of_nat (length (u_proof u))] @ concat (u_proof u) @ post"]
    readUInt8_at [of "pre @ be_bytes 2 (length (u_message u)) @ u_message u" "of_nat (length (u_proof u))"
      "concat (u_proof u) @ post"]
  by (simp_all add: update_bytes_def wf_update_def add.assoc)

lemma parse_update_at:
  assumes "wf_update u"
  shows "subarray (pre @ update_bytes u @ post) (length pre + 2) (length pre + 2 + length (u_message u)) = u_message u"
    and "parse_proof (length (u_proof u)) (pre @ update_bytes u @ post) (length pre + 2 + length (u_message u) + 1)
      = (u_proof u, length pre + length (update_bytes u))"
proof -
  show "subarray (pre @ update_bytes u @ post) (length pre + 2) (length pre + 2 + length (u_message u)) = u_message u"
    using subarray_mid [of "pre @ be_bytes 2 (length (u_message u))" "u_message u"
        "[of_nat (length (u_proof u))] @ concat (u_proof u) @ post"]
    by (simp add: update_bytes_def add.assoc)
  show "parse_proof (length (u_proof u)) (pre @ update_bytes u @ post) (length pre + 2 + length (u_message u) + 1)
      = (u_proof u, length pre + length (update_bytes u))"
    using parse_proof_at [of "u_proof u" "pre @ be_bytes 2 (length (u_message u)) @ u_message u @ [of_nat (length (u_proof u))]" post] assms
    by (simp add: length_update_bytes) (simp add: update_bytes_def wf_update_def add.assoc)
qed

lemma parse_updates_at:
  "list_all wf_update us \<Longrightarrow> c = length pre \<Longrightarrow>
   parse_updates (length us) (pre @ concat (map update_bytes us) @ post) c
     = Inr (us, c + length (concat (map update_bytes us)))"
proof (induction us arbitrary: pre c)
  case (Cons u us)
  let ?post = "concat (map update_bytes us) @ post"
  have wf: "wf_update u" "list_all wf_update us" using Cons.prems by simp_all
  have "parse_updates (length us) (pre @ update_bytes u @ ?post) (length pre + length (update_bytes u))
      = Inr (us, length pre + length (update_bytes u) + length (concat (map update_bytes us)))"
    using Cons.IH [OF wf(2), of "length pre + length (update_bytes u)" "pre @ update_bytes u"] by simp
  then show ?case
    using read_update_at [OF wf(1), of pre ?post] parse_update_at [OF wf(1), of pre ?post] Cons.prems(2)
    by (simp add: Let_def)
qed simp

lemma slice_updates_at:
  "list_all wf_update us \<Longrightarrow> c = length pre \<Longrightarrow>
   slice_updates (length us) (pre @ concat (map update_bytes us) @ post) c
     = Inr (map update_bytes us, c + length (concat (map update_bytes us)))"
proof (induction us arbitrary: pre c)
  case (Cons u us)
  let ?post = "concat (map update_bytes us) @ post"
  have wf: "wf_update u" "list_all wf_update us" using Cons.prems by simp_all
  have cur: "Suc (Suc (Suc (length pre + length (u_message u) + 20 * length (u_proof u))))
      = length pre + length (update_bytes u)" by (simp add: length_update_bytes [OF wf(1)])
  have "slice_updates (length us) (pre @ update_bytes u @ ?post) (length pre + length (update_bytes u))
      = Inr (map update_bytes us, length pre + length (update_bytes u) + length (concat (map update_bytes us)))"
    using Cons.IH [OF wf(2), of "length pre + length (update_bytes u)" "pre @ update_bytes u"] by simp
  then show ?case
    using read_update_at [OF wf(1), of pre ?post] Cons.prems(2) subarray_mid [of pre "update_bytes u" ?post]
    by (simp add: Let_def KECCAK160_HASH_SIZE_def cur)
qed simp

text \<open>Both loops move the cursor alike and fail alike.\<close>

lemma loops_agree:
  "bindR (parse_updates n data c) (\<lambda>(us, fin). Inr fin) = bindR (slice_updates n data c) (\<lambda>(us, fin). Inr fin)"
proof (induction n arbitrary: c)
  case (Suc n)
  have "snd (parse_proof k data (m + 1)) = m + 1 + 20 * k" for k m by (rule parse_proof_cursor)
  then show ?case
    using Suc by (simp add: Let_def bindR_assoc case_prod_beta KECCAK160_HASH_SIZE_def)
qed simp

lemma parse_updates_drop:
  "parse_updates n data c = Inr (us, fin) \<Longrightarrow> fin \<le> length data \<Longrightarrow>
   c \<le> fin \<and> drop c data = concat (map update_bytes us) @ drop fin data \<and> length us = n \<and> list_all wf_update us"
proof (induction n arbitrary: c us)
  case (Suc n)
  from Suc.prems(1) obtain size k us' where
    size: "readUInt16BE data c = Inr size" and k: "readUInt8 data (c + 2 + size) = Inr k"
    and rest: "parse_updates n data (c + 2 + size + 1 + 20 * k) = Inr (us', fin)"
    and us: "us = \<lparr> u_message = subarray data (c + 2) (c + 2 + size),
      u_proof = fst (parse_proof k data (c + 2 + size + 1)) \<rparr> # us'"
    using parse_proof_cursor [of _ data] by (auto simp: bindR_Inr_iff Let_def case_prod_beta)
  from Suc.IH [OF rest Suc.prems(2)]
  have IH: "c + 2 + size + 1 + 20 * k \<le> fin" "length us' = n" "list_all wf_update us'"
    "drop (c + 2 + size + 1 + 20 * k) data = concat (map update_bytes us') @ drop fin data" by auto
  note rd = readUIntBE_drop [OF size] readUIntBE_drop [OF k]
  let ?hs = "fst (parse_proof k data (c + 2 + size + 1))"
  have hs: "drop (c + 2 + size + 1) data = concat ?hs @ drop (c + 2 + size + 1 + 20 * k) data"
    "length ?hs = k" "\<forall>h \<in> set ?hs. length h = 20"
    using parse_proof_drop [of "c + 2 + size + 1" k data ?hs] IH(1) Suc.prems(2) by simp_all
  have msg: "drop (c + 2) data = subarray data (c + 2) (c + 2 + size) @ drop (c + 2 + size) data"
    using rd(6) by (intro drop_subarray) simp
  have len: "length (subarray data (c + 2) (c + 2 + size)) = size"
    using rd(6) by (simp add: length_subarray)
  have "drop c data = update_bytes (hd us) @ concat (map update_bytes us') @ drop fin data"
    using rd(1) msg rd(4) hs(1,2) IH(4) len by (simp add: us update_bytes_def be_bytes_1)
  moreover have "wf_update (hd us)"
    using rd(2,5) hs(2,3) len by (simp add: us wf_update_def)
  ultimately show ?case using IH us by simp
qed simp

section \<open>Whole messages\<close>

lemma isAccumulator_iff:
  "isAccumulatorUpdateData data \<longleftrightarrow> (\<exists>rest. data = [0x50, 0x4e, 0x41, 0x55, 1, 0] @ rest)"
proof -
  have magic: "ACCUMULATOR_MAGIC = to_hex [0x50, 0x4e, 0x41, 0x55]" by code_simp
  have hex: "take 8 (to_hex data) = ACCUMULATOR_MAGIC \<longleftrightarrow> take 4 data = [0x50, 0x4e, 0x41, 0x55]"
    using take_to_hex [of 4 data] by (simp add: magic to_hex_inj)
  show ?thesis
  proof
    assume "isAccumulatorUpdateData data"
    then have d: "take 4 data = [0x50, 0x4e, 0x41, 0x55]" "6 \<le> length data" "data ! 4 = 1" "data ! 5 = 0"
      by (simp_all add: isAccumulatorUpdateData_def hex MAJOR_VERSION_def MINOR_VERSION_def)
    from d(2) obtain a b c e f g rest where "data = a # b # c # e # f # g # rest"
      by (auto simp: numeral_eq_Suc Suc_le_length_iff)
    with d show "\<exists>rest. data = [0x50, 0x4e, 0x41, 0x55, 1, 0] @ rest" by simp
  next
    assume "\<exists>rest. data = [0x50, 0x4e, 0x41, 0x55, 1, 0] @ rest"
    then show "isAccumulatorUpdateData data"
      by (auto simp: isAccumulatorUpdateData_def hex MAJOR_VERSION_def MINOR_VERSION_def)
  qed
qed

lemma read_vaa_span_at:
  assumes "length trailing < 256" "length vaa < 65536"
  shows "read_vaa_span (prefix_bytes trailing pt vaa @ rest) = Inr (10 + length trailing, length vaa)"
proof -
  let ?pre = "[0x50, 0x4e, 0x41, 0x55, 1, 0] :: bytes"
  let ?data = "prefix_bytes trailing pt vaa @ rest"
  have "isAccumulatorUpdateData ?data" by (simp add: isAccumulator_iff prefix_bytes_def)
  moreover have "readUInt8 ?data 6 = Inr (length trailing)"
    using readUInt8_at' [of 6 ?pre "of_nat (length trailing)" "trailing @ [pt] @ be_bytes 2 (length vaa) @ vaa @ rest"] assms(1)
    by (simp add: prefix_bytes_def)
  moreover have "readUInt16BE ?data (8 + length trailing) = Inr (length vaa)"
    using readUIntBE_at' [of "be_bytes 2 (length vaa)" 2 "8 + length trailing" "?pre @ [of_nat (length trailing)] @ trailing @ [pt]" "vaa @ rest"] assms(2)
    by (simp add: prefix_bytes_def)
  ultimately show ?thesis by (simp add: read_vaa_span_def)
qed

lemma read_vaa_span_drop:
  assumes "read_vaa_span data = Inr (s, n)" "s + n \<le> length data"
  shows "\<exists>trailing pt. length trailing < 256 \<and> s = 10 + length trailing \<and> n < 65536 \<and>
    data = prefix_bytes trailing pt (subarray data s (s + n)) @ drop (s + n) data"
proof -
  from assms(1) obtain k where acc: "isAccumulatorUpdateData data" and k: "readUInt8 data 6 = Inr k"
    and n: "readUInt16BE data (8 + k) = Inr n" and s: "s = 10 + k"
    by (auto simp: read_vaa_span_def bindR_Inr_iff Let_def split: if_splits)
  note rd = readUIntBE_drop [OF k] readUIntBE_drop [OF n]
  from acc obtain rest where data: "data = [0x50, 0x4e, 0x41, 0x55, 1, 0] @ rest" by (auto simp: isAccumulator_iff)
  have r: "drop 6 data = of_nat k # drop 7 data" using rd(1) by (simp add: be_bytes_1)
  have t: "drop 7 data = subarray data 7 (7 + k) @ drop (7 + k) data"
    using rd(6) by (intro drop_subarray) simp
  have p: "drop (7 + k) data = data ! (7 + k) # drop (8 + k) data"
    using rd(6) Cons_nth_drop_Suc [of "7 + k" data] by simp
  have v: "drop s data = subarray data s (s + n) @ drop (s + n) data"
    using assms(2) by (rule drop_subarray)
  have len: "length (subarray data 7 (7 + k)) = k" "length (subarray data s (s + n)) = n"
    using rd(6) assms(2) by (simp_all add: length_subarray)
  have q: "drop (8 + k) data = be_bytes 2 n @ subarray data s (s + n) @ drop (s + n) data"
    using rd(4) v s by (simp add: add.commute)
  have "data = [0x50, 0x4e, 0x41, 0x55, 1, 0] @ drop 6 data" using data by simp
  also have "\<dots> = prefix_bytes (subarray data 7 (7 + k)) (data ! (7 + k)) (subarray data s (s + n)) @ drop (s + n) data"
    unfolding r t p q by (simp add: prefix_bytes_def len)
  finally show ?thesis using len rd(2,5) s by (intro exI conjI) auto
qed

lemma length_prefix_bytes: "length (prefix_bytes trailing pt vaa) = 10 + length trailing + length vaa"
  by (simp add: prefix_bytes_def)

lemma parse_at:
  assumes "length trailing < 256" "wf_data d"
  shows "parseAccumulatorUpdateData (accumulator_bytes trailing pt d) = Inr d"
proof -
  let ?P = "prefix_bytes trailing pt (a_vaa d)"
  let ?rest = "[of_nat (length (a_updates d))] @ concat (map update_bytes (a_updates d))"
  have span: "read_vaa_span (?P @ ?rest) = Inr (10 + length trailing, length (a_vaa d))"
    using assms by (intro read_vaa_span_at) (simp_all add: wf_data_def)
  have vaa: "subarray (?P @ ?rest) (10 + length trailing) (10 + length trailing + length (a_vaa d)) = a_vaa d"
    using subarray_mid' [of "10 + length trailing" "[0x50, 0x4e, 0x41, 0x55, 1, 0, of_nat (length trailing)]
        @ trailing @ [pt] @ be_bytes 2 (length (a_vaa d))" _ "a_vaa d" ?rest]
    by (simp add: prefix_bytes_def)
  have count: "readUIntBE (Suc 0) (?P @ ?rest) (10 + length trailing + length (a_vaa d)) = Inr (length (a_updates d))"
    using readUInt8_at' [of "10 + length trailing + length (a_vaa d)" ?P "of_nat (length (a_updates d))"] assms(2)
    by (simp add: length_prefix_bytes wf_data_def)
  have "parse_updates (length (a_updates d)) (?P @ ?rest) (10 + length trailing + length (a_vaa d) + 1)
      = Inr (a_updates d, 10 + length trailing + length (a_vaa d) + 1 + length (concat (map update_bytes (a_updates d))))"
    using parse_updates_at [of "a_updates d" "10 + length trailing + length (a_vaa d) + 1"
        "?P @ [of_nat (length (a_updates d))]" "[]"] assms(2)
    by (simp add: length_prefix_bytes wf_data_def)
  then show ?thesis
    unfolding accumulator_bytes_def parseAccumulatorUpdateData_def
    by (simp only: span bindR.simps case_prod_conv Let_def vaa count One_nat_def)
      (simp add: length_prefix_bytes)
qed

lemma slice_at:
  assumes "length trailing < 256" "wf_data d"
  shows "sliceAccumulatorUpdateData (accumulator_bytes trailing pt d) s e
    = Inr (accumulator_bytes trailing pt (d\<lparr> a_updates := js_slice (a_updates d) s e \<rparr>))"
proof -
  let ?P = "prefix_bytes trailing pt (a_vaa d)"
  let ?rest = "[of_nat (length (a_updates d))] @ concat (map update_bytes (a_updates d))"
  have span: "read_vaa_span (?P @ ?rest) = Inr (10 + length trailing, length (a_vaa d))"
    using assms by (intro read_vaa_span_at) (simp_all add: wf_data_def)
  have count: "readUIntBE (Suc 0) (?P @ ?rest) (10 + length trailing + length (a_vaa d)) = Inr (length (a_updates d))"
    using readUInt8_at' [of "10 + length trailing + length (a_vaa d)" ?P "of_nat (length (a_updates d))"] assms(2)
    by (simp add: length_prefix_bytes wf_data_def)
  have "slice_updates (length (a_updates d)) (?P @ ?rest) (10 + length trailing + length (a_vaa d) + 1)
      = Inr (map update_bytes (a_updates d),
          10 + length trailing + length (a_vaa d) + 1 + length (concat (map update_bytes (a_updates d))))"
    using slice_updates_at [of "a_updates d" "10 + length trailing + length (a_vaa d) + 1"
        "?P @ [of_nat (length (a_updates d))]" "[]"] assms(2)
    by (simp add: length_prefix_bytes wf_data_def)
  moreover have "subarray (?P @ ?rest) 0 (10 + length trailing + length (a_vaa d)) = ?P"
    using subarray_mid' [of 0 "[]" "10 + length trailing + length (a_vaa d)" ?P ?rest]
    by (simp add: length_prefix_bytes)
  ultimately show ?thesis
    unfolding accumulator_bytes_def sliceAccumulatorUpdateData_def
    by (simp only: span bindR.simps case_prod_conv Let_def count One_nat_def)
      (simp add: length_prefix_bytes js_slice_map)
qed

lemma parse_only:
  assumes "parseAccumulatorUpdateData data = Inr d"
  shows "\<exists>trailing pt. length trailing < 256 \<and> wf_data d \<and> data = accumulator_bytes trailing pt d"
proof -
  from assms obtain s n k us where span: "read_vaa_span data = Inr (s, n)"
    and k: "readUInt8 data (s + n) = Inr k" and us: "parse_updates k data (s + n + 1) = Inr (us, length data)"
    and d: "d = \<lparr> a_vaa = subarray data s (s + n), a_updates = us \<rparr>"
    by (auto simp: parseAccumulatorUpdateData_def bindR_Inr_iff Let_def split: if_splits)
  note rd = readUIntBE_drop [OF k]
  from parse_updates_drop [OF us] have rest: "drop (s + n + 1) data = concat (map update_bytes us)"
    "length us = k" "list_all wf_update us" by simp_all
  from read_vaa_span_drop [OF span] rd(3) obtain trailing pt where "length trailing < 256" "n < 65536"
    "data = prefix_bytes trailing pt (subarray data s (s + n)) @ drop (s + n) data" by auto
  moreover have "drop (s + n) data = of_nat k # concat (map update_bytes us)"
    using rd(1) rest(1) by (simp add: be_bytes_1)
  moreover have "length (subarray data s (s + n)) = n" using rd(3) by (simp add: length_subarray)
  ultimately show ?thesis
    using rest rd(2) by (intro exI [of _ trailing] exI [of _ pt])
      (simp add: d accumulator_bytes_def wf_data_def)
qed

text \<open>The slicer accepts what the parser accepts and throws what it throws.\<close>

lemma slice_throws:
  assumes "parseAccumulatorUpdateData data = Inl err"
  shows "sliceAccumulatorUpdateData data s e = Inl err"
proof -
  have loop: "bindR (parse_updates k data c) (\<lambda>(us, fin). if fin \<noteq> length data then Inl x else Inr (f us)) = Inl err
      \<Longrightarrow> bindR (slice_updates k data c) (\<lambda>(us, fin). if fin \<noteq> length data then Inl x else Inr (g us)) = Inl err"
    for k c x and f :: "update list \<Rightarrow> AccumulatorUpdateData" and g :: "bytes list \<Rightarrow> bytes"
    using loops_agree [of k data c]
    by (cases "parse_updates k data c"; cases "slice_updates k data c") (auto split: if_splits)
  show ?thesis
  proof (cases "read_vaa_span data")
    case (Inl x)
    with assms show ?thesis by (simp add: parseAccumulatorUpdateData_def sliceAccumulatorUpdateData_def)
  next
    case (Inr sn)
    obtain v n where "sn = (v, n)" by (cases sn)
    with Inr assms loop show ?thesis
      unfolding parseAccumulatorUpdateData_def sliceAccumulatorUpdateData_def Let_def
      by (cases "readUInt8 data (v + n)") auto
  qed
qed

section \<open>The messages\<close>

text \<open>The contract of \<open>new BN(bytes, "be")\<close>: the unsigned number the bytes write.\<close>

locale bignum =
  fixes bn :: "bytes \<Rightarrow> int"
  assumes bn_be: "bn bs = int (be_nat bs)"

text \<open>The layout of a price feed message as the on-chain program writes it; prices are signed
  64-bit numbers in two's complement, the exponent a signed 32-bit number.\<close>

definition twos :: "nat \<Rightarrow> int \<Rightarrow> bytes" where
  "twos w i = be_bytes w (nat (i mod 256 ^ w))"

definition price_feed_bytes :: "PriceFeedMessage \<Rightarrow> bytes" where
  "price_feed_bytes m = [0] @ pf_feedId m @ twos 8 (pf_price m) @ twos 8 (pf_confidence m)
     @ twos 4 (pf_exponent m) @ twos 8 (pf_publishTime m) @ twos 8 (pf_prevPublishTime m)
     @ twos 8 (pf_emaPrice m) @ twos 8 (pf_emaConf m)"

definition twap_bytes :: "TwapMessage \<Rightarrow> bytes" where
  "twap_bytes m = [1] @ tw_feedId m @ twos 16 (tw_cumulativePrice m) @ twos 16 (tw_cumulativeConf m)
     @ twos 8 (tw_numDownSlots m) @ twos 4 (tw_exponent m) @ twos 8 (tw_publishTime m)
     @ twos 8 (tw_prevPublishTime m) @ twos 8 (tw_publishSlot m)"

definition signed_range :: "nat \<Rightarrow> int \<Rightarrow> bool" where
  "signed_range w i \<longleftrightarrow> - (256 ^ w div 2) \<le> i \<and> i < 256 ^ w div 2"

definition unsigned_range :: "nat \<Rightarrow> int \<Rightarrow> bool" where
  "unsigned_range w i \<longleftrightarrow> 0 \<le> i \<and> i < 256 ^ w"

text \<open>The ranges of the Rust types of \<open>pythnet_sdk::messages\<close>; times are not negative.\<close>

definition wf_price_feed :: "PriceFeedMessage \<Rightarrow> bool" where
  "wf_price_feed m \<longleftrightarrow> length (pf_feedId m) = 32 \<and> signed_range 8 (pf_price m)
     \<and> unsigned_range 8 (pf_confidence m) \<and> signed_range 4 (pf_exponent m)
     \<and> unsigned_range 8 (pf_publishTime m) \<and> unsigned_range 8 (pf_prevPublishTime m)
     \<and> signed_range 8 (pf_emaPrice m) \<and> unsigned_range 8 (pf_emaConf m)"

definition wf_twap :: "TwapMessage \<Rightarrow> bool" where
  "wf_twap m \<longleftrightarrow> length (tw_feedId m) = 32 \<and> signed_range 16 (tw_cumulativePrice m)
     \<and> unsigned_range 16 (tw_cumulativeConf m) \<and> unsigned_range 8 (tw_numDownSlots m)
     \<and> signed_range 4 (tw_exponent m) \<and> unsigned_range 8 (tw_publishTime m)
     \<and> unsigned_range 8 (tw_prevPublishTime m) \<and> unsigned_range 8 (tw_publishSlot m)"

lemma length_twos [simp]: "length (twos w i) = w"
  by (simp add: twos_def)

lemma be_nat_twos: "int (be_nat (twos w i)) = i mod 256 ^ w"
  by (simp add: twos_def nat_less_iff zmod_int)

lemma to_signed_twos:
  assumes "signed_range (Suc w) i"
  shows "to_signed (Suc w) (be_nat (twos (Suc w) i)) = i"
proof -
  let ?M = "256 ^ Suc w :: int"
  have even: "2 * (?M div 2) = ?M" "0 < ?M" by simp_all
  have n: "int (be_nat (twos (Suc w) i)) = i mod ?M" by (rule be_nat_twos)
  have half: "be_nat (twos (Suc w) i) < 256 ^ Suc w div 2 \<longleftrightarrow> i mod ?M < ?M div 2"
    using n by (metis (mono_tags, opaque_lifting) of_nat_less_iff of_nat_numeral of_nat_power zdiv_int)
  show ?thesis
  proof (cases "0 \<le> i")
    case True
    then have "i mod ?M = i" using assms even by (simp add: signed_range_def)
    then show ?thesis using assms n half by (simp add: to_signed_def signed_range_def)
  next
    case False
    then have "i mod ?M = i + ?M"
      using assms even by (intro int_mod_pos_eq [of _ _ "-1"]) (auto simp: signed_range_def)
    then show ?thesis using assms n half even by (simp add: to_signed_def signed_range_def)
  qed
qed

lemma unsigned_twos: "unsigned_range w i \<Longrightarrow> int (be_nat (twos w i)) = i"
  by (simp add: be_nat_twos unsigned_range_def)

lemma read_variant: "readUIntBE (Suc 0) (b # rest) 0 = Inr (unat b)"
  using readUInt8_at [of "[]" b rest] by simp

lemma price_feed_slices:
  assumes "length (pf_feedId m) = 32"
  shows "subarray (price_feed_bytes m) 1 33 = pf_feedId m"
    and "subarray (price_feed_bytes m) 33 41 = twos 8 (pf_price m)"
    and "subarray (price_feed_bytes m) 41 49 = twos 8 (pf_confidence m)"
    and "readUIntBE 4 (price_feed_bytes m) 49 = Inr (be_nat (twos 4 (pf_exponent m)))"
    and "subarray (price_feed_bytes m) 53 61 = twos 8 (pf_publishTime m)"
    and "subarray (price_feed_bytes m) 61 69 = twos 8 (pf_prevPublishTime m)"
    and "subarray (price_feed_bytes m) 69 77 = twos 8 (pf_emaPrice m)"
    and "subarray (price_feed_bytes m) 77 85 = twos 8 (pf_emaConf m)"
    and "readUIntBE 1 (price_feed_bytes m) 0 = Inr 0"
  using assms by (simp_all add: price_feed_bytes_def subarray_def readUIntBE_def be_nat_def)

lemma twap_slices:
  assumes "length (tw_feedId m) = 32"
  shows "subarray (twap_bytes m) 1 33 = tw_feedId m"
    and "subarray (twap_bytes m) 33 49 = twos 16 (tw_cumulativePrice m)"
    and "subarray (twap_bytes m) 49 65 = twos 16 (tw_cumulativeConf m)"
    and "subarray (twap_bytes m) 65 73 = twos 8 (tw_numDownSlots m)"
    and "readUIntBE 4 (twap_bytes m) 73 = Inr (be_nat (twos 4 (tw_exponent m)))"
    and "subarray (twap_bytes m) 77 85 = twos 8 (tw_publishTime m)"
    and "subarray (twap_bytes m) 85 93 = twos 8 (tw_prevPublishTime m)"
    and "subarray (twap_bytes m) 93 101 = twos 8 (tw_publishSlot m)"
    and "readUIntBE 1 (twap_bytes m) 0 = Inr 1"
  using assms by (simp_all add: twap_bytes_def subarray_def readUIntBE_def be_nat_def)

lemma signed4: "signed_range 4 i \<Longrightarrow> to_signed 4 (be_nat (twos 4 i)) = i"
  using to_signed_twos [of 3 i] by simp

lemma mod_range_iff:
  assumes "signed_range w i"
  shows "i mod 256 ^ w = i \<longleftrightarrow> 0 \<le> i"
proof
  show "i mod 256 ^ w = i \<Longrightarrow> 0 \<le> i" by (metis pos_mod_sign zero_less_numeral zero_less_power)
  assume "0 \<le> i"
  moreover have "(0 :: int) < 256 ^ w" by simp
  then have "(256 ^ w :: int) div 2 \<le> 256 ^ w" by linarith
  ultimately show "i mod 256 ^ w = i" using assms by (simp add: signed_range_def)
qed

context bignum
begin

lemma parse_price_feed:
  assumes "wf_price_feed m"
  shows "parsePriceFeedMessage bn (price_feed_bytes m) = Inr (m\<lparr> pf_price := pf_price m mod 256 ^ 8,
    pf_emaPrice := pf_emaPrice m mod 256 ^ 8 \<rparr>)"
  using assms price_feed_slices [of m]
  by (cases m) (simp add: parsePriceFeedMessage_def PRICE_FEED_MESSAGE_VARIANT_def Let_def wf_price_feed_def
      readIntBE_def bn_be unsigned_range_def signed4 be_nat_twos)

lemma parse_twap:
  assumes "wf_twap m"
  shows "parseTwapMessage bn (twap_bytes m) = Inr (m\<lparr> tw_cumulativePrice := tw_cumulativePrice m mod 256 ^ 16 \<rparr>)"
  using assms twap_slices [of m]
  by (cases m) (simp add: parseTwapMessage_def TWAP_MESSAGE_VARIANT_def Let_def wf_twap_def
      readIntBE_def bn_be unsigned_range_def signed4 be_nat_twos)

end

text \<open>An instance of the contract.\<close>

definition doc_bn :: "bytes \<Rightarrow> int" where "doc_bn bs = int (be_nat bs)"

interpretation doc_bn: bignum doc_bn
  by unfold_locales (simp add: doc_bn_def)

section \<open>Properties\<close>

text \<open>C15. The parser accepts exactly the well-formed messages: it returns a VAA and updates if and
  only if the buffer is their encoding, for some trailing header and proof type, down to the
  last byte. So nothing is skipped, truncated or read past the end.\<close>

theorem parseAccumulatorUpdateData_exact:
  "parseAccumulatorUpdateData data = Inr d \<longleftrightarrow>
     (\<exists>trailing pt. length trailing < 256 \<and> wf_data d \<and> data = accumulator_bytes trailing pt d)"
  using parse_only parse_at by blast

lemma slice_parses:
  assumes "parseAccumulatorUpdateData data = Inr d"
  shows "\<exists>out. sliceAccumulatorUpdateData data start end' = Inr out \<and>
    parseAccumulatorUpdateData out = Inr (d\<lparr> a_updates := js_slice (a_updates d) start end' \<rparr>)"
proof -
  from parse_only [OF assms] obtain trailing pt where
    wf: "length trailing < 256" "wf_data d" and data: "data = accumulator_bytes trailing pt d" by blast
  have "wf_data (d\<lparr> a_updates := js_slice (a_updates d) start end' \<rparr>)"
    using wf(2) length_js_slice_le [of "a_updates d" start end'] set_subarray [of "a_updates d"]
    by (auto simp: wf_data_def list_all_iff js_slice_def)
  then show ?thesis
    using wf by (simp add: data slice_at parse_at)
qed

text \<open>C16. Slicing commutes with parsing: for every buffer, parsing the sliced message gives the same
  VAA and \<open>updates.slice(start, end)\<close>, and the slicer throws what the parser throws.\<close>

theorem slice_then_parse:
  "bindR (sliceAccumulatorUpdateData data start end') parseAccumulatorUpdateData =
   bindR (parseAccumulatorUpdateData data)
     (\<lambda>d. Inr (d\<lparr> a_updates := js_slice (a_updates d) start end' \<rparr>))"
proof (cases "parseAccumulatorUpdateData data")
  case (Inl err)
  then show ?thesis by (simp add: slice_throws)
next
  case (Inr d)
  then show ?thesis using slice_parses [OF Inr, of start end'] by auto
qed

text \<open>C17. Price feed messages: the parser recovers a message of the on-chain format if and only if
  its price and its moving average are not negative. Both are signed on chain, and the code reads
  them as unsigned numbers.\<close>

theorem parsePriceFeedMessage_exact:
  assumes "bignum bn" "wf_price_feed m"
  shows "parsePriceFeedMessage bn (price_feed_bytes m) = Inr m \<longleftrightarrow> 0 \<le> pf_price m \<and> 0 \<le> pf_emaPrice m"
proof -
  have "m\<lparr> pf_price := p, pf_emaPrice := q \<rparr> = m \<longleftrightarrow> p = pf_price m \<and> q = pf_emaPrice m" for p q
    by (cases m) auto
  moreover have "pf_price m mod 256 ^ 8 = pf_price m \<longleftrightarrow> 0 \<le> pf_price m"
    "pf_emaPrice m mod 256 ^ 8 = pf_emaPrice m \<longleftrightarrow> 0 \<le> pf_emaPrice m"
    using assms(2) by (intro mod_range_iff; simp add: wf_price_feed_def)+
  ultimately show ?thesis by (simp only: bignum.parse_price_feed [OF assms] sum.inject)
qed

definition sample_message :: PriceFeedMessage where
  "sample_message = \<lparr> pf_feedId = replicate 32 7, pf_price = -5, pf_confidence = 1, pf_exponent = -8,
     pf_publishTime = 100, pf_prevPublishTime = 99, pf_emaPrice = 4, pf_emaConf = 1 \<rparr>"

theorem parsePriceFeedMessage_exact_witness:
  "parsePriceFeedMessage doc_bn (price_feed_bytes (sample_message\<lparr> pf_price := 5 \<rparr>)) = Inr (sample_message\<lparr> pf_price := 5 \<rparr>) \<and>
   parsePriceFeedMessage doc_bn (price_feed_bytes sample_message) \<noteq> Inr sample_message"
  using parsePriceFeedMessage_exact [OF doc_bn.bignum_axioms, of sample_message]
    parsePriceFeedMessage_exact [OF doc_bn.bignum_axioms, of "sample_message\<lparr> pf_price := 5 \<rparr>"]
  by (simp add: sample_message_def wf_price_feed_def signed_range_def unsigned_range_def)

text \<open>TWAP messages: every field is recovered, the cumulative price again only when it is not
  negative.\<close>

theorem parseTwapMessage_exact:
  assumes "bignum bn" "wf_twap m"
  shows "parseTwapMessage bn (twap_bytes m) = Inr m \<longleftrightarrow> 0 \<le> tw_cumulativePrice m"
proof -
  have "m\<lparr> tw_cumulativePrice := p \<rparr> = m \<longleftrightarrow> p = tw_cumulativePrice m" for p
    by (cases m) auto
  moreover have "tw_cumulativePrice m mod 256 ^ 16 = tw_cumulativePrice m \<longleftrightarrow> 0 \<le> tw_cumulativePrice m"
    using assms(2) by (intro mod_range_iff) (simp add: wf_twap_def)
  ultimately show ?thesis by (simp only: bignum.parse_twap [OF assms] sum.inject)
qed

definition sample_twap :: TwapMessage where
  "sample_twap = \<lparr> tw_feedId = replicate 32 7, tw_cumulativePrice = 500, tw_cumulativeConf = 1, tw_numDownSlots = 2,
     tw_exponent = -8, tw_publishTime = 100, tw_prevPublishTime = 99, tw_publishSlot = 4 \<rparr>"

theorem parseTwapMessage_exact_witness:
  "parseTwapMessage doc_bn (twap_bytes sample_twap) = Inr sample_twap"
  using parseTwapMessage_exact [OF doc_bn.bignum_axioms, of sample_twap]
  by (simp add: sample_twap_def wf_twap_def signed_range_def unsigned_range_def)

end
