(* ===== verification/Vaa.thy ===== *)
theory Vaa
  imports Solana_Transaction Accumulator
begin

text \<open>
  \<open>target_chains/solana/sdk/js/pyth_solana_receiver/src/vaa.ts\<close>: trimming the signatures of a
  VAA, and the instructions that post a VAA to an encoded-VAA account of the Wormhole program.

  The Wormhole program is third-party: the record \<open>M\<close> holds the instruction constructors Anchor
  derives from its interface, and the locale \<open>wormhole_core\<close> what the program documents about
  executing them. \<open>new Keypair()\<close> is an argument.
\<close>

section \<open>The source\<close>

definition DEFAULT_REDUCED_GUARDIAN_SET_SIZE :: nat where "DEFAULT_REDUCED_GUARDIAN_SET_SIZE = 5"
definition VAA_SIGNATURE_SIZE :: nat where "VAA_SIGNATURE_SIZE = 66"
definition VAA_START :: nat where "VAA_START = 46"
definition VAA_SPLIT_INDEX :: nat where "VAA_SPLIT_INDEX = 721"

definition VERIFY_ENCODED_VAA_COMPUTE_BUDGET :: nat where "VERIFY_ENCODED_VAA_COMPUTE_BUDGET = 350000"
definition INIT_ENCODED_VAA_COMPUTE_BUDGET :: nat where "INIT_ENCODED_VAA_COMPUTE_BUDGET = 3000"
definition WRITE_ENCODED_VAA_COMPUTE_BUDGET :: nat where "WRITE_ENCODED_VAA_COMPUTE_BUDGET = 3000"
definition CLOSE_ENCODED_VAA_COMPUTE_BUDGET :: nat where "CLOSE_ENCODED_VAA_COMPUTE_BUDGET = 30000"

definition getGuardianSetIndex :: "bytes \<Rightarrow> nat result" where
  "getGuardianSetIndex vaa = readUInt32BE vaa 1"

text \<open>A VAA shorter than six bytes has no signature count: the comparison with \<open>undefined\<close> is false,
  the product is \<open>NaN\<close>, which \<open>subarray\<close> reads as 0, and the assignment at index 5 of a short
  array has no effect.\<close>

definition trimSignatures :: "bytes \<Rightarrow> nat \<Rightarrow> bytes result" where
  "trimSignatures vaa n =
     (if 5 < length vaa then
        (let currentNumSignatures = unat (vaa ! 5) in
         if n > currentNumSignatures
         then Inl (JsError ''Resulting VAA can't have more signatures than the original VAA'')
         else Inr ((subarray vaa 0 (6 + n * VAA_SIGNATURE_SIZE)
                    @ drop (6 + currentNumSignatures * VAA_SIGNATURE_SIZE) vaa) [5 := of_nat n]))
      else Inr ((subarray vaa 0 (6 + n * VAA_SIGNATURE_SIZE) @ vaa) [5 := of_nat n]))"

record ('pk, 'kp, 'ix) wormhole_lib =
  wl_publicKey :: "'kp \<Rightarrow> 'pk"
  wl_createInstruction :: "'kp \<Rightarrow> nat \<Rightarrow> 'ix"
  wl_initEncodedVaa :: "'pk \<Rightarrow> 'ix"
  wl_writeEncodedVaa :: "nat \<Rightarrow> bytes \<Rightarrow> 'pk \<Rightarrow> 'ix"
  wl_verifyEncodedVaaV1 :: "'pk \<Rightarrow> 'pk \<Rightarrow> 'ix"
  wl_closeEncodedVaa :: "'pk \<Rightarrow> 'ix"
  wl_findProgramAddressSync :: "bytes list \<Rightarrow> 'pk"

text \<open>\<open>address.ts\<close>.\<close>

definition getGuardianSetPda :: "('pk, 'kp, 'ix) wormhole_lib \<Rightarrow> nat \<Rightarrow> 'pk" where
  "getGuardianSetPda M guardianSetIndex =
     wl_findProgramAddressSync M [ascii ''GuardianSet'', be_bytes 4 guardianSetIndex]"

record ('pk, 'kp, 'ix) VaaInstructionGroups =
  initInstructions :: "('ix, 'kp) InstructionWithEphemeralSigners list"
  writeFirstPartInstructions :: "('ix, 'kp) InstructionWithEphemeralSigners list"
  writeSecondPartAndVerifyInstructions :: "('ix, 'kp) InstructionWithEphemeralSigners list"
  closeInstructions :: "('ix, 'kp) InstructionWithEphemeralSigners list"
  encodedVaaAddress :: 'pk

definition buildEncodedVaaCreateInstruction ::
  "('pk, 'kp, 'ix) wormhole_lib \<Rightarrow> bytes \<Rightarrow> 'kp \<Rightarrow> ('ix, 'kp) InstructionWithEphemeralSigners" where
  "buildEncodedVaaCreateInstruction M vaa encodedVaaKeypair =
     (let encodedVaaSize = length vaa + VAA_START in
      \<lparr> i_instruction = wl_createInstruction M encodedVaaKeypair encodedVaaSize,
        i_signers = [encodedVaaKeypair], i_computeUnits = None \<rparr>)"

definition buildCloseEncodedVaaInstruction ::
  "('pk, 'kp, 'ix) wormhole_lib \<Rightarrow> 'pk \<Rightarrow> ('ix, 'kp) InstructionWithEphemeralSigners" where
  "buildCloseEncodedVaaInstruction M encodedVaa =
     \<lparr> i_instruction = wl_closeEncodedVaa M encodedVaa, i_signers = [],
       i_computeUnits = Some CLOSE_ENCODED_VAA_COMPUTE_BUDGET \<rparr>"

definition generateVaaInstructionGroups ::
  "('pk, 'kp, 'ix) wormhole_lib \<Rightarrow> 'kp \<Rightarrow> bytes \<Rightarrow> ('pk, 'kp, 'ix) VaaInstructionGroups result" where
  "generateVaaInstructionGroups M encodedVaaKeypair vaa =
     (let encodedVaa = wl_publicKey M encodedVaaKeypair in
      bindR (getGuardianSetIndex vaa) (\<lambda>guardianSetIndex.
      Inr \<lparr> initInstructions =
              [buildEncodedVaaCreateInstruction M vaa encodedVaaKeypair,
               \<lparr> i_instruction = wl_initEncodedVaa M encodedVaa, i_signers = [],
                 i_computeUnits = Some INIT_ENCODED_VAA_COMPUTE_BUDGET \<rparr>],
            writeFirstPartInstructions =
              [\<lparr> i_instruction = wl_writeEncodedVaa M 0 (subarray vaa 0 VAA_SPLIT_INDEX) encodedVaa,
                 i_signers = [], i_computeUnits = Some WRITE_ENCODED_VAA_COMPUTE_BUDGET \<rparr>],
            writeSecondPartAndVerifyInstructions =
              [\<lparr> i_instruction = wl_writeEncodedVaa M VAA_SPLIT_INDEX (drop VAA_SPLIT_INDEX vaa) encodedVaa,
                 i_signers = [], i_computeUnits = Some WRITE_ENCODED_VAA_COMPUTE_BUDGET \<rparr>,
               \<lparr> i_instruction = wl_verifyEncodedVaaV1 M (getGuardianSetPda M guardianSetIndex) encodedVaa,
                 i_signers = [], i_computeUnits = Some VERIFY_ENCODED_VAA_COMPUTE_BUDGET \<rparr>],
            closeInstructions =
              [\<lparr> i_instruction = wl_closeEncodedVaa M encodedVaa, i_signers = [],
                 i_computeUnits = Some CLOSE_ENCODED_VAA_COMPUTE_BUDGET \<rparr>],
            encodedVaaAddress = encodedVaa \<rparr>))"

record ('pk, 'kp, 'ix) posted_vaa =
  pv_encodedVaaAddress :: 'pk
  pv_postInstructions :: "('ix, 'kp) InstructionWithEphemeralSigners list"
  pv_closeInstructions :: "('ix, 'kp) InstructionWithEphemeralSigners list"

definition buildPostEncodedVaaInstructions ::
  "('pk, 'kp, 'ix) wormhole_lib \<Rightarrow> 'kp \<Rightarrow> bytes \<Rightarrow> ('pk, 'kp, 'ix) posted_vaa result" where
  "buildPostEncodedVaaInstructions M encodedVaaKeypair vaa =
     bindR (generateVaaInstructionGroups M encodedVaaKeypair vaa) (\<lambda>groups.
       Inr \<lparr> pv_encodedVaaAddress = encodedVaaAddress groups,
             pv_postInstructions = initInstructions groups @ writeFirstPartInstructions groups
               @ writeSecondPartAndVerifyInstructions groups,
             pv_closeInstructions = closeInstructions groups \<rparr>)"

record ('pk, 'kp, 'ix) posted_vaas =
  pvs_startEncodedVaaAddress :: 'pk
  pvs_endEncodedVaaAddress :: 'pk
  pvs_postInstructions :: "('ix, 'kp) InstructionWithEphemeralSigners list"
  pvs_closeInstructions :: "('ix, 'kp) InstructionWithEphemeralSigners list"

definition buildPostEncodedVaasForTwapInstructions ::
  "('pk, 'kp, 'ix) wormhole_lib \<Rightarrow> 'kp \<Rightarrow> 'kp \<Rightarrow> AccumulatorUpdateData \<Rightarrow> AccumulatorUpdateData
   \<Rightarrow> ('pk, 'kp, 'ix) posted_vaas result" where
  "buildPostEncodedVaasForTwapInstructions M startKeypair endKeypair startUpdateData endUpdateData =
     bindR (generateVaaInstructionGroups M startKeypair (a_vaa startUpdateData)) (\<lambda>startGroups.
     bindR (generateVaaInstructionGroups M endKeypair (a_vaa endUpdateData)) (\<lambda>endGroups.
       Inr \<lparr> pvs_startEncodedVaaAddress = encodedVaaAddress startGroups,
             pvs_endEncodedVaaAddress = encodedVaaAddress endGroups,
             pvs_postInstructions =
               initInstructions startGroups @ writeFirstPartInstructions startGroups
               @ initInstructions endGroups @ writeFirstPartInstructions endGroups
               @ writeSecondPartAndVerifyInstructions startGroups
               @ writeSecondPartAndVerifyInstructions endGroups,
             pvs_closeInstructions = closeInstructions startGroups @ closeInstructions endGroups \<rparr>))"

section \<open>Trimming signatures\<close>

text \<open>A VAA: version, guardian set index, number of signatures, signatures of 66 bytes, body.\<close>

definition vaa_bytes :: "byte \<Rightarrow> nat \<Rightarrow> bytes list \<Rightarrow> bytes \<Rightarrow> bytes" where
  "vaa_bytes version guardianSet sigs body =
     version # be_bytes 4 guardianSet @ of_nat (length sigs) # concat sigs @ body"

definition wf_sigs :: "bytes list \<Rightarrow> bool" where
  "wf_sigs sigs \<longleftrightarrow> length sigs < 256 \<and> list_all (\<lambda>s. length s = 66) sigs"

lemma length_concat_sigs: "list_all (\<lambda>s. length s = 66) sigs \<Longrightarrow> length (concat sigs) = 66 * length sigs"
  by (induction sigs) auto

lemma take_concat_sigs:
  "list_all (\<lambda>s. length s = 66) sigs \<Longrightarrow> take (66 * n) (concat sigs) = concat (take n sigs)"
proof (induction sigs arbitrary: n)
  case (Cons s sigs)
  then show ?case by (cases n) auto
qed simp

lemma vaa_head:
  obtains a b c d where "vaa_bytes version g sigs body
    = version # a # b # c # d # of_nat (length sigs) # concat sigs @ body" "be_bytes 4 g = [a, b, c, d]"
proof -
  have "length (be_bytes 4 g) = 4" by simp
  then obtain a b c d where "be_bytes 4 g = [a, b, c, d]"
    by (auto simp: numeral_eq_Suc length_Suc_conv simp del: length_be_bytes)
  then show thesis using that by (simp add: vaa_bytes_def)
qed

lemma trimSignatures_ok:
  assumes "wf_sigs sigs" "n \<le> length sigs"
  shows "trimSignatures (vaa_bytes version g sigs body) n = Inr (vaa_bytes version g (take n sigs) body)"
proof -
  obtain a b c d where v: "vaa_bytes version g sigs body
    = version # a # b # c # d # of_nat (length sigs) # concat sigs @ body" and g: "be_bytes 4 g = [a, b, c, d]"
    by (rule vaa_head)
  have count: "unat (of_nat (length sigs) :: byte) = length sigs" using assms(1) by (simp add: wf_sigs_def)
  have all: "list_all (\<lambda>s. length s = 66) sigs" using assms(1) by (simp add: wf_sigs_def)
  define H where "H = [version, a, b, c, d, of_nat (length sigs)]"
  have vH: "vaa_bytes version g sigs body = H @ concat sigs @ body" and lenH: "length H = 6"
    by (simp_all add: v H_def)
  have "subarray (vaa_bytes version g sigs body) 0 (6 + n * VAA_SIGNATURE_SIZE) = H @ concat (take n sigs)"
    using assms(2) take_concat_sigs [OF all, of n] length_concat_sigs [OF all]
    by (simp add: vH lenH subarray_def VAA_SIGNATURE_SIZE_def mult.commute)
  moreover have "drop (6 + length sigs * VAA_SIGNATURE_SIZE) (vaa_bytes version g sigs body) = body"
    by (simp add: vH lenH VAA_SIGNATURE_SIZE_def length_concat_sigs [OF all] mult.commute)
  moreover have "5 < length (vaa_bytes version g sigs body)" "vaa_bytes version g sigs body ! 5 = of_nat (length sigs)"
    by (simp_all add: v)
  ultimately have "trimSignatures (vaa_bytes version g sigs body) n
      = Inr ((H @ concat (take n sigs) @ body) [5 := of_nat n])"
    using count assms(2) by (simp add: trimSignatures_def Let_def)
  then show ?thesis
    using assms(2) by (simp add: H_def vaa_bytes_def g min_def)
qed

lemma trimSignatures_error:
  assumes "wf_sigs sigs" "length sigs < n"
  shows "trimSignatures (vaa_bytes version g sigs body) n
    = Inl (JsError ''Resulting VAA can't have more signatures than the original VAA'')"
proof -
  obtain a b c d where v: "vaa_bytes version g sigs body
    = version # a # b # c # d # of_nat (length sigs) # concat sigs @ body"
    by (rule vaa_head)
  then have "5 < length (vaa_bytes version g sigs body)" "vaa_bytes version g sigs body ! 5 = of_nat (length sigs)"
    by simp_all
  with assms show ?thesis by (simp add: trimSignatures_def wf_sigs_def Let_def)
qed

lemma getGuardianSetIndex_ok:
  assumes "g < 2 ^ 32"
  shows "getGuardianSetIndex (vaa_bytes version g sigs body) = Inr g"
  using readUIntBE_at [of "be_bytes 4 g" 4 "[version]" "of_nat (length sigs) # concat sigs @ body"] assms
  by (simp add: getGuardianSetIndex_def vaa_bytes_def)

section \<open>Encoded-VAA accounts\<close>

datatype vaa_status = Created | Draft | Verified

record encoded_vaa =
  ev_data :: bytes
  ev_status :: vaa_status

text \<open>What the Wormhole program documents: an account is created with room for the VAA after its
  header, initialised, written in place, verified against a guardian set, and closed. \<open>exec\<close> runs one
  instruction and \<open>view\<close> reads the accounts of the program; \<open>valid\<close> says that the signatures of
  a VAA are those of its guardian set.\<close>

locale wormhole_core =
  fixes M :: "('pk, 'kp, 'ix) wormhole_lib"
    and exec :: "'ix \<Rightarrow> 'st \<Rightarrow> 'st option"
    and view :: "'st \<Rightarrow> 'pk \<Rightarrow> encoded_vaa option"
    and valid :: "bytes \<Rightarrow> bool"
  assumes exec_create: "view s (wl_publicKey M kp) = None \<Longrightarrow>
      \<exists>s'. exec (wl_createInstruction M kp (n + VAA_START)) s = Some s' \<and>
        view s' = (view s)(wl_publicKey M kp \<mapsto> \<lparr> ev_data = replicate n 0, ev_status = Created \<rparr>)"
    and exec_init: "view s a = Some x \<Longrightarrow> ev_status x = Created \<Longrightarrow>
      \<exists>s'. exec (wl_initEncodedVaa M a) s = Some s' \<and> view s' = (view s)(a \<mapsto> x\<lparr> ev_status := Draft \<rparr>)"
    and exec_write: "view s a = Some x \<Longrightarrow> ev_status x = Draft \<Longrightarrow> buf_set (ev_data x) d i = Inr b \<Longrightarrow>
      \<exists>s'. exec (wl_writeEncodedVaa M i d a) s = Some s' \<and> view s' = (view s)(a \<mapsto> x\<lparr> ev_data := b \<rparr>)"
    and exec_verify: "view s a = Some x \<Longrightarrow> ev_status x = Draft \<Longrightarrow> getGuardianSetIndex (ev_data x) = Inr g \<Longrightarrow>
      valid (ev_data x) \<Longrightarrow>
      \<exists>s'. exec (wl_verifyEncodedVaaV1 M (getGuardianSetPda M g) a) s = Some s' \<and>
        view s' = (view s)(a \<mapsto> x\<lparr> ev_status := Verified \<rparr>)"
    and exec_close: "view s a = Some x \<Longrightarrow>
      \<exists>s'. exec (wl_closeEncodedVaa M a) s = Some s' \<and> view s' = (view s)(a := None)"

fun run :: "('ix \<Rightarrow> 'st \<Rightarrow> 'st option) \<Rightarrow> 'ix list \<Rightarrow> 'st \<Rightarrow> 'st option" where
  "run exec [] s = Some s"
| "run exec (ix # ixs) s = Option.bind (exec ix s) (run exec ixs)"

lemma run_append: "run exec (xs @ ys) s = Option.bind (run exec xs s) (run exec ys)"
  by (induction xs arbitrary: s) (auto split: bind_splits)

lemma run_append_Some: "run exec xs s = Some t \<Longrightarrow> run exec (xs @ ys) s = run exec ys t"
  by (simp add: run_append)

context wormhole_core
begin

text \<open>The two groups of instructions, in the state they leave.\<close>

lemma run_first_part:
  assumes "view s (wl_publicKey M kp) = None" "VAA_SPLIT_INDEX \<le> length vaa"
    and "generateVaaInstructionGroups M kp vaa = Inr groups"
  shows "\<exists>s'. run exec (map i_instruction (initInstructions groups @ writeFirstPartInstructions groups)) s = Some s' \<and>
    view s' = (view s)(wl_publicKey M kp \<mapsto> \<lparr> ev_data = take VAA_SPLIT_INDEX vaa @ replicate (length vaa - VAA_SPLIT_INDEX) 0,
      ev_status = Draft \<rparr>)"
proof -
  let ?a = "wl_publicKey M kp"
  obtain s1 where s1: "exec (wl_createInstruction M kp (length vaa + VAA_START)) s = Some s1"
    "view s1 = (view s)(?a \<mapsto> \<lparr> ev_data = replicate (length vaa) 0, ev_status = Created \<rparr>)"
    using exec_create [OF assms(1)] by blast
  have "view s1 ?a = Some \<lparr> ev_data = replicate (length vaa) 0, ev_status = Created \<rparr>" by (simp add: s1)
  from exec_init [OF this] obtain s2 where s2: "exec (wl_initEncodedVaa M ?a) s1 = Some s2"
    "view s2 = (view s)(?a \<mapsto> \<lparr> ev_data = replicate (length vaa) 0, ev_status = Draft \<rparr>)"
    by (auto simp: s1)
  have set: "buf_set (replicate (length vaa) 0) (subarray vaa 0 VAA_SPLIT_INDEX) 0
      = Inr (take VAA_SPLIT_INDEX vaa @ replicate (length vaa - VAA_SPLIT_INDEX) 0)"
    using assms(2) by (simp add: buf_set_def subarray_def)
  have "view s2 ?a = Some \<lparr> ev_data = replicate (length vaa) 0, ev_status = Draft \<rparr>" by (simp add: s2)
  from exec_write [OF this _ ] set obtain s3 where "exec (wl_writeEncodedVaa M 0 (subarray vaa 0 VAA_SPLIT_INDEX) ?a) s2 = Some s3"
    "view s3 = (view s)(?a \<mapsto> \<lparr> ev_data = take VAA_SPLIT_INDEX vaa @ replicate (length vaa - VAA_SPLIT_INDEX) 0, ev_status = Draft \<rparr>)"
    by (fastforce simp: s2)
  with s1 s2 assms(3) show ?thesis
    by (auto simp: generateVaaInstructionGroups_def Let_def bindR_Inr_iff buildEncodedVaaCreateInstruction_def)
qed

lemma run_second_part:
  assumes "view s (wl_publicKey M kp) = Some \<lparr> ev_data = take VAA_SPLIT_INDEX vaa @ replicate (length vaa - VAA_SPLIT_INDEX) 0,
      ev_status = Draft \<rparr>" "VAA_SPLIT_INDEX \<le> length vaa" "valid vaa"
    and "generateVaaInstructionGroups M kp vaa = Inr groups"
  shows "\<exists>s'. run exec (map i_instruction (writeSecondPartAndVerifyInstructions groups)) s = Some s' \<and>
    view s' = (view s)(wl_publicKey M kp \<mapsto> \<lparr> ev_data = vaa, ev_status = Verified \<rparr>)"
proof -
  let ?a = "wl_publicKey M kp"
  from assms(4) obtain g where g: "getGuardianSetIndex vaa = Inr g"
    by (auto simp: generateVaaInstructionGroups_def Let_def bindR_Inr_iff)
  have "buf_set (take VAA_SPLIT_INDEX vaa @ replicate (length vaa - VAA_SPLIT_INDEX) 0) (drop VAA_SPLIT_INDEX vaa) VAA_SPLIT_INDEX = Inr vaa"
    using assms(2) by (simp add: buf_set_def)
  with exec_write [OF assms(1)] obtain s1 where s1: "exec (wl_writeEncodedVaa M VAA_SPLIT_INDEX (drop VAA_SPLIT_INDEX vaa) ?a) s = Some s1"
    "view s1 = (view s)(?a \<mapsto> \<lparr> ev_data = vaa, ev_status = Draft \<rparr>)" by fastforce
  have "view s1 ?a = Some \<lparr> ev_data = vaa, ev_status = Draft \<rparr>" by (simp add: s1)
  from exec_verify [OF this] g assms(3) obtain s2 where "exec (wl_verifyEncodedVaaV1 M (getGuardianSetPda M g) ?a) s1 = Some s2"
    "view s2 = (view s)(?a \<mapsto> \<lparr> ev_data = vaa, ev_status = Verified \<rparr>)" by (auto simp: s1)
  with s1 g assms(4) show ?thesis
    by (auto simp: generateVaaInstructionGroups_def Let_def)
qed

lemma run_close:
  assumes "view s (wl_publicKey M kp) = Some x" "generateVaaInstructionGroups M kp vaa = Inr groups"
  shows "\<exists>s'. run exec (map i_instruction (closeInstructions groups)) s = Some s' \<and>
    view s' = (view s)(wl_publicKey M kp := None)"
  using exec_close [OF assms(1)] assms(2)
  by (auto simp: generateVaaInstructionGroups_def Let_def bindR_Inr_iff)

lemma post_vaa:
  assumes "view s (wl_publicKey M kp) = None" "VAA_SPLIT_INDEX \<le> length vaa" "valid vaa"
    "buildPostEncodedVaaInstructions M kp vaa = Inr posted"
  shows "\<exists>s1 s2. run exec (map i_instruction (pv_postInstructions posted)) s = Some s1 \<and>
    view s1 = (view s)(pv_encodedVaaAddress posted \<mapsto> \<lparr> ev_data = vaa, ev_status = Verified \<rparr>) \<and>
    run exec (map i_instruction (pv_closeInstructions posted)) s1 = Some s2 \<and> view s2 = view s"
proof -
  let ?a = "wl_publicKey M kp"
  from assms(4) obtain groups where g: "generateVaaInstructionGroups M kp vaa = Inr groups"
    and p: "posted = \<lparr> pv_encodedVaaAddress = encodedVaaAddress groups,
             pv_postInstructions = initInstructions groups @ writeFirstPartInstructions groups
               @ writeSecondPartAndVerifyInstructions groups,
             pv_closeInstructions = closeInstructions groups \<rparr>"
    by (auto simp: buildPostEncodedVaaInstructions_def bindR_Inr_iff)
  have addr: "encodedVaaAddress groups = ?a"
    using g by (auto simp: generateVaaInstructionGroups_def Let_def bindR_Inr_iff)
  from run_first_part [OF assms(1,2) g] obtain sm where
    sm: "run exec (map i_instruction (initInstructions groups @ writeFirstPartInstructions groups)) s = Some sm"
    "view sm = (view s)(?a \<mapsto> \<lparr> ev_data = take VAA_SPLIT_INDEX vaa @ replicate (length vaa - VAA_SPLIT_INDEX) 0, ev_status = Draft \<rparr>)"
    by blast
  then have "view sm ?a = Some \<lparr> ev_data = take VAA_SPLIT_INDEX vaa @ replicate (length vaa - VAA_SPLIT_INDEX) 0, ev_status = Draft \<rparr>"
    by simp
  from run_second_part [OF this assms(2,3) g] obtain s1 where
    s1: "run exec (map i_instruction (writeSecondPartAndVerifyInstructions groups)) sm = Some s1"
    "view s1 = (view s)(?a \<mapsto> \<lparr> ev_data = vaa, ev_status = Verified \<rparr>)" by (auto simp: sm)
  then have "view s1 ?a = Some \<lparr> ev_data = vaa, ev_status = Verified \<rparr>" by simp
  from run_close [OF this g] obtain s2 where
    s2: "run exec (map i_instruction (closeInstructions groups)) s1 = Some s2" "view s2 = (view s)(?a := None)"
    by (auto simp: s1)
  have "run exec (map i_instruction (pv_postInstructions posted)) s = Some s1"
    using run_append_Some [OF sm(1), of "map i_instruction (writeSecondPartAndVerifyInstructions groups)"] s1(1)
    by (simp add: p)
  moreover have "view s2 = view s" using s2(2) assms(1) by auto
  ultimately show ?thesis using s1(2) s2(1) by (simp add: p addr)
qed

text \<open>Two VAAs in the interleaved order of the TWAP instructions.\<close>

lemma post_twap_vaas:
  assumes fresh: "view s (wl_publicKey M k1) = None" "view s (wl_publicKey M k2) = None"
    "wl_publicKey M k1 \<noteq> wl_publicKey M k2"
    and len: "VAA_SPLIT_INDEX \<le> length (a_vaa d1)" "VAA_SPLIT_INDEX \<le> length (a_vaa d2)"
    and ok: "valid (a_vaa d1)" "valid (a_vaa d2)"
    and build: "buildPostEncodedVaasForTwapInstructions M k1 k2 d1 d2 = Inr posted"
  shows "\<exists>s1. run exec (map i_instruction (pvs_postInstructions posted)) s = Some s1 \<and>
    view s1 = (view s)(pvs_startEncodedVaaAddress posted \<mapsto> \<lparr> ev_data = a_vaa d1, ev_status = Verified \<rparr>,
                       pvs_endEncodedVaaAddress posted \<mapsto> \<lparr> ev_data = a_vaa d2, ev_status = Verified \<rparr>)"
proof -
  let ?a = "wl_publicKey M k1" and ?b = "wl_publicKey M k2"
  let ?half = "\<lambda>vaa. \<lparr> ev_data = take VAA_SPLIT_INDEX vaa @ replicate (length vaa - VAA_SPLIT_INDEX) 0, ev_status = Draft \<rparr>"
  from build obtain g1 g2 where g: "generateVaaInstructionGroups M k1 (a_vaa d1) = Inr g1"
    "generateVaaInstructionGroups M k2 (a_vaa d2) = Inr g2"
    and p: "pvs_postInstructions posted = (initInstructions g1 @ writeFirstPartInstructions g1)
               @ (initInstructions g2 @ writeFirstPartInstructions g2)
               @ writeSecondPartAndVerifyInstructions g1 @ writeSecondPartAndVerifyInstructions g2"
      "pvs_startEncodedVaaAddress posted = encodedVaaAddress g1" "pvs_endEncodedVaaAddress posted = encodedVaaAddress g2"
    by (auto simp: buildPostEncodedVaasForTwapInstructions_def bindR_Inr_iff)
  have addr: "encodedVaaAddress g1 = ?a" "encodedVaaAddress g2 = ?b"
    using g by (auto simp: generateVaaInstructionGroups_def Let_def bindR_Inr_iff)
  from run_first_part [OF fresh(1) len(1) g(1)] obtain t1 where
    t1: "run exec (map i_instruction (initInstructions g1 @ writeFirstPartInstructions g1)) s = Some t1"
    "view t1 = (view s)(?a \<mapsto> ?half (a_vaa d1))" by blast
  have "view t1 ?b = None" using fresh by (simp add: t1)
  from run_first_part [OF this len(2) g(2)] obtain t2 where
    t2: "run exec (map i_instruction (initInstructions g2 @ writeFirstPartInstructions g2)) t1 = Some t2"
    "view t2 = (view s)(?a \<mapsto> ?half (a_vaa d1), ?b \<mapsto> ?half (a_vaa d2))" by (auto simp: t1)
  have "view t2 ?a = Some (?half (a_vaa d1))" using fresh(3) by (simp add: t2)
  from run_second_part [OF this len(1) ok(1) g(1)] obtain t3 where
    t3: "run exec (map i_instruction (writeSecondPartAndVerifyInstructions g1)) t2 = Some t3"
    "view t3 = (view t2)(?a \<mapsto> \<lparr> ev_data = a_vaa d1, ev_status = Verified \<rparr>)" by blast
  have "view t3 ?b = Some (?half (a_vaa d2))" using fresh(3) by (simp add: t2 t3)
  from run_second_part [OF this len(2) ok(2) g(2)] obtain t4 where
    t4: "run exec (map i_instruction (writeSecondPartAndVerifyInstructions g2)) t3 = Some t4"
    "view t4 = (view t3)(?b \<mapsto> \<lparr> ev_data = a_vaa d2, ev_status = Verified \<rparr>)" by blast
  have "run exec (map i_instruction (pvs_postInstructions posted)) s = Some t4"
    using t1(1) t2(1) t3(1) t4(1) unfolding p(1) by (simp only: map_append run_append bind.bind_lunit)
  moreover have "view t4 = (view s)(?a \<mapsto> \<lparr> ev_data = a_vaa d1, ev_status = Verified \<rparr>, ?b \<mapsto> \<lparr> ev_data = a_vaa d2, ev_status = Verified \<rparr>)"
    using fresh(3) by (auto simp: t2 t3 t4)
  ultimately show ?thesis by (simp add: p addr)
qed

end

section \<open>An instance\<close>

text \<open>The program as a machine over its documented instructions; keys are numbers, and every VAA counts
  as signed.\<close>

datatype wormhole_call =
    CreateEncodedVaa nat nat
  | InitEncodedVaa nat
  | WriteEncodedVaa nat bytes nat
  | VerifyEncodedVaaV1 nat nat
  | CloseEncodedVaa nat

definition sample_wormhole_lib :: "(nat, nat, wormhole_call) wormhole_lib" where
  "sample_wormhole_lib = \<lparr> wl_publicKey = (\<lambda>k. k), wl_createInstruction = CreateEncodedVaa,
     wl_initEncodedVaa = InitEncodedVaa, wl_writeEncodedVaa = WriteEncodedVaa,
     wl_verifyEncodedVaaV1 = VerifyEncodedVaaV1, wl_closeEncodedVaa = CloseEncodedVaa,
     wl_findProgramAddressSync = (\<lambda>seeds. le_nat (concat seeds)) \<rparr>"

fun sample_exec :: "wormhole_call \<Rightarrow> (nat \<Rightarrow> encoded_vaa option) \<Rightarrow> (nat \<Rightarrow> encoded_vaa option) option" where
  "sample_exec (CreateEncodedVaa k n) st =
     (if st k = None then Some (st(k \<mapsto> \<lparr> ev_data = replicate (n - VAA_START) 0, ev_status = Created \<rparr>)) else None)"
| "sample_exec (InitEncodedVaa a) st =
     (case st a of Some x \<Rightarrow> if ev_status x = Created then Some (st(a \<mapsto> x\<lparr> ev_status := Draft \<rparr>)) else None
      | None \<Rightarrow> None)"
| "sample_exec (WriteEncodedVaa i d a) st =
     (case st a of Some x \<Rightarrow> if ev_status x = Draft
          then (case buf_set (ev_data x) d i of Inr b \<Rightarrow> Some (st(a \<mapsto> x\<lparr> ev_data := b \<rparr>)) | Inl _ \<Rightarrow> None) else None
      | None \<Rightarrow> None)"
| "sample_exec (VerifyEncodedVaaV1 g a) st =
     (case st a of Some x \<Rightarrow> if ev_status x = Draft then Some (st(a \<mapsto> x\<lparr> ev_status := Verified \<rparr>)) else None
      | None \<Rightarrow> None)"
| "sample_exec (CloseEncodedVaa a) st = (case st a of Some _ \<Rightarrow> Some (st(a := None)) | None \<Rightarrow> None)"

interpretation sample_wormhole: wormhole_core sample_wormhole_lib sample_exec "\<lambda>st. st" "\<lambda>_. True"
  by unfold_locales (auto simp: sample_wormhole_lib_def)

section \<open>Properties\<close>

text \<open>\<open>trimSignatures\<close> keeps the first \<open>n\<close> signatures, the guardian set index and the body, and
  writes the new count; asking for more signatures than there are throws.\<close>

theorem trimSignatures_correct:
  assumes "wf_sigs sigs"
  shows "trimSignatures (vaa_bytes version g sigs body) n =
    (if n \<le> length sigs then Inr (vaa_bytes version g (take n sigs) body)
     else Inl (JsError ''Resulting VAA can't have more signatures than the original VAA''))"
  using trimSignatures_ok [OF assms, of n] trimSignatures_error [OF assms, of n] by simp

theorem trimSignatures_correct_witness:
  "trimSignatures (vaa_bytes 1 4 [replicate 66 1, replicate 66 2] [9]) 1 = Inr (vaa_bytes 1 4 [replicate 66 1] [9])"
  using trimSignatures_correct [of "[replicate 66 1, replicate 66 2]" 1 4 "[9]" 1]
  by (simp add: wf_sigs_def)

text \<open>C21. Posting a VAA: from any state in which the new account does not exist, executing the post
  instructions in order succeeds and leaves an account that holds exactly the VAA and is verified,
  touching no other account; the close instructions then restore the accounts as they were.\<close>

theorem post_encoded_vaa_correct:
  assumes "wormhole_core M exec view valid" "view s (wl_publicKey M kp) = None"
    "VAA_SPLIT_INDEX \<le> length vaa" "valid vaa" "buildPostEncodedVaaInstructions M kp vaa = Inr posted"
  shows "\<exists>s1 s2. run exec (map i_instruction (pv_postInstructions posted)) s = Some s1 \<and>
    view s1 = (view s)(pv_encodedVaaAddress posted \<mapsto> \<lparr> ev_data = vaa, ev_status = Verified \<rparr>) \<and>
    run exec (map i_instruction (pv_closeInstructions posted)) s1 = Some s2 \<and> view s2 = view s"
  using wormhole_core.post_vaa [OF assms] .

definition sample_vaa :: bytes where "sample_vaa = replicate 800 1"

lemma sample_posted: "\<exists>posted. buildPostEncodedVaaInstructions sample_wormhole_lib 3 sample_vaa = Inr posted"
  by (simp add: buildPostEncodedVaaInstructions_def generateVaaInstructionGroups_def getGuardianSetIndex_def
      readUIntBE_def sample_vaa_def Let_def)

theorem post_encoded_vaa_correct_witness:
  "\<exists>posted s1 s2. buildPostEncodedVaaInstructions sample_wormhole_lib 3 sample_vaa = Inr posted \<and>
    run sample_exec (map i_instruction (pv_postInstructions posted)) (\<lambda>_. None) = Some s1 \<and>
    s1 = (\<lambda>_. None)(pv_encodedVaaAddress posted \<mapsto> \<lparr> ev_data = sample_vaa, ev_status = Verified \<rparr>) \<and>
    run sample_exec (map i_instruction (pv_closeInstructions posted)) s1 = Some s2 \<and> s2 = (\<lambda>_. None)"
proof -
  obtain posted where p: "buildPostEncodedVaaInstructions sample_wormhole_lib 3 sample_vaa = Inr posted"
    using sample_posted by blast
  from post_encoded_vaa_correct [OF sample_wormhole.wormhole_core_axioms _ _ _ p, of "\<lambda>_. None"] p
  show ?thesis by (simp add: sample_vaa_def VAA_SPLIT_INDEX_def)
qed

text \<open>The interleaved instructions for the two VAAs of a TWAP leave both accounts holding exactly
  their VAAs, verified.\<close>

theorem post_twap_vaas_correct:
  assumes "wormhole_core M exec view valid" "view s (wl_publicKey M k1) = None" "view s (wl_publicKey M k2) = None"
    "wl_publicKey M k1 \<noteq> wl_publicKey M k2" "VAA_SPLIT_INDEX \<le> length (a_vaa d1)" "VAA_SPLIT_INDEX \<le> length (a_vaa d2)"
    "valid (a_vaa d1)" "valid (a_vaa d2)" "buildPostEncodedVaasForTwapInstructions M k1 k2 d1 d2 = Inr posted"
  shows "\<exists>s1. run exec (map i_instruction (pvs_postInstructions posted)) s = Some s1 \<and>
    view s1 = (view s)(pvs_startEncodedVaaAddress posted \<mapsto> \<lparr> ev_data = a_vaa d1, ev_status = Verified \<rparr>,
                       pvs_endEncodedVaaAddress posted \<mapsto> \<lparr> ev_data = a_vaa d2, ev_status = Verified \<rparr>)"
  using wormhole_core.post_twap_vaas [OF assms] .

theorem post_twap_vaas_correct_witness:
  "\<exists>posted s1. buildPostEncodedVaasForTwapInstructions sample_wormhole_lib 3 4
      \<lparr> a_vaa = sample_vaa, a_updates = [] \<rparr> \<lparr> a_vaa = 2 # sample_vaa, a_updates = [] \<rparr> = Inr posted \<and>
    run sample_exec (map i_instruction (pvs_postInstructions posted)) (\<lambda>_. None) = Some s1 \<and>
    s1 = (\<lambda>_. None)(pvs_startEncodedVaaAddress posted \<mapsto> \<lparr> ev_data = sample_vaa, ev_status = Verified \<rparr>,
                    pvs_endEncodedVaaAddress posted \<mapsto> \<lparr> ev_data = 2 # sample_vaa, ev_status = Verified \<rparr>)"
proof -
  have "\<exists>posted. buildPostEncodedVaasForTwapInstructions sample_wormhole_lib 3 4
      \<lparr> a_vaa = sample_vaa, a_updates = [] \<rparr> \<lparr> a_vaa = 2 # sample_vaa, a_updates = [] \<rparr> = Inr posted"
    by (simp add: buildPostEncodedVaasForTwapInstructions_def generateVaaInstructionGroups_def getGuardianSetIndex_def
      readUIntBE_def sample_vaa_def Let_def)
  then obtain posted where p: "buildPostEncodedVaasForTwapInstructions sample_wormhole_lib 3 4
      \<lparr> a_vaa = sample_vaa, a_updates = [] \<rparr> \<lparr> a_vaa = 2 # sample_vaa, a_updates = [] \<rparr> = Inr posted" ..
  from post_twap_vaas_correct [OF sample_wormhole.wormhole_core_axioms _ _ _ _ _ _ _ p, of "\<lambda>_. None"] p
  show ?thesis by (simp add: sample_vaa_def VAA_SPLIT_INDEX_def sample_wormhole_lib_def)
qed

end
