(* ===== verification/Solana_Receiver.thy ===== *)
theory Solana_Receiver
  imports Vaa
begin

text \<open>
  \<open>pyth_solana_receiver/src/PythSolanaReceiver.ts\<close>: the instructions that post price updates to the
  Pyth receiver program, and the \<open>PythTransactionBuilder\<close> that accumulates them on top of the
  \<open>TransactionBuilder\<close>.

  The record \<open>R\<close> holds the instruction constructors of the three Anchor programs and
  \<open>PublicKey.findProgramAddressSync\<close> for each program. \<open>new Keypair()\<close> draws from the sequence
  \<open>fresh\<close>: a function that makes key pairs takes the index of the next one and returns the index
  after the last one. Price messages are read with the parameter \<open>bn\<close> of \<open>Accumulator\<close>.
\<close>

section \<open>Addresses\<close>

record ('pk, 'kp, 'ix) receiver_lib =
  rl_wormhole :: "('pk, 'kp, 'ix) wormhole_lib"
  rl_postUpdateAtomic :: "bytes \<Rightarrow> update \<Rightarrow> nat \<Rightarrow> 'pk \<Rightarrow> 'pk \<Rightarrow> 'pk \<Rightarrow> 'pk \<Rightarrow> 'ix"
  rl_postUpdate :: "update \<Rightarrow> nat \<Rightarrow> 'pk \<Rightarrow> 'pk \<Rightarrow> 'pk \<Rightarrow> 'pk \<Rightarrow> 'ix"
  rl_postTwapUpdate :: "update \<Rightarrow> update \<Rightarrow> nat \<Rightarrow> 'pk \<Rightarrow> 'pk \<Rightarrow> 'pk \<Rightarrow> 'pk \<Rightarrow> 'pk \<Rightarrow> 'ix"
  rl_updatePriceFeed :: "update \<Rightarrow> nat \<Rightarrow> nat \<Rightarrow> bytes \<Rightarrow> 'pk \<Rightarrow> 'pk \<Rightarrow> 'pk \<Rightarrow> 'pk \<Rightarrow> 'ix"
  rl_reclaimRent :: "'pk \<Rightarrow> 'ix"
  rl_reclaimTwapRent :: "'pk \<Rightarrow> 'ix"
  rl_receiverAddress :: "bytes list \<Rightarrow> 'pk"
  rl_pushOracleAddress :: "bytes list \<Rightarrow> 'pk"

definition POST_UPDATE_ATOMIC_COMPUTE_BUDGET :: nat where "POST_UPDATE_ATOMIC_COMPUTE_BUDGET = 170000"
definition POST_UPDATE_COMPUTE_BUDGET :: nat where "POST_UPDATE_COMPUTE_BUDGET = 35000"
definition POST_TWAP_UPDATE_COMPUTE_BUDGET :: nat where "POST_TWAP_UPDATE_COMPUTE_BUDGET = 50000"
definition UPDATE_PRICE_FEED_COMPUTE_BUDGET :: nat where "UPDATE_PRICE_FEED_COMPUTE_BUDGET = 55000"

definition getTreasuryPda :: "('pk, 'kp, 'ix) receiver_lib \<Rightarrow> nat \<Rightarrow> 'pk" where
  "getTreasuryPda R treasuryId = rl_receiverAddress R [ascii ''treasury'', [of_nat treasuryId]]"

definition getConfigPda :: "('pk, 'kp, 'ix) receiver_lib \<Rightarrow> 'pk" where
  "getConfigPda R = rl_receiverAddress R [ascii ''config'']"

text \<open>The random index is below 256.\<close>

definition getRandomTreasuryId :: "nat \<Rightarrow> nat" where
  "getRandomTreasuryId randomInt = randomInt"

text \<open>A feed id as a buffer (\<open>Inl\<close>) or as a string (\<open>Inr\<close>).\<close>

definition getPriceFeedAccountForProgram ::
  "('pk, 'kp, 'ix) receiver_lib \<Rightarrow> nat \<Rightarrow> bytes + string \<Rightarrow> 'pk result" where
  "getPriceFeedAccountForProgram R shardId priceFeedId =
     (let feed = (case priceFeedId of
            Inl b \<Rightarrow> b
          | Inr str \<Rightarrow> if starts_with ''0x'' str then from_hex (drop 2 str) else from_hex str)
      in if length feed \<noteq> 32 then Inl (JsError ''Feed ID should be 32 bytes long'')
         else if shardId \<ge> 65536 then Inl RangeError
         else Inr (rl_pushOracleAddress R [le_bytes 2 shardId, feed]))"

section \<open>Instructions\<close>

type_synonym ('ix, 'kp) ixs = "('ix, 'kp) InstructionWithEphemeralSigners list"

record ('pk, 'kp, 'ix) posted =
  po_postInstructions :: "('ix, 'kp) ixs"
  po_accounts :: "string \<rightharpoonup> 'pk"
  po_closeInstructions :: "('ix, 'kp) ixs"

definition nothing_posted :: "('pk, 'kp, 'ix) posted" where
  "nothing_posted = \<lparr> po_postInstructions = [], po_accounts = Map.empty, po_closeInstructions = [] \<rparr>"

definition buildClosePriceUpdateInstruction ::
  "('pk, 'kp, 'ix) receiver_lib \<Rightarrow> 'pk \<Rightarrow> ('ix, 'kp) InstructionWithEphemeralSigners" where
  "buildClosePriceUpdateInstruction R priceUpdateAccount =
     \<lparr> i_instruction = rl_reclaimRent R priceUpdateAccount, i_signers = [], i_computeUnits = None \<rparr>"

definition buildCloseTwapUpdateInstruction ::
  "('pk, 'kp, 'ix) receiver_lib \<Rightarrow> 'pk \<Rightarrow> ('ix, 'kp) InstructionWithEphemeralSigners" where
  "buildCloseTwapUpdateInstruction R twapUpdateAccount =
     \<lparr> i_instruction = rl_reclaimTwapRent R twapUpdateAccount, i_signers = [], i_computeUnits = None \<rparr>"

text \<open>The key of a feed in the account maps.\<close>

definition feed_key :: "bytes \<Rightarrow> string" where
  "feed_key feedId = ''0x'' @ to_hex feedId"

text \<open>One iteration of the inner loop of the first two functions below: \<open>instr\<close> is the instruction for
  the update and the new account.\<close>

fun post_updates ::
  "('pk, 'kp, 'ix) receiver_lib \<Rightarrow> (bytes \<Rightarrow> int) \<Rightarrow> (nat \<Rightarrow> 'kp) \<Rightarrow> (update \<Rightarrow> 'pk \<Rightarrow> 'ix) \<Rightarrow> nat
   \<Rightarrow> update list \<Rightarrow> nat \<Rightarrow> ('pk, 'kp, 'ix) posted \<Rightarrow> (nat \<times> ('pk, 'kp, 'ix) posted) result" where
  "post_updates R bn fresh instr budget [] n acc = Inr (n, acc)"
| "post_updates R bn fresh instr budget (u # us) n acc =
     (let priceUpdateKeypair = fresh n; account = wl_publicKey (rl_wormhole R) priceUpdateKeypair in
      bindR (parsePriceFeedMessage bn (u_message u)) (\<lambda>m.
      post_updates R bn fresh instr budget us (Suc n)
        \<lparr> po_postInstructions = po_postInstructions acc @
            [\<lparr> i_instruction = instr u account, i_signers = [priceUpdateKeypair],
               i_computeUnits = Some budget \<rparr>],
          po_accounts = (po_accounts acc)(feed_key (pf_feedId m) \<mapsto> account),
          po_closeInstructions = po_closeInstructions acc @ [buildClosePriceUpdateInstruction R account] \<rparr>))"

fun buildPostPriceUpdateAtomicInstructions ::
  "('pk, 'kp, 'ix) receiver_lib \<Rightarrow> (bytes \<Rightarrow> int) \<Rightarrow> (nat \<Rightarrow> 'kp) \<Rightarrow> nat \<Rightarrow> string list \<Rightarrow> nat
   \<Rightarrow> ('pk, 'kp, 'ix) posted \<Rightarrow> (nat \<times> ('pk, 'kp, 'ix) posted) result" where
  "buildPostPriceUpdateAtomicInstructions R bn fresh treasuryId [] n acc = Inr (n, acc)"
| "buildPostPriceUpdateAtomicInstructions R bn fresh treasuryId (d # ds) n acc =
     bindR (parseAccumulatorUpdateData (from_base64 d)) (\<lambda>accumulatorUpdateData.
     bindR (getGuardianSetIndex (a_vaa accumulatorUpdateData)) (\<lambda>guardianSetIndex.
     bindR (trimSignatures (a_vaa accumulatorUpdateData) DEFAULT_REDUCED_GUARDIAN_SET_SIZE) (\<lambda>trimmedVaa.
     bindR (post_updates R bn fresh
        (\<lambda>u account. rl_postUpdateAtomic R trimmedVaa u treasuryId account (getTreasuryPda R treasuryId)
           (getConfigPda R) (getGuardianSetPda (rl_wormhole R) guardianSetIndex))
        POST_UPDATE_ATOMIC_COMPUTE_BUDGET (a_updates accumulatorUpdateData) n acc) (\<lambda>(n', acc').
       buildPostPriceUpdateAtomicInstructions R bn fresh treasuryId ds n' acc'))))"

text \<open>The statements that the next two functions share: the VAA of an update is posted first.\<close>

definition with_vaa :: "('pk, 'kp, 'ix) posted_vaa \<Rightarrow> ('pk, 'kp, 'ix) posted \<Rightarrow> ('pk, 'kp, 'ix) posted" where
  "with_vaa pv acc = acc\<lparr> po_postInstructions := po_postInstructions acc @ pv_postInstructions pv,
     po_closeInstructions := po_closeInstructions acc @ pv_closeInstructions pv \<rparr>"

fun buildPostPriceUpdateInstructions ::
  "('pk, 'kp, 'ix) receiver_lib \<Rightarrow> (bytes \<Rightarrow> int) \<Rightarrow> (nat \<Rightarrow> 'kp) \<Rightarrow> nat \<Rightarrow> string list \<Rightarrow> nat
   \<Rightarrow> ('pk, 'kp, 'ix) posted \<Rightarrow> (nat \<times> ('pk, 'kp, 'ix) posted) result" where
  "buildPostPriceUpdateInstructions R bn fresh treasuryId [] n acc = Inr (n, acc)"
| "buildPostPriceUpdateInstructions R bn fresh treasuryId (d # ds) n acc =
     bindR (parseAccumulatorUpdateData (from_base64 d)) (\<lambda>accumulatorUpdateData.
     bindR (buildPostEncodedVaaInstructions (rl_wormhole R) (fresh n) (a_vaa accumulatorUpdateData)) (\<lambda>pv.
     bindR (post_updates R bn fresh
        (\<lambda>u account. rl_postUpdate R u treasuryId (pv_encodedVaaAddress pv) account (getTreasuryPda R treasuryId)
           (getConfigPda R))
        POST_UPDATE_COMPUTE_BUDGET (a_updates accumulatorUpdateData) (Suc n) (with_vaa pv acc)) (\<lambda>(n', acc').
       buildPostPriceUpdateInstructions R bn fresh treasuryId ds n' acc')))"

fun post_twaps ::
  "('pk, 'kp, 'ix) receiver_lib \<Rightarrow> (bytes \<Rightarrow> int) \<Rightarrow> (nat \<Rightarrow> 'kp) \<Rightarrow> nat \<Rightarrow> 'pk \<Rightarrow> 'pk \<Rightarrow> (update \<times> update) list
   \<Rightarrow> nat \<Rightarrow> ('pk, 'kp, 'ix) posted \<Rightarrow> (nat \<times> ('pk, 'kp, 'ix) posted) result" where
  "post_twaps R bn fresh treasuryId startVaa endVaa [] n acc = Inr (n, acc)"
| "post_twaps R bn fresh treasuryId startVaa endVaa ((startUpdate, endUpdate) # us) n acc =
     (let twapUpdateKeypair = fresh n; account = wl_publicKey (rl_wormhole R) twapUpdateKeypair in
      bindR (parseTwapMessage bn (u_message startUpdate)) (\<lambda>m.
      post_twaps R bn fresh treasuryId startVaa endVaa us (Suc n)
        \<lparr> po_postInstructions = po_postInstructions acc @
            [\<lparr> i_instruction = rl_postTwapUpdate R startUpdate endUpdate treasuryId startVaa endVaa account
                 (getTreasuryPda R treasuryId) (getConfigPda R),
               i_signers = [twapUpdateKeypair], i_computeUnits = Some POST_TWAP_UPDATE_COMPUTE_BUDGET \<rparr>],
          po_accounts = (po_accounts acc)(feed_key (tw_feedId m) \<mapsto> account),
          po_closeInstructions = po_closeInstructions acc @ [buildCloseTwapUpdateInstruction R account] \<rparr>))"

definition buildPostTwapUpdateInstructions ::
  "('pk, 'kp, 'ix) receiver_lib \<Rightarrow> (bytes \<Rightarrow> int) \<Rightarrow> (nat \<Rightarrow> 'kp) \<Rightarrow> nat \<Rightarrow> string list \<Rightarrow> nat
   \<Rightarrow> (nat \<times> ('pk, 'kp, 'ix) posted) result" where
  "buildPostTwapUpdateInstructions R bn fresh treasuryId twapUpdateDataArray n =
     (case twapUpdateDataArray of
        [d1, d2] \<Rightarrow>
          bindR (parseAccumulatorUpdateData (from_base64 d1)) (\<lambda>startUpdateData.
          bindR (parseAccumulatorUpdateData (from_base64 d2)) (\<lambda>endUpdateData.
          if length (a_updates startUpdateData) \<noteq> length (a_updates endUpdateData)
          then Inl (JsError ''Start and end updates must contain the same number of price feeds'')
          else
            bindR (buildPostEncodedVaasForTwapInstructions (rl_wormhole R) (fresh n) (fresh (Suc n))
                     startUpdateData endUpdateData) (\<lambda>pv.
              post_twaps R bn fresh treasuryId (pvs_startEncodedVaaAddress pv) (pvs_endEncodedVaaAddress pv)
                (zip (a_updates startUpdateData) (a_updates endUpdateData)) (n + 2)
                \<lparr> po_postInstructions = pvs_postInstructions pv, po_accounts = Map.empty,
                  po_closeInstructions = pvs_closeInstructions pv \<rparr>)))
      | _ \<Rightarrow> Inl (JsError ''twapUpdateDataArray must contain exactly two updates (start and end)''))"

fun update_feeds ::
  "('pk, 'kp, 'ix) receiver_lib \<Rightarrow> (bytes \<Rightarrow> int) \<Rightarrow> nat \<Rightarrow> nat \<Rightarrow> 'pk \<Rightarrow> update list
   \<Rightarrow> ('pk, 'kp, 'ix) posted \<Rightarrow> ('pk, 'kp, 'ix) posted result" where
  "update_feeds R bn treasuryId shardId encodedVaa [] acc = Inr acc"
| "update_feeds R bn treasuryId shardId encodedVaa (u # us) acc =
     bindR (parsePriceFeedMessage bn (u_message u)) (\<lambda>m.
     bindR (getPriceFeedAccountForProgram R shardId (Inl (pf_feedId m))) (\<lambda>account.
       update_feeds R bn treasuryId shardId encodedVaa us
        (acc\<lparr> po_postInstructions := po_postInstructions acc @
            [\<lparr> i_instruction = rl_updatePriceFeed R u treasuryId shardId (pf_feedId m) encodedVaa account
                 (getTreasuryPda R treasuryId) (getConfigPda R),
               i_signers = [], i_computeUnits = Some UPDATE_PRICE_FEED_COMPUTE_BUDGET \<rparr>],
          po_accounts := (po_accounts acc)(feed_key (pf_feedId m) \<mapsto> account) \<rparr>)))"

fun buildUpdatePriceFeedInstructions ::
  "('pk, 'kp, 'ix) receiver_lib \<Rightarrow> (bytes \<Rightarrow> int) \<Rightarrow> (nat \<Rightarrow> 'kp) \<Rightarrow> nat \<Rightarrow> nat \<Rightarrow> string list \<Rightarrow> nat
   \<Rightarrow> ('pk, 'kp, 'ix) posted \<Rightarrow> (nat \<times> ('pk, 'kp, 'ix) posted) result" where
  "buildUpdatePriceFeedInstructions R bn fresh treasuryId shardId [] n acc = Inr (n, acc)"
| "buildUpdatePriceFeedInstructions R bn fresh treasuryId shardId (d # ds) n acc =
     bindR (parseAccumulatorUpdateData (from_base64 d)) (\<lambda>accumulatorUpdateData.
     bindR (buildPostEncodedVaaInstructions (rl_wormhole R) (fresh n) (a_vaa accumulatorUpdateData)) (\<lambda>pv.
     bindR (update_feeds R bn treasuryId shardId (pv_encodedVaaAddress pv) (a_updates accumulatorUpdateData)
              (with_vaa pv acc)) (\<lambda>acc'.
       buildUpdatePriceFeedInstructions R bn fresh treasuryId shardId ds (Suc n) acc')))"

definition buildClosePreviousEncodedVaasInstructions ::
  "('pk, 'kp, 'ix) receiver_lib \<Rightarrow> 'pk list \<Rightarrow> int \<Rightarrow> ('ix, 'kp) ixs" where
  "buildClosePreviousEncodedVaasInstructions R encodedVaas maxInstructions =
     js_slice (map (buildCloseEncodedVaaInstruction (rl_wormhole R)) encodedVaas) (Some 0) (Some maxInstructions)"

section \<open>\<open>PythTransactionBuilder\<close>\<close>

record ('pk, 'kp) PythTransactionBuilder =
  ptb_base :: "('pk, 'kp) TransactionBuilder"
  ptb_closeInstructions :: "('pk instruction, 'kp) ixs"
  priceFeedIdToPriceUpdateAccount :: "string \<rightharpoonup> 'pk"
  priceFeedIdToTwapUpdateAccount :: "string \<rightharpoonup> 'pk"
  closeUpdateAccounts :: bool

definition new_PythTransactionBuilder ::
  "'pk \<Rightarrow> bool option \<Rightarrow> 'pk list option \<Rightarrow> ('pk, 'kp) PythTransactionBuilder" where
  "new_PythTransactionBuilder wallet config lut =
     \<lparr> ptb_base = new_TransactionBuilder wallet lut, ptb_closeInstructions = [],
       priceFeedIdToPriceUpdateAccount = Map.empty, priceFeedIdToTwapUpdateAccount = Map.empty,
       closeUpdateAccounts = (case config of Some b \<Rightarrow> b | None \<Rightarrow> True) \<rparr>"

text \<open>The random indexes the calls of \<open>addInstruction\<close> draw.\<close>

definition with_draws :: "(nat \<Rightarrow> nat) \<Rightarrow> 'a list \<Rightarrow> (nat \<times> 'a) list" where
  "with_draws rnd xs = map (\<lambda>(i, x). (rnd i, x)) (enumerate 0 xs)"

definition ptb_addInstructions ::
  "'pk solana_lib \<Rightarrow> (nat \<Rightarrow> nat) \<Rightarrow> ('pk instruction, 'kp) ixs \<Rightarrow> ('pk, 'kp) PythTransactionBuilder
   \<Rightarrow> ('pk, 'kp) PythTransactionBuilder" where
  "ptb_addInstructions S rnd ixs ptb =
     ptb\<lparr> ptb_base := addInstructions S (with_draws rnd ixs) (ptb_base ptb) \<rparr>"

definition add_posted ::
  "'pk solana_lib \<Rightarrow> (nat \<Rightarrow> nat) \<Rightarrow> ('pk, 'kp, 'pk instruction) posted \<Rightarrow> ('pk, 'kp) PythTransactionBuilder
   \<Rightarrow> ('pk, 'kp) PythTransactionBuilder" where
  "add_posted S rnd p ptb =
     ptb_addInstructions S rnd (po_postInstructions p)
       (ptb\<lparr> ptb_closeInstructions := ptb_closeInstructions ptb @ po_closeInstructions p,
             priceFeedIdToPriceUpdateAccount := priceFeedIdToPriceUpdateAccount ptb ++ po_accounts p \<rparr>)"

definition addPostPriceUpdates where
  "addPostPriceUpdates R S bn fresh rnd treasuryId priceUpdateDataArray n ptb =
     bindR (buildPostPriceUpdateInstructions R bn fresh treasuryId priceUpdateDataArray n nothing_posted)
       (\<lambda>(n', p). Inr (n', add_posted S rnd p ptb))"

definition addPostPartiallyVerifiedPriceUpdates where
  "addPostPartiallyVerifiedPriceUpdates R S bn fresh rnd treasuryId priceUpdateDataArray n ptb =
     bindR (buildPostPriceUpdateAtomicInstructions R bn fresh treasuryId priceUpdateDataArray n nothing_posted)
       (\<lambda>(n', p). Inr (n', add_posted S rnd p ptb))"

definition addPostTwapUpdates where
  "addPostTwapUpdates R S bn fresh rnd treasuryId twapUpdateDataArray n ptb =
     bindR (buildPostTwapUpdateInstructions R bn fresh treasuryId twapUpdateDataArray n)
       (\<lambda>(n', p). Inr (n', ptb_addInstructions S rnd (po_postInstructions p)
         (ptb\<lparr> ptb_closeInstructions := ptb_closeInstructions ptb @ po_closeInstructions p,
               priceFeedIdToTwapUpdateAccount := priceFeedIdToTwapUpdateAccount ptb ++ po_accounts p \<rparr>)))"

definition addUpdatePriceFeed where
  "addUpdatePriceFeed R S bn fresh rnd treasuryId priceUpdateDataArray shardId n ptb =
     bindR (buildUpdatePriceFeedInstructions R bn fresh treasuryId shardId priceUpdateDataArray n nothing_posted)
       (\<lambda>(n', p). Inr (n', add_posted S rnd p ptb))"

definition getPriceUpdateAccount :: "('pk, 'kp) PythTransactionBuilder \<Rightarrow> string \<Rightarrow> 'pk result" where
  "getPriceUpdateAccount ptb priceFeedId =
     (case priceFeedIdToPriceUpdateAccount ptb priceFeedId of
        None \<Rightarrow> Inl (JsError ''No price update account found for the price feed ID'')
      | Some priceUpdateAccount \<Rightarrow> Inr priceUpdateAccount)"

definition getTwapUpdateAccount :: "('pk, 'kp) PythTransactionBuilder \<Rightarrow> string \<Rightarrow> 'pk result" where
  "getTwapUpdateAccount ptb priceFeedId =
     (case priceFeedIdToTwapUpdateAccount ptb priceFeedId of
        None \<Rightarrow> Inl (JsError ''No TWAP update account found for the price feed ID'')
      | Some twapUpdateAccount \<Rightarrow> Inr twapUpdateAccount)"

text \<open>The callbacks receive the lookup function of the builder.\<close>

definition addPriceConsumerInstructions where
  "addPriceConsumerInstructions S rnd getInstructions ptb =
     bindR (getInstructions (getPriceUpdateAccount ptb)) (\<lambda>ixs. Inr (ptb_addInstructions S rnd ixs ptb))"

definition addTwapConsumerInstructions where
  "addTwapConsumerInstructions S rnd getInstructions ptb =
     bindR (getInstructions (getTwapUpdateAccount ptb)) (\<lambda>ixs. Inr (ptb_addInstructions S rnd ixs ptb))"

definition addClosePreviousEncodedVaasInstructions where
  "addClosePreviousEncodedVaasInstructions R S rnd encodedVaas maxInstructions ptb =
     ptb_addInstructions S rnd (buildClosePreviousEncodedVaasInstructions R encodedVaas maxInstructions) ptb"

definition add_close ::
  "'pk solana_lib \<Rightarrow> (nat \<Rightarrow> nat) \<Rightarrow> ('pk, 'kp) PythTransactionBuilder \<Rightarrow> ('pk, 'kp) PythTransactionBuilder" where
  "add_close S rnd ptb =
     (if closeUpdateAccounts ptb then ptb_addInstructions S rnd (ptb_closeInstructions ptb) ptb else ptb)"

definition ptb_buildVersionedTransactions where
  "ptb_buildVersionedTransactions S rnd rnd' args ptb =
     (let ptb' = add_close S rnd ptb in (ptb', buildVersionedTransactions S rnd' args (ptb_base ptb')))"

definition ptb_buildLegacyTransactions where
  "ptb_buildLegacyTransactions S rnd rnd' args ptb =
     (let ptb' = add_close S rnd ptb in (ptb', buildLegacyTransactions S rnd' args (ptb_base ptb')))"

section \<open>Every account is closed\<close>

definition closes ::
  "('pk, 'kp, 'ix) receiver_lib \<Rightarrow> ('ix, 'kp) InstructionWithEphemeralSigners \<Rightarrow> 'kp \<Rightarrow> bool" where
  "closes R c kp \<longleftrightarrow>
     (let a = wl_publicKey (rl_wormhole R) kp in
      i_instruction c = wl_closeEncodedVaa (rl_wormhole R) a \<or> i_instruction c = rl_reclaimRent R a
      \<or> i_instruction c = rl_reclaimTwapRent R a)"

text \<open>The key pairs drawn between \<open>n\<close> and \<open>n'\<close> sign the post instructions once each, and the close
  instructions close their accounts one by one.\<close>

definition all_closed ::
  "('pk, 'kp, 'ix) receiver_lib \<Rightarrow> (nat \<Rightarrow> 'kp) \<Rightarrow> nat \<Rightarrow> nat \<Rightarrow> ('pk, 'kp, 'ix) posted \<Rightarrow> bool" where
  "all_closed R fresh n n' p \<longleftrightarrow> n \<le> n' \<and>
     concat (map i_signers (po_postInstructions p)) = map fresh [n..<n'] \<and>
     list_all2 (closes R) (po_closeInstructions p) (map fresh [n..<n'])"

lemma all_closed_nothing: "all_closed R fresh n n nothing_posted"
  by (simp add: all_closed_def nothing_posted_def)

lemma all_closed_step:
  assumes "all_closed R fresh n0 n p" "concat (map i_signers ixs) = [fresh n]" "closes R c (fresh n)"
  shows "all_closed R fresh n0 (Suc n) \<lparr> po_postInstructions = po_postInstructions p @ ixs, po_accounts = accts,
    po_closeInstructions = po_closeInstructions p @ [c] \<rparr>"
  using assms by (auto simp: all_closed_def intro: list_all2_appendI)

lemma post_updates_closed:
  "post_updates R bn fresh instr budget us n acc = Inr (n', acc') \<Longrightarrow> all_closed R fresh n0 n acc \<Longrightarrow>
   all_closed R fresh n0 n' acc'"
proof (induction us arbitrary: n acc)
  case (Cons u us)
  from Cons.prems(1) show ?case
    by (auto simp: Let_def bindR_Inr_iff closes_def buildClosePriceUpdateInstruction_def
        intro!: all_closed_step [OF Cons.prems(2)] elim!: Cons.IH)
qed simp

lemma post_twaps_closed:
  "post_twaps R bn fresh t sv ev us n acc = Inr (n', acc') \<Longrightarrow> all_closed R fresh n0 n acc \<Longrightarrow>
   all_closed R fresh n0 n' acc'"
proof (induction us arbitrary: n acc)
  case (Cons u us)
  from Cons.prems(1) show ?case
    by (cases u) (auto simp: Let_def bindR_Inr_iff closes_def buildCloseTwapUpdateInstruction_def
        intro!: all_closed_step [OF Cons.prems(2)] elim!: Cons.IH)
qed simp

lemma posted_vaa_shape:
  assumes "buildPostEncodedVaaInstructions M kp vaa = Inr pv"
  shows "concat (map i_signers (pv_postInstructions pv)) = [kp]"
    "pv_closeInstructions pv = [\<lparr> i_instruction = wl_closeEncodedVaa M (wl_publicKey M kp), i_signers = [],
       i_computeUnits = Some CLOSE_ENCODED_VAA_COMPUTE_BUDGET \<rparr>]"
  using assms by (auto simp: buildPostEncodedVaaInstructions_def generateVaaInstructionGroups_def
      buildEncodedVaaCreateInstruction_def Let_def bindR_Inr_iff)

lemma with_vaa_closed:
  assumes "all_closed R fresh n0 n acc" "buildPostEncodedVaaInstructions (rl_wormhole R) (fresh n) vaa = Inr pv"
  shows "all_closed R fresh n0 (Suc n) (with_vaa pv acc)"
proof -
  let ?c = "\<lparr> i_instruction = wl_closeEncodedVaa (rl_wormhole R) (wl_publicKey (rl_wormhole R) (fresh n)), i_signers = [],
       i_computeUnits = Some CLOSE_ENCODED_VAA_COMPUTE_BUDGET \<rparr>"
  have "closes R ?c (fresh n)" by (simp add: closes_def)
  from all_closed_step [OF assms(1) posted_vaa_shape(1) [OF assms(2)] this, of "po_accounts acc"]
  show ?thesis by (cases acc) (simp add: with_vaa_def posted_vaa_shape(2) [OF assms(2)])
qed

lemma atomic_closed:
  "buildPostPriceUpdateAtomicInstructions R bn fresh t ds n acc = Inr (n', acc') \<Longrightarrow> all_closed R fresh n0 n acc \<Longrightarrow>
   all_closed R fresh n0 n' acc'"
  by (induction ds arbitrary: n acc) (auto simp: bindR_Inr_iff dest: post_updates_closed)

lemma post_closed:
  "buildPostPriceUpdateInstructions R bn fresh t ds n acc = Inr (n', acc') \<Longrightarrow> all_closed R fresh n0 n acc \<Longrightarrow>
   all_closed R fresh n0 n' acc'"
  by (induction ds arbitrary: n acc) (auto simp: bindR_Inr_iff dest: post_updates_closed with_vaa_closed)

lemma update_feeds_closed:
  "update_feeds R bn t sh v us acc = Inr acc' \<Longrightarrow> all_closed R fresh n0 n acc \<Longrightarrow> all_closed R fresh n0 n acc'"
proof (induction us arbitrary: acc)
  case (Cons u us)
  then show ?case by (auto simp: bindR_Inr_iff all_closed_def)
qed simp

lemma update_closed:
  "buildUpdatePriceFeedInstructions R bn fresh t sh ds n acc = Inr (n', acc') \<Longrightarrow> all_closed R fresh n0 n acc \<Longrightarrow>
   all_closed R fresh n0 n' acc'"
  by (induction ds arbitrary: n acc) (auto simp: bindR_Inr_iff dest: update_feeds_closed with_vaa_closed)

lemma twap_closed:
  assumes "buildPostTwapUpdateInstructions R bn fresh t ds n = Inr (n', p)"
  shows "all_closed R fresh n n' p"
proof -
  from assms obtain d1 d2 s e pv where ds: "ds = [d1, d2]"
    and vaas: "buildPostEncodedVaasForTwapInstructions (rl_wormhole R) (fresh n) (fresh (Suc n)) s e = Inr pv"
    and rest: "post_twaps R bn fresh t (pvs_startEncodedVaaAddress pv) (pvs_endEncodedVaaAddress pv)
      (zip (a_updates s) (a_updates e)) (n + 2) \<lparr> po_postInstructions = pvs_postInstructions pv, po_accounts = Map.empty,
        po_closeInstructions = pvs_closeInstructions pv \<rparr> = Inr (n', p)"
    by (auto simp: buildPostTwapUpdateInstructions_def bindR_Inr_iff split: list.splits if_splits)
  have "all_closed R fresh n (n + 2) \<lparr> po_postInstructions = pvs_postInstructions pv, po_accounts = Map.empty,
        po_closeInstructions = pvs_closeInstructions pv \<rparr>"
    using vaas by (auto simp: buildPostEncodedVaasForTwapInstructions_def generateVaaInstructionGroups_def
      buildEncodedVaaCreateInstruction_def Let_def bindR_Inr_iff all_closed_def closes_def)
  with post_twaps_closed [OF rest] show ?thesis .
qed

section \<open>The builder\<close>

lemma map_snd_with_draws: "map snd (with_draws rnd xs) = xs"
  by (simp add: with_draws_def comp_def case_prod_beta')

lemma ptb_addInstructions_inv:
  "builder_inv S added (ptb_base ptb) \<Longrightarrow> builder_inv S (added @ ixs) (ptb_base (ptb_addInstructions S rnd ixs ptb))"
  using builder_inv_addInstructions [of S added "ptb_base ptb" "with_draws rnd ixs"]
  by (simp add: ptb_addInstructions_def map_snd_with_draws)

lemma ptb_addInstructions_fields [simp]:
  "ptb_closeInstructions (ptb_addInstructions S rnd ixs ptb) = ptb_closeInstructions ptb"
  "closeUpdateAccounts (ptb_addInstructions S rnd ixs ptb) = closeUpdateAccounts ptb"
  "addressLookupTable (ptb_base (ptb_addInstructions S rnd ixs ptb)) = addressLookupTable (ptb_base ptb)"
  "payer (ptb_base (ptb_addInstructions S rnd ixs ptb)) = payer (ptb_base ptb)"
  by (simp_all add: ptb_addInstructions_def)

lemma add_close_inv:
  assumes "builder_inv S added (ptb_base ptb)" "closeUpdateAccounts ptb"
  shows "builder_inv S (added @ ptb_closeInstructions ptb) (ptb_base (add_close S rnd ptb))"
    and "closeUpdateAccounts (add_close S rnd ptb)"
    and "ptb_closeInstructions (add_close S rnd ptb) = ptb_closeInstructions ptb"
    and "payer (ptb_base (add_close S rnd ptb)) = payer (ptb_base ptb)"
    and "addressLookupTable (ptb_base (add_close S rnd ptb)) = addressLookupTable (ptb_base ptb)"
  using assms by (simp_all add: add_close_def ptb_addInstructions_inv)

section \<open>Properties\<close>


text \<open>A library for the witnesses: keys are numbers, and instructions differ in their data.\<close>

definition sample_receiver :: "(nat, nat, nat instruction) receiver_lib" where
  "sample_receiver = \<lparr> rl_wormhole = \<lparr> wl_publicKey = (\<lambda>k. k), wl_createInstruction = (\<lambda>k n. sample_ix 1),
       wl_initEncodedVaa = (\<lambda>a. sample_ix 2), wl_writeEncodedVaa = (\<lambda>i d a. sample_ix 3),
       wl_verifyEncodedVaaV1 = (\<lambda>g a. sample_ix 4),
       wl_closeEncodedVaa = (\<lambda>a. sample_ix (100 + a)), wl_findProgramAddressSync = (\<lambda>s. 0) \<rparr>,
     rl_postUpdateAtomic = (\<lambda>v u t a b c d. sample_ix 5), rl_postUpdate = (\<lambda>u t v a b c. sample_ix 6),
     rl_postTwapUpdate = (\<lambda>u v t a b c d e. sample_ix 7), rl_updatePriceFeed = (\<lambda>u t s f v a b c. sample_ix 8),
     rl_reclaimRent = (\<lambda>a. sample_ix (200 + a)), rl_reclaimTwapRent = (\<lambda>a. sample_ix (300 + a)),
     rl_receiverAddress = (\<lambda>s. 0), rl_pushOracleAddress = (\<lambda>s. 0) \<rparr>"

definition sample_update :: string where "sample_update = ''UE5BVQEAAAAABgEAAAAAAAA=''"

lemma sample_update_parses:
  "parseAccumulatorUpdateData (from_base64 sample_update) = Inr \<lparr> a_vaa = [1, 0, 0, 0, 0, 0], a_updates = [] \<rparr>"
proof -
  have "from_base64 sample_update = accumulator_bytes [] 0 \<lparr> a_vaa = [1, 0, 0, 0, 0, 0], a_updates = [] \<rparr>"
    by code_simp
  then show ?thesis by (simp add: parse_at wf_data_def)
qed


text \<open>C23. The whole pipeline: a new builder to which price updates are added builds versioned
  transactions that carry all post instructions and after them all close instructions, provided
  each of these fits a packet alone.\<close>

theorem price_update_transactions_carry_all:
  assumes "addPostPriceUpdates R S bn fresh rnd t ds n (new_PythTransactionBuilder wallet None lut) = Inr (n', ptb)"
    and "buildPostPriceUpdateInstructions R bn fresh t ds n nothing_posted = Inr (n', p)"
    and "list_all (\<lambda>a. getSizeOfTransaction [i_instruction a] True lut \<le> sl_PACKET_DATA_SIZE S)
      (po_postInstructions p @ po_closeInstructions p)"
  shows "carries S wallet (map i_instruction (po_postInstructions p @ po_closeInstructions p))
    (map fst (snd (ptb_buildVersionedTransactions S rnd' rnd'' args ptb)))"
proof -
  let ?new = "new_PythTransactionBuilder wallet None lut :: ('a, 'b) PythTransactionBuilder"
  have ptb: "ptb = add_posted S rnd p ?new" using assms(1,2) by (simp add: addPostPriceUpdates_def)
  have "builder_inv S [] (ptb_base ?new)" by (simp add: new_PythTransactionBuilder_def builder_inv_new)
  then have "builder_inv S (po_postInstructions p) (ptb_base ptb)"
    using ptb_addInstructions_inv [of S "[]" "?new\<lparr> ptb_closeInstructions := po_closeInstructions p,
        priceFeedIdToPriceUpdateAccount := po_accounts p \<rparr>" "po_postInstructions p" rnd]
    by (simp add: ptb add_posted_def new_PythTransactionBuilder_def)
  moreover have "closeUpdateAccounts ptb" "ptb_closeInstructions ptb = po_closeInstructions p"
    "payer (ptb_base ptb) = wallet" "addressLookupTable (ptb_base ptb) = lut"
    by (simp_all add: ptb add_posted_def new_PythTransactionBuilder_def new_TransactionBuilder_def)
  ultimately show ?thesis
    using versioned_carries [of S "po_postInstructions p @ po_closeInstructions p" "ptb_base (add_close S rnd' ptb)" rnd'' args]
      add_close_inv [of S "po_postInstructions p" ptb rnd'] assms(3)
    by (simp add: ptb_buildVersionedTransactions_def Let_def)
qed

lemma sample_build:
  "\<exists>p. buildPostPriceUpdateInstructions sample_receiver doc_bn (\<lambda>i. i) 0 [sample_update] 3 nothing_posted = Inr (4, p) \<and>
     list_all (\<lambda>a. getSizeOfTransaction [i_instruction a] True None \<le> sl_PACKET_DATA_SIZE sample_solana)
       (po_postInstructions p @ po_closeInstructions p)"
  by (simp add: sample_update_parses buildPostEncodedVaaInstructions_def generateVaaInstructionGroups_def
      getGuardianSetIndex_def readUIntBE_def with_vaa_def nothing_posted_def Let_def sample_receiver_def
      buildEncodedVaaCreateInstruction_def size_sample_ix sample_solana_def getSizeOfCompressedU16_def)

theorem price_update_transactions_carry_all_witness:
  "\<exists>ptb p. addPostPriceUpdates sample_receiver sample_solana doc_bn (\<lambda>i. i) (\<lambda>_. 0) 0 [sample_update] 3
       (new_PythTransactionBuilder 5 None None) = Inr (4, ptb) \<and>
     buildPostPriceUpdateInstructions sample_receiver doc_bn (\<lambda>i. i) 0 [sample_update] 3 nothing_posted = Inr (4, p) \<and>
     carries sample_solana 5 (map i_instruction (po_postInstructions p @ po_closeInstructions p))
       (map fst (snd (ptb_buildVersionedTransactions sample_solana (\<lambda>_. 0) (\<lambda>_. 0) no_fees ptb)))"
proof -
  obtain p where p: "buildPostPriceUpdateInstructions sample_receiver doc_bn (\<lambda>i. i) 0 [sample_update] 3 nothing_posted = Inr (4, p)"
    "list_all (\<lambda>a. getSizeOfTransaction [i_instruction a] True None \<le> sl_PACKET_DATA_SIZE sample_solana)
       (po_postInstructions p @ po_closeInstructions p)" using sample_build by blast
  then obtain ptb where a: "addPostPriceUpdates sample_receiver sample_solana doc_bn (\<lambda>i. i) (\<lambda>_. 0) 0 [sample_update] 3
       (new_PythTransactionBuilder 5 None None) = Inr (4, ptb)" by (simp add: addPostPriceUpdates_def)
  show ?thesis
    using a p(1) price_update_transactions_carry_all [OF a p, of "\<lambda>_. 0" "\<lambda>_. 0" no_fees]
    by (intro exI [of _ ptb] exI [of _ p] conjI)
qed

text \<open>Building is not idempotent: \<open>buildVersionedTransactions\<close> appends the close instructions to the
  builder, and a second call appends them again, so that its transactions close every account twice.\<close>

theorem build_twice_closes_twice:
  assumes "builder_inv S added (ptb_base ptb)" "closeUpdateAccounts ptb"
  shows "builder_inv S (added @ ptb_closeInstructions ptb @ ptb_closeInstructions ptb)
    (ptb_base (fst (ptb_buildVersionedTransactions S r1 r2 args
       (fst (ptb_buildVersionedTransactions S r3 r4 args ptb)))))"
  using add_close_inv(1) [OF add_close_inv(1,2) [OF assms, of r3], of r1] add_close_inv(3) [OF assms, of r3]
  by (simp add: ptb_buildVersionedTransactions_def Let_def)

theorem build_twice_closes_twice_witness:
  "builder_inv sample_solana [\<lparr> i_instruction = sample_ix 1, i_signers = [], i_computeUnits = None \<rparr>,
      \<lparr> i_instruction = sample_ix 1, i_signers = [], i_computeUnits = None \<rparr>]
    (ptb_base (fst (ptb_buildVersionedTransactions sample_solana (\<lambda>_. 0) (\<lambda>_. 0) no_fees
       (fst (ptb_buildVersionedTransactions sample_solana (\<lambda>_. 0) (\<lambda>_. 0) no_fees
         ((new_PythTransactionBuilder 5 None None :: (nat, nat) PythTransactionBuilder)
           \<lparr> ptb_closeInstructions := [\<lparr> i_instruction = sample_ix 1, i_signers = [], i_computeUnits = None \<rparr>] \<rparr>))))))"
  using build_twice_closes_twice [of sample_solana "[]" "(new_PythTransactionBuilder 5 None None :: (nat, nat) PythTransactionBuilder)
           \<lparr> ptb_closeInstructions := [\<lparr> i_instruction = sample_ix 1, i_signers = [], i_computeUnits = None \<rparr>] \<rparr>"
         "\<lambda>_. 0" "\<lambda>_. 0" no_fees "\<lambda>_. 0" "\<lambda>_. 0"]
  by (simp add: new_PythTransactionBuilder_def builder_inv_new)

end
