(* ===== verification/Js_Number.thy ===== *)
theory Js_Number
  imports Complex_Main "HOL-Library.Log_Nat" Js_Prelude
begin

text \<open>
  JavaScript numbers: IEEE-754 binary64 values with their infinities and NaN, the exact results of
  the four operations rounded to the nearest value, ties to even. The sign of zero is not kept; the
  code never divides by a negative zero. \<open>Number\<close> reads the decimal integers in which
  prices are written.
\<close>

datatype js_number =
    Fin rat
  | PosInf
  | NegInf
  | NaN

section \<open>Rounding\<close>

text \<open>The exponent of the leading bit of a positive rational.\<close>

definition rat_log2 :: "rat \<Rightarrow> int" where
  "rat_log2 x =
     (let (a, b) = quotient_of x; k = bitlen a - bitlen b
      in if power_int 2 k \<le> x then k else k - 1)"

definition round_even :: "rat \<Rightarrow> int" where
  "round_even x =
     (let n = \<lfloor>x\<rfloor>; r = x - of_int n
      in if r < 1 / 2 \<or> r = 1 / 2 \<and> even n then n else n + 1)"

definition rnd_abs :: "rat \<Rightarrow> rat" where
  "rnd_abs x = (let e = max (- 1074) (rat_log2 x - 52) in of_int (round_even (x / power_int 2 e)) * power_int 2 e)"

definition rnd :: "rat \<Rightarrow> js_number" where
  "rnd x =
     (if x = 0 then Fin 0
      else let v = rnd_abs \<bar>x\<bar> in
           if v \<ge> 2 ^ 1024 then (if x < 0 then NegInf else PosInf)
           else Fin (if x < 0 then - v else v))"

section \<open>Operations\<close>

fun js_neg :: "js_number \<Rightarrow> js_number" where
  "js_neg (Fin x) = Fin (- x)"
| "js_neg PosInf = NegInf"
| "js_neg NegInf = PosInf"
| "js_neg NaN = NaN"

fun js_add :: "js_number \<Rightarrow> js_number \<Rightarrow> js_number" where
  "js_add (Fin x) (Fin y) = rnd (x + y)"
| "js_add NaN _ = NaN"
| "js_add _ NaN = NaN"
| "js_add PosInf NegInf = NaN"
| "js_add NegInf PosInf = NaN"
| "js_add PosInf _ = PosInf"
| "js_add NegInf _ = NegInf"
| "js_add (Fin _) b = b"

definition js_sub :: "js_number \<Rightarrow> js_number \<Rightarrow> js_number" where
  "js_sub a b = js_add a (js_neg b)"

definition signed_inf :: "rat \<Rightarrow> js_number" where
  "signed_inf x = (if x = 0 then NaN else if x < 0 then NegInf else PosInf)"

fun js_mul :: "js_number \<Rightarrow> js_number \<Rightarrow> js_number" where
  "js_mul (Fin x) (Fin y) = rnd (x * y)"
| "js_mul NaN _ = NaN"
| "js_mul _ NaN = NaN"
| "js_mul PosInf (Fin y) = signed_inf y"
| "js_mul NegInf (Fin y) = signed_inf (- y)"
| "js_mul (Fin x) PosInf = signed_inf x"
| "js_mul (Fin x) NegInf = signed_inf (- x)"
| "js_mul PosInf b = b"
| "js_mul NegInf b = js_neg b"

fun js_div :: "js_number \<Rightarrow> js_number \<Rightarrow> js_number" where
  "js_div (Fin x) (Fin y) = (if y = 0 then signed_inf x else rnd (x / y))"
| "js_div NaN _ = NaN"
| "js_div _ NaN = NaN"
| "js_div (Fin _) _ = Fin 0"
| "js_div PosInf (Fin y) = (if y < 0 then NegInf else PosInf)"
| "js_div NegInf (Fin y) = (if y < 0 then PosInf else NegInf)"
| "js_div _ _ = NaN"

fun js_abs :: "js_number \<Rightarrow> js_number" where
  "js_abs (Fin x) = Fin \<bar>x\<bar>"
| "js_abs NaN = NaN"
| "js_abs _ = PosInf"

fun js_ge :: "js_number \<Rightarrow> js_number \<Rightarrow> bool" where
  "js_ge NaN _ = False"
| "js_ge _ NaN = False"
| "js_ge (Fin x) (Fin y) = (x \<ge> y)"
| "js_ge PosInf _ = True"
| "js_ge _ NegInf = True"
| "js_ge _ _ = False"

definition js_gt :: "js_number \<Rightarrow> js_number \<Rightarrow> bool" where
  "js_gt a b \<longleftrightarrow> js_ge a b \<and> a \<noteq> b"

definition js_min :: "js_number \<Rightarrow> js_number \<Rightarrow> js_number" where
  "js_min a b = (if a = NaN \<or> b = NaN then NaN else if js_ge b a then a else b)"

definition js_max :: "js_number \<Rightarrow> js_number \<Rightarrow> js_number" where
  "js_max a b = (if a = NaN \<or> b = NaN then NaN else if js_ge a b then a else b)"

text \<open>\<open>Number\<close> of a string of decimal digits with an optional sign; the empty string is 0.\<close>

definition is_digit :: "char \<Rightarrow> bool" where
  "is_digit c \<longleftrightarrow> 48 \<le> (of_char c :: nat) \<and> (of_char c :: nat) \<le> 57"

definition digits_value :: "string \<Rightarrow> nat" where
  "digits_value = foldl (\<lambda>n c. 10 * n + (of_char c - 48)) 0"

definition Number :: "string \<Rightarrow> js_number" where
  "Number s =
     (let (neg, ds) = (case s of c # cs \<Rightarrow> if c = CHR ''-'' then (True, cs) else (False, s) | [] \<Rightarrow> (False, []))
      in if \<not> list_all is_digit ds \<or> (neg \<and> ds = []) then NaN
         else rnd (if neg then - of_nat (digits_value ds) else of_nat (digits_value ds)))"

text \<open>\<open>Number\<close> of a \<open>bigint\<close>.\<close>

definition number_of_int :: "int \<Rightarrow> js_number" where
  "number_of_int n = rnd (of_int n)"

section \<open>Lemmas\<close>

lemma round_even_of_int [simp]: "round_even (of_int n) = n"
  by (simp add: round_even_def)

lemma round_even_nonneg: "0 \<le> x \<Longrightarrow> 0 \<le> round_even x"
  by (auto simp: round_even_def Let_def)

lemma rnd_abs_nonneg: "0 \<le> x \<Longrightarrow> 0 \<le> rnd_abs x"
  unfolding rnd_abs_def Let_def by (intro mult_nonneg_nonneg) (simp_all add: round_even_nonneg)

lemma rat_log2_le:
  assumes "0 < x"
  shows "power_int 2 (rat_log2 x) \<le> x"
proof -
  obtain a b where q: "quotient_of x = (a, b)" by (cases "quotient_of x")
  then have b: "0 < b" and x: "x = rat_of_int a / rat_of_int b"
    by (auto dest: quotient_of_denom_pos quotient_of_div)
  with assms have a: "0 < a" by (simp add: zero_less_divide_iff)
  define i j where "i = nat (bitlen a - 1)" and "j = nat (bitlen b)"
  have "bitlen a > 0" using a bitlen_nonneg [of a] bitlen_eq_zero_iff [of a] by linarith
  then have k: "bitlen a - bitlen b - 1 = int i - int j"
    using bitlen_nonneg [of b] by (simp add: i_def j_def)
  have "2 ^ i \<le> a" "b \<le> 2 ^ j" using bitlen_bounds [OF a] bitlen_bounds [OF b] by (simp_all add: i_def j_def)
  then have "(2::rat) ^ i \<le> rat_of_int a" "rat_of_int b \<le> 2 ^ j"
    by (metis of_int_le_iff of_int_numeral of_int_power)+
  then have "2 ^ i / 2 ^ j \<le> x" using b a by (simp add: x frac_le)
  then have "power_int 2 (bitlen a - bitlen b - 1) \<le> x"
    by (simp add: k power_int_diff)
  then show ?thesis by (simp add: rat_log2_def q Let_def)
qed

text \<open>Integers below \<open>2\<^sup>5\<^sup>3\<close> are exact.\<close>

lemma rnd_abs_int:
  assumes "0 < n" "n < 2 ^ 53"
  shows "rnd_abs (of_int n) = of_int n"
proof -
  have "power_int 2 (rat_log2 (of_int n)) < (2::rat) ^ 53"
    using rat_log2_le [of "of_int n"] assms
    by (metis of_int_0_less_iff of_int_less_iff of_int_numeral of_int_power order_le_less_trans)
  then have "power_int 2 (rat_log2 (of_int n)) < power_int (2::rat) 53" by simp
  then have "rat_log2 (of_int n) < 53" by (rule power_int_le_imp_less_exp [rotated]) simp_all
  then have "max (- 1074) (rat_log2 (of_int n) - 52) \<le> 0" by simp
  then obtain m where m: "max (- 1074) (rat_log2 (of_int n) - 52) = - int m"
    by (rule nonpos_int_cases)
  have "of_int n / power_int (2::rat) (- int m) = of_int (n * 2 ^ m)"
    by (simp add: power_int_minus divide_inverse)
  then show ?thesis by (simp only: rnd_abs_def Let_def m round_even_of_int) (simp add: power_int_minus)
qed

text \<open>Signs.\<close>

fun js_nonneg :: "js_number \<Rightarrow> bool" where
  "js_nonneg (Fin x) = (0 \<le> x)"
| "js_nonneg PosInf = True"
| "js_nonneg _ = False"

fun js_nonpos :: "js_number \<Rightarrow> bool" where
  "js_nonpos (Fin x) = (x \<le> 0)"
| "js_nonpos NegInf = True"
| "js_nonpos _ = False"

lemma rnd_nonneg: "0 \<le> x \<Longrightarrow> js_nonneg (rnd x)"
  using rnd_abs_nonneg [of x] by (auto simp: rnd_def Let_def)

lemma rnd_nonpos: "x \<le> 0 \<Longrightarrow> js_nonpos (rnd x)"
  using rnd_abs_nonneg [of "- x"] by (auto simp: rnd_def Let_def)

lemma rnd_not_NaN [simp]: "rnd x \<noteq> NaN"
  by (simp add: rnd_def Let_def)

lemma js_abs_nonneg: "a \<noteq> NaN \<Longrightarrow> js_nonneg (js_abs a)"
  by (cases a) simp_all

lemma js_div_nonpos: "js_nonneg a \<Longrightarrow> y < 0 \<Longrightarrow> js_nonpos (js_div a (Fin y))"
  by (cases a) (simp_all add: rnd_nonpos divide_nonneg_neg)

lemma js_mul_nonpos: "js_nonpos a \<Longrightarrow> 0 < y \<Longrightarrow> js_nonpos (js_mul a (Fin y))"
  by (cases a) (simp_all add: rnd_nonpos mult_nonpos_nonneg signed_inf_def)

lemma js_nonpos_ge: "js_nonpos a \<Longrightarrow> 0 < d \<Longrightarrow> \<not> js_ge a (Fin d)"
  by (cases a) simp_all

lemma rnd_int:
  assumes "\<bar>n\<bar> < 2 ^ 53"
  shows "rnd (of_int n) = Fin (of_int n)"
proof (cases "n = 0")
  case False
  then have r: "rnd_abs \<bar>of_int n\<bar> = of_int \<bar>n\<bar>"
    using rnd_abs_int [of "\<bar>n\<bar>"] assms by simp
  have "rat_of_int \<bar>n\<bar> < rat_of_int (2 ^ 53)" using assms by (simp only: of_int_less_iff)
  also have "\<dots> < 2 ^ 1024" by simp
  finally show ?thesis using False r by (simp add: rnd_def Let_def del: of_int_abs)
qed (simp add: rnd_def)

lemma rnd_0 [simp]: "rnd 0 = Fin 0"
  by (simp add: rnd_def)

end
