(* ===== verification/Price_Pusher.thy ===== *)
theory Price_Pusher
  imports Js_Number
begin

text \<open>
  The price pusher, \<open>apps/price_pusher/src\<close>: the update conditions of \<open>price-config.ts\<close>, the two price
  listeners of \<open>interface.ts\<close> and \<open>pyth-price-listener.ts\<close>, and the rounds of \<open>controller.ts\<close>.

  Times are integers; prices, confidences and thresholds are JavaScript numbers. What the
  chain and Hermes answer are arguments. The contract of a listener is the locale \<open>price_listener\<close>,
  extended to \<open>monotone_listener\<close> for the one that ignores older prices.
\<close>

section \<open>Configuration\<close>

record PriceInfo =
  i_price :: string
  i_conf :: string
  i_publishTime :: int

record PriceItem =
  it_id :: string
  it_alias :: string

record PriceConfig =
  pc_alias :: string
  pc_id :: string
  timeDifference :: js_number
  priceDeviation :: js_number
  confidenceRatio :: js_number
  customEarlyUpdate :: "bool option"
  earlyUpdateTimeDifference :: "js_number option"
  earlyUpdatePriceDeviation :: "js_number option"
  earlyUpdateConfidenceRatio :: "js_number option"

text \<open>An entry of the configuration file, after its validation.\<close>

record early_update_raw =
  e_time_difference :: "js_number option"
  e_price_deviation :: "js_number option"
  e_confidence_ratio :: "js_number option"

record price_config_raw =
  r_alias :: string
  r_id :: string
  r_time_difference :: js_number
  r_price_deviation :: js_number
  r_confidence_ratio :: js_number
  r_early_update :: "early_update_raw option"

definition removeLeading0x :: "string \<Rightarrow> string" where
  "removeLeading0x i = (if starts_with ''0x'' i then drop 2 i else i)"

definition addLeading0x :: "string \<Rightarrow> string" where
  "addLeading0x i = (if starts_with ''0x'' i then i else ''0x'' @ i)"

definition readPriceConfig :: "price_config_raw \<Rightarrow> PriceConfig" where
  "readPriceConfig raw =
     \<lparr> pc_alias = r_alias raw, pc_id = removeLeading0x (r_id raw), timeDifference = r_time_difference raw,
       priceDeviation = r_price_deviation raw, confidenceRatio = r_confidence_ratio raw,
       customEarlyUpdate = Some (r_early_update raw \<noteq> None),
       earlyUpdateTimeDifference = Option.bind (r_early_update raw) e_time_difference,
       earlyUpdatePriceDeviation = Option.bind (r_early_update raw) e_price_deviation,
       earlyUpdateConfidenceRatio = Option.bind (r_early_update raw) e_confidence_ratio \<rparr>"

definition readPriceConfigFile :: "price_config_raw list \<Rightarrow> PriceConfig list" where
  "readPriceConfigFile raws = map readPriceConfig raws"

section \<open>\<open>shouldUpdate\<close>\<close>

datatype UpdateCondition = YES | EARLY | NO

definition priceDeviationPct :: "PriceInfo \<Rightarrow> PriceInfo \<Rightarrow> js_number" where
  "priceDeviationPct src tgt =
     js_mul (js_div (js_abs (js_sub (Number (i_price src)) (Number (i_price tgt)))) (Number (i_price tgt))) (Fin 100)"

definition confidenceRatioPct :: "PriceInfo \<Rightarrow> js_number" where
  "confidenceRatioPct src = js_abs (js_mul (js_div (Number (i_conf src)) (Number (i_price src))) (Fin 100))"

definition over :: "js_number \<Rightarrow> js_number option \<Rightarrow> bool" where
  "over x bound = (case bound of None \<Rightarrow> False | Some b \<Rightarrow> js_ge x b)"

definition shouldUpdate :: "PriceConfig \<Rightarrow> PriceInfo option \<Rightarrow> PriceInfo option \<Rightarrow> UpdateCondition" where
  "shouldUpdate c sourceLatestPrice targetLatestPrice =
     (case sourceLatestPrice of
        None \<Rightarrow> YES
      | Some src \<Rightarrow>
          (case targetLatestPrice of
             None \<Rightarrow> YES
           | Some tgt \<Rightarrow>
               if i_publishTime src < i_publishTime tgt then NO
               else
                 let timeDiff = Fin (of_int (i_publishTime src - i_publishTime tgt));
                     priceDev = priceDeviationPct src tgt;
                     confRatio = confidenceRatioPct src
                 in if js_ge timeDiff (timeDifference c) \<or> js_ge priceDev (priceDeviation c) \<or>
                       js_ge confRatio (confidenceRatio c) then YES
                    else if customEarlyUpdate c = None \<or> customEarlyUpdate c = Some False \<or>
                       over timeDiff (earlyUpdateTimeDifference c) \<or>
                       over priceDev (earlyUpdatePriceDeviation c) \<or>
                       over confRatio (earlyUpdateConfidenceRatio c) then EARLY
                    else NO))"

section \<open>Listeners\<close>

type_synonym latest = "string \<rightharpoonup> PriceInfo"

definition updateLatestPriceInfo :: "string \<Rightarrow> PriceInfo \<Rightarrow> latest \<Rightarrow> latest" where
  "updateLatestPriceInfo priceId observedPrice m =
     (case m priceId of
        Some cached \<Rightarrow> if i_publishTime cached > i_publishTime observedPrice then m else m(priceId \<mapsto> observedPrice)
      | None \<Rightarrow> m(priceId \<mapsto> observedPrice))"

text \<open>\<open>getOnChainPriceInfo\<close> is the method each chain implements.\<close>

fun pollPrices :: "(string \<Rightarrow> PriceInfo option) \<Rightarrow> PriceItem list \<Rightarrow> latest \<Rightarrow> latest" where
  "pollPrices getOnChainPriceInfo [] m = m"
| "pollPrices getOnChainPriceInfo (it # items) m =
     (case getOnChainPriceInfo (it_id it) of
        None \<Rightarrow> pollPrices getOnChainPriceInfo items m
      | Some p \<Rightarrow> pollPrices getOnChainPriceInfo items (updateLatestPriceInfo (it_id it) p m))"

text \<open>The listener of Hermes. \<open>Date.now()\<close> is an integer number of milliseconds, so the comparison with 60
  seconds is one of integers.\<close>

record PythPriceListener =
  l_latest :: latest
  l_lastUpdated :: "int option"

definition onPriceUpdate :: "int \<Rightarrow> string \<times> PriceInfo \<Rightarrow> PythPriceListener \<Rightarrow> PythPriceListener" where
  "onPriceUpdate now u s =
     (if now - 1000 * i_publishTime (snd u) > 60000 then s
      else s\<lparr> l_latest := (l_latest s)(fst u \<mapsto> snd u), l_lastUpdated := Some now \<rparr>)"

definition onUpdates :: "int \<Rightarrow> (string \<times> PriceInfo) list option \<Rightarrow> PythPriceListener \<Rightarrow> PythPriceListener" where
  "onUpdates now parsed s = (case parsed of None \<Rightarrow> s | Some us \<Rightarrow> fold (onPriceUpdate now) us s)"

definition healthCheck :: "int \<Rightarrow> PythPriceListener \<Rightarrow> unit result" where
  "healthCheck now s =
     (case l_lastUpdated s of
        None \<Rightarrow> Inl (JsError ''Hermes Price feeds are not updating.'')
      | Some t \<Rightarrow> if t < now - 30 * 1000 then Inl (JsError ''Hermes Price feeds are not updating.'') else Inr ())"

section \<open>The controller\<close>

fun check_prices ::
  "(string \<Rightarrow> PriceInfo option) \<Rightarrow> (string \<Rightarrow> PriceInfo option) \<Rightarrow> PriceConfig list \<Rightarrow>
   bool \<times> PriceConfig list \<times> int list \<Rightarrow> bool \<times> PriceConfig list \<times> int list" where
  "check_prices source target [] (met, pricesToPush, pubTimesToPush) = (met, pricesToPush, pubTimesToPush)"
| "check_prices source target (c # cs) (met, pricesToPush, pubTimesToPush) =
     (let targetLatestPrice = target (pc_id c);
          sourceLatestPrice = source (pc_id c);
          u = shouldUpdate c sourceLatestPrice targetLatestPrice;
          met' = (met \<or> u = YES)
      in if u = YES \<or> u = EARLY
         then check_prices source target cs
                (met', pricesToPush @ [c],
                 pubTimesToPush @ [(case targetLatestPrice of None \<Rightarrow> 0 | Some p \<Rightarrow> i_publishTime p) + 1])
         else check_prices source target cs (met', pricesToPush, pubTimesToPush))"

text \<open>One round of the loop of \<open>start\<close>: the arguments of the call of \<open>updatePriceFeed\<close>, if there is one.\<close>

definition controller_round ::
  "(string \<Rightarrow> PriceInfo option) \<Rightarrow> (string \<Rightarrow> PriceInfo option) \<Rightarrow> PriceConfig list \<Rightarrow> (string list \<times> int list) option" where
  "controller_round source target priceConfigs =
     (let (met, pricesToPush, pubTimesToPush) = check_prices source target priceConfigs (False, [], [])
      in if met then Some (map pc_id pricesToPush, pubTimesToPush) else None)"

definition existingPriceItems :: "string list \<Rightarrow> PriceItem list \<Rightarrow> PriceItem list \<times> PriceItem list" where
  "existingPriceItems allPriceIds items =
     foldl (\<lambda>acc it. if it_id it \<in> set allPriceIds then (fst acc @ [it], snd acc) else (fst acc, snd acc @ [it]))
       ([], []) items"

section \<open>The contract of a listener\<close>

locale price_listener =
  fixes getLatest :: "'s \<Rightarrow> string \<Rightarrow> PriceInfo option"
    and observe :: "'o \<Rightarrow> 's \<Rightarrow> 's"
  assumes observe_keeps: "getLatest s i \<noteq> None \<Longrightarrow> getLatest (observe x s) i \<noteq> None"
begin

lemma observe_all_keeps: "getLatest s i \<noteq> None \<Longrightarrow> getLatest (fold observe xs s) i \<noteq> None"
proof (induction xs arbitrary: s)
  case (Cons x xs)
  from Cons.IH [OF observe_keeps [OF Cons.prems, of x]] show ?case by simp
qed simp

end

locale monotone_listener = price_listener +
  assumes observe_mono:
    "getLatest s i = Some p \<Longrightarrow> getLatest (observe x s) i = Some q \<Longrightarrow> i_publishTime p \<le> i_publishTime q"
begin

lemma observe_all_mono:
  "getLatest s i = Some p \<Longrightarrow> \<exists>q. getLatest (fold observe xs s) i = Some q \<and> i_publishTime p \<le> i_publishTime q"
proof (induction xs arbitrary: s p)
  case (Cons x xs)
  obtain p' where p': "getLatest (observe x s) i = Some p'" using observe_keeps [of s i x] Cons.prems by auto
  with Cons.IH [OF p'] observe_mono [OF Cons.prems p'] show ?case by auto
qed simp

end

interpretation chain_listener: monotone_listener "\<lambda>m. m" "\<lambda>(i, p). updateLatestPriceInfo i p"
  by unfold_locales (auto simp: updateLatestPriceInfo_def split: option.splits if_splits)

interpretation hermes_listener: price_listener l_latest "\<lambda>(now, u). onPriceUpdate now u"
  by unfold_locales (auto simp: onPriceUpdate_def)

section \<open>The pusher as a state machine\<close>

text \<open>The listeners and the controller run concurrently; every event updates one listener or is a round of
  the controller, whose calls of \<open>updatePriceFeed\<close> are logged as pairs of identifier and time. Publish
  times are unsigned.\<close>

record pusher =
  p_target :: latest
  p_source :: PythPriceListener
  p_log :: "(string \<times> int) list"

definition new_pusher :: pusher where
  "new_pusher = \<lparr> p_target = Map.empty, p_source = \<lparr> l_latest = Map.empty, l_lastUpdated = None \<rparr>, p_log = [] \<rparr>"

definition log_push :: "(string list \<times> int list) option \<Rightarrow> (string \<times> int) list \<Rightarrow> (string \<times> int) list" where
  "log_push call entries = (case call of None \<Rightarrow> entries | Some (ids, ts) \<Rightarrow> entries @ zip ids ts)"

inductive pusher_step :: "PriceConfig list \<Rightarrow> PriceItem list \<Rightarrow> pusher \<Rightarrow> pusher \<Rightarrow> bool" for cs items where
  poll: "(\<And>i p. onChain i = Some p \<Longrightarrow> 0 \<le> i_publishTime p) \<Longrightarrow>
         pusher_step cs items s (s\<lparr> p_target := pollPrices onChain items (p_target s) \<rparr>)"
| event: "0 \<le> i_publishTime p \<Longrightarrow>
         pusher_step cs items s (s\<lparr> p_target := updateLatestPriceInfo i p (p_target s) \<rparr>)"
| hermes: "pusher_step cs items s (s\<lparr> p_source := onUpdates now parsed (p_source s) \<rparr>)"
| round: "call = controller_round (l_latest (p_source s)) (p_target s) cs \<Longrightarrow>
         pusher_step cs items s (s\<lparr> p_log := log_push call (p_log s) \<rparr>)"

inductive pusher_reach :: "PriceConfig list \<Rightarrow> PriceItem list \<Rightarrow> pusher \<Rightarrow> bool" for cs items where
  init: "pusher_reach cs items new_pusher"
| more: "pusher_reach cs items s \<Longrightarrow> pusher_step cs items s s' \<Longrightarrow> pusher_reach cs items s'"

section \<open>Lemmas\<close>

definition push_time :: "latest \<Rightarrow> string \<Rightarrow> int" where
  "push_time m i = (case m i of None \<Rightarrow> 0 | Some p \<Rightarrow> i_publishTime p) + 1"

definition condition :: "latest \<Rightarrow> latest \<Rightarrow> PriceConfig \<Rightarrow> UpdateCondition" where
  "condition source target c = shouldUpdate c (source (pc_id c)) (target (pc_id c))"

lemma check_prices_eq:
  "check_prices source target cs (met, ps, ts) =
     (met \<or> list_ex (\<lambda>c. condition source target c = YES) cs,
      ps @ filter (\<lambda>c. condition source target c \<noteq> NO) cs,
      ts @ map (\<lambda>c. push_time target (pc_id c)) (filter (\<lambda>c. condition source target c \<noteq> NO) cs))"
proof (induction cs arbitrary: met ps ts)
  case (Cons c cs)
  then show ?case by (cases "condition source target c") (simp_all add: condition_def push_time_def Let_def)
qed simp

lemma controller_round_eq:
  "controller_round source target cs =
     (let ps = filter (\<lambda>c. condition source target c \<noteq> NO) cs in
      if list_ex (\<lambda>c. condition source target c = YES) cs
      then Some (map pc_id ps, map (\<lambda>c. push_time target (pc_id c)) ps) else None)"
  by (simp add: controller_round_def check_prices_eq Let_def)

lemma pollPrices_fold:
  "pollPrices onChain items m =
     fold (\<lambda>(i, p). updateLatestPriceInfo i p)
       (List.map_filter (\<lambda>it. map_option (Pair (it_id it)) (onChain (it_id it))) items) m"
  by (induction items arbitrary: m) (simp_all add: map_filter_simps split: option.splits)

definition times_ok :: "latest \<Rightarrow> bool" where
  "times_ok m \<longleftrightarrow> (\<forall>i p. m i = Some p \<longrightarrow> 0 \<le> i_publishTime p)"

lemma times_ok_update: "times_ok m \<Longrightarrow> 0 \<le> i_publishTime p \<Longrightarrow> times_ok (updateLatestPriceInfo i p m)"
  by (auto simp: times_ok_def updateLatestPriceInfo_def split: option.splits)

lemma times_ok_poll:
  "times_ok m \<Longrightarrow> (\<And>i p. onChain i = Some p \<Longrightarrow> 0 \<le> i_publishTime p) \<Longrightarrow> times_ok (pollPrices onChain items m)"
  by (induction items arbitrary: m) (auto simp: times_ok_update split: option.splits)

lemma push_time_fold:
  assumes "times_ok (fold (\<lambda>(i, p). updateLatestPriceInfo i p) us m)"
  shows "push_time m i \<le> push_time (fold (\<lambda>(i, p). updateLatestPriceInfo i p) us m) i"
proof (cases "m i")
  case None
  then show ?thesis using assms by (auto simp: push_time_def times_ok_def split: option.splits)
next
  case (Some p)
  with chain_listener.observe_all_mono [of m i p us] show ?thesis by (auto simp: push_time_def)
qed

text \<open>The invariant: the times logged for an identifier increase and none is above the time that would be
  pushed now.\<close>

definition logged :: "string \<Rightarrow> (string \<times> int) list \<Rightarrow> int list" where
  "logged i entries = map snd (filter (\<lambda>e. fst e = i) entries)"

definition pusher_inv :: "pusher \<Rightarrow> bool" where
  "pusher_inv s \<longleftrightarrow> times_ok (p_target s) \<and>
     (\<forall>i. sorted (logged i (p_log s)) \<and> (\<forall>t \<in> set (logged i (p_log s)). t \<le> push_time (p_target s) i))"

lemma pusher_inv_target:
  assumes "pusher_inv s" "times_ok m" "\<And>i. push_time (p_target s) i \<le> push_time m i"
  shows "pusher_inv (s\<lparr> p_target := m \<rparr>)"
  using assms by (fastforce simp: pusher_inv_def intro: order_trans)

lemma logged_round:
  "logged i (zip (map pc_id ps) (map (\<lambda>c. f (pc_id c)) ps)) = replicate (length (filter (\<lambda>c. pc_id c = i) ps)) (f i)"
  by (induction ps) (auto simp: logged_def)

lemma logged_append: "logged i (xs @ ys) = logged i xs @ logged i ys"
  by (simp add: logged_def)

lemma pusher_inv_round:
  assumes "pusher_inv s"
  shows "pusher_inv (s\<lparr> p_log := log_push (controller_round source (p_target s) cs) (p_log s) \<rparr>)"
  using assms by (auto simp: pusher_inv_def log_push_def controller_round_eq Let_def logged_append logged_round
      sorted_append)

lemma pusher_inv_step: "pusher_step cs items s s' \<Longrightarrow> pusher_inv s \<Longrightarrow> pusher_inv s'"
proof (induction rule: pusher_step.induct)
  case (poll onChain s)
  then have "times_ok (pollPrices onChain items (p_target s))" by (simp add: pusher_inv_def times_ok_poll)
  with poll.prems push_time_fold show ?case by (intro pusher_inv_target) (simp_all add: pollPrices_fold)
next
  case (event p s i)
  then have "times_ok (updateLatestPriceInfo i p (p_target s))" by (simp add: pusher_inv_def times_ok_update)
  with event.prems push_time_fold [of "[(i, p)]"] show ?case by (intro pusher_inv_target) simp_all
next
  case (hermes s now parsed)
  then show ?case by (simp add: pusher_inv_def)
next
  case (round call s)
  then show ?case using pusher_inv_round by simp
qed

lemma pusher_inv_reach: "pusher_reach cs items s \<Longrightarrow> pusher_inv s"
proof (induction rule: pusher_reach.induct)
  case init
  show ?case by (simp add: pusher_inv_def new_pusher_def times_ok_def logged_def)
next
  case (more s s')
  then show ?case using pusher_inv_step by blast
qed

lemma priceDeviationPct_negative:
  assumes "Number (i_price tgt) = Fin y" "y < 0" "Number (i_price src) = Fin x"
  shows "js_nonpos (priceDeviationPct src tgt)"
  using assms unfolding priceDeviationPct_def
  by (intro js_mul_nonpos) (simp_all add: js_sub_def js_div_nonpos js_abs_nonneg)

section \<open>Properties\<close>

text \<open>C26. A round of the controller pushes something exactly when at least one feed must be updated, and
  then pushes, in the order of the configuration, exactly the feeds whose condition is \<open>YES\<close> or \<open>EARLY\<close>,
  each with the time one second after the latest one known on the target chain.\<close>

theorem controller_round_exact:
  "controller_round source target cs =
     (let ps = filter (\<lambda>c. shouldUpdate c (source (pc_id c)) (target (pc_id c)) \<noteq> NO) cs in
      if list_ex (\<lambda>c. shouldUpdate c (source (pc_id c)) (target (pc_id c)) = YES) cs
      then Some (map pc_id ps,
                 map (\<lambda>c. (case target (pc_id c) of None \<Rightarrow> 0 | Some p \<Rightarrow> i_publishTime p) + 1) ps)
      else None)"
  by (simp add: controller_round_eq condition_def push_time_def Let_def)

text \<open>C27. Pushed times never go back: whatever the chain, its events and Hermes deliver, and however polling,
  events and rounds interleave, the times that successive rounds push for a feed are in ascending order.\<close>

theorem pushed_times_ascend:
  assumes "pusher_reach cs items s"
  shows "sorted (map snd (filter (\<lambda>e. fst e = i) (p_log s)))"
  using pusher_inv_reach [OF assms] by (simp add: pusher_inv_def logged_def)

definition sample_config :: PriceConfig where
  "sample_config = \<lparr> pc_alias = ''BTC'', pc_id = ''ab'', timeDifference = Fin 60, priceDeviation = Fin (1/2),
     confidenceRatio = Fin 1, customEarlyUpdate = Some False, earlyUpdateTimeDifference = None,
     earlyUpdatePriceDeviation = None, earlyUpdateConfidenceRatio = None \<rparr>"

definition sample_pusher :: pusher where
  "sample_pusher = new_pusher\<lparr> p_log := [(''ab'', 1), (''ab'', 6)],
     p_target := [''ab'' \<mapsto> \<lparr> i_price = ''100'', i_conf = ''1'', i_publishTime = 5 \<rparr>] \<rparr>"

lemma sample_pusher_reach: "pusher_reach [sample_config] [] sample_pusher"
proof -
  let ?p = "\<lparr> i_price = ''100'', i_conf = ''1'', i_publishTime = 5 \<rparr>"
  have "pusher_reach [sample_config] [] (new_pusher\<lparr> p_log := [(''ab'', 1)] \<rparr>)"
    using pusher_reach.more [OF pusher_reach.init pusher_step.round [OF refl], of "[sample_config]" "[]"]
    by (simp add: controller_round_def shouldUpdate_def sample_config_def new_pusher_def log_push_def)
  from pusher_reach.more [OF this pusher_step.event [of ?p _ _ _ "''ab''"]]
  have "pusher_reach [sample_config] [] (new_pusher\<lparr> p_log := [(''ab'', 1)], p_target := [''ab'' \<mapsto> ?p] \<rparr>)"
    by (simp add: updateLatestPriceInfo_def new_pusher_def)
  from pusher_reach.more [OF this pusher_step.round [OF refl]] show ?thesis
    by (simp add: controller_round_def shouldUpdate_def sample_config_def new_pusher_def log_push_def
        sample_pusher_def)
qed

theorem pushed_times_ascend_witness: "sorted (map snd (filter (\<lambda>e. fst e = ''ab'') (p_log sample_pusher)))"
  by (rule pushed_times_ascend [OF sample_pusher_reach])

text \<open>An older price is never pushed: for every feed a round pushes, either one of the two prices is
  not known or the source's price is at least as recent as the target's.\<close>

theorem no_stale_push:
  assumes "controller_round source target cs = Some (ids, ts)" and "i \<in> set ids"
    and "source i = Some src" and "target i = Some tgt"
  shows "i_publishTime tgt \<le> i_publishTime src"
proof -
  obtain c where "shouldUpdate c (Some src) (Some tgt) \<noteq> NO"
    using assms by (auto simp: controller_round_eq condition_def Let_def split: if_splits)
  then show ?thesis by (auto simp: shouldUpdate_def split: if_splits)
qed

theorem no_stale_push_witness:
  "controller_round [''ab'' \<mapsto> \<lparr> i_price = ''100'', i_conf = ''1'', i_publishTime = 70 \<rparr>]
      [''ab'' \<mapsto> \<lparr> i_price = ''100'', i_conf = ''1'', i_publishTime = 5 \<rparr>] [sample_config] = Some ([''ab''], [6]) \<and>
   (5::int) \<le> 70"
proof
  show r: "controller_round [''ab'' \<mapsto> \<lparr> i_price = ''100'', i_conf = ''1'', i_publishTime = 70 \<rparr>]
      [''ab'' \<mapsto> \<lparr> i_price = ''100'', i_conf = ''1'', i_publishTime = 5 \<rparr>] [sample_config] = Some ([''ab''], [6])"
    by (simp add: controller_round_def shouldUpdate_def sample_config_def)
  from no_stale_push [OF r, of "''ab''"] show "(5::int) \<le> 70" by simp
qed

text \<open>The price deviation is relative to the signed target price: with a negative price on the target
  chain and a positive threshold, no movement of the price, however large, makes an update necessary
  before the time or the confidence does.\<close>

theorem negative_price_deviation_ignored:
  assumes "Number (i_price tgt) = Fin y" and "y < 0" and "Number (i_price src) = Fin x"
    and "priceDeviation c = Fin d" and "0 < d"
    and "i_publishTime src - i_publishTime tgt < t" and "timeDifference c = Fin (of_int t)"
    and "\<not> js_ge (confidenceRatioPct src) (confidenceRatio c)"
  shows "shouldUpdate c (Some src) (Some tgt) \<noteq> YES"
proof -
  have "\<not> js_ge (priceDeviationPct src tgt) (priceDeviation c)"
    unfolding assms(4) using priceDeviationPct_negative [OF assms(1-3)] assms(5) by (rule js_nonpos_ge)
  moreover have "\<not> js_ge (Fin (of_int (i_publishTime src - i_publishTime tgt))) (timeDifference c)"
    using assms(6) unfolding assms(7) js_ge.simps by (simp only: of_int_le_iff)
  ultimately show ?thesis using assms(8) by (auto simp: shouldUpdate_def Let_def)
qed

definition falling :: "string \<Rightarrow> PriceInfo" where
  "falling price = \<lparr> i_price = price, i_conf = ''0'', i_publishTime = 5 \<rparr>"

lemma falling_numbers:
  "Number ''-100'' = Fin (- 100)" "Number ''-200'' = Fin (- 200)" "Number ''0'' = Fin 0"
  using rnd_int [of "-100"] rnd_int [of "-200"] by (simp_all add: Number_def is_digit_def digits_value_def)

theorem negative_price_deviation_ignored_witness:
  "shouldUpdate sample_config (Some (falling ''-200'')) (Some (falling ''-100'')) \<noteq> YES"
  by (rule negative_price_deviation_ignored [where y = "-100" and x = "-200" and d = "1/2" and t = 60])
    (simp_all add: sample_config_def falling_def falling_numbers confidenceRatioPct_def)

end
