(* ===== verification/Evm_Pusher.thy ===== *)
theory Evm_Pusher
  imports Price_Pusher
begin

text \<open>
  \<open>apps/price_pusher/src/evm/evm.ts\<close>: the event handler of \<open>EvmPriceListener\<close> and \<open>updatePriceFeed\<close> of
  \<open>EvmPricePusher\<close>, which chooses the gas price and the nonce, sends the transaction and decides
  which failures are skipped.

  The node, the contract and Hermes are the record \<open>evm_env\<close> of what they answer during one call. A failure
  of the simulation or of the submission is either one of viem's errors, given by the answers to
  the questions the code asks about it, or any other error. A call returns the new state of the
  pusher also when it throws.
\<close>

section \<open>Numbers\<close>

fun BigInt :: "js_number \<Rightarrow> int result" where
  "BigInt (Fin x) = (if of_int \<lfloor>x\<rfloor> = x then Inr \<lfloor>x\<rfloor> else Inl RangeError)"
| "BigInt _ = Inl RangeError"

fun Math_ceil :: "js_number \<Rightarrow> js_number" where
  "Math_ceil (Fin x) = Fin (of_int \<lceil>x\<rceil>)"
| "Math_ceil a = a"

fun Math_round :: "js_number \<Rightarrow> js_number" where
  "Math_round (Fin x) = Fin (of_int \<lfloor>x + 1 / 2\<rfloor>)"
| "Math_round a = a"

text \<open>\<open>a || b\<close> on numbers.\<close>

definition js_or :: "js_number \<Rightarrow> js_number \<Rightarrow> js_number" where
  "js_or a b = (if a = NaN \<or> a = Fin 0 then b else a)"

fun str_includes :: "string \<Rightarrow> string \<Rightarrow> bool" where
  "str_includes [] p = (p = [])"
| "str_includes (c # cs) p = (starts_with p (c # cs) \<or> str_includes cs p)"

section \<open>The listener\<close>

record price_log =
  log_id :: "string option"
  log_conf :: "string option"
  log_price :: "string option"
  log_publishTime :: "int option"

definition assertDefined :: "'a option \<Rightarrow> 'a result" where
  "assertDefined v = (case v of None \<Rightarrow> Inl (JsError ''Assertion failed: value was undefined'') | Some x \<Rightarrow> Inr x)"

text \<open>A log with a missing member ends the handler, after the earlier logs took effect.\<close>

fun onPriceFeedUpdate :: "price_log list \<Rightarrow> latest \<Rightarrow> latest \<times> unit result" where
  "onPriceFeedUpdate [] m = (m, Inr ())"
| "onPriceFeedUpdate (lg # logs) m =
     (case bindR (assertDefined (log_id lg)) (\<lambda>i.
           bindR (assertDefined (log_conf lg)) (\<lambda>conf.
           bindR (assertDefined (log_price lg)) (\<lambda>price.
           bindR (assertDefined (log_publishTime lg)) (\<lambda>t.
             Inr (removeLeading0x i, \<lparr> i_price = price, i_conf = conf, i_publishTime = t \<rparr>))))) of
        Inl e \<Rightarrow> (m, Inl e)
      | Inr (priceId, priceInfo) \<Rightarrow> onPriceFeedUpdate logs (updateLatestPriceInfo priceId priceInfo m))"

section \<open>The pusher\<close>

record PushAttempt =
  pa_nonce :: int
  pa_gasPrice :: js_number

record EvmPricePusher =
  lastPushAttempt :: "PushAttempt option"
  overrideGasPriceMultiplier :: js_number
  overrideGasPriceMultiplierCap :: js_number
  updateFeeMultiplier :: js_number
  gasLimit :: "js_number option"
  fixedGasPrice :: "js_number option"

record evm_tx =
  tx_updateData :: "string list"
  tx_priceIds :: "string list"
  tx_pubTimes :: "int list"
  tx_value :: int
  tx_gasPrice :: int
  tx_nonce :: int
  tx_gas :: "int option"

text \<open>What \<open>err.walk\<close> finds in one of viem's errors, and its message.\<close>

record viem_error =
  noFreshUpdate :: bool
  insufficientFunds :: bool
  feeCapTooLow :: bool
  replacementUnderpriced :: bool
  executionNonce :: bool
  contractExecution :: bool
  txExecution :: bool
  ve_message :: string

datatype evm_failure =
    BaseError viem_error
  | OtherError js_error

text \<open>The custom gas station is a method that returns a promise; \<open>Some None\<close> is a promise of
  \<open>undefined\<close>, which it gives when its own request fails.\<close>

record evm_env =
  env_updateData :: "string list \<Rightarrow> string list result"
  env_updateFee :: "string list \<Rightarrow> int result"
  env_customGasPrice :: "int option option"
  env_gasPrice :: "int result"
  env_txCount :: "int result"
  env_send :: "evm_tx \<Rightarrow> evm_failure option"

datatype push_outcome =
    Nothing
  | Skipped
  | Sent evm_tx
  | Threw evm_failure

text \<open>The branches of the \<open>catch\<close> clause; \<open>None\<close> is \<open>return\<close>.\<close>

definition handle_failure :: "evm_failure \<Rightarrow> evm_failure option" where
  "handle_failure err =
     (case err of
        BaseError e \<Rightarrow>
          (if noFreshUpdate e then None
           else if insufficientFunds e then Some err
           else if feeCapTooLow e \<or> replacementUnderpriced e then None
           else if executionNonce e then None
           else if contractExecution e then None
           else if txExecution e then None
           else if str_includes (ve_message e) ''the tx doesn't have the correct nonce.'' \<or>
                   str_includes (ve_message e) ''nonce too low'' \<or> str_includes (ve_message e) ''invalid nonce'' then None
           else if str_includes (ve_message e) ''max fee per gas less than block base fee'' then None
           else if str_includes (ve_message e) ''sender doesn't have enough funds to send tx.''
                then Some (OtherError (JsError ''Please top up the wallet''))
           else if str_includes (ve_message e) ''could not replace existing tx'' then None
           else Some err)
      | OtherError e \<Rightarrow> Some err)"

definition network_gasPrice :: "evm_env \<Rightarrow> EvmPricePusher \<Rightarrow> js_number result" where
  "network_gasPrice env s =
     (case fixedGasPrice s of
        Some g \<Rightarrow> Inr g
      | None \<Rightarrow>
          (case env_customGasPrice env of
             None \<Rightarrow> bindR (env_gasPrice env) (\<lambda>g. Inr (number_of_int g))
           | Some (Some g) \<Rightarrow> Inr (number_of_int g)
           | Some None \<Rightarrow> Inr NaN))"

definition pending_attempt :: "int \<Rightarrow> EvmPricePusher \<Rightarrow> PushAttempt option" where
  "pending_attempt lastExecutedNonce s =
     (case lastPushAttempt s of
        None \<Rightarrow> None
      | Some a \<Rightarrow> if pa_nonce a \<le> lastExecutedNonce then None else Some a)"

definition chosen_gasPrice :: "js_number \<Rightarrow> PushAttempt option \<Rightarrow> EvmPricePusher \<Rightarrow> js_number" where
  "chosen_gasPrice gasPrice attempt s =
     (case attempt of
        None \<Rightarrow> gasPrice
      | Some a \<Rightarrow>
          (let gasPriceToOverride = js_mul (pa_gasPrice a) (overrideGasPriceMultiplier s) in
           if js_gt gasPriceToOverride gasPrice
           then js_min gasPriceToOverride (js_mul gasPrice (overrideGasPriceMultiplierCap s))
           else gasPrice))"

definition send_tx ::
  "evm_env \<Rightarrow> string list \<Rightarrow> string list \<Rightarrow> int list \<Rightarrow> int \<Rightarrow> js_number \<Rightarrow> int \<Rightarrow> EvmPricePusher \<Rightarrow> evm_failure + evm_tx" where
  "send_tx env updateData priceIds pubTimes updateFee gasPrice txNonce s =
     (case bindR (BigInt (Math_ceil gasPrice)) (\<lambda>g.
           bindR (case gasLimit s of None \<Rightarrow> Inr None | Some l \<Rightarrow> bindR (BigInt (Math_ceil l)) (\<lambda>x. Inr (Some x))) (\<lambda>gas.
             Inr \<lparr> tx_updateData = updateData, tx_priceIds = map addLeading0x priceIds, tx_pubTimes = pubTimes,
                   tx_value = updateFee, tx_gasPrice = g, tx_nonce = txNonce, tx_gas = gas \<rparr>)) of
        Inl e \<Rightarrow> Inl (OtherError e)
      | Inr tx \<Rightarrow> (case env_send env tx of None \<Rightarrow> Inr tx | Some err \<Rightarrow> Inl err))"

definition update_fee :: "evm_env \<Rightarrow> string list \<Rightarrow> EvmPricePusher \<Rightarrow> int result" where
  "update_fee env updateData s =
     bindR (env_updateFee env updateData) (\<lambda>fee.
       BigInt (Math_round (js_mul (number_of_int fee) (js_or (updateFeeMultiplier s) (Fin 1)))))"

text \<open>The requests before the transaction, in their order: update data, fee, gas price and nonce.\<close>

definition prepare :: "evm_env \<Rightarrow> string list \<Rightarrow> EvmPricePusher \<Rightarrow> (string list \<times> int \<times> js_number \<times> int) result" where
  "prepare env priceIds s =
     bindR (env_updateData env priceIds) (\<lambda>d.
     bindR (update_fee env (map addLeading0x d) s) (\<lambda>fee.
     bindR (network_gasPrice env s) (\<lambda>gasPrice.
     bindR (env_txCount env) (\<lambda>count. Inr (map addLeading0x d, fee, gasPrice, count - 1)))))"

definition updatePriceFeed ::
  "evm_env \<Rightarrow> string list \<Rightarrow> int list \<Rightarrow> EvmPricePusher \<Rightarrow> EvmPricePusher \<times> push_outcome" where
  "updatePriceFeed env priceIds pubTimesToPush s =
     (if length priceIds = 0 then (s, Nothing)
      else if length priceIds \<noteq> length pubTimesToPush then (s, Threw (OtherError (JsError ''Invalid arguments'')))
      else
        (case prepare env priceIds s of
           Inl e \<Rightarrow> (s, Threw (OtherError e))
         | Inr (updateData, updateFee, gasPrice, lastExecutedNonce) \<Rightarrow>
             (let attempt = pending_attempt lastExecutedNonce s;
                  s1 = s\<lparr> lastPushAttempt := attempt \<rparr>;
                  gasPrice' = chosen_gasPrice gasPrice attempt s1;
                  txNonce = lastExecutedNonce + 1
              in case send_tx env updateData priceIds pubTimesToPush updateFee gasPrice' txNonce s1 of
                   Inl err \<Rightarrow> (s1, case handle_failure err of None \<Rightarrow> Skipped | Some e \<Rightarrow> Threw e)
                 | Inr tx \<Rightarrow> (s1\<lparr> lastPushAttempt := Some \<lparr> pa_nonce = txNonce, pa_gasPrice = gasPrice' \<rparr> \<rparr>, Sent tx))))"

section \<open>Lemmas\<close>

lemma js_ge_NaN [simp]: "\<not> js_ge a NaN"
  by (cases a) simp_all

lemma floor_half [simp]: "\<lfloor>1 / 2 :: rat\<rfloor> = 0"
  by (simp add: floor_eq_iff)

lemma js_ge_refl: "a \<noteq> NaN \<Longrightarrow> js_ge a a"
  by (cases a) simp_all

lemma js_ge_total: "a \<noteq> NaN \<Longrightarrow> b \<noteq> NaN \<Longrightarrow> js_ge a b \<or> js_ge b a"
  by (cases a; cases b) auto

lemma js_ge_trans: "js_ge a b \<Longrightarrow> js_ge b c \<Longrightarrow> js_ge a c"
  by (cases a; cases b; cases c) auto

lemma js_ge_number: "js_ge a b \<Longrightarrow> a \<noteq> NaN \<and> b \<noteq> NaN"
  by (cases a; cases b) auto

lemma js_max_ge: "a \<noteq> NaN \<Longrightarrow> b \<noteq> NaN \<Longrightarrow> js_ge (js_max a b) a \<and> js_ge (js_max a b) b"
  using js_ge_total [of a b] by (auto simp: js_max_def js_ge_refl)

lemma js_min_le: "a \<noteq> NaN \<Longrightarrow> b \<noteq> NaN \<Longrightarrow> js_ge a (js_min a b) \<and> js_ge b (js_min a b)"
  using js_ge_total [of a b] by (auto simp: js_min_def js_ge_refl)

lemma js_min_cases: "js_min a b = NaN \<or> js_min a b = a \<or> js_min a b = b"
  by (simp add: js_min_def)

lemma BigInt_ceil_number: "BigInt (Math_ceil g) = Inr n \<Longrightarrow> g \<noteq> NaN"
  by (cases g) simp_all

lemma chosen_gasPrice_bounds:
  assumes g: "chosen_gasPrice base attempt s = g" "g \<noteq> NaN"
    and cap: "js_mul base (overrideGasPriceMultiplierCap s) \<noteq> NaN"
  shows "js_ge (js_max base (js_mul base (overrideGasPriceMultiplierCap s))) g \<and>
         js_ge g (js_min base (js_mul base (overrideGasPriceMultiplierCap s)))"
proof (cases "g = base")
  case True
  then show ?thesis using g(2) cap js_max_ge js_min_le by blast
next
  case False
  with g(1) obtain a where a: "attempt = Some a"
    by (cases attempt) (simp_all add: chosen_gasPrice_def)
  have gt: "js_gt (js_mul (pa_gasPrice a) (overrideGasPriceMultiplier s)) base"
    and m: "g = js_min (js_mul (pa_gasPrice a) (overrideGasPriceMultiplier s)) (js_mul base (overrideGasPriceMultiplierCap s))"
    using g(1) False unfolding chosen_gasPrice_def a option.case Let_def by presburger+
  let ?o = "js_mul (pa_gasPrice a) (overrideGasPriceMultiplier s)" and ?c = "js_mul base (overrideGasPriceMultiplierCap s)"
  have num: "?o \<noteq> NaN" "base \<noteq> NaN" "js_ge ?o base" using gt js_ge_number by (auto simp: js_gt_def)
  have up: "js_ge ?c g" using js_min_le [OF num(1) cap] m by simp
  have "js_ge g (js_min base ?c)"
    using js_min_cases [of ?o ?c] m g(2) num(3) js_min_le [OF num(2) cap] js_ge_trans by metis
  with up js_max_ge [OF num(2) cap] js_ge_trans show ?thesis by blast
qed

lemma updatePriceFeed_Sent:
  assumes "updatePriceFeed env ids ts s = (s', Sent tx)"
  obtains data fee base n g where "prepare env ids s = Inr (data, fee, base, n)"
    and "g = chosen_gasPrice base (pending_attempt n s) (s\<lparr> lastPushAttempt := pending_attempt n s \<rparr>)"
    and "send_tx env data ids ts fee g (n + 1) (s\<lparr> lastPushAttempt := pending_attempt n s \<rparr>) = Inr tx"
    and "s' = s\<lparr> lastPushAttempt := Some \<lparr> pa_nonce = n + 1, pa_gasPrice = g \<rparr> \<rparr>"
proof -
  from assms obtain p where p: "prepare env ids s = Inr p"
    unfolding updatePriceFeed_def by (cases "prepare env ids s") (simp_all split: if_splits)
  obtain data fee base n where d: "p = (data, fee, base, n)" by (cases p) auto
  let ?s = "s\<lparr> lastPushAttempt := pending_attempt n s \<rparr>"
  let ?send = "send_tx env data ids ts fee (chosen_gasPrice base (pending_attempt n s) ?s) (n + 1) ?s"
  show ?thesis
  proof (cases ?send)
    case (Inl err)
    with assms p d show ?thesis by (simp add: updatePriceFeed_def Let_def split: if_splits option.splits)
  next
    case (Inr tx')
    with assms p d have "tx' = tx"
      "s' = s\<lparr> lastPushAttempt := Some \<lparr> pa_nonce = n + 1, pa_gasPrice = chosen_gasPrice base (pending_attempt n s) ?s \<rparr> \<rparr>"
      by (simp_all add: updatePriceFeed_def Let_def split: if_splits)
    with that [OF p [unfolded d] refl] Inr show ?thesis by simp
  qed
qed

lemma send_tx_Inr:
  "send_tx env data ids ts fee g nonce s = Inr tx \<Longrightarrow>
     BigInt (Math_ceil g) = Inr (tx_gasPrice tx) \<and> tx_nonce tx = nonce \<and> env_send env tx = None \<and>
     tx_priceIds tx = map addLeading0x ids \<and> tx_pubTimes tx = ts"
  by (auto simp: send_tx_def bindR_Inr_iff split: sum.splits option.splits)

lemma prepare_lastPushAttempt [simp]: "prepare env ids (s\<lparr> lastPushAttempt := a \<rparr>) = prepare env ids s"
  by (simp add: prepare_def update_fee_def network_gasPrice_def)

lemma pending_attempt_idem [simp]:
  "pending_attempt n (s\<lparr> lastPushAttempt := pending_attempt n s \<rparr>) = pending_attempt n s"
  by (simp add: pending_attempt_def split: option.splits)

section \<open>Properties\<close>

text \<open>C28. Gas price and nonce of a transaction that was sent: the nonce is the first one the chain has not
  executed, so a transaction that has not landed is replaced; the gas price lies between the network's
  gas price and that price times the cap, whatever the earlier attempts were; and both are recorded for
  the next call.\<close>

theorem sent_gas_price_bounds:
  assumes "updatePriceFeed env ids ts s = (s', Sent tx)" and "network_gasPrice env s = Inr base"
    and "cap = js_mul base (overrideGasPriceMultiplierCap s)" and "cap \<noteq> NaN"
  shows "\<exists>g. BigInt (Math_ceil g) = Inr (tx_gasPrice tx) \<and>
             js_ge (js_max base cap) g \<and> js_ge g (js_min base cap) \<and> env_txCount env = Inr (tx_nonce tx) \<and>
             s' = s\<lparr> lastPushAttempt := Some \<lparr> pa_nonce = tx_nonce tx, pa_gasPrice = g \<rparr> \<rparr>"
proof (rule updatePriceFeed_Sent [OF assms(1)])
  fix data fee base' n g
  assume prep: "prepare env ids s = Inr (data, fee, base', n)"
    and g: "g = chosen_gasPrice base' (pending_attempt n s) (s\<lparr> lastPushAttempt := pending_attempt n s \<rparr>)"
    and send: "send_tx env data ids ts fee g (n + 1) (s\<lparr> lastPushAttempt := pending_attempt n s \<rparr>) = Inr tx"
    and s': "s' = s\<lparr> lastPushAttempt := Some \<lparr> pa_nonce = n + 1, pa_gasPrice = g \<rparr> \<rparr>"
  have base: "base' = base" "env_txCount env = Inr (n + 1)"
    using prep assms(2) by (auto simp: prepare_def bindR_Inr_iff)
  note tx = send_tx_Inr [OF send]
  have "js_ge (js_max base cap) g \<and> js_ge g (js_min base cap)"
    using chosen_gasPrice_bounds [OF g [symmetric]] BigInt_ceil_number [of g] tx assms(3,4) base by simp
  with tx base s' show ?thesis by auto
qed

definition sample_env :: evm_env where
  "sample_env = \<lparr> env_updateData = (\<lambda>_. Inr [''00'']), env_updateFee = (\<lambda>_. Inr 0), env_customGasPrice = None,
     env_gasPrice = Inr 10, env_txCount = Inr 3, env_send = (\<lambda>_. None) \<rparr>"

definition sample_evm :: EvmPricePusher where
  "sample_evm = \<lparr> lastPushAttempt = Some \<lparr> pa_nonce = 3, pa_gasPrice = Fin 40 \<rparr>, overrideGasPriceMultiplier = Fin 2,
     overrideGasPriceMultiplierCap = Fin 5, updateFeeMultiplier = Fin 1, gasLimit = None, fixedGasPrice = None \<rparr>"

definition sample_tx :: evm_tx where
  "sample_tx = \<lparr> tx_updateData = [''0x00''], tx_priceIds = [''0xab''], tx_pubTimes = [6], tx_value = 0,
     tx_gasPrice = 50, tx_nonce = 3, tx_gas = None \<rparr>"

lemma sample_rnd: "rnd 10 = Fin 10" "rnd 50 = Fin 50" "rnd 80 = Fin 80"
  using rnd_int [of 10] rnd_int [of 50] rnd_int [of 80] by simp_all

lemmas evm_run = updatePriceFeed_def prepare_def update_fee_def network_gasPrice_def pending_attempt_def
  chosen_gasPrice_def send_tx_def handle_failure_def js_or_def number_of_int_def js_gt_def js_min_def
  addLeading0x_def starts_with_def sample_env_def sample_evm_def sample_rnd

lemma sample_run:
  "updatePriceFeed sample_env [''ab''] [6] sample_evm =
     (sample_evm\<lparr> lastPushAttempt := Some \<lparr> pa_nonce = 3, pa_gasPrice = Fin 50 \<rparr> \<rparr>, Sent sample_tx)"
  "network_gasPrice sample_env sample_evm = Inr (Fin 10)"
  by (simp_all add: evm_run sample_tx_def)

theorem sent_gas_price_bounds_witness:
  "\<exists>g. BigInt (Math_ceil g) = Inr 50 \<and> js_ge (js_max (Fin 10) (Fin 50)) g \<and> js_ge g (js_min (Fin 10) (Fin 50))"
  using sent_gas_price_bounds [OF sample_run refl] by (auto simp: sample_evm_def sample_rnd sample_tx_def intro!: exI [of _ "Fin 50"])

text \<open>A push that is not sent leaves no trace: when a transaction is skipped or the call throws, for
  instance because the gas price was too low, its gas price is not recorded, and the same call in the
  same circumstances makes the same attempt with the same result. The gas price is not increased in
  the next push.\<close>

theorem unsent_push_not_recorded:
  assumes "updatePriceFeed env ids ts s = (s', outcome)" and "\<not> (\<exists>tx. outcome = Sent tx)"
  shows "updatePriceFeed env ids ts s' = (s', outcome) \<and>
         (lastPushAttempt s' = lastPushAttempt s \<or> lastPushAttempt s' = None)"
proof (cases "prepare env ids s")
  case (Inl e)
  then show ?thesis using assms by (auto simp: updatePriceFeed_def split: if_splits)
next
  case (Inr p)
  obtain data fee base n where d: "p = (data, fee, base, n)" by (cases p) auto
  show ?thesis
  proof (cases "s' = s")
    case True
    then show ?thesis using assms(1) by simp
  next
    case False
    then have len: "length ids \<noteq> 0" "length ids = length ts"
      using assms(1) by (auto simp: updatePriceFeed_def split: if_splits)
    let ?s = "s\<lparr> lastPushAttempt := pending_attempt n s \<rparr>"
    let ?send = "send_tx env data ids ts fee (chosen_gasPrice base (pending_attempt n s) ?s) (n + 1) ?s"
    obtain err where err: "?send = Inl err"
      using assms Inr d len by (cases ?send) (auto simp: updatePriceFeed_def Let_def)
    then have s': "s' = ?s" using assms(1) Inr d len by (simp add: updatePriceFeed_def Let_def)
    then have "updatePriceFeed env ids ts s' = updatePriceFeed env ids ts s"
      using Inr d len err by (simp add: updatePriceFeed_def Let_def)
    with assms(1) s' show ?thesis by (simp add: pending_attempt_def split: option.splits)
  qed
qed

definition underpriced :: viem_error where
  "underpriced = \<lparr> noFreshUpdate = False, insufficientFunds = False, feeCapTooLow = True,
     replacementUnderpriced = False, executionNonce = False, contractExecution = False, txExecution = True,
     ve_message = [] \<rparr>"

theorem unsent_push_not_recorded_witness:
  "updatePriceFeed (sample_env\<lparr> env_send := (\<lambda>_. Some (BaseError underpriced)) \<rparr>) [''ab''] [6]
     (sample_evm\<lparr> lastPushAttempt := None \<rparr>) = (sample_evm\<lparr> lastPushAttempt := None \<rparr>, Skipped)"
proof (rule conjunct1 [OF unsent_push_not_recorded])
  show "updatePriceFeed (sample_env\<lparr> env_send := (\<lambda>_. Some (BaseError underpriced)) \<rparr>) [''ab''] [6]
     (sample_evm\<lparr> lastPushAttempt := None \<rparr>) = (sample_evm\<lparr> lastPushAttempt := None \<rparr>, Skipped)"
    by (simp add: evm_run underpriced_def)
qed simp

text \<open>When the custom gas station cannot be reached, the node's gas price is not used instead: the
  gas price is not a number, and every push throws, whatever the node answers.\<close>

theorem gas_station_failure_throws:
  assumes "ids \<noteq> []" and "length ids = length ts"
    and "fixedGasPrice s = None" and "env_customGasPrice env = Some None"
    and "env_updateData env ids = Inr d" and "update_fee env (map addLeading0x d) s = Inr fee"
    and "env_txCount env = Inr n"
  shows "snd (updatePriceFeed env ids ts s) = Threw (OtherError RangeError)"
proof -
  have "chosen_gasPrice NaN a s1 = NaN" for a s1
    by (simp add: chosen_gasPrice_def js_gt_def Let_def split: option.splits)
  with assms show ?thesis
    by (auto simp: updatePriceFeed_def prepare_def network_gasPrice_def send_tx_def handle_failure_def Let_def)
qed

theorem gas_station_failure_throws_witness:
  "snd (updatePriceFeed (sample_env\<lparr> env_customGasPrice := Some None \<rparr>) [''ab''] [6] sample_evm)
     = Threw (OtherError RangeError)"
  by (rule gas_station_failure_throws [where d = "[''00'']" and fee = 0 and n = 3])
    (simp_all add: evm_run)

end
