(* ===== verification/Solana_Pusher.thy ===== *)
theory Solana_Pusher
  imports Solana_Receiver Evm_Pusher
begin

text \<open>
  \<open>apps/price_pusher/src/solana/solana.ts\<close>: the price listener of Solana and its two pushers, one that sends ordinary
  transactions and one that sends bundles through Jito, with \<open>sendTransactionsJito\<close> of \<open>solana_utils/jito.ts\<close>. The
  transactions come from the model of \<open>PythTransactionBuilder\<close>. Hermes, the receiver program and the block engine are
  arguments; what the block engine answers may depend on a state of its own.
\<close>

section \<open>Reading a price\<close>

text \<open>The account as Anchor decodes it: price and confidence in decimal, and the publish time, a BN whose \<open>toNumber\<close> throws
  beyond 53 bits.\<close>

definition sol_getOnChainPriceInfo :: "(bytes \<Rightarrow> (string \<times> string \<times> int) option result) \<Rightarrow> string \<Rightarrow> PriceInfo option" where
  "sol_getOnChainPriceInfo fetchPriceFeedAccount priceId =
     (case fetchPriceFeedAccount (from_hex priceId) of
        Inl _ \<Rightarrow> None
      | Inr None \<Rightarrow> None
      | Inr (Some (price, conf, publishTime)) \<Rightarrow>
          if \<bar>publishTime\<bar> \<ge> 2 ^ 53 then None
          else Some \<lparr> i_price = price, i_conf = conf, i_publishTime = publishTime \<rparr>)"

section \<open>\<open>SolanaPricePusher\<close>\<close>

text \<open>The ids in the order of random keys; the sort is stable.\<close>

definition shuffled :: "(nat \<Rightarrow> rat) \<Rightarrow> string list \<Rightarrow> string list" where
  "shuffled random priceIds = map snd (sort_key fst (map (\<lambda>(i, x). (random i, x)) (enumerate 0 priceIds)))"

text \<open>\<open>races\<close> gives the signatures of the sent transactions and the races of their confirmation. The outcome is \<open>None\<close> while
  a confirmation is awaited, an error that the call throws, no signatures when a failure was logged, or the signatures.\<close>

definition sol_updatePriceFeed where
  "sol_updatePriceFeed R S bn fresh draw draw' wallet lut treasuryId shardId unitPrice random getLatestPriceUpdates races priceIds n =
     (if priceIds = [] then Some (Inr None)
      else (case getLatestPriceUpdates (shuffled random priceIds) of
        Inl (_ :: js_error) \<Rightarrow> Some (Inr None)
      | Inr priceFeedUpdateData \<Rightarrow>
          (case addUpdatePriceFeed R S bn fresh draw treasuryId priceFeedUpdateData shardId n
                  (new_PythTransactionBuilder wallet (Some True) lut) of
             Inl e \<Rightarrow> Some (Inl e)
           | Inr (_, transactionBuilder) \<Rightarrow>
               (let transactions = snd (ptb_buildVersionedTransactions S draw draw'
                  \<lparr> computeUnitPriceMicroLamports = Some unitPrice, tightComputeBudget = True, jitoTipLamports = None,
                    jitoBundleSize = None \<rparr> transactionBuilder) in
                case sendTransactions None (races transactions) [] of
                  None \<Rightarrow> None
                | Some (Inl _) \<Rightarrow> Some (Inr None)
                | Some (Inr signatures) \<Rightarrow> Some (Inr (Some signatures))))))"

section \<open>The tip\<close>

definition LAMPORTS_PER_SOL :: js_number where "LAMPORTS_PER_SOL = Fin 1000000000"

fun Math_floor :: "js_number \<Rightarrow> js_number" where
  "Math_floor (Fin x) = Fin (of_int \<lfloor>x\<rfloor>)"
| "Math_floor a = a"

text \<open>\<open>tip_floor\<close> is the answer of the request: the median of the landed tips as a number (\<open>NaN\<close> when the answer lacks it).\<close>

definition getRecentJitoTipLamports :: "js_number result \<Rightarrow> js_number option" where
  "getRecentJitoTipLamports tip_floor =
     (case tip_floor of Inl _ \<Rightarrow> None | Inr landed_tips_50th_percentile \<Rightarrow>
        Some (Math_floor (js_mul landed_tips_50th_percentile LAMPORTS_PER_SOL)))"

definition cappedJitoTip :: "js_number \<Rightarrow> bool \<Rightarrow> js_number \<Rightarrow> js_number option \<Rightarrow> js_number" where
  "cappedJitoTip defaultJitoTipLamports dynamicJitoTips maxJitoTipLamports recentJitoTip =
     (let jitoTip = (case recentJitoTip of
        Some t \<Rightarrow> if dynamicJitoTips then js_max defaultJitoTipLamports t else defaultJitoTipLamports
      | None \<Rightarrow> defaultJitoTipLamports)
      in js_min jitoTip maxJitoTipLamports)"

text \<open>The tip as the builder takes it; it leaves a tip that is \<open>NaN\<close> out, and the configured tips are natural numbers.\<close>

definition lamports :: "js_number \<Rightarrow> nat option" where
  "lamports tip = (case tip of Fin x \<Rightarrow> Some (nat \<lfloor>x\<rfloor>) | _ \<Rightarrow> None)"

section \<open>Bundles\<close>

definition sendTransactionsJito :: "('tx \<Rightarrow> 'signed) \<Rightarrow> ('signed \<Rightarrow> string) \<Rightarrow> 'tx list \<Rightarrow> (string \<times> 'signed list) result" where
  "sendTransactionsJito sign firstSignature transactions =
     (let signedTransactions = map sign transactions in
      if signedTransactions = [] then Inl TypeError
      else Inr (firstSignature (signedTransactions ! 0), signedTransactions))"

text \<open>An error of the block engine, with its code and details.\<close>

record jito_error =
  je_code :: int
  je_details :: "string option"

definition rate_limited :: "jito_error \<Rightarrow> bool" where
  "rate_limited err \<longleftrightarrow> je_code err = 8 \<and>
     (case je_details err of None \<Rightarrow> False | Some d \<Rightarrow> str_includes d ''Rate limit exceeded'')"

fun send_with_retries :: "nat \<Rightarrow> ('b \<Rightarrow> 's \<Rightarrow> jito_error option \<times> 's) \<Rightarrow> 'b \<Rightarrow> 's \<Rightarrow> jito_error option \<times> 's" where
  "send_with_retries 0 send b s = (None, s)"
| "send_with_retries (Suc retries) send b s =
     (case send b s of
        (None, s') \<Rightarrow> (None, s')
      | (Some err, s') \<Rightarrow>
          if rate_limited err then (if retries = 0 then (Some err, s') else send_with_retries retries send b s')
          else (Some err, s'))"

definition jito_slices :: "string list \<Rightarrow> nat \<Rightarrow> nat \<Rightarrow> string list result" where
  "jito_slices priceFeedUpdateData i updatesPerJitoBundle =
     mapR (\<lambda>x. bindR (sliceAccumulatorUpdateData (from_base64 x) (Some (int i)) (Some (int (i + updatesPerJitoBundle))))
       (\<lambda>b. Inr (to_base64 b))) priceFeedUpdateData"

definition jito_transactions where
  "jito_transactions R S bn fresh draw draw' wallet lut treasuryId shardId tip bundleSize data n =
     bindR (addUpdatePriceFeed R S bn fresh draw treasuryId data shardId n (new_PythTransactionBuilder wallet (Some True) lut))
       (\<lambda>(n', transactionBuilder).
         Inr (n', snd (ptb_buildVersionedTransactions S draw draw'
           \<lparr> computeUnitPriceMicroLamports = None, tightComputeBudget = True, jitoTipLamports = lamports tip,
             jitoBundleSize = Some bundleSize \<rparr> transactionBuilder)))"

datatype jito_failure = Not_built js_error | Not_sent jito_error

text \<open>The loop over the ids. It keeps the update data of the bundles the block engine took; a step of 0 never ends.\<close>

partial_function (option) jito_loop ::
  "(string list \<Rightarrow> nat \<Rightarrow> (nat \<times> 'b) result) \<Rightarrow> ('b \<Rightarrow> 's \<Rightarrow> jito_error option \<times> 's) \<Rightarrow> string list \<Rightarrow> nat \<Rightarrow> nat \<Rightarrow> nat \<Rightarrow> nat \<Rightarrow>
   string list list \<Rightarrow> 's \<Rightarrow> ((jito_failure + unit) \<times> string list list \<times> 's) option" where
  "jito_loop build send data updatesPerJitoBundle numIds i n sent s =
     (if i < numIds then
        (case bindR (jito_slices data i updatesPerJitoBundle) (\<lambda>d. bindR (build d n) (\<lambda>r. Inr (d, r))) of
           Inl e \<Rightarrow> Some (Inl (Not_built e), sent, s)
         | Inr (d, n', b) \<Rightarrow>
             (case send_with_retries 60 send b s of
                (Some err, s') \<Rightarrow> Some (Inl (Not_sent err), sent, s')
              | (None, s') \<Rightarrow> jito_loop build send data updatesPerJitoBundle numIds (i + updatesPerJitoBundle) n' (sent @ [d]) s'))
      else Some (Inr (), sent, s))"

definition jito_updatePriceFeed where
  "jito_updatePriceFeed R S bn fresh draw draw' wallet lut treasuryId shardId defaultTip dynamicJitoTips maxTip bundleSize
     updatesPerJitoBundle sign firstSignature tip_floor getLatestPriceUpdates sendBundle priceIds n s =
     (let tip = cappedJitoTip defaultTip dynamicJitoTips maxTip (getRecentJitoTipLamports tip_floor) in
      case getLatestPriceUpdates priceIds of
        Inl (_ :: js_error) \<Rightarrow> Some (Inr (), [], s)
      | Inr priceFeedUpdateData \<Rightarrow>
          jito_loop
            (\<lambda>d n. bindR (jito_transactions R S bn fresh draw draw' wallet lut treasuryId shardId tip bundleSize d n)
              (\<lambda>(n', transactions). bindR (sendTransactionsJito sign firstSignature transactions) (\<lambda>(_, bundle). Inr (n', bundle))))
            sendBundle priceFeedUpdateData updatesPerJitoBundle (length priceIds) 0 n [] s)"

section \<open>Lemmas\<close>

lemma js_slice_nat: "js_slice xs (Some (int i)) (Some (int (i + k))) = take k (drop i xs)"
  by (cases "i \<le> length xs") (auto simp: js_slice_def js_index_def subarray_def min_def nat_int_add)

definition parsed_update :: "string \<Rightarrow> AccumulatorUpdateData result" where
  "parsed_update x = parseAccumulatorUpdateData (from_base64 x)"

definition sliced :: "nat \<Rightarrow> nat \<Rightarrow> AccumulatorUpdateData \<Rightarrow> AccumulatorUpdateData" where
  "sliced i k d = d\<lparr> a_updates := take k (drop i (a_updates d)) \<rparr>"

lemma jito_slices_parse:
  "mapR parsed_update data = Inr ds \<Longrightarrow> \<exists>out. jito_slices data i k = Inr out \<and> mapR parsed_update out = Inr (map (sliced i k) ds)"
proof (induction data arbitrary: ds)
  case (Cons x data)
  then obtain d ds' where d: "parsed_update x = Inr d" "mapR parsed_update data = Inr ds'" "ds = d # ds'"
    by (auto simp: bindR_Inr_iff)
  obtain out where "sliceAccumulatorUpdateData (from_base64 x) (Some (int i)) (Some (int (i + k))) = Inr out"
    "parseAccumulatorUpdateData out = Inr (sliced i k d)"
    using slice_parses [OF d(1) [unfolded parsed_update_def], of "Some (int i)" "Some (int (i + k))"]
    unfolding js_slice_nat sliced_def by blast
  then show ?case
    using Cons.IH [OF d(2)] d(3) by (auto simp: jito_slices_def parsed_update_def)
qed (simp add: jito_slices_def)

text \<open>The updates of the \<open>j\<close>-th update data in the given bundles.\<close>

definition bundle_updates :: "string list list \<Rightarrow> nat \<Rightarrow> update list" where
  "bundle_updates sent j = concat (map (\<lambda>d. case parsed_update (d ! j) of Inr a \<Rightarrow> a_updates a | Inl _ \<Rightarrow> []) sent)"

lemma mapR_nth: "mapR f xs = Inr ys \<Longrightarrow> j < length ys \<Longrightarrow> f (xs ! j) = Inr (ys ! j)"
  by (induction xs arbitrary: ys j) (auto simp: bindR_Inr_iff nth_Cons split: nat.splits)

lemma bundle_updates_Cons:
  "mapR parsed_update d = Inr (map (sliced i k) ds) \<Longrightarrow> j < length ds \<Longrightarrow>
   bundle_updates (d # sent) j = take k (drop i (a_updates (ds ! j))) @ bundle_updates sent j"
  using mapR_nth [of parsed_update d "map (sliced i k) ds" j] by (simp add: bundle_updates_def sliced_def)

lemma take_drop_add: "take k (drop i xs) @ take m (drop (i + k) xs) = take (k + m) (drop i xs)"
  by (simp add: take_add drop_drop add.commute)

lemma jito_loop_carries:
  assumes "0 < k" and data: "mapR parsed_update data = Inr ds"
  shows "\<exists>r sent' s'. jito_loop build send data k numIds i n sent s = Some (r, sent @ sent', s') \<and>
    (\<forall>j < length ds. bundle_updates sent' j = take (length sent' * k) (drop i (a_updates (ds ! j)))) \<and>
    (r = Inr () \<longrightarrow> numIds \<le> i + length sent' * k)"
proof (induction "numIds - i" arbitrary: i n sent s rule: less_induct)
  case less
  let ?goal = "\<lambda>r sent' s'. jito_loop build send data k numIds i n sent s = Some (r, sent @ sent', s') \<and>
    (\<forall>j < length ds. bundle_updates sent' j = take (length sent' * k) (drop i (a_updates (ds ! j)))) \<and>
    (r = Inr () \<longrightarrow> numIds \<le> i + length sent' * k)"
  obtain d where d: "jito_slices data i k = Inr d" "mapR parsed_update d = Inr (map (sliced i k) ds)"
    using jito_slices_parse [OF data] by blast
  consider "\<not> i < numIds" | e where "i < numIds" "build d n = Inl e"
    | n' b err s' where "i < numIds" "build d n = Inr (n', b)" "send_with_retries 60 send b s = (Some err, s')"
    | n' b s' where "i < numIds" "build d n = Inr (n', b)" "send_with_retries 60 send b s = (None, s')"
    by (metis old.sum.exhaust option.exhaust surj_pair)
  then show ?case
  proof cases
    case 4
    then have "numIds - (i + k) < numIds - i" using \<open>0 < k\<close> by simp
    from less [OF this, of n' "sent @ [d]" s'] obtain r sent' s'' where
      r: "jito_loop build send data k numIds (i + k) n' (sent @ [d]) s' = Some (r, (sent @ [d]) @ sent', s'')"
      "\<forall>j < length ds. bundle_updates sent' j = take (length sent' * k) (drop (i + k) (a_updates (ds ! j)))"
      "r = Inr () \<longrightarrow> numIds \<le> i + k + length sent' * k" by blast
    have "?goal r (d # sent') s''"
      using 4 d r by (subst jito_loop.simps) (simp add: bundle_updates_Cons take_drop_add add.assoc)
    then show ?thesis by blast
  qed (subst jito_loop.simps; use d in \<open>simp add: bundle_updates_def\<close>)+
qed

text \<open>A block engine whose calls are counted.\<close>

definition counted :: "('b \<Rightarrow> 's \<Rightarrow> 'r \<times> 's) \<Rightarrow> 'b \<Rightarrow> nat \<times> 's \<Rightarrow> 'r \<times> nat \<times> 's" where
  "counted send b cs = (case send b (snd cs) of (r, s') \<Rightarrow> (r, Suc (fst cs), s'))"

lemma counted_pair: "send b s = (r, s') \<Longrightarrow> counted send b (c, s) = (r, Suc c, s')"
  by (simp add: counted_def)

lemma send_with_retries_counted:
  "send_with_retries retries (counted send) b (c, s) = (r, c', s') \<Longrightarrow>
   c \<le> c' \<and> c' \<le> c + retries \<and> (\<forall>err. r = Some err \<and> rate_limited err \<longrightarrow> c' = c + retries)"
proof (induction retries arbitrary: c s)
  case (Suc retries)
  obtain r1 s1 where e: "send b s = (r1, s1)" by fastforce
  show ?case
  proof (cases "\<exists>err. r1 = Some err \<and> rate_limited err \<and> retries \<noteq> 0")
    case True
    then have "send_with_retries retries (counted send) b (Suc c, s1) = (r, c', s')"
      using Suc.prems counted_pair [of send, OF e] by auto
    from Suc.IH [OF this] show ?thesis by simp
  next
    case False
    then show ?thesis using Suc.prems counted_pair [of send, OF e] by (auto split: option.splits if_splits)
  qed
qed simp

lemma jito_loop_bounded:
  assumes "0 < k"
  shows "jito_loop build (counted send) data k numIds i n sent (c, s) = Some (r, sent', c', s') \<Longrightarrow>
    c' \<le> c + 60 * ((numIds + k - 1 - i) div k) \<and> (\<forall>err. r = Inl (Not_sent err) \<and> rate_limited err \<longrightarrow> c + 60 \<le> c')"
proof (induction "numIds - i" arbitrary: i n sent c s rule: less_induct)
  case less
  note run = less.prems [unfolded jito_loop.simps [of _ _ _ _ _ i]]
  let ?built = "bindR (jito_slices data i k) (\<lambda>d. bindR (build d n) (\<lambda>r. Inr (d, r)))"
  consider "\<not> i < numIds" | e where "i < numIds" "?built = Inl e" | d n' b where "i < numIds" "?built = Inr (d, n', b)"
    by (cases ?built) auto
  then show ?case
  proof cases
    case 3
    have "k \<le> numIds + k - 1 - i" "numIds + k - 1 - i - k = numIds + k - 1 - (i + k)" using 3(1) assms by auto
    then have rounds: "(numIds + k - 1 - i) div k = Suc ((numIds + k - 1 - (i + k)) div k)"
      using le_div_geq [OF assms] by simp
    obtain o1 c1 s1 where o: "send_with_retries 60 (counted send) b (c, s) = (o1, c1, s1)" by (metis surj_pair)
    note tries = send_with_retries_counted [OF o]
    show ?thesis
    proof (cases o1)
      case None
      then have go: "jito_loop build (counted send) data k numIds (i + k) n' (sent @ [d]) (c1, s1) = Some (r, sent', c', s')"
        using run 3 o by simp
      have "numIds - (i + k) < numIds - i" using 3(1) assms by simp
      from less.hyps [OF this go] tries rounds show ?thesis by auto
    next
      case (Some err)
      then show ?thesis using run 3 o tries rounds by auto
    qed
  qed (use run in auto)
qed

section \<open>Properties\<close>


definition two_updates :: AccumulatorUpdateData where
  "two_updates = \<lparr> a_vaa = [1, 0, 0, 0, 0, 0],
     a_updates = [\<lparr> u_message = [0, 7], u_proof = [] \<rparr>, \<lparr> u_message = [0, 8], u_proof = [] \<rparr>] \<rparr>"

lemma two_updates_parsed:
  "mapR parsed_update [to_base64 (accumulator_bytes [] 0 two_updates)] = Inr [two_updates]"
  by (simp add: parsed_update_def parse_at two_updates_def wf_data_def wf_update_def)


text \<open>A Jito push ends: with a step of at least one feed it makes at most 60 calls of the block engine for each bundle,
  and it gives up on a rate limit only after 60 calls for the same bundle.\<close>

theorem jito_push_ends:
  assumes "0 < step" "getLatestPriceUpdates ids = Inr data" "mapR parsed_update data = Inr ds"
  shows "\<exists>r sent c s'. jito_updatePriceFeed R S bn fresh draw draw' wallet lut t shard defaultTip dynamic maxTip bundleSize step sign sig
      tip_floor getLatestPriceUpdates (counted sendBundle) ids n (0, s) = Some (r, sent, c, s') \<and>
    c \<le> 60 * ((length ids + step - 1) div step) \<and> (\<forall>err. r = Inl (Not_sent err) \<and> rate_limited err \<longrightarrow> 60 \<le> c)"
proof -
  let ?tip = "cappedJitoTip defaultTip dynamic maxTip (getRecentJitoTipLamports tip_floor)"
  let ?build = "\<lambda>d n. bindR (jito_transactions R S bn fresh draw draw' wallet lut t shard ?tip bundleSize d n)
    (\<lambda>(n', transactions). bindR (sendTransactionsJito sign sig transactions) (\<lambda>(_, bundle). Inr (n', bundle)))"
  obtain r sent c s' where run:
    "jito_loop ?build (counted sendBundle) data step (length ids) 0 n [] (0, s) = Some (r, sent, c, s')"
    using jito_loop_carries [OF assms(1,3), of ?build "counted sendBundle" "length ids" 0 n "[]" "(0, s)"] by auto
  from jito_loop_bounded [OF assms(1) run] run show ?thesis
    using assms(2) by (auto simp: jito_updatePriceFeed_def Let_def)
qed

lemma jito_push_ends_witness:
  "\<exists>r sent c s'. jito_updatePriceFeed sample_receiver sample_solana doc_bn (\<lambda>i. i) (\<lambda>_. 0) (\<lambda>_. 0) 5 None 0 0 (Fin 1000) True (Fin 9000)
      5 6 (\<lambda>tx. tx) (\<lambda>_. ''s'') (Inr (Fin (1 / 200000))) (\<lambda>_. Inr [to_base64 (accumulator_bytes [] 0 two_updates)])
      (counted (\<lambda>b (u :: unit). (Some \<lparr> je_code = 8, je_details = Some ''Rate limit exceeded'' \<rparr>, u))) [''7'', ''8''] 3 (0, ())
      = Some (r, sent, c, s') \<and> c \<le> 60"
  using jito_push_ends [of 6 "\<lambda>_. Inr [to_base64 (accumulator_bytes [] 0 two_updates)]" "[''7'', ''8'']"
      "[to_base64 (accumulator_bytes [] 0 two_updates)]" "[two_updates]" sample_receiver sample_solana doc_bn "\<lambda>i. i" "\<lambda>_. 0" "\<lambda>_. 0"
      5 None 0 0 "Fin 1000" True "Fin 9000" 5 "\<lambda>tx. tx" "\<lambda>_. ''s''" "Inr (Fin (1 / 200000))"
      "\<lambda>b (u :: unit). (Some \<lparr> je_code = 8, je_details = Some ''Rate limit exceeded'' \<rparr>, u)" 3 "()"]
    two_updates_parsed by fastforce

text \<open>The tip of a bundle is between the smaller of the default and the maximum, and the maximum, whatever the tip
  service answers; when its answer lacks the median, the bundles of a pusher with dynamic tips carry no tip at all.\<close>

theorem jito_tip_bounds:
  "if dynamic \<and> getRecentJitoTipLamports tip_floor = Some NaN
   then lamports (cappedJitoTip (Fin d) dynamic (Fin m) (getRecentJitoTipLamports tip_floor)) = None
   else \<exists>x. cappedJitoTip (Fin d) dynamic (Fin m) (getRecentJitoTipLamports tip_floor) = Fin x \<and> min d m \<le> x \<and> x \<le> m"
proof (cases "getRecentJitoTipLamports tip_floor")
  case (Some t)
  then show ?thesis by (cases t) (auto simp: cappedJitoTip_def js_max_def js_min_def lamports_def)
qed (auto simp: cappedJitoTip_def js_min_def)

end
