(* ===== verification/Sui_Pusher.thy ===== *)
theory Sui_Pusher
  imports Evm_Pusher
begin

text \<open>
  \<open>apps/price_pusher/src/sui/sui.ts\<close>: the price pusher of Sui, which sends transactions in parallel, each paid with a
  gas coin of its own from a pool, and the initialisation of the pool, which merges all coins and splits the sum.

  A transaction that waits for its answer is an entry of the state, so the answers arrive in any order. What the node
  answers is an argument. Objects have a current reference on the chain; who pays with an old one is refused.
\<close>

section \<open>Object references and prices\<close>

record SuiObjectRef =
  objectId :: string
  ref_version :: string
  ref_digest :: string

definition GAS_FEE_FOR_SPLIT :: int where
  "GAS_FEE_FOR_SPLIT = 2000000000"

definition MAX_NUM_GAS_OBJECTS_IN_PTB :: nat where
  "MAX_NUM_GAS_OBJECTS_IN_PTB = 256"

definition MAX_NUM_OBJECTS_IN_ARGUMENT :: nat where
  "MAX_NUM_OBJECTS_IN_ARGUMENT = 510"

text \<open>The fields of a price object: magnitude, sign, confidence and timestamp. Every failure is logged and gives
  \<open>undefined\<close>.\<close>

definition sui_getOnChainPriceInfo :: "(string \<Rightarrow> (string \<times> bool \<times> string \<times> int) result) \<Rightarrow> string \<Rightarrow> PriceInfo option" where
  "sui_getOnChainPriceInfo getPrice priceId =
     (case getPrice priceId of
        Inl _ \<Rightarrow> None
      | Inr (magnitude, negative, conf, timestamp) \<Rightarrow>
          Some \<lparr> i_price = (if negative then ''-'' @ magnitude else magnitude), i_conf = conf, i_publishTime = timestamp \<rparr>)"

text \<open>The code calls \<open>chunkArray\<close> with the positive sizes 3 and 254 only.\<close>

function chunkArray :: "'a list \<Rightarrow> nat \<Rightarrow> 'a list list" where
  "chunkArray array n = (if array \<noteq> [] \<and> 0 < n then take n array # chunkArray (drop n array) n else [])"
  by pat_completeness auto

termination
  by (relation "measure (\<lambda>(array, _). length array)") auto

declare chunkArray.simps [simp del]

section \<open>Pushing\<close>

text \<open>The transactions of an update: one for each three price feeds, with the one VAA that Hermes gives for them.\<close>

definition sui_transactions ::
  "(string list \<Rightarrow> string list result) \<Rightarrow> SuiObjectRef list \<Rightarrow> string list \<Rightarrow> int list \<Rightarrow> (string \<times> string list) list result" where
  "sui_transactions getLatestPriceUpdates gasPool priceIds pubTimesToPush =
     (if priceIds = [] then Inr []
      else if length priceIds \<noteq> length pubTimesToPush then Inl (JsError ''Invalid arguments'')
      else if gasPool = [] then Inr []
      else mapR (\<lambda>priceIdChunk.
             bindR (getLatestPriceUpdates priceIdChunk) (\<lambda>vaas.
               if length vaas \<noteq> 1 then Inl (JsError ''Expected a single VAA'') else Inr (vaas ! 0, priceIdChunk)))
             (chunkArray priceIds 3))"

record 'tx sui =
  gasPool :: "SuiObjectRef list"
  inFlight :: "(SuiObjectRef \<times> 'tx) list"

text \<open>\<open>sendTransactionBlock\<close> up to its first \<open>await\<close>; without a coin the push is skipped.\<close>

definition sendTransactionBlock :: "'tx \<Rightarrow> 'tx sui \<Rightarrow> 'tx sui" where
  "sendTransactionBlock tx s =
     (case gasPool s of
        [] \<Rightarrow> s
      | gasObject # rest \<Rightarrow> s\<lparr> gasPool := rest, inFlight := inFlight s @ [(gasObject, tx)] \<rparr>)"

definition sendTransactionBlocks :: "'tx list \<Rightarrow> 'tx sui \<Rightarrow> 'tx sui" where
  "sendTransactionBlocks txs s = fold sendTransactionBlock txs s"

text \<open>The answer to a transaction: the references of the changed objects, if the node gives effects, or an error,
  with the answer to the request that refreshes the reference of the coin.\<close>

datatype sui_answer =
    Executed "SuiObjectRef list option"
  | Threw string "SuiObjectRef option"

definition out_of_gas :: "string \<Rightarrow> bool" where
  "out_of_gas err \<longleftrightarrow> str_includes err ''Balance of gas object'' \<or> str_includes err ''GasBalanceTooLow''"

text \<open>The rest of \<open>sendTransactionBlock\<close>: the coin that goes back to the pool, or the error it throws.\<close>

definition nextGasObject :: "SuiObjectRef \<Rightarrow> sui_answer \<Rightarrow> SuiObjectRef option result" where
  "nextGasObject gasObject answer =
     (case answer of
        Executed mutated \<Rightarrow>
          Inr (case mutated of None \<Rightarrow> None | Some refs \<Rightarrow> find (\<lambda>ref. objectId ref = objectId gasObject) refs)
      | Threw err refreshed \<Rightarrow>
          if out_of_gas err then Inl (JsError err)
          else (case refreshed of
                  None \<Rightarrow> Inl (JsError ''Failed to refresh object reference'')
                | Some ref \<Rightarrow> Inr (Some ref)))"

definition transaction_answered :: "nat \<Rightarrow> sui_answer \<Rightarrow> 'tx sui \<Rightarrow> 'tx sui" where
  "transaction_answered k answer s =
     (let gasObject = fst (inFlight s ! k) in
      s\<lparr> gasPool := gasPool s @ (case nextGasObject gasObject answer of Inr (Some ref) \<Rightarrow> [ref] | _ \<Rightarrow> []),
         inFlight := take k (inFlight s) @ drop (Suc k) (inFlight s) \<rparr>)"

section \<open>Initialising the pool\<close>

text \<open>\<open>getAllGasCoins\<close>: a page has the coins, whether there are more, and the next cursor.\<close>

partial_function (option) coin_pages ::
  "('c \<Rightarrow> SuiObjectRef list \<times> bool \<times> 'c) \<Rightarrow> 'c \<Rightarrow> SuiObjectRef list \<Rightarrow> SuiObjectRef list option" where
  "coin_pages getCoins cursor acc =
     (case getCoins cursor of (data, hasNextPage, nextCursor) \<Rightarrow>
        if hasNextPage then coin_pages getCoins nextCursor (acc @ data) else Some (acc @ data))"

definition getAllGasCoins :: "('c \<Rightarrow> SuiObjectRef list \<times> bool \<times> 'c) \<Rightarrow> 'c \<Rightarrow> SuiObjectRef list result option" where
  "getAllGasCoins getCoins cursor =
     map_option (\<lambda>coins. if distinct coins then Inr coins
       else Inl (JsError ''Unexpected getCoins result: duplicate coins found'')) (coin_pages getCoins cursor [])"

datatype merge_result =
    Merged "SuiObjectRef list"
  | Effects_error string
  | Locked "string list"
  | Failed js_error

text \<open>The loop of \<open>mergeGasCoinsIntoOne\<close> over the chunks; \<open>execute\<close> sends the transaction that the coins pay.\<close>

partial_function (option) merge_loop ::
  "('s \<Rightarrow> SuiObjectRef list \<Rightarrow> merge_result \<times> 's) \<Rightarrow> SuiObjectRef list list \<Rightarrow> string list \<Rightarrow> SuiObjectRef option \<Rightarrow> 's \<Rightarrow>
   (SuiObjectRef option result \<times> 's) option" where
  "merge_loop execute chunks lockedAddresses finalCoin s =
     (case chunks of
        [] \<Rightarrow> Some (Inr finalCoin, s)
      | chunk # rest \<Rightarrow>
          (let coins = (case finalCoin of None \<Rightarrow> [] | Some c \<Rightarrow> [c]) @ filter (\<lambda>coin. objectId coin \<notin> set lockedAddresses) chunk in
           case execute s coins of
             (Failed e, s') \<Rightarrow> Some (Inl e, s')
           | (Effects_error m, s') \<Rightarrow> Some (Inl (JsError m), s')
           | (Merged mutated, s') \<Rightarrow>
               merge_loop execute rest lockedAddresses (case mutated of [] \<Rightarrow> None | ref # _ \<Rightarrow> Some ref) s'
           | (Locked ids, s') \<Rightarrow> merge_loop execute chunks (lockedAddresses @ ids) finalCoin s'))"

definition mergeGasCoinsIntoOne ::
  "('s \<Rightarrow> SuiObjectRef list \<Rightarrow> merge_result \<times> 's) \<Rightarrow> SuiObjectRef list \<Rightarrow> string list \<Rightarrow> 's \<Rightarrow>
   (SuiObjectRef option result \<times> 's) option" where
  "mergeGasCoinsIntoOne execute gasCoins initialLockedAddresses s =
     (if length gasCoins = 1 then Some (Inr (Some (gasCoins ! 0)), s)
      else merge_loop execute (chunkArray gasCoins (MAX_NUM_GAS_OBJECTS_IN_PTB - 2)) initialLockedAddresses None s)"

text \<open>\<open>split\<close> sends the transaction that splits the coin: the error of its effects, or the created references.\<close>

definition splitGasCoinEqually :: "(js_number \<Rightarrow> nat \<Rightarrow> SuiObjectRef \<Rightarrow> js_error + SuiObjectRef list) \<Rightarrow> js_number \<Rightarrow> nat \<Rightarrow> SuiObjectRef \<Rightarrow>
   SuiObjectRef list result" where
  "splitGasCoinEqually split splitAmount numGasObjects gasCoin =
     bindR (split splitAmount numGasObjects gasCoin) (\<lambda>newCoins.
       if length newCoins \<noteq> numGasObjects then Inl (JsError ''Failed to initialize gas pool'') else Inr newCoins)"

text \<open>\<open>bigint\<close> division truncates.\<close>

definition bigint_quotient :: "int \<Rightarrow> int \<Rightarrow> int result" where
  "bigint_quotient a b = (if b = 0 then Inl RangeError else Inr (sgn a * sgn b * (\<bar>a\<bar> div \<bar>b\<bar>)))"

definition initializeGasPool ::
  "(SuiObjectRef \<Rightarrow> int option) \<Rightarrow> (js_number \<Rightarrow> nat \<Rightarrow> SuiObjectRef \<Rightarrow> js_error + SuiObjectRef list) \<Rightarrow> nat \<Rightarrow> SuiObjectRef option result \<Rightarrow>
   SuiObjectRef list result" where
  "initializeGasPool getBalance split numGasObjects merged =
     bindR merged (\<lambda>consolidatedCoin.
       case consolidatedCoin of
         None \<Rightarrow> Inl TypeError
       | Some coin \<Rightarrow>
           (case getBalance coin of
              None \<Rightarrow> Inl (JsError ''Bad coin object'')
            | Some balance \<Rightarrow>
                bindR (bigint_quotient (balance - GAS_FEE_FOR_SPLIT) (int numGasObjects)) (\<lambda>splitAmount.
                  splitGasCoinEqually split (number_of_int splitAmount) numGasObjects coin)))"

definition createWithAutomaticGasPool ::
  "(SuiObjectRef \<Rightarrow> int option) \<Rightarrow> (js_number \<Rightarrow> nat \<Rightarrow> SuiObjectRef \<Rightarrow> js_error + SuiObjectRef list) \<Rightarrow> nat \<Rightarrow> SuiObjectRef option result \<Rightarrow>
   'tx sui result" where
  "createWithAutomaticGasPool getBalance split numGasObjects merged =
     (if numGasObjects > MAX_NUM_OBJECTS_IN_ARGUMENT then Inl (JsError ''numGasObjects cannot be greater'')
      else bindR (initializeGasPool getBalance split numGasObjects merged) (\<lambda>pool.
        Inr \<lparr> gasPool = pool, inFlight = [] \<rparr>))"

section \<open>The chain\<close>

text \<open>\<open>current i\<close> is the current reference of the object \<open>i\<close>. An answer is truthful when every reference it gives for the
  coin is the current one.\<close>

fun truthful :: "(string \<Rightarrow> SuiObjectRef) \<Rightarrow> string \<Rightarrow> sui_answer \<Rightarrow> bool" where
  "truthful current i (Executed None) \<longleftrightarrow> True"
| "truthful current i (Executed (Some refs)) \<longleftrightarrow> list_all (\<lambda>r. objectId r = i \<longrightarrow> r = current i) refs"
| "truthful current i (Threw err None) \<longleftrightarrow> True"
| "truthful current i (Threw err (Some r)) \<longleftrightarrow> r = current i"

text \<open>A step sends a transaction or answers one, which may have changed the coin that pays it and no other.\<close>

inductive sui_step :: "'tx sui \<times> (string \<Rightarrow> SuiObjectRef) \<Rightarrow> 'tx sui \<times> (string \<Rightarrow> SuiObjectRef) \<Rightarrow> bool" where
  send: "sui_step (s, current) (sendTransactionBlock tx s, current)"
| answered: "k < length (inFlight s) \<Longrightarrow> i = objectId (fst (inFlight s ! k)) \<Longrightarrow> objectId ref = i \<Longrightarrow>
    truthful (current(i := ref)) i answer \<Longrightarrow> sui_step (s, current) (transaction_answered k answer s, current(i := ref))"

inductive sui_run :: "'tx sui \<times> (string \<Rightarrow> SuiObjectRef) \<Rightarrow> 'tx sui \<times> (string \<Rightarrow> SuiObjectRef) \<Rightarrow> bool" where
  refl: "sui_run c c"
| step: "sui_run c d \<Longrightarrow> sui_step d e \<Longrightarrow> sui_run c e"

inductive_cases sui_stepE: "sui_step c d"

section \<open>Lemmas\<close>

definition coin_ids :: "'tx sui \<Rightarrow> string list" where
  "coin_ids s = map objectId (gasPool s @ map fst (inFlight s))"

text \<open>No two places hold the same coin, they hold only coins of the initial pool, and the pool is up to date.\<close>

definition sui_inv :: "string set \<Rightarrow> 'tx sui \<times> (string \<Rightarrow> SuiObjectRef) \<Rightarrow> bool" where
  "sui_inv G c \<longleftrightarrow> (case c of (s, current) \<Rightarrow>
     distinct (coin_ids s) \<and> set (coin_ids s) \<subseteq> G \<and> list_all (\<lambda>g. current (objectId g) = g) (gasPool s @ map fst (inFlight s)))"

lemma nextGasObject_ok:
  "truthful current (objectId g) answer \<Longrightarrow> objectId (current (objectId g)) = objectId g \<Longrightarrow>
   nextGasObject g answer = Inr (Some ref) \<Longrightarrow> ref = current (objectId g)"
  by (cases "(current, objectId g, answer)" rule: truthful.cases)
    (auto simp: nextGasObject_def list_all_iff find_Some_iff dest: nth_mem split: if_splits)

lemma split_at: "k < length xs \<Longrightarrow> \<exists>pre post. xs = pre @ xs ! k # post \<and> take k xs @ drop (Suc k) xs = pre @ post"
  using id_take_nth_drop [of k xs] by blast

lemma sui_inv_step: "sui_step c d \<Longrightarrow> sui_inv G c \<Longrightarrow> sui_inv G d"
proof (induction rule: sui_step.induct)
  case (send s current tx)
  then show ?case by (cases "gasPool s") (auto simp: sui_inv_def sendTransactionBlock_def coin_ids_def)
next
  case (answered k s i ref current answer)
  define g where "g = fst (inFlight s ! k)"
  obtain pre post where split: "inFlight s = pre @ inFlight s ! k # post"
    "take k (inFlight s) @ drop (Suc k) (inFlight s) = pre @ post"
    using split_at [OF answered.hyps(1)] by blast
  have f: "map fst (inFlight s) = map fst pre @ g # map fst post"
    "take k (inFlight s) @ drop (Suc k) (inFlight s) = pre @ post"
    using arg_cong [OF split(1), of "map fst"] split(2) by (simp_all add: g_def)
  have i: "i = objectId g" using answered.hyps(2) by (simp add: g_def)
  have inv: "distinct (map objectId (gasPool s @ map fst pre @ g # map fst post))"
    "set (map objectId (gasPool s @ map fst pre @ g # map fst post)) \<subseteq> G"
    "list_all (\<lambda>g. current (objectId g) = g) (gasPool s @ map fst pre @ g # map fst post)"
    using answered.prems unfolding sui_inv_def coin_ids_def prod.case f(1) by blast+
  have fresh: "i \<notin> objectId ` set (gasPool s @ map fst pre @ map fst post)"
    using inv(1) unfolding i by auto
  have others: "list_all (\<lambda>g. (current(i := ref)) (objectId g) = g) (gasPool s @ map fst pre @ map fst post)"
    using inv(3) fresh by (auto simp: list_all_iff)
  let ?rest = "gasPool s @ map fst pre @ map fst post"
  have ids: "distinct (i # map objectId ?rest)" "insert i (set (map objectId ?rest)) \<subseteq> G"
    using inv(1,2) fresh unfolding i by auto
  show ?case
  proof (cases "\<exists>r. nextGasObject g answer = Inr (Some r)")
    case True
    then obtain r where r: "nextGasObject g answer = Inr (Some r)" by blast
    have "r = (current(i := ref)) (objectId g)"
      using nextGasObject_ok [OF _ _ r] answered.hyps(3,4) i by simp
    then have rr: "r = ref" using i by simp
    have t: "transaction_answered k answer s = s\<lparr> gasPool := gasPool s @ [ref], inFlight := pre @ post \<rparr>"
      using r rr f(2) by (simp add: transaction_answered_def g_def Let_def)
    have "distinct (map objectId (gasPool s) @ i # map objectId (map fst pre @ map fst post))"
      "set (map objectId (gasPool s) @ i # map objectId (map fst pre @ map fst post)) \<subseteq> G"
      using ids by auto
    moreover have "list_all (\<lambda>g. (current(i := ref)) (objectId g) = g) (gasPool s @ ref # map fst pre @ map fst post)"
      using others answered.hyps(3) unfolding list_all_append list.pred_inject by (simp only: fun_upd_same simp_thms)
    ultimately show ?thesis using answered.hyps(3) unfolding sui_inv_def coin_ids_def t
      by (simp del: fun_upd_apply add: image_Un Int_Un_distrib)
  next
    case False
    then have t: "transaction_answered k answer s = s\<lparr> inFlight := pre @ post \<rparr>"
      using f(2) by (auto simp: transaction_answered_def g_def Let_def split: sum.split option.split)
    have "distinct (map objectId ?rest)" "set (map objectId ?rest) \<subseteq> G" using ids by auto
    with others show ?thesis unfolding sui_inv_def coin_ids_def t
      by (simp del: fun_upd_apply add: image_Un Int_Un_distrib)
  qed
qed

lemma sui_inv_run: "sui_run c d \<Longrightarrow> sui_inv G c \<Longrightarrow> sui_inv G d"
  by (induction rule: sui_run.induct) (simp_all add: sui_inv_step)

section \<open>Merging\<close>

text \<open>The coins of a chunk that are not known to be locked: what a retry makes smaller.\<close>

definition unlocked :: "SuiObjectRef list \<Rightarrow> string list \<Rightarrow> string set" where
  "unlocked chunk lockedAddresses = objectId ` set chunk - set lockedAddresses"

lemma merge_chunk_ends:
  assumes locked: "\<And>s coins ids s'. execute s coins = (Locked ids, s') \<Longrightarrow> \<exists>i \<in> set ids. i \<in> objectId ` set coins \<and> i \<notin> own"
    and merged: "\<And>s coins r rs s'. execute s coins = (Merged (r # rs), s') \<Longrightarrow> objectId r \<in> own"
    and rest: "\<And>locked final s. (\<And>c. final = Some c \<Longrightarrow> objectId c \<in> own) \<Longrightarrow> merge_loop execute rest locked final s \<noteq> None"
    and final: "\<And>c. final = Some c \<Longrightarrow> objectId c \<in> own"
  shows "merge_loop execute (chunk # rest) lockedAddresses final s \<noteq> None"
proof (induction "card (unlocked chunk lockedAddresses)" arbitrary: lockedAddresses s rule: less_induct)
  case less
  let ?coins = "(case final of None \<Rightarrow> [] | Some c \<Rightarrow> [c]) @ filter (\<lambda>coin. objectId coin \<notin> set lockedAddresses) chunk"
  obtain q s' where e: "execute s ?coins = (q, s')" by fastforce
  show ?case
  proof (cases q)
    case (Merged mutated)
    have "merge_loop execute rest lockedAddresses (case mutated of [] \<Rightarrow> None | ref # _ \<Rightarrow> Some ref) s' \<noteq> None"
    proof (rule rest)
      show "objectId c \<in> own" if "(case mutated of [] \<Rightarrow> None | ref # _ \<Rightarrow> Some ref) = Some c" for c
        using that merged e Merged by (auto split: list.splits)
    qed
    then show ?thesis using e Merged by (subst merge_loop.simps) (simp add: Let_def)
  next
    case (Locked ids)
    obtain i where i: "i \<in> set ids" "i \<in> objectId ` set ?coins" "i \<notin> own" using locked e Locked by blast
    then have "i \<in> unlocked chunk lockedAddresses" using final by (auto simp: unlocked_def split: option.splits)
    then have "unlocked chunk (lockedAddresses @ ids) \<subset> unlocked chunk lockedAddresses"
      using i(1) by (auto simp: unlocked_def)
    then have "card (unlocked chunk (lockedAddresses @ ids)) < card (unlocked chunk lockedAddresses)"
      by (rule psubset_card_mono [rotated]) (simp add: unlocked_def)
    from less [OF this, of s'] e Locked show ?thesis by (subst merge_loop.simps) (simp add: Let_def)
  qed (use e in \<open>simp_all add: merge_loop.simps Let_def\<close>)
qed

lemma merge_loop_ends:
  assumes "\<And>s coins ids s'. execute s coins = (Locked ids, s') \<Longrightarrow> \<exists>i \<in> set ids. i \<in> objectId ` set coins \<and> i \<notin> own"
    and "\<And>s coins r rs s'. execute s coins = (Merged (r # rs), s') \<Longrightarrow> objectId r \<in> own"
  shows "(\<And>c. final = Some c \<Longrightarrow> objectId c \<in> own) \<Longrightarrow> merge_loop execute chunks lockedAddresses final s \<noteq> None"
proof (induction chunks arbitrary: lockedAddresses final s)
  case Nil
  show ?case by (simp add: merge_loop.simps)
next
  case (Cons chunk rest)
  show ?case by (rule merge_chunk_ends [OF assms Cons.IH Cons.prems])
qed

text \<open>A retry leaves the coin merged so far in the transaction, so it cannot help when that coin is the locked one.\<close>

lemma merge_loop_locked:
  "merge_loop execute chunks lockedAddresses final s = Some r \<Longrightarrow>
   final = Some m \<longrightarrow> (\<forall>coins. \<exists>ids. execute s (m # coins) = (Locked ids, s)) \<longrightarrow> chunks = []"
proof (induction rule: merge_loop.raw_induct [rotated, consumes 1, case_names step])
  case (step loop execute chunks lockedAddresses final s r)
  show ?case
  proof (intro impI)
    assume final: "final = Some m" and all: "\<forall>coins. \<exists>ids. execute s (m # coins) = (Locked ids, s)"
    show "chunks = []"
    proof (cases chunks)
      case (Cons chunk rest)
      obtain ids where "execute s (m # filter (\<lambda>coin. objectId coin \<notin> set lockedAddresses) chunk) = (Locked ids, s)"
        using all by blast
      with step(2) Cons final have "loop execute chunks (lockedAddresses @ ids) final s = Some r" by (simp add: Let_def)
      from step(1) [OF this] show ?thesis using final all by blast
    qed
  qed
qed

section \<open>Properties\<close>

text \<open>C29. Parallel pushes: from a pool of distinct coins with current references, after any sends and any answers in any
  order, no two of the transactions in flight and the free places of the pool hold the same gas coin, they hold only coins
  of the initial pool, and every free coin is held with its current reference.\<close>

theorem parallel_pushes_never_share_a_coin:
  assumes "distinct (map objectId pool)" "list_all (\<lambda>g. current (objectId g) = g) pool"
    and "sui_run (\<lparr> gasPool = pool, inFlight = [] \<rparr>, current) (s, current')"
  shows "distinct (map objectId (gasPool s @ map fst (inFlight s))) \<and>
    objectId ` set (gasPool s @ map fst (inFlight s)) \<subseteq> objectId ` set pool \<and>
    list_all (\<lambda>g. current' (objectId g) = g) (gasPool s)"
  using sui_inv_run [OF assms(3), of "objectId ` set pool"] assms(1,2) by (simp add: sui_inv_def coin_ids_def image_Un image_image)

definition coin :: "string \<Rightarrow> string \<Rightarrow> SuiObjectRef" where
  "coin i v = \<lparr> objectId = i, ref_version = v, ref_digest = ''d'' \<rparr>"

lemma parallel_pushes_never_share_a_coin_witness:
  "let c = \<lambda>i. coin i ''1''; s = transaction_answered 1 (Executed (Some [coin ''b'' ''2''])) (sendTransactionBlocks [7, 8 :: nat]
      \<lparr> gasPool = [c ''a'', c ''b''], inFlight = [] \<rparr>) in
   gasPool s = [coin ''b'' ''2''] \<and> inFlight s = [(c ''a'', 7)] \<and> distinct (map objectId (gasPool s @ map fst (inFlight s)))"
proof -
  let ?c = "\<lambda>i. coin i ''1''"
  let ?s0 = "\<lparr> gasPool = [?c ''a'', ?c ''b''], inFlight = [] \<rparr> :: nat sui"
  let ?s1 = "sendTransactionBlock 7 ?s0" and ?s2 = "sendTransactionBlock 8 (sendTransactionBlock 7 ?s0)"
  let ?b = "coin ''b'' ''2''"
  let ?s3 = "transaction_answered 1 (Executed (Some [?b])) ?s2"
  have "sui_step (?s2, ?c) (?s3, ?c(''b'' := ?b))"
    by (rule sui_step.answered) (simp_all add: sendTransactionBlock_def coin_def)
  then have "sui_run (?s0, ?c) (?s3, ?c(''b'' := ?b))"
    by (blast intro: sui_run.intros sui_step.send)
  then have "distinct (map objectId (gasPool ?s3 @ map fst (inFlight ?s3)))"
    using parallel_pushes_never_share_a_coin [of "[?c ''a'', ?c ''b'']" ?c ?s3 "?c(''b'' := ?b)"] by (simp add: coin_def)
  then show ?thesis
    by (simp add: sendTransactionBlocks_def sendTransactionBlock_def transaction_answered_def nextGasObject_def coin_def)
qed

text \<open>C30. The initialisation of the gas pool ends: merging the coins returns whenever each \<open>locked\<close> answer names a coin of
  the transaction that is not the coin merged so far, however often that happens.\<close>

theorem mergeGasCoinsIntoOne_returns:
  assumes "\<And>s coins ids s'. execute s coins = (Locked ids, s') \<Longrightarrow> \<exists>i \<in> set ids. i \<in> objectId ` set coins \<and> i \<notin> own"
    and "\<And>s coins r rs s'. execute s coins = (Merged (r # rs), s') \<Longrightarrow> objectId r \<in> own"
  shows "\<exists>r. mergeGasCoinsIntoOne execute gasCoins initialLockedAddresses s = Some r"
  using merge_loop_ends [of execute own None, OF assms(1) assms(2)] by (auto simp: mergeGasCoinsIntoOne_def)

lemma mergeGasCoinsIntoOne_returns_witness:
  "\<exists>r. mergeGasCoinsIntoOne (\<lambda>s coins. if ''b'' \<in> objectId ` set coins then (Locked [''b''], Suc s) else (Merged [coin ''m'' ''1''], Suc s))
     (map (\<lambda>n. coin (replicate n CHR ''b'') ''1'') [0..<600]) [] 0 = Some r"
  by (rule mergeGasCoinsIntoOne_returns [of _ "{''m''}"]) (auto simp: coin_def split: if_splits)

text \<open>The retry does not hold the other way: when the coin merged so far is the locked one, the addresses that the answer
  adds are not applied to it, and the loop never returns.\<close>

theorem locked_merged_coin_never_returns:
  assumes "254 < length gasCoins" "execute s (take 254 gasCoins) = (Merged [m], s1)"
    and "\<And>coins. execute s1 (m # coins) = (Locked [objectId m], s1)"
  shows "mergeGasCoinsIntoOne execute gasCoins [] s = None"
proof -
  have two: "chunkArray gasCoins 254 = take 254 gasCoins # chunkArray (drop 254 gasCoins) 254" "chunkArray (drop 254 gasCoins) 254 \<noteq> []"
    using assms(1) by (subst chunkArray.simps; force)+
  have "merge_loop execute (chunkArray (drop 254 gasCoins) 254) [] (Some m) s1 = None"
  proof (rule ccontr)
    assume "merge_loop execute (chunkArray (drop 254 gasCoins) 254) [] (Some m) s1 \<noteq> None"
    then obtain r where "merge_loop execute (chunkArray (drop 254 gasCoins) 254) [] (Some m) s1 = Some r" by blast
    from merge_loop_locked [OF this, of m] show False using assms(3) two(2) by blast
  qed
  then show ?thesis
    using assms(1,2) two(1) by (simp add: mergeGasCoinsIntoOne_def MAX_NUM_GAS_OBJECTS_IN_PTB_def merge_loop.simps Let_def)
qed

end
