(* ===== verification/Sui_Client.thy ===== *)
theory Sui_Client
  imports Accumulator
begin

text \<open>
  \<open>target_chains/sui/sdk/js/src/client.ts\<close>: the client that adds the commands of a price update to a Sui transaction.
  A command refers to the results of the commands before it by their position, as a programmable transaction does, so the
  model shows how the verified VAA, the vector of price infos (the hot potato) and the fee coins flow from one to the next.

  What the node answers is the record \<open>sui_node\<close>; the ids the client has fetched are its state.
\<close>

section \<open>The client and its caches\<close>

record sui_node =
  node_baseUpdateFee :: "int result"
  node_packageId :: "string \<Rightarrow> string result"
  node_priceTable :: "(string \<times> string) option result"
  node_priceInfo :: "string \<Rightarrow> string \<Rightarrow> bytes \<Rightarrow> (bool \<times> string) option result"

record SuiPythClient =
  pythStateId :: string
  wormholeStateId :: string
  pythPackageId :: "string option"
  wormholePackageId :: "string option"
  priceTableInfo :: "(string \<times> string) option"
  priceFeedObjectIdCache :: "string \<rightharpoonup> string"
  baseUpdateFee :: "int option"

definition new_SuiPythClient :: "string \<Rightarrow> string \<Rightarrow> SuiPythClient" where
  "new_SuiPythClient pythState wormholeState =
     \<lparr> pythStateId = pythState, wormholeStateId = wormholeState, pythPackageId = None, wormholePackageId = None,
       priceTableInfo = None, priceFeedObjectIdCache = Map.empty, baseUpdateFee = None \<rparr>"

definition getBaseUpdateFee :: "sui_node \<Rightarrow> SuiPythClient \<Rightarrow> (int \<times> SuiPythClient) result" where
  "getBaseUpdateFee N c =
     (case baseUpdateFee c of
        Some fee \<Rightarrow> Inr (fee, c)
      | None \<Rightarrow> bindR (node_baseUpdateFee N) (\<lambda>fee. Inr (fee, c\<lparr> baseUpdateFee := Some fee \<rparr>)))"

text \<open>An empty id is fetched again.\<close>

definition getWormholePackageId :: "sui_node \<Rightarrow> SuiPythClient \<Rightarrow> (string \<times> SuiPythClient) result" where
  "getWormholePackageId N c =
     (case wormholePackageId c of
        Some i \<Rightarrow> if i \<noteq> [] then Inr (i, c) else bindR (node_packageId N (wormholeStateId c)) (\<lambda>i. Inr (i, c\<lparr> wormholePackageId := Some i \<rparr>))
      | None \<Rightarrow> bindR (node_packageId N (wormholeStateId c)) (\<lambda>i. Inr (i, c\<lparr> wormholePackageId := Some i \<rparr>)))"

definition getPythPackageId :: "sui_node \<Rightarrow> SuiPythClient \<Rightarrow> (string \<times> SuiPythClient) result" where
  "getPythPackageId N c =
     (case pythPackageId c of
        Some i \<Rightarrow> if i \<noteq> [] then Inr (i, c) else bindR (node_packageId N (pythStateId c)) (\<lambda>i. Inr (i, c\<lparr> pythPackageId := Some i \<rparr>))
      | None \<Rightarrow> bindR (node_packageId N (pythStateId c)) (\<lambda>i. Inr (i, c\<lparr> pythPackageId := Some i \<rparr>)))"

definition getPriceTableInfo :: "sui_node \<Rightarrow> SuiPythClient \<Rightarrow> ((string \<times> string) \<times> SuiPythClient) result" where
  "getPriceTableInfo N c =
     (case priceTableInfo c of
        Some info \<Rightarrow> Inr (info, c)
      | None \<Rightarrow>
          bindR (node_priceTable N) (\<lambda>answer.
            case answer of
              None \<Rightarrow> Inl (JsError ''Price Table not found, contract may not be initialized'')
            | Some (objectId, type) \<Rightarrow>
                (let info = (objectId, remove_first ''::price_identifier::PriceIdentifier, 0x2::object::ID>''
                   (remove_first ''0x2::table::Table<'' type))
                 in Inr (info, c\<lparr> priceTableInfo := Some info \<rparr>))))"

text \<open>An answer without content is not cached.\<close>

definition getPriceFeedObjectId :: "sui_node \<Rightarrow> string \<Rightarrow> SuiPythClient \<Rightarrow> (string option \<times> SuiPythClient) result" where
  "getPriceFeedObjectId N feedId c =
     (let normalizedFeedId = remove_first ''0x'' feedId in
      case priceFeedObjectIdCache c normalizedFeedId of
        Some i \<Rightarrow> Inr (Some i, c)
      | None \<Rightarrow>
          bindR (getPriceTableInfo N c) (\<lambda>((tableId, fieldType), c').
            bindR (node_priceInfo N tableId fieldType (from_hex normalizedFeedId)) (\<lambda>answer.
              case answer of
                None \<Rightarrow> Inr (None, c')
              | Some (moveObject, i) \<Rightarrow>
                  if \<not> moveObject then Inl (JsError ''Price feed type mismatch'')
                  else Inr (Some i, c'\<lparr> priceFeedObjectIdCache := (priceFeedObjectIdCache c')(normalizedFeedId \<mapsto> i) \<rparr>))))"

section \<open>Accumulator messages\<close>

definition extractVaaBytesFromAccumulatorMessage :: "bytes \<Rightarrow> bytes result" where
  "extractVaaBytesFromAccumulatorMessage accumulatorMessage =
     bindR (readUInt8 accumulatorMessage 6) (\<lambda>trailingPayloadSize.
     let vaaSizeOffset = 7 + trailingPayloadSize + 1 in
     bindR (readUInt16BE accumulatorMessage vaaSizeOffset) (\<lambda>vaaSize.
     let vaaOffset = vaaSizeOffset + 2 in
     Inr (subarray accumulatorMessage vaaOffset (vaaOffset + vaaSize))))"

section \<open>Transactions\<close>

text \<open>The arguments of a command: an object, the clock, bytes, or the \<open>i\<close>-th result of the \<open>n\<close>-th command.\<close>

datatype argument = Object string | Clock | Pure bytes | Res nat nat

datatype command = Split_gas "int list" | Move_call string string "argument list"

definition MAX_ARGUMENT_SIZE :: nat where
  "MAX_ARGUMENT_SIZE = 16 * 1024"

text \<open>The length prefix of BCS, seven bits a byte.\<close>

fun uleb :: "nat \<Rightarrow> bytes" where
  "uleb n = (if n < 128 then [of_nat n] else of_nat (n mod 128 + 128) # uleb (n div 128))"

declare uleb.simps [simp del]

text \<open>\<open>bcs.vector(bcs.U8).serialize(..., {maxSize})\<close>, which throws when the result is too long.\<close>

definition bcs_bytes :: "bytes \<Rightarrow> bytes result" where
  "bcs_bytes b =
     (let s = uleb (length b) @ b in if length s > MAX_ARGUMENT_SIZE then Inl (JsError ''maxSize'') else Inr s)"

text \<open>Adding a call gives its position.\<close>

definition moveCall :: "string \<Rightarrow> string \<Rightarrow> argument list \<Rightarrow> command list \<Rightarrow> nat \<times> command list" where
  "moveCall package function args tx = (length tx, tx @ [Move_call package function args])"

fun verifyVaas_loop :: "string \<Rightarrow> string \<Rightarrow> bytes list \<Rightarrow> command list \<Rightarrow> (nat list \<times> command list) result" where
  "verifyVaas_loop package state [] tx = Inr ([], tx)"
| "verifyVaas_loop package state (vaa # vaas) tx =
     bindR (bcs_bytes vaa) (\<lambda>b.
       let (n, tx') = moveCall package ''vaa::parse_and_verify'' [Object state, Pure b, Clock] tx in
       bindR (verifyVaas_loop package state vaas tx') (\<lambda>(ns, tx''). Inr (n # ns, tx'')))"

definition verifyVaas :: "sui_node \<Rightarrow> bytes list \<Rightarrow> SuiPythClient \<Rightarrow> command list \<Rightarrow> (nat list \<times> SuiPythClient \<times> command list) result" where
  "verifyVaas N vaas c tx =
     bindR (getWormholePackageId N c) (\<lambda>(package, c').
       bindR (verifyVaas_loop package (wormholeStateId c') vaas tx) (\<lambda>(ns, tx'). Inr (ns, c', tx')))"

fun update_feeds_loop ::
  "sui_node \<Rightarrow> string \<Rightarrow> nat \<Rightarrow> string list \<Rightarrow> nat \<Rightarrow> argument \<Rightarrow> SuiPythClient \<Rightarrow> command list \<Rightarrow>
   (string list \<times> argument \<times> SuiPythClient \<times> command list) result" where
  "update_feeds_loop N package coins [] coinId potato c tx = Inr ([], potato, c, tx)"
| "update_feeds_loop N package coins (feedId # feedIds) coinId potato c tx =
     bindR (getPriceFeedObjectId N feedId c) (\<lambda>(found, c').
       if found = None \<or> found = Some [] then Inl (JsError (''Price feed '' @ feedId @ '' not found, please create it first''))
       else
         (let priceInfoObjectId = the found;
              (n, tx') = moveCall package ''pyth::update_single_price_feed''
                [Object (pythStateId c'), potato, Object priceInfoObjectId, Res coins coinId, Clock] tx in
          bindR (update_feeds_loop N package coins feedIds (Suc coinId) (Res n 0) c' tx') (\<lambda>(ids, r). Inr (priceInfoObjectId # ids, r))))"

text \<open>\<open>updates[0]\<close> of no updates is \<open>undefined\<close>.\<close>

definition create_infos ::
  "sui_node \<Rightarrow> string \<Rightarrow> bytes list \<Rightarrow> SuiPythClient \<Rightarrow> command list \<Rightarrow> (string \<times> nat \<times> SuiPythClient \<times> command list) result" where
  "create_infos N function updates c tx =
     bindR (getPythPackageId N c) (\<lambda>(package, c1).
       if length updates > 1
       then Inl (JsError ''SDK does not support sending multiple accumulator messages in a single transaction'')
       else if updates = [] then Inl TypeError
       else
         bindR (extractVaaBytesFromAccumulatorMessage (updates ! 0)) (\<lambda>vaa.
         bindR (verifyVaas N [vaa] c1 tx) (\<lambda>(verifiedVaas, c2, tx1).
         bindR (bcs_bytes (updates ! 0)) (\<lambda>b.
           let (n, tx2) = moveCall package function [Object (pythStateId c2), Pure b, Res (verifiedVaas ! 0) 0, Clock] tx1
           in Inr (package, n, c2, tx2)))))"

definition updatePriceFeeds ::
  "sui_node \<Rightarrow> bytes list \<Rightarrow> string list \<Rightarrow> SuiPythClient \<Rightarrow> command list \<Rightarrow> (string list \<times> SuiPythClient \<times> command list) result" where
  "updatePriceFeeds N updates feedIds c tx =
     bindR (create_infos N ''pyth::create_authenticated_price_infos_using_accumulator'' updates c tx) (\<lambda>(package, n, c1, tx1).
     bindR (getBaseUpdateFee N c1) (\<lambda>(fee, c2).
       let coins = length tx1;
           tx2 = tx1 @ [Split_gas (map (\<lambda>_. fee) feedIds)] in
       bindR (update_feeds_loop N package coins feedIds 0 (Res n 0) c2 tx2) (\<lambda>(ids, potato, c3, tx3).
         Inr (ids, c3, snd (moveCall package ''hot_potato_vector::destroy'' [potato] tx3)))))"

definition createPriceFeed :: "sui_node \<Rightarrow> bytes list \<Rightarrow> SuiPythClient \<Rightarrow> command list \<Rightarrow> (SuiPythClient \<times> command list) result" where
  "createPriceFeed N updates c tx =
     bindR (create_infos N ''pyth::create_price_feeds_using_accumulator'' updates c tx) (\<lambda>(_, _, c', tx'). Inr (c', tx'))"

section \<open>Lemmas\<close>

lemma extract_is_parsed:
  assumes "parseAccumulatorUpdateData b = Inr d"
  shows "extractVaaBytesFromAccumulatorMessage b = Inr (a_vaa d)"
  using assms
  by (auto simp: parseAccumulatorUpdateData_def read_vaa_span_def extractVaaBytesFromAccumulatorMessage_def bindR_Inr_iff
      Let_def add.assoc split: if_splits)

lemma ids_kept:
  "getWormholePackageId N c = Inr (i, c') \<Longrightarrow> pythStateId c' = pythStateId c \<and> wormholeStateId c' = wormholeStateId c"
  "getPythPackageId N c = Inr (i, c') \<Longrightarrow> pythStateId c' = pythStateId c \<and> wormholeStateId c' = wormholeStateId c"
  "getBaseUpdateFee N c = Inr (fee, c') \<Longrightarrow> pythStateId c' = pythStateId c"
  "getPriceTableInfo N c = Inr (t, c') \<Longrightarrow> pythStateId c' = pythStateId c"
  by (auto simp: getWormholePackageId_def getPythPackageId_def getBaseUpdateFee_def getPriceTableInfo_def bindR_Inr_iff Let_def
      split: option.splits if_splits)

lemma getPriceFeedObjectId_kept: "getPriceFeedObjectId N feedId c = Inr (i, c') \<Longrightarrow> pythStateId c' = pythStateId c"
proof (cases "priceFeedObjectIdCache c (remove_first ''0x'' feedId)")
  case None
  assume "getPriceFeedObjectId N feedId c = Inr (i, c')"
  with None obtain t f c1 answer where "getPriceTableInfo N c = Inr ((t, f), c1)"
    "node_priceInfo N t f (from_hex (remove_first ''0x'' feedId)) = Inr answer"
    "(case answer of None \<Rightarrow> Inr (None, c1) | Some (moveObject, i) \<Rightarrow>
        if \<not> moveObject then Inl (JsError ''Price feed type mismatch'')
        else Inr (Some i, c1\<lparr> priceFeedObjectIdCache := (priceFeedObjectIdCache c1)(remove_first ''0x'' feedId \<mapsto> i) \<rparr>)) = Inr (i, c')"
    by (auto simp: getPriceFeedObjectId_def bindR_Inr_iff Let_def)
  then show ?thesis using ids_kept(4) [of N c] by (auto split: option.splits if_splits)
qed (auto simp: getPriceFeedObjectId_def Let_def)

text \<open>The commands of the feeds, from the one at position \<open>n\<close> on: each takes the potato of the one before it.\<close>

definition update_command :: "string \<Rightarrow> string \<Rightarrow> nat \<Rightarrow> nat \<Rightarrow> nat \<Rightarrow> argument \<Rightarrow> string list \<Rightarrow> nat \<Rightarrow> command" where
  "update_command package state coins coinId n potato ids i =
     Move_call package ''pyth::update_single_price_feed''
       [Object state, if i = 0 then potato else Res (n + i - 1) 0, Object (ids ! i), Res coins (coinId + i), Clock]"

lemma update_feeds_loop_commands:
  "update_feeds_loop N package coins feedIds coinId potato c tx = Inr (ids, potato', c', tx') \<Longrightarrow>
   length ids = length feedIds \<and>
   tx' = tx @ map (update_command package (pythStateId c) coins coinId (length tx) potato ids) [0..<length feedIds] \<and>
   potato' = (if feedIds = [] then potato else Res (length tx + length feedIds - 1) 0)"
proof (induction feedIds arbitrary: coinId potato c tx ids)
  case (Cons feedId feedIds)
  from Cons.prems obtain found c1 where found: "getPriceFeedObjectId N feedId c = Inr (found, c1)"
    by (cases "getPriceFeedObjectId N feedId c") auto
  with Cons.prems obtain i where "found = Some i" "i \<noteq> []" by (cases found) (auto split: if_splits)
  with Cons.prems found obtain ids' where step: "getPriceFeedObjectId N feedId c = Inr (Some i, c1)"
    "update_feeds_loop N package coins feedIds (Suc coinId) (Res (length tx) 0) c1
       (tx @ [Move_call package ''pyth::update_single_price_feed'' [Object (pythStateId c1), potato, Object i, Res coins coinId, Clock]])
     = Inr (ids', potato', c', tx')" "ids = i # ids'"
    by (auto simp: bindR_Inr_iff moveCall_def Let_def)
  have state: "pythStateId c1 = pythStateId c" by (rule getPriceFeedObjectId_kept [OF step(1)])
  have shift: "update_command package (pythStateId c) coins (Suc coinId) (Suc (length tx)) (Res (length tx) 0) ids' k =
      update_command package (pythStateId c) coins coinId (length tx) potato (i # ids') (Suc k)" for k
    by (cases k) (simp_all add: update_command_def)
  from Cons.IH [OF step(2)] show ?case
    by (auto simp: step(3) state shift map_upt_Suc update_command_def [of _ _ _ _ _ _ _ 0] simp del: upt_Suc)
qed simp

section \<open>Properties\<close>

text \<open>Two readers of one format: on every accumulator message that the parser accepts, the bytes the Sui client sends to
  Wormhole are the VAA the parser finds.\<close>

theorem extracted_vaa_is_parsed_vaa:
  assumes "parseAccumulatorUpdateData b = Inr d"
  shows "extractVaaBytesFromAccumulatorMessage b = Inr (a_vaa d)"
  using assms by (rule extract_is_parsed)

lemma extracted_vaa_is_parsed_vaa_witness:
  "extractVaaBytesFromAccumulatorMessage (accumulator_bytes [9] 0 \<lparr> a_vaa = [1, 2, 3], a_updates = [] \<rparr>) = Inr [1, 2, 3]"
  using extracted_vaa_is_parsed_vaa [of "accumulator_bytes [9] 0 \<lparr> a_vaa = [1, 2, 3], a_updates = [] \<rparr>"
      "\<lparr> a_vaa = [1, 2, 3], a_updates = [] \<rparr>"] by (simp add: parse_at wf_data_def)

text \<open>The transaction of an update: after the commands that were there, it verifies the VAA of the update, makes the price
  infos from that result, splits one fee for each feed, updates the feeds in their order, each with a coin of its own and the
  price infos that the command before it returned, and destroys the price infos that the last one returned.\<close>

theorem update_transaction_commands:
  assumes "updatePriceFeeds N updates feedIds c tx = Inr (ids, c', tx')"
  shows "\<exists>wormhole pyth vaa v b fee n. updates = [updates ! 0] \<and> length ids = length feedIds \<and> n = length tx \<and>
    extractVaaBytesFromAccumulatorMessage (updates ! 0) = Inr vaa \<and> bcs_bytes vaa = Inr v \<and> bcs_bytes (updates ! 0) = Inr b \<and>
    tx' = tx @
      [Move_call wormhole ''vaa::parse_and_verify'' [Object (wormholeStateId c), Pure v, Clock],
       Move_call pyth ''pyth::create_authenticated_price_infos_using_accumulator''
         [Object (pythStateId c), Pure b, Res n 0, Clock],
       Split_gas (replicate (length feedIds) fee)] @
      map (\<lambda>i. Move_call pyth ''pyth::update_single_price_feed''
        [Object (pythStateId c), if i = 0 then Res (n + 1) 0 else Res (n + 2 + i) 0, Object (ids ! i), Res (n + 2) i, Clock])
        [0..<length feedIds] @
      [Move_call pyth ''hot_potato_vector::destroy''
         [if feedIds = [] then Res (n + 1) 0 else Res (n + 2 + length feedIds) 0]]"
proof -
  obtain package k c1 tx1 fee c2 potato tx3 where u:
    "create_infos N ''pyth::create_authenticated_price_infos_using_accumulator'' updates c tx = Inr (package, k, c1, tx1)"
    "getBaseUpdateFee N c1 = Inr (fee, c2)"
    "update_feeds_loop N package (length tx1) feedIds 0 (Res k 0) c2 (tx1 @ [Split_gas (map (\<lambda>_. fee) feedIds)]) =
       Inr (ids, potato, c', tx3)"
    "tx' = tx3 @ [Move_call package ''hot_potato_vector::destroy'' [potato]]"
    using assms by (auto simp: updatePriceFeeds_def bindR_Inr_iff moveCall_def Let_def)
  obtain vaa v b w c0 where i: "getPythPackageId N c = Inr (package, c0)" "length updates = 1"
    "extractVaaBytesFromAccumulatorMessage (updates ! 0) = Inr vaa" "bcs_bytes vaa = Inr v" "bcs_bytes (updates ! 0) = Inr b"
    "getWormholePackageId N c0 = Inr (w, c1)" "k = Suc (length tx)"
    "tx1 = tx @ [Move_call w ''vaa::parse_and_verify'' [Object (wormholeStateId c1), Pure v, Clock],
       Move_call package ''pyth::create_authenticated_price_infos_using_accumulator'' [Object (pythStateId c1), Pure b, Res (length tx) 0, Clock]]"
    using u(1) by (cases updates) (auto simp: create_infos_def verifyVaas_def bindR_Inr_iff moveCall_def Let_def split: if_splits)
  have state: "pythStateId c2 = pythStateId c" "pythStateId c1 = pythStateId c" "wormholeStateId c1 = wormholeStateId c"
    using ids_kept(2) [OF i(1)] ids_kept(1) [OF i(6)] ids_kept(3) [OF u(2)] by simp_all
  have one: "updates = [updates ! 0]" using i(2) by (cases updates) auto
  have cmd: "update_command package (pythStateId c) (n + 2) 0 (n + 3) (Res (Suc n) 0) ids =
    (\<lambda>i. Move_call package ''pyth::update_single_price_feed''
        [Object (pythStateId c), if i = 0 then Res (n + 1) 0 else Res (n + 2 + i) 0, Object (ids ! i), Res (n + 2) i, Clock])" for n
    by (rule ext) (simp add: update_command_def)
  note loop = update_feeds_loop_commands [OF u(3)]
  have "tx' = tx @
      [Move_call w ''vaa::parse_and_verify'' [Object (wormholeStateId c), Pure v, Clock],
       Move_call package ''pyth::create_authenticated_price_infos_using_accumulator''
         [Object (pythStateId c), Pure b, Res (length tx) 0, Clock],
       Split_gas (replicate (length feedIds) fee)] @
      map (update_command package (pythStateId c) (length tx + 2) 0 (length tx + 3) (Res (Suc (length tx)) 0) ids) [0..<length feedIds] @
      [Move_call package ''hot_potato_vector::destroy''
         [if feedIds = [] then Res (length tx + 1) 0 else Res (length tx + 2 + length feedIds) 0]]"
    using loop u(4) i(7,8) by (simp add: state map_replicate_const eval_nat_numeral)
  then show ?thesis unfolding cmd using i(3-5) one loop by blast
qed

definition sample_node :: sui_node where
  "sample_node = \<lparr> node_baseUpdateFee = Inr 1, node_packageId = (\<lambda>i. Inr (i @ ''-package'')),
     node_priceTable = Inr (Some (''table'', ''0x2::table::Table<0x5::price_identifier::PriceIdentifier, 0x2::object::ID>'')),
     node_priceInfo = (\<lambda>t f b. Inr (Some (True, to_hex b))) \<rparr>"

lemma sample_texts:
  "to_hex (from_hex ''ab'') = ''ab''" "to_hex (from_hex ''cd'') = ''cd''" "remove_first ''0x'' ''0xab'' = ''ab''"
  "remove_first ''0x'' ''cd'' = ''cd''"
  "remove_first ''::price_identifier::PriceIdentifier, 0x2::object::ID>''
     (remove_first ''0x2::table::Table<'' ''0x2::table::Table<0x5::price_identifier::PriceIdentifier, 0x2::object::ID>'') = ''0x5''"
  by code_simp+

lemma sample_feed:
  "priceFeedObjectIdCache c (remove_first ''0x'' i) = None \<Longrightarrow> to_hex (from_hex (remove_first ''0x'' i)) = f \<Longrightarrow>
   \<exists>c'. getPriceFeedObjectId sample_node i c = Inr (Some f, c') \<and> (\<forall>k. k \<noteq> remove_first ''0x'' i \<longrightarrow>
     priceFeedObjectIdCache c' k = priceFeedObjectIdCache c k)"
  by (cases "priceTableInfo c") (auto simp: getPriceFeedObjectId_def getPriceTableInfo_def sample_node_def Let_def simp del: remove_first.simps)

lemma sample_update:
  "\<exists>c' tx'. updatePriceFeeds sample_node [accumulator_bytes [9] 0 \<lparr> a_vaa = [1, 2, 3], a_updates = [] \<rparr>] [''0xab'', ''cd'']
     (new_SuiPythClient ''p'' ''w'') [] = Inr ([''ab'', ''cd''], c', tx')"
proof -
  let ?b = "accumulator_bytes [9] 0 \<lparr> a_vaa = [1, 2, 3], a_updates = [] \<rparr>"
  have s: "length ?b = 15" by (simp add: accumulator_bytes_def prefix_bytes_def)
  have b: "bcs_bytes [1, 2, 3] = Inr [3, 1, 2, 3]" "bcs_bytes ?b = Inr (15 # ?b)"
    by (simp_all add: bcs_bytes_def s uleb.simps MAX_ARGUMENT_SIZE_def)
  obtain n c1 tx1 where "create_infos sample_node ''pyth::create_authenticated_price_infos_using_accumulator'' [?b]
      (new_SuiPythClient ''p'' ''w'') [] = Inr (''p-package'', n, c1, tx1)" and c1: "priceFeedObjectIdCache c1 = Map.empty" "baseUpdateFee c1 = None"
    using extract_is_parsed [OF parse_at [of "[9]" "\<lparr> a_vaa = [1, 2, 3], a_updates = [] \<rparr>" 0]]
    by (simp add: create_infos_def getPythPackageId_def getWormholePackageId_def verifyVaas_def new_SuiPythClient_def sample_node_def
        b moveCall_def wf_data_def)
  moreover define c2 where "c2 = c1\<lparr> baseUpdateFee := Some 1 \<rparr>"
  moreover have "getBaseUpdateFee sample_node c1 = Inr (1, c2)"
    using c1 by (simp add: getBaseUpdateFee_def sample_node_def c2_def)
  moreover obtain c3 where "getPriceFeedObjectId sample_node ''0xab'' c2 = Inr (Some ''ab'', c3)"
    and c3: "\<forall>k. k \<noteq> ''ab'' \<longrightarrow> priceFeedObjectIdCache c3 k = None"
    using sample_feed [of c2 "''0xab''"] c1 by (auto simp: sample_texts c2_def simp del: remove_first.simps from_hex.simps)
  moreover obtain c4 where "getPriceFeedObjectId sample_node ''cd'' c3 = Inr (Some ''cd'', c4)"
    using sample_feed [of c3 "''cd''"] c3 by (auto simp: sample_texts simp del: remove_first.simps from_hex.simps)
  ultimately show ?thesis by (simp add: updatePriceFeeds_def moveCall_def Let_def)
qed

lemma update_transaction_commands_witness:
  "\<exists>c' tx'. updatePriceFeeds sample_node [accumulator_bytes [9] 0 \<lparr> a_vaa = [1, 2, 3], a_updates = [] \<rparr>] [''0xab'', ''cd'']
     (new_SuiPythClient ''p'' ''w'') [] = Inr ([''ab'', ''cd''], c', tx') \<and> length tx' = 6 \<and>
     last tx' = Move_call (case tx' ! 1 of Move_call p f a \<Rightarrow> p | _ \<Rightarrow> []) ''hot_potato_vector::destroy'' [Res 4 0]"
proof -
  obtain c' tx' where run: "updatePriceFeeds sample_node [accumulator_bytes [9] 0 \<lparr> a_vaa = [1, 2, 3], a_updates = [] \<rparr>]
     [''0xab'', ''cd''] (new_SuiPythClient ''p'' ''w'') [] = Inr ([''ab'', ''cd''], c', tx')" using sample_update by blast
  from update_transaction_commands [OF run]
  have "length tx' = 6 \<and> last tx' = Move_call (case tx' ! 1 of Move_call p f a \<Rightarrow> p | _ \<Rightarrow> []) ''hot_potato_vector::destroy'' [Res 4 0]"
    by auto
  with run show ?thesis by blast
qed

end
