(* ===== verification/Chain_Sdks.thy ===== *)
theory Chain_Sdks
  imports Sui_Client Buffer_Layout
begin

text \<open>
  The small SDKs: \<open>target_chains/starknet/sdk/js/src/index.ts\<close> (the byte buffers of the Starknet contract), the price service
  connections of the EVM, Aptos and Sui SDKs, and \<open>lazer/sdk/js/src/ed25519.ts\<close>, the instruction that has a Lazer message's
  signature verified on Solana.
\<close>

section \<open>Starknet byte buffers\<close>

record ByteBuffer =
  num_last_bytes :: nat
  bb_data :: "string list"

function fromBuffer_loop :: "bytes \<Rightarrow> nat \<Rightarrow> string list \<Rightarrow> ByteBuffer" where
  "fromBuffer_loop buffer pos data =
     (if pos < length buffer
      then (if pos + 31 \<le> length buffer
            then fromBuffer_loop buffer (pos + 31) (data @ [''0x'' @ to_hex (subarray buffer pos (pos + 31))])
            else \<lparr> num_last_bytes = length buffer - pos, bb_data = data @ [''0x'' @ to_hex (drop pos buffer)] \<rparr>)
      else \<lparr> num_last_bytes = (if data = [] then 0 else 31), bb_data = data \<rparr>)"
  by pat_completeness auto
termination by (relation "measure (\<lambda>(buffer, pos, data). length buffer - pos)") auto

declare fromBuffer_loop.simps [simp del]

definition fromBuffer :: "bytes \<Rightarrow> ByteBuffer" where
  "fromBuffer buffer = fromBuffer_loop buffer 0 []"

definition fromHex :: "string \<Rightarrow> ByteBuffer" where
  "fromHex hexData = fromBuffer (from_hex hexData)"

definition fromBase64 :: "string \<Rightarrow> ByteBuffer" where
  "fromBase64 data = fromBuffer (from_base64 data)"

text \<open>How the contract reads a buffer (\<open>starknet/contracts/src/byte_buffer.cairo\<close>): what its constructor accepts, its length, and its
  bytes, 31 for each item but the last.\<close>

definition felt :: "string \<Rightarrow> nat" where
  "felt s = be_nat (from_hex (drop 2 s))"

definition contract_accepts :: "ByteBuffer \<Rightarrow> bool" where
  "contract_accepts b \<longleftrightarrow>
     (if bb_data b = [] then num_last_bytes b = 0
      else 0 < num_last_bytes b \<and> num_last_bytes b \<le> 31 \<and> felt (last (bb_data b)) < 256 ^ num_last_bytes b)"

definition contract_length :: "ByteBuffer \<Rightarrow> nat" where
  "contract_length b = (if bb_data b = [] then 0 else (length (bb_data b) - 1) * 31 + num_last_bytes b)"

definition contract_bytes :: "ByteBuffer \<Rightarrow> bytes" where
  "contract_bytes b =
     (if bb_data b = [] then []
      else concat (map (\<lambda>s. be_bytes 31 (felt s)) (butlast (bb_data b))) @ be_bytes (num_last_bytes b) (felt (last (bb_data b))))"

section \<open>Price service connections\<close>

text \<open>\<open>latestVaas\<close> is the answer of \<open>getLatestVaas\<close>.\<close>

definition Evm_getPriceFeedsUpdateData :: "string list result \<Rightarrow> string list result" where
  "Evm_getPriceFeedsUpdateData latestVaas = bindR latestVaas (\<lambda>vaas. Inr (map (\<lambda>vaa. ''0x'' @ to_hex (from_base64 vaa)) vaas))"

definition Sui_getPriceFeedsUpdateData :: "string list result \<Rightarrow> bytes list result" where
  "Sui_getPriceFeedsUpdateData latestVaas = bindR latestVaas (\<lambda>vaas. Inr (map from_base64 vaas))"

definition Aptos_getPriceFeedsUpdateData :: "string list result \<Rightarrow> bytes list result" where
  "Aptos_getPriceFeedsUpdateData latestVaas = bindR latestVaas (\<lambda>vaas. Inr (map from_base64 vaas))"

text \<open>\<open>serializeBytes\<close> of BCS writes the length and the bytes.\<close>

definition serializeUpdateData :: "bytes list \<Rightarrow> bytes" where
  "serializeUpdateData updateData = uleb (length updateData) @ concat (map (\<lambda>vaa. uleb (length vaa) @ vaa) updateData)"

text \<open>The reader of BCS vectors of bytes.\<close>

function read_uleb :: "bytes \<Rightarrow> (nat \<times> bytes) option" where
  "read_uleb [] = None"
| "read_uleb (b # bs) =
     (if unat b < 128 then Some (unat b, bs)
      else map_option (\<lambda>(n, rest). (unat b - 128 + 128 * n, rest)) (read_uleb bs))"
  by pat_completeness auto
termination by (relation "measure length") auto

fun read_vaas :: "nat \<Rightarrow> bytes \<Rightarrow> (bytes list \<times> bytes) option" where
  "read_vaas 0 bs = Some ([], bs)"
| "read_vaas (Suc n) bs =
     (case read_uleb bs of
        None \<Rightarrow> None
      | Some (len, rest) \<Rightarrow>
          if length rest < len then None
          else map_option (\<lambda>(vs, r). (take len rest # vs, r)) (read_vaas n (drop len rest)))"

definition deserialize :: "bytes \<Rightarrow> bytes list option" where
  "deserialize bs =
     (case read_uleb bs of
        None \<Rightarrow> None
      | Some (n, rest) \<Rightarrow> (case read_vaas n rest of Some (vs, []) \<Rightarrow> Some vs | _ \<Rightarrow> None))"

section \<open>The Ed25519 instruction of Lazer\<close>

definition ED25519_INSTRUCTION_LEN :: nat where "ED25519_INSTRUCTION_LEN = 16"
definition SIGNATURE_LEN :: nat where "SIGNATURE_LEN = 64"
definition PUBKEY_LEN :: nat where "PUBKEY_LEN = 32"
definition MAGIC_LEN :: nat where "MAGIC_LEN = 4"
definition MESSAGE_SIZE_LEN :: nat where "MESSAGE_SIZE_LEN = 2"

definition ED25519_INSTRUCTION_LAYOUT :: "buffer_layout_lib \<Rightarrow> layout" where
  "ED25519_INSTRUCTION_LAYOUT L =
     bl_struct L
       [bl_u8 L (Some ''numSignatures''), bl_u8 L (Some ''padding''), bl_u16 L (Some ''signatureOffset''),
        bl_u16 L (Some ''signatureInstructionIndex''), bl_u16 L (Some ''publicKeyOffset''), bl_u16 L (Some ''publicKeyInstructionIndex''),
        bl_u16 L (Some ''messageDataOffset''), bl_u16 L (Some ''messageDataSize''), bl_u16 L (Some ''messageInstructionIndex'')] None"

text \<open>The data of the instruction, which has no accounts and is for the native Ed25519 program.\<close>

definition createEd25519Instruction :: "buffer_layout_lib \<Rightarrow> bytes \<Rightarrow> nat \<Rightarrow> nat \<Rightarrow> bytes result" where
  "createEd25519Instruction L message instructionIndex startingOffset =
     (let signatureOffset = startingOffset + MAGIC_LEN;
          publicKeyOffset = signatureOffset + SIGNATURE_LEN;
          messageDataSizeOffset = publicKeyOffset + PUBKEY_LEN;
          messageDataOffset = messageDataSizeOffset + MESSAGE_SIZE_LEN in
      bindR (readUIntLE 2 message (messageDataSizeOffset - startingOffset)) (\<lambda>messageDataSize.
        map_sum id fst (l_encode (ED25519_INSTRUCTION_LAYOUT L)
          (JObj [(''numSignatures'', JNum 1), (''padding'', JNum 0), (''signatureOffset'', JNum (int signatureOffset)),
             (''signatureInstructionIndex'', JNum (int instructionIndex)), (''publicKeyOffset'', JNum (int publicKeyOffset)),
             (''publicKeyInstructionIndex'', JNum (int instructionIndex)), (''messageDataOffset'', JNum (int messageDataOffset)),
             (''messageDataSize'', JNum (int messageDataSize)), (''messageInstructionIndex'', JNum (int instructionIndex))])
          (replicate ED25519_INSTRUCTION_LEN 0) 0)))"

text \<open>What the native program verifies, given the data of the instructions of the transaction: for the first of the signatures, the public
  key, the signature and the message at the given offsets of the given instructions.\<close>

definition u16_at :: "bytes \<Rightarrow> nat \<Rightarrow> nat" where
  "u16_at b i = le_nat (subarray b i (i + 2))"

definition slice_of :: "bytes list \<Rightarrow> nat \<Rightarrow> nat \<Rightarrow> nat \<Rightarrow> bytes option" where
  "slice_of ixs i offs len = (if i < length ixs \<and> offs + len \<le> length (ixs ! i) then Some (subarray (ixs ! i) offs (offs + len)) else None)"

definition verified_by_program :: "bytes list \<Rightarrow> bytes \<Rightarrow> (bytes option \<times> bytes option \<times> bytes option) option" where
  "verified_by_program ixs data =
     (if length data = 16 \<and> data ! 0 = 1
      then Some (slice_of ixs (u16_at data 8) (u16_at data 6) 32, slice_of ixs (u16_at data 4) (u16_at data 2) 64,
                 slice_of ixs (u16_at data 14) (u16_at data 10) (u16_at data 12))
      else None)"

section \<open>Lemmas\<close>

lemma felt_hex [simp]: "felt (CHR ''0'' # CHR ''x'' # to_hex bs) = be_nat bs"
  by (simp add: felt_def)

text \<open>The items are the pieces of the buffer, all of 31 bytes but the last.\<close>

definition pieces :: "bytes \<Rightarrow> bytes list \<Rightarrow> nat \<Rightarrow> bool" where
  "pieces buffer ds last_len \<longleftrightarrow>
     concat ds = buffer \<and> (\<forall>d \<in> set (butlast ds). length d = 31) \<and>
     (if ds = [] then last_len = 0 else 0 < last_len \<and> last_len \<le> 31 \<and> length (last ds) = last_len)"

lemma fromBuffer_loop_pieces:
  "pos \<le> length buffer \<Longrightarrow> data = map (\<lambda>d. ''0x'' @ to_hex d) cs \<Longrightarrow> concat cs = take pos buffer \<Longrightarrow> (\<forall>c \<in> set cs. length c = 31) \<Longrightarrow>
   \<exists>ds n. fromBuffer_loop buffer pos data = \<lparr> num_last_bytes = n, bb_data = map (\<lambda>d. ''0x'' @ to_hex d) ds \<rparr> \<and> pieces buffer ds n"
proof (induction buffer pos data arbitrary: cs rule: fromBuffer_loop.induct)
  case (1 buffer pos data)
  show ?case
  proof (cases "pos < length buffer")
    case False
    then have "pos = length buffer" using "1.prems"(1) by simp
    then have "concat cs = buffer" using "1.prems"(3) by simp
    moreover have "length (last cs) = 31" if "cs \<noteq> []" using "1.prems"(4) that by simp
    ultimately have "pieces buffer cs (if cs = [] then 0 else 31)"
      using "1.prems"(4) by (auto simp: pieces_def dest: in_set_butlastD)
    moreover have "fromBuffer_loop buffer pos data = \<lparr> num_last_bytes = (if cs = [] then 0 else 31), bb_data = map (\<lambda>d. ''0x'' @ to_hex d) cs \<rparr>"
      using False "1.prems"(2) by (subst fromBuffer_loop.simps) simp
    ultimately show ?thesis by blast
  next
    case pos: True
    show ?thesis
    proof (cases "pos + 31 \<le> length buffer")
      case True
      have "subarray buffer pos (pos + 31) = take 31 (drop pos buffer)" by (simp add: subarray_def)
      then have "concat (cs @ [subarray buffer pos (pos + 31)]) = take (pos + 31) buffer" "length (subarray buffer pos (pos + 31)) = 31"
        using "1.prems"(3) True by (simp_all add: take_add length_subarray)
      then show ?thesis
        using "1.IH" [OF pos True, of "cs @ [subarray buffer pos (pos + 31)]"] "1.prems" True pos
        by (auto simp: fromBuffer_loop.simps [of buffer pos])
    next
      case False
      then show ?thesis using pos "1.prems"
        by (intro exI [of _ "cs @ [drop pos buffer]"] exI [of _ "length buffer - pos"])
          (auto simp: fromBuffer_loop.simps [of buffer pos] pieces_def)
    qed
  qed
qed

lemma pieces_length:
  "pieces buffer ds n \<Longrightarrow> ds \<noteq> [] \<Longrightarrow> length buffer = (length ds - 1) * 31 + n"
proof -
  assume p: "pieces buffer ds n" and ne: "ds \<noteq> []"
  have "buffer = concat (butlast ds) @ last ds" using p ne by (metis append_butlast_last_id concat_append concat.simps append_Nil2 pieces_def)
  moreover have "length (concat bs) = length bs * 31" if "\<forall>d \<in> set bs. length d = 31" for bs :: "bytes list"
    using that by (induction bs) auto
  ultimately show ?thesis using p ne by (auto simp: pieces_def)
qed

lemma read_uleb_uleb [simp]: "read_uleb (uleb n @ rest) = Some (n, rest)"
proof (induction n rule: less_induct)
  case (less n)
  show ?case
  proof (cases "n < 128")
    case True
    then show ?thesis by (subst uleb.simps) (simp add: unat_of_nat)
  next
    case False
    have "read_uleb (uleb (n div 128) @ rest) = Some (n div 128, rest)" using False by (intro less.IH) simp
    moreover have "unat (of_nat (n mod 128 + 128) :: byte) = n mod 128 + 128" by (simp only: unat_of_nat) simp
    ultimately show ?thesis using False by (subst uleb.simps) (simp del: of_nat_add)
  qed
qed

lemma read_vaas_concat: "read_vaas (length vs) (concat (map (\<lambda>v. uleb (length v) @ v) vs) @ rest) = Some (vs, rest)"
  by (induction vs) simp_all

definition ed25519_bytes :: "nat \<Rightarrow> nat \<Rightarrow> nat \<Rightarrow> nat \<Rightarrow> nat \<Rightarrow> bytes" where
  "ed25519_bytes so po mo sz i =
     [1, 0] @ le_bytes 2 so @ le_bytes 2 i @ le_bytes 2 po @ le_bytes 2 i @ le_bytes 2 mo @ le_bytes 2 sz @ le_bytes 2 i"

context buffer_layout
begin

lemma ed25519_layout_ok:
  assumes "so < 65536" "po < 65536" "mo < 65536" "sz < 65536" "i < 65536"
  shows "lays_out (ED25519_INSTRUCTION_LAYOUT L)
    (JObj [(''numSignatures'', JNum 1), (''padding'', JNum 0), (''signatureOffset'', JNum (int so)), (''signatureInstructionIndex'', JNum (int i)),
       (''publicKeyOffset'', JNum (int po)), (''publicKeyInstructionIndex'', JNum (int i)), (''messageDataOffset'', JNum (int mo)),
       (''messageDataSize'', JNum (int sz)), (''messageInstructionIndex'', JNum (int i))])
    (ed25519_bytes so po mo sz i)"
  using struct_ok [of "[(bl_u8 L (Some ''numSignatures''), JNum 1, [1]), (bl_u8 L (Some ''padding''), JNum 0, [0]),
      (bl_u16 L (Some ''signatureOffset''), JNum (int so), le_bytes 2 so), (bl_u16 L (Some ''signatureInstructionIndex''), JNum (int i), le_bytes 2 i),
      (bl_u16 L (Some ''publicKeyOffset''), JNum (int po), le_bytes 2 po), (bl_u16 L (Some ''publicKeyInstructionIndex''), JNum (int i), le_bytes 2 i),
      (bl_u16 L (Some ''messageDataOffset''), JNum (int mo), le_bytes 2 mo), (bl_u16 L (Some ''messageDataSize''), JNum (int sz), le_bytes 2 sz),
      (bl_u16 L (Some ''messageInstructionIndex''), JNum (int i), le_bytes 2 i)]" None] assms u8 [of 1] u8 [of 0]
  by (simp add: ED25519_INSTRUCTION_LAYOUT_def ed25519_bytes_def u16 uint_properties)

lemma createEd25519Instruction_ok:
  assumes "readUIntLE 2 message 100 = Inr sz" "off + 102 < 65536" "i < 65536"
  shows "createEd25519Instruction L message i off = Inr (ed25519_bytes (off + 4) (off + 68) (off + 102) sz i)"
proof -
  have "sz < 65536" using assms(1) le_nat_less [of "subarray message 100 102"]
    by (auto simp: readUIntLE_def length_subarray split: if_splits)
  from ed25519_layout_ok [of "off + 4" "off + 68" "off + 102" sz i] this assms(2,3)
  have ok: "lays_out (ED25519_INSTRUCTION_LAYOUT L)
    (JObj [(''numSignatures'', JNum 1), (''padding'', JNum 0), (''signatureOffset'', JNum (int (off + 4))), (''signatureInstructionIndex'', JNum (int i)),
       (''publicKeyOffset'', JNum (int (off + 68))), (''publicKeyInstructionIndex'', JNum (int i)), (''messageDataOffset'', JNum (int (off + 102))),
       (''messageDataSize'', JNum (int sz)), (''messageInstructionIndex'', JNum (int i))])
    (ed25519_bytes (off + 4) (off + 68) (off + 102) sz i)" by simp
  have "length (replicate 16 (0 :: byte)) = length (ed25519_bytes (off + 4) (off + 68) (off + 102) sz i)" by (simp add: ed25519_bytes_def)
  from lays_out_encode [OF ok this, of 0 "[]" "[]"] assms(1) show ?thesis
    by (simp add: createEd25519Instruction_def Let_def MAGIC_LEN_def SIGNATURE_LEN_def PUBKEY_LEN_def MESSAGE_SIZE_LEN_def ED25519_INSTRUCTION_LEN_def
        add.commute add.left_commute)
qed

end

lemma u16_at_ed25519:
  assumes "so < 65536" "po < 65536" "mo < 65536" "sz < 65536" "i < 65536"
  defines "d \<equiv> ed25519_bytes so po mo sz i"
  shows "u16_at d 2 = so" "u16_at d 4 = i" "u16_at d 6 = po" "u16_at d 8 = i" "u16_at d 10 = mo" "u16_at d 12 = sz" "u16_at d 14 = i"
proof -
  obtain s0 s1 i0 i1 p0 p1 m0 m1 z0 z1 where b: "le_bytes 2 so = [s0, s1]" "le_bytes 2 i = [i0, i1]" "le_bytes 2 po = [p0, p1]"
    "le_bytes 2 mo = [m0, m1]" "le_bytes 2 sz = [z0, z1]"
    by (simp add: numeral_2_eq_2)
  have n: "le_nat [s0, s1] = so" "le_nat [i0, i1] = i" "le_nat [p0, p1] = po" "le_nat [m0, m1] = mo" "le_nat [z0, z1] = sz"
    using assms by (simp_all flip: b)
  show "u16_at d 2 = so" "u16_at d 4 = i" "u16_at d 6 = po" "u16_at d 8 = i" "u16_at d 10 = mo" "u16_at d 12 = sz" "u16_at d 14 = i"
    using n by (simp_all add: d_def ed25519_bytes_def b u16_at_def subarray_def del: le_nat.simps)
qed

section \<open>Properties\<close>

text \<open>Starknet buffers: for every buffer, the contract accepts what \<open>fromBuffer\<close> gives, and reads from it the length and the bytes of the
  buffer; the empty buffer and lengths that are a multiple of 31 included.\<close>

theorem fromBuffer_roundtrip:
  "contract_accepts (fromBuffer buffer) \<and> contract_length (fromBuffer buffer) = length buffer \<and> contract_bytes (fromBuffer buffer) = buffer"
proof -
  obtain ds n where f: "fromBuffer buffer = \<lparr> num_last_bytes = n, bb_data = map (\<lambda>d. ''0x'' @ to_hex d) ds \<rparr>" and p: "pieces buffer ds n"
    using fromBuffer_loop_pieces [of 0 buffer "[]" "[]"] by (auto simp: fromBuffer_def)
  show ?thesis
  proof (cases "ds = []")
    case True
    with f p show ?thesis by (simp add: pieces_def contract_accepts_def contract_length_def contract_bytes_def)
  next
    case False
    have last: "last (map (\<lambda>d. ''0x'' @ to_hex d) ds) = ''0x'' @ to_hex (last ds)"
      "butlast (map (\<lambda>d. ''0x'' @ to_hex d) ds) = map (\<lambda>d. ''0x'' @ to_hex d) (butlast ds)"
      using False by (simp_all add: last_map map_butlast)
    have len: "length (last ds) = n" "0 < n" "n \<le> 31" using p False by (simp_all add: pieces_def)
    have "be_nat (last ds) < 256 ^ n" using be_nat_less [of "last ds"] len by simp
    moreover have "concat (map (\<lambda>d. be_bytes 31 (be_nat d)) (butlast ds)) = concat (butlast ds)"
      using p by (intro arg_cong [of _ _ concat]) (simp add: pieces_def bytes_nat_inverse map_idI)
    moreover have "be_bytes n (be_nat (last ds)) = last ds" using len by (simp add: bytes_nat_inverse)
    moreover have "concat (butlast ds) @ last ds = buffer"
      using p False by (metis append_butlast_last_id concat_append concat.simps append_Nil2 pieces_def)
    ultimately show ?thesis
      using f False len last pieces_length [OF p False]
      by (simp add: contract_accepts_def contract_length_def contract_bytes_def comp_def)
  qed
qed

text \<open>The update data that Aptos wallets serialise are read back.\<close>

theorem serializeUpdateData_roundtrip: "deserialize (serializeUpdateData updateData) = Some updateData"
  using read_vaas_concat [of updateData "[]"] by (simp add: deserialize_def serializeUpdateData_def)


text \<open>C37. Lazer signatures: for a message of the Solana format at any offset in the data of an instruction, the instruction that is created
  has the native program verify exactly the signature, the key and the payload of that message.\<close>

theorem ed25519_verifies_message:
  assumes "buffer_layout L" "length magic = 4" "length signature = 64" "length key = 32"
    and "message = magic @ signature @ key @ le_bytes 2 (length payload) @ payload @ rest"
    and "i < length ixs" "ixs ! i = pre @ message @ post" "i < 65536" "length pre + 102 + length payload < 65536"
  shows "\<exists>data. createEd25519Instruction L message i (length pre) = Inr data \<and>
    verified_by_program ixs data = Some (Some key, Some signature, Some payload)"
proof -
  have split: "message = (magic @ signature @ key) @ le_bytes 2 (length payload) @ (payload @ rest)"
    using assms(5) by simp
  have size: "readUIntLE 2 message 100 = Inr (length payload)"
    using readUIntLE_at [of "le_bytes 2 (length payload)" 2 "magic @ signature @ key" "payload @ rest"] assms(2-4,9) by (simp add: split)
  have ix: "ixs ! i = (pre @ magic) @ signature @ (key @ le_bytes 2 (length payload) @ payload @ rest @ post)"
    "ixs ! i = (pre @ magic @ signature) @ key @ (le_bytes 2 (length payload) @ payload @ rest @ post)"
    "ixs ! i = (pre @ magic @ signature @ key @ le_bytes 2 (length payload)) @ payload @ (rest @ post)"
    using assms(5,7) by simp_all
  have "slice_of ixs i (length pre + 4) 64 = Some signature"
    using ix(1) assms(2-4,6) subarray_mid' [of "length pre + 4" "pre @ magic" "length pre + 4 + 64" signature] by (simp add: slice_of_def)
  moreover have "slice_of ixs i (length pre + 68) 32 = Some key"
    using ix(2) assms(2-4,6) subarray_mid' [of "length pre + 68" "pre @ magic @ signature" "length pre + 68 + 32" key] by (simp add: slice_of_def)
  moreover have "slice_of ixs i (length pre + 102) (length payload) = Some payload"
    using ix(3) assms(2-4,6) subarray_mid' [of "length pre + 102" "pre @ magic @ signature @ key @ le_bytes 2 (length payload)"
        "length pre + 102 + length payload" payload] by (simp add: slice_of_def)
  ultimately show ?thesis
    using buffer_layout.createEd25519Instruction_ok [OF assms(1) size _ assms(8), of "length pre"] assms(8,9)
      u16_at_ed25519 [of "length pre + 4" "length pre + 68" "length pre + 102" "length payload" i]
    by (simp add: verified_by_program_def) (simp add: ed25519_bytes_def)
qed

lemma ed25519_verifies_message_witness:
  "\<exists>data. createEd25519Instruction doc_lib (replicate 4 9 @ replicate 64 1 @ replicate 32 2 @ [3, 0, 5, 6, 7]) 0 1 = Inr data \<and>
    verified_by_program [0 # replicate 4 9 @ replicate 64 1 @ replicate 32 2 @ [3, 0, 5, 6, 7]] data =
      Some (Some (replicate 32 2), Some (replicate 64 1), Some [5, 6, 7])"
  using ed25519_verifies_message [OF doc.buffer_layout_axioms, of "replicate 4 9" "replicate 64 1" "replicate 32 2" _ "[5, 6, 7]" "[]" 0
      "[0 # replicate 4 9 @ replicate 64 1 @ replicate 32 2 @ [3, 0, 5, 6, 7]]" "[0]" "[]"]
  by (simp add: numeral_2_eq_2)

end
