(* ===== verification/Ton_Sdk.thy ===== *)
theory Ton_Sdk
  imports Js_Prelude
begin

text \<open>
  \<open>target_chains/ton/sdk/js/src/index.ts\<close>: chains of cells, the messages the SDK sends to the contract and the
  parsers of what it returns.

  Cells and their builder come from \<open>@ton/core\<close>: the record \<open>ton_core\<close> holds what the code calls, and the
  locale \<open>ton_cells\<close> what its documentation promises, namely that a cell holds at most 1023 bits and four
  references, that a builder beyond that throws, and that a finished cell is read back as it was
  written. Reading is modelled on the tree of bits that a cell stands for.
\<close>

section \<open>Cells\<close>

datatype cell = Cell (cell_bits: "bool list") (cell_refs: "cell list")

record 'c ton_core =
  endCell :: "bool list \<Rightarrow> 'c list \<Rightarrow> 'c result"
  beginParse :: "'c \<Rightarrow> cell"
  bitString :: "bool list \<Rightarrow> string"

fun uint_bits :: "nat \<Rightarrow> nat \<Rightarrow> bool list" where
  "uint_bits 0 n = []"
| "uint_bits (Suc w) n = uint_bits w (n div 2) @ [odd n]"

definition bits_uint :: "bool list \<Rightarrow> nat" where
  "bits_uint = foldl (\<lambda>n b. 2 * n + (if b then 1 else 0)) 0"

definition bytes_bits :: "bytes \<Rightarrow> bool list" where
  "bytes_bits bs = concat (map (\<lambda>b. uint_bits 8 (unat b)) bs)"

locale ton_cells =
  fixes T :: "'c ton_core"
  assumes endCell_ok: "length bits \<le> 1023 \<Longrightarrow> length refs \<le> 4 \<Longrightarrow>
      \<exists>c. endCell T bits refs = Inr c \<and> beginParse T c = Cell bits (map (beginParse T) refs)"
    and endCell_overflow: "1023 < length bits \<or> 4 < length refs \<Longrightarrow> \<exists>e. endCell T bits refs = Inl e"

section \<open>\<open>createCellChain\<close>\<close>

definition CHUNK :: nat where
  "CHUNK = 127"

fun chunks_from :: "bytes \<Rightarrow> nat \<Rightarrow> nat \<Rightarrow> nat \<Rightarrow> bytes list" where
  "chunks_from buff chunkSizeBytes 0 offs = []"
| "chunks_from buff chunkSizeBytes (Suc fuel) offs =
     (if offs < length buff
      then (let remainingBytes = min chunkSizeBytes (length buff - offs)
            in subarray buff offs (offs + remainingBytes) # chunks_from buff chunkSizeBytes fuel (offs + chunkSizeBytes))
      else [])"

text \<open>The loop makes at most as many steps as there are bytes.\<close>

definition bufferToChunks :: "bytes \<Rightarrow> nat \<Rightarrow> bytes list" where
  "bufferToChunks buff chunkSizeBytes = chunks_from buff chunkSizeBytes (Suc (length buff)) 0"

text \<open>The chunks are turned into cells from the last to the first.\<close>

fun cells_of :: "'c ton_core \<Rightarrow> bytes list \<Rightarrow> 'c option \<Rightarrow> 'c option result" where
  "cells_of T [] lastCell = Inr lastCell"
| "cells_of T (chunk # revChunks) lastCell =
     bindR (endCell T (bytes_bits chunk) (case lastCell of None \<Rightarrow> [] | Some c \<Rightarrow> [c]))
       (\<lambda>c. cells_of T revChunks (Some c))"

definition createCellChain :: "'c ton_core \<Rightarrow> bytes \<Rightarrow> 'c result" where
  "createCellChain T buffer =
     bindR (cells_of T (rev (bufferToChunks buffer CHUNK)) None)
       (\<lambda>c. case c of None \<Rightarrow> Inl (JsError ''Failed to create cell chain'') | Some c \<Rightarrow> Inr c)"

section \<open>Messages\<close>

record 'c ton_message =
  m_value :: int
  m_body :: 'c

definition op_message :: "'c ton_core \<Rightarrow> nat \<Rightarrow> 'c \<Rightarrow> int \<Rightarrow> 'c ton_message result" where
  "op_message T op c val =
     bindR (endCell T (uint_bits 32 op) [c]) (\<lambda>body. Inr \<lparr> m_value = val, m_body = body \<rparr>)"

text \<open>\<open>toNano("0.1")\<close>.\<close>

definition tenth_ton :: int where
  "tenth_ton = 100000000"

definition sendUpdateGuardianSet :: "'c ton_core \<Rightarrow> bytes \<Rightarrow> 'c ton_message result" where
  "sendUpdateGuardianSet T vm = bindR (createCellChain T vm) (\<lambda>c. op_message T 1 c tenth_ton)"

definition sendUpdatePriceFeeds :: "'c ton_core \<Rightarrow> bytes \<Rightarrow> int \<Rightarrow> 'c ton_message result" where
  "sendUpdatePriceFeeds T updateData updateFee =
     bindR (createCellChain T updateData) (\<lambda>c. op_message T 2 c updateFee)"

definition sendExecuteGovernanceAction :: "'c ton_core \<Rightarrow> bytes \<Rightarrow> 'c ton_message result" where
  "sendExecuteGovernanceAction T governanceAction =
     bindR (createCellChain T governanceAction) (\<lambda>c. op_message T 3 c tenth_ton)"

definition sendUpgradeContract :: "'c ton_core \<Rightarrow> 'c \<Rightarrow> 'c ton_message result" where
  "sendUpgradeContract T newCode = op_message T 4 newCode tenth_ton"

definition UPDATE_PRICE_FEEDS_BASE_GAS :: int where
  "UPDATE_PRICE_FEEDS_BASE_GAS = 300000"

definition UPDATE_PRICE_FEEDS_PER_UPDATE_GAS :: int where
  "UPDATE_PRICE_FEEDS_PER_UPDATE_GAS = 90000"

definition GAS_PRICE_FACTOR :: int where
  "GAS_PRICE_FACTOR = 400"

definition calculateUpdatePriceFeedsFee :: "int \<Rightarrow> int" where
  "calculateUpdatePriceFeedsFee numUpdates =
     (UPDATE_PRICE_FEEDS_BASE_GAS + UPDATE_PRICE_FEEDS_PER_UPDATE_GAS * numUpdates) * GAS_PRICE_FACTOR"

section \<open>Parsers\<close>

record TonDataSource =
  ds_emitterChain :: nat
  ds_emitterAddress :: string

definition loadUint :: "nat \<Rightarrow> bool list \<Rightarrow> (nat \<times> bool list) result" where
  "loadUint w bits = (if length bits < w then Inl RangeError else Inr (bits_uint (take w bits), drop w bits))"

text \<open>\<open>toString(16).padStart(64, "0")\<close> of a 256-bit number: the 64 digits of its 32 bytes.\<close>

definition parseDataSource :: "cell \<Rightarrow> TonDataSource option result" where
  "parseDataSource c =
     (let slice = cell_bits c in
      if length slice = 0 then Inr None
      else bindR (loadUint 16 slice) (\<lambda>r.
           bindR (loadUint 256 (snd r)) (\<lambda>a.
             Inr (Some \<lparr> ds_emitterChain = fst r, ds_emitterAddress = to_hex (be_bytes 32 (fst a)) \<rparr>))))"

text \<open>\<open>parseDataSources\<close> on the values of the dictionary, in the order of their keys.\<close>

definition parseDataSources :: "cell list \<Rightarrow> TonDataSource list result" where
  "parseDataSources values = bindR (mapR parseDataSource values) (\<lambda>ds. Inr (List.map_filter (\<lambda>d. d) ds))"

fun parseGuardianSetKeys :: "'c ton_core \<Rightarrow> cell \<Rightarrow> string list"
  and parse_slice :: "'c ton_core \<Rightarrow> bool list \<Rightarrow> cell list \<Rightarrow> string list" where
  "parseGuardianSetKeys T (Cell bits refs) = parse_slice T bits refs"
| "parse_slice T bits [] =
     (if 160 \<le> length bits then [''0x'' @ bitString T (drop (length bits - 160) bits)] else [])"
| "parse_slice T bits (r # refs) =
     (if 160 \<le> length bits
      then [''0x'' @ bitString T (drop (length bits - 160) bits)] @ parseGuardianSetKeys T r @ parse_slice T [] refs
      else parseGuardianSetKeys T r @ parse_slice T bits refs)"

section \<open>Reading a chain\<close>

text \<open>The contract reads the bits of a chain cell by cell, following the first reference.\<close>

inductive chain :: "cell \<Rightarrow> bool list list \<Rightarrow> bool" where
  last: "chain (Cell bits []) [bits]"
| link: "chain c bs \<Longrightarrow> chain (Cell bits [c]) (bits # bs)"

lemma length_uint_bits [simp]: "length (uint_bits w n) = w"
  by (induction w n rule: uint_bits.induct) simp_all

lemma length_bytes_bits [simp]: "length (bytes_bits bs) = 8 * length bs"
  by (induction bs) (simp_all add: bytes_bits_def)

lemma bytes_bits_concat: "concat (map bytes_bits bss) = bytes_bits (concat bss)"
  by (induction bss) (simp_all add: bytes_bits_def)

lemma chunks_from_props:
  assumes "0 < k" "length buff < fuel + offs"
  shows "concat (chunks_from buff k fuel offs) = drop offs buff \<and>
    (\<forall>c \<in> set (chunks_from buff k fuel offs). length c \<le> k)"
  using assms(2)
proof (induction fuel arbitrary: offs)
  case (Suc fuel)
  show ?case
  proof (cases "offs < length buff")
    case True
    have c: "subarray buff offs (offs + min k (length buff - offs)) = take k (drop offs buff)"
      by (simp add: subarray_def min_def)
    have "take k (drop offs buff) @ drop (offs + k) buff = drop offs buff"
      by (metis add.commute append_take_drop_id drop_drop)
    then show ?thesis using True Suc.IH [of "offs + k"] Suc.prems assms(1) by (simp add: Let_def c)
  qed simp
qed simp

lemma bufferToChunks_props:
  assumes "0 < k"
  shows "concat (bufferToChunks buff k) = buff"
    and "c \<in> set (bufferToChunks buff k) \<Longrightarrow> length c \<le> k"
  using chunks_from_props [OF assms, of buff "Suc (length buff)" 0]
  by (simp_all add: bufferToChunks_def del: chunks_from.simps)

context ton_cells
begin

lemma cells_of_chain:
  assumes "\<And>c. c \<in> set revChunks \<Longrightarrow> length c \<le> CHUNK"
    and "case lastCell of None \<Rightarrow> bs = [] | Some c \<Rightarrow> chain (beginParse T c) bs"
  shows "\<exists>r. cells_of T revChunks lastCell = Inr r \<and>
    (case r of None \<Rightarrow> revChunks = [] \<and> bs = []
     | Some c \<Rightarrow> chain (beginParse T c) (map bytes_bits (rev revChunks) @ bs))"
  using assms
proof (induction revChunks arbitrary: lastCell bs)
  case Nil
  then show ?case by (cases lastCell) auto
next
  case (Cons chunk chunks)
  let ?refs = "case lastCell of None \<Rightarrow> [] | Some c \<Rightarrow> [c]"
  have "length (bytes_bits chunk) \<le> 1023" "length ?refs \<le> 4"
    using Cons.prems(1) [of chunk] by (auto simp: CHUNK_def split: option.split)
  from endCell_ok [OF this] obtain c where c: "endCell T (bytes_bits chunk) ?refs = Inr c"
    "beginParse T c = Cell (bytes_bits chunk) (map (beginParse T) ?refs)" by blast
  have "chain (beginParse T c) (bytes_bits chunk # bs)"
    using Cons.prems(2) c(2) by (auto split: option.splits intro: chain.intros)
  with Cons.IH [where lastCell = "Some c" and bs = "bytes_bits chunk # bs"] Cons.prems(1) c(1) show ?case
    by (auto split: option.splits)
qed

lemma createCellChain_chain:
  assumes "buffer \<noteq> []"
  obtains c where "createCellChain T buffer = Inr c"
    and "chain (beginParse T c) (map bytes_bits (bufferToChunks buffer CHUNK))"
proof -
  have k: "0 < CHUNK" by (simp add: CHUNK_def)
  then have "bufferToChunks buffer CHUNK \<noteq> []" using bufferToChunks_props(1) [OF k, of buffer] assms by auto
  with cells_of_chain [of "rev (bufferToChunks buffer CHUNK)" "[]" None] bufferToChunks_props(2) [OF k] that
  show ?thesis by (auto simp: createCellChain_def split: option.splits)
qed

end

section \<open>The documented library\<close>

definition doc_ton :: "cell ton_core" where
  "doc_ton = \<lparr> endCell = (\<lambda>bits refs. if length bits \<le> 1023 \<and> length refs \<le> 4 then Inr (Cell bits refs)
                               else Inl (JsError ''BitBuilder overflow'')),
     beginParse = (\<lambda>c. c), bitString = map (\<lambda>b. if b then CHR ''1'' else CHR ''0'') \<rparr>"

interpretation doc_ton: ton_cells doc_ton
  by unfold_locales (auto simp: doc_ton_def)

section \<open>Properties\<close>

text \<open>C35. \<open>createCellChain\<close> loses nothing: for every buffer that is not empty it returns a chain of cells, each
  linked to the next by its only reference and holding at most 127 bytes, whose contents in order are
  the buffer; and \<open>sendUpdatePriceFeeds\<close> wraps it in a message with operation code 2 and the given fee.
  The empty buffer throws.\<close>

theorem createCellChain_roundtrip:
  assumes "ton_cells T"
  shows "if buffer = [] then createCellChain T buffer = Inl (JsError ''Failed to create cell chain'')
         else \<exists>c chunks. createCellChain T buffer = Inr c \<and> chain (beginParse T c) (map bytes_bits chunks) \<and>
                concat chunks = buffer \<and> list_all (\<lambda>ch. length ch \<le> 127) chunks \<and>
                (\<exists>m. sendUpdatePriceFeeds T buffer fee = Inr m \<and> m_value m = fee \<and>
                     beginParse T (m_body m) = Cell (uint_bits 32 2) [beginParse T c])"
proof (cases "buffer = []")
  case True
  then show ?thesis by (simp add: createCellChain_def bufferToChunks_def)
next
  case False
  obtain c where c: "createCellChain T buffer = Inr c"
    "chain (beginParse T c) (map bytes_bits (bufferToChunks buffer CHUNK))"
    using ton_cells.createCellChain_chain [OF assms False] .
  have k: "0 < CHUNK" by (simp add: CHUNK_def)
  have "list_all (\<lambda>ch. length ch \<le> 127) (bufferToChunks buffer CHUNK)"
    using bufferToChunks_props(2) [OF k] by (simp add: list_all_iff CHUNK_def)
  moreover obtain b where "endCell T (uint_bits 32 2) [c] = Inr b"
    "beginParse T b = Cell (uint_bits 32 2) [beginParse T c]"
    using ton_cells.endCell_ok [OF assms, of "uint_bits 32 2" "[c]"] by auto
  ultimately show ?thesis
    using False c bufferToChunks_props(1) [OF k] by (auto simp: sendUpdatePriceFeeds_def op_message_def)
qed

theorem createCellChain_roundtrip_witness:
  "\<exists>c chunks. createCellChain doc_ton [1, 2] = Inr c \<and> concat chunks = [1, 2 :: byte]"
  using createCellChain_roundtrip [OF doc_ton.ton_cells_axioms, of "[1, 2]"] by auto

end
