(* ===== verification/Chain_Pushers.thy ===== *)
theory Chain_Pushers
  imports Evm_Pusher Ton_Sdk Accumulator
begin

text \<open>
  The price pushers of Aptos, Injective, NEAR, TON and Fuel (\<open>apps/price_pusher/src\<close>). The controller does not wait for a
  push before it starts the next one, so the pushers of Aptos and Injective, which keep the number of their next
  transaction, are step functions on a state with the pushes under way: one function for each stretch of code between two
  \<open>await\<close>s. The other three keep no state and are functions of what their node answers.
\<close>

section \<open>Reading prices\<close>

definition ton_getOnChainPriceInfo :: "(string \<Rightarrow> (string \<times> string \<times> int) result) \<Rightarrow> string \<Rightarrow> PriceInfo option" where
  "ton_getOnChainPriceInfo getPriceUnsafe priceId =
     (case getPriceUnsafe (addLeading0x priceId) of
        Inl _ \<Rightarrow> None
      | Inr (price, conf, publishTime) \<Rightarrow> Some \<lparr> i_price = price, i_conf = conf, i_publishTime = publishTime \<rparr>)"

definition near_getOnChainPriceInfo :: "(string \<Rightarrow> (string \<times> string \<times> int) option result) \<Rightarrow> string \<Rightarrow> PriceInfo option" where
  "near_getOnChainPriceInfo getPriceUnsafe priceId =
     (case getPriceUnsafe priceId of
        Inl _ \<Rightarrow> None
      | Inr None \<Rightarrow> None
      | Inr (Some (price, conf, publish_time)) \<Rightarrow> Some \<lparr> i_price = price, i_conf = conf, i_publishTime = publish_time \<rparr>)"

text \<open>The query and the parser of its answer are guarded, the access to the fields is not: an answer without them throws.\<close>

definition injective_getOnChainPriceInfo ::
  "(string \<Rightarrow> (string \<times> string \<times> int) option result) \<Rightarrow> string \<Rightarrow> PriceInfo option result" where
  "injective_getOnChainPriceInfo priceQuery priceId =
     (case priceQuery priceId of
        Inl _ \<Rightarrow> Inr None
      | Inr None \<Rightarrow> Inl TypeError
      | Inr (Some (price, conf, publish_time)) \<Rightarrow> Inr (Some \<lparr> i_price = price, i_conf = conf, i_publishTime = publish_time \<rparr>))"

definition tai64ToUnix :: "int \<Rightarrow> js_number" where
  "tai64ToUnix tai64 = number_of_int (tai64 - 2 ^ 62 - 10)"

text \<open>A publish time is an integer here, so the caller keeps the exact value of the difference where it is a safe integer.\<close>

section \<open>Aptos\<close>

text \<open>A push under way waits for the account, has a number and waits for its submission, or waits for its confirmation.\<close>

datatype aptos_push = Fetching | Numbered int | Submitted int

record aptos =
  lastSequenceNumber :: "int option"
  sequenceNumberLocked :: bool
  pushes :: "aptos_push list"

definition new_aptos :: aptos where
  "new_aptos = \<lparr> lastSequenceNumber = None, sequenceNumberLocked = False, pushes = [] \<rparr>"

definition tryGetNextSequenceNumber :: "aptos \<Rightarrow> aptos_push result \<times> aptos" where
  "tryGetNextSequenceNumber s =
     (case lastSequenceNumber s of
        Some n \<Rightarrow> (Inr (Numbered (n + 1)), s\<lparr> lastSequenceNumber := Some (n + 1) \<rparr>)
      | None \<Rightarrow>
          if \<not> sequenceNumberLocked s then (Inr Fetching, s\<lparr> sequenceNumberLocked := True \<rparr>)
          else (Inl (JsError ''Waiting for sequence number in another thread.''), s))"

text \<open>\<open>updatePriceFeed\<close> up to the wait for the account or for the transaction; \<open>updateData\<close> is the answer of Hermes.\<close>

definition aptos_updatePriceFeed :: "string list \<Rightarrow> int list \<Rightarrow> string list result \<Rightarrow> aptos \<Rightarrow> unit result \<times> aptos" where
  "aptos_updatePriceFeed priceIds pubTimesToPush updateData s =
     (if priceIds = [] then (Inr (), s)
      else if length priceIds \<noteq> length pubTimesToPush then (Inl (JsError ''Invalid arguments''), s)
      else (case updateData of
        Inl _ \<Rightarrow> (Inr (), s)
      | Inr _ \<Rightarrow>
          (case tryGetNextSequenceNumber s of
             (Inl e, s') \<Rightarrow> (Inl e, s')
           | (Inr push, s') \<Rightarrow> (Inr (), s'\<lparr> pushes := pushes s' @ [push] \<rparr>))))"

definition remove_push :: "nat \<Rightarrow> aptos \<Rightarrow> aptos" where
  "remove_push k s = s\<lparr> pushes := take k (pushes s) @ drop (Suc k) (pushes s) \<rparr>"

definition account_fetched :: "nat \<Rightarrow> int result \<Rightarrow> aptos \<Rightarrow> aptos" where
  "account_fetched k answer s =
     (case answer of
        Inr n \<Rightarrow> s\<lparr> lastSequenceNumber := Some n, sequenceNumberLocked := False, pushes := (pushes s)[k := Numbered n] \<rparr>
      | Inl _ \<Rightarrow> remove_push k (s\<lparr> sequenceNumberLocked := False \<rparr>))"

text \<open>Generating the transaction is not guarded: a failure is thrown, and the number stays used.\<close>

datatype submission = Broadcast | Not_generated | Not_submitted

fun transaction_submitted :: "nat \<Rightarrow> int \<Rightarrow> submission \<Rightarrow> aptos \<Rightarrow> aptos" where
  "transaction_submitted k n Broadcast s = s\<lparr> pushes := (pushes s)[k := Submitted n] \<rparr>"
| "transaction_submitted k n Not_generated s = remove_push k s"
| "transaction_submitted k n Not_submitted s = remove_push k (s\<lparr> lastSequenceNumber := None \<rparr>)"

definition waitForTransactionConfirmation :: "nat \<Rightarrow> bool \<Rightarrow> aptos \<Rightarrow> aptos" where
  "waitForTransactionConfirmation k confirmed s =
     remove_push k (if confirmed then s else s\<lparr> lastSequenceNumber := None \<rparr>)"

text \<open>What a step shows: the number it gives to a push, or that it forgets the cached one.\<close>

datatype aptos_label = Assigned int | Reset | Quiet

definition push_label :: "aptos_push list \<Rightarrow> aptos_push list \<Rightarrow> aptos_label" where
  "push_label before after =
     (if length after = length before then Quiet else (case last after of Numbered n \<Rightarrow> Assigned n | _ \<Rightarrow> Quiet))"

inductive aptos_step :: "aptos \<Rightarrow> aptos_label \<Rightarrow> aptos \<Rightarrow> bool" where
  push: "aptos_updatePriceFeed ids pubTimes data s = (r, s') \<Longrightarrow> aptos_step s (push_label (pushes s) (pushes s')) s'"
| fetched: "k < length (pushes s) \<Longrightarrow> pushes s ! k = Fetching \<Longrightarrow>
    aptos_step s (case answer of Inr n \<Rightarrow> Assigned n | Inl _ \<Rightarrow> Quiet) (account_fetched k answer s)"
| submitted: "k < length (pushes s) \<Longrightarrow> pushes s ! k = Numbered n \<Longrightarrow>
    aptos_step s (if answer = Not_submitted then Reset else Quiet) (transaction_submitted k n answer s)"
| confirmed: "k < length (pushes s) \<Longrightarrow> pushes s ! k = Submitted n \<Longrightarrow>
    aptos_step s (if ok then Quiet else Reset) (waitForTransactionConfirmation k ok s)"

inductive aptos_run :: "aptos \<Rightarrow> aptos_label list \<Rightarrow> aptos \<Rightarrow> bool" where
  none: "aptos_run s [] s"
| more: "aptos_run s ls s' \<Longrightarrow> aptos_step s' l s'' \<Longrightarrow> aptos_run s (ls @ [l]) s''"

subsection \<open>Its invariant\<close>

text \<open>One push fetches the account while the lock is held, and none otherwise; nothing is cached meanwhile.\<close>

definition fetches :: "aptos_push list \<Rightarrow> nat" where
  "fetches ps = length (filter (\<lambda>p. p = Fetching) ps)"

definition aptos_inv :: "aptos \<Rightarrow> bool" where
  "aptos_inv s \<longleftrightarrow> fetches (pushes s) = of_bool (sequenceNumberLocked s) \<and>
     (sequenceNumberLocked s \<longrightarrow> lastSequenceNumber s = None)"

lemma fetches_simps [simp]:
  "fetches [] = 0" "fetches (p # ps) = of_bool (p = Fetching) + fetches ps" "fetches (ps @ qs) = fetches ps + fetches qs"
  by (simp_all add: fetches_def)

lemma fetches_split: "k < length ps \<Longrightarrow> fetches ps = fetches (take k ps) + of_bool (ps ! k = Fetching) + fetches (drop (Suc k) ps)"
  by (subst id_take_nth_drop [of k ps]) simp_all

lemma fetches_update: "k < length ps \<Longrightarrow> fetches (ps[k := p]) = fetches (take k ps) + of_bool (p = Fetching) + fetches (drop (Suc k) ps)"
  by (simp add: upd_conv_take_nth_drop)

text \<open>The cached number after a label.\<close>

fun cached :: "int option \<Rightarrow> aptos_label \<Rightarrow> int option" where
  "cached c (Assigned n) = Some n"
| "cached c Reset = None"
| "cached c Quiet = c"

lemma aptos_step_inv:
  assumes "aptos_step s l s'" "aptos_inv s"
  shows "aptos_inv s' \<and> lastSequenceNumber s' = cached (lastSequenceNumber s) l \<and>
    (\<forall>n m. l = Assigned n \<longrightarrow> lastSequenceNumber s = Some m \<longrightarrow> n = m + 1)"
  using assms
proof (cases rule: aptos_step.cases)
  case (push ids pubTimes data r)
  then show ?thesis using assms(2)
    by (auto simp: aptos_updatePriceFeed_def tryGetNextSequenceNumber_def aptos_inv_def push_label_def
        split: if_splits option.splits sum.splits)
next
  case (fetched k answer)
  have one: "sequenceNumberLocked s" "fetches (take k (pushes s)) = 0" "fetches (drop (Suc k) (pushes s)) = 0"
    using fetches_split [OF fetched(3)] fetched(4) assms(2) by (cases "sequenceNumberLocked s"; simp add: aptos_inv_def)+
  then show ?thesis using fetched assms(2)
    by (cases answer) (simp_all add: account_fetched_def aptos_inv_def remove_push_def fetches_update)
next
  case (submitted k n answer)
  then show ?thesis using assms(2) fetches_split [of k "pushes s"]
    by (cases answer) (auto simp: aptos_inv_def remove_push_def fetches_update)
next
  case (confirmed k n ok)
  then show ?thesis using assms(2) fetches_split [of k "pushes s"]
    by (auto simp: waitForTransactionConfirmation_def aptos_inv_def remove_push_def)
qed

lemma aptos_run_inv:
  "aptos_run s ls s' \<Longrightarrow> aptos_inv s \<Longrightarrow> aptos_inv s' \<and> lastSequenceNumber s' = foldl cached (lastSequenceNumber s) ls"
  by (induction rule: aptos_run.induct) (auto dest: aptos_step_inv)

lemma next_number:
  "aptos_run s ls s' \<Longrightarrow> aptos_inv s \<Longrightarrow> ls = xs @ Assigned b # post \<Longrightarrow>
   foldl cached (lastSequenceNumber s) xs = Some m \<Longrightarrow> b = m + 1"
proof (induction arbitrary: post rule: aptos_run.induct)
  case (more s ls s' l s'')
  show ?case
  proof (cases post rule: rev_cases)
    case Nil
    then have "xs = ls" "l = Assigned b" using more.prems(2) by simp_all
    then show ?thesis
      using aptos_run_inv [OF more.hyps(1) more.prems(1)] aptos_step_inv [OF more.hyps(2)] more.prems(3) by simp
  next
    case (snoc post' l')
    then have "ls = xs @ Assigned b # post'" using more.prems(2) by simp
    then show ?thesis using more.IH more.prems(1,3) by blast
  qed
qed simp

fun is_assigned :: "aptos_label \<Rightarrow> bool" where
  "is_assigned (Assigned n) = True"
| "is_assigned _ = False"

lemma numbers_so_far:
  assumes "aptos_run s ls s'" "aptos_inv s"
  shows "ls = pre @ Assigned a # mid @ post \<Longrightarrow> Reset \<notin> set mid \<Longrightarrow>
    foldl cached (lastSequenceNumber s) (pre @ Assigned a # mid) = Some (a + int (length (filter is_assigned mid)))"
proof (induction mid arbitrary: post rule: rev_induct)
  case (snoc l mid)
  then have IH: "foldl cached (lastSequenceNumber s) (pre @ Assigned a # mid) = Some (a + int (length (filter is_assigned mid)))"
    by simp
  show ?case
  proof (cases l)
    case (Assigned b)
    then have "b = a + int (length (filter is_assigned mid)) + 1"
      using next_number [OF assms _ IH, of b post] snoc.prems(1) by simp
    then show ?thesis using Assigned by simp
  qed (use snoc.prems IH in auto)
qed simp

section \<open>Injective\<close>

text \<open>The cached account is its sequence number. A push waits for the account, for the simulation, for the signature of the
  transaction with the given number, or for the answer to its broadcast.\<close>

datatype injective_push = Loading | Simulating | Signing int | Broadcasting int

record injective =
  inj_account :: "int option"
  inj_pushes :: "injective_push list"

definition set_push :: "nat \<Rightarrow> injective_push option \<Rightarrow> injective \<Rightarrow> injective" where
  "set_push k p s =
     s\<lparr> inj_pushes := take k (inj_pushes s) @ (case p of None \<Rightarrow> [] | Some q \<Rightarrow> [q]) @ drop (Suc k) (inj_pushes s) \<rparr>"

definition signAndBroadcastMsg :: "injective \<Rightarrow> injective" where
  "signAndBroadcastMsg s =
     s\<lparr> inj_pushes := inj_pushes s @ [case inj_account s of None \<Rightarrow> Loading | Some _ \<Rightarrow> Simulating] \<rparr>"

definition account_loaded :: "nat \<Rightarrow> int option \<Rightarrow> injective \<Rightarrow> injective" where
  "account_loaded k answer s =
     (case answer of
        None \<Rightarrow> set_push k None s
      | Some n \<Rightarrow> set_push k (Some Simulating) (s\<lparr> inj_account := Some n \<rparr>))"

text \<open>An error in the guarded part; \<open>mismatch\<close> tells whether its JSON text has the message of a wrong sequence number.\<close>

definition push_failed :: "nat \<Rightarrow> bool \<Rightarrow> injective \<Rightarrow> injective" where
  "push_failed k mismatch s = set_push k None (if mismatch then s\<lparr> inj_account := None \<rparr> else s)"

text \<open>After the simulation the transaction gets the number that is cached then; without one the access throws.\<close>

definition simulated :: "nat \<Rightarrow> injective \<Rightarrow> injective" where
  "simulated k s = (case inj_account s of None \<Rightarrow> push_failed k False s | Some n \<Rightarrow> set_push k (Some (Signing n)) s)"

definition signed :: "nat \<Rightarrow> int \<Rightarrow> injective \<Rightarrow> injective" where
  "signed k n s =
     (case inj_account s of
        None \<Rightarrow> push_failed k False s
      | Some m \<Rightarrow> set_push k (Some (Broadcasting n)) (s\<lparr> inj_account := Some (m + 1) \<rparr>))"

definition broadcast_answered :: "nat \<Rightarrow> bool option \<Rightarrow> injective \<Rightarrow> injective" where
  "broadcast_answered k failure s = (case failure of None \<Rightarrow> set_push k None s | Some mismatch \<Rightarrow> push_failed k mismatch s)"

definition DEFAULT_GAS_PRICE :: js_number where "DEFAULT_GAS_PRICE = Fin 160000000"

text \<open>The gas limit and the amount of the fee. \<open>toFixed()\<close> rounds a number that is not negative to the nearest integer,
  halves up, and \<open>Number\<close> reads its decimal digits back.\<close>

definition injective_gas :: "js_number \<Rightarrow> js_number \<Rightarrow> js_number" where
  "injective_gas gasUsed gasMultiplier = Math_round (js_mul gasUsed gasMultiplier)"

definition injective_fee :: "js_number \<Rightarrow> js_number \<Rightarrow> js_number" where
  "injective_fee gas gasPrice = Math_round (js_mul gas gasPrice)"

text \<open>How \<open>updatePriceFeed\<close> treats the message of an error of \<open>signAndBroadcastMsg\<close>: it throws two of them, and logs the
  others. \<open>not_found\<close> is the match with the pattern of an unknown account.\<close>

definition injective_error :: "(string \<Rightarrow> bool) \<Rightarrow> string \<Rightarrow> unit result" where
  "injective_error not_found message =
     (if not_found message then Inl (JsError ''Please check the mnemonic'')
      else if str_includes message ''insufficient'' \<and> str_includes message ''funds'' then Inl (JsError ''Insufficient funds'')
      else Inr ())"

text \<open>\<open>updatePriceFeed\<close> up to the first wait of \<open>signAndBroadcastMsg\<close>.\<close>

definition injective_updatePriceFeed ::
  "string list \<Rightarrow> int list \<Rightarrow> string list result \<Rightarrow> 'fee result \<Rightarrow> injective \<Rightarrow> unit result \<times> injective" where
  "injective_updatePriceFeed priceIds pubTimesToPush updateData updateFee s =
     (if priceIds = [] then (Inr (), s)
      else if length priceIds \<noteq> length pubTimesToPush then (Inl (JsError ''Invalid arguments''), s)
      else (case updateData of
        Inl _ \<Rightarrow> (Inr (), s)
      | Inr _ \<Rightarrow> (case updateFee of Inl e \<Rightarrow> (Inl e, s) | Inr _ \<Rightarrow> (Inr (), signAndBroadcastMsg s))))"

section \<open>NEAR\<close>

text \<open>The receipts of a transaction: \<open>Inl\<close> a failure status, \<open>Inr\<close> any other.\<close>

definition check_receipts :: "(string + unit) list \<Rightarrow> bool \<times> string list" where
  "check_receipts receipts =
     foldl (\<lambda>(is_success, failureMessages) receipt.
       case receipt of Inl m \<Rightarrow> (False, failureMessages @ [m]) | Inr _ \<Rightarrow> (is_success, failureMessages)) (True, []) receipts"

text \<open>What a push logs for one update: no fee, no outcome, failed receipts, or success.\<close>

datatype near_log = Fee_failed | Call_failed | Receipts_failed "string list" | Successful

text \<open>The account is a contract with a state of its own; the log names the update data and, if it was called, its deposit.\<close>

fun near_push_all ::
  "(string \<Rightarrow> 's \<Rightarrow> 'fee result \<times> 's) \<Rightarrow> (string \<Rightarrow> 'fee \<Rightarrow> 's \<Rightarrow> (string + unit) list result \<times> 's) \<Rightarrow> string list \<Rightarrow> 's \<Rightarrow>
   (string \<times> 'fee option \<times> near_log) list \<times> 's" where
  "near_push_all getUpdateFeeEstimate updatePriceFeeds [] s = ([], s)"
| "near_push_all getUpdateFeeEstimate updatePriceFeeds (data # rest) s =
     (case getUpdateFeeEstimate data s of
        (Inl _, s1) \<Rightarrow>
          (case near_push_all getUpdateFeeEstimate updatePriceFeeds rest s1 of (l, s') \<Rightarrow> ((data, None, Fee_failed) # l, s'))
      | (Inr updateFee, s1) \<Rightarrow>
          (case updatePriceFeeds data updateFee s1 of
             (outcome, s2) \<Rightarrow>
               (case near_push_all getUpdateFeeEstimate updatePriceFeeds rest s2 of
                  (l, s') \<Rightarrow>
                    ((data, Some updateFee,
                      case outcome of
                        Inl _ \<Rightarrow> Call_failed
                      | Inr receipts \<Rightarrow> (case check_receipts receipts of
                          (is_success, failureMessages) \<Rightarrow> if is_success then Successful else Receipts_failed failureMessages)) # l, s'))))"

definition near_updatePriceFeed where
  "near_updatePriceFeed getUpdateFeeEstimate updatePriceFeeds priceIds (pubTimesToPush :: int list) updateData s =
     (if priceIds = [] then Inr ([], s)
      else if length priceIds \<noteq> length pubTimesToPush then Inl (JsError ''Invalid arguments'')
      else (case updateData of
        Inl (_ :: js_error) \<Rightarrow> Inr ([], s)
      | Inr priceFeedUpdateData \<Rightarrow> Inr (near_push_all getUpdateFeeEstimate updatePriceFeeds priceFeedUpdateData s)))"

section \<open>TON\<close>

text \<open>The messages sent, with their fees, and whether the loop ended without an error. The first error ends it.\<close>

fun ton_push_all ::
  "nat \<Rightarrow> (bytes \<Rightarrow> 's \<Rightarrow> int result \<times> 's) \<Rightarrow> (bytes \<Rightarrow> int \<Rightarrow> 's \<Rightarrow> unit result \<times> 's) \<Rightarrow> string list \<Rightarrow> 's \<Rightarrow>
   (bytes \<times> int) list \<times> bool \<times> 's" where
  "ton_push_all n getUpdateFee sendUpdate [] s = ([], True, s)"
| "ton_push_all n getUpdateFee sendUpdate (updateData # rest) s =
     (let updateDataBuffer = from_base64 updateData in
      case getUpdateFee updateDataBuffer s of
        (Inl _, s1) \<Rightarrow> ([], False, s1)
      | (Inr updateFee, s1) \<Rightarrow>
          (let totalFee = calculateUpdatePriceFeedsFee (int n) + updateFee in
           case sendUpdate updateDataBuffer totalFee s1 of
             (Inl _, s2) \<Rightarrow> ([], False, s2)
           | (Inr _, s2) \<Rightarrow>
               (case ton_push_all n getUpdateFee sendUpdate rest s2 of
                  (l, ok, s') \<Rightarrow> ((updateDataBuffer, totalFee) # l, ok, s'))))"

definition ton_updatePriceFeed where
  "ton_updatePriceFeed getUpdateFee sendUpdate (priceIds :: string list) updateData s =
     (if priceIds = [] then ([], True, s)
      else (case updateData of
        Inl (_ :: js_error) \<Rightarrow> ([], False, s)
      | Inr priceFeedUpdateData \<Rightarrow> ton_push_all (length priceIds) getUpdateFee sendUpdate priceFeedUpdateData s))"

section \<open>Fuel\<close>

text \<open>One call for all update data. \<open>arrayify\<close> of the chain's SDK is outside the guarded part, so its errors are thrown. The
  result is the transaction id, if the call succeeded.\<close>

definition fuel_updatePriceFeed ::
  "(string \<Rightarrow> bytes result) \<Rightarrow> (bytes list \<Rightarrow> 'fee result) \<Rightarrow> (bytes list \<Rightarrow> 'fee \<Rightarrow> string result) \<Rightarrow> string list \<Rightarrow> string list result \<Rightarrow>
   string option result" where
  "fuel_updatePriceFeed arrayify fee_of update_price_feeds priceIds hermes =
     (if priceIds = [] then Inr None
      else (case hermes of
        Inl _ \<Rightarrow> Inr None
      | Inr priceFeedUpdateData \<Rightarrow>
          bindR (mapR arrayify priceFeedUpdateData) (\<lambda>updateData.
            Inr (try_undefined (bindR (fee_of updateData) (update_price_feeds updateData))))))"

definition fuel_getOnChainPriceInfo :: "(string \<Rightarrow> (string \<times> string \<times> int) result) \<Rightarrow> string \<Rightarrow> (string \<times> string \<times> js_number) option" where
  "fuel_getOnChainPriceInfo price_unsafe priceId =
     (case price_unsafe (addLeading0x priceId) of
        Inl _ \<Rightarrow> None
      | Inr (price, confidence, publish_time) \<Rightarrow> Some (price, confidence, tai64ToUnix publish_time))"

section \<open>Lemmas\<close>

lemma check_receipts_foldl:
  "foldl (\<lambda>(is_success, failureMessages) receipt.
     case receipt of Inl m \<Rightarrow> (False, failureMessages @ [m]) | Inr _ \<Rightarrow> (is_success, failureMessages)) (b, ms) receipts =
   (b \<and> list_all (\<lambda>r. r = Inr ()) receipts, ms @ List.map_filter (\<lambda>r. case r of Inl m \<Rightarrow> Some m | Inr _ \<Rightarrow> None) receipts)"
  by (induction receipts arbitrary: b ms) (auto simp: List.map_filter_simps split: sum.splits)

lemma check_receipts_eq:
  "check_receipts receipts = (list_all (\<lambda>r. r = Inr ()) receipts, List.map_filter (\<lambda>r. case r of Inl m \<Rightarrow> Some m | Inr _ \<Rightarrow> None) receipts)"
  unfolding check_receipts_def check_receipts_foldl by simp

lemma near_push_all_data: "map fst (fst (near_push_all fee call data s)) = data"
  by (induction data arbitrary: s) (simp_all add: case_prod_beta split: sum.split)

lemma near_push_all_called:
  "list_all (\<lambda>(d, deposit, l). deposit = None \<longleftrightarrow> l = Fee_failed) (fst (near_push_all fee call data s))"
  by (induction data arbitrary: s) (simp_all add: case_prod_beta split: sum.split)

lemma ton_push_all_prefix:
  "ton_push_all n fee send data s = (sent, ok, s') \<Longrightarrow>
   map fst sent = map from_base64 (take (length sent) data) \<and> (ok \<longleftrightarrow> length sent = length data)"
proof (induction data arbitrary: s sent)
  case (Cons d data)
  show ?case
  proof (cases sent)
    case Nil
    then show ?thesis using Cons.prems by (auto simp: Let_def split: prod.splits sum.splits)
  next
    case (Cons x sent')
    then obtain s2 where "ton_push_all n fee send data s2 = (sent', ok, s')" "fst x = from_base64 d"
      using Cons.prems by (auto simp: Let_def split: prod.splits sum.splits)
    with Cons.IH Cons show ?thesis by force
  qed
qed simp

section \<open>Properties\<close>

text \<open>C32. Aptos sequence numbers: in every run, at most one push fetches the account, and between two resets the pushes get
  consecutive numbers: a number that comes after \<open>a\<close> and \<open>k\<close> more is \<open>a + k + 1\<close>, so none is used twice.\<close>

theorem aptos_numbers_consecutive:
  assumes "aptos_run new_aptos ls s"
  shows "length (filter (\<lambda>p. p = Fetching) (pushes s)) \<le> 1 \<and>
    (\<forall>pre a mid b post. ls = pre @ Assigned a # mid @ Assigned b # post \<longrightarrow> Reset \<notin> set mid \<longrightarrow>
       b = a + int (length (filter is_assigned mid)) + 1)"
proof -
  have inv: "aptos_inv new_aptos" by (simp add: aptos_inv_def new_aptos_def)
  have "b = a + int (length (filter is_assigned mid)) + 1"
    if "ls = pre @ Assigned a # mid @ Assigned b # post" "Reset \<notin> set mid" for pre a mid b post
    using numbers_so_far [OF assms inv that] next_number [OF assms inv, of "pre @ Assigned a # mid" b post] that(1) by simp
  then show ?thesis
    using aptos_run_inv [OF assms inv] by (simp add: aptos_inv_def fetches_def)
qed

lemma aptos_numbers_consecutive_witness:
  "\<exists>s. aptos_run new_aptos [Quiet, Assigned 7, Assigned 8, Quiet, Assigned 9] s \<and> (9 :: int) = 7 + int (length (filter is_assigned [Assigned 8, Quiet])) + 1"
proof -
  let ?s1 = "\<lparr> lastSequenceNumber = None, sequenceNumberLocked = True, pushes = [Fetching] \<rparr>"
  let ?s2 = "\<lparr> lastSequenceNumber = Some 7, sequenceNumberLocked = False, pushes = [Numbered 7] \<rparr>"
  let ?s3 = "\<lparr> lastSequenceNumber = Some 8, sequenceNumberLocked = False, pushes = [Numbered 7, Numbered 8] \<rparr>"
  let ?s4 = "\<lparr> lastSequenceNumber = Some 8, sequenceNumberLocked = False, pushes = [Submitted 7, Numbered 8] \<rparr>"
  let ?s5 = "\<lparr> lastSequenceNumber = Some 9, sequenceNumberLocked = False, pushes = [Submitted 7, Numbered 8, Numbered 9] \<rparr>"
  have "aptos_step new_aptos Quiet ?s1"
    using aptos_step.push [of "[''a'']" "[1]" "Inr []" new_aptos "Inr ()" ?s1]
    by (simp add: aptos_updatePriceFeed_def tryGetNextSequenceNumber_def new_aptos_def push_label_def)
  moreover have "aptos_step ?s1 (Assigned 7) ?s2"
    using aptos_step.fetched [of 0 ?s1 "Inr 7"] by (simp add: account_fetched_def)
  moreover have "aptos_step ?s2 (Assigned 8) ?s3"
    using aptos_step.push [of "[''a'']" "[1]" "Inr []" ?s2 "Inr ()" ?s3]
    by (simp add: aptos_updatePriceFeed_def tryGetNextSequenceNumber_def push_label_def)
  moreover have "aptos_step ?s3 Quiet ?s4" using aptos_step.submitted [of 0 ?s3 7 Broadcast] by simp
  moreover have "aptos_step ?s4 (Assigned 9) ?s5"
    using aptos_step.push [of "[''a'']" "[1]" "Inr []" ?s4 "Inr ()" ?s5]
    by (simp add: aptos_updatePriceFeed_def tryGetNextSequenceNumber_def push_label_def)
  ultimately have "aptos_run new_aptos ((((([] @ [Quiet]) @ [Assigned 7]) @ [Assigned 8]) @ [Quiet]) @ [Assigned 9]) ?s5"
    by - (rule aptos_run.more | rule aptos_run.none | assumption)+
  then have run: "aptos_run new_aptos [Quiet, Assigned 7, Assigned 8, Quiet, Assigned 9] ?s5" by simp
  from aptos_numbers_consecutive [OF run, THEN conjunct2, rule_format, of "[Quiet]" 7 "[Assigned 8, Quiet]" 9 "[]"]
  show ?thesis using run by auto
qed

text \<open>The pusher of Injective has no such lock: two pushes that load the account at the same time can sign transactions with
  the same sequence number, here 5.\<close>

theorem injective_number_used_twice:
  "let start = signAndBroadcastMsg (signAndBroadcastMsg \<lparr> inj_account = None, inj_pushes = [] \<rparr>);
       first = signed 0 5 (simulated 0 (account_loaded 0 (Some 5) start));
       second = signed 1 5 (simulated 1 (account_loaded 1 (Some 5) first))
   in inj_pushes second = [Broadcasting 5, Broadcasting 5] \<and> inj_pushes (simulated 1 (account_loaded 1 (Some 5) first)) ! 1 = Signing 5"
  by (simp add: signAndBroadcastMsg_def account_loaded_def simulated_def signed_def set_push_def Let_def)

text \<open>A push of NEAR tries every update datum, whatever happens to the others, and one of TON sends a prefix of them: all of
  them exactly when no request failed.\<close>

theorem near_tries_all_ton_a_prefix:
  "map fst (fst (near_push_all fee call data s)) = data \<and>
   list_all (\<lambda>(d, deposit, l). deposit = None \<longleftrightarrow> l = Fee_failed) (fst (near_push_all fee call data s)) \<and>
   (let (sent, ok, s') = ton_push_all n fee' send data s0 in
      map fst sent = map from_base64 (take (length sent) data) \<and> ok = (length sent = length data))"
proof -
  obtain sent ok s' where run: "ton_push_all n fee' send data s0 = (sent, ok, s')" by (metis prod_cases3)
  then show ?thesis using ton_push_all_prefix [OF run] by (simp add: near_push_all_data near_push_all_called)
qed

definition is_hex :: "string \<Rightarrow> bool" where
  "is_hex d = list_all (\<lambda>c. unhex_char c \<noteq> None) d"

lemma base64_not_hex:
  assumes "isAccumulatorUpdateData b"
  shows "\<not> is_hex (to_base64 b)"
proof -
  have "to_hex (take 4 b) = to_hex [0x50, 0x4e, 0x41, 0x55]"
    using assms take_to_hex [of 4 b]
    by (simp add: isAccumulatorUpdateData_def ACCUMULATOR_MAGIC_def to_hex_def hex_byte_def hex_char_def hex_digits_def)
  then have "take 4 b = [0x50, 0x4e, 0x41, 0x55]" by (simp only: to_hex_inj)
  then obtain rest where "b = 0x50 # 0x4e # 0x41 # 0x55 # rest" by (metis append_Cons append_Nil append_take_drop_id)
  then show ?thesis by (simp add: is_hex_def base64_char_def unhex_char_def)
qed

lemma near_all_rejected:
  assumes "\<And>d s. \<not> is_hex d \<Longrightarrow> \<exists>e s'. fee d s = (Inl e, s')"
  shows "list_all (\<lambda>d. \<not> is_hex d) data \<Longrightarrow> fst (near_push_all fee call data s) = map (\<lambda>d. (d, None, Fee_failed)) data"
proof (induction data arbitrary: s)
  case (Cons d data)
  then obtain e s' where "fee d s = (Inl e, s')" using assms by force
  then show ?case using Cons by (simp add: case_prod_beta)
qed simp

text \<open>C33. The updates of NEAR: the pusher asks Hermes for base64 and hands the strings to the contract unchanged, but the
  contract reads hexadecimal (\<open>get_update_fee_estimate\<close> of \<open>target_chains/near/receiver\<close> panics on any other character). Every
  accumulator message in base64 starts with the letter U, so no update is ever pushed: each of them fails at its fee.\<close>

theorem near_updates_never_pushed:
  assumes "\<And>d s. \<not> is_hex d \<Longrightarrow> \<exists>e s'. fee d s = (Inl e, s')"
    and "list_all isAccumulatorUpdateData messages" "ids \<noteq> []" "length ids = length times'"
  shows "\<exists>s'. near_updatePriceFeed fee call ids times' (Inr (map to_base64 messages)) s =
    Inr (map (\<lambda>b. (to_base64 b, None, Fee_failed)) messages, s')"
proof -
  have "list_all (\<lambda>d. \<not> is_hex d) (map to_base64 messages)"
    using assms(2) by (auto simp: list_all_iff base64_not_hex)
  from near_all_rejected [where fee = fee, OF assms(1) this, of call s] show ?thesis
    using assms(3,4) by (cases "near_push_all fee call (map to_base64 messages) s") (simp add: near_updatePriceFeed_def comp_def)
qed

lemma near_updates_never_pushed_witness:
  "\<exists>s'. near_updatePriceFeed (\<lambda>d s. (if is_hex d then Inr (1 :: nat) else Inl RangeError, s)) (\<lambda>d f s. (Inr [Inr ()], Suc s)) [''ab''] [7]
      (Inr [to_base64 [0x50, 0x4e, 0x41, 0x55, 1, 0, 0, 0]]) 0 =
    Inr ([(to_base64 [0x50, 0x4e, 0x41, 0x55, 1, 0, 0, 0], None, Fee_failed)], s')"
  using near_updates_never_pushed [of "\<lambda>d s. (if is_hex d then Inr (1 :: nat) else Inl RangeError, s)"
      "[[0x50, 0x4e, 0x41, 0x55, 1, 0, 0, 0]]" "[''ab'']" "[7]" "\<lambda>d f s. (Inr [Inr ()], Suc s)" 0]
  by (simp add: isAccumulatorUpdateData_def ACCUMULATOR_MAGIC_def to_hex_def hex_byte_def hex_char_def hex_digits_def
      MAJOR_VERSION_def MINOR_VERSION_def)

end
