(* ===== verification/Lazer_Client.thy ===== *)
theory Lazer_Client
  imports Price_Sdk Js_Number
begin

text \<open>
  The Lazer SDK, \<open>lazer/sdk/js/src\<close>: the parser of binary updates in \<open>client.ts\<close> and the pool of redundant
  sockets in \<open>socket/websocket-pool.ts\<close>.

  \<open>JSON.parse\<close> is an argument of the functions that call it. The cache with expiry is the package
  \<open>@isaacs/ttlcache\<close>: the record \<open>ttl_lib\<close> holds its operations, with the current time as an argument,
  and the locale \<open>ttl_cache\<close> what its documentation says about them. A socket of the pool is given
  by what the pool reads of it and by the requests it has been handed.
\<close>

section \<open>Binary updates\<close>

definition BINARY_UPDATE_FORMAT_MAGIC :: nat where
  "BINARY_UPDATE_FORMAT_MAGIC = 1937213467"

definition PARSED_FORMAT_MAGIC :: nat where
  "PARSED_FORMAT_MAGIC = 2584795844"

definition EVM_FORMAT_MAGIC :: nat where
  "EVM_FORMAT_MAGIC = 706910618"

definition SOLANA_FORMAT_MAGIC_BE :: nat where
  "SOLANA_FORMAT_MAGIC_BE = 3103857282"

record 'p BinaryResponse =
  b_subscriptionId :: js_number
  b_evm :: "bytes option"
  b_solana :: "bytes option"
  b_parsed :: "'p option"

function parse_payloads ::
  "(bytes \<Rightarrow> 'p result) \<Rightarrow> bytes \<Rightarrow> nat \<Rightarrow> 'p BinaryResponse \<Rightarrow> 'p BinaryResponse result" where
  "parse_payloads JSON_parse data pos val =
     (if pos < length data
      then bindR (readUInt16BE data pos) (\<lambda>len.
           bindR (readUInt32BE data (pos + 2)) (\<lambda>magic.
           bindR (if magic = EVM_FORMAT_MAGIC
                  then Inr (val\<lparr> b_evm := Some (subarray data (pos + 2) (pos + 2 + len)) \<rparr>)
                  else if magic = SOLANA_FORMAT_MAGIC_BE
                  then Inr (val\<lparr> b_solana := Some (subarray data (pos + 2) (pos + 2 + len)) \<rparr>)
                  else if magic = PARSED_FORMAT_MAGIC
                  then bindR (JSON_parse (subarray data (pos + 2 + 4) (pos + 2 + len)))
                         (\<lambda>p. Inr (val\<lparr> b_parsed := Some p \<rparr>))
                  else Inl (JsError ''unknown magic''))
             (\<lambda>v. parse_payloads JSON_parse data (pos + 2 + len) v)))
      else Inr val)"
  by pat_completeness auto

termination
  by (relation "measure (\<lambda>(_, data, pos, _). length data - pos)") auto

declare parse_payloads.simps [simp del]

definition parseBinary :: "(bytes \<Rightarrow> 'p result) \<Rightarrow> bytes \<Rightarrow> 'p BinaryResponse result" where
  "parseBinary JSON_parse data =
     bindR (readUInt32BE data 0) (\<lambda>magic.
     if magic \<noteq> BINARY_UPDATE_FORMAT_MAGIC then Inl (JsError ''binary update format magic mismatch'')
     else bindR (readIntBE 8 data 4) (\<lambda>subscriptionId.
          parse_payloads JSON_parse data 12
            \<lparr> b_subscriptionId = rnd (of_int subscriptionId), b_evm = None, b_solana = None, b_parsed = None \<rparr>))"

text \<open>The wire format: a magic number, the subscription and any number of payloads, each with its length
  and its own magic number.\<close>

datatype payload = Evm bytes | Solana bytes | Parsed bytes

fun payload_magic :: "payload \<Rightarrow> nat" where
  "payload_magic (Evm _) = EVM_FORMAT_MAGIC"
| "payload_magic (Solana _) = SOLANA_FORMAT_MAGIC_BE"
| "payload_magic (Parsed _) = PARSED_FORMAT_MAGIC"

fun lazer_payload_bytes :: "payload \<Rightarrow> bytes" where
  "lazer_payload_bytes (Evm b) = b"
| "lazer_payload_bytes (Solana b) = b"
| "lazer_payload_bytes (Parsed b) = b"

definition payload_body :: "payload \<Rightarrow> bytes" where
  "payload_body p = be_bytes 4 (payload_magic p) @ lazer_payload_bytes p"

definition payload_wire :: "payload \<Rightarrow> bytes" where
  "payload_wire p = be_bytes 2 (length (payload_body p)) @ payload_body p"

definition update_wire :: "nat \<Rightarrow> payload list \<Rightarrow> bytes" where
  "update_wire subscriptionId ps =
     be_bytes 4 BINARY_UPDATE_FORMAT_MAGIC @ be_bytes 8 subscriptionId @ concat (map payload_wire ps)"

fun add_payloads :: "(bytes \<Rightarrow> 'p result) \<Rightarrow> payload list \<Rightarrow> 'p BinaryResponse \<Rightarrow> 'p BinaryResponse result" where
  "add_payloads J [] v = Inr v"
| "add_payloads J (Evm b # ps) v = add_payloads J ps (v\<lparr> b_evm := Some (payload_body (Evm b)) \<rparr>)"
| "add_payloads J (Solana b # ps) v = add_payloads J ps (v\<lparr> b_solana := Some (payload_body (Solana b)) \<rparr>)"
| "add_payloads J (Parsed b # ps) v = bindR (J b) (\<lambda>x. add_payloads J ps (v\<lparr> b_parsed := Some x \<rparr>))"

lemma length_payload_body: "length (payload_body p) = 4 + length (lazer_payload_bytes p)"
  by (simp add: payload_body_def)

lemma payload_magic_less: "payload_magic p < 256 ^ 4"
  by (cases p) (simp_all add: EVM_FORMAT_MAGIC_def SOLANA_FORMAT_MAGIC_BE_def PARSED_FORMAT_MAGIC_def)

lemma magics_distinct [simp]:
  "EVM_FORMAT_MAGIC \<noteq> SOLANA_FORMAT_MAGIC_BE" "EVM_FORMAT_MAGIC \<noteq> PARSED_FORMAT_MAGIC"
  "SOLANA_FORMAT_MAGIC_BE \<noteq> PARSED_FORMAT_MAGIC" "SOLANA_FORMAT_MAGIC_BE \<noteq> EVM_FORMAT_MAGIC"
  "PARSED_FORMAT_MAGIC \<noteq> EVM_FORMAT_MAGIC" "PARSED_FORMAT_MAGIC \<noteq> SOLANA_FORMAT_MAGIC_BE"
  by (simp_all add: EVM_FORMAT_MAGIC_def SOLANA_FORMAT_MAGIC_BE_def PARSED_FORMAT_MAGIC_def)

lemma parse_payloads_wire:
  "list_all (\<lambda>p. length (payload_body p) < 65536) ps \<Longrightarrow>
   parse_payloads J (pre @ concat (map payload_wire ps)) (length pre) v = add_payloads J ps v"
proof (induction ps arbitrary: pre v)
  case Nil
  then show ?case by (simp add: parse_payloads.simps)
next
  case (Cons p ps)
  let ?n = "length (payload_body p)" and ?rest = "concat (map payload_wire ps)"
  let ?data = "pre @ concat (map payload_wire (p # ps))"
  have data: "?data = pre @ be_bytes 2 ?n @ payload_body p @ ?rest"
    by (simp add: payload_wire_def)
  have len: "readUInt16BE ?data (length pre) = Inr ?n"
    using readUIntBE_at [of "be_bytes 2 ?n" 2 pre "payload_body p @ ?rest"] Cons.prems unfolding data by simp
  have magic: "readUInt32BE ?data (length pre + 2) = Inr (payload_magic p)"
    using readUIntBE_at' [of "be_bytes 4 (payload_magic p)" 4 "length pre + 2" "pre @ be_bytes 2 ?n"
        "lazer_payload_bytes p @ ?rest"] payload_magic_less [of p]
    unfolding data by (simp add: payload_body_def)
  have body: "subarray ?data (length pre + 2) (length pre + 2 + ?n) = payload_body p"
    using subarray_mid' [of "length pre + 2" "pre @ be_bytes 2 ?n" "length pre + 2 + ?n" "payload_body p" ?rest]
    unfolding data by simp
  have inner: "subarray ?data (length pre + 2 + 4) (length pre + 2 + ?n) = lazer_payload_bytes p"
    using subarray_mid' [of "length pre + 2 + 4" "pre @ be_bytes 2 ?n @ be_bytes 4 (payload_magic p)"
        "length pre + 2 + ?n" "lazer_payload_bytes p" ?rest]
    unfolding data by (simp add: payload_body_def)
  have IH: "parse_payloads J ?data (length pre + 2 + ?n) w = add_payloads J ps w" for w
    using Cons.IH [of "pre @ be_bytes 2 ?n @ payload_body p" w] Cons.prems
    unfolding data by (simp add: add.assoc)
  then have IH': "parse_payloads J ?data (length pre + 2 + ?n) = add_payloads J ps" by (intro ext)
  have pos: "length pre < length ?data" unfolding data by simp
  have "parse_payloads J ?data (length pre) v =
     bindR (if payload_magic p = EVM_FORMAT_MAGIC then Inr (v\<lparr> b_evm := Some (payload_body p) \<rparr>)
            else if payload_magic p = SOLANA_FORMAT_MAGIC_BE then Inr (v\<lparr> b_solana := Some (payload_body p) \<rparr>)
            else if payload_magic p = PARSED_FORMAT_MAGIC
            then bindR (J (lazer_payload_bytes p)) (\<lambda>x. Inr (v\<lparr> b_parsed := Some x \<rparr>))
            else Inl (JsError ''unknown magic''))
       (add_payloads J ps)"
    unfolding parse_payloads.simps [of J ?data "length pre"]
    by (simp only: pos if_True len magic bindR.simps body inner IH')
  then show ?case by (cases p) (simp_all add: bindR_assoc)
qed

section \<open>The pool\<close>

datatype ws_data = Text string | Binary bytes

definition cacheKey :: "ws_data \<Rightarrow> string" where
  "cacheKey data = (case data of Text s \<Rightarrow> s | Binary b \<Rightarrow> to_hex b)"

datatype Request =
    Lazer_Subscribe (req_id: int) (req_params: json)
  | Lazer_Unsubscribe (req_id: int)

record 'c ttl_lib =
  ttl_has :: "'c \<Rightarrow> int \<Rightarrow> string \<Rightarrow> bool"
  ttl_set :: "'c \<Rightarrow> int \<Rightarrow> string \<Rightarrow> 'c"
  ttl_new :: 'c

definition CACHE_TTL :: int where
  "CACHE_TTL = 1000 * 10"

record lazer_socket =
  ls_connected :: bool
  ls_reconnecting :: bool
  ls_userClosed :: bool
  ls_sent :: "Request list"

record ('c, 'h) WebSocketPool =
  wp_rwsPool :: "lazer_socket list"
  wp_cache :: 'c
  wp_subscriptions :: "(int \<times> Request) list"
  wp_messageListeners :: "'h list"
  wp_downListeners :: "'h list"
  wp_wasAllDown :: bool

definition new_WebSocketPool :: "'c ttl_lib \<Rightarrow> ('c, 'h) WebSocketPool" where
  "new_WebSocketPool C =
     \<lparr> wp_rwsPool = [], wp_cache = ttl_new C, wp_subscriptions = [], wp_messageListeners = [], wp_downListeners = [],
       wp_wasAllDown = True \<rparr>"

text \<open>\<open>handleErrorMessages\<close>; the text of the errors keeps only the server's part.\<close>

definition handleErrorMessages :: "(string \<Rightarrow> json result) \<Rightarrow> string \<Rightarrow> unit result" where
  "handleErrorMessages JSON_parse data =
     bindR (JSON_parse data) (\<lambda>message.
       if message = JsNull then Inl TypeError
       else if field message ''type'' = JsString ''subscriptionError'' then Inl (JsError (to_str (field message ''error'')))
       else if field message ''type'' = JsString ''error'' then Inl (JsError (to_str (field message ''error'')))
       else Inr ())"

datatype 'h dedupe_outcome =
    Duplicate
  | MessageError js_error
  | Forwarded "'h list"

definition dedupeHandler ::
  "'c ttl_lib \<Rightarrow> (string \<Rightarrow> json result) \<Rightarrow> int \<Rightarrow> ws_data \<Rightarrow> ('c, 'h) WebSocketPool \<Rightarrow>
   ('c, 'h) WebSocketPool \<times> 'h dedupe_outcome" where
  "dedupeHandler C JSON_parse now data p =
     (if ttl_has C (wp_cache p) now (cacheKey data) then (p, Duplicate)
      else let p' = p\<lparr> wp_cache := ttl_set C (wp_cache p) now (cacheKey data) \<rparr> in
           case (case data of Text s \<Rightarrow> handleErrorMessages JSON_parse s | Binary _ \<Rightarrow> Inr ()) of
             Inl e \<Rightarrow> (p', MessageError e)
           | Inr _ \<Rightarrow> (p', Forwarded (wp_messageListeners p')))"

definition sendRequest :: "Request \<Rightarrow> ('c, 'h) WebSocketPool \<Rightarrow> ('c, 'h) WebSocketPool" where
  "sendRequest request p = p\<lparr> wp_rwsPool := map (\<lambda>r. r\<lparr> ls_sent := ls_sent r @ [request] \<rparr>) (wp_rwsPool p) \<rparr>"

definition addSubscription :: "Request \<Rightarrow> ('c, 'h) WebSocketPool \<Rightarrow> ('c, 'h) WebSocketPool result" where
  "addSubscription request p =
     (case request of
        Lazer_Unsubscribe _ \<Rightarrow> Inl (JsError ''Request must be a subscribe request'')
      | Lazer_Subscribe i _ \<Rightarrow>
          Inr (sendRequest request (p\<lparr> wp_subscriptions := AList.update i request (wp_subscriptions p) \<rparr>)))"

definition removeSubscription :: "int \<Rightarrow> ('c, 'h) WebSocketPool \<Rightarrow> ('c, 'h) WebSocketPool" where
  "removeSubscription subscriptionId p =
     sendRequest (Lazer_Unsubscribe subscriptionId)
       (p\<lparr> wp_subscriptions := AList.delete subscriptionId (wp_subscriptions p) \<rparr>)"

text \<open>The reconnect callback of the \<open>k\<close>-th socket: a new connection, on which nothing was sent yet.\<close>

definition pool_onReconnect :: "nat \<Rightarrow> ('c, 'h) WebSocketPool \<Rightarrow> ('c, 'h) WebSocketPool" where
  "pool_onReconnect k p =
     (if k < length (wp_rwsPool p) \<and> \<not> ls_userClosed (wp_rwsPool p ! k)
      then p\<lparr> wp_rwsPool := (wp_rwsPool p)[k := (wp_rwsPool p ! k)\<lparr> ls_sent := map snd (wp_subscriptions p) \<rparr>] \<rparr>
      else p)"

definition areAllConnectionsDown :: "('c, 'h) WebSocketPool \<Rightarrow> bool" where
  "areAllConnectionsDown p = list_all (\<lambda>ws. \<not> ls_connected ws \<or> ls_reconnecting ws) (wp_rwsPool p)"

text \<open>The listeners that are notified are the second component.\<close>

definition checkConnectionStates :: "('c, 'h) WebSocketPool \<Rightarrow> ('c, 'h) WebSocketPool \<times> 'h list" where
  "checkConnectionStates p =
     (let allDown = areAllConnectionsDown p;
          r = (if allDown \<and> \<not> wp_wasAllDown p then (p\<lparr> wp_wasAllDown := True \<rparr>, wp_downListeners p) else (p, []))
      in if \<not> allDown \<and> wp_wasAllDown (fst r) then ((fst r)\<lparr> wp_wasAllDown := False \<rparr>, snd r) else r)"

definition pool_shutdown :: "('c, 'h) WebSocketPool \<Rightarrow> ('c, 'h) WebSocketPool" where
  "pool_shutdown p =
     p\<lparr> wp_rwsPool := [], wp_subscriptions := [], wp_messageListeners := [], wp_downListeners := [] \<rparr>"

section \<open>Deduplication\<close>

locale ttl_cache =
  fixes C :: "'c ttl_lib"
  assumes has_set: "now \<le> t \<Longrightarrow> t < now + CACHE_TTL \<Longrightarrow> ttl_has C (ttl_set C c now k) t k"
    and has_set_other: "k \<noteq> k' \<Longrightarrow> ttl_has C (ttl_set C c now k) t k' = ttl_has C c t k'"
    and has_new: "\<not> ttl_has C (ttl_new C) t k"
begin

text \<open>A key that is in the cache over a whole window stays there, whatever is handled within the window.\<close>

definition covered :: "('c, 'h) WebSocketPool \<Rightarrow> int \<Rightarrow> string \<Rightarrow> bool" where
  "covered p t k \<longleftrightarrow> (\<forall>u. t \<le> u \<longrightarrow> u < t + CACHE_TTL \<longrightarrow> ttl_has C (wp_cache p) u k)"

lemma covered_handler:
  assumes "covered p t k" "t \<le> u" "u < t + CACHE_TTL"
  shows "covered (fst (dedupeHandler C J u d p)) t k"
proof (cases "cacheKey d = k")
  case True
  then show ?thesis using assms by (simp add: covered_def dedupeHandler_def)
next
  case False
  then show ?thesis using assms(1)
    by (auto simp: covered_def dedupeHandler_def has_set_other Let_def split: sum.splits)
qed

lemma covered_handlers:
  "covered p t k \<Longrightarrow> list_all (\<lambda>e. t \<le> fst e \<and> fst e < t + CACHE_TTL) es \<Longrightarrow>
   covered (fold (\<lambda>e q. fst (dedupeHandler C J (fst e) (snd e) q)) es p) t k"
  by (induction es arbitrary: p) (simp_all add: covered_handler)

lemma handled_covered: "snd (dedupeHandler C J t d p) \<noteq> Duplicate \<Longrightarrow> covered (fst (dedupeHandler C J t d p)) t (cacheKey d)"
  by (auto simp: covered_def dedupeHandler_def has_set Let_def split: sum.splits if_splits)

lemma not_seen:
  "\<not> ttl_has C (wp_cache p) t k \<Longrightarrow> k \<notin> cacheKey ` snd ` set es \<Longrightarrow>
   \<not> ttl_has C (wp_cache (fold (\<lambda>e q. fst (dedupeHandler C J (fst e) (snd e) q)) es p)) t k"
proof (induction es arbitrary: p)
  case (Cons e es)
  then have "\<not> ttl_has C (wp_cache (fst (dedupeHandler C J (fst e) (snd e) p))) t k"
    by (auto simp: dedupeHandler_def has_set_other Let_def split: sum.splits)
  with Cons show ?case by simp
qed simp

end

section \<open>The documented cache\<close>

definition doc_ttl :: "(string \<rightharpoonup> int) ttl_lib" where
  "doc_ttl = \<lparr> ttl_has = (\<lambda>c t k. case c k of None \<Rightarrow> False | Some u \<Rightarrow> t < u + CACHE_TTL),
     ttl_set = (\<lambda>c t k. c(k \<mapsto> t)), ttl_new = Map.empty \<rparr>"

interpretation doc_ttl: ttl_cache doc_ttl
  by unfold_locales (auto simp: doc_ttl_def)

section \<open>Properties\<close>

text \<open>C36. The parser of binary updates inverts the wire format: for every subscription identifier below
  \<open>2\<^sup>6\<^sup>3\<close> and every sequence of payloads that fit their 16-bit length, it returns the identifier as a
  JavaScript number and the last payload of each kind, the parsed one through \<open>JSON.parse\<close>, whose error
  is the parser's error.\<close>

theorem parseBinary_wire:
  assumes "subscriptionId < 2 ^ 63" and "list_all (\<lambda>p. length (lazer_payload_bytes p) + 4 < 65536) ps"
  shows "parseBinary J (update_wire subscriptionId ps) =
    add_payloads J ps \<lparr> b_subscriptionId = rnd (of_nat subscriptionId), b_evm = None, b_solana = None, b_parsed = None \<rparr>"
proof -
  let ?pre = "be_bytes 4 BINARY_UPDATE_FORMAT_MAGIC @ be_bytes 8 subscriptionId"
  have wire: "update_wire subscriptionId ps = ?pre @ concat (map payload_wire ps)"
    by (simp add: update_wire_def)
  have magic: "readUInt32BE (update_wire subscriptionId ps) 0 = Inr BINARY_UPDATE_FORMAT_MAGIC"
    using readUIntBE_at [of "be_bytes 4 BINARY_UPDATE_FORMAT_MAGIC" 4 "[]"]
    by (simp add: update_wire_def BINARY_UPDATE_FORMAT_MAGIC_def)
  have sid: "readIntBE 8 (update_wire subscriptionId ps) 4 = Inr (int subscriptionId)"
    using readUIntBE_at' [of "be_bytes 8 subscriptionId" 8 4 "be_bytes 4 BINARY_UPDATE_FORMAT_MAGIC"] assms(1)
    by (simp add: update_wire_def readIntBE_def to_signed_def)
  have "parse_payloads J (update_wire subscriptionId ps) 12 v = add_payloads J ps v" for v
    using parse_payloads_wire [of ps J ?pre v] assms(2)
    by (simp add: wire length_payload_body add.commute)
  with magic sid show ?thesis by (simp add: parseBinary_def)
qed

theorem parseBinary_wire_witness:
  "parseBinary (\<lambda>b. Inr (length b)) (update_wire 7 [Evm [1], Parsed [2, 3]]) =
     Inr \<lparr> b_subscriptionId = rnd 7, b_evm = Some (be_bytes 4 EVM_FORMAT_MAGIC @ [1]), b_solana = None,
           b_parsed = Some 2 \<rparr>"
  using parseBinary_wire [of 7 "[Evm [1], Parsed [2, 3]]" "\<lambda>b. Inr (length b)"]
  by (simp add: payload_body_def)

text \<open>Messages are forwarded once: when the pool has handled a message, every message with the same content
  that arrives on any of its sockets within the following ten seconds is dropped, whatever else
  arrives in between; and a message whose content has not been received before is never dropped.\<close>

theorem dedupe_once:
  fixes p :: "('c, 'h) WebSocketPool"
  assumes "ttl_cache C" and "snd (dedupeHandler C J t d p) \<noteq> Duplicate"
    and "list_all (\<lambda>e. t \<le> fst e \<and> fst e < t + CACHE_TTL) es"
    and "cacheKey d' = cacheKey d" and "t \<le> u" and "u < t + CACHE_TTL"
    and "cacheKey x \<notin> cacheKey ` snd ` set xs"
  shows "snd (dedupeHandler C J u d'
           (fold (\<lambda>e q. fst (dedupeHandler C J (fst e) (snd e) q)) es (fst (dedupeHandler C J t d p)))) = Duplicate \<and>
         snd (dedupeHandler C J v x
           (fold (\<lambda>e q. fst (dedupeHandler C J (fst e) (snd e) q)) xs (new_WebSocketPool C :: ('c, 'h) WebSocketPool))) \<noteq> Duplicate"
proof
  have "ttl_cache.covered C (fold (\<lambda>e q. fst (dedupeHandler C J (fst e) (snd e) q)) es (fst (dedupeHandler C J t d p))) t
      (cacheKey d)"
    by (rule ttl_cache.covered_handlers [OF assms(1) ttl_cache.handled_covered [OF assms(1,2)] assms(3)])
  then show "snd (dedupeHandler C J u d'
           (fold (\<lambda>e q. fst (dedupeHandler C J (fst e) (snd e) q)) es (fst (dedupeHandler C J t d p)))) = Duplicate"
    using assms(4-6) by (simp add: ttl_cache.covered_def [OF assms(1)] dedupeHandler_def)
  have "\<not> ttl_has C (wp_cache (new_WebSocketPool C :: ('c, 'h) WebSocketPool)) v (cacheKey x)"
    using ttl_cache.has_new [OF assms(1)] by (simp add: new_WebSocketPool_def)
  from ttl_cache.not_seen [OF assms(1) this assms(7), of J]
  show "snd (dedupeHandler C J v x
           (fold (\<lambda>e q. fst (dedupeHandler C J (fst e) (snd e) q)) xs (new_WebSocketPool C :: ('c, 'h) WebSocketPool))) \<noteq> Duplicate"
    by (simp add: dedupeHandler_def [of C J v x] Let_def split: sum.splits)
qed

theorem dedupe_once_witness:
  "snd (dedupeHandler doc_ttl (\<lambda>_. Inr JsNull) 5000 (Binary [1])
     (fold (\<lambda>e q. fst (dedupeHandler doc_ttl (\<lambda>_. Inr JsNull) (fst e) (snd e) q)) [(1, Binary [2])]
       (fst (dedupeHandler doc_ttl (\<lambda>_. Inr JsNull) 0 (Binary [1]) (new_WebSocketPool doc_ttl))))) = Duplicate"
  by (rule conjunct1 [OF dedupe_once [OF doc_ttl.ttl_cache_axioms, where x = "Binary [3]" and xs = "[]"]])
    (simp_all add: CACHE_TTL_def dedupeHandler_def new_WebSocketPool_def doc_ttl_def)

end
