(* ===== verification/Lazer_Socket.thy ===== *)
theory Lazer_Socket
  imports Js_Prelude
begin

text \<open>
  \<open>lazer/sdk/js/src/socket/resilient-websocket.ts\<close>: the reconnecting socket of the Lazer client, with its
  connection promises, as a state machine.

  Sockets are numbered in the order of their creation; \<open>startWebSocket\<close> makes a promise, a socket and a connection
  timer at once, so they share the number. \<open>connectionPromise\<close>, \<open>resolveConnection\<close> and \<open>rejectConnection\<close> are
  assigned and cleared together and are one field, the number of the promise. An async function that waits is an
  entry of the state: for a promise (\<open>lw_awaiting\<close>), for the end of a pause (\<open>lw_sleeping\<close>), for the
  socket to be ready (\<open>lw_waiting\<close>).
\<close>

section \<open>State\<close>

datatype readyState = CONNECTING | OPEN | CLOSING | CLOSED

datatype promise = Pending | Resolved | Rejected

text \<open>What goes on once the socket is ready: the message to send, or the restart.\<close>

datatype 'm waiter = Sending 'm | Restarting

record 'm lws =
  lw_client :: "nat option"
  lw_next :: nat
  lw_ready :: "nat \<Rightarrow> readyState"
  lw_promise :: "nat \<Rightarrow> promise"
  lw_connection :: "nat option"
  lw_connectTimers :: "nat list"
  lw_heartbeatTimeout :: bool
  lw_userClosed :: bool
  lw_failedAttempts :: nat
  lw_isReconnecting :: bool
  lw_sleeping :: "nat list"
  lw_awaiting :: "nat list"
  lw_waiting :: "'m waiter list"
  lw_sent :: "(nat \<times> 'm) list"
  lw_reconnects :: nat
  lw_unhandled :: nat

definition new_lws :: "'m lws" where
  "new_lws = \<lparr> lw_client = None, lw_next = 0, lw_ready = (\<lambda>_. CONNECTING), lw_promise = (\<lambda>_. Pending),
     lw_connection = None, lw_connectTimers = [], lw_heartbeatTimeout = False, lw_userClosed = True,
     lw_failedAttempts = 0, lw_isReconnecting = False, lw_sleeping = [], lw_awaiting = [], lw_waiting = [],
     lw_sent = [], lw_reconnects = 0, lw_unhandled = 0 \<rparr>"

definition isConnected :: "'m lws \<Rightarrow> bool" where
  "isConnected s = (case lw_client s of None \<Rightarrow> False | Some i \<Rightarrow> lw_ready s i = OPEN)"

definition lws_expoBackoff :: "nat \<Rightarrow> nat" where
  "lws_expoBackoff attempts = 2 ^ attempts * 100"

definition remove_at :: "nat \<Rightarrow> 'a list \<Rightarrow> 'a list" where
  "remove_at k xs = take k xs @ drop (Suc k) xs"

text \<open>Calling \<open>resolveConnection\<close> or \<open>rejectConnection\<close> if they are set; a promise settles once.\<close>

definition settle :: "promise \<Rightarrow> 'm lws \<Rightarrow> 'm lws" where
  "settle p s =
     (case lw_connection s of
        None \<Rightarrow> s
      | Some i \<Rightarrow> if lw_promise s i = Pending then s\<lparr> lw_promise := (lw_promise s)(i := p) \<rparr> else s)"

text \<open>\<open>close()\<close> and \<open>terminate()\<close> on the client: its close event follows.\<close>

definition shut :: "nat \<Rightarrow> 'm lws \<Rightarrow> 'm lws" where
  "shut i s = (if lw_ready s i = CLOSED then s else s\<lparr> lw_ready := (lw_ready s)(i := CLOSING) \<rparr>)"

section \<open>Methods and handlers\<close>

definition lws_startWebSocket :: "'m lws \<Rightarrow> 'm lws" where
  "lws_startWebSocket s =
     (if lw_client s \<noteq> None then s
      else (let i = lw_next s in
        s\<lparr> lw_connection := Some i, lw_connectTimers := lw_connectTimers s @ [i], lw_client := Some i,
           lw_next := Suc i, lw_userClosed := False \<rparr>))"

definition resetHeartbeat :: "'m lws \<Rightarrow> 'm lws" where
  "resetHeartbeat s = s\<lparr> lw_heartbeatTimeout := True \<rparr>"

definition on_open :: "nat \<Rightarrow> 'm lws \<Rightarrow> 'm lws" where
  "on_open i s =
     settle Resolved ((resetHeartbeat (s\<lparr> lw_ready := (lw_ready s)(i := OPEN), lw_failedAttempts := 0 \<rparr>))
       \<lparr> lw_connectTimers := removeAll i (lw_connectTimers s), lw_isReconnecting := False \<rparr>)"

definition on_error :: "'m lws \<Rightarrow> 'm lws" where
  "on_error s = settle Rejected s"

definition on_message :: "'m lws \<Rightarrow> 'm lws" where
  "on_message s = resetHeartbeat s"

definition on_ping :: "'m lws \<Rightarrow> 'm lws" where
  "on_ping s = resetHeartbeat s"

definition handleClose :: "'m lws \<Rightarrow> 'm lws" where
  "handleClose s0 =
     (let s = s0\<lparr> lw_heartbeatTimeout := False \<rparr> in
      if lw_userClosed s then s
      else s\<lparr> lw_failedAttempts := lw_failedAttempts s + 1, lw_client := None, lw_connection := None,
              lw_isReconnecting := True, lw_sleeping := lw_sleeping s @ [lws_expoBackoff (lw_failedAttempts s + 1)] \<rparr>)"

definition on_close :: "nat \<Rightarrow> 'm lws \<Rightarrow> 'm lws" where
  "on_close i s =
     handleClose (settle Rejected
       (s\<lparr> lw_ready := (lw_ready s)(i := CLOSED), lw_connectTimers := removeAll i (lw_connectTimers s) \<rparr>))"

definition connect_timed_out :: "nat \<Rightarrow> 'm lws \<Rightarrow> 'm lws" where
  "connect_timed_out i s = settle Rejected (s\<lparr> lw_connectTimers := removeAll i (lw_connectTimers s) \<rparr>)"

text \<open>\<open>restartUnexpectedClosedWebsocket\<close> up to its first \<open>await\<close>: it waits for the promise that
  \<open>startWebSocket\<close> returns.\<close>

definition lws_restart :: "'m lws \<Rightarrow> 'm lws" where
  "lws_restart s =
     (if lw_userClosed s then s
      else (let s' = lws_startWebSocket s in
        case lw_connection s' of
          None \<Rightarrow> s'\<lparr> lw_waiting := lw_waiting s' @ [Restarting] \<rparr>
        | Some i \<Rightarrow> s'\<lparr> lw_awaiting := lw_awaiting s' @ [i] \<rparr>))"

definition heartbeat_timed_out :: "'m lws \<Rightarrow> 'm lws" where
  "heartbeat_timed_out s0 =
     (let s = s0\<lparr> lw_heartbeatTimeout := False \<rparr>
      in lws_restart (case lw_client s of None \<Rightarrow> s | Some i \<Rightarrow> shut i s))"

definition lws_sleep_over :: "nat \<Rightarrow> 'm lws \<Rightarrow> 'm lws" where
  "lws_sleep_over k s = lws_restart (s\<lparr> lw_sleeping := remove_at k (lw_sleeping s) \<rparr>)"

text \<open>The \<open>k\<close>-th restart goes on when its promise has settled. A rejection is thrown in an async
  function that is called with \<open>void\<close>: nobody handles it.\<close>

definition promise_settled :: "nat \<Rightarrow> 'm lws \<Rightarrow> 'm lws" where
  "promise_settled k s0 =
     (let i = lw_awaiting s0 ! k; s = s0\<lparr> lw_awaiting := remove_at k (lw_awaiting s0) \<rparr> in
      case lw_promise s i of
        Pending \<Rightarrow> s0
      | Resolved \<Rightarrow> s\<lparr> lw_waiting := lw_waiting s @ [Restarting] \<rparr>
      | Rejected \<Rightarrow> s\<lparr> lw_unhandled := Suc (lw_unhandled s) \<rparr>)"

text \<open>What follows the wait for readiness.\<close>

definition continue :: "'m waiter \<Rightarrow> 'm lws \<Rightarrow> 'm lws" where
  "continue w s =
     (case lw_client s of
        None \<Rightarrow> s
      | Some i \<Rightarrow>
          (case w of
             Restarting \<Rightarrow> s\<lparr> lw_reconnects := Suc (lw_reconnects s) \<rparr>
           | Sending m \<Rightarrow> s\<lparr> lw_sent := lw_sent s @ [(i, m)] \<rparr>))"

text \<open>One round of \<open>waitForMaybeReadyWebSocket\<close> for the \<open>k\<close>-th waiter; \<open>elapsed\<close> tells that it has waited for
  more than five seconds.\<close>

definition poll :: "nat \<Rightarrow> bool \<Rightarrow> 'm lws \<Rightarrow> 'm lws" where
  "poll k elapsed s0 =
     (let w = lw_waiting s0 ! k; s = s0\<lparr> lw_waiting := remove_at k (lw_waiting s0) \<rparr> in
      case lw_client s of
        None \<Rightarrow> continue w s
      | Some i \<Rightarrow>
          if lw_ready s i = OPEN then continue w s
          else if elapsed then continue w (shut i s)
          else s0)"

definition lws_send :: "'m \<Rightarrow> 'm lws \<Rightarrow> 'm lws" where
  "lws_send m s = s\<lparr> lw_waiting := lw_waiting s @ [Sending m] \<rparr>"

definition lws_closeWebSocket :: "'m lws \<Rightarrow> 'm lws" where
  "lws_closeWebSocket s =
     (case lw_client s of
        None \<Rightarrow> s
      | Some i \<Rightarrow> shut i (s\<lparr> lw_client := None, lw_connection := None \<rparr>))\<lparr> lw_userClosed := True \<rparr>"

section \<open>The state machine\<close>

datatype 'm lws_event =
    Start
  | Stop
  | Send 'm
  | Open_event nat
  | Error_event nat
  | Message_event nat
  | Ping_event nat
  | Close_event nat
  | Connect_timer nat
  | Heartbeat_timer
  | Pause_over nat
  | Promise_settled nat
  | Poll nat bool

text \<open>What can happen in a state: events of sockets that are not closed, pending timers, pauses, settled promises.\<close>

inductive lws_step :: "'m lws \<Rightarrow> 'm lws_event \<Rightarrow> 'm lws \<Rightarrow> bool" where
  start: "lws_step s Start (lws_startWebSocket s)"
| stop: "lws_step s Stop (lws_closeWebSocket s)"
| send: "lws_step s (Send m) (lws_send m s)"
| opened: "i < lw_next s \<Longrightarrow> lw_ready s i = CONNECTING \<Longrightarrow> lws_step s (Open_event i) (on_open i s)"
| error: "i < lw_next s \<Longrightarrow> lw_ready s i \<noteq> CLOSED \<Longrightarrow> lws_step s (Error_event i) (on_error s)"
| message: "i < lw_next s \<Longrightarrow> lw_ready s i = OPEN \<Longrightarrow> lws_step s (Message_event i) (on_message s)"
| ping: "i < lw_next s \<Longrightarrow> lw_ready s i = OPEN \<Longrightarrow> lws_step s (Ping_event i) (on_ping s)"
| closed: "i < lw_next s \<Longrightarrow> lw_ready s i \<noteq> CLOSED \<Longrightarrow> lws_step s (Close_event i) (on_close i s)"
| connect_timer: "i \<in> set (lw_connectTimers s) \<Longrightarrow> lws_step s (Connect_timer i) (connect_timed_out i s)"
| heartbeat_timer: "lw_heartbeatTimeout s \<Longrightarrow> lws_step s Heartbeat_timer (heartbeat_timed_out s)"
| pause_over: "k < length (lw_sleeping s) \<Longrightarrow> lws_step s (Pause_over k) (lws_sleep_over k s)"
| settled: "k < length (lw_awaiting s) \<Longrightarrow> lw_promise s (lw_awaiting s ! k) \<noteq> Pending \<Longrightarrow>
    lws_step s (Promise_settled k) (promise_settled k s)"
| poll: "k < length (lw_waiting s) \<Longrightarrow> lws_step s (Poll k elapsed) (Lazer_Socket.poll k elapsed s)"

inductive lws_run :: "'m lws \<Rightarrow> 'm lws_event list \<Rightarrow> 'm lws \<Rightarrow> bool" where
  nil: "lws_run s [] s"
| snoc: "lws_run s es s' \<Longrightarrow> lws_step s' e s'' \<Longrightarrow> lws_run s (es @ [e]) s''"

inductive_cases lws_stepE: "lws_step s e s'"

lemma lws_run_trans: "lws_run s' es' s'' \<Longrightarrow> lws_run s es s' \<Longrightarrow> lws_run s (es @ es') s''"
proof (induction rule: lws_run.induct)
  case (snoc s' es' t e u)
  then show ?case using lws_run.snoc [of s "es @ es'" t e u] by simp
qed simp

text \<open>The fields that settling, shutting and the heartbeat leave alone.\<close>

lemma settle_simps [simp]:
  "lw_client (settle p s) = lw_client s" "lw_next (settle p s) = lw_next s" "lw_ready (settle p s) = lw_ready s"
  "lw_connection (settle p s) = lw_connection s" "lw_connectTimers (settle p s) = lw_connectTimers s"
  "lw_userClosed (settle p s) = lw_userClosed s" "lw_isReconnecting (settle p s) = lw_isReconnecting s"
  "lw_sleeping (settle p s) = lw_sleeping s" "lw_failedAttempts (settle p s) = lw_failedAttempts s"
  by (simp_all add: settle_def split: option.split)

lemma settle_promise:
  "lw_promise (settle p s) j = (if lw_connection s = Some j \<and> lw_promise s j = Pending then p else lw_promise s j)"
  by (simp add: settle_def split: option.split)

lemma shut_simps [simp]:
  "lw_client (shut i s) = lw_client s" "lw_next (shut i s) = lw_next s" "lw_connection (shut i s) = lw_connection s"
  "lw_promise (shut i s) = lw_promise s" "lw_connectTimers (shut i s) = lw_connectTimers s"
  "lw_userClosed (shut i s) = lw_userClosed s" "lw_isReconnecting (shut i s) = lw_isReconnecting s"
  "lw_sleeping (shut i s) = lw_sleeping s"
  by (simp_all add: shut_def)

lemma shut_ready: "lw_ready (shut i s) j = (if j = i \<and> lw_ready s i \<noteq> CLOSED then CLOSING else lw_ready s j)"
  by (simp add: shut_def)

section \<open>The invariant\<close>

text \<open>The current promise is the client's; sockets and promises to come are untouched; the client's promise is
  settled or its timer is pending; an open client is not reconnecting and its promise is settled.\<close>

definition lws_inv :: "'m lws \<Rightarrow> bool" where
  "lws_inv s \<longleftrightarrow>
     lw_connection s = lw_client s \<and>
     (\<forall>i\<ge>lw_next s. lw_ready s i = CONNECTING \<and> lw_promise s i = Pending) \<and>
     (if lw_userClosed s then lw_client s = None else lw_client s \<noteq> None \<or> lw_sleeping s \<noteq> []) \<and>
     (\<forall>i. lw_client s = Some i \<longrightarrow> i < lw_next s \<and>
        (lw_promise s i = Pending \<longrightarrow> i \<in> set (lw_connectTimers s)) \<and>
        (lw_ready s i = OPEN \<longrightarrow> \<not> lw_isReconnecting s \<and> lw_promise s i \<noteq> Pending))"

text \<open>A restart keeps it, whatever pause ends.\<close>

definition restartable :: "'m lws \<Rightarrow> bool" where
  "restartable s \<longleftrightarrow> lws_inv (s\<lparr> lw_sleeping := [0] \<rparr>)"

lemma restart_inv:
  assumes "restartable s"
  shows "lws_inv (lws_restart s)"
proof (cases "lw_userClosed s \<or> lw_client s \<noteq> None")
  case True
  with assms show ?thesis
    by (auto simp: restartable_def lws_inv_def lws_restart_def lws_startWebSocket_def split: option.splits)
next
  case False
  then have "lws_restart s = (lws_startWebSocket s)\<lparr> lw_awaiting := lw_awaiting s @ [lw_next s] \<rparr>"
    by (simp add: lws_restart_def lws_startWebSocket_def Let_def)
  with False assms show ?thesis
    by (auto simp: restartable_def lws_inv_def lws_startWebSocket_def Let_def)
qed

lemma on_open_inv: "lws_inv s \<Longrightarrow> i < lw_next s \<Longrightarrow> lws_inv (on_open i s)"
  by (auto simp: lws_inv_def on_open_def resetHeartbeat_def settle_promise)

lemma on_close_inv: "lws_inv s \<Longrightarrow> i < lw_next s \<Longrightarrow> lws_inv (on_close i s)"
  by (auto simp: lws_inv_def on_close_def handleClose_def settle_promise Let_def)

lemma connect_timed_out_inv: "lws_inv s \<Longrightarrow> lws_inv (connect_timed_out i s)"
  by (auto simp: lws_inv_def connect_timed_out_def settle_promise)

lemma settle_inv: "lws_inv s \<Longrightarrow> lws_inv (settle Rejected s)"
  by (auto simp: lws_inv_def settle_promise)

lemma shut_inv: "lws_inv s \<Longrightarrow> i < lw_next s \<Longrightarrow> lws_inv (shut i s)"
  by (auto simp: lws_inv_def shut_ready)

lemma close_inv: "lws_inv s \<Longrightarrow> lws_inv (lws_closeWebSocket s)"
  by (cases "lw_client s") (auto simp: lws_inv_def lws_closeWebSocket_def shut_ready)

lemma waiting_inv:
  "lws_inv (s\<lparr> lw_waiting := ws \<rparr>) = lws_inv s" "lws_inv (s\<lparr> lw_sent := ms \<rparr>) = lws_inv s"
  "lws_inv (s\<lparr> lw_reconnects := n \<rparr>) = lws_inv s" "lws_inv (s\<lparr> lw_awaiting := as \<rparr>) = lws_inv s"
  "lws_inv (s\<lparr> lw_unhandled := n \<rparr>) = lws_inv s" "lws_inv (s\<lparr> lw_heartbeatTimeout := b \<rparr>) = lws_inv s"
  by (simp_all add: lws_inv_def)

lemma continue_inv: "lws_inv (continue w s) = lws_inv s"
  by (simp add: continue_def waiting_inv split: option.split waiter.split)

lemma poll_inv:
  assumes "lws_inv s"
  shows "lws_inv (Lazer_Socket.poll k elapsed s)"
proof -
  have "i < lw_next s" if "lw_client s = Some i" for i using that assms by (simp add: lws_inv_def)
  then show ?thesis using assms
    by (simp add: poll_def Let_def continue_inv waiting_inv shut_inv split: option.split)
qed

lemma restartable_pause: "lws_inv s \<Longrightarrow> restartable (s\<lparr> lw_sleeping := ks \<rparr>)"
  by (auto simp: restartable_def lws_inv_def)

lemma restartable_heartbeat: "lws_inv s \<Longrightarrow> restartable s"
  by (auto simp: restartable_def lws_inv_def)

lemma lws_inv_step: "lws_step s e s' \<Longrightarrow> lws_inv s \<Longrightarrow> lws_inv s'"
proof (induction rule: lws_step.induct)
  case (start s)
  then show ?case by (auto simp: lws_inv_def lws_startWebSocket_def Let_def)
next
  case (heartbeat_timer s)
  have "lws_inv (case lw_client s of None \<Rightarrow> s\<lparr> lw_heartbeatTimeout := False \<rparr>
      | Some i \<Rightarrow> shut i (s\<lparr> lw_heartbeatTimeout := False \<rparr>))"
  proof (cases "lw_client s")
    case (Some i)
    then have "i < lw_next s" using heartbeat_timer.prems by (simp add: lws_inv_def)
    then show ?thesis using Some heartbeat_timer.prems by (simp add: shut_inv waiting_inv)
  qed (simp add: heartbeat_timer.prems waiting_inv)
  then show ?case by (simp add: heartbeat_timed_out_def Let_def restart_inv restartable_heartbeat)
qed (simp_all add: close_inv on_open_inv on_close_inv connect_timed_out_inv settle_inv poll_inv restart_inv restartable_pause
      lws_sleep_over_def lws_send_def on_error_def on_message_def on_ping_def resetHeartbeat_def promise_settled_def
      waiting_inv Let_def split: promise.split)

lemma lws_inv_run: "lws_run s es s' \<Longrightarrow> lws_inv s \<Longrightarrow> lws_inv s'"
  by (induction rule: lws_run.induct) (simp_all add: lws_inv_step)

lemma lws_inv_new: "lws_inv new_lws"
  by (simp add: lws_inv_def new_lws_def)

section \<open>Promises that nobody will settle\<close>

definition abandoned :: "nat \<Rightarrow> 'm lws \<Rightarrow> bool" where
  "abandoned i s \<longleftrightarrow> i < lw_next s \<and> lw_client s \<noteq> Some i \<and> lw_promise s i = Pending"

lemma settle_abandoned: "abandoned i s \<Longrightarrow> lw_connection s = lw_client s \<Longrightarrow> abandoned i (settle p s)"
  by (auto simp: abandoned_def settle_promise)

lemma restart_abandoned: "abandoned i s \<Longrightarrow> abandoned i (lws_restart s)"
  by (auto simp: abandoned_def lws_restart_def lws_startWebSocket_def Let_def split: option.split)

lemma abandoned_simps:
  "abandoned i (shut j s) = abandoned i s" "abandoned i (s\<lparr> lw_waiting := ws \<rparr>) = abandoned i s"
  "abandoned i (s\<lparr> lw_sent := ms \<rparr>) = abandoned i s" "abandoned i (s\<lparr> lw_reconnects := n \<rparr>) = abandoned i s"
  "abandoned i (s\<lparr> lw_awaiting := as \<rparr>) = abandoned i s" "abandoned i (s\<lparr> lw_unhandled := n \<rparr>) = abandoned i s"
  "abandoned i (s\<lparr> lw_heartbeatTimeout := b \<rparr>) = abandoned i s" "abandoned i (s\<lparr> lw_sleeping := ks \<rparr>) = abandoned i s"
  by (simp_all add: abandoned_def)

lemma abandoned_step: "lws_step s e s' \<Longrightarrow> lws_inv s \<Longrightarrow> abandoned i s \<Longrightarrow> abandoned i s'"
proof (induction rule: lws_step.induct)
  case (opened j s)
  then show ?case by (auto simp: abandoned_def on_open_def resetHeartbeat_def settle_promise lws_inv_def)
next
  case (closed j s)
  then show ?case by (auto simp: abandoned_def on_close_def handleClose_def settle_promise lws_inv_def Let_def)
next
  case (connect_timer j s)
  then show ?case by (auto simp: abandoned_def connect_timed_out_def settle_promise lws_inv_def)
next
  case (start s)
  then show ?case by (auto simp: abandoned_def lws_startWebSocket_def Let_def)
next
  case (stop s)
  then show ?case by (auto simp: abandoned_def lws_closeWebSocket_def split: option.split)
next
  case (error j s)
  then show ?case by (simp add: on_error_def settle_abandoned lws_inv_def)
next
  case (poll k s elapsed)
  then show ?case
    by (simp add: poll_def continue_def abandoned_simps Let_def split: option.split waiter.split)
qed (simp_all add: lws_send_def on_message_def on_ping_def resetHeartbeat_def promise_settled_def heartbeat_timed_out_def
      lws_sleep_over_def restart_abandoned abandoned_simps Let_def split: promise.split option.split)

lemma abandoned_run: "lws_run s es s' \<Longrightarrow> lws_inv s \<Longrightarrow> abandoned i s \<Longrightarrow> abandoned i s'"
  by (induction rule: lws_run.induct) (auto intro: abandoned_step lws_inv_run)

section \<open>Properties\<close>


lemma run_two: "lws_run new_lws [Start, Close_event 0] (on_close 0 (lws_startWebSocket (new_lws :: nat lws)))"
proof -
  have "lws_run new_lws [Start] (lws_startWebSocket (new_lws :: nat lws))"
    using lws_run.snoc [OF lws_run.nil lws_step.start] by fastforce
  moreover have "lws_step (lws_startWebSocket new_lws) (Close_event 0) (on_close 0 (lws_startWebSocket (new_lws :: nat lws)))"
    by (rule lws_step.closed) (simp_all add: lws_startWebSocket_def new_lws_def)
  ultimately show ?thesis using lws_run.snoc by fastforce
qed


text \<open>Closing while connecting abandons the attempt: the promise that \<open>startWebSocket\<close> returned is not
  settled then, and nothing that happens afterwards settles it, so who waits for it waits for ever.\<close>

theorem closed_attempt_never_settles:
  assumes "lws_run new_lws es s" "lw_client s = Some i" "lw_promise s i = Pending"
    and "lws_run (lws_closeWebSocket s) es' s'"
  shows "lw_promise s' i = Pending"
proof -
  have inv: "lws_inv s" using lws_inv_run [OF assms(1) lws_inv_new] .
  have "abandoned i (lws_closeWebSocket s)"
    using inv assms(2,3) by (simp add: abandoned_def lws_closeWebSocket_def lws_inv_def)
  from abandoned_run [OF assms(4) close_inv [OF inv] this] show ?thesis by (simp add: abandoned_def)
qed

theorem closed_attempt_never_settles_witness:
  "lw_promise (on_close 0 (lws_closeWebSocket (lws_startWebSocket (new_lws :: nat lws)))) 0 = Pending"
proof (rule closed_attempt_never_settles)
  show "lws_run new_lws [Start] (lws_startWebSocket new_lws)"
    using lws_run.snoc [OF lws_run.nil lws_step.start, of new_lws] by simp
  let ?c = "lws_closeWebSocket (lws_startWebSocket new_lws) :: nat lws"
  have "lws_step ?c (Close_event 0) (on_close 0 ?c)"
    by (rule lws_step.closed) (simp_all add: lws_closeWebSocket_def lws_startWebSocket_def new_lws_def shut_def)
  then show "lws_run ?c [Close_event 0] (on_close 0 ?c)" using lws_run.snoc [OF lws_run.nil] by fastforce
qed (simp_all add: lws_startWebSocket_def new_lws_def)

text \<open>A reconnection that fails is an unhandled rejection: the restart awaits the connection promise in an async
  function whose own promise is discarded. The runtime of Node.js ends the process then.\<close>

theorem failed_reconnect_unhandled:
  "\<exists>s. lws_run (new_lws :: 'm lws) [Start, Open_event 0, Close_event 0, Pause_over 0, Error_event 1, Promise_settled 0] s \<and>
     lw_unhandled s = 1"
proof -
  define s1 where "s1 = lws_startWebSocket (new_lws :: 'm lws)"
  define s2 where "s2 = on_open 0 s1"
  define s3 where "s3 = on_close 0 s2"
  define s4 where "s4 = lws_sleep_over 0 s3"
  define s5 where "s5 = on_error s4"
  note defs = s1_def s2_def s3_def s4_def s5_def new_lws_def lws_startWebSocket_def on_open_def on_close_def
    handleClose_def settle_def resetHeartbeat_def lws_sleep_over_def lws_restart_def remove_at_def on_error_def
    promise_settled_def
  have "lws_run new_lws [Start] s1" using lws_run.snoc [OF lws_run.nil lws_step.start] by (fastforce simp: s1_def)
  moreover have "lws_step s1 (Open_event 0) s2" unfolding s2_def by (rule lws_step.opened) (simp_all add: defs)
  ultimately have "lws_run new_lws [Start, Open_event 0] s2" using lws_run.snoc by fastforce
  moreover have "lws_step s2 (Close_event 0) s3" unfolding s3_def by (rule lws_step.closed) (simp_all add: defs)
  ultimately have "lws_run new_lws [Start, Open_event 0, Close_event 0] s3" using lws_run.snoc by fastforce
  moreover have "lws_step s3 (Pause_over 0) s4" unfolding s4_def by (rule lws_step.pause_over) (simp add: defs)
  ultimately have "lws_run new_lws [Start, Open_event 0, Close_event 0, Pause_over 0] s4" using lws_run.snoc by fastforce
  moreover have "lws_step s4 (Error_event 1) s5" unfolding s5_def by (rule lws_step.error) (simp_all add: defs)
  ultimately have "lws_run new_lws [Start, Open_event 0, Close_event 0, Pause_over 0, Error_event 1] s5"
    using lws_run.snoc by fastforce
  moreover have "lws_step s5 (Promise_settled 0) (promise_settled 0 s5)" by (rule lws_step.settled) (simp_all add: defs)
  ultimately have "lws_run new_lws [Start, Open_event 0, Close_event 0, Pause_over 0, Error_event 1, Promise_settled 0]
      (promise_settled 0 s5)" using lws_run.snoc by fastforce
  moreover have "lw_unhandled (promise_settled 0 s5) = 1" by (simp add: defs)
  ultimately show ?thesis by blast
qed

end
