(* ===== verification/Staking_Sdk.thy ===== *)
theory Staking_Sdk
  imports Js_Number
begin

text \<open>
  The utilities of the staking SDK, \<open>governance/pyth_staking_sdk/src/utils\<close>: positions and their states, yields,
  publisher data of the pool, vesting schedules, and the conversion between the two kinds of big
  integers. A \<open>bigint\<close> is an integer; yields are JavaScript numbers. The Borsh decoder of Anchor
  is an argument.
\<close>

section \<open>Constants and big integers\<close>

definition FRACTION_PRECISION_N :: int where
  "FRACTION_PRECISION_N = 1000000"

definition POSITION_BUFFER_SIZE :: nat where
  "POSITION_BUFFER_SIZE = 200"

definition POSITIONS_ACCOUNT_HEADER_SIZE :: nat where
  "POSITIONS_ACCOUNT_HEADER_SIZE = 8 + 32"

definition EPOCH_DURATION :: int where
  "EPOCH_DURATION = 7 * (24 * (60 * 60))"

text \<open>Division of \<open>bigint\<close>s truncates towards zero.\<close>

definition bigint_div :: "int \<Rightarrow> int \<Rightarrow> int" where
  "bigint_div a b = sgn a * sgn b * (\<bar>a\<bar> div \<bar>b\<bar>)"

definition bigintMax :: "int option \<Rightarrow> int option \<Rightarrow> int option" where
  "bigintMax a b = (case a of None \<Rightarrow> b | Some x \<Rightarrow> (case b of None \<Rightarrow> a | Some y \<Rightarrow> if x > y then a else b))"

definition bigintMin :: "int option \<Rightarrow> int option \<Rightarrow> int option" where
  "bigintMin a b = (case a of None \<Rightarrow> b | Some x \<Rightarrow> (case b of None \<Rightarrow> a | Some y \<Rightarrow> if x < y then a else b))"

definition getCurrentEpoch :: "int option \<Rightarrow> int result" where
  "getCurrentEpoch blockTime =
     (case blockTime of None \<Rightarrow> Inl (JsError ''Block time is not available'') | Some t \<Rightarrow> Inr (bigint_div t EPOCH_DURATION))"

text \<open>The milliseconds of the date.\<close>

definition epochToDate :: "int \<Rightarrow> int" where
  "epochToDate epoch = epoch * EPOCH_DURATION * 1000"

section \<open>\<open>bn.ts\<close>\<close>

text \<open>Values as the two functions tell them apart; keys of an object are distinct and ordered.\<close>

datatype 'o val =
    BN int
  | Big int
  | Arr "'o val list"
  | Obj "(string \<times> 'o val) list"
  | Other 'o

fun convertBNToBigInt :: "'o val \<Rightarrow> 'o val" where
  "convertBNToBigInt (BN n) = Big n"
| "convertBNToBigInt (Arr xs) = Arr (map convertBNToBigInt xs)"
| "convertBNToBigInt (Obj kvs) = Obj (map (\<lambda>kv. (fst kv, convertBNToBigInt (snd kv))) kvs)"
| "convertBNToBigInt v = v"

fun convertBigIntToBN :: "'o val \<Rightarrow> 'o val" where
  "convertBigIntToBN (Big n) = BN n"
| "convertBigIntToBN (Arr xs) = Arr (map convertBigIntToBN xs)"
| "convertBigIntToBN (Obj kvs) = Obj (map (\<lambda>kv. (fst kv, convertBigIntToBN (snd kv))) kvs)"
| "convertBigIntToBN v = v"

fun no_bigint :: "'o val \<Rightarrow> bool" where
  "no_bigint (Big n) = False"
| "no_bigint (Arr xs) = list_all no_bigint xs"
| "no_bigint (Obj kvs) = list_all (\<lambda>kv. no_bigint (snd kv)) kvs"
| "no_bigint _ = True"

lemma convert_roundtrip: "no_bigint v \<Longrightarrow> convertBigIntToBN (convertBNToBigInt v) = v"
proof (induction v rule: convertBNToBigInt.induct)
  case (2 xs)
  then show ?case by (auto simp: list_all_iff intro: map_idI)
next
  case (3 kvs)
  then have "map (\<lambda>kv. (fst kv, convertBigIntToBN (convertBNToBigInt (snd kv)))) kvs = kvs"
    by (intro map_idI) (auto simp: list_all_iff)
  then show ?case by (simp add: comp_def)
qed simp_all

section \<open>Positions\<close>

datatype 'pk TargetWithParameters = Voting | IntegrityPool 'pk

record 'pk Position =
  pos_amount :: int
  pos_target :: "'pk TargetWithParameters"
  pos_activationEpoch :: int
  pos_unlockingStart :: "int option"

datatype PositionState = UNLOCKED | LOCKING | LOCKED | PREUNLOCKING | UNLOCKING

text \<open>\<open>!position.unlockingStart\<close> holds for \<open>null\<close> and for zero.\<close>

definition getPositionState :: "'pk Position \<Rightarrow> int \<Rightarrow> PositionState" where
  "getPositionState position currentEpoch =
     (if currentEpoch < pos_activationEpoch position then LOCKING
      else case pos_unlockingStart position of
        None \<Rightarrow> LOCKED
      | Some start \<Rightarrow>
          if start = 0 then LOCKED
          else let hasActivated = (pos_activationEpoch position \<le> currentEpoch);
                   unlockStarted = (start \<le> currentEpoch);
                   unlockEnded = (start + 1 \<le> currentEpoch)
               in if hasActivated \<and> \<not> unlockStarted then PREUNLOCKING
                  else if unlockStarted \<and> \<not> unlockEnded then UNLOCKING
                  else UNLOCKED)"

definition same_target :: "'pk TargetWithParameters \<Rightarrow> 'pk Position \<Rightarrow> bool" where
  "same_target target p =
     (case target of
        Voting \<Rightarrow> pos_target p = Voting
      | IntegrityPool publisher \<Rightarrow> (case pos_target p of Voting \<Rightarrow> False | IntegrityPool q \<Rightarrow> publisher = q))"

definition getAmountByTargetAndState ::
  "'pk Position list \<Rightarrow> 'pk TargetWithParameters \<Rightarrow> PositionState \<Rightarrow> int \<Rightarrow> int" where
  "getAmountByTargetAndState positions target state epoch =
     foldl (+) 0 (map pos_amount (filter (same_target target)
       (filter (\<lambda>p. getPositionState p epoch = state) positions)))"

definition getVotingTokenAmount :: "'pk Position list \<Rightarrow> int \<Rightarrow> int" where
  "getVotingTokenAmount positions epoch =
     foldl (\<lambda>sum p. sum + pos_amount p) 0
       (filter (\<lambda>p. getPositionState p epoch \<in> {LOCKED, PREUNLOCKING}) (filter (\<lambda>p. pos_target p = Voting) positions))"

fun read_positions :: "(bytes \<Rightarrow> 'pos result) \<Rightarrow> bytes \<Rightarrow> nat \<Rightarrow> nat \<Rightarrow> 'pos list result" where
  "read_positions decode data 0 i = Inr []"
| "read_positions decode data (Suc n) i =
     (if i < length data \<and> data ! i = 1
      then bindR (decode (drop (i + 1) data)) (\<lambda>p.
           bindR (read_positions decode data n (i + POSITION_BUFFER_SIZE)) (\<lambda>ps. Inr (p # ps)))
      else read_positions decode data n (i + POSITION_BUFFER_SIZE))"

text \<open>The owner's 32 bytes and the decoded positions; \<open>Math.floor\<close> of a negative number of positions makes no
  iteration, as does the truncated difference.\<close>

definition deserializeStakeAccountPositions :: "(bytes \<Rightarrow> 'pos result) \<Rightarrow> bytes \<Rightarrow> (bytes \<times> 'pos list) result" where
  "deserializeStakeAccountPositions decode data =
     (let owner = subarray data 8 (8 + 32);
          numberOfPositions = (length data - POSITIONS_ACCOUNT_HEADER_SIZE) div POSITION_BUFFER_SIZE
      in bindR (read_positions decode data numberOfPositions (8 + 32)) (\<lambda>ps. Inr (owner, ps)))"

section \<open>Yields\<close>

definition convertEpochYieldToApy :: "int \<Rightarrow> js_number" where
  "convertEpochYieldToApy epochYield =
     js_div (js_mul (js_mul (number_of_int epochYield) (Fin 52)) (Fin 100)) (Fin (of_int FRACTION_PRECISION_N))"

definition computeDelegatorRewardPercentage :: "int \<Rightarrow> js_number" where
  "computeDelegatorRewardPercentage delegationFee =
     js_sub (Fin 1) (js_div (number_of_int delegationFee) (Fin (of_int FRACTION_PRECISION_N)))"

text \<open>\<open>isSelf\<close> is given by the absence of \<open>poolUtilization\<close>.\<close>

definition calculateApy :: "int \<Rightarrow> int \<Rightarrow> int \<Rightarrow> int \<Rightarrow> int option \<Rightarrow> js_number" where
  "calculateApy selfStake poolCapacity yieldRate delegationFee utilization =
     (let eligibleSelfStake = (if selfStake > poolCapacity then poolCapacity else selfStake) in
      if poolCapacity = 0 then Fin 0
      else let apyPercentage = convertEpochYieldToApy yieldRate in
        case utilization of
          None \<Rightarrow>
            (if selfStake = 0 then apyPercentage
             else js_div (js_mul apyPercentage (number_of_int eligibleSelfStake)) (number_of_int selfStake))
        | Some poolUtilization \<Rightarrow>
            (let delegatorPercentage = computeDelegatorRewardPercentage delegationFee;
                 delegatorPoolUtilization = poolUtilization - selfStake;
                 delegatorPoolCapacity = poolCapacity - eligibleSelfStake;
                 eligibleStake = (if delegatorPoolUtilization > delegatorPoolCapacity then delegatorPoolCapacity
                                  else delegatorPoolUtilization)
             in if poolUtilization = selfStake
                then js_mul (if selfStake \<ge> poolCapacity then Fin 0 else apyPercentage) delegatorPercentage
                else js_div (js_mul (js_mul apyPercentage delegatorPercentage) (number_of_int eligibleStake))
                       (number_of_int delegatorPoolUtilization)))"

section \<open>Publisher data\<close>

record DelegationState =
  totalDelegation :: int
  deltaDelegation :: int

record PublisherEventData =
  otherRewardRatio :: int
  selfRewardRatio :: int

record PoolEvent =
  ev_epoch :: int
  ev_y :: int
  ev_eventData :: "PublisherEventData list"

record 'pk PoolDataAccount =
  pd_publishers :: "'pk list"
  pd_publisherStakeAccounts :: "'pk list"
  pd_delState :: "DelegationState list"
  pd_selfDelState :: "DelegationState list"
  pd_delegationFees :: "int list"
  pd_events :: "PoolEvent list"

record ApyEntry =
  ae_epoch :: int
  ae_apy :: js_number
  ae_selfApy :: js_number

record 'pk PublisherEntry =
  pe_pubkey :: 'pk
  pe_stakeAccount :: "'pk option"
  pe_totalDelegation :: int
  pe_totalDelegationDelta :: int
  pe_selfDelegation :: int
  pe_selfDelegationDelta :: int
  pe_delegationFee :: int
  pe_apyHistory :: "ApyEntry list"

text \<open>\<open>xs[i]?.f ?? 0n\<close>.\<close>

definition at_or_0 :: "('a \<Rightarrow> int) \<Rightarrow> 'a list \<Rightarrow> nat \<Rightarrow> int" where
  "at_or_0 f xs i = (if i < length xs then f (xs ! i) else 0)"

definition apyHistory :: "'pk PoolDataAccount \<Rightarrow> nat \<Rightarrow> ApyEntry list" where
  "apyHistory pd index =
     sort_key ae_epoch (map (\<lambda>event.
       \<lparr> ae_epoch = ev_epoch event,
         ae_apy = js_mul (convertEpochYieldToApy
             (bigint_div (ev_y event * at_or_0 otherRewardRatio (ev_eventData event) index) FRACTION_PRECISION_N))
           (computeDelegatorRewardPercentage (at_or_0 (\<lambda>x. x) (pd_delegationFees pd) index)),
         ae_selfApy = convertEpochYieldToApy
             (bigint_div (ev_y event * at_or_0 selfRewardRatio (ev_eventData event) index) FRACTION_PRECISION_N) \<rparr>)
       (filter (\<lambda>event. ev_epoch event > 0) (pd_events pd)))"

definition publisher_entry :: "'pk \<Rightarrow> 'pk PoolDataAccount \<Rightarrow> nat \<Rightarrow> 'pk \<Rightarrow> 'pk PublisherEntry" where
  "publisher_entry PublicKey_default pd index publisher =
     \<lparr> pe_pubkey = publisher,
       pe_stakeAccount =
         (if \<not> index < length (pd_publisherStakeAccounts pd) \<or>
             pd_publisherStakeAccounts pd ! index = PublicKey_default then None
          else Some (pd_publisherStakeAccounts pd ! index)),
       pe_totalDelegation = at_or_0 totalDelegation (pd_delState pd) index + at_or_0 totalDelegation (pd_selfDelState pd) index,
       pe_totalDelegationDelta = at_or_0 deltaDelegation (pd_delState pd) index + at_or_0 deltaDelegation (pd_selfDelState pd) index,
       pe_selfDelegation = at_or_0 totalDelegation (pd_selfDelState pd) index,
       pe_selfDelegationDelta = at_or_0 deltaDelegation (pd_selfDelState pd) index,
       pe_delegationFee = at_or_0 (\<lambda>x. x) (pd_delegationFees pd) index,
       pe_apyHistory = apyHistory pd index \<rparr>"

definition extractPublisherData :: "'pk \<Rightarrow> 'pk PoolDataAccount \<Rightarrow> 'pk PublisherEntry list" where
  "extractPublisherData PublicKey_default pd =
     (let ps = filter (\<lambda>publisher. publisher \<noteq> PublicKey_default) (pd_publishers pd)
      in map (\<lambda>(index, publisher). publisher_entry PublicKey_default pd index publisher) (enumerate 0 ps))"

section \<open>Vesting\<close>

record unlock =
  u_date :: int
  u_amount :: int

fun unlock_loop :: "int \<Rightarrow> int \<Rightarrow> int \<Rightarrow> int \<Rightarrow> int \<Rightarrow> bool \<Rightarrow> nat \<Rightarrow> int \<Rightarrow> unlock list" where
  "unlock_loop now balance startDate periodDuration numPeriods includePastPeriods 0 i = []"
| "unlock_loop now balance startDate periodDuration numPeriods includePastPeriods (Suc n) i =
     (let unlockTimeStamp = startDate + periodDuration * (i + 1);
          rest = unlock_loop now balance startDate periodDuration numPeriods includePastPeriods n (i + 1)
      in if now < 1000 * unlockTimeStamp \<or> includePastPeriods
         then \<lparr> u_date = unlockTimeStamp * 1000, u_amount = bigint_div balance numPeriods \<rparr> # rest
         else rest)"

text \<open>\<open>now\<close> is in milliseconds.\<close>

definition getPeriodicUnlockSchedule :: "int \<Rightarrow> int \<Rightarrow> int \<Rightarrow> int \<Rightarrow> int \<Rightarrow> bool \<Rightarrow> unlock list" where
  "getPeriodicUnlockSchedule now balance startDate periodDuration numPeriods includePastPeriods =
     unlock_loop now balance startDate periodDuration numPeriods includePastPeriods (nat numPeriods) 0"

record vesting_params =
  v_initialBalance :: int
  v_startDate :: int
  v_periodDuration :: int
  v_numPeriods :: int

datatype VestingSchedule =
    FullyVested
  | PeriodicVestingAfterListing vesting_params
  | PeriodicVesting vesting_params

datatype UnlockSchedule =
    FullyUnlocked
  | PeriodicUnlockingAfterListing "unlock list"
  | PeriodicUnlocking "unlock list"

definition getUnlockSchedule :: "int \<Rightarrow> int \<Rightarrow> VestingSchedule \<Rightarrow> bool \<Rightarrow> UnlockSchedule" where
  "getUnlockSchedule now pythTokenListTime vestingSchedule includePastPeriods =
     (case vestingSchedule of
        FullyVested \<Rightarrow> FullyUnlocked
      | PeriodicVestingAfterListing v \<Rightarrow>
          PeriodicUnlockingAfterListing (getPeriodicUnlockSchedule now (v_initialBalance v) pythTokenListTime
            (v_periodDuration v) (v_numPeriods v) includePastPeriods)
      | PeriodicVesting v \<Rightarrow>
          PeriodicUnlocking (getPeriodicUnlockSchedule now (v_initialBalance v) (v_startDate v)
            (v_periodDuration v) (v_numPeriods v) includePastPeriods))"

section \<open>Lemmas\<close>

lemma foldl_sum: "foldl (+) a xs = a + sum_list (xs :: int list)"
  by (induction xs arbitrary: a) (simp_all add: add.assoc)

lemma foldl_sum_map: "foldl (\<lambda>n p. n + f p) a ps = a + sum_list (map f ps :: int list)"
  by (induction ps arbitrary: a) (simp_all add: add.assoc)

text \<open>The amount of a target in a state, as a sum over all positions.\<close>

lemma amount_sum:
  "getAmountByTargetAndState ps target state epoch =
     (\<Sum>p\<leftarrow>ps. if getPositionState p epoch = state \<and> same_target target p then pos_amount p else 0)"
  by (induction ps) (simp_all add: getAmountByTargetAndState_def foldl_sum)

fun stage :: "PositionState \<Rightarrow> nat" where
  "stage LOCKING = 0"
| "stage LOCKED = 1"
| "stage PREUNLOCKING = 1"
| "stage UNLOCKING = 2"
| "stage UNLOCKED = 3"

lemma stage_mono: "e \<le> e' \<Longrightarrow> stage (getPositionState p e) \<le> stage (getPositionState p e')"
  by (auto simp: getPositionState_def Let_def split: option.split)

lemma unlock_loop_all:
  "unlock_loop now balance start d n True k i =
     map (\<lambda>j. \<lparr> u_date = (start + d * (i + int j + 1)) * 1000, u_amount = bigint_div balance n \<rparr>) [0..<k]"
proof (induction k arbitrary: i)
  case (Suc k)
  have "[0..<Suc k] = 0 # map Suc [0..<k]" by (simp add: map_Suc_upt upt_conv_Cons)
  then show ?case by (simp add: Suc.IH [of "i + 1"] Let_def comp_def add.assoc add.left_commute)
qed simp

lemma unlock_loop_future:
  "unlock_loop now balance start d n False k i = filter (\<lambda>u. now < u_date u) (unlock_loop now balance start d n True k i)"
  by (induction k arbitrary: i) (simp_all add: Let_def mult.commute)

lemma filter_default_tail:
  "z \<notin> set ps \<Longrightarrow> filter (\<lambda>p. p \<noteq> z) (ps @ replicate n z) = ps"
  by (induction ps) (auto simp: filter_replicate)

section \<open>Properties\<close>

text \<open>Stake is neither lost nor counted twice: at every epoch the amounts of a target in the five states add
  up to all the positions of that target; the voting power is the voting stake that is locked or about
  to be unlocked; and the state of a position only advances as epochs pass, from locking over locked
  to unlocking and unlocked.\<close>

theorem position_states_partition:
  assumes "e \<le> e'"
  shows "(\<Sum>state\<leftarrow>[LOCKING, LOCKED, PREUNLOCKING, UNLOCKING, UNLOCKED]. getAmountByTargetAndState ps target state e) =
           (\<Sum>p\<leftarrow>ps. if same_target target p then pos_amount p else 0) \<and>
         getVotingTokenAmount ps e =
           getAmountByTargetAndState ps Voting LOCKED e + getAmountByTargetAndState ps Voting PREUNLOCKING e \<and>
         stage (getPositionState p e) \<le> stage (getPositionState p e')"
proof (intro conjI)
  show "(\<Sum>state\<leftarrow>[LOCKING, LOCKED, PREUNLOCKING, UNLOCKING, UNLOCKED]. getAmountByTargetAndState ps target state e) =
      (\<Sum>p\<leftarrow>ps. if same_target target p then pos_amount p else 0)"
  proof (induction ps)
    case (Cons q ps)
    then show ?case by (cases "getPositionState q e") (simp_all add: amount_sum)
  qed (simp add: amount_sum)
  show "getVotingTokenAmount ps e =
      getAmountByTargetAndState ps Voting LOCKED e + getAmountByTargetAndState ps Voting PREUNLOCKING e"
    unfolding getVotingTokenAmount_def amount_sum foldl_sum_map
    by (induction ps) (auto simp: same_target_def)
  show "stage (getPositionState p e) \<le> stage (getPositionState p e')" using assms by (rule stage_mono)
qed

definition sample_position :: "nat Position" where
  "sample_position = \<lparr> pos_amount = 10, pos_target = Voting, pos_activationEpoch = 2, pos_unlockingStart = Some 4 \<rparr>"

theorem position_states_partition_witness:
  "stage (getPositionState sample_position 1) \<le> stage (getPositionState sample_position 5) \<and>
   getPositionState sample_position 5 = UNLOCKED \<and> getVotingTokenAmount [sample_position] 3 = 10"
  using position_states_partition [of 1 5 "[sample_position]" Voting sample_position]
  by (simp add: sample_position_def getPositionState_def getVotingTokenAmount_def)

text \<open>The publishers of a pool keep their own data: when the free slots of the pool are at the end, the entry
  of every publisher is made from the delegations, fees, stake account and events of its own slot.\<close>

theorem extractPublisherData_aligned:
  assumes "pd_publishers pd = ps @ replicate n PublicKey_default" and "PublicKey_default \<notin> set ps"
  shows "extractPublisherData PublicKey_default pd =
    map (\<lambda>i. publisher_entry PublicKey_default pd i (pd_publishers pd ! i)) [0..<length ps]"
proof -
  have "enumerate 0 ps = map (\<lambda>i. (i, pd_publishers pd ! i)) [0..<length ps]"
    by (rule nth_equalityI) (simp_all add: assms(1) nth_enumerate_eq nth_append)
  then show ?thesis
    using filter_default_tail [OF assms(2), of n] assms(1) by (simp add: extractPublisherData_def Let_def comp_def)
qed

definition sample_pool :: "nat PoolDataAccount" where
  "sample_pool = \<lparr> pd_publishers = [5, 6, 0], pd_publisherStakeAccounts = [], pd_delState =
     [\<lparr> totalDelegation = 10, deltaDelegation = 0 \<rparr>, \<lparr> totalDelegation = 20, deltaDelegation = 0 \<rparr>],
     pd_selfDelState = [], pd_delegationFees = [], pd_events = [] \<rparr>"

theorem extractPublisherData_aligned_witness:
  "map (\<lambda>d. (pe_pubkey d, pe_totalDelegation d)) (extractPublisherData 0 sample_pool) = [(5, 10), (6, 20)]"
  using extractPublisherData_aligned [of sample_pool "[5, 6]" 1 0]
  by (simp add: sample_pool_def publisher_entry_def at_or_0_def upt_rec)

text \<open>With a free slot before a publisher the entry is made from the wrong slot.\<close>

lemma extractPublisherData_shifted:
  "map (\<lambda>d. (pe_pubkey d, pe_totalDelegation d)) (extractPublisherData 0 (sample_pool\<lparr> pd_publishers := [0, 6] \<rparr>))
     = [(6, 10)]"
  by (simp add: extractPublisherData_def sample_pool_def publisher_entry_def at_or_0_def enumerate_eq_zip)

text \<open>A vesting schedule with the past periods has one unlock of the same amount at the end of each
  period, in order, and all unlocks together are the balance less the remainder of its division
  by the number of periods; without the past periods it has exactly those that lie in the future.\<close>

theorem unlock_schedule_total:
  assumes "0 \<le> balance" and "0 < n"
  shows "map u_date (getPeriodicUnlockSchedule now balance start d n True) =
           map (\<lambda>j. (start + d * (int j + 1)) * 1000) [0..<nat n] \<and>
         (\<Sum>u\<leftarrow>getPeriodicUnlockSchedule now balance start d n True. u_amount u) = balance - balance mod n \<and>
         getPeriodicUnlockSchedule now balance start d n False =
           filter (\<lambda>u. now < u_date u) (getPeriodicUnlockSchedule now balance start d n True)"
proof -
  have "(\<Sum>u\<leftarrow>getPeriodicUnlockSchedule now balance start d n True. u_amount u) = n * (balance div n)"
    using assms by (simp add: getPeriodicUnlockSchedule_def unlock_loop_all comp_def bigint_div_def sum_list_triv
        sgn_if zdiv_eq_0_iff)
  then show ?thesis
    using minus_mod_eq_mult_div [of balance n]
    by (simp add: getPeriodicUnlockSchedule_def unlock_loop_all unlock_loop_future comp_def)
qed

theorem unlock_schedule_total_witness:
  "(\<Sum>u\<leftarrow>getPeriodicUnlockSchedule 0 10 0 1 3 True. u_amount u) = (9 :: int)"
  using unlock_schedule_total [of 10 3 0 0 1] by simp

end
