(* ===== verification/Staking_Client.thy ===== *)
theory Staking_Client
  imports Staking_Sdk
begin

text \<open>
  \<open>governance/pyth_staking_sdk/src/pyth-staking-client.ts\<close> and \<open>pdas.ts\<close>: the instructions that the client sends for each
  operation on a stake account, and what it computes from the accounts. What the chain answers is the record
  \<open>staking_chain\<close>; the derivation of program addresses is the library function \<open>lib_findProgramAddress\<close>. Every operation
  ends in one call of \<open>sendTransaction\<close>, so it is the list of instructions, or the error it throws.
\<close>

section \<open>Addresses\<close>

record 'pk staking_lib =
  lib_publicKey :: "string \<Rightarrow> 'pk"
  lib_toBuffer :: "'pk \<Rightarrow> bytes"
  lib_findProgramAddress :: "bytes list \<Rightarrow> 'pk \<Rightarrow> 'pk"
  lib_associatedToken :: "'pk \<Rightarrow> 'pk \<Rightarrow> 'pk"
  lib_createWithSeed :: "'pk \<Rightarrow> string \<Rightarrow> 'pk \<Rightarrow> 'pk"

definition STAKING_PROGRAM_ADDRESS :: string where
  "STAKING_PROGRAM_ADDRESS = ''pytS9TjG1qyAZypk7n8rw8gfW9sUaqqYyMhJQ4E7JCQ''"

definition INTEGRITY_POOL_PROGRAM_ADDRESS :: string where
  "INTEGRITY_POOL_PROGRAM_ADDRESS = ''pyti8TM4zRVBjmarcgAPmTNNAXYKJv7WVHrkrm6woLN''"

definition STAKE_CAPS_PARAMETERS_PROGRAM_ADDRESS :: string where
  "STAKE_CAPS_PARAMETERS_PROGRAM_ADDRESS = ''ujSFv8q8woXW5PUnby52PQyxYGUudxkrvgN6A631Qmm''"

definition getConfigAddress :: "'pk staking_lib \<Rightarrow> 'pk" where
  "getConfigAddress B = lib_findProgramAddress B [ascii ''config''] (lib_publicKey B STAKING_PROGRAM_ADDRESS)"

definition getStakeAccountCustodyAddress :: "'pk staking_lib \<Rightarrow> 'pk \<Rightarrow> 'pk" where
  "getStakeAccountCustodyAddress B positions =
     lib_findProgramAddress B [ascii ''custody'', lib_toBuffer B positions] (lib_publicKey B STAKING_PROGRAM_ADDRESS)"

definition getStakeAccountMetadataAddress :: "'pk staking_lib \<Rightarrow> 'pk \<Rightarrow> 'pk" where
  "getStakeAccountMetadataAddress B positions =
     lib_findProgramAddress B [ascii ''stake_metadata'', lib_toBuffer B positions] (lib_publicKey B STAKING_PROGRAM_ADDRESS)"

definition getPoolConfigAddress :: "'pk staking_lib \<Rightarrow> 'pk" where
  "getPoolConfigAddress B = lib_findProgramAddress B [ascii ''pool_config''] (lib_publicKey B INTEGRITY_POOL_PROGRAM_ADDRESS)"

definition getDelegationRecordAddress :: "'pk staking_lib \<Rightarrow> 'pk \<Rightarrow> 'pk \<Rightarrow> 'pk" where
  "getDelegationRecordAddress B positions publisher =
     lib_findProgramAddress B [ascii ''delegation_record'', lib_toBuffer B publisher, lib_toBuffer B positions]
       (lib_publicKey B INTEGRITY_POOL_PROGRAM_ADDRESS)"

definition getTargetAccountAddress :: "'pk staking_lib \<Rightarrow> 'pk" where
  "getTargetAccountAddress B =
     lib_findProgramAddress B [ascii ''target'', ascii ''voting''] (lib_publicKey B STAKING_PROGRAM_ADDRESS)"

definition getVoterWeightRecordAddress :: "'pk staking_lib \<Rightarrow> 'pk \<Rightarrow> 'pk" where
  "getVoterWeightRecordAddress B positions =
     lib_findProgramAddress B [ascii ''voter_weight'', lib_toBuffer B positions] (lib_publicKey B STAKING_PROGRAM_ADDRESS)"

definition getMaxVoterWeightRecordAddress :: "'pk staking_lib \<Rightarrow> 'pk" where
  "getMaxVoterWeightRecordAddress B =
     lib_findProgramAddress B [ascii ''max_voter''] (lib_publicKey B STAKING_PROGRAM_ADDRESS)"

definition getStakeCapsParametersAddress :: "'pk staking_lib \<Rightarrow> 'pk" where
  "getStakeCapsParametersAddress B =
     lib_findProgramAddress B [ascii ''parameters''] (lib_publicKey B STAKE_CAPS_PARAMETERS_PROGRAM_ADDRESS)"

section \<open>The accounts and the instructions\<close>

record 'pk GlobalConfig =
  gc_pythTokenMint :: 'pk
  gc_pythGovernanceRealm :: 'pk
  gc_agreementHash :: bytes
  gc_pythTokenListTime :: "int option"

record stake_metadata =
  sm_signedAgreementHash :: "bytes option"
  sm_lock :: VestingSchedule

text \<open>\<open>sc_simulate\<close> gives the data a simulated instruction returns, if any.\<close>

datatype 'pk staking_ix =
    CreateAccountWithSeed 'pk 'pk string int nat 'pk
  | CreateStakeAccount 'pk 'pk
  | CreateVoterRecord 'pk
  | CreateTokenOwnerRecord 'pk 'pk 'pk
  | JoinDaoLlc bytes 'pk
  | TransferTokens 'pk 'pk 'pk int
  | CreateAssociatedTokenAccount 'pk 'pk 'pk 'pk
  | WithdrawStake int 'pk 'pk
  | CreateVotingPosition int 'pk
  | MergeVotingPositions 'pk
  | CloseVotingPosition nat int 'pk
  | Delegate int 'pk 'pk 'pk
  | Undelegate nat int 'pk 'pk
  | AdvanceDelegationRecord 'pk 'pk "'pk option" "'pk option" 'pk 'pk
  | MergeDelegationPositions 'pk 'pk 'pk
  | SetPublisherStakeAccount 'pk 'pk "'pk option"

record 'pk staking_chain =
  sc_wallet :: 'pk
  sc_globalConfig :: "'pk GlobalConfig result"
  sc_hasGovernanceRecord :: "bool result"
  sc_metadata :: "'pk \<Rightarrow> stake_metadata result"
  sc_positions :: "'pk \<Rightarrow> 'pk Position list result"
  sc_allPositions :: "'pk \<Rightarrow> 'pk list result"
  sc_currentEpoch :: "int result"
  sc_poolData :: "'pk PoolDataAccount result"
  sc_lastEpoch :: "'pk \<Rightarrow> 'pk \<Rightarrow> int option result"
  sc_ataAmount :: "int result"
  sc_minimumBalance :: "nat \<Rightarrow> int result"
  sc_targetLocked :: "int result"
  sc_mintSupply :: "int result"
  sc_simulate :: "'pk staking_ix \<Rightarrow> string option result"

definition getOwnerPythBalance :: "'pk staking_chain \<Rightarrow> int" where
  "getOwnerPythBalance C = (case bindR (sc_globalConfig C) (\<lambda>_. sc_ataAmount C) of Inr n \<Rightarrow> n | Inl _ \<Rightarrow> 0)"

section \<open>Joining, staking and depositing\<close>

definition hasJoinedDaoLlc :: "'pk staking_chain \<Rightarrow> 'pk \<Rightarrow> bool result" where
  "hasJoinedDaoLlc C positions =
     bindR (sc_globalConfig C) (\<lambda>config.
     bindR (sc_metadata C positions) (\<lambda>m. Inr (sm_signedAgreementHash m = Some (gc_agreementHash config))))"

definition getJoinDaoLlcInstruction :: "'pk staking_chain \<Rightarrow> 'pk \<Rightarrow> 'pk staking_ix result" where
  "getJoinDaoLlcInstruction C positions = bindR (sc_globalConfig C) (\<lambda>config. Inr (JoinDaoLlc (gc_agreementHash config) positions))"

text \<open>The instruction that is added unless the condition holds already.\<close>

definition unless :: "bool result \<Rightarrow> 'i result \<Rightarrow> 'i list result" where
  "unless cond ix = bindR cond (\<lambda>b. if b then Inr [] else bindR ix (\<lambda>i. Inr [i]))"

definition stakeToGovernance :: "'pk staking_chain \<Rightarrow> 'pk \<Rightarrow> int \<Rightarrow> 'pk staking_ix list result" where
  "stakeToGovernance C positions amount =
     bindR (sc_globalConfig C) (\<lambda>config.
     bindR (unless (sc_hasGovernanceRecord C)
       (Inr (CreateTokenOwnerRecord (gc_pythGovernanceRealm config) (sc_wallet C) (gc_pythTokenMint config)))) (\<lambda>record.
     bindR (unless (hasJoinedDaoLlc C positions) (getJoinDaoLlcInstruction C positions)) (\<lambda>joins.
       Inr (record @ joins @ [CreateVotingPosition amount positions, MergeVotingPositions positions]))))"

definition stakeToPublisher :: "'pk staking_chain \<Rightarrow> 'pk \<Rightarrow> 'pk \<Rightarrow> int \<Rightarrow> 'pk staking_ix list result" where
  "stakeToPublisher C positions publisher amount =
     bindR (unless (hasJoinedDaoLlc C positions) (getJoinDaoLlcInstruction C positions)) (\<lambda>joins.
       Inr (joins @ [Delegate amount (sc_wallet C) publisher positions]))"

definition POSITIONS_ACCOUNT_SIZE :: nat where
  "POSITIONS_ACCOUNT_SIZE = 8 + 32"

definition createStakeAccountAndDeposit ::
  "'pk staking_lib \<Rightarrow> 'pk staking_chain \<Rightarrow> string \<Rightarrow> int \<Rightarrow> ('pk \<times> 'pk staking_ix list) result" where
  "createStakeAccountAndDeposit B C nonce amount =
     bindR (sc_globalConfig C) (\<lambda>config.
     let senderTokenAccount = lib_associatedToken B (gc_pythTokenMint config) (sc_wallet C);
         program = lib_publicKey B STAKING_PROGRAM_ADDRESS;
         positions = lib_createWithSeed B (sc_wallet C) nonce program in
     bindR (sc_minimumBalance C POSITIONS_ACCOUNT_SIZE) (\<lambda>minimumBalance.
     bindR (unless (sc_hasGovernanceRecord C)
       (Inr (CreateTokenOwnerRecord (gc_pythGovernanceRealm config) (sc_wallet C) (gc_pythTokenMint config)))) (\<lambda>record.
       Inr (positions,
         [CreateAccountWithSeed (sc_wallet C) positions nonce minimumBalance POSITIONS_ACCOUNT_SIZE program,
          CreateStakeAccount (sc_wallet C) positions, CreateVoterRecord positions] @ record @
         [JoinDaoLlc (gc_agreementHash config) positions,
          TransferTokens senderTokenAccount (getStakeAccountCustodyAddress B positions) (sc_wallet C) amount]))))"

definition depositTokensToStakeAccountCustody ::
  "'pk staking_lib \<Rightarrow> 'pk staking_chain \<Rightarrow> 'pk \<Rightarrow> int \<Rightarrow> 'pk staking_ix list result" where
  "depositTokensToStakeAccountCustody B C positions amount =
     bindR (sc_globalConfig C) (\<lambda>config.
       Inr [TransferTokens (lib_associatedToken B (gc_pythTokenMint config) (sc_wallet C)) (getStakeAccountCustodyAddress B positions)
              (sc_wallet C) amount])"

definition withdrawTokensFromStakeAccountCustody ::
  "'pk staking_lib \<Rightarrow> 'pk staking_chain \<Rightarrow> 'pk \<Rightarrow> int \<Rightarrow> 'pk staking_ix list result" where
  "withdrawTokensFromStakeAccountCustody B C positions amount =
     bindR (sc_globalConfig C) (\<lambda>config.
       let mint = gc_pythTokenMint config;
           receiverTokenAccount = lib_associatedToken B mint (sc_wallet C) in
       Inr ((case sc_ataAmount C of
               Inr _ \<Rightarrow> []
             | Inl _ \<Rightarrow> [CreateAssociatedTokenAccount (sc_wallet C) receiverTokenAccount (sc_wallet C) mint]) @
            [WithdrawStake amount receiverTokenAccount positions]))"

definition setPublisherStakeAccount :: "'pk \<Rightarrow> 'pk \<Rightarrow> 'pk option \<Rightarrow> 'pk staking_ix list" where
  "setPublisherStakeAccount publisher positions newPositions = [SetPublisherStakeAccount publisher positions newPositions]"

definition reassignPublisherStakeAccount :: "'pk \<Rightarrow> 'pk \<Rightarrow> 'pk \<Rightarrow> 'pk staking_ix list" where
  "reassignPublisherStakeAccount publisher positions newPositions = setPublisherStakeAccount publisher positions (Some newPositions)"

definition removePublisherStakeAccount :: "'pk \<Rightarrow> 'pk \<Rightarrow> 'pk staking_ix list" where
  "removePublisherStakeAccount publisher positions = setPublisherStakeAccount publisher positions None"

section \<open>Unstaking\<close>

text \<open>The positions with their indexes, the last one first.\<close>

definition indexed_reversed :: "'pk Position list \<Rightarrow> (nat \<times> 'pk Position) list" where
  "indexed_reversed ps = rev (enumerate 0 ps)"

fun close_positions :: "(nat \<Rightarrow> int \<Rightarrow> 'i) \<Rightarrow> (nat \<times> 'pk Position) list \<Rightarrow> int \<Rightarrow> 'i list" where
  "close_positions ix [] remainingAmount = []"
| "close_positions ix ((index, position) # ps) remainingAmount =
     (if pos_amount position < remainingAmount
      then ix index (pos_amount position) # close_positions ix ps (remainingAmount - pos_amount position)
      else [ix index remainingAmount])"

definition unstakeFromGovernance :: "'pk staking_chain \<Rightarrow> 'pk \<Rightarrow> PositionState \<Rightarrow> int \<Rightarrow> 'pk staking_ix list result" where
  "unstakeFromGovernance C positions positionState amount =
     bindR (sc_positions C positions) (\<lambda>ps.
     bindR (sc_currentEpoch C) (\<lambda>currentEpoch.
       let eligiblePositions = filter (\<lambda>(index, p). pos_target p = Voting \<and> positionState = getPositionState p currentEpoch)
             (indexed_reversed ps) in
       Inr (close_positions (\<lambda>index a. CloseVotingPosition index a positions) eligiblePositions amount)))"

definition unstakeFromPublisher :: "'pk staking_chain \<Rightarrow> 'pk \<Rightarrow> 'pk \<Rightarrow> PositionState \<Rightarrow> int \<Rightarrow> 'pk staking_ix list result" where
  "unstakeFromPublisher C positions publisher positionState amount =
     bindR (sc_positions C positions) (\<lambda>ps.
     bindR (sc_currentEpoch C) (\<lambda>currentEpoch.
       let eligiblePositions = filter (\<lambda>(index, p). pos_target p = IntegrityPool publisher \<and> positionState = getPositionState p currentEpoch)
             (indexed_reversed ps) in
       Inr (close_positions (\<lambda>index a. Undelegate index a positions publisher) eligiblePositions amount)))"

definition unstakeFromAllPublishers :: "'pk staking_chain \<Rightarrow> 'pk \<Rightarrow> PositionState list \<Rightarrow> 'pk staking_ix list result" where
  "unstakeFromAllPublishers C positions positionStates =
     bindR (sc_positions C positions) (\<lambda>ps.
     bindR (sc_currentEpoch C) (\<lambda>currentEpoch.
       Inr (List.map_filter (\<lambda>(index, p). case pos_target p of
           Voting \<Rightarrow> None
         | IntegrityPool publisher \<Rightarrow>
             if getPositionState p currentEpoch \<in> set positionStates then Some (Undelegate index (pos_amount p) positions publisher) else None)
         (indexed_reversed ps))))"

section \<open>Rewards\<close>

text \<open>A publisher with the smallest activation epoch of the positions that delegate to it.\<close>

definition publisher_epochs :: "'pk \<Rightarrow> 'pk PoolDataAccount \<Rightarrow> 'pk Position list \<Rightarrow> ('pk PublisherEntry \<times> int) list" where
  "publisher_epochs PublicKey_default poolData ps =
     List.map_filter (\<lambda>publisher.
       map_option (\<lambda>lowestEpoch. (publisher, lowestEpoch))
         (foldl (\<lambda>lowestEpoch p. bigintMin (Some (pos_activationEpoch p)) lowestEpoch) None
           (filter (\<lambda>p. pos_target p = IntegrityPool (pe_pubkey publisher)) ps)))
       (extractPublisherData PublicKey_default poolData)"

definition lowest_epoch :: "(('pk PublisherEntry \<times> int) \<times> int option) list \<Rightarrow> int option" where
  "lowest_epoch records =
     foldl (\<lambda>lowestEpoch ((publisher, epoch), lastEpoch). bigintMin lowestEpoch (bigintMax (Some epoch) lastEpoch)) None records"

record 'pk advance_instructions =
  ai_advanceDelegationRecordInstructions :: "'pk staking_ix list"
  ai_mergePositionsInstruction :: "'pk staking_ix list"
  ai_lowestEpoch :: "int option"

definition getAdvanceDelegationRecordInstructions ::
  "'pk staking_lib \<Rightarrow> 'pk staking_chain \<Rightarrow> 'pk \<Rightarrow> 'pk \<Rightarrow> 'pk option \<Rightarrow> 'pk advance_instructions result" where
  "getAdvanceDelegationRecordInstructions B C PublicKey_default positions payerOption =
     bindR (sc_poolData C) (\<lambda>poolData.
     bindR (sc_positions C positions) (\<lambda>ps.
     let publishers = publisher_epochs PublicKey_default poolData ps in
     bindR (mapR (\<lambda>(publisher, _). sc_lastEpoch C positions (pe_pubkey publisher)) publishers) (\<lambda>delegationRecords.
     bindR (sc_currentEpoch C) (\<lambda>currentEpoch.
       let records = zip publishers delegationRecords;
           filteredPublishers = map (\<lambda>((publisher, _), _). publisher) (filter (\<lambda>(_, lastEpoch). lastEpoch \<noteq> Some currentEpoch) records) in
       Inr \<lparr> ai_advanceDelegationRecordInstructions = map (\<lambda>publisher.
               AdvanceDelegationRecord (case payerOption of Some p \<Rightarrow> p | None \<Rightarrow> sc_wallet C) (pe_pubkey publisher) (pe_stakeAccount publisher)
                 (map_option (getStakeAccountCustodyAddress B) (pe_stakeAccount publisher)) positions
                 (getStakeAccountCustodyAddress B positions)) filteredPublishers,
             ai_mergePositionsInstruction = map (\<lambda>(publisher, _).
               MergeDelegationPositions (sc_wallet C) (pe_pubkey publisher) positions) publishers,
             ai_lowestEpoch = lowest_epoch records \<rparr>))))"

definition advanceDelegationRecord where
  "advanceDelegationRecord B C PublicKey_default positions =
     bindR (getAdvanceDelegationRecordInstructions B C PublicKey_default positions None) (\<lambda>instructions.
       Inr (ai_advanceDelegationRecordInstructions instructions @ ai_mergePositionsInstruction instructions))"

text \<open>The returned data is the reward in little endian; \<open>BigInt("0x")\<close> of empty data throws.\<close>

definition reward_of :: "string option \<Rightarrow> int result" where
  "reward_of val =
     (case val of
        None \<Rightarrow> Inr 0
      | Some v \<Rightarrow> if from_base64 v = [] then Inl (JsError ''Cannot convert 0x to a BigInt'') else Inr (int (be_nat (rev (from_base64 v)))))"

definition getClaimableRewards where
  "getClaimableRewards B C PublicKey_default positions simulationPayer =
     bindR (getAdvanceDelegationRecordInstructions B C PublicKey_default positions simulationPayer) (\<lambda>instructions.
     bindR (mapR (\<lambda>instruction. bindR (sc_simulate C instruction) reward_of) (ai_advanceDelegationRecordInstructions instructions)) (\<lambda>rewards.
       Inr (foldl (+) 0 rewards, map_option (\<lambda>lowestEpoch. epochToDate (lowestEpoch + 53)) (ai_lowestEpoch instructions))))"

section \<open>Supply and voting\<close>

definition client_getUnlockSchedule :: "'pk staking_chain \<Rightarrow> int \<Rightarrow> 'pk \<Rightarrow> bool \<Rightarrow> UnlockSchedule result" where
  "client_getUnlockSchedule C now positions includePastPeriods =
     bindR (sc_metadata C positions) (\<lambda>metadata.
     bindR (sc_globalConfig C) (\<lambda>config.
       case gc_pythTokenListTime config of
         None \<Rightarrow> Inl (JsError ''Pyth token list time not set in global config'')
       | Some listTime \<Rightarrow> Inr (getUnlockSchedule now listTime (sm_lock metadata) includePastPeriods)))"

definition ONE_YEAR_IN_SECONDS :: int where "ONE_YEAR_IN_SECONDS = 365 * (24 * (60 * 60))"

fun schedule_of :: "UnlockSchedule \<Rightarrow> unlock list" where
  "schedule_of FullyUnlocked = []"
| "schedule_of (PeriodicUnlockingAfterListing us) = us"
| "schedule_of (PeriodicUnlocking us) = us"

definition getCirculatingSupply :: "'pk staking_chain \<Rightarrow> int \<Rightarrow> int result" where
  "getCirculatingSupply C now =
     (let vestingSchedule = PeriodicVestingAfterListing
        \<lparr> v_initialBalance = 8500000000 * FRACTION_PRECISION_N, v_startDate = 0, v_periodDuration = ONE_YEAR_IN_SECONDS, v_numPeriods = 4 \<rparr> in
      bindR (sc_globalConfig C) (\<lambda>config.
        case gc_pythTokenListTime config of
          None \<Rightarrow> Inl (JsError ''Pyth token list time not set in global config'')
        | Some listTime \<Rightarrow>
            (let totalLocked = foldl (\<lambda>total unlock. total + u_amount unlock) 0 (schedule_of (getUnlockSchedule now listTime vestingSchedule False)) in
             bindR (sc_mintSupply C) (\<lambda>supply. Inr (supply - totalLocked)))))"

definition MAX_VOTER_WEIGHT :: int where "MAX_VOTER_WEIGHT = 10000000000000000"

definition getScalingFactor :: "'pk staking_chain \<Rightarrow> js_number result" where
  "getScalingFactor C = bindR (sc_targetLocked C) (\<lambda>locked. Inr (js_div (number_of_int locked) (number_of_int MAX_VOTER_WEIGHT)))"

text \<open>The accounts with their voting tokens; the loop keeps the first one with the most.\<close>

definition max_account :: "('pk \<times> int) list \<Rightarrow> ('pk \<times> int) option" where
  "max_account accounts =
     (case accounts of
        [] \<Rightarrow> None
      | mainAccount # others \<Rightarrow>
          Some (foldl (\<lambda>mainAccount currentAccount. if snd currentAccount > snd mainAccount then currentAccount else mainAccount) mainAccount others))"

definition getMainStakeAccount :: "'pk staking_chain \<Rightarrow> 'pk \<Rightarrow> ('pk \<times> int) option result" where
  "getMainStakeAccount C owner =
     bindR (sc_allPositions C owner) (\<lambda>accounts.
     bindR (sc_currentEpoch C) (\<lambda>currentEpoch.
     bindR (mapR (\<lambda>a. bindR (sc_positions C a) (\<lambda>ps. Inr (a, getVotingTokenAmount ps currentEpoch))) accounts) (\<lambda>votes.
       Inr (max_account votes))))"

definition getVoterWeight :: "'pk staking_chain \<Rightarrow> 'pk \<Rightarrow> int result" where
  "getVoterWeight C owner =
     bindR (getMainStakeAccount C owner) (\<lambda>mainAccount.
       case mainAccount of
         None \<Rightarrow> Inr 0
       | Some (_, votingTokens) \<Rightarrow>
           bindR (sc_targetLocked C) (\<lambda>locked.
             if locked = 0 then Inl RangeError else Inr (bigint_div (votingTokens * MAX_VOTER_WEIGHT) locked)))"

section \<open>Lemmas\<close>

text \<open>The positions that a call closes, with the amounts.\<close>

definition eligible :: "('pk Position \<Rightarrow> bool) \<Rightarrow> 'pk Position list \<Rightarrow> (nat \<times> 'pk Position) list" where
  "eligible ok ps = filter (\<lambda>(index, p). ok p) (indexed_reversed ps)"

lemma eligible_sum: "(\<Sum>(i, p)\<leftarrow>eligible ok ps. pos_amount p) = (\<Sum>p\<leftarrow>ps. if ok p then pos_amount p else 0)"
proof -
  have "(\<Sum>(i, p)\<leftarrow>filter (\<lambda>(i, p). ok p) xs. pos_amount p) = (\<Sum>p\<leftarrow>map snd xs. if ok p then pos_amount p else 0)"
    for xs :: "(nat \<times> 'a Position) list"
    by (induction xs) auto
  then have "(\<Sum>(i, p)\<leftarrow>eligible ok ps. pos_amount p) = (\<Sum>p\<leftarrow>map snd (rev (enumerate 0 ps)). if ok p then pos_amount p else 0)"
    by (simp only: eligible_def indexed_reversed_def)
  also have "map snd (rev (enumerate 0 ps)) = rev ps" by (simp flip: rev_map)
  finally show ?thesis by (simp only: rev_map [symmetric] sum_list_rev)
qed

lemma eligible_sorted: "sorted_wrt (>) (map fst (eligible ok ps))"
proof -
  have "sorted_wrt (\<lambda>x y. fst x > fst y) (rev (enumerate 0 ps))"
    by (simp add: sorted_wrt_rev flip: sorted_wrt_map [of "(<)" fst] strict_sorted_iff)
  then show ?thesis
    by (simp add: eligible_def indexed_reversed_def sorted_wrt_map sorted_wrt_filter)
qed

lemma eligible_nth: "(i, p) \<in> set (eligible ok ps) \<Longrightarrow> i < length ps \<and> p = ps ! i \<and> ok (ps ! i)"
  by (auto simp: eligible_def indexed_reversed_def in_set_enumerate_eq)

lemma close_positions_map: "close_positions ix es r = map (\<lambda>(i, a). ix i a) (close_positions Pair es r)"
  by (induction es arbitrary: r) auto

lemma close_positions_sum:
  "0 \<le> r \<Longrightarrow> list_all (\<lambda>(i, p). 0 \<le> pos_amount p) es \<Longrightarrow>
   (\<Sum>(i, a)\<leftarrow>close_positions Pair es r. a) = min r (\<Sum>(i, p)\<leftarrow>es. pos_amount p)"
proof (induction es arbitrary: r)
  case (Cons e es)
  then have "0 \<le> (\<Sum>(i, p)\<leftarrow>es. pos_amount p)" by (auto intro!: sum_list_nonneg simp: list_all_iff)
  with Cons show ?case by (cases e) auto
qed simp

lemma close_positions_prefix:
  "\<exists>k. map fst (close_positions Pair es r) = map fst (take k es) \<and>
    (\<forall>j < length (close_positions Pair es r). snd (close_positions Pair es r ! j) \<le> pos_amount (snd (es ! j)) \<and>
      (Suc j < length (close_positions Pair es r) \<longrightarrow> snd (close_positions Pair es r ! j) = pos_amount (snd (es ! j))))"
proof (induction es arbitrary: r)
  case (Cons e es)
  obtain i p where e: "e = (i, p)" by fastforce
  show ?case
  proof (cases "pos_amount p < r")
    case True
    from Cons obtain k where k: "map fst (close_positions Pair es (r - pos_amount p)) = map fst (take k es)"
      "\<forall>j < length (close_positions Pair es (r - pos_amount p)).
         snd (close_positions Pair es (r - pos_amount p) ! j) \<le> pos_amount (snd (es ! j)) \<and>
         (Suc j < length (close_positions Pair es (r - pos_amount p)) \<longrightarrow>
           snd (close_positions Pair es (r - pos_amount p) ! j) = pos_amount (snd (es ! j)))" by blast
    then show ?thesis using True by (intro exI [of _ "Suc k"]) (auto simp: e nth_Cons split: nat.split)
  next
    case False
    then show ?thesis by (intro exI [of _ 1]) (simp add: e)
  qed
qed simp

text \<open>What an unstaking call sends, for the positions that satisfy \<open>ok\<close>.\<close>

definition closes_correctly :: "('pk Position \<Rightarrow> bool) \<Rightarrow> 'pk Position list \<Rightarrow> int \<Rightarrow> (nat \<times> int) list \<Rightarrow> bool" where
  "closes_correctly ok ps amount cs \<longleftrightarrow>
     (\<Sum>(i, a)\<leftarrow>cs. a) = min amount (\<Sum>p\<leftarrow>ps. if ok p then pos_amount p else 0) \<and>
     sorted_wrt (>) (map fst cs) \<and>
     (\<forall>j < length cs. fst (cs ! j) < length ps \<and> ok (ps ! fst (cs ! j)) \<and>
        snd (cs ! j) \<le> pos_amount (ps ! fst (cs ! j)) \<and>
        (Suc j < length cs \<longrightarrow> snd (cs ! j) = pos_amount (ps ! fst (cs ! j))))"

lemma close_positions_correct:
  assumes "0 \<le> amount" "list_all (\<lambda>p. 0 \<le> pos_amount p) ps"
  shows "closes_correctly ok ps amount (close_positions Pair (eligible ok ps) amount)"
proof -
  let ?es = "eligible ok ps" and ?cs = "close_positions Pair (eligible ok ps) amount"
  obtain k where k: "map fst ?cs = map fst (take k ?es)" and amounts: "\<forall>j < length ?cs. snd (?cs ! j) \<le> pos_amount (snd (?es ! j)) \<and>
      (Suc j < length ?cs \<longrightarrow> snd (?cs ! j) = pos_amount (snd (?es ! j)))" using close_positions_prefix by blast
  have nonneg: "list_all (\<lambda>(i, p). 0 \<le> pos_amount p) ?es"
    using assms(2) eligible_nth [of _ _ ok ps] by (fastforce simp: list_all_iff in_set_conv_nth)
  have sum: "(\<Sum>(i, a)\<leftarrow>?cs. a) = min amount (\<Sum>p\<leftarrow>ps. if ok p then pos_amount p else 0)"
    using close_positions_sum [OF assms(1) nonneg] by (simp only: eligible_sum)
  have "sorted_wrt (>) (map fst ?cs)"
    using eligible_sorted [of ok ps] k by (simp add: sorted_wrt_take flip: take_map)
  moreover have "fst (?cs ! j) < length ps \<and> snd (?es ! j) = ps ! fst (?cs ! j) \<and> ok (ps ! fst (?cs ! j))" if "j < length ?cs" for j
  proof -
    have len: "length ?cs = length (take k ?es)" using arg_cong [OF k, of length] by simp
    have "map fst ?cs ! j = map fst (take k ?es) ! j" using k by simp
    then have fst: "fst (?cs ! j) = fst (?es ! j)" and "?es ! j \<in> set ?es" using that len by simp_all
    then show ?thesis using eligible_nth [of "fst (?es ! j)" "snd (?es ! j)" ok ps] by simp
  qed
  ultimately show ?thesis using sum amounts unfolding closes_correctly_def by simp
qed

lemma first_max:
  "foldl (\<lambda>m c. if snd c > snd m then c else m) a xs \<in> set (a # xs) \<and>
   (\<forall>x \<in> set (a # xs). snd x \<le> (snd (foldl (\<lambda>m c. if snd c > snd m then c else m) a xs) :: int))"
proof (induction xs arbitrary: a)
  case (Cons x xs)
  show ?case
  proof (cases "snd x > snd a")
    case True
    then show ?thesis using Cons [of x] by auto
  next
    case False
    then show ?thesis using Cons [of a] by auto
  qed
qed simp

section \<open>Properties\<close>

text \<open>C38. Unstaking: for an amount that is not negative, the positions closed are eligible ones with amounts that add up to
  the requested amount, or to all of the eligible stake when that is less; the indexes descend, so that closing a position
  never moves one that is still to be closed, and only the last position may be closed in part.\<close>

theorem unstaking_closes_amount:
  assumes "sc_positions C acc = Inr ps" "sc_currentEpoch C = Inr e" "0 \<le> amount" "list_all (\<lambda>p. 0 \<le> pos_amount p) ps"
  shows "(\<exists>cs. unstakeFromGovernance C acc st amount = Inr (map (\<lambda>(i, a). CloseVotingPosition i a acc) cs) \<and>
      closes_correctly (\<lambda>p. pos_target p = Voting \<and> st = getPositionState p e) ps amount cs \<and>
      (\<Sum>(i, a)\<leftarrow>cs. a) = min amount (getAmountByTargetAndState ps Voting st e)) \<and>
    (\<exists>cs. unstakeFromPublisher C acc pub st amount = Inr (map (\<lambda>(i, a). Undelegate i a acc pub) cs) \<and>
      closes_correctly (\<lambda>p. pos_target p = IntegrityPool pub \<and> st = getPositionState p e) ps amount cs \<and>
      (\<Sum>(i, a)\<leftarrow>cs. a) = min amount (getAmountByTargetAndState ps (IntegrityPool pub) st e))"
proof -
  let ?g = "\<lambda>p. pos_target p = Voting \<and> st = getPositionState p e"
  let ?p = "\<lambda>p. pos_target p = IntegrityPool pub \<and> st = getPositionState p e"
  have total: "(\<Sum>p\<leftarrow>ps. if ?g p then pos_amount p else 0) = getAmountByTargetAndState ps Voting st e"
    "(\<Sum>p\<leftarrow>ps. if ?p p then pos_amount p else 0) = getAmountByTargetAndState ps (IntegrityPool pub) st e"
    unfolding amount_sum by (auto intro!: arg_cong [of _ _ sum_list] map_cong simp: same_target_def split: TargetWithParameters.split)
  have "unstakeFromGovernance C acc st amount =
      Inr (map (\<lambda>(i, a). CloseVotingPosition i a acc) (close_positions Pair (eligible ?g ps) amount))"
    using assms(1,2) close_positions_map [of "\<lambda>i a. CloseVotingPosition i a acc" "eligible ?g ps" amount]
    by (simp add: unstakeFromGovernance_def eligible_def)
  moreover have "unstakeFromPublisher C acc pub st amount =
      Inr (map (\<lambda>(i, a). Undelegate i a acc pub) (close_positions Pair (eligible ?p ps) amount))"
    using assms(1,2) close_positions_map [of "\<lambda>i a. Undelegate i a acc pub" "eligible ?p ps" amount]
    by (simp add: unstakeFromPublisher_def eligible_def)
  ultimately show ?thesis
    using close_positions_correct [OF assms(3,4), of ?g] close_positions_correct [OF assms(3,4), of ?p]
    unfolding total [symmetric] by (auto simp: closes_correctly_def)
qed

lemma unstaking_closes_amount_witness:
  "let p = \<lambda>a t. \<lparr> pos_amount = a, pos_target = t, pos_activationEpoch = 2, pos_unlockingStart = None \<rparr>;
       C = \<lparr> sc_wallet = 1 :: nat, sc_globalConfig = Inl TypeError, sc_hasGovernanceRecord = Inr True, sc_metadata = (\<lambda>_. Inl TypeError),
         sc_positions = (\<lambda>_. Inr [p 10 Voting, p 20 (IntegrityPool 7), p 30 Voting]), sc_allPositions = (\<lambda>_. Inr []), sc_currentEpoch = Inr 5,
         sc_poolData = Inl TypeError, sc_lastEpoch = (\<lambda>_ _. Inr None), sc_ataAmount = Inr 0, sc_minimumBalance = (\<lambda>_. Inr 0),
         sc_targetLocked = Inr 1, sc_mintSupply = Inr 1, sc_simulate = (\<lambda>_. Inr None) \<rparr>
   in unstakeFromGovernance C 3 LOCKED 34 = Inr [CloseVotingPosition 2 30 3, CloseVotingPosition 0 4 3] \<and>
      (\<exists>cs. unstakeFromGovernance C 3 LOCKED 34 = Inr (map (\<lambda>(i, a). CloseVotingPosition i a 3) cs) \<and> (\<Sum>(i, a)\<leftarrow>cs. a) = 34)"
proof -
  let ?p = "\<lambda>a t. \<lparr> pos_amount = a, pos_target = t, pos_activationEpoch = 2, pos_unlockingStart = None \<rparr>"
  let ?C = "\<lparr> sc_wallet = 1 :: nat, sc_globalConfig = Inl TypeError, sc_hasGovernanceRecord = Inr True, sc_metadata = (\<lambda>_. Inl TypeError),
     sc_positions = (\<lambda>_. Inr [?p 10 Voting, ?p 20 (IntegrityPool 7), ?p 30 Voting]), sc_allPositions = (\<lambda>_. Inr []), sc_currentEpoch = Inr 5,
     sc_poolData = Inl TypeError, sc_lastEpoch = (\<lambda>_ _. Inr None), sc_ataAmount = Inr 0, sc_minimumBalance = (\<lambda>_. Inr 0),
     sc_targetLocked = Inr 1, sc_mintSupply = Inr 1, sc_simulate = (\<lambda>_. Inr None) \<rparr>"
  have "\<exists>cs. unstakeFromGovernance ?C 3 LOCKED 34 = Inr (map (\<lambda>(i, a). CloseVotingPosition i a 3) cs) \<and> (\<Sum>(i, a)\<leftarrow>cs. a) = 34"
    using unstaking_closes_amount [of ?C 3 "[?p 10 Voting, ?p 20 (IntegrityPool 7), ?p 30 Voting]" 5 34 LOCKED 7, THEN conjunct1]
    by (simp add: getAmountByTargetAndState_def getPositionState_def same_target_def) blast
  moreover have "unstakeFromGovernance ?C 3 LOCKED 34 = Inr [CloseVotingPosition 2 30 3, CloseVotingPosition 0 4 3]"
    by (simp add: unstakeFromGovernance_def indexed_reversed_def getPositionState_def)
  ultimately show ?thesis by simp
qed

text \<open>The main account of an owner is one of the accounts with the most voting tokens.\<close>

theorem main_account_has_most:
  assumes "max_account accounts = Some (a, n)"
  shows "(a, n) \<in> set accounts \<and> (\<forall>(b, m) \<in> set accounts. m \<le> n)"
  using assms first_max [of "hd accounts" "tl accounts"] by (cases accounts) (auto simp: max_account_def)

text \<open>The claimable reward is the sum of the little-endian numbers that the simulated instructions return.\<close>

theorem reward_little_endian:
  "from_base64 v \<noteq> [] \<Longrightarrow> reward_of (Some v) = Inr (int (le_nat (from_base64 v)))"
  by (simp add: reward_of_def be_nat_def)

end
