(* ===== verification/Staking_App.thy ===== *)
theory Staking_App
  imports Staking_Client
begin

text \<open>
  \<open>apps/staking/src/api.ts\<close>: what the staking application shows for a stake account, and the operations behind its
  buttons. The requests that are not made through the staking client (rankings, caps, numbers of symbols, the names of
  publishers) are arguments. \<open>Promise.all\<close> rejects with the first rejection; the model throws the first error in the order of the list.
\<close>

section \<open>What is shown\<close>

record apy_point =
  ap_date :: int
  ap_apy :: js_number
  ap_selfApy :: js_number

record shown_positions =
  warmup :: int
  staked :: int
  cooldown :: int
  cooldown2 :: int

record ('pk, 'i) PublisherInfo =
  sp_identity :: "'i option"
  sp_publicKey :: 'pk
  sp_stakeAccount :: "'pk option"
  sp_selfStake :: int
  sp_selfStakeDelta :: int
  sp_poolCapacity :: int
  sp_poolUtilization :: int
  sp_poolUtilizationDelta :: int
  sp_numFeeds :: int
  sp_qualityRanking :: int
  sp_delegationFee :: int
  sp_apyHistory :: "apy_point list"
  sp_positions :: "shown_positions option"

record ('pk, 'i) Data =
  d_total :: int
  d_availableRewards :: int
  d_currentEpoch :: int
  d_expiringRewards :: "int option"
  d_unlockSchedule :: "unlock list"
  d_walletAmount :: int
  d_governance :: shown_positions
  d_yieldRate :: int
  d_m :: int
  d_z :: int
  d_integrityStakingPublishers :: "('pk, 'i) PublisherInfo list"

text \<open>The answers of the services. \<open>ap_publisherCaps\<close> are the caps of the first parsed update, if there is one.\<close>

record ('pk, 'i) app_env =
  app_chain :: "'pk staking_chain"
  app_lib :: "'pk staking_lib"
  app_toBase58 :: "'pk \<Rightarrow> string"
  app_PublicKey_default :: 'pk
  app_publisherRankings :: "(string \<times> int) list result"
  app_publisherCaps :: "(string \<times> int) list option result"
  app_numberOfSymbols :: "(string \<rightharpoonup> int) result"
  app_lookup :: "string \<Rightarrow> 'i option"
  app_yieldRate :: "int result"
  app_stakeCapParameters :: "(int \<times> int) result"
  app_custodyAmount :: "'pk \<Rightarrow> int result"

definition getPublisherCap :: "(string \<times> int) list option \<Rightarrow> string \<Rightarrow> int" where
  "getPublisherCap publisherCaps publisher =
     (case publisherCaps of
        None \<Rightarrow> 0
      | Some caps \<Rightarrow> (case List.find (\<lambda>(p, cap). p = publisher) caps of None \<Rightarrow> 0 | Some (p, cap) \<Rightarrow> cap))"

definition shown_publisher ::
  "('pk, 'i) app_env \<Rightarrow> (string \<times> int) list \<Rightarrow> (string \<times> int) list option \<Rightarrow> (string \<rightharpoonup> int) \<Rightarrow> 'pk PublisherEntry \<Rightarrow>
   ('pk, 'i) PublisherInfo" where
  "shown_publisher A publisherRankings publisherCaps numberOfSymbols publisher =
     (let key = app_toBase58 A (pe_pubkey publisher) in
      \<lparr> sp_identity = app_lookup A key, sp_publicKey = pe_pubkey publisher, sp_stakeAccount = pe_stakeAccount publisher,
        sp_selfStake = pe_selfDelegation publisher, sp_selfStakeDelta = pe_selfDelegationDelta publisher,
        sp_poolCapacity = getPublisherCap publisherCaps key,
        sp_poolUtilization = pe_totalDelegation publisher, sp_poolUtilizationDelta = pe_totalDelegationDelta publisher,
        sp_numFeeds = (case numberOfSymbols key of Some n \<Rightarrow> n | None \<Rightarrow> 0),
        sp_qualityRanking = (case List.find (\<lambda>(p, rank). p = key) publisherRankings of Some (p, rank) \<Rightarrow> rank | None \<Rightarrow> 0),
        sp_delegationFee = pe_delegationFee publisher,
        sp_apyHistory = map (\<lambda>e. \<lparr> ap_date = epochToDate (ae_epoch e + 1), ap_apy = ae_apy e, ap_selfApy = ae_selfApy e \<rparr>) (pe_apyHistory publisher),
        sp_positions = None \<rparr>)"

definition loadPublisherData :: "('pk, 'i) app_env \<Rightarrow> ('pk, 'i) PublisherInfo list result" where
  "loadPublisherData A =
     bindR (sc_poolData (app_chain A)) (\<lambda>poolData.
     bindR (app_publisherRankings A) (\<lambda>publisherRankings.
     bindR (app_publisherCaps A) (\<lambda>publisherCaps.
     bindR (app_numberOfSymbols A) (\<lambda>numberOfSymbols.
       Inr (map (shown_publisher A publisherRankings publisherCaps numberOfSymbols)
         (extractPublisherData (app_PublicKey_default A) poolData))))))"

text \<open>The base information with the other fields of an application without a stake account.\<close>

definition no_positions :: shown_positions where
  "no_positions = \<lparr> warmup = 0, staked = 0, cooldown = 0, cooldown2 = 0 \<rparr>"

definition loadDataNoStakeAccount :: "('pk, 'i) app_env \<Rightarrow> ('pk, 'i) Data result" where
  "loadDataNoStakeAccount A =
     bindR (loadPublisherData A) (\<lambda>publishers.
     let walletAmount = getOwnerPythBalance (app_chain A) in
     bindR (app_yieldRate A) (\<lambda>y.
     bindR (sc_currentEpoch (app_chain A)) (\<lambda>currentEpoch.
     bindR (app_stakeCapParameters A) (\<lambda>(m, z).
       Inr \<lparr> d_total = 0, d_availableRewards = 0, d_currentEpoch = currentEpoch, d_expiringRewards = None, d_unlockSchedule = [],
             d_walletAmount = walletAmount, d_governance = no_positions, d_yieldRate = y, d_m = m, d_z = z,
             d_integrityStakingPublishers = publishers \<rparr>))))"

definition positions_of :: "'pk Position list \<Rightarrow> int \<Rightarrow> 'pk TargetWithParameters \<Rightarrow> shown_positions" where
  "positions_of ps epoch target =
     \<lparr> warmup = getAmountByTargetAndState ps target LOCKING epoch, staked = getAmountByTargetAndState ps target LOCKED epoch,
       cooldown = getAmountByTargetAndState ps target PREUNLOCKING epoch, cooldown2 = getAmountByTargetAndState ps target UNLOCKING epoch \<rparr>"

text \<open>\<open>loadBaseInfo\<close> is what an application without an account loads, too. \<open>now\<close> is the time of the unlock schedule.\<close>

definition loadDataForStakeAccount :: "('pk, 'i) app_env \<Rightarrow> int \<Rightarrow> 'pk \<Rightarrow> 'pk option \<Rightarrow> ('pk, 'i) Data result" where
  "loadDataForStakeAccount A now stakeAccount simulationPayer =
     (let C = app_chain A in
      bindR (loadDataNoStakeAccount A) (\<lambda>base.
      bindR (app_custodyAmount A stakeAccount) (\<lambda>custody.
      bindR (client_getUnlockSchedule C now stakeAccount False) (\<lambda>unlockSchedule.
      bindR (getClaimableRewards (app_lib A) C (app_PublicKey_default A) stakeAccount simulationPayer) (\<lambda>(totalRewards, expiry).
      bindR (sc_positions C stakeAccount) (\<lambda>ps.
        Inr (base\<lparr> d_total := custody, d_availableRewards := totalRewards, d_expiringRewards := expiry,
                   d_unlockSchedule := schedule_of unlockSchedule,
                   d_governance := positions_of ps (d_currentEpoch base) Voting,
                   d_integrityStakingPublishers :=
                     map (\<lambda>publisher. publisher\<lparr> sp_positions := Some (positions_of ps (d_currentEpoch base) (IntegrityPool (sp_publicKey publisher))) \<rparr>)
                       (d_integrityStakingPublishers base) \<rparr>)))))))"

definition loadData :: "('pk, 'i) app_env \<Rightarrow> int \<Rightarrow> 'pk option \<Rightarrow> 'pk option \<Rightarrow> ('pk, 'i) Data result" where
  "loadData A now stakeAccount simulationPayer =
     (case stakeAccount of
        None \<Rightarrow> loadDataNoStakeAccount A
      | Some account \<Rightarrow> loadDataForStakeAccount A now account simulationPayer)"

section \<open>The operations\<close>

definition cancelWarmupGovernance where
  "cancelWarmupGovernance C stakeAccount amount = unstakeFromGovernance C stakeAccount LOCKING amount"

definition unstakeGovernance where
  "unstakeGovernance C stakeAccount amount = unstakeFromGovernance C stakeAccount LOCKED amount"

definition cancelWarmupIntegrityStaking where
  "cancelWarmupIntegrityStaking C stakeAccount publisherKey amount = unstakeFromPublisher C stakeAccount publisherKey LOCKING amount"

definition unstakeIntegrityStaking where
  "unstakeIntegrityStaking C stakeAccount publisherKey amount = unstakeFromPublisher C stakeAccount publisherKey LOCKED amount"

definition unstakeAllIntegrityStaking where
  "unstakeAllIntegrityStaking C stakeAccount = unstakeFromAllPublishers C stakeAccount [LOCKED, LOCKING]"

definition delegateIntegrityStaking where
  "delegateIntegrityStaking C stakeAccount publisherKey amount = stakeToPublisher C stakeAccount publisherKey amount"

definition claim where
  "claim A stakeAccount = advanceDelegationRecord (app_lib A) (app_chain A) (app_PublicKey_default A) stakeAccount"

definition reassignPublisherAccount where
  "reassignPublisherAccount stakeAccount targetAccount publisherKey = reassignPublisherStakeAccount publisherKey stakeAccount targetAccount"

definition optPublisherOut where
  "optPublisherOut stakeAccount publisherKey = removePublisherStakeAccount publisherKey stakeAccount"

section \<open>Lemmas\<close>

text \<open>The stake that a list of instructions takes out of governance or from a publisher.\<close>

definition closed_voting :: "'pk staking_ix list \<Rightarrow> int" where
  "closed_voting ixs = (\<Sum>ix\<leftarrow>ixs. case ix of CloseVotingPosition _ a _ \<Rightarrow> a | _ \<Rightarrow> 0)"

definition undelegated :: "'pk \<Rightarrow> 'pk staking_ix list \<Rightarrow> int" where
  "undelegated publisher ixs = (\<Sum>ix\<leftarrow>ixs. case ix of Undelegate _ a _ q \<Rightarrow> if q = publisher then a else 0 | _ \<Rightarrow> 0)"

lemma closed_voting_map: "closed_voting (map (\<lambda>(i, a). CloseVotingPosition i a acc) cs) = (\<Sum>(i, a)\<leftarrow>cs. a)"
  by (simp add: closed_voting_def comp_def case_prod_unfold)

lemma undelegated_map: "undelegated publisher (map (\<lambda>(i, a). Undelegate i a acc publisher) cs) = (\<Sum>(i, a)\<leftarrow>cs. a)"
  by (simp add: undelegated_def comp_def case_prod_unfold)

lemma target_sum:
  "getAmountByTargetAndState ps Voting st e = (\<Sum>p\<leftarrow>ps. if pos_target p = Voting \<and> st = getPositionState p e then pos_amount p else 0)"
  "getAmountByTargetAndState ps (IntegrityPool pub) st e =
     (\<Sum>p\<leftarrow>ps. if pos_target p = IntegrityPool pub \<and> st = getPositionState p e then pos_amount p else 0)"
  unfolding amount_sum by (auto intro!: arg_cong [of _ _ sum_list] map_cong simp: same_target_def split: TargetWithParameters.split)

lemma amount_nonneg: "list_all (\<lambda>p. 0 \<le> pos_amount p) ps \<Longrightarrow> 0 \<le> getAmountByTargetAndState ps target st e"
  unfolding amount_sum by (auto intro!: sum_list_nonneg simp: list_all_iff)

text \<open>Asking for all of the stake of a state takes exactly that out.\<close>

lemma unstake_all_of_state:
  assumes "sc_positions C acc = Inr ps" "sc_currentEpoch C = Inr e" "list_all (\<lambda>p. 0 \<le> pos_amount p) ps"
  shows "\<exists>ixs. unstakeFromGovernance C acc st (getAmountByTargetAndState ps Voting st e) = Inr ixs \<and>
      closed_voting ixs = getAmountByTargetAndState ps Voting st e"
    and "\<exists>ixs. unstakeFromPublisher C acc pub st (getAmountByTargetAndState ps (IntegrityPool pub) st e) = Inr ixs \<and>
      undelegated pub ixs = getAmountByTargetAndState ps (IntegrityPool pub) st e"
proof -
  let ?g = "\<lambda>p. pos_target p = Voting \<and> st = getPositionState p e"
  let ?p = "\<lambda>p. pos_target p = IntegrityPool pub \<and> st = getPositionState p e"
  let ?a = "getAmountByTargetAndState ps Voting st e" and ?b = "getAmountByTargetAndState ps (IntegrityPool pub) st e"
  have "unstakeFromGovernance C acc st ?a = Inr (map (\<lambda>(i, a). CloseVotingPosition i a acc) (close_positions Pair (eligible ?g ps) ?a))"
    using assms(1,2) close_positions_map [of "\<lambda>i a. CloseVotingPosition i a acc" "eligible ?g ps" ?a]
    by (simp add: unstakeFromGovernance_def eligible_def)
  moreover have "(\<Sum>(i, a)\<leftarrow>close_positions Pair (eligible ?g ps) ?a. a) = ?a"
    using close_positions_correct [OF amount_nonneg [OF assms(3)] assms(3), where target1 = Voting and st1 = st and e1 = e and ok = ?g] by (simp add: closes_correctly_def target_sum)
  ultimately show "\<exists>ixs. unstakeFromGovernance C acc st ?a = Inr ixs \<and> closed_voting ixs = ?a"
    by (simp add: closed_voting_map)
  have "unstakeFromPublisher C acc pub st ?b = Inr (map (\<lambda>(i, a). Undelegate i a acc pub) (close_positions Pair (eligible ?p ps) ?b))"
    using assms(1,2) close_positions_map [of "\<lambda>i a. Undelegate i a acc pub" "eligible ?p ps" ?b]
    by (simp add: unstakeFromPublisher_def eligible_def)
  moreover have "(\<Sum>(i, a)\<leftarrow>close_positions Pair (eligible ?p ps) ?b. a) = ?b"
    using close_positions_correct [OF amount_nonneg [OF assms(3)] assms(3), where target1 = "IntegrityPool pub" and st1 = st and e1 = e and ok = ?p]
    by (simp add: closes_correctly_def target_sum)
  ultimately show "\<exists>ixs. unstakeFromPublisher C acc pub st ?b = Inr ixs \<and> undelegated pub ixs = ?b"
    by (simp add: undelegated_map)
qed

lemma undelegated_rev [simp]: "undelegated pub (rev ixs) = undelegated pub ixs"
  by (simp add: undelegated_def flip: rev_map)

lemma undelegated_filter:
  "undelegated pub (List.map_filter (\<lambda>(index, p). case pos_target p of
       Voting \<Rightarrow> None
     | IntegrityPool publisher \<Rightarrow> if getPositionState p e \<in> set states then Some (Undelegate index (pos_amount p) acc publisher) else None) ips)
   = (\<Sum>(i, p)\<leftarrow>ips. if pos_target p = IntegrityPool pub \<and> getPositionState p e \<in> set states then pos_amount p else 0)"
  by (induction ips) (auto simp: undelegated_def map_filter_simps split: TargetWithParameters.split)

lemma unstake_all_publishers:
  assumes "sc_positions C acc = Inr ps" "sc_currentEpoch C = Inr e"
  shows "\<exists>ixs. unstakeFromAllPublishers C acc [LOCKED, LOCKING] = Inr ixs \<and>
    (\<forall>pub. undelegated pub ixs =
      getAmountByTargetAndState ps (IntegrityPool pub) LOCKING e + getAmountByTargetAndState ps (IntegrityPool pub) LOCKED e)"
proof -
  have sum: "(\<Sum>(i, p)\<leftarrow>rev (enumerate 0 ps). if pos_target p = IntegrityPool pub \<and> getPositionState p e \<in> {LOCKED, LOCKING} then pos_amount p else 0)
    = getAmountByTargetAndState ps (IntegrityPool pub) LOCKING e + getAmountByTargetAndState ps (IntegrityPool pub) LOCKED e" for pub
  proof -
    let ?f = "\<lambda>p. if pos_target p = IntegrityPool pub \<and> getPositionState p e \<in> {LOCKED, LOCKING} then pos_amount p else 0"
    have "(\<Sum>(i, p)\<leftarrow>rev (enumerate 0 ps). ?f p) = (\<Sum>p\<leftarrow>map snd (rev (enumerate 0 ps)). ?f p)"
      by (simp add: comp_def case_prod_unfold)
    also have "map snd (rev (enumerate 0 ps)) = rev ps" by (simp flip: rev_map)
    also have "(\<Sum>p\<leftarrow>rev ps. ?f p) = (\<Sum>p\<leftarrow>ps. ?f p)" by (simp only: rev_map [symmetric] sum_list_rev)
    also have "\<dots> = getAmountByTargetAndState ps (IntegrityPool pub) LOCKING e + getAmountByTargetAndState ps (IntegrityPool pub) LOCKED e"
      unfolding target_sum by (induction ps) auto
    finally show ?thesis .
  qed
  show ?thesis
    using assms sum undelegated_filter [where states = "[LOCKED, LOCKING]" and e = e and acc = acc and ips = "rev (enumerate 0 ps)"]
    by (auto simp: unstakeFromAllPublishers_def indexed_reversed_def)
qed

section \<open>Properties\<close>

text \<open>C39. What the application shows can be unstaked: for the data loaded for an account, unstaking the shown amounts of governance, in warm-up
  or staked, and of any shown publisher takes exactly these amounts out; and unstaking everything from the publishers takes from each of
  them exactly the shown warm-up and staked amounts.\<close>

theorem shown_stake_is_unstaked:
  assumes "loadData A now (Some acc) payer = Inr d" "sc_positions (app_chain A) acc = Inr ps" "list_all (\<lambda>p. 0 \<le> pos_amount p) ps"
  shows "(\<exists>ixs. unstakeGovernance (app_chain A) acc (staked (d_governance d)) = Inr ixs \<and> closed_voting ixs = staked (d_governance d)) \<and>
    (\<exists>ixs. cancelWarmupGovernance (app_chain A) acc (warmup (d_governance d)) = Inr ixs \<and> closed_voting ixs = warmup (d_governance d)) \<and>
    (\<exists>all. unstakeAllIntegrityStaking (app_chain A) acc = Inr all \<and>
      (\<forall>p \<in> set (d_integrityStakingPublishers d). \<exists>shown. sp_positions p = Some shown \<and>
        undelegated (sp_publicKey p) all = warmup shown + staked shown \<and>
        (\<exists>ixs. unstakeIntegrityStaking (app_chain A) acc (sp_publicKey p) (staked shown) = Inr ixs \<and> undelegated (sp_publicKey p) ixs = staked shown) \<and>
        (\<exists>ixs. cancelWarmupIntegrityStaking (app_chain A) acc (sp_publicKey p) (warmup shown) = Inr ixs \<and>
           undelegated (sp_publicKey p) ixs = warmup shown)))"
proof -
  from assms(1,2) obtain base where base: "loadDataNoStakeAccount A = Inr base"
    and d: "d_governance d = positions_of ps (d_currentEpoch base) Voting"
      "d_integrityStakingPublishers d =
        map (\<lambda>publisher. publisher\<lparr> sp_positions := Some (positions_of ps (d_currentEpoch base) (IntegrityPool (sp_publicKey publisher))) \<rparr>)
          (d_integrityStakingPublishers base)"
    by (auto simp: loadData_def loadDataForStakeAccount_def bindR_Inr_iff Let_def)
  have e: "sc_currentEpoch (app_chain A) = Inr (d_currentEpoch base)"
    using base by (auto simp: loadDataNoStakeAccount_def bindR_Inr_iff Let_def)
  note one = unstake_all_of_state [OF assms(2) e assms(3)]
  obtain all where all: "unstakeAllIntegrityStaking (app_chain A) acc = Inr all" "\<And>pub. undelegated pub all =
      getAmountByTargetAndState ps (IntegrityPool pub) LOCKING (d_currentEpoch base) + getAmountByTargetAndState ps (IntegrityPool pub) LOCKED (d_currentEpoch base)"
    using unstake_all_publishers [OF assms(2) e] by (auto simp: unstakeAllIntegrityStaking_def)
  show ?thesis
    using one(1) [of LOCKED] one(1) [of LOCKING] one(2) [of _ LOCKED] one(2) [of _ LOCKING] all
    by (auto simp: d positions_of_def unstakeGovernance_def cancelWarmupGovernance_def unstakeIntegrityStaking_def
        cancelWarmupIntegrityStaking_def)
qed

definition sample_positions :: "nat Position list" where
  "sample_positions =
     [\<lparr> pos_amount = 10, pos_target = Voting, pos_activationEpoch = 9, pos_unlockingStart = None \<rparr>,
      \<lparr> pos_amount = 20, pos_target = IntegrityPool 7, pos_activationEpoch = 2, pos_unlockingStart = None \<rparr>,
      \<lparr> pos_amount = 30, pos_target = Voting, pos_activationEpoch = 2, pos_unlockingStart = None \<rparr>,
      \<lparr> pos_amount = 5, pos_target = IntegrityPool 7, pos_activationEpoch = 9, pos_unlockingStart = None \<rparr>]"

definition sample_app :: "(nat, string) app_env" where
  "sample_app =
     \<lparr> app_chain =
         \<lparr> sc_wallet = 1,
           sc_globalConfig = Inr \<lparr> gc_pythTokenMint = 2, gc_pythGovernanceRealm = 2, gc_agreementHash = [], gc_pythTokenListTime = Some 0 \<rparr>,
           sc_hasGovernanceRecord = Inr True, sc_metadata = (\<lambda>_. Inr \<lparr> sm_signedAgreementHash = None, sm_lock = FullyVested \<rparr>),
           sc_positions = (\<lambda>_. Inr sample_positions), sc_allPositions = (\<lambda>_. Inr []), sc_currentEpoch = Inr 5,
           sc_poolData = Inr \<lparr> pd_publishers = [7], pd_publisherStakeAccounts = [], pd_delState = [], pd_selfDelState = [],
             pd_delegationFees = [], pd_events = [] \<rparr>,
           sc_lastEpoch = (\<lambda>_ _. Inr None), sc_ataAmount = Inr 0, sc_minimumBalance = (\<lambda>_. Inr 0),
           sc_targetLocked = Inr 1, sc_mintSupply = Inr 1, sc_simulate = (\<lambda>_. Inr None) \<rparr>,
       app_lib = \<lparr> lib_publicKey = length, lib_toBuffer = (\<lambda>_. []), lib_findProgramAddress = (\<lambda>_ k. k), lib_associatedToken = (+), lib_createWithSeed = (\<lambda>k _ _. k) \<rparr>,
       app_toBase58 = (\<lambda>_. ''key''), app_PublicKey_default = 0, app_publisherRankings = Inr [], app_publisherCaps = Inr None,
       app_numberOfSymbols = Inr Map.empty, app_lookup = (\<lambda>_. None), app_yieldRate = Inr 1, app_stakeCapParameters = Inr (1, 1),
       app_custodyAmount = (\<lambda>_. Inr 65) \<rparr>"

lemma sample_app_loads:
  "\<exists>d. loadData sample_app 0 (Some 3) None = Inr d \<and> d_governance d = \<lparr> warmup = 10, staked = 30, cooldown = 0, cooldown2 = 0 \<rparr>"
proof -
  have publishers: "\<exists>p. extractPublisherData 0 (\<lparr> pd_publishers = [7], pd_publisherStakeAccounts = [], pd_delState = [], pd_selfDelState = [],
      pd_delegationFees = [], pd_events = [] \<rparr> :: nat PoolDataAccount) = [p]" by (simp add: extractPublisherData_def)
  have "\<exists>b. loadDataNoStakeAccount sample_app = Inr b \<and> d_currentEpoch b = 5"
    by (simp add: loadDataNoStakeAccount_def loadPublisherData_def sample_app_def)
  moreover have "\<exists>r. getClaimableRewards (app_lib sample_app) (app_chain sample_app) 0 3 None = Inr r"
  proof -
    have mapR_None: "mapR (\<lambda>x. Inr 0) xs = Inr (map (\<lambda>x. 0) xs)" for xs :: "nat staking_ix list" by (induction xs) auto
    have mapR_last: "mapR (\<lambda>(p, e). Inr None) xs = Inr (map (\<lambda>x. None) xs)" for xs :: "(nat PublisherEntry \<times> int) list" by (induction xs) auto
    show ?thesis
      by (simp add: getClaimableRewards_def getAdvanceDelegationRecordInstructions_def sample_app_def reward_of_def mapR_None mapR_last Let_def)
  qed
  ultimately show ?thesis
    by (auto simp: loadData_def loadDataForStakeAccount_def client_getUnlockSchedule_def positions_of_def sample_app_def sample_positions_def
        getAmountByTargetAndState_def getPositionState_def same_target_def)
qed

lemma shown_stake_is_unstaked_witness:
  "\<exists>ixs. unstakeGovernance (app_chain sample_app) 3 30 = Inr ixs \<and> closed_voting ixs = 30"
proof -
  obtain d where d: "loadData sample_app 0 (Some 3) None = Inr d" "d_governance d = \<lparr> warmup = 10, staked = 30, cooldown = 0, cooldown2 = 0 \<rparr>"
    using sample_app_loads by blast
  have "sc_positions (app_chain sample_app) 3 = Inr sample_positions" "list_all (\<lambda>p. 0 \<le> pos_amount p) sample_positions"
    by (simp_all add: sample_app_def sample_positions_def)
  from shown_stake_is_unstaked [OF d(1) this] d(2) show ?thesis by auto
qed

end
