(* ===== verification/Hermes_Client.thy ===== *)
theory Hermes_Client
  imports Js_Prelude "HOL-Library.AList"
begin

text \<open>
  \<open>apps/hermes/client/js/src/HermesClient.ts\<close> and \<open>utils.ts\<close>: requests to Hermes with retries, and the URLs of the
  endpoints. The answers of \<open>fetch\<close> and the schemas, which are generated, are arguments. A URL is its path and the list of its
  search parameters; their percent encoding belongs to the class \<open>URL\<close>, and the base URL has no query of its own.
\<close>

section \<open>Requests with retries\<close>

text \<open>What can be thrown: an \<open>Error\<close> with its name, or any other value.\<close>

datatype thrown = Error_thrown (err_name: string) (err_message: string) | Other_thrown

text \<open>An attempt: \<open>fetch\<close> rejects, or it answers with a status, a body as text and the parsed body.\<close>

datatype 'json answer =
    Fetch_rejected thrown
  | Answer (ans_ok: bool) (ans_status: string) (ans_text: "thrown + string") (ans_json: "thrown + 'json")

definition read_answer :: "('json \<Rightarrow> thrown + 'r) \<Rightarrow> 'json answer \<Rightarrow> thrown + 'r" where
  "read_answer schema response =
     (case response of
        Fetch_rejected e \<Rightarrow> Inl e
      | Answer ok status text json \<Rightarrow>
          if \<not> ok
          then bindR text (\<lambda>errorBody. Inl (Error_thrown ''Error''
                 (''HTTP error! status: '' @ status @ (if errorBody \<noteq> [] then '', body: '' @ errorBody else []))))
          else bindR json schema)"

definition is_abort :: "thrown \<Rightarrow> bool" where
  "is_abort e \<longleftrightarrow> (\<exists>m. e = Error_thrown ''AbortError'' m)"

lemma is_abort_simps [simp, code]:
  "is_abort (Error_thrown n m) \<longleftrightarrow> n = ''AbortError''" "is_abort Other_thrown \<longleftrightarrow> False"
  by (auto simp: is_abort_def)

text \<open>The answer of the \<open>i\<close>-th attempt is \<open>fetch i\<close>. The result is given with the times waited between the attempts.\<close>

fun httpRequest ::
  "('json \<Rightarrow> thrown + 'r) \<Rightarrow> (nat \<Rightarrow> 'json answer) \<Rightarrow> nat \<Rightarrow> nat \<Rightarrow> nat \<Rightarrow> (thrown + 'r) \<times> nat list" where
  "httpRequest schema fetch i retries backoff =
     (case read_answer schema (fetch i) of
        Inr data \<Rightarrow> (Inr data, [])
      | Inl error \<Rightarrow>
          (case retries of
             0 \<Rightarrow> (Inl error, [])
           | Suc left \<Rightarrow>
               if is_abort error then (Inl error, [])
               else (case httpRequest schema fetch (Suc i) left (backoff * 2) of (r, waits) \<Rightarrow> (r, backoff # waits))))"

declare httpRequest.simps [simp del]

record HermesClientConfig =
  hc_timeout :: "nat option"
  hc_httpRetries :: "nat option"

record HermesClient =
  baseURL :: string
  hermes_timeout :: nat
  httpRetries :: nat

definition DEFAULT_TIMEOUT :: nat where "DEFAULT_TIMEOUT = 5000"

definition DEFAULT_HTTP_RETRIES :: nat where "DEFAULT_HTTP_RETRIES = 3"

definition new_HermesClient :: "string \<Rightarrow> HermesClientConfig \<Rightarrow> HermesClient" where
  "new_HermesClient endpoint config =
     \<lparr> baseURL = endpoint,
       hermes_timeout = (case hc_timeout config of Some t \<Rightarrow> t | None \<Rightarrow> DEFAULT_TIMEOUT),
       httpRetries = (case hc_httpRetries config of Some n \<Rightarrow> n | None \<Rightarrow> DEFAULT_HTTP_RETRIES) \<rparr>"

text \<open>The first wait is random; \<open>rand\<close> is \<open>Math.floor(Math.random() * 100)\<close>.\<close>

definition request_of :: "HermesClient \<Rightarrow> ('json \<Rightarrow> thrown + 'r) \<Rightarrow> (nat \<Rightarrow> 'json answer) \<Rightarrow> nat \<Rightarrow> (thrown + 'r) \<times> nat list" where
  "request_of c schema fetch rand = httpRequest schema fetch 0 (httpRetries c) (100 + rand)"

text \<open>The signal of an attempt: \<open>fetch\<close> is rejected with \<open>TimeoutError\<close> when it has taken \<open>timeout\<close> milliseconds.
  \<open>duration i\<close> is how long the \<open>i\<close>-th attempt would take.\<close>

definition timed_fetch :: "HermesClient \<Rightarrow> (nat \<Rightarrow> nat) \<Rightarrow> (nat \<Rightarrow> 'json answer) \<Rightarrow> nat \<Rightarrow> 'json answer" where
  "timed_fetch c duration fetch i =
     (if duration i < hermes_timeout c then fetch i
      else Fetch_rejected (Error_thrown ''TimeoutError'' ''The operation was aborted due to timeout''))"

definition elapsed :: "HermesClient \<Rightarrow> (nat \<Rightarrow> nat) \<Rightarrow> nat list \<Rightarrow> nat" where
  "elapsed c duration waits = (\<Sum>i\<leftarrow>[0..<Suc (length waits)]. min (duration i) (hermes_timeout c)) + sum_list waits"

section \<open>URLs\<close>

datatype param = String_param string | Bool_param bool | Undefined_param

record url =
  url_path :: string
  searchParams :: "(string \<times> string) list"

definition buildURL :: "HermesClient \<Rightarrow> string \<Rightarrow> url" where
  "buildURL c endpoint =
     \<lparr> url_path = baseURL c @ (if baseURL c \<noteq> [] \<and> last (baseURL c) = CHR ''/'' then '''' else ''/'') @ ''v2/'' @ endpoint,
       searchParams = [] \<rparr>"

definition to_String :: "param \<Rightarrow> string" where
  "to_String p = (case p of String_param s \<Rightarrow> s | Bool_param b \<Rightarrow> if b then ''true'' else ''false'' | Undefined_param \<Rightarrow> ''undefined'')"

fun appendUrlSearchParams :: "url \<Rightarrow> (string \<times> param) list \<Rightarrow> url" where
  "appendUrlSearchParams url [] = url"
| "appendUrlSearchParams url ((key, value) # params) =
     appendUrlSearchParams (if value \<noteq> Undefined_param then url\<lparr> searchParams := searchParams url @ [(key, to_String value)] \<rparr> else url) params"

definition is_upper :: "char \<Rightarrow> bool" where
  "is_upper ch \<longleftrightarrow> 65 \<le> (of_char ch :: nat) \<and> (of_char ch :: nat) \<le> 90"

definition camelToSnakeCase :: "string \<Rightarrow> string" where
  "camelToSnakeCase str =
     concat (map (\<lambda>ch. if is_upper ch then [CHR ''_'', char_of (of_char ch + 32 :: nat)] else [ch]) str)"

text \<open>\<open>result[key] = value\<close> for the keys in order; a key that is there already keeps its place.\<close>

definition camelToSnakeCaseObject :: "(string \<times> param) list \<Rightarrow> (string \<times> param) list" where
  "camelToSnakeCaseObject obj = foldl (\<lambda>result (key, value). AList.update (camelToSnakeCase key) value result) [] obj"

definition append_ids :: "url \<Rightarrow> string list \<Rightarrow> url" where
  "append_ids url ids = url\<lparr> searchParams := searchParams url @ map (\<lambda>i. (''ids[]'', i)) ids \<rparr>"

definition append_options :: "url \<Rightarrow> (string \<times> param) list option \<Rightarrow> url" where
  "append_options url options =
     (case options of None \<Rightarrow> url | Some opts \<Rightarrow> appendUrlSearchParams url (camelToSnakeCaseObject opts))"

definition getPriceFeeds_url :: "HermesClient \<Rightarrow> (string \<times> param) list \<Rightarrow> url" where
  "getPriceFeeds_url c options = append_options (buildURL c ''price_feeds'') (Some options)"

definition getLatestPublisherCaps_url :: "HermesClient \<Rightarrow> (string \<times> param) list \<Rightarrow> url" where
  "getLatestPublisherCaps_url c options = appendUrlSearchParams (buildURL c ''updates/publisher_stake_caps/latest'') options"

definition getLatestPriceUpdates_url :: "HermesClient \<Rightarrow> string list \<Rightarrow> (string \<times> param) list option \<Rightarrow> url" where
  "getLatestPriceUpdates_url c ids options = append_options (append_ids (buildURL c ''updates/price/latest'') ids) options"

definition getPriceUpdatesAtTimestamp_url :: "HermesClient \<Rightarrow> nat \<Rightarrow> string list \<Rightarrow> (string \<times> param) list option \<Rightarrow> url" where
  "getPriceUpdatesAtTimestamp_url c publishTime ids options =
     append_options (append_ids (buildURL c (''updates/price/'' @ decimal publishTime)) ids) options"

definition getPriceUpdatesStream_url :: "HermesClient \<Rightarrow> string list \<Rightarrow> (string \<times> param) list option \<Rightarrow> url" where
  "getPriceUpdatesStream_url c ids options = append_options (append_ids (buildURL c ''updates/price/stream'') ids) options"

definition getLatestTwaps_url :: "HermesClient \<Rightarrow> string list \<Rightarrow> nat \<Rightarrow> (string \<times> param) list option \<Rightarrow> url" where
  "getLatestTwaps_url c ids window_seconds options =
     append_options (append_ids (buildURL c (''updates/twap/'' @ decimal window_seconds @ ''/latest'')) ids) options"

text \<open>A method sends one request, with retries, to its URL.\<close>

definition getLatestPriceUpdates ::
  "HermesClient \<Rightarrow> ('json \<Rightarrow> thrown + 'r) \<Rightarrow> (url \<Rightarrow> nat \<Rightarrow> 'json answer) \<Rightarrow> nat \<Rightarrow> string list \<Rightarrow> (string \<times> param) list option \<Rightarrow>
   (thrown + 'r) \<times> nat list" where
  "getLatestPriceUpdates c schema fetch rand ids options = request_of c schema (fetch (getLatestPriceUpdates_url c ids options)) rand"

section \<open>Lemmas\<close>

definition retryable :: "thrown + 'r \<Rightarrow> bool" where
  "retryable r \<longleftrightarrow> (case r of Inl e \<Rightarrow> \<not> is_abort e | Inr _ \<Rightarrow> False)"

lemma httpRequest_spec:
  "httpRequest schema fetch i retries backoff = (r, waits) \<Longrightarrow>
   length waits \<le> retries \<and> waits = map (\<lambda>j. backoff * 2 ^ j) [0..<length waits] \<and>
   r = read_answer schema (fetch (i + length waits)) \<and>
   (\<forall>j < length waits. retryable (read_answer schema (fetch (i + j)))) \<and>
   (length waits < retries \<longrightarrow> \<not> retryable r)"
proof (induction retries arbitrary: i backoff r waits)
  case 0
  then show ?case by (auto simp: httpRequest.simps [of _ _ _ 0] split: sum.splits)
next
  case (Suc n)
  show ?case
  proof (cases "retryable (read_answer schema (fetch i))")
    case False
    then have "waits = []" "r = read_answer schema (fetch i)"
      using Suc.prems by (auto simp: httpRequest.simps [of _ _ _ "Suc n"] retryable_def split: sum.splits)
    then show ?thesis using False by simp
  next
    case True
    then obtain ws where ws: "httpRequest schema fetch (Suc i) n (backoff * 2) = (r, ws)" "waits = backoff # ws"
      using Suc.prems by (auto simp: httpRequest.simps [of _ _ _ "Suc n"] retryable_def split: sum.splits prod.splits)
    note IH = Suc.IH [OF ws(1)]
    from IH have "waits = map (\<lambda>j. backoff * 2 ^ j) [0..<Suc (length ws)]"
      unfolding ws(2) map_upt_Suc by (simp add: mult.assoc)
    moreover have "retryable (read_answer schema (fetch (i + j)))" if "j < Suc (length ws)" for j
      using that IH True by (cases j) auto
    ultimately show ?thesis using IH by (auto simp: ws(2) simp del: upt_Suc)
  qed
qed

lemma geometric_waits: "(\<Sum>j\<leftarrow>[0..<n]. b * 2 ^ j :: nat) = b * (2 ^ n - 1)"
proof (induction n)
  case (Suc n)
  have "b * 2 ^ n + b * (2 ^ n - 1) = b * (2 ^ n + (2 ^ n - 1))" by (simp only: distrib_left)
  then show ?case using Suc by (simp add: mult_2 add.commute)
qed simp

text \<open>Keys of options have no underscore, so their snake case forms differ when they do.\<close>

lemma camelToSnakeCase_Cons:
  "camelToSnakeCase (ch # s) =
     (if is_upper ch then [CHR ''_'', char_of (of_char ch + 32 :: nat)] else [ch]) @ camelToSnakeCase s"
  by (simp add: camelToSnakeCase_def)

lemma lower_inj:
  assumes "is_upper a" "is_upper b" "char_of (of_char a + 32 :: nat) = char_of (of_char b + 32 :: nat)"
  shows "a = b"
proof -
  have "of_char (char_of (of_char a + 32 :: nat) :: char) = (of_char a + 32 :: nat)"
    "of_char (char_of (of_char b + 32 :: nat) :: char) = (of_char b + 32 :: nat)"
    using assms(1,2) by (simp_all add: is_upper_def)
  with assms(3) have "of_char a = (of_char b :: nat)" by simp
  then show ?thesis by simp
qed

lemma camelToSnakeCase_inj:
  "CHR ''_'' \<notin> set s \<Longrightarrow> CHR ''_'' \<notin> set t \<Longrightarrow> camelToSnakeCase s = camelToSnakeCase t \<Longrightarrow> s = t"
proof (induction s arbitrary: t)
  case Nil
  then show ?case by (cases t) (auto simp: camelToSnakeCase_Cons camelToSnakeCase_def split: if_splits)
next
  case (Cons a s)
  show ?case
  proof (cases t)
    case Nil
    with Cons.prems show ?thesis by (auto simp: camelToSnakeCase_Cons camelToSnakeCase_def split: if_splits)
  next
    case t: (Cons b t')
    with Cons.prems have "a = b \<and> camelToSnakeCase s = camelToSnakeCase t'"
      using lower_inj [of a b] by (auto simp: camelToSnakeCase_Cons split: if_splits)
    with Cons.IH [of t'] Cons.prems t show ?thesis by simp
  qed
qed

lemma update_fresh: "k \<notin> fst ` set al \<Longrightarrow> AList.update k v al = al @ [(k, v)]"
  by (induction al) auto

lemma foldl_update_new:
  assumes "distinct (map f (map fst kvs))" "set (map f (map fst kvs)) \<inter> fst ` set acc = {}"
  shows "foldl (\<lambda>result (key, value). AList.update (f key) value result) acc kvs = acc @ map (\<lambda>(k, v). (f k, v)) kvs"
  using assms
proof (induction kvs arbitrary: acc)
  case (Cons kv kvs)
  obtain k v where kv: "kv = (k, v)" by fastforce
  from Cons.prems have "AList.update (f k) v acc = acc @ [(f k, v)]" by (intro update_fresh) (auto simp: kv)
  with Cons show ?case by (auto simp: kv)
qed simp

lemma appendUrlSearchParams_params:
  "searchParams (appendUrlSearchParams url params) =
     searchParams url @ map (\<lambda>(k, v). (k, to_String v)) (filter (\<lambda>(k, v). v \<noteq> Undefined_param) params)"
  by (induction url params rule: appendUrlSearchParams.induct) auto

lemma camelToSnakeCaseObject_exact:
  assumes "distinct (map fst options)" "list_all (\<lambda>(k, v). CHR ''_'' \<notin> set k) options"
  shows "camelToSnakeCaseObject options = map (\<lambda>(k, v). (camelToSnakeCase k, v)) options"
proof -
  have "inj_on camelToSnakeCase (set (map fst options))"
    using assms(2) by (auto intro!: inj_onI camelToSnakeCase_inj simp: list_all_iff)
  then have "distinct (map camelToSnakeCase (map fst options))" using assms(1) by (simp only: distinct_map)
  from foldl_update_new [OF this] show ?thesis by (simp add: camelToSnakeCaseObject_def)
qed

section \<open>Properties\<close>

text \<open>Requests to Hermes: a request makes at most \<open>httpRetries\<close> further attempts, waits twice as long before each one, ends
  with the first answer that is accepted or aborted, and returns the outcome of its last attempt; every earlier attempt failed with something
  other than an abort.\<close>

theorem hermes_request_exact:
  "request_of c schema fetch rand =
     (let n = (LEAST n. n = httpRetries c \<or> \<not> retryable (read_answer schema (fetch n))) in
      (read_answer schema (fetch n), map (\<lambda>j. (100 + rand) * 2 ^ j) [0..<n]))"
proof -
  obtain r waits where r: "request_of c schema fetch rand = (r, waits)" by fastforce
  then have h: "httpRequest schema fetch 0 (httpRetries c) (100 + rand) = (r, waits)" by (simp add: request_of_def)
  note s = httpRequest_spec [OF h]
  have "(LEAST n. n = httpRetries c \<or> \<not> retryable (read_answer schema (fetch n))) = length waits"
  proof (rule Least_equality)
    show "length waits = httpRetries c \<or> \<not> retryable (read_answer schema (fetch (length waits)))" using s by auto
    show "length waits \<le> n" if "n = httpRetries c \<or> \<not> retryable (read_answer schema (fetch n))" for n
      using that s by (metis add_0 not_le)
  qed
  with r s show ?thesis by (simp add: Let_def)
qed

text \<open>C34. The timeout is not one for all of the attempts, as its documentation says: when the server does not answer, every
  attempt takes the full timeout, all retries are made, and with the default settings a request takes more than four times its timeout.\<close>

theorem hermes_timeout_per_attempt:
  assumes "\<And>i. hermes_timeout c \<le> duration i"
  shows "let (r, waits) = request_of c schema (timed_fetch c duration fetch) rand in
    (\<exists>m. r = Inl (Error_thrown ''TimeoutError'' m)) \<and>
    elapsed c duration waits = (httpRetries c + 1) * hermes_timeout c + (100 + rand) * (2 ^ httpRetries c - 1)"
proof -
  obtain r waits where r: "request_of c schema (timed_fetch c duration fetch) rand = (r, waits)" by fastforce
  then have h: "httpRequest schema (timed_fetch c duration fetch) 0 (httpRetries c) (100 + rand) = (r, waits)" by (simp add: request_of_def)
  note s = httpRequest_spec [OF h]
  have timeout: "read_answer schema (timed_fetch c duration fetch i) =
      Inl (Error_thrown ''TimeoutError'' ''The operation was aborted due to timeout'')" for i
    using assms [of i] by (simp add: timed_fetch_def read_answer_def)
  then have n: "length waits = httpRetries c" "r = Inl (Error_thrown ''TimeoutError'' ''The operation was aborted due to timeout'')"
    using s by (auto simp: retryable_def)
  have "(\<Sum>i\<leftarrow>[0..<Suc (length waits)]. min (duration i) (hermes_timeout c)) = (\<Sum>i\<leftarrow>[0..<Suc (length waits)]. hermes_timeout c)"
    using assms by (intro arg_cong [of _ _ sum_list] map_cong) (simp_all add: min_absorb2)
  moreover have "sum_list waits = (100 + rand) * (2 ^ httpRetries c - 1)"
    using s n(1) geometric_waits [of "100 + rand" "httpRetries c"] by metis
  ultimately show ?thesis using r n by (simp add: elapsed_def sum_list_triv)
qed

lemma hermes_timeout_per_attempt_witness:
  "let c = new_HermesClient ''https://hermes'' \<lparr> hc_timeout = None, hc_httpRetries = None \<rparr> in
   elapsed c (\<lambda>_. 60000) (snd (request_of c (\<lambda>_. Inr ()) (timed_fetch c (\<lambda>_. 60000) (\<lambda>_. Answer True [] (Inr []) (Inr ()))) 0)) = 20700"
  using hermes_timeout_per_attempt [of "new_HermesClient ''https://hermes'' \<lparr> hc_timeout = None, hc_httpRetries = None \<rparr>" "\<lambda>_. 60000"
      "\<lambda>_. Inr ()" "\<lambda>_. Answer True [] (Inr []) (Inr ())" 0]
  by (simp add: new_HermesClient_def DEFAULT_TIMEOUT_def DEFAULT_HTTP_RETRIES_def case_prod_beta)

text \<open>The URL of a request for updates: the identifiers in order, then the defined options in order under their snake case names.\<close>

theorem price_updates_url:
  assumes "distinct (map fst opts)" "list_all (\<lambda>(k, v). CHR ''_'' \<notin> set k) opts"
  shows "searchParams (getLatestPriceUpdates_url c ids (Some opts)) =
    map (\<lambda>i. (''ids[]'', i)) ids @ map (\<lambda>(k, v). (camelToSnakeCase k, to_String v)) (filter (\<lambda>(k, v). v \<noteq> Undefined_param) opts)"
proof -
  have "filter (\<lambda>(k, v). v \<noteq> Undefined_param) (map (\<lambda>(k, v). (camelToSnakeCase k, v)) opts) =
      map (\<lambda>(k, v). (camelToSnakeCase k, v)) (filter (\<lambda>(k, v). v \<noteq> Undefined_param) opts)"
    by (simp add: filter_map comp_def case_prod_unfold)
  then show ?thesis
    by (simp add: getLatestPriceUpdates_url_def append_options_def append_ids_def buildURL_def appendUrlSearchParams_params
        camelToSnakeCaseObject_exact [OF assms] comp_def case_prod_beta)
qed

end
