(* ===== verification/Contract_Chains.thy ===== *)
theory Contract_Chains
  imports Governance_Codec "HOL-Library.AList"
begin

text \<open>
  \<open>contract_manager/src/chains.ts\<close> and \<open>base.ts\<close>: the chains of the contract manager, their JSON form, and the governance payloads
  they generate. A YAML file is what the parser reads from it: a list of objects with scalar properties. What \<open>stringify\<close> writes is
  read back unchanged; properties that are \<open>undefined\<close> are not written.
\<close>

section \<open>Values\<close>

datatype yaml_value = Str string | Num int | Bool bool

text \<open>A value in the program: \<open>None\<close> is \<open>undefined\<close>.\<close>

type_synonym js = "yaml_value option"

type_synonym KeyValueConfig = "(string \<times> yaml_value) list"

abbreviation config_field :: "KeyValueConfig \<Rightarrow> string \<Rightarrow> js" where
  "config_field \<equiv> map_of"

text \<open>An object literal, as \<open>stringify\<close> writes it.\<close>

definition json_object :: "(string \<times> js) list \<Rightarrow> KeyValueConfig" where
  "json_object kvs = List.map_filter (\<lambda>(k, v). map_option (Pair k) v) kvs"

text \<open>\<open>String(v)\<close>: what a template string or a property key makes of a value.\<close>

definition property_key :: "js \<Rightarrow> string" where
  "property_key v =
     (case v of
        None \<Rightarrow> ''undefined''
      | Some (Str s) \<Rightarrow> s
      | Some (Num n) \<Rightarrow> (if n < 0 then CHR ''-'' # decimal (nat (- n)) else decimal (nat n))
      | Some (Bool b) \<Rightarrow> (if b then ''true'' else ''false''))"

lemma property_key_simps [simp]: "property_key (Some (Str s)) = s" "property_key None = ''undefined''"
  by (simp_all add: property_key_def)

lemma field_json_object [simp]:
  "distinct (map fst kvs) \<Longrightarrow> config_field (json_object kvs) k = (case map_of kvs k of None \<Rightarrow> None | Some v \<Rightarrow> v)"
proof (induction kvs)
  case Nil
  then show ?case by (simp add: json_object_def map_filter_simps)
next
  case (Cons kv kvs)
  obtain k' v where kv: "kv = (k', v)" by fastforce
  have fresh: "map_of kvs k' = None" using Cons.prems by (simp add: kv map_of_eq_None_iff)
  with Cons kv show ?case by (cases v) (auto simp: json_object_def map_filter_simps)
qed

section \<open>Chains\<close>

record chain_base =
  ch_id :: js
  ch_mainnet :: js
  ch_wormholeChainName :: js
  ch_nativeToken :: js

datatype Chain =
    GlobalChain (chain_base: chain_base)
  | CosmWasmChain (chain_base: chain_base) js js js js
  | SuiChain (chain_base: chain_base) js
  | EvmChain (chain_base: chain_base) js js
  | AptosChain (chain_base: chain_base) js
  | FuelChain (chain_base: chain_base) js
  | StarknetChain (chain_base: chain_base) js
  | TonChain (chain_base: chain_base) js
  | NearChain (chain_base: chain_base) js js

text \<open>The constructor of the class \<open>Chain\<close>; \<open>wh\<close> is the table of the Wormhole SDK.\<close>

definition new_Chain :: "chain_table \<Rightarrow> js \<Rightarrow> js \<Rightarrow> js \<Rightarrow> js \<Rightarrow> chain_base result" where
  "new_Chain wh chainId mainnet wormholeChainName nativeToken =
     (if toChainId wh (property_key wormholeChainName) = None
      then Inl (JsError (''Invalid chain name '' @ property_key wormholeChainName @ ''.''))
      else Inr \<lparr> ch_id = chainId, ch_mainnet = mainnet, ch_wormholeChainName = wormholeChainName, ch_nativeToken = nativeToken \<rparr>)"

definition new_GlobalChain :: "chain_table \<Rightarrow> Chain result" where
  "new_GlobalChain wh = map_sum id GlobalChain (new_Chain wh (Some (Str ''global'')) (Some (Bool True)) (Some (Str ''unset'')) None)"

definition getWormholeChainId :: "chain_table \<Rightarrow> Chain \<Rightarrow> nat option" where
  "getWormholeChainId wh c = toChainId wh (property_key (ch_wormholeChainName (chain_base c)))"

definition Chain_getId :: "Chain \<Rightarrow> js" where
  "Chain_getId c = ch_id (chain_base c)"

definition isMainnet :: "Chain \<Rightarrow> js" where
  "isMainnet c = ch_mainnet (chain_base c)"

definition getNativeToken :: "Chain \<Rightarrow> js" where
  "getNativeToken c = ch_nativeToken (chain_base c)"

fun Chain_getType :: "Chain \<Rightarrow> string" where
  "Chain_getType (GlobalChain _) = ''GlobalChain''"
| "Chain_getType (CosmWasmChain _ _ _ _ _) = ''CosmWasmChain''"
| "Chain_getType (SuiChain _ _) = ''SuiChain''"
| "Chain_getType (EvmChain _ _ _) = ''EvmChain''"
| "Chain_getType (AptosChain _ _) = ''AptosChain''"
| "Chain_getType (FuelChain _ _) = ''FuelChain''"
| "Chain_getType (StarknetChain _ _) = ''StarknetChain''"
| "Chain_getType (TonChain _ _) = ''TonChain''"
| "Chain_getType (NearChain _ _ _) = ''NearChain''"

subsection \<open>\<open>fromJson\<close>\<close>

text \<open>The check of the type, and the base class from the properties that all classes read.\<close>

definition checked_type :: "string \<Rightarrow> KeyValueConfig \<Rightarrow> unit result" where
  "checked_type type parsed = guardR (config_field parsed ''type'' = Some (Str type)) (JsError ''Invalid type'')"

definition base_fromJson :: "chain_table \<Rightarrow> KeyValueConfig \<Rightarrow> chain_base result" where
  "base_fromJson wh parsed =
     new_Chain wh (config_field parsed ''id'') (config_field parsed ''mainnet'') (config_field parsed ''wormholeChainName'') (config_field parsed ''nativeToken'')"

definition CosmWasmChain_fromJson :: "chain_table \<Rightarrow> KeyValueConfig \<Rightarrow> Chain result" where
  "CosmWasmChain_fromJson wh parsed =
     bindR (checked_type ''CosmWasmChain'' parsed) (\<lambda>_. bindR (base_fromJson wh parsed) (\<lambda>b.
       Inr (CosmWasmChain b (config_field parsed ''endpoint'') (config_field parsed ''gasPrice'') (config_field parsed ''prefix'') (config_field parsed ''feeDenom''))))"

definition SuiChain_fromJson :: "chain_table \<Rightarrow> KeyValueConfig \<Rightarrow> Chain result" where
  "SuiChain_fromJson wh parsed =
     bindR (checked_type ''SuiChain'' parsed) (\<lambda>_. bindR (base_fromJson wh parsed) (\<lambda>b. Inr (SuiChain b (config_field parsed ''rpcUrl''))))"

text \<open>On EVM networks the name of the Wormhole chain is the id.\<close>

definition EvmChain_fromJson :: "chain_table \<Rightarrow> KeyValueConfig \<Rightarrow> Chain result" where
  "EvmChain_fromJson wh parsed =
     bindR (checked_type ''EvmChain'' parsed) (\<lambda>_.
     bindR (new_Chain wh (config_field parsed ''id'') (config_field parsed ''mainnet'') (config_field parsed ''id'') (config_field parsed ''nativeToken'')) (\<lambda>b.
       Inr (EvmChain b (config_field parsed ''rpcUrl'') (config_field parsed ''networkId''))))"

definition AptosChain_fromJson :: "chain_table \<Rightarrow> KeyValueConfig \<Rightarrow> Chain result" where
  "AptosChain_fromJson wh parsed =
     bindR (checked_type ''AptosChain'' parsed) (\<lambda>_. bindR (base_fromJson wh parsed) (\<lambda>b. Inr (AptosChain b (config_field parsed ''rpcUrl''))))"

definition FuelChain_fromJson :: "chain_table \<Rightarrow> KeyValueConfig \<Rightarrow> Chain result" where
  "FuelChain_fromJson wh parsed =
     bindR (checked_type ''FuelChain'' parsed) (\<lambda>_. bindR (base_fromJson wh parsed) (\<lambda>b. Inr (FuelChain b (config_field parsed ''gqlUrl''))))"

text \<open>A Starknet chain has no native token.\<close>

definition StarknetChain_fromJson :: "chain_table \<Rightarrow> KeyValueConfig \<Rightarrow> Chain result" where
  "StarknetChain_fromJson wh parsed =
     bindR (checked_type ''StarknetChain'' parsed) (\<lambda>_.
     bindR (new_Chain wh (config_field parsed ''id'') (config_field parsed ''mainnet'') (config_field parsed ''wormholeChainName'') None) (\<lambda>b.
       Inr (StarknetChain b (config_field parsed ''rpcUrl''))))"

definition TonChain_fromJson :: "chain_table \<Rightarrow> KeyValueConfig \<Rightarrow> Chain result" where
  "TonChain_fromJson wh parsed =
     bindR (checked_type ''TonChain'' parsed) (\<lambda>_. bindR (base_fromJson wh parsed) (\<lambda>b. Inr (TonChain b (config_field parsed ''rpcUrl''))))"

definition NearChain_fromJson :: "chain_table \<Rightarrow> KeyValueConfig \<Rightarrow> Chain result" where
  "NearChain_fromJson wh parsed =
     bindR (checked_type ''NearChain'' parsed) (\<lambda>_. bindR (base_fromJson wh parsed) (\<lambda>b.
       Inr (NearChain b (config_field parsed ''rpcUrl'') (config_field parsed ''networkId''))))"

subsection \<open>\<open>toJson\<close>\<close>

definition GlobalChain_toJson :: "chain_base \<Rightarrow> KeyValueConfig" where
  "GlobalChain_toJson b = json_object
     [(''id'', ch_id b), (''wormholeChainName'', ch_wormholeChainName b), (''mainnet'', ch_mainnet b), (''type'', Some (Str ''GlobalChain''))]"

definition CosmWasmChain_toJson :: "chain_base \<Rightarrow> js \<Rightarrow> js \<Rightarrow> js \<Rightarrow> js \<Rightarrow> KeyValueConfig" where
  "CosmWasmChain_toJson b endpoint gasPrice prefix feeDenom = json_object
     [(''endpoint'', endpoint), (''id'', ch_id b), (''wormholeChainName'', ch_wormholeChainName b), (''mainnet'', ch_mainnet b),
      (''gasPrice'', gasPrice), (''prefix'', prefix), (''feeDenom'', feeDenom), (''type'', Some (Str ''CosmWasmChain''))]"

text \<open>The classes with one URL write it as the property \<open>url_key\<close>.\<close>

definition url_chain_toJson :: "string \<Rightarrow> string \<Rightarrow> chain_base \<Rightarrow> js \<Rightarrow> KeyValueConfig" where
  "url_chain_toJson type url_key b url = json_object
     [(''id'', ch_id b), (''wormholeChainName'', ch_wormholeChainName b), (''mainnet'', ch_mainnet b), (url_key, url), (''type'', Some (Str type))]"

definition SuiChain_toJson :: "chain_base \<Rightarrow> js \<Rightarrow> KeyValueConfig" where
  "SuiChain_toJson = url_chain_toJson ''SuiChain'' ''rpcUrl''"

definition EvmChain_toJson :: "chain_base \<Rightarrow> js \<Rightarrow> js \<Rightarrow> KeyValueConfig" where
  "EvmChain_toJson b rpcUrl networkId = json_object
     [(''id'', ch_id b), (''mainnet'', ch_mainnet b), (''rpcUrl'', rpcUrl), (''networkId'', networkId), (''type'', Some (Str ''EvmChain''))]"

definition AptosChain_toJson :: "chain_base \<Rightarrow> js \<Rightarrow> KeyValueConfig" where
  "AptosChain_toJson = url_chain_toJson ''AptosChain'' ''rpcUrl''"

definition FuelChain_toJson :: "chain_base \<Rightarrow> js \<Rightarrow> KeyValueConfig" where
  "FuelChain_toJson = url_chain_toJson ''FuelChain'' ''gqlUrl''"

definition StarknetChain_toJson :: "chain_base \<Rightarrow> js \<Rightarrow> KeyValueConfig" where
  "StarknetChain_toJson = url_chain_toJson ''StarknetChain'' ''rpcUrl''"

definition TonChain_toJson :: "chain_base \<Rightarrow> js \<Rightarrow> KeyValueConfig" where
  "TonChain_toJson = url_chain_toJson ''TonChain'' ''rpcUrl''"

definition NearChain_toJson :: "chain_base \<Rightarrow> js \<Rightarrow> js \<Rightarrow> KeyValueConfig" where
  "NearChain_toJson b rpcUrl networkId = json_object
     [(''id'', ch_id b), (''wormholeChainName'', ch_wormholeChainName b), (''mainnet'', ch_mainnet b), (''type'', Some (Str ''NearChain'')),
      (''rpcUrl'', rpcUrl), (''networkId'', networkId)]"

fun Chain_toJson :: "Chain \<Rightarrow> KeyValueConfig" where
  "Chain_toJson (GlobalChain b) = GlobalChain_toJson b"
| "Chain_toJson (CosmWasmChain b e g p f) = CosmWasmChain_toJson b e g p f"
| "Chain_toJson (SuiChain b url) = SuiChain_toJson b url"
| "Chain_toJson (EvmChain b url networkId) = EvmChain_toJson b url networkId"
| "Chain_toJson (AptosChain b url) = AptosChain_toJson b url"
| "Chain_toJson (FuelChain b url) = FuelChain_toJson b url"
| "Chain_toJson (StarknetChain b url) = StarknetChain_toJson b url"
| "Chain_toJson (TonChain b url) = TonChain_toJson b url"
| "Chain_toJson (NearChain b url networkId) = NearChain_toJson b url networkId"

section \<open>\<open>parseRpcUrl\<close>\<close>

text \<open>The pattern \<open>\$ENV_\w+\<close>: the part before its first match, the name of the variable, and the rest.\<close>

definition word_char :: "char \<Rightarrow> bool" where
  "word_char ch \<longleftrightarrow>
     (let n = (of_char ch :: nat) in (48 \<le> n \<and> n \<le> 57) \<or> (65 \<le> n \<and> n \<le> 90) \<or> (97 \<le> n \<and> n \<le> 122) \<or> n = 95)"

fun env_match :: "string \<Rightarrow> (string \<times> string \<times> string) option" where
  "env_match [] = None"
| "env_match (ch # s) =
     (let name = takeWhile word_char (drop 5 (ch # s)) in
      if starts_with ''$ENV_'' (ch # s) \<and> name \<noteq> [] then Some ([], name, dropWhile word_char (drop 5 (ch # s)))
      else map_option (\<lambda>(pre, name, rest). (ch # pre, name, rest)) (env_match s))"

text \<open>The pattern is not global, so \<open>match\<close> returns only the first match. The values of the environment hold no replacement pattern of
  \<open>replace\<close>, which begins with a dollar sign.\<close>

definition parseRpcUrl :: "(string \<Rightarrow> string option) \<Rightarrow> string \<Rightarrow> string result" where
  "parseRpcUrl env rpcUrl =
     (case env_match rpcUrl of
        None \<Rightarrow> Inr rpcUrl
      | Some (pre, envName, rest) \<Rightarrow>
          (case env envName of
             None \<Rightarrow> Inl (JsError (''Missing env variable '' @ envName @ '' required for this RPC: '' @ rpcUrl))
           | Some [] \<Rightarrow> Inl (JsError (''Missing env variable '' @ envName @ '' required for this RPC: '' @ rpcUrl))
           | Some value \<Rightarrow> Inr (pre @ value @ rest)))"

section \<open>Deployments\<close>

text \<open>\<open>base.ts\<close>.\<close>

definition toPrivateKey :: "string \<Rightarrow> string result" where
  "toPrivateKey key = bindR (guardR (length (from_hex key) = 32) (JsError ''Invalid private key, must be 64 hex chars'')) (\<lambda>_. Inr key)"

datatype DeploymentType = Stable | Beta

definition toDeploymentType :: "string \<Rightarrow> DeploymentType result" where
  "toDeploymentType type =
     (if type = ''stable'' then Inr Stable else if type = ''beta'' then Inr Beta else Inl (JsError (''Invalid deployment type '' @ type)))"

record DeploymentConfig =
  dc_dataSources :: "DataSource list"
  dc_governanceDataSource :: DataSource
  dc_governanceChainId :: nat
  dc_governanceContract :: string
  dc_initialGuardianSet :: "string list"

definition data_source :: "nat \<Rightarrow> string \<Rightarrow> DataSource" where
  "data_source chain address = \<lparr> emitterChain = chain, emitterAddress = address \<rparr>"

definition getDefaultDeploymentConfig :: "DeploymentType \<Rightarrow> DeploymentConfig" where
  "getDefaultDeploymentConfig deploymentType =
     (case deploymentType of
        Stable \<Rightarrow>
          \<lparr> dc_dataSources =
              [data_source 1 ''6bb14509a612f01fbbc4cffeebd4bbfb492a86df717ebe92eb6df432a3f00a25'',
               data_source 26 ''f8cd23c2ab91237730770bbea08d61005cdda0984348f3f6eecb559638c0bba0'',
               data_source 26 ''e101faedac5851e32b9b23b5f9411a8c2bac4aae3ed4dd7b811dd1a72ea4aa71''],
            dc_governanceDataSource = data_source 1 ''5635979a221c34931e32620b9293a463065555ea71fe97cd6237ade875b12e9e'',
            dc_governanceChainId = 1,
            dc_governanceContract = ''0000000000000000000000000000000000000000000000000000000000000004'',
            dc_initialGuardianSet = [''58cc3ae5c097b213ce3c81979e1b9f9570746aa5''] \<rparr>
      | Beta \<Rightarrow>
          \<lparr> dc_dataSources =
              [data_source 1 ''f346195ac02f37d60d4db8ffa6ef74cb1be3550047543a4a9ee9acf4d78697b0'',
               data_source 26 ''a27839d641b07743c0cb5f68c51f8cd31d2c0762bec00dc6fcd25433ef1ab5b6'',
               data_source 26 ''e101faedac5851e32b9b23b5f9411a8c2bac4aae3ed4dd7b811dd1a72ea4aa71''],
            dc_governanceDataSource = data_source 1 ''63278d271099bfd491951b3e648f08b1c71631e4a53674ad43e8f9f98068c385'',
            dc_governanceChainId = 1,
            dc_governanceContract = ''0000000000000000000000000000000000000000000000000000000000000004'',
            dc_initialGuardianSet = [''13947bd48b18e53fdaeee77f3473391ac727c638''] \<rparr>)"

text \<open>Transactions of \<open>EvmChain\<close>; gas estimates and multipliers are integers. \<open>price\<close> is the gas price of the node and \<open>send\<close> its answer
  to a transaction with the given gas and gas price.\<close>

definition is_truthy :: "js \<Rightarrow> bool" where
  "is_truthy v = (case v of None \<Rightarrow> False | Some (Bool b) \<Rightarrow> b | Some (Num n) \<Rightarrow> n \<noteq> 0 | Some (Str s) \<Rightarrow> s \<noteq> [])"

definition getGasPrice :: "Chain \<Rightarrow> int \<Rightarrow> int" where
  "getGasPrice c price = (if \<not> is_truthy (isMainnet c) then price * 2 else price)"

definition estiamteAndSendTransaction :: "Chain \<Rightarrow> int \<Rightarrow> int result \<Rightarrow> (int \<Rightarrow> int \<Rightarrow> 'tx result) \<Rightarrow> 'tx result" where
  "estiamteAndSendTransaction c price estimate send =
     bindR estimate (\<lambda>gasEstimate. send (gasEstimate * 2) (getGasPrice c price))"

definition deploy :: "Chain \<Rightarrow> int \<Rightarrow> int result \<Rightarrow> int \<Rightarrow> int \<Rightarrow> int \<Rightarrow> (int \<Rightarrow> int \<Rightarrow> string result) \<Rightarrow> string result" where
  "deploy c price estimate gasMultiplier gasPriceMultiplier deployerBalance send =
     bindR estimate (\<lambda>estimated.
       let gas = estimated * gasMultiplier; gasPrice = getGasPrice c price * gasPriceMultiplier in
       if gas * gasPrice - deployerBalance > 0 then Inl (JsError ''Insufficient funds to deploy contract'')
       else send gas gasPrice)"

section \<open>Governance payloads\<close>

definition chain_name :: "Chain \<Rightarrow> string" where
  "chain_name c = property_key (ch_wormholeChainName (chain_base c))"

definition generateGovernanceSetFeePayload ::
  "chain_table \<Rightarrow> buffer_layout_lib \<Rightarrow> 'pk web3_lib \<Rightarrow> Chain \<Rightarrow> int \<Rightarrow> int \<Rightarrow> bytes result" where
  "generateGovernanceSetFeePayload wh L W c fee expo = encode wh L W (SetFee (chain_name c) fee expo)"

definition generateGovernanceSetDataSources ::
  "chain_table \<Rightarrow> buffer_layout_lib \<Rightarrow> 'pk web3_lib \<Rightarrow> Chain \<Rightarrow> DataSource list \<Rightarrow> bytes result" where
  "generateGovernanceSetDataSources wh L W c datasources = encode wh L W (SetDataSources (chain_name c) datasources)"

definition generateGovernanceSetStalePriceThreshold ::
  "chain_table \<Rightarrow> buffer_layout_lib \<Rightarrow> 'pk web3_lib \<Rightarrow> Chain \<Rightarrow> int \<Rightarrow> bytes result" where
  "generateGovernanceSetStalePriceThreshold wh L W c threshold = encode wh L W (SetValidPeriod (chain_name c) threshold)"

text \<open>What a contract is upgraded to: a code id for CosmWasm, and a digest, class hash or address in hexadecimal elsewhere.\<close>

datatype upgrade_info = Code_id int | Digest string

text \<open>The parameter of each class has the type of its constructor here, so the remaining cases do not occur.\<close>

fun generateGovernanceUpgradePayload ::
  "chain_table \<Rightarrow> buffer_layout_lib \<Rightarrow> 'pk web3_lib \<Rightarrow> Chain \<Rightarrow> upgrade_info \<Rightarrow> bytes result" where
  "generateGovernanceUpgradePayload wh L W (CosmWasmChain b e g p f) (Code_id codeId) =
     encode wh L W (CosmosUpgradeContract (chain_name (CosmWasmChain b e g p f)) codeId)"
| "generateGovernanceUpgradePayload wh L W (EvmChain b u n) (Digest address) = encode wh L W (EvmUpgradeContract (chain_name (EvmChain b u n)) address)"
| "generateGovernanceUpgradePayload wh L W (GlobalChain b) _ =
     Inl (JsError ''Can not create a governance message for upgrading contracts on all chains!'')"
| "generateGovernanceUpgradePayload wh L W c (Digest digest) = encode wh L W (UpgradeContract256Bit (chain_name c) digest)"
| "generateGovernanceUpgradePayload wh L W c (Code_id _) = Inl TypeError"

definition generateExecutorPayload ::
  "chain_table \<Rightarrow> buffer_layout_lib \<Rightarrow> 'pk web3_lib \<Rightarrow> Chain \<Rightarrow> string \<Rightarrow> string \<Rightarrow> string \<Rightarrow> bytes result" where
  "generateExecutorPayload wh L W c executor callAddress calldata =
     encode wh L W (EvmExecute (chain_name c) (remove_first ''0x'' executor) (remove_first ''0x'' callAddress) 0
       (from_hex (remove_first ''0x'' calldata)))"

definition generateGovernanceSetWormholeAddressPayload ::
  "chain_table \<Rightarrow> buffer_layout_lib \<Rightarrow> 'pk web3_lib \<Rightarrow> Chain \<Rightarrow> string \<Rightarrow> bytes result" where
  "generateGovernanceSetWormholeAddressPayload wh L W c address = encode wh L W (EvmSetWormholeAddress (chain_name c) address)"

section \<open>Lemmas\<close>

text \<open>The classes that the store knows by the property \<open>type\<close> (\<open>store.ts\<close>).\<close>

definition allChainClasses :: "string \<rightharpoonup> (chain_table \<Rightarrow> KeyValueConfig \<Rightarrow> Chain result)" where
  "allChainClasses = map_of
     [(''CosmWasmChain'', CosmWasmChain_fromJson), (''SuiChain'', SuiChain_fromJson), (''EvmChain'', EvmChain_fromJson),
      (''AptosChain'', AptosChain_fromJson), (''FuelChain'', FuelChain_fromJson), (''StarknetChain'', StarknetChain_fromJson),
      (''TonChain'', TonChain_fromJson), (''NearChain'', NearChain_fromJson)]"

lemmas chain_fromJson_defs =
  CosmWasmChain_fromJson_def SuiChain_fromJson_def EvmChain_fromJson_def AptosChain_fromJson_def FuelChain_fromJson_def
  StarknetChain_fromJson_def TonChain_fromJson_def NearChain_fromJson_def

lemmas chain_toJson_defs =
  GlobalChain_toJson_def CosmWasmChain_toJson_def SuiChain_toJson_def EvmChain_toJson_def AptosChain_toJson_def FuelChain_toJson_def
  StarknetChain_toJson_def TonChain_toJson_def NearChain_toJson_def url_chain_toJson_def

text \<open>Chains that a class can have made from JSON.\<close>

definition wf_chain :: "chain_table \<Rightarrow> Chain \<Rightarrow> bool" where
  "wf_chain wh c \<longleftrightarrow>
     toChainId wh (chain_name c) \<noteq> None \<and>
     (case c of
        GlobalChain _ \<Rightarrow> False
      | EvmChain b _ _ \<Rightarrow> ch_wormholeChainName b = ch_id b
      | StarknetChain b _ \<Rightarrow> ch_nativeToken b = None
      | _ \<Rightarrow> True)"

fun without_token :: "Chain \<Rightarrow> Chain" where
  "without_token (GlobalChain b) = GlobalChain (b\<lparr> ch_nativeToken := None \<rparr>)"
| "without_token (CosmWasmChain b e g p f) = CosmWasmChain (b\<lparr> ch_nativeToken := None \<rparr>) e g p f"
| "without_token (SuiChain b u) = SuiChain (b\<lparr> ch_nativeToken := None \<rparr>) u"
| "without_token (EvmChain b u n) = EvmChain (b\<lparr> ch_nativeToken := None \<rparr>) u n"
| "without_token (AptosChain b u) = AptosChain (b\<lparr> ch_nativeToken := None \<rparr>) u"
| "without_token (FuelChain b u) = FuelChain (b\<lparr> ch_nativeToken := None \<rparr>) u"
| "without_token (StarknetChain b u) = StarknetChain (b\<lparr> ch_nativeToken := None \<rparr>) u"
| "without_token (TonChain b u) = TonChain (b\<lparr> ch_nativeToken := None \<rparr>) u"
| "without_token (NearChain b u n) = NearChain (b\<lparr> ch_nativeToken := None \<rparr>) u n"

lemma Chain_getId_without_token [simp]: "Chain_getId (without_token c) = Chain_getId c"
  by (cases c) (simp_all add: Chain_getId_def)

lemma without_token_iff: "without_token c = c \<longleftrightarrow> getNativeToken c = None"
proof -
  have "b\<lparr> ch_nativeToken := None \<rparr> = b \<longleftrightarrow> ch_nativeToken b = None" for b by (cases b) auto
  then show ?thesis by (cases c) (simp_all add: getNativeToken_def)
qed

lemma hex_digit_char: "ch \<in> set hex_digits \<Longrightarrow> \<exists>n < 16. ch = hex_char n"
proof -
  assume "ch \<in> set hex_digits"
  then obtain n where "n < length hex_digits" "ch = hex_digits ! n" by (metis in_set_conv_nth)
  then show ?thesis by (intro exI [of _ n]) (simp add: hex_digits_def hex_char_def)
qed

lemma hex_digits_canonical: "set s \<subseteq> set hex_digits \<Longrightarrow> even (length s) \<Longrightarrow> to_hex (from_hex s) = s"
proof (induction s rule: from_hex.induct)
  case (1 c d cs)
  then obtain h l where n: "h < 16" "c = hex_char h" "l < 16" "d = hex_char l" using hex_digit_char [of c] hex_digit_char [of d] by auto
  then have "unat (of_nat (16 * h + l) :: byte) = 16 * h + l" by (intro unat_of_nat_small) simp
  then have "hex_byte (of_nat (16 * h + l)) = [c, d]" using n by (simp add: hex_byte_def del: of_nat_add of_nat_mult)
  moreover have "from_hex (c # d # cs) = of_nat (16 * h + l) # from_hex cs" using n by (simp add: unhex_hex_char)
  moreover have "to_hex (from_hex cs) = cs" using 1 n by (simp add: unhex_hex_char)
  ultimately show ?case by (simp add: to_hex_def)
qed simp_all

lemma default_sources_wf: "list_all source_wf (dc_dataSources (getDefaultDeploymentConfig d))"
proof -
  have canonical: "hex_of 32 s" if "length s = 64" "list_all (\<lambda>ch. ch \<in> set hex_digits) s" for s
    using that hex_digits_canonical [of s] by (simp add: hex_of_def list_all_iff subset_iff)
  show ?thesis
    by (cases d) (simp_all add: getDefaultDeploymentConfig_def data_source_def source_wf_def canonical hex_digits_def)
qed

lemma new_Chain_Inr:
  "new_Chain wh i m n t = Inr b \<longleftrightarrow>
     toChainId wh (property_key n) \<noteq> None \<and> b = \<lparr> ch_id = i, ch_mainnet = m, ch_wormholeChainName = n, ch_nativeToken = t \<rparr>"
  by (auto simp: new_Chain_def)

lemma allChainClasses_fromJson:
  assumes "allChainClasses t = Some fromJson" "fromJson wh parsed = Inr c"
  shows "wf_chain wh c \<and> Chain_getType c = t"
  using assms
  by (auto simp: allChainClasses_def chain_fromJson_defs base_fromJson_def bindR_Inr_iff new_Chain_Inr wf_chain_def chain_name_def split: if_splits)

lemma allChainClasses_reload:
  assumes "wf_chain wh c"
  shows "\<exists>fromJson. allChainClasses (Chain_getType c) = Some fromJson \<and> fromJson wh (Chain_toJson c) = Inr (without_token c)"
  using assms
  by (cases c)
    (auto simp: allChainClasses_def chain_fromJson_defs chain_toJson_defs base_fromJson_def checked_type_def new_Chain_def wf_chain_def
      chain_name_def split: option.splits)

lemma type_config_field [simp]: "config_field (Chain_toJson c) ''type'' = Some (Str (Chain_getType c))"
  by (cases c) (simp_all add: chain_toJson_defs)

section \<open>Properties\<close>

text \<open>What a chain is after it has been written and read: everything but its native token. So a chain is reconstructed
  from its JSON, as \<open>Storable\<close> asks, exactly when it has no native token.\<close>

theorem chain_json_exact:
  assumes "allChainClasses t = Some fromJson" "fromJson wh parsed = Inr c"
  shows "fromJson wh (Chain_toJson c) = Inr (without_token c) \<and> (fromJson wh (Chain_toJson c) = Inr c \<longleftrightarrow> getNativeToken c = None)"
  using allChainClasses_fromJson [OF assms] allChainClasses_reload [of wh c] assms(1) without_token_iff [of c] by auto

text \<open>Only the first variable of an RPC URL is replaced.\<close>

lemma parseRpcUrl_first_only:
  "parseRpcUrl (\<lambda>_. Some ''key'') ''https://rpc/$ENV_A/$ENV_B'' = Inr ''https://rpc/key/$ENV_B''"
  by (simp add: parseRpcUrl_def word_char_def starts_with_def)

lemma deploy_funds:
  "estimate = Inr g \<Longrightarrow> deploy c price estimate m pm balance send =
     (if g * m * (getGasPrice c price * pm) \<le> balance then send (g * m) (getGasPrice c price * pm)
      else Inl (JsError ''Insufficient funds to deploy contract''))"
  by (simp add: deploy_def Let_def)

text \<open>The payloads that a chain generates are read by the governance decoder as the action for that chain with the given values; the default
  data sources of both deployments can be set.\<close>

theorem chain_payloads_decode:
  assumes "buffer_layout L" "web3 W" "chain_ok wh (chain_name c) i"
  defines "decodes \<equiv> \<lambda>payload a. bindR payload (decodeGovernancePayload wh L W) = Inr (Some a)"
  shows "fits 8 fee \<and> fits 8 expo \<Longrightarrow> decodes (generateGovernanceSetFeePayload wh L W c fee expo) (SetFee (chain_name c) fee expo)"
    and "fits 8 t \<Longrightarrow> decodes (generateGovernanceSetStalePriceThreshold wh L W c t) (SetValidPeriod (chain_name c) t)"
    and "decodes (generateGovernanceSetDataSources wh L W c (dc_dataSources (getDefaultDeploymentConfig d)))
      (SetDataSources (chain_name c) (dc_dataSources (getDefaultDeploymentConfig d)))"
    and "hex_of 32 h \<and> (\<forall>b e g p f. c \<noteq> CosmWasmChain b e g p f) \<and> (\<forall>b u n. c \<noteq> EvmChain b u n) \<and> (\<forall>b. c \<noteq> GlobalChain b) \<Longrightarrow>
      decodes (generateGovernanceUpgradePayload wh L W c (Digest h)) (UpgradeContract256Bit (chain_name c) h)"
    and "hex_of 20 a \<and> c = EvmChain b u n \<Longrightarrow>
      decodes (generateGovernanceUpgradePayload wh L W c (Digest a)) (EvmUpgradeContract (chain_name c) a)"
    and "fits 8 code \<and> c = CosmWasmChain b e' g p f \<Longrightarrow>
      decodes (generateGovernanceUpgradePayload wh L W c (Code_id code)) (CosmosUpgradeContract (chain_name c) code)"
    and "hex_of 20 (remove_first ''0x'' executor) \<and> hex_of 20 (remove_first ''0x'' callee) \<Longrightarrow>
      decodes (generateExecutorPayload wh L W c executor callee calldata)
        (EvmExecute (chain_name c) (remove_first ''0x'' executor) (remove_first ''0x'' callee) 0 (from_hex (remove_first ''0x'' calldata)))"
proof -
  have rt: "decodes (encode wh L W a) a" if "action_chain a = chain_name c" "wf_action (w3_toBytes W) a" for a
    using governance_codec.encode_wire [OF governance_codecI [OF assms(1,2)] _ _ that(2)]
      governance_codec.decode_wire [OF governance_codecI [OF assms(1,2)] _ that(2), of wh i] assms(3) that(1)
    by (simp add: chain_ok_def decodes_def)
  show "fits 8 fee \<and> fits 8 expo \<Longrightarrow> decodes (generateGovernanceSetFeePayload wh L W c fee expo) (SetFee (chain_name c) fee expo)"
    unfolding generateGovernanceSetFeePayload_def by (intro rt) simp_all
  show "fits 8 t \<Longrightarrow> decodes (generateGovernanceSetStalePriceThreshold wh L W c t) (SetValidPeriod (chain_name c) t)"
    unfolding generateGovernanceSetStalePriceThreshold_def by (intro rt) simp_all
  show "decodes (generateGovernanceSetDataSources wh L W c (dc_dataSources (getDefaultDeploymentConfig d)))
      (SetDataSources (chain_name c) (dc_dataSources (getDefaultDeploymentConfig d)))"
    unfolding generateGovernanceSetDataSources_def
    using default_sources_wf [of d] by (intro rt) (cases d; simp add: getDefaultDeploymentConfig_def)+
  show "hex_of 32 h \<and> (\<forall>b e g p f. c \<noteq> CosmWasmChain b e g p f) \<and> (\<forall>b u n. c \<noteq> EvmChain b u n) \<and> (\<forall>b. c \<noteq> GlobalChain b) \<Longrightarrow>
      decodes (generateGovernanceUpgradePayload wh L W c (Digest h)) (UpgradeContract256Bit (chain_name c) h)"
    using rt [of "UpgradeContract256Bit (chain_name c) h"] by (cases c) simp_all
  show "hex_of 20 a \<and> c = EvmChain b u n \<Longrightarrow>
      decodes (generateGovernanceUpgradePayload wh L W c (Digest a)) (EvmUpgradeContract (chain_name c) a)"
    using rt [of "EvmUpgradeContract (chain_name c) a"] by auto
  show "fits 8 code \<and> c = CosmWasmChain b e' g p f \<Longrightarrow>
      decodes (generateGovernanceUpgradePayload wh L W c (Code_id code)) (CosmosUpgradeContract (chain_name c) code)"
    using rt [of "CosmosUpgradeContract (chain_name c) code"] by auto
  show "hex_of 20 (remove_first ''0x'' executor) \<and> hex_of 20 (remove_first ''0x'' callee) \<Longrightarrow>
      decodes (generateExecutorPayload wh L W c executor callee calldata)
        (EvmExecute (chain_name c) (remove_first ''0x'' executor) (remove_first ''0x'' callee) 0 (from_hex (remove_first ''0x'' calldata)))"
    unfolding generateExecutorPayload_def by (intro rt) (simp_all add: fits_def)
qed

end
