(* ===== verification/Contract_Store.thy ===== *)
theory Contract_Store
  imports Contract_Chains "HOL-Library.Multiset"
begin

text \<open>
  \<open>contract_manager/src/contracts/*.ts\<close> (the JSON form and the identity of the contracts), \<open>token.ts\<close>, and \<open>store.ts\<close>: the store
  that loads chains, contracts, tokens and vaults from YAML files and saves chains and contracts. Objects that are used as tables are
  association lists in the order of insertion: their keys are not array indices.
\<close>

section \<open>Contracts\<close>

text \<open>The fields of a contract in the order of the constructor, after its chain.\<close>

datatype Contract =
    AptosPriceFeedContract (co_chain: Chain) js js
  | AptosWormholeContract (co_chain: Chain) js
  | CosmWasmPriceFeedContract (co_chain: Chain) js
  | CosmWasmWormholeContract (co_chain: Chain) js
  | EvmPriceFeedContract (co_chain: Chain) js
  | EvmWormholeContract (co_chain: Chain) js
  | EvmEntropyContract (co_chain: Chain) js
  | EvmExpressRelayContract (co_chain: Chain) js
  | FuelPriceFeedContract (co_chain: Chain) js
  | FuelWormholeContract (co_chain: Chain) js
  | StarknetPriceFeedContract (co_chain: Chain) js
  | StarknetWormholeContract (co_chain: Chain) js
  | SuiPriceFeedContract (co_chain: Chain) js js
  | SuiWormholeContract (co_chain: Chain) js js
  | TonPriceFeedContract (co_chain: Chain) js
  | TonWormholeContract (co_chain: Chain) js
  | NearPriceFeedContract (co_chain: Chain) js js js js
  | NearWormholeContract (co_chain: Chain) js

text \<open>\<open>fromJson\<close>: the type, the class of the chain, and the fields.\<close>

definition contract_of ::
  "string \<Rightarrow> (Chain \<Rightarrow> bool) \<Rightarrow> (Chain \<Rightarrow> KeyValueConfig \<Rightarrow> Contract) \<Rightarrow> Chain \<Rightarrow> KeyValueConfig \<Rightarrow> Contract result" where
  "contract_of type is_class mk chain parsed =
     bindR (checked_type type parsed) (\<lambda>_. bindR (guardR (is_class chain) (JsError ''Wrong chain type'')) (\<lambda>_. Inr (mk chain parsed)))"

text \<open>\<open>toJson\<close>: the id of the chain, some of the fields, and the type.\<close>

definition contract_json :: "string \<Rightarrow> Chain \<Rightarrow> (string \<times> js) list \<Rightarrow> KeyValueConfig" where
  "contract_json type chain kvs = json_object ((''chain'', Chain_getId chain) # kvs @ [(''type'', Some (Str type))])"

definition AptosPriceFeedContract_fromJson :: "Chain \<Rightarrow> KeyValueConfig \<Rightarrow> Contract result" where
  "AptosPriceFeedContract_fromJson = contract_of ''AptosPriceFeedContract'' is_AptosChain
     (\<lambda>chain parsed. AptosPriceFeedContract chain (config_field parsed ''stateId'') (config_field parsed ''wormholeStateId''))"

definition AptosPriceFeedContract_toJson :: "Chain \<Rightarrow> js \<Rightarrow> js \<Rightarrow> KeyValueConfig" where
  "AptosPriceFeedContract_toJson chain stateId wormholeStateId = contract_json ''AptosPriceFeedContract'' chain [(''stateId'', stateId), (''wormholeStateId'', wormholeStateId)]"

definition AptosWormholeContract_fromJson :: "Chain \<Rightarrow> KeyValueConfig \<Rightarrow> Contract result" where
  "AptosWormholeContract_fromJson = contract_of ''AptosWormholeContract'' is_AptosChain
     (\<lambda>chain parsed. AptosWormholeContract chain (config_field parsed ''address''))"

definition AptosWormholeContract_toJson :: "Chain \<Rightarrow> js \<Rightarrow> KeyValueConfig" where
  "AptosWormholeContract_toJson chain address = contract_json ''AptosWormholeContract'' chain [(''address'', address)]"

definition CosmWasmPriceFeedContract_fromJson :: "Chain \<Rightarrow> KeyValueConfig \<Rightarrow> Contract result" where
  "CosmWasmPriceFeedContract_fromJson = contract_of ''CosmWasmPriceFeedContract'' is_CosmWasmChain
     (\<lambda>chain parsed. CosmWasmPriceFeedContract chain (config_field parsed ''address''))"

definition CosmWasmPriceFeedContract_toJson :: "Chain \<Rightarrow> js \<Rightarrow> KeyValueConfig" where
  "CosmWasmPriceFeedContract_toJson chain address = contract_json ''CosmWasmPriceFeedContract'' chain [(''address'', address)]"

definition CosmWasmWormholeContract_fromJson :: "Chain \<Rightarrow> KeyValueConfig \<Rightarrow> Contract result" where
  "CosmWasmWormholeContract_fromJson = contract_of ''CosmWasmWormholeContract'' is_CosmWasmChain
     (\<lambda>chain parsed. CosmWasmWormholeContract chain (config_field parsed ''address''))"

definition CosmWasmWormholeContract_toJson :: "Chain \<Rightarrow> js \<Rightarrow> KeyValueConfig" where
  "CosmWasmWormholeContract_toJson chain address = contract_json ''CosmWasmWormholeContract'' chain [(''address'', address)]"

definition EvmPriceFeedContract_fromJson :: "Chain \<Rightarrow> KeyValueConfig \<Rightarrow> Contract result" where
  "EvmPriceFeedContract_fromJson = contract_of ''EvmPriceFeedContract'' is_EvmChain
     (\<lambda>chain parsed. EvmPriceFeedContract chain (config_field parsed ''address''))"

definition EvmPriceFeedContract_toJson :: "Chain \<Rightarrow> js \<Rightarrow> KeyValueConfig" where
  "EvmPriceFeedContract_toJson chain address = contract_json ''EvmPriceFeedContract'' chain [(''address'', address)]"

definition EvmWormholeContract_fromJson :: "Chain \<Rightarrow> KeyValueConfig \<Rightarrow> Contract result" where
  "EvmWormholeContract_fromJson = contract_of ''EvmWormholeContract'' is_EvmChain
     (\<lambda>chain parsed. EvmWormholeContract chain (config_field parsed ''address''))"

definition EvmWormholeContract_toJson :: "Chain \<Rightarrow> js \<Rightarrow> KeyValueConfig" where
  "EvmWormholeContract_toJson chain address = contract_json ''EvmWormholeContract'' chain [(''address'', address)]"

definition EvmEntropyContract_fromJson :: "Chain \<Rightarrow> KeyValueConfig \<Rightarrow> Contract result" where
  "EvmEntropyContract_fromJson = contract_of ''EvmEntropyContract'' is_EvmChain
     (\<lambda>chain parsed. EvmEntropyContract chain (config_field parsed ''address''))"

definition EvmEntropyContract_toJson :: "Chain \<Rightarrow> js \<Rightarrow> KeyValueConfig" where
  "EvmEntropyContract_toJson chain address = contract_json ''EvmEntropyContract'' chain [(''address'', address)]"

definition EvmExpressRelayContract_fromJson :: "Chain \<Rightarrow> KeyValueConfig \<Rightarrow> Contract result" where
  "EvmExpressRelayContract_fromJson = contract_of ''EvmExpressRelayContract'' is_EvmChain
     (\<lambda>chain parsed. EvmExpressRelayContract chain (config_field parsed ''address''))"

definition EvmExpressRelayContract_toJson :: "Chain \<Rightarrow> js \<Rightarrow> KeyValueConfig" where
  "EvmExpressRelayContract_toJson chain address = contract_json ''EvmExpressRelayContract'' chain [(''address'', address)]"

definition FuelPriceFeedContract_fromJson :: "Chain \<Rightarrow> KeyValueConfig \<Rightarrow> Contract result" where
  "FuelPriceFeedContract_fromJson = contract_of ''FuelPriceFeedContract'' is_FuelChain
     (\<lambda>chain parsed. FuelPriceFeedContract chain (config_field parsed ''address''))"

definition FuelPriceFeedContract_toJson :: "Chain \<Rightarrow> js \<Rightarrow> KeyValueConfig" where
  "FuelPriceFeedContract_toJson chain address = contract_json ''FuelPriceFeedContract'' chain [(''address'', address)]"

definition FuelWormholeContract_fromJson :: "Chain \<Rightarrow> KeyValueConfig \<Rightarrow> Contract result" where
  "FuelWormholeContract_fromJson = contract_of ''FuelWormholeContract'' is_FuelChain
     (\<lambda>chain parsed. FuelWormholeContract chain (config_field parsed ''address''))"

definition FuelWormholeContract_toJson :: "Chain \<Rightarrow> js \<Rightarrow> KeyValueConfig" where
  "FuelWormholeContract_toJson chain address = contract_json ''FuelWormholeContract'' chain [(''address'', address)]"

definition StarknetPriceFeedContract_fromJson :: "Chain \<Rightarrow> KeyValueConfig \<Rightarrow> Contract result" where
  "StarknetPriceFeedContract_fromJson = contract_of ''StarknetPriceFeedContract'' is_StarknetChain
     (\<lambda>chain parsed. StarknetPriceFeedContract chain (config_field parsed ''address''))"

definition StarknetPriceFeedContract_toJson :: "Chain \<Rightarrow> js \<Rightarrow> KeyValueConfig" where
  "StarknetPriceFeedContract_toJson chain address = contract_json ''StarknetPriceFeedContract'' chain [(''address'', address)]"

definition StarknetWormholeContract_fromJson :: "Chain \<Rightarrow> KeyValueConfig \<Rightarrow> Contract result" where
  "StarknetWormholeContract_fromJson = contract_of ''StarknetWormholeContract'' is_StarknetChain
     (\<lambda>chain parsed. StarknetWormholeContract chain (config_field parsed ''address''))"

definition StarknetWormholeContract_toJson :: "Chain \<Rightarrow> js \<Rightarrow> KeyValueConfig" where
  "StarknetWormholeContract_toJson chain address = contract_json ''StarknetWormholeContract'' chain [(''address'', address)]"

definition SuiPriceFeedContract_fromJson :: "Chain \<Rightarrow> KeyValueConfig \<Rightarrow> Contract result" where
  "SuiPriceFeedContract_fromJson = contract_of ''SuiPriceFeedContract'' is_SuiChain
     (\<lambda>chain parsed. SuiPriceFeedContract chain (config_field parsed ''stateId'') (config_field parsed ''wormholeStateId''))"

definition SuiPriceFeedContract_toJson :: "Chain \<Rightarrow> js \<Rightarrow> js \<Rightarrow> KeyValueConfig" where
  "SuiPriceFeedContract_toJson chain stateId wormholeStateId = contract_json ''SuiPriceFeedContract'' chain [(''stateId'', stateId), (''wormholeStateId'', wormholeStateId)]"

definition SuiWormholeContract_fromJson :: "Chain \<Rightarrow> KeyValueConfig \<Rightarrow> Contract result" where
  "SuiWormholeContract_fromJson = contract_of ''SuiWormholeContract'' is_SuiChain
     (\<lambda>chain parsed. SuiWormholeContract chain (config_field parsed ''address'') (config_field parsed ''stateId''))"

definition SuiWormholeContract_toJson :: "Chain \<Rightarrow> js \<Rightarrow> KeyValueConfig" where
  "SuiWormholeContract_toJson chain address = contract_json ''SuiWormholeContract'' chain [(''address'', address)]"

definition TonPriceFeedContract_fromJson :: "Chain \<Rightarrow> KeyValueConfig \<Rightarrow> Contract result" where
  "TonPriceFeedContract_fromJson = contract_of ''TonPriceFeedContract'' is_TonChain
     (\<lambda>chain parsed. TonPriceFeedContract chain (config_field parsed ''address''))"

definition TonPriceFeedContract_toJson :: "Chain \<Rightarrow> js \<Rightarrow> KeyValueConfig" where
  "TonPriceFeedContract_toJson chain address = contract_json ''TonPriceFeedContract'' chain [(''address'', address)]"

definition TonWormholeContract_fromJson :: "Chain \<Rightarrow> KeyValueConfig \<Rightarrow> Contract result" where
  "TonWormholeContract_fromJson = contract_of ''TonWormholeContract'' is_TonChain
     (\<lambda>chain parsed. TonWormholeContract chain (config_field parsed ''address''))"

definition TonWormholeContract_toJson :: "Chain \<Rightarrow> js \<Rightarrow> KeyValueConfig" where
  "TonWormholeContract_toJson chain address = contract_json ''TonWormholeContract'' chain [(''address'', address)]"

definition NearPriceFeedContract_fromJson :: "Chain \<Rightarrow> KeyValueConfig \<Rightarrow> Contract result" where
  "NearPriceFeedContract_fromJson = contract_of ''NearPriceFeedContract'' is_NearChain
     (\<lambda>chain parsed. NearPriceFeedContract chain (config_field parsed ''address'') (config_field parsed ''governanceDataSourceChain'') (config_field parsed ''governanceDataSourceAddress'') (config_field parsed ''lastExecutedGovernanceSequence''))"

definition NearPriceFeedContract_toJson :: "Chain \<Rightarrow> js \<Rightarrow> js \<Rightarrow> js \<Rightarrow> js \<Rightarrow> KeyValueConfig" where
  "NearPriceFeedContract_toJson chain address governanceDataSourceChain governanceDataSourceAddress lastExecutedGovernanceSequence = contract_json ''NearPriceFeedContract'' chain [(''address'', address), (''governanceDataSourceChain'', governanceDataSourceChain), (''governanceDataSourceAddress'', governanceDataSourceAddress), (''lastExecutedGovernanceSequence'', lastExecutedGovernanceSequence)]"

definition NearWormholeContract_fromJson :: "Chain \<Rightarrow> KeyValueConfig \<Rightarrow> Contract result" where
  "NearWormholeContract_fromJson = contract_of ''NearWormholeContract'' is_NearChain
     (\<lambda>chain parsed. NearWormholeContract chain (config_field parsed ''address''))"

definition NearWormholeContract_toJson :: "Chain \<Rightarrow> js \<Rightarrow> KeyValueConfig" where
  "NearWormholeContract_toJson chain address = contract_json ''NearWormholeContract'' chain [(''address'', address)]"

fun Contract_getType :: "Contract \<Rightarrow> string" where
  "Contract_getType (AptosPriceFeedContract _ _ _) = ''AptosPriceFeedContract''"
| "Contract_getType (AptosWormholeContract _ _) = ''AptosWormholeContract''"
| "Contract_getType (CosmWasmPriceFeedContract _ _) = ''CosmWasmPriceFeedContract''"
| "Contract_getType (CosmWasmWormholeContract _ _) = ''CosmWasmWormholeContract''"
| "Contract_getType (EvmPriceFeedContract _ _) = ''EvmPriceFeedContract''"
| "Contract_getType (EvmWormholeContract _ _) = ''EvmWormholeContract''"
| "Contract_getType (EvmEntropyContract _ _) = ''EvmEntropyContract''"
| "Contract_getType (EvmExpressRelayContract _ _) = ''EvmExpressRelayContract''"
| "Contract_getType (FuelPriceFeedContract _ _) = ''FuelPriceFeedContract''"
| "Contract_getType (FuelWormholeContract _ _) = ''FuelWormholeContract''"
| "Contract_getType (StarknetPriceFeedContract _ _) = ''StarknetPriceFeedContract''"
| "Contract_getType (StarknetWormholeContract _ _) = ''StarknetWormholeContract''"
| "Contract_getType (SuiPriceFeedContract _ _ _) = ''SuiPriceFeedContract''"
| "Contract_getType (SuiWormholeContract _ _ _) = ''SuiWormholeContract''"
| "Contract_getType (TonPriceFeedContract _ _) = ''TonPriceFeedContract''"
| "Contract_getType (TonWormholeContract _ _) = ''TonWormholeContract''"
| "Contract_getType (NearPriceFeedContract _ _ _ _ _) = ''NearPriceFeedContract''"
| "Contract_getType (NearWormholeContract _ _) = ''NearWormholeContract''"

fun Contract_toJson :: "Contract \<Rightarrow> KeyValueConfig" where
  "Contract_toJson (AptosPriceFeedContract chain stateId wormholeStateId) = AptosPriceFeedContract_toJson chain stateId wormholeStateId"
| "Contract_toJson (AptosWormholeContract chain address) = AptosWormholeContract_toJson chain address"
| "Contract_toJson (CosmWasmPriceFeedContract chain address) = CosmWasmPriceFeedContract_toJson chain address"
| "Contract_toJson (CosmWasmWormholeContract chain address) = CosmWasmWormholeContract_toJson chain address"
| "Contract_toJson (EvmPriceFeedContract chain address) = EvmPriceFeedContract_toJson chain address"
| "Contract_toJson (EvmWormholeContract chain address) = EvmWormholeContract_toJson chain address"
| "Contract_toJson (EvmEntropyContract chain address) = EvmEntropyContract_toJson chain address"
| "Contract_toJson (EvmExpressRelayContract chain address) = EvmExpressRelayContract_toJson chain address"
| "Contract_toJson (FuelPriceFeedContract chain address) = FuelPriceFeedContract_toJson chain address"
| "Contract_toJson (FuelWormholeContract chain address) = FuelWormholeContract_toJson chain address"
| "Contract_toJson (StarknetPriceFeedContract chain address) = StarknetPriceFeedContract_toJson chain address"
| "Contract_toJson (StarknetWormholeContract chain address) = StarknetWormholeContract_toJson chain address"
| "Contract_toJson (SuiPriceFeedContract chain stateId wormholeStateId) = SuiPriceFeedContract_toJson chain stateId wormholeStateId"
| "Contract_toJson (SuiWormholeContract chain address _) = SuiWormholeContract_toJson chain address"
| "Contract_toJson (TonPriceFeedContract chain address) = TonPriceFeedContract_toJson chain address"
| "Contract_toJson (TonWormholeContract chain address) = TonWormholeContract_toJson chain address"
| "Contract_toJson (NearPriceFeedContract chain address governanceDataSourceChain governanceDataSourceAddress lastExecutedGovernanceSequence) = NearPriceFeedContract_toJson chain address governanceDataSourceChain governanceDataSourceAddress lastExecutedGovernanceSequence"
| "Contract_toJson (NearWormholeContract chain address) = NearWormholeContract_toJson chain address"

text \<open>Identifiers: the chain and the address or state id; Fuel and TON add the type; NEAR replaces dashes and dots of the address, which
  throws when it is not a string.\<close>

definition address_id :: "Chain \<Rightarrow> js \<Rightarrow> string" where
  "address_id chain address = property_key (Chain_getId chain) @ ''_'' @ property_key address"

definition typed_address_id :: "string \<Rightarrow> Chain \<Rightarrow> js \<Rightarrow> string" where
  "typed_address_id type chain address = property_key (Chain_getId chain) @ ''_'' @ property_key address @ ''_'' @ type"

definition near_id :: "Chain \<Rightarrow> js \<Rightarrow> string result" where
  "near_id chain address =
     (case address of
        Some (Str s) \<Rightarrow>
          Inr (property_key (Chain_getId chain) @ ''__'' @ map (\<lambda>ch. if ch = CHR ''-'' \<or> ch = CHR ''.'' then CHR ''_'' else ch) s)
      | _ \<Rightarrow> Inl TypeError)"

fun Contract_getId :: "Contract \<Rightarrow> string result" where
  "Contract_getId (AptosPriceFeedContract chain stateId _) = Inr (address_id chain stateId)"
| "Contract_getId (AptosWormholeContract chain address) = Inr (address_id chain address)"
| "Contract_getId (CosmWasmPriceFeedContract chain address) = Inr (address_id chain address)"
| "Contract_getId (CosmWasmWormholeContract chain address) = Inr (address_id chain address)"
| "Contract_getId (EvmPriceFeedContract chain address) = Inr (address_id chain address)"
| "Contract_getId (EvmWormholeContract chain address) = Inr (address_id chain address)"
| "Contract_getId (EvmEntropyContract chain address) = Inr (address_id chain address)"
| "Contract_getId (EvmExpressRelayContract chain address) = Inr (address_id chain address)"
| "Contract_getId (FuelPriceFeedContract chain address) = Inr (typed_address_id ''FuelPriceFeedContract'' chain address)"
| "Contract_getId (FuelWormholeContract chain address) = Inr (typed_address_id ''FuelWormholeContract'' chain address)"
| "Contract_getId (StarknetPriceFeedContract chain address) = Inr (address_id chain address)"
| "Contract_getId (StarknetWormholeContract chain address) = Inr (address_id chain address)"
| "Contract_getId (SuiPriceFeedContract chain stateId _) = Inr (address_id chain stateId)"
| "Contract_getId (SuiWormholeContract chain address _) = Inr (address_id chain address)"
| "Contract_getId (TonPriceFeedContract chain address) = Inr (typed_address_id ''TonPriceFeedContract'' chain address)"
| "Contract_getId (TonWormholeContract chain address) = Inr (typed_address_id ''TonWormholeContract'' chain address)"
| "Contract_getId (NearPriceFeedContract chain address _ _ _) = near_id chain address"
| "Contract_getId (NearWormholeContract chain address) = near_id chain address"

section \<open>Tokens and vaults\<close>

record Token =
  tk_id :: js
  tk_pythId :: js
  tk_decimals :: js

definition Token_toJson :: "Token \<Rightarrow> KeyValueConfig" where
  "Token_toJson t = json_object [(''id'', tk_id t), (''pythId'', tk_pythId t)]"

definition Token_fromJson :: "KeyValueConfig \<Rightarrow> Token" where
  "Token_fromJson parsed = \<lparr> tk_id = config_field parsed ''id'', tk_pythId = config_field parsed ''pythId'', tk_decimals = config_field parsed ''decimals'' \<rparr>"

text \<open>The classes \<open>PublicKey\<close> and \<open>getPythClusterApiUrl\<close>, which throws when the cluster is not known, are arguments.\<close>

record 'pk vault_lib =
  vl_newPublicKey :: "js \<Rightarrow> 'pk result"
  vl_toString :: "'pk \<Rightarrow> string"
  vl_isCluster :: "js \<Rightarrow> bool"

record 'pk Vault =
  va_key :: 'pk
  va_cluster :: js

definition asPythCluster :: "'pk vault_lib \<Rightarrow> js \<Rightarrow> js result" where
  "asPythCluster B cluster = bindR (guardR (vl_isCluster B cluster) (JsError ''Invalid cluster'')) (\<lambda>_. Inr cluster)"

definition new_Vault :: "'pk vault_lib \<Rightarrow> js \<Rightarrow> js \<Rightarrow> 'pk Vault result" where
  "new_Vault B key cluster =
     bindR (vl_newPublicKey B key) (\<lambda>k. bindR (asPythCluster B cluster) (\<lambda>c. Inr \<lparr> va_key = k, va_cluster = c \<rparr>))"

definition Vault_fromJson :: "'pk vault_lib \<Rightarrow> KeyValueConfig \<Rightarrow> 'pk Vault result" where
  "Vault_fromJson B parsed = bindR (checked_type ''vault'' parsed) (\<lambda>_. new_Vault B (config_field parsed ''key'') (config_field parsed ''cluster''))"

definition Vault_getId :: "'pk vault_lib \<Rightarrow> 'pk Vault \<Rightarrow> string" where
  "Vault_getId B v = property_key (va_cluster v) @ ''_'' @ vl_toString B (va_key v)"

definition Vault_toJson :: "'pk vault_lib \<Rightarrow> 'pk Vault \<Rightarrow> KeyValueConfig" where
  "Vault_toJson B v = json_object [(''key'', Some (Str (vl_toString B (va_key v)))), (''cluster'', va_cluster v), (''type'', Some (Str ''vault''))]"

section \<open>The store\<close>

text \<open>Directories; a file is the list of objects that its YAML holds.\<close>

datatype node = File string "KeyValueConfig list" | Directory string "node list"

fun walk :: "string \<Rightarrow> node \<Rightarrow> (string \<times> KeyValueConfig list) list" where
  "walk dir (File name content) = [(dir @ ''/'' @ name, content)]"
| "walk dir (Directory name nodes) = concat (map (walk (dir @ ''/'' @ name)) nodes)"

definition ends_with :: "string \<Rightarrow> string \<Rightarrow> bool" where
  "ends_with p s \<longleftrightarrow> p = drop (length s - length p) s"

definition getYamlFiles :: "string \<Rightarrow> node list \<Rightarrow> (string \<times> KeyValueConfig list) list" where
  "getYamlFiles path nodes = filter (\<lambda>(file, _). ends_with ''.yaml'' file) (concat (map (walk path) nodes))"

text \<open>Loops whose body can throw.\<close>

fun foldR :: "('a \<Rightarrow> 's \<Rightarrow> 's result) \<Rightarrow> 'a list \<Rightarrow> 's \<Rightarrow> 's result" where
  "foldR f [] s = Inr s"
| "foldR f (x # xs) s = bindR (f x s) (foldR f xs)"

type_synonym chains = "(string \<times> Chain) list"

definition load_chain :: "chain_table \<Rightarrow> KeyValueConfig \<Rightarrow> chains \<Rightarrow> chains result" where
  "load_chain wh parsed table =
     (case allChainClasses (property_key (config_field parsed ''type'')) of
        None \<Rightarrow> Inl (JsError (''No chain class found for chain type: '' @ property_key (config_field parsed ''type'')))
      | Some fromJson \<Rightarrow>
          bindR (fromJson wh parsed) (\<lambda>chain.
            let key = property_key (Chain_getId chain) in
            if map_of table key \<noteq> None then Inl (JsError (''Multiple chains with id '' @ key @ '' found''))
            else Inr (AList.update key chain table)))"

definition loadAllChains :: "chain_table \<Rightarrow> (string \<times> KeyValueConfig list) list \<Rightarrow> chains \<Rightarrow> chains result" where
  "loadAllChains wh files table = foldR (\<lambda>(_, parsedArray). foldR (load_chain wh) parsedArray) files table"

definition contract_classes :: "(string \<times> (Chain \<Rightarrow> KeyValueConfig \<Rightarrow> Contract result)) list" where
  "contract_classes =
     [(''AptosPriceFeedContract'', AptosPriceFeedContract_fromJson),
      (''AptosWormholeContract'', AptosWormholeContract_fromJson),
      (''CosmWasmPriceFeedContract'', CosmWasmPriceFeedContract_fromJson),
      (''CosmWasmWormholeContract'', CosmWasmWormholeContract_fromJson),
      (''EvmPriceFeedContract'', EvmPriceFeedContract_fromJson),
      (''EvmWormholeContract'', EvmWormholeContract_fromJson),
      (''EvmEntropyContract'', EvmEntropyContract_fromJson),
      (''EvmExpressRelayContract'', EvmExpressRelayContract_fromJson),
      (''FuelPriceFeedContract'', FuelPriceFeedContract_fromJson),
      (''FuelWormholeContract'', FuelWormholeContract_fromJson),
      (''StarknetPriceFeedContract'', StarknetPriceFeedContract_fromJson),
      (''StarknetWormholeContract'', StarknetWormholeContract_fromJson),
      (''SuiPriceFeedContract'', SuiPriceFeedContract_fromJson),
      (''SuiWormholeContract'', SuiWormholeContract_fromJson),
      (''TonPriceFeedContract'', TonPriceFeedContract_fromJson),
      (''TonWormholeContract'', TonWormholeContract_fromJson),
      (''NearPriceFeedContract'', NearPriceFeedContract_fromJson),
      (''NearWormholeContract'', NearWormholeContract_fromJson)]"

definition allContractClasses :: "string \<rightharpoonup> (Chain \<Rightarrow> KeyValueConfig \<Rightarrow> Contract result)" where
  "allContractClasses = map_of contract_classes"

record contracts =
  st_contracts :: "(string \<times> Contract) list"
  st_entropy_contracts :: "(string \<times> Contract) list"
  st_wormhole_contracts :: "(string \<times> Contract) list"
  st_express_relay_contracts :: "(string \<times> Contract) list"

definition no_contracts :: contracts where
  "no_contracts =
     \<lparr> st_contracts = [], st_entropy_contracts = [], st_wormhole_contracts = [], st_express_relay_contracts = [] \<rparr>"

text \<open>The classes that extend \<open>WormholeContract\<close>.\<close>

definition is_WormholeContract :: "Contract \<Rightarrow> bool" where
  "is_WormholeContract c \<longleftrightarrow>
     is_AptosWormholeContract c \<or> is_CosmWasmWormholeContract c \<or> is_EvmWormholeContract c \<or> is_FuelWormholeContract c \<or> is_StarknetWormholeContract c \<or> is_SuiWormholeContract c \<or> is_TonWormholeContract c \<or> is_NearWormholeContract c"

definition put_contract :: "string \<Rightarrow> Contract \<Rightarrow> contracts \<Rightarrow> contracts" where
  "put_contract key c st =
     (if is_EvmEntropyContract c then st\<lparr> st_entropy_contracts := AList.update key c (st_entropy_contracts st) \<rparr>
      else if is_EvmExpressRelayContract c then st\<lparr> st_express_relay_contracts := AList.update key c (st_express_relay_contracts st) \<rparr>
      else if is_WormholeContract c then st\<lparr> st_wormhole_contracts := AList.update key c (st_wormhole_contracts st) \<rparr>
      else st\<lparr> st_contracts := AList.update key c (st_contracts st) \<rparr>)"

definition known_contract :: "string \<Rightarrow> contracts \<Rightarrow> bool" where
  "known_contract key st \<longleftrightarrow>
     map_of (st_contracts st) key \<noteq> None \<or> map_of (st_entropy_contracts st) key \<noteq> None \<or> map_of (st_wormhole_contracts st) key \<noteq> None"

text \<open>One file; \<open>return\<close> on an unknown type leaves the callback, so the rest of the file is skipped.\<close>

fun load_contract_file :: "chains \<Rightarrow> KeyValueConfig list \<Rightarrow> contracts \<Rightarrow> contracts result" where
  "load_contract_file table [] st = Inr st"
| "load_contract_file table (parsed # rest) st =
     (case allContractClasses (property_key (config_field parsed ''type'')) of
        None \<Rightarrow> Inr st
      | Some fromJson \<Rightarrow>
          (case map_of table (property_key (config_field parsed ''chain'')) of
             None \<Rightarrow> Inl (JsError (''Chain '' @ property_key (config_field parsed ''chain'') @ '' not found''))
           | Some chain \<Rightarrow>
               bindR (fromJson chain parsed) (\<lambda>chainContract. bindR (Contract_getId chainContract) (\<lambda>key.
                 if known_contract key st then Inl (JsError (''Multiple contracts with id '' @ key @ '' found''))
                 else load_contract_file table rest (put_contract key chainContract st)))))"

definition loadAllContracts :: "chains \<Rightarrow> (string \<times> KeyValueConfig list) list \<Rightarrow> contracts \<Rightarrow> contracts result" where
  "loadAllContracts table files st = foldR (\<lambda>(_, parsedArray). load_contract_file table parsedArray) files st"

text \<open>\<open>byType[x.getType()].push(x)\<close> for the values in order.\<close>

definition group_step :: "('a \<Rightarrow> string) \<Rightarrow> (string \<times> 'a list) list \<Rightarrow> 'a \<Rightarrow> (string \<times> 'a list) list" where
  "group_step type groups x =
     AList.update (type x) (case map_of groups (type x) of None \<Rightarrow> [x] | Some ys \<Rightarrow> ys @ [x]) groups"

definition group_by_type :: "('a \<Rightarrow> string) \<Rightarrow> 'a list \<Rightarrow> (string \<times> 'a list) list" where
  "group_by_type type xs = foldl (group_step type) [] xs"

text \<open>The files that are written, with their contents.\<close>

definition saveAllChains :: "string \<Rightarrow> chains \<Rightarrow> (string \<times> KeyValueConfig list) list" where
  "saveAllChains path table =
     map (\<lambda>(type, cs). (path @ ''/chains/'' @ type @ ''s.yaml'', map Chain_toJson cs)) (group_by_type Chain_getType (map snd table))"

definition saveAllContracts :: "string \<Rightarrow> contracts \<Rightarrow> (string \<times> KeyValueConfig list) list" where
  "saveAllContracts path st =
     map (\<lambda>(type, cs). (path @ ''/contracts/'' @ type @ ''s.yaml'', map Contract_toJson cs))
       (group_by_type Contract_getType (map snd (st_contracts st) @ map snd (st_entropy_contracts st) @ map snd (st_wormhole_contracts st)))"

fun load_token_file :: "KeyValueConfig list \<Rightarrow> (string \<times> Token) list \<Rightarrow> (string \<times> Token) list result" where
  "load_token_file [] tokens = Inr tokens"
| "load_token_file (parsed # rest) tokens =
     (if config_field parsed ''type'' \<noteq> Some (Str ''token'') then Inr tokens
      else let token = Token_fromJson parsed; key = property_key (tk_id token) in
        if map_of tokens key \<noteq> None then Inl (JsError (''Multiple tokens with id '' @ key @ '' found''))
        else load_token_file rest (AList.update key token tokens))"

definition loadAllTokens :: "(string \<times> KeyValueConfig list) list \<Rightarrow> (string \<times> Token) list \<Rightarrow> (string \<times> Token) list result" where
  "loadAllTokens files tokens = foldR (\<lambda>(_, parsedArray). load_token_file parsedArray) files tokens"

fun load_vault_file :: "'pk vault_lib \<Rightarrow> KeyValueConfig list \<Rightarrow> (string \<times> 'pk Vault) list \<Rightarrow> (string \<times> 'pk Vault) list result" where
  "load_vault_file B [] vaults = Inr vaults"
| "load_vault_file B (parsed # rest) vaults =
     (if config_field parsed ''type'' \<noteq> Some (Str ''vault'') then Inr vaults
      else bindR (Vault_fromJson B parsed) (\<lambda>vault. let key = Vault_getId B vault in
        if map_of vaults key \<noteq> None then Inl (JsError (''Multiple vaults with id '' @ key @ '' found''))
        else load_vault_file B rest (AList.update key vault vaults)))"

definition loadAllVaults ::
  "'pk vault_lib \<Rightarrow> (string \<times> KeyValueConfig list) list \<Rightarrow> (string \<times> 'pk Vault) list \<Rightarrow> (string \<times> 'pk Vault) list result" where
  "loadAllVaults B files vaults = foldR (\<lambda>(_, parsedArray). load_vault_file B parsedArray) files vaults"

record 'pk Store =
  st_chains :: chains
  st_all_contracts :: contracts
  st_tokens :: "(string \<times> Token) list"
  st_vaults :: "(string \<times> 'pk Vault) list"

text \<open>The constructor; \<open>dir d\<close> holds the entries of the directory \<open>d\<close> of the store.\<close>

definition new_Store :: "chain_table \<Rightarrow> 'pk vault_lib \<Rightarrow> string \<Rightarrow> (string \<Rightarrow> node list) \<Rightarrow> 'pk Store result" where
  "new_Store wh B path dir =
     bindR (new_GlobalChain wh) (\<lambda>global.
     bindR (loadAllChains wh (getYamlFiles (path @ ''/chains/'') (dir ''chains'')) [(''global'', global)]) (\<lambda>table.
     bindR (loadAllContracts table (getYamlFiles (path @ ''/contracts/'') (dir ''contracts'')) no_contracts) (\<lambda>contracts.
     bindR (loadAllTokens (getYamlFiles (path @ ''/tokens/'') (dir ''tokens'')) []) (\<lambda>tokens.
     bindR (loadAllVaults B (getYamlFiles (path @ ''/vaults/'') (dir ''vaults'')) []) (\<lambda>vaults.
       Inr \<lparr> st_chains = table, st_all_contracts = contracts, st_tokens = tokens, st_vaults = vaults \<rparr>)))))"

text \<open>\<open>ChainClass\<close> is given by its static type.\<close>

definition getChainOrThrow :: "chains \<Rightarrow> string \<Rightarrow> string option \<Rightarrow> Chain result" where
  "getChainOrThrow table chainId ChainClass =
     (case map_of table chainId of
        None \<Rightarrow> Inl (JsError (''Chain with ID '' @ chainId @ '' does not exist.''))
      | Some chain \<Rightarrow>
          (case ChainClass of
             None \<Rightarrow> Inr chain
           | Some type \<Rightarrow> if Chain_getType chain = type then Inr chain
                          else Inl (JsError (''Chain with ID '' @ chainId @ '' is not of type '' @ type @ ''.''))))"

section \<open>Lemmas\<close>

lemma foldR_append: "foldR f (xs @ ys) s = bindR (foldR f xs s) (foldR f ys)"
proof (induction xs arbitrary: s)
  case (Cons x xs)
  then show ?case by (cases "f x s") simp_all
qed simp

lemma foldR_concat: "foldR (\<lambda>(_, xs). foldR f xs) files s = foldR f (concat (map snd files)) s"
proof (induction files arbitrary: s)
  case (Cons fl files)
  then have "foldR (\<lambda>(_, xs). foldR f xs) files = foldR f (concat (map snd files))" by (intro ext)
  then show ?case by (cases fl) (simp add: foldR_append)
qed simp

lemma foldR_cong_files:
  "(\<And>file s. file \<in> set files \<Longrightarrow> f file s = g file s) \<Longrightarrow> foldR f files s = foldR g files s"
proof (induction files arbitrary: s)
  case (Cons fl files)
  then show ?case by (cases "g fl s") simp_all
qed simp

lemma foldR_invariant:
  assumes "\<And>x s s'. f x s = Inr s' \<Longrightarrow> P s \<Longrightarrow> P s'" "foldR f xs s = Inr s'" "P s"
  shows "P s'"
  using assms(2,3)
proof (induction xs arbitrary: s)
  case (Cons x xs)
  then obtain t where "f x s = Inr t" "foldR f xs t = Inr s'" by (auto simp: bindR_Inr_iff)
  with Cons assms(1) show ?case by blast
qed simp

lemma mset_map_lift: "mset xs = mset (map f ys) \<Longrightarrow> \<exists>ys'. xs = map f ys' \<and> mset ys' = mset ys"
proof (induction xs arbitrary: ys)
  case (Cons x xs)
  then have "x \<in> set (map f ys)" by (metis list.set_intros(1) set_mset_mset)
  then obtain y where y: "y \<in> set ys" "x = f y" by auto
  have ys: "mset ys = add_mset y (mset (remove1 y ys))" using y by simp
  have "mset (map f ys) = add_mset (f y) (mset (map f (remove1 y ys)))"
    using arg_cong [OF ys, of "image_mset f"] by (simp only: mset_map image_mset_add_mset)
  then have "mset xs = mset (map f (remove1 y ys))" using Cons.prems y(2) by (metis add_mset_add_mset_same_iff mset.simps(2))
  from Cons.IH [OF this] obtain zs where "xs = map f zs" "mset zs = mset (remove1 y ys)" by blast
  with y(2) ys show ?case by (intro exI [of _ "y # zs"]) (simp only: list.map mset.simps)
qed simp

lemma map_of_same_set: "distinct (map fst xs) \<Longrightarrow> distinct (map fst ys) \<Longrightarrow> set xs = set ys \<Longrightarrow> map_of xs = map_of ys"
  using map_of_inject_set [of xs ys] by blast

lemma assoc_update_new: "map_of al k = None \<Longrightarrow> AList.update k v al = al @ [(k, v)]"
proof (induction al)
  case (Cons p al)
  then show ?case by (cases p) (simp split: if_splits)
qed simp

text \<open>Groups: nothing is lost, and each holds its type.\<close>

lemma group_step_mset: "mset (concat (map snd (group_step type groups x))) = add_mset x (mset (concat (map snd groups)))"
  unfolding group_step_def by (induction groups) auto

lemma group_step_types:
  assumes "\<forall>(t, ys) \<in> set groups. \<forall>y \<in> set ys. type y = t"
  shows "\<forall>(t, ys) \<in> set (group_step type groups x). \<forall>y \<in> set ys. type y = t"
proof -
  have "\<forall>y \<in> set ys. type y = type x" if "map_of groups (type x) = Some ys" for ys
    using assms map_of_SomeD [OF that] by auto
  then have new: "\<forall>y \<in> set (case map_of groups (type x) of None \<Rightarrow> [x] | Some ys \<Rightarrow> ys @ [x]). type y = type x"
    by (auto split: option.splits)
  have "set (AList.update k v al) \<subseteq> insert (k, v) (set al)" for k v and al :: "(string \<times> 'a list) list" by (induction al) auto
  from this [of "type x" "case map_of groups (type x) of None \<Rightarrow> [x] | Some ys \<Rightarrow> ys @ [x]" groups] new assms
  show ?thesis unfolding group_step_def by (smt (verit) case_prodI2 case_prodD insertE prod.inject subsetD)
qed

lemma group_by_type_mset: "mset (concat (map snd (group_by_type type xs))) = mset xs"
proof -
  have "mset (concat (map snd (foldl (group_step type) groups xs))) = mset (concat (map snd groups)) + mset xs" for groups
    by (induction xs arbitrary: groups) (simp_all add: group_step_mset)
  from this [of "[]"] show ?thesis by (simp add: group_by_type_def)
qed

lemma group_by_type_types: "\<forall>(t, ys) \<in> set (group_by_type type xs). \<forall>y \<in> set ys. type y = t"
proof -
  have "\<forall>(t, ys) \<in> set groups. \<forall>y \<in> set ys. type y = t \<Longrightarrow>
      \<forall>(t, ys) \<in> set (foldl (group_step type) groups xs). \<forall>y \<in> set ys. type y = t" for groups
  proof (induction xs arbitrary: groups)
    case (Cons x xs)
    show ?case using Cons.IH [OF group_step_types [OF Cons.prems]] by (simp only: foldl_Cons)
  qed simp
  from this [of "[]"] show ?thesis by (simp add: group_by_type_def)
qed

subsection \<open>Chains\<close>

abbreviation chain_key :: "Chain \<Rightarrow> string" where
  "chain_key c \<equiv> property_key (Chain_getId c)"

definition chains_ok :: "chain_table \<Rightarrow> Chain \<Rightarrow> chains \<Rightarrow> bool" where
  "chains_ok wh g table \<longleftrightarrow>
     distinct (map fst table) \<and> (\<forall>(k, c) \<in> set table. k = chain_key c) \<and>
     (\<exists>rest. table = (''global'', g) # rest \<and> (\<forall>(k, c) \<in> set rest. wf_chain wh c))"

lemma load_chain_ok: "load_chain wh parsed table = Inr table' \<Longrightarrow> chains_ok wh g table \<Longrightarrow> chains_ok wh g table'"
proof -
  assume load: "load_chain wh parsed table = Inr table'" and ok: "chains_ok wh g table"
  from load obtain t fromJson c where c: "allChainClasses t = Some fromJson" "fromJson wh parsed = Inr c"
    "map_of table (chain_key c) = None" "table' = AList.update (chain_key c) c table"
    by (auto simp: load_chain_def bindR_Inr_iff Let_def split: option.splits if_splits)
  have "wf_chain wh c" using allChainClasses_fromJson [OF c(1,2)] by blast
  moreover have "table' = table @ [(chain_key c, c)]" using c(3,4) assoc_update_new by metis
  ultimately show ?thesis using ok c(3) by (auto simp: chains_ok_def map_of_eq_None_iff)
qed

lemma loaded_chains_ok:
  assumes "new_GlobalChain wh = Inr g" "loadAllChains wh files [(''global'', g)] = Inr table"
  shows "chains_ok wh g table"
proof -
  have "chains_ok wh g [(''global'', g)]"
    using assms(1) by (cases "new_Chain wh (Some (Str ''global'')) (Some (Bool True)) (Some (Str ''unset'')) None")
      (auto simp: new_GlobalChain_def new_Chain_Inr chains_ok_def Chain_getId_def)
  moreover have "foldR (load_chain wh) (concat (map snd files)) [(''global'', g)] = Inr table"
    using assms(2) by (simp only: loadAllChains_def foldR_concat)
  ultimately show ?thesis using foldR_invariant [of "load_chain wh" "chains_ok wh g"] load_chain_ok by blast
qed

lemma load_written_chains:
  assumes "\<forall>c \<in> set cs. wf_chain wh c \<or> is_GlobalChain c"
    and "distinct (map fst table @ map chain_key (filter (\<lambda>c. \<not> is_GlobalChain c) cs))"
  shows "foldR (load_chain wh) (map Chain_toJson cs) table =
    (if \<exists>c \<in> set cs. is_GlobalChain c then Inl (JsError ''No chain class found for chain type: GlobalChain'')
     else Inr (table @ map (\<lambda>c. (chain_key c, without_token c)) cs))"
  using assms
proof (induction cs arbitrary: table)
  case (Cons c cs)
  show ?case
  proof (cases "is_GlobalChain c")
    case True
    then have "Chain_getType c = ''GlobalChain''" by (cases c) simp_all
    then show ?thesis using True by (simp add: load_chain_def allChainClasses_def)
  next
    case False
    then obtain fromJson where c: "allChainClasses (Chain_getType c) = Some fromJson" "fromJson wh (Chain_toJson c) = Inr (without_token c)"
      using Cons.prems(1) allChainClasses_reload [of wh c] by auto
    have "map_of table (chain_key c) = None" using Cons.prems(2) False by (auto simp: map_of_eq_None_iff)
    then have "load_chain wh (Chain_toJson c) table = Inr (table @ [(chain_key c, without_token c)])"
      by (simp add: load_chain_def c assoc_update_new)
    moreover have "distinct (map fst (table @ [(chain_key c, without_token c)]) @ map chain_key (filter (\<lambda>c. \<not> is_GlobalChain c) cs))"
      using Cons.prems(2) False by auto
    ultimately show ?thesis using Cons.IH [of "table @ [(chain_key c, without_token c)]"] Cons.prems(1) False by simp
  qed
qed simp

subsection \<open>Contracts\<close>

lemmas contract_fromJson_defs =
  AptosPriceFeedContract_fromJson_def AptosWormholeContract_fromJson_def CosmWasmPriceFeedContract_fromJson_def
  CosmWasmWormholeContract_fromJson_def EvmPriceFeedContract_fromJson_def EvmWormholeContract_fromJson_def
  EvmEntropyContract_fromJson_def EvmExpressRelayContract_fromJson_def FuelPriceFeedContract_fromJson_def
  FuelWormholeContract_fromJson_def StarknetPriceFeedContract_fromJson_def StarknetWormholeContract_fromJson_def
  SuiPriceFeedContract_fromJson_def SuiWormholeContract_fromJson_def TonPriceFeedContract_fromJson_def
  TonWormholeContract_fromJson_def NearPriceFeedContract_fromJson_def NearWormholeContract_fromJson_def

lemmas contract_toJson_defs =
  AptosPriceFeedContract_toJson_def AptosWormholeContract_toJson_def CosmWasmPriceFeedContract_toJson_def
  CosmWasmWormholeContract_toJson_def EvmPriceFeedContract_toJson_def EvmWormholeContract_toJson_def
  EvmEntropyContract_toJson_def EvmExpressRelayContract_toJson_def FuelPriceFeedContract_toJson_def
  FuelWormholeContract_toJson_def StarknetPriceFeedContract_toJson_def StarknetWormholeContract_toJson_def
  SuiPriceFeedContract_toJson_def SuiWormholeContract_toJson_def TonPriceFeedContract_toJson_def
  TonWormholeContract_toJson_def NearPriceFeedContract_toJson_def NearWormholeContract_toJson_def

text \<open>A Sui Wormhole contract is written without its state id.\<close>

fun without_state :: "Contract \<Rightarrow> Contract" where
  "without_state (SuiWormholeContract chain address stateId) = SuiWormholeContract chain address None"
| "without_state c = c"

datatype shelf = Feeds | Entropy | Express | Wormhole

definition shelf :: "Contract \<Rightarrow> shelf" where
  "shelf c =
     (if is_EvmEntropyContract c then Entropy else if is_EvmExpressRelayContract c then Express
      else if is_WormholeContract c then Wormhole else Feeds)"

lemma without_state_simps [simp]:
  "Contract_getId (without_state c) = Contract_getId c" "shelf (without_state c) = shelf c" "co_chain (without_state c) = co_chain c"
  "Contract_getType (without_state c) = Contract_getType c"
  by (cases c; simp add: shelf_def is_WormholeContract_def)+

lemma without_state_same: "shelf c \<noteq> Wormhole \<Longrightarrow> without_state c = c"
  by (cases c) (simp_all add: shelf_def is_WormholeContract_def)

text \<open>Contracts that are read back from what they write, up to that state id.\<close>

definition reloads :: "Contract \<Rightarrow> bool" where
  "reloads c \<longleftrightarrow>
     (\<exists>fromJson. allContractClasses (Contract_getType c) = Some fromJson \<and> fromJson (co_chain c) (Contract_toJson c) = Inr (without_state c))"

lemma contract_json_fields [simp]:
  assumes "distinct (map fst kvs)" "''chain'' \<notin> fst ` set kvs" "''type'' \<notin> fst ` set kvs"
  shows "config_field (contract_json type chain kvs) k =
     (if k = ''chain'' then Chain_getId chain else if k = ''type'' then Some (Str type)
      else (case map_of kvs k of None \<Rightarrow> None | Some v \<Rightarrow> v))"
proof -
  have "distinct (map fst ((''chain'', Chain_getId chain) # kvs @ [(''type'', Some (Str type))]))" using assms by auto
  moreover have "map_of kvs ''type'' = None" using assms(3) by (simp add: map_of_eq_None_iff)
  ultimately show ?thesis by (simp add: contract_json_def map_add_def del: distinct.simps split: option.split)
qed

lemma contract_of_Inr:
  "contract_of type is_class mk chain parsed = Inr c \<longleftrightarrow> config_field parsed ''type'' = Some (Str type) \<and> is_class chain \<and> c = mk chain parsed"
  by (auto simp: contract_of_def checked_type_def bindR_Inr_iff)

lemma json_type_chain [simp]:
  "config_field (Contract_toJson c) ''type'' = Some (Str (Contract_getType c))" "config_field (Contract_toJson c) ''chain'' = Chain_getId (co_chain c)"
  by (cases c; simp add: contract_toJson_defs)+

lemma class_reloads:
  assumes "contract_of type is_class mk chain parsed = Inr c" "map_of contract_classes type = Some (contract_of type is_class mk)"
    and "\<And>p. Contract_getType (mk chain p) = type" "\<And>p. co_chain (mk chain p) = chain"
    and "\<And>p. mk chain (Contract_toJson (mk chain p)) = without_state (mk chain p)"
  shows "(co_chain c, reloads c) = (chain, True)"
  using assms by (auto simp: contract_of_Inr reloads_def allContractClasses_def)

lemma contract_classes_lookup: "(t, fromJson) \<in> set contract_classes \<Longrightarrow> map_of contract_classes t = Some fromJson"
proof (rule map_of_is_SomeI)
  show "distinct (map fst contract_classes)" by (simp add: contract_classes_def)
qed

lemma contract_classes_reload:
  "list_all (\<lambda>(t, fromJson). map_of contract_classes t = Some fromJson \<longrightarrow> fromJson chain parsed = Inr c \<longrightarrow> (co_chain c, reloads c) = (chain, True))
     contract_classes"
  apply (subst (2) contract_classes_def)
  unfolding list.pred_inject prod.case contract_fromJson_defs
  apply (intro conjI impI TrueI)
                     apply (erule (1) class_reloads, simp, simp, simp add: contract_toJson_defs)+
  apply simp
  done

lemma allContractClasses_fromJson:
  assumes "allContractClasses t = Some fromJson" "fromJson chain parsed = Inr c"
  shows "co_chain c = chain \<and> reloads c"
proof -
  from assms(1) have t: "(t, fromJson) \<in> set contract_classes" unfolding allContractClasses_def by (rule map_of_SomeD)
  show ?thesis
    using contract_classes_reload [of chain parsed c] t contract_classes_lookup [OF t] assms(2) by (auto simp: list_all_iff)
qed

text \<open>One object of a file whose types are all known.\<close>

definition load_contract :: "chains \<Rightarrow> KeyValueConfig \<Rightarrow> contracts \<Rightarrow> contracts result" where
  "load_contract table parsed st = load_contract_file table [parsed] st"

lemma load_contract_file_step:
  assumes "allContractClasses (property_key (config_field p ''type'')) = Some fromJson"
  shows "load_contract_file table (p # ps) st = bindR (load_contract table p st) (load_contract_file table ps)"
proof (cases "map_of table (property_key (config_field p ''chain''))")
  case (Some chain)
  show ?thesis
  proof (cases "fromJson chain p")
    case (Inr c)
    then show ?thesis using assms Some by (cases "Contract_getId c") (simp_all add: load_contract_def)
  qed (simp add: load_contract_def assms Some)
qed (simp add: load_contract_def assms)

lemma load_contract_file_known:
  "(\<And>p. p \<in> set ps \<Longrightarrow> allContractClasses (property_key (config_field p ''type'')) \<noteq> None) \<Longrightarrow>
   load_contract_file table ps st = foldR (load_contract table) ps st"
proof (induction ps arbitrary: st)
  case (Cons p ps)
  then have IH: "load_contract_file table ps = foldR (load_contract table) ps" by (intro ext) simp
  from Cons.prems [of p] obtain fromJson where "allContractClasses (property_key (config_field p ''type'')) = Some fromJson" by auto
  from load_contract_file_step [OF this] show ?case by (simp add: IH)
qed simp

definition contracts_ok :: "chains \<Rightarrow> contracts \<Rightarrow> bool" where
  "contracts_ok table st \<longleftrightarrow>
     distinct (map fst (st_contracts st @ st_entropy_contracts st @ st_wormhole_contracts st)) \<and>
     (\<forall>(k, c) \<in> set (st_contracts st @ st_entropy_contracts st @ st_wormhole_contracts st).
        Contract_getId c = Inr k \<and> reloads c \<and> map_of table (chain_key (co_chain c)) = Some (co_chain c)) \<and>
     (\<forall>(k, c) \<in> set (st_contracts st). shelf c = Feeds) \<and> (\<forall>(k, c) \<in> set (st_entropy_contracts st). shelf c = Entropy) \<and>
     (\<forall>(k, c) \<in> set (st_wormhole_contracts st). shelf c = Wormhole)"

lemma put_contract_shelf:
  "put_contract key c st =
     (case shelf c of
        Feeds \<Rightarrow> st\<lparr> st_contracts := AList.update key c (st_contracts st) \<rparr>
      | Entropy \<Rightarrow> st\<lparr> st_entropy_contracts := AList.update key c (st_entropy_contracts st) \<rparr>
      | Express \<Rightarrow> st\<lparr> st_express_relay_contracts := AList.update key c (st_express_relay_contracts st) \<rparr>
      | Wormhole \<Rightarrow> st\<lparr> st_wormhole_contracts := AList.update key c (st_wormhole_contracts st) \<rparr>)"
  by (simp add: put_contract_def shelf_def)

lemma put_contract_ok:
  assumes "contracts_ok table st" "\<not> known_contract k st" "Contract_getId c = Inr k" "reloads c"
    "map_of table (chain_key (co_chain c)) = Some (co_chain c)"
  shows "contracts_ok table (put_contract k c st)"
  using assms by (cases "shelf c") (auto simp: put_contract_shelf contracts_ok_def known_contract_def assoc_update_new map_of_eq_None_iff)

lemma load_contract_file_ok:
  assumes "chains_ok wh g table"
  shows "load_contract_file table ps st = Inr st' \<Longrightarrow> contracts_ok table st \<Longrightarrow> contracts_ok table st'"
proof (induction ps arbitrary: st)
  case (Cons p ps)
  show ?case
  proof (cases "allContractClasses (property_key (config_field p ''type''))")
    case None
    then show ?thesis using Cons.prems by simp
  next
    case (Some fromJson)
    with Cons.prems(1) obtain chain c k where c: "map_of table (property_key (config_field p ''chain'')) = Some chain" "fromJson chain p = Inr c"
      "Contract_getId c = Inr k" "\<not> known_contract k st" "load_contract_file table ps (put_contract k c st) = Inr st'"
      by (auto simp: bindR_Inr_iff split: option.splits if_splits)
    from allContractClasses_fromJson [OF Some c(2)] have r: "co_chain c = chain" "reloads c" by simp_all
    have "property_key (config_field p ''chain'') = chain_key chain"
      using assms map_of_SomeD [OF c(1)] by (auto simp: chains_ok_def)
    then have "contracts_ok table (put_contract k c st)" using put_contract_ok [OF Cons.prems(2) c(4,3) r(2)] c(1) r(1) by simp
    with Cons.IH c(5) show ?thesis by blast
  qed
qed simp

lemma loaded_contracts_ok:
  assumes "chains_ok wh g table" "loadAllContracts table files no_contracts = Inr st"
  shows "contracts_ok table st"
proof -
  have "contracts_ok table no_contracts" by (simp add: contracts_ok_def no_contracts_def)
  moreover have "load_contract_file table (snd fl) s = Inr s' \<Longrightarrow> contracts_ok table s \<Longrightarrow> contracts_ok table s'" for fl :: "string \<times> KeyValueConfig list" and s s'
    using load_contract_file_ok [OF assms(1)] by blast
  ultimately show ?thesis
    using foldR_invariant [of "\<lambda>(_, ps). load_contract_file table ps" "contracts_ok table"] assms(2) by (auto simp: loadAllContracts_def)
qed

text \<open>Reading contracts that were written: they come back, in order, on their shelves.\<close>

definition entry :: "Contract \<Rightarrow> string \<times> Contract" where
  "entry c = (projr (Contract_getId c), without_state c)"

definition on_shelf :: "shelf \<Rightarrow> Contract list \<Rightarrow> (string \<times> Contract) list" where
  "on_shelf sh cs = map entry (filter (\<lambda>c. shelf c = sh) cs)"

lemma load_written_contracts:
  assumes "\<forall>c \<in> set cs. reloads c \<and> map_of table (chain_key (co_chain c)) = Some (co_chain c) \<and> isl (Contract_getId c) = False \<and> shelf c \<noteq> Express"
    and "distinct (map fst (st_contracts st @ st_entropy_contracts st @ st_wormhole_contracts st) @ map (\<lambda>c. projr (Contract_getId c)) cs)"
  shows "foldR (load_contract table) (map Contract_toJson cs) st =
    Inr (st\<lparr> st_contracts := st_contracts st @ on_shelf Feeds cs, st_entropy_contracts := st_entropy_contracts st @ on_shelf Entropy cs,
             st_wormhole_contracts := st_wormhole_contracts st @ on_shelf Wormhole cs \<rparr>)"
  using assms
proof (induction cs arbitrary: st)
  case (Cons c cs)
  obtain k where k: "Contract_getId c = Inr k" using Cons.prems(1) by (cases "Contract_getId c") auto
  obtain fromJson where f: "allContractClasses (Contract_getType c) = Some fromJson" "fromJson (co_chain c) (Contract_toJson c) = Inr (without_state c)"
    using Cons.prems(1) by (auto simp: reloads_def)
  have fresh: "map_of (st_contracts st) k = None" "map_of (st_entropy_contracts st) k = None" "map_of (st_wormhole_contracts st) k = None"
    using Cons.prems(2) k by (auto simp: map_of_eq_None_iff)
  let ?st = "put_contract k (without_state c) st"
  have "load_contract table (Contract_toJson c) st = Inr ?st"
    using Cons.prems(1) fresh by (simp add: load_contract_def f k known_contract_def)
  moreover have "foldR (load_contract table) (map Contract_toJson cs) ?st =
    Inr (?st\<lparr> st_contracts := st_contracts ?st @ on_shelf Feeds cs, st_entropy_contracts := st_entropy_contracts ?st @ on_shelf Entropy cs,
             st_wormhole_contracts := st_wormhole_contracts ?st @ on_shelf Wormhole cs \<rparr>)"
    using Cons.prems k by (intro Cons.IH) (cases "shelf c"; auto simp: put_contract_shelf assoc_update_new fresh)+
  ultimately show ?case
    using Cons.prems(1) by (cases "shelf c") (simp_all add: put_contract_shelf assoc_update_new fresh on_shelf_def entry_def k)
qed (simp add: on_shelf_def)

lemma written_contents:
  "concat (map snd (map (\<lambda>(t, cs). (name t, map toJson cs)) groups)) = map toJson (concat (map snd groups))"
  by (induction groups) auto

text \<open>Whatever the order in which files are read, the objects in them are those of a permutation of the saved list.\<close>

lemma mset_concat_files: "mset fs = mset fs' \<Longrightarrow> mset (concat (map snd fs)) = mset (concat (map snd fs'))"
  unfolding mset_concat sum_mset_sum_list [symmetric] mset_map by (simp only: map_map flip: mset_map)

lemma files_contents:
  assumes "mset files' = mset (map (\<lambda>(t, cs). (name t, map toJson cs)) (group_by_type type xs))"
  shows "\<exists>ys. concat (map snd files') = map toJson ys \<and> mset ys = mset xs"
proof -
  have "mset (concat (map snd files')) = mset (map toJson (concat (map snd (group_by_type type xs))))"
    using mset_concat_files [OF assms] unfolding written_contents .
  also have "\<dots> = mset (map toJson xs)" by (simp only: mset_map group_by_type_mset)
  finally show ?thesis by (rule mset_map_lift)
qed

lemma load_written_files:
  assumes "concat (map snd files) = map Contract_toJson cs" "\<forall>c \<in> set cs. reloads c"
  shows "loadAllContracts table files st = foldR (load_contract table) (map Contract_toJson cs) st"
proof -
  have "allContractClasses (property_key (config_field p ''type'')) \<noteq> None" if "p \<in> set (snd fl)" "fl \<in> set files" for p fl
  proof -
    have "p \<in> set (concat (map snd files))" using that by auto
    then show ?thesis using assms by (auto simp: reloads_def)
  qed
  then have "foldR (\<lambda>(_, ps). load_contract_file table ps) files st = foldR (\<lambda>(_, ps). foldR (load_contract table) ps) files st"
    by (intro foldR_cong_files) (auto intro!: load_contract_file_known)
  then show ?thesis by (simp add: loadAllContracts_def foldR_concat assms(1))
qed

text \<open>What is found on a shelf that has been filled from a permutation of the contracts \<open>all\<close>.\<close>

lemma on_shelf_lookup:
  assumes "set cs = snd ` set all" "\<And>k c. (k, c) \<in> set all \<Longrightarrow> Contract_getId c = Inr k" "distinct (map (\<lambda>c. projr (Contract_getId c)) cs)"
    and "distinct (map fst kcs)" "\<And>k c. (k, c) \<in> set kcs \<longleftrightarrow> (k, c) \<in> set all \<and> shelf c = sh"
  shows "map_of (on_shelf sh cs) = (\<lambda>k. map_option without_state (map_of kcs k))"
proof -
  have "set (on_shelf sh cs) = (\<lambda>(k, c). (k, without_state c)) ` set kcs"
  proof -
    have "entry ` {c \<in> snd ` set all. shelf c = sh} = (\<lambda>(k, c). (k, without_state c)) ` {(k, c). (k, c) \<in> set all \<and> shelf c = sh}"
      using assms(2) by (force simp: entry_def)
    moreover have "{(k, c). (k, c) \<in> set all \<and> shelf c = sh} = set kcs" using assms(5) by auto
    ultimately show ?thesis by (simp add: on_shelf_def assms(1))
  qed
  moreover have "distinct (map fst (on_shelf sh cs))"
    using assms(3) by (simp add: on_shelf_def entry_def comp_def distinct_map_filter)
  moreover have "distinct (map fst (map (\<lambda>(k, c). (k, without_state c)) kcs))" using assms(4) by (simp add: comp_def case_prod_unfold)
  ultimately have "map_of (on_shelf sh cs) = map_of (map (\<lambda>(k, c). (k, without_state c)) kcs)"
    by (intro map_of_same_set) (simp_all only: set_map)
  then show ?thesis by (simp add: map_of_map fun_eq_iff)
qed

section \<open>Properties\<close>

text \<open>C13. Saving the chains makes the store unloadable: whatever chains were loaded, the files that \<open>saveAllChains\<close> writes hold the global
  chain, which every store has and no class can read, so that in whatever order they are read, loading them throws.\<close>

theorem saved_chains_never_load:
  assumes "new_GlobalChain wh = Inr g" "loadAllChains wh files [(''global'', g)] = Inr table"
    and "mset files' = mset (saveAllChains path table)"
  shows "loadAllChains wh files' [(''global'', g)] = Inl (JsError ''No chain class found for chain type: GlobalChain'')"
proof -
  have g: "is_GlobalChain g" using assms(1) by (auto simp: new_GlobalChain_def map_sum_def split: sum.splits)
  obtain rest where ok: "distinct (map fst table)" "\<forall>(k, c) \<in> set table. k = chain_key c" "table = (''global'', g) # rest"
    "\<forall>(k, c) \<in> set rest. wf_chain wh c"
    using loaded_chains_ok [OF assms(1,2)] by (auto simp: chains_ok_def)
  from files_contents [OF assms(3) [unfolded saveAllChains_def]]
  obtain ys where ys: "concat (map snd files') = map Chain_toJson ys" "mset ys = mset (map snd table)" by blast
  have keys: "map chain_key (map snd table) = map fst table" using ok(2) by (induction table) auto
  have "set ys = set (map snd table)" using ys(2) by (metis set_mset_mset)
  then have set: "\<exists>c \<in> set ys. is_GlobalChain c" "\<forall>c \<in> set ys. wf_chain wh c \<or> is_GlobalChain c"
    using ok(3,4) g by auto
  have "mset (map chain_key ys) = mset (map fst table)" using ys(2) keys by (metis mset_map)
  then have "distinct (map chain_key ys)" using ok(1) by (metis mset_eq_imp_distinct_iff)
  moreover have "\<forall>c \<in> set ys. \<not> is_GlobalChain c \<longrightarrow> chain_key c \<noteq> ''global''"
  proof (intro ballI impI)
    fix c assume "c \<in> set ys" "\<not> is_GlobalChain c"
    with \<open>set ys = set (map snd table)\<close> ok(3) g obtain k where k: "(k, c) \<in> set rest" by auto
    then have "k = chain_key c" using ok(2,3) by auto
    moreover have "k \<noteq> ''global''" using k ok(1,3) by (auto simp: image_iff)
    ultimately show "chain_key c \<noteq> ''global''" by simp
  qed
  ultimately have "distinct (map fst [(''global'', g)] @ map chain_key (filter (\<lambda>c. \<not> is_GlobalChain c) ys))"
    by (auto simp: distinct_map_filter)
  from load_written_chains [OF set(2) this] set(1) show ?thesis
    by (simp add: loadAllChains_def foldR_concat ys(1))
qed

definition sample_global :: Chain where
  "sample_global = GlobalChain \<lparr> ch_id = Some (Str ''global''), ch_mainnet = Some (Bool True), ch_wormholeChainName = Some (Str ''unset''),
     ch_nativeToken = None \<rparr>"

definition sample_chain :: Chain where
  "sample_chain = SuiChain \<lparr> ch_id = Some (Str ''s''), ch_mainnet = Some (Bool False), ch_wormholeChainName = Some (Str ''unset''),
     ch_nativeToken = Some (Str ''SUI'') \<rparr> (Some (Str ''url''))"

definition sample_chain_files :: "(string \<times> KeyValueConfig list) list" where
  "sample_chain_files =
     [(''SuiChains.yaml'', [[(''id'', Str ''s''), (''mainnet'', Bool False), (''wormholeChainName'', Str ''unset''), (''nativeToken'', Str ''SUI''),
        (''rpcUrl'', Str ''url''), (''type'', Str ''SuiChain'')]])]"

lemma lookup_RECEIVER_unset: "DAList.lookup RECEIVER_CHAINS ''unset'' = Some 0"
  by (simp add: RECEIVER_CHAINS_def lookup_spread RECEIVER_CHAINS_entries_def
      RECEIVER_CHAINS_production_def RECEIVER_CHAINS_stable_testnets_def RECEIVER_CHAINS_testnets_def)

lemma sample_chains_load:
  "new_GlobalChain wh = Inr sample_global"
  "loadAllChains wh sample_chain_files [(''global'', sample_global)] = Inr [(''global'', sample_global), (''s'', sample_chain)]"
proof -
  have "toChainId wh ''unset'' = Some 0" by (simp add: toChainId_cases lookup_RECEIVER_unset)
  then show "new_GlobalChain wh = Inr sample_global"
    "loadAllChains wh sample_chain_files [(''global'', sample_global)] = Inr [(''global'', sample_global), (''s'', sample_chain)]"
    by (simp_all add: new_GlobalChain_def new_Chain_def sample_global_def loadAllChains_def sample_chain_files_def load_chain_def
        allChainClasses_def SuiChain_fromJson_def checked_type_def base_fromJson_def sample_chain_def Chain_getId_def Let_def)
qed

lemma saved_chains_never_load_witness:
  "loadAllChains DAList.empty (rev (saveAllChains ''store'' [(''global'', sample_global), (''s'', sample_chain)])) [(''global'', sample_global)] =
     Inl (JsError ''No chain class found for chain type: GlobalChain'')"
  by (rule saved_chains_never_load [OF sample_chains_load]) simp

text \<open>C14. Saving and loading contracts: for a store that was loaded, the files that \<open>saveAllContracts\<close> writes, in whatever order they are read,
  give back the same price feed and entropy contracts, and the same Wormhole contracts, except that those of Sui have lost their state id.\<close>

theorem contracts_survive_saving:
  assumes "new_GlobalChain wh = Inr g" "loadAllChains wh chain_files [(''global'', g)] = Inr table"
    and "loadAllContracts table files no_contracts = Inr st" "mset files' = mset (saveAllContracts path st)"
  shows "\<exists>st'. loadAllContracts table files' no_contracts = Inr st' \<and>
    map_of (st_contracts st') = map_of (st_contracts st) \<and> map_of (st_entropy_contracts st') = map_of (st_entropy_contracts st) \<and>
    map_of (st_wormhole_contracts st') = (\<lambda>k. map_option without_state (map_of (st_wormhole_contracts st) k))"
proof -
  let ?all = "st_contracts st @ st_entropy_contracts st @ st_wormhole_contracts st"
  have ok: "contracts_ok table st" using loaded_contracts_ok [OF loaded_chains_ok [OF assms(1,2)] assms(3)] .
  have "saveAllContracts path st = map (\<lambda>(type, cs). (path @ ''/contracts/'' @ type @ ''s.yaml'', map Contract_toJson cs))
      (group_by_type Contract_getType (map snd ?all))" by (simp add: saveAllContracts_def)
  from files_contents [OF assms(4) [unfolded this]]
  obtain ys where ys: "concat (map snd files') = map Contract_toJson ys" "mset ys = mset (map snd ?all)" by blast
  have all: "Contract_getId c = Inr k \<and> reloads c \<and> map_of table (chain_key (co_chain c)) = Some (co_chain c) \<and> shelf c \<noteq> Express"
    if "(k, c) \<in> set ?all" for k c
    using ok that by (fastforce simp: contracts_ok_def)
  have set: "set ys = snd ` set ?all" using ys(2) by (metis set_mset_mset set_map)
  then have wf: "\<forall>c \<in> set ys. reloads c \<and> map_of table (chain_key (co_chain c)) = Some (co_chain c) \<and> isl (Contract_getId c) = False \<and> shelf c \<noteq> Express"
    using all by fastforce
  have "projr (Contract_getId (snd p)) = fst p" if "p \<in> set ?all" for p using all [of "fst p" "snd p"] that by simp
  then have keys: "map (\<lambda>c. projr (Contract_getId c)) (map snd ?all) = map fst ?all"
    unfolding map_map comp_def by (intro map_cong refl)
  have "mset (map (\<lambda>c. projr (Contract_getId c)) ys) = mset (map fst ?all)" using ys(2) keys by (metis mset_map)
  then have dist: "distinct (map (\<lambda>c. projr (Contract_getId c)) ys)" using ok by (metis contracts_ok_def mset_eq_imp_distinct_iff)
  have sorted: "\<forall>(k, c) \<in> set (st_contracts st). shelf c = Feeds" "\<forall>(k, c) \<in> set (st_entropy_contracts st). shelf c = Entropy"
    "\<forall>(k, c) \<in> set (st_wormhole_contracts st). shelf c = Wormhole"
    and parts: "distinct (map fst (st_contracts st))" "distinct (map fst (st_entropy_contracts st))" "distinct (map fst (st_wormhole_contracts st))"
    using ok by (auto simp: contracts_ok_def)
  note look = on_shelf_lookup [OF set all [THEN conjunct1] dist]
  have "map_of (on_shelf Feeds ys) = (\<lambda>k. map_option without_state (map_of (st_contracts st) k))"
    "map_of (on_shelf Entropy ys) = (\<lambda>k. map_option without_state (map_of (st_entropy_contracts st) k))"
    "map_of (on_shelf Wormhole ys) = (\<lambda>k. map_option without_state (map_of (st_wormhole_contracts st) k))"
    using parts sorted by (intro look; fastforce)+
  moreover have "map_option without_state (map_of kcs k) = map_of kcs k" if "\<forall>(k, c) \<in> set kcs. shelf c \<noteq> Wormhole" for kcs :: "(string \<times> Contract) list" and k
    using that by (cases "map_of kcs k") (auto dest!: map_of_SomeD simp: without_state_same)
  moreover have "\<forall>(k, c) \<in> set (st_contracts st). shelf c \<noteq> Wormhole" "\<forall>(k, c) \<in> set (st_entropy_contracts st). shelf c \<noteq> Wormhole"
    using sorted by auto
  ultimately show ?thesis
    using load_written_contracts [OF wf, of no_contracts] dist load_written_files [OF ys(1)] wf by (simp add: no_contracts_def)
qed

definition sample_contract_files :: "(string \<times> KeyValueConfig list) list" where
  "sample_contract_files =
     [(''SuiWormholeContracts.yaml'',
       [[(''chain'', Str ''s''), (''address'', Str ''0x1''), (''stateId'', Str ''0x2''), (''type'', Str ''SuiWormholeContract'')]])]"

definition sample_contracts :: contracts where
  "sample_contracts = no_contracts\<lparr> st_wormhole_contracts := [(''s_0x1'', SuiWormholeContract sample_chain (Some (Str ''0x1'')) (Some (Str ''0x2'')))] \<rparr>"

lemma sample_contracts_load:
  "loadAllContracts [(''global'', sample_global), (''s'', sample_chain)] sample_contract_files no_contracts = Inr sample_contracts"
  by (simp add: loadAllContracts_def sample_contract_files_def allContractClasses_def contract_classes_def SuiWormholeContract_fromJson_def
      contract_of_def checked_type_def sample_chain_def address_id_def Chain_getId_def known_contract_def no_contracts_def
      put_contract_def is_WormholeContract_def sample_contracts_def)

lemma contracts_survive_saving_witness:
  "\<exists>st'. loadAllContracts [(''global'', sample_global), (''s'', sample_chain)] (saveAllContracts ''store'' sample_contracts) no_contracts = Inr st' \<and>
    map_of (st_wormhole_contracts st') ''s_0x1'' = Some (SuiWormholeContract sample_chain (Some (Str ''0x1'')) None)"
  using contracts_survive_saving [OF sample_chains_load [of DAList.empty] sample_contracts_load refl, of "''store''"]
  by (auto simp: sample_contracts_def)

text \<open>A token that is serialised cannot be loaded: its type is not written, and loading skips the rest of a file at an unknown type.\<close>

lemma token_not_reloaded: "load_token_file (Token_toJson t # rest) tokens = Inr tokens"
  by (simp add: Token_toJson_def)

text \<open>Vaults are reconstructed from their JSON.\<close>

theorem vault_json_roundtrip:
  assumes "Vault_fromJson B parsed = Inr v" "\<And>k. vl_newPublicKey B (Some (Str (vl_toString B k))) = Inr k"
  shows "Vault_fromJson B (Vault_toJson B v) = Inr v"
  using assms by (auto simp: Vault_fromJson_def Vault_toJson_def new_Vault_def asPythCluster_def checked_type_def bindR_Inr_iff)

end
