(* ===== verification/Contract_Governance.thy ===== *)
theory Contract_Governance
  imports Contract_Store Executor Js_Number
begin

text \<open>
  \<open>contract_manager/src/governance.ts\<close>, \<open>executor.ts\<close> and \<open>contracts/wormhole.ts\<close>: Wormhole messages of the multisig, the
  execution of governance VAAs on the contracts of the store, and guardian set upgrades. The node's answers and the contracts are arguments.
\<close>

section \<open>Wormhole messages\<close>

datatype message_error = InvalidTransactionError string | Thrown js_error

record 'pk SubmittedWormholeMessage =
  sm_emitter :: 'pk
  sm_sequenceNumber :: js_number
  sm_cluster :: string

text \<open>A parsed transaction: its logs, if there are any, its instructions, and the inner instructions of each of them. The data of an
  instruction is given decoded from base58.\<close>

record 'pk tx_instruction =
  ti_programId :: 'pk
  ti_data :: bytes
  ti_accounts :: "'pk list"

record 'pk tx_details =
  td_logMessages :: "string list"
  td_instructions :: "'pk tx_instruction list"
  td_innerInstructions :: "'pk tx_instruction list list"

text \<open>The part of a string after the first occurrence of \<open>p\<close>.\<close>

fun after_first :: "string \<Rightarrow> string \<Rightarrow> string option" where
  "after_first p s =
     (if starts_with p s then Some (drop (length p) s) else (case s of [] \<Rightarrow> None | ch # rest \<Rightarrow> after_first p rest))"

declare after_first.simps [simp del]

text \<open>\<open>Number(undefined)\<close> is \<open>NaN\<close>.\<close>

definition sequence_of :: "string list \<Rightarrow> js_number" where
  "sequence_of logs =
     (case List.find (\<lambda>s. after_first ''Sequence: '' s \<noteq> None) logs of
        None \<Rightarrow> NaN
      | Some txLog \<Rightarrow> (case after_first ''Sequence: '' txLog of None \<Rightarrow> NaN | Some n \<Rightarrow> Number n))"

definition is_postMessage :: "'pk \<Rightarrow> 'pk tx_instruction \<Rightarrow> bool" where
  "is_postMessage wormholeAddress ix \<longleftrightarrow> ti_programId ix = wormholeAddress \<and> ti_data ix \<noteq> [] \<and> hd (ti_data ix) = 1"

definition emitter_of :: "'pk \<Rightarrow> 'pk tx_instruction list \<Rightarrow> 'pk option" where
  "emitter_of wormholeAddress ixs =
     foldl (\<lambda>emitter ix. if is_postMessage wormholeAddress ix
                          then (if length (ti_accounts ix) > 2 then Some (ti_accounts ix ! 2) else None) else emitter) None ixs"

text \<open>\<open>getParsedTransaction url signature\<close> is the answer of the node, \<open>None\<close> for a transaction it does not know.\<close>

definition fromTransactionSignature ::
  "'pk pubkey_lib \<Rightarrow> (string \<Rightarrow> 'sig \<Rightarrow> 'pk tx_details option result) \<Rightarrow> 'sig \<Rightarrow> string \<Rightarrow> (string \<Rightarrow> string) \<Rightarrow>
   message_error + 'pk SubmittedWormholeMessage" where
  "fromTransactionSignature P getParsedTransaction signature cluster registry =
     (case getParsedTransaction (registry cluster) signature of
        Inl e \<Rightarrow> Inl (Thrown e)
      | Inr txDetails \<Rightarrow>
          (let sequenceNumber = sequence_of (case txDetails of None \<Rightarrow> [] | Some d \<Rightarrow> td_logMessages d) in
           case WORMHOLE_ADDRESS P cluster of
             None \<Rightarrow> Inl (Thrown (JsError (''Invalid cluster '' @ cluster)))
           | Some wormholeAddress \<Rightarrow>
               (case emitter_of wormholeAddress
                       (case txDetails of None \<Rightarrow> [] | Some d \<Rightarrow> td_instructions d @ concat (td_innerInstructions d)) of
                  None \<Rightarrow> Inl (InvalidTransactionError ''Could not find wormhole postMessage instruction'')
                | Some emitter \<Rightarrow> Inr \<lparr> sm_emitter = emitter, sm_sequenceNumber = sequenceNumber, sm_cluster = cluster \<rparr>)))"

text \<open>\<open>now i\<close> is the time, in milliseconds after the start, at which the loop is entered for the \<open>i\<close>-th time, and \<open>answer i\<close> what the API
  then answers.\<close>

datatype fetch_answer = Not_found | Signed (vaaBytes: string) | Fetch_thrown js_error

partial_function (option) fetch_loop :: "(nat \<Rightarrow> nat) \<Rightarrow> (nat \<Rightarrow> fetch_answer) \<Rightarrow> nat \<Rightarrow> nat \<Rightarrow> bytes result option" where
  "fetch_loop now answer limit i =
     (if now i < limit
      then (case answer i of
              Not_found \<Rightarrow> fetch_loop now answer limit (Suc i)
            | Signed b \<Rightarrow> Some (Inr (from_base64 b))
            | Fetch_thrown e \<Rightarrow> Some (Inl e))
      else Some (Inl (JsError ''VAA not found, maybe too soon to fetch?'')))"

declare fetch_loop.simps [code]

definition fetchVaa :: "(nat \<Rightarrow> nat) \<Rightarrow> (nat \<Rightarrow> fetch_answer) \<Rightarrow> nat \<Rightarrow> bytes result option" where
  "fetchVaa now answer waitingSeconds = fetch_loop now answer (waitingSeconds * 1000) 0"

text \<open>The transaction of \<open>WormholeEmitter.sendMessage\<close>, and the lookup of its message: \<open>send url tx\<close> confirms a transaction.\<close>

definition sendMessage ::
  "'pk pubkey_lib \<Rightarrow> 'pk solana_lib \<Rightarrow> 'pk squads_lib \<Rightarrow> ('pk \<Rightarrow> 'pk \<Rightarrow> bytes \<Rightarrow> 'pk instruction) \<Rightarrow>
   (string \<Rightarrow> 'pk instruction list \<Rightarrow> 'sig result) \<Rightarrow> (string \<Rightarrow> 'sig \<Rightarrow> 'pk tx_details option result) \<Rightarrow> (string \<Rightarrow> string) \<Rightarrow>
   string \<Rightarrow> 'pk \<Rightarrow> 'pk \<Rightarrow> bytes \<Rightarrow> (string \<Rightarrow> string) \<Rightarrow> message_error + 'pk SubmittedWormholeMessage" where
  "sendMessage P S Q postMessage send getParsedTransaction getPythClusterApiUrl cluster wallet kp payload registry =
     (case WORMHOLE_ADDRESS P cluster of
        None \<Rightarrow> Inl (Thrown (JsError (''Invalid cluster '' @ cluster)))
      | Some wormholeAddress \<Rightarrow>
          (case send (registry cluster)
                  [sl_transfer S wallet (sq_feeCollectorKey Q wormholeAddress) 1000, postMessage wallet kp payload] of
             Inl e \<Rightarrow> Inl (Thrown e)
           | Inr signature \<Rightarrow> fromTransactionSignature P getParsedTransaction signature cluster getPythClusterApiUrl))"

text \<open>\<open>WormholeMultisigProposal.execute\<close>.\<close>

fun collect_messages :: "('sig \<Rightarrow> message_error + 'm) \<Rightarrow> 'sig list \<Rightarrow> 'm list result" where
  "collect_messages lookup [] = Inr []"
| "collect_messages lookup (signature # signatures) =
     (case lookup signature of
        Inr m \<Rightarrow> bindR (collect_messages lookup signatures) (\<lambda>msgs. Inr (m # msgs))
      | Inl (InvalidTransactionError _) \<Rightarrow> collect_messages lookup signatures
      | Inl (Thrown e) \<Rightarrow> Inl e)"

definition execute_proposal ::
  "('pk, 'd) executor_libs \<Rightarrow> ('pk, 'd) executor_env \<Rightarrow> string \<Rightarrow> PriorityFeeConfig \<Rightarrow>
   ('s \<Rightarrow> 'pk instruction list \<Rightarrow> 'sig list result \<times> 's) \<Rightarrow> (string \<Rightarrow> 'sig \<Rightarrow> 'pk tx_details option result) \<Rightarrow> (string \<Rightarrow> string) \<Rightarrow>
   'pk proposal_account \<Rightarrow> 's \<Rightarrow> 'pk SubmittedWormholeMessage list result \<times> 's" where
  "execute_proposal R E cluster fees send getParsedTransaction getPythClusterApiUrl proposal s =
     (case executeProposal R E cluster fees send proposal s of
        (Inl e, s') \<Rightarrow> (Inl e, s')
      | (Inr signatures, s') \<Rightarrow>
          (bindR (collect_messages
              (\<lambda>signature. fromTransactionSignature (lib_P R) getParsedTransaction signature cluster getPythClusterApiUrl) signatures) (\<lambda>msgs.
             if msgs \<noteq> [] then Inr msgs else Inl (JsError ''No transactions with wormhole messages found'')), s'))"

text \<open>\<open>Vault.proposeWormholeMessage\<close>: \<open>squad\<close> is the wallet that the vault is connected to.\<close>

definition proposeWormholeMessage ::
  "'pk squads_lib \<Rightarrow> 'pk Vault \<Rightarrow> 'pk option \<Rightarrow> MultisigAccount \<Rightarrow> 'pk \<Rightarrow> ('pk \<times> nat) option \<Rightarrow> bytes list \<Rightarrow> ('pk squads_call list \<times> 'pk) result" where
  "proposeWormholeMessage Q vault squad ms wormholeAddress proposal payloads =
     (case squad of
        None \<Rightarrow> Inl (JsError ''Please connect a wallet to the vault'')
      | Some wallet \<Rightarrow> proposeWormholeMessages_calls Q (va_key vault) ms wormholeAddress wallet proposal payloads)"

section \<open>Executing governance VAAs\<close>

record parsed_vaa =
  pv_emitterChain :: nat
  pv_emitterAddress :: bytes
  pv_sequence :: nat
  pv_payload :: bytes

text \<open>A contract that executes governance instructions: its data source, the last sequence number, and what sending it a VAA does.\<close>

record 's GovernanceContract =
  gc_getGovernanceDataSource :: "'s \<Rightarrow> DataSource result"
  gc_getLastExecutedGovernanceSequence :: "'s \<Rightarrow> nat result"
  gc_executeGovernanceInstruction :: "bytes \<Rightarrow> 's \<Rightarrow> unit result \<times> 's"

definition executeForGovernanceContract :: "(bytes \<Rightarrow> parsed_vaa result) \<Rightarrow> 's GovernanceContract \<Rightarrow> bytes \<Rightarrow> 's \<Rightarrow> unit result \<times> 's" where
  "executeForGovernanceContract parseVaa contract vaa s =
     (case parseVaa vaa of
        Inl e \<Rightarrow> (Inl e, s)
      | Inr parsedVaa \<Rightarrow>
          (case gc_getGovernanceDataSource contract s of
             Inl e \<Rightarrow> (Inl e, s)
           | Inr governanceSource \<Rightarrow>
               if emitterAddress governanceSource = to_hex (pv_emitterAddress parsedVaa) \<and> emitterChain governanceSource = pv_emitterChain parsedVaa
               then (case gc_getLastExecutedGovernanceSequence contract s of
                       Inl e \<Rightarrow> (Inl e, s)
                     | Inr lastExecutedSequence \<Rightarrow>
                         if lastExecutedSequence \<ge> pv_sequence parsedVaa then (Inr (), s)
                         else gc_executeGovernanceInstruction contract vaa s)
               else (Inr (), s)))"

text \<open>What a VAA is executed on: a price feed contract of the store, or the executor contract with the given address on a chain.\<close>

datatype target = Feed_contract Contract | EvmExecutorContract Chain string

record 's governance_env =
  ge_parseVaa :: "bytes \<Rightarrow> parsed_vaa result"
  ge_contract :: "target \<Rightarrow> 's GovernanceContract"

fun execute_on :: "'s governance_env \<Rightarrow> bytes \<Rightarrow> target list \<Rightarrow> 's \<Rightarrow> unit result \<times> 's" where
  "execute_on E vaa [] s = (Inr (), s)"
| "execute_on E vaa (t # ts) s =
     (case executeForGovernanceContract (ge_parseVaa E) (ge_contract E t) vaa s of
        (Inl e, s') \<Rightarrow> (Inl e, s')
      | (Inr _, s') \<Rightarrow> execute_on E vaa ts s')"

definition targets :: "chains \<Rightarrow> contracts \<Rightarrow> 'pk PythGovernanceAction \<Rightarrow> target list" where
  "targets table st a =
     (case a of
        EvmExecute targetChainId executorAddress _ _ _ \<Rightarrow>
          map (\<lambda>chain. EvmExecutorContract chain executorAddress)
            (filter (\<lambda>chain. is_EvmChain chain \<and> ch_wormholeChainName (chain_base chain) = Some (Str targetChainId)) (map snd table))
      | _ \<Rightarrow>
          map Feed_contract
            (filter (\<lambda>c. action_chain a = ''unset'' \<or> ch_wormholeChainName (chain_base (co_chain c)) = Some (Str (action_chain a)))
              (map snd (st_contracts st))))"

definition executeVaa ::
  "chain_table \<Rightarrow> buffer_layout_lib \<Rightarrow> 'pk web3_lib \<Rightarrow> chains \<Rightarrow> contracts \<Rightarrow> 's governance_env \<Rightarrow> bytes \<Rightarrow> 's \<Rightarrow> unit result \<times> 's" where
  "executeVaa wh L W table st E vaa s =
     (case bindR (ge_parseVaa E vaa) (\<lambda>parsedVaa. decodeGovernancePayload wh L W (pv_payload parsedVaa)) of
        Inl e \<Rightarrow> (Inl e, s)
      | Inr None \<Rightarrow> (Inr (), s)
      | Inr (Some action) \<Rightarrow> execute_on E vaa (targets table st action) s)"

section \<open>Guardian sets\<close>

text \<open>A Wormhole contract: asking for its guardian set index, and submitting an upgrade VAA. Both move the state of the chain.\<close>

record 's WormholeContract_io =
  wc_getCurrentGuardianSetIndex :: "'s \<Rightarrow> nat result \<times> 's"
  wc_upgradeGuardianSets :: "bytes \<Rightarrow> 's \<Rightarrow> unit result \<times> 's"

partial_function (option) await_index :: "'s WormholeContract_io \<Rightarrow> nat \<Rightarrow> 's \<Rightarrow> (unit result \<times> 's) option" where
  "await_index C i s =
     (case wc_getCurrentGuardianSetIndex C s of
        (Inl e, s') \<Rightarrow> Some (Inl e, s')
      | (Inr n, s') \<Rightarrow> if n \<le> i then await_index C i s' else Some (Inr (), s'))"

declare await_index.simps [code]

text \<open>\<open>vaas\<close> is the list \<open>MAINNET_UPGRADE_VAAS\<close> of hexadecimal strings.\<close>

fun sync_loop :: "'s WormholeContract_io \<Rightarrow> string list \<Rightarrow> nat list \<Rightarrow> 's \<Rightarrow> (unit result \<times> 's) option" where
  "sync_loop C vaas [] s = Some (Inr (), s)"
| "sync_loop C vaas (i # is) s =
     (case wc_upgradeGuardianSets C (from_hex (vaas ! i)) s of
        (Inl e, s') \<Rightarrow> Some (Inl e, s')
      | (Inr _, s') \<Rightarrow>
          (case await_index C i s' of
             None \<Rightarrow> None
           | Some (Inl e, s'') \<Rightarrow> Some (Inl e, s'')
           | Some (Inr _, s'') \<Rightarrow> sync_loop C vaas is s''))"

definition syncMainnetGuardianSets :: "'s WormholeContract_io \<Rightarrow> string list \<Rightarrow> 's \<Rightarrow> (unit result \<times> 's) option" where
  "syncMainnetGuardianSets C vaas s =
     (case wc_getCurrentGuardianSetIndex C s of
        (Inl e, s') \<Rightarrow> Some (Inl e, s')
      | (Inr currentIndex, s') \<Rightarrow> sync_loop C vaas [currentIndex..<length vaas] s')"

section \<open>Lemmas\<close>

lemma collect_messages_spec:
  "collect_messages lookup sigs = Inr msgs \<longleftrightarrow>
     (\<forall>s \<in> set sigs. \<forall>e. lookup s \<noteq> Inl (Thrown e)) \<and> msgs = List.map_filter (\<lambda>s. case lookup s of Inr m \<Rightarrow> Some m | Inl _ \<Rightarrow> None) sigs"
proof (induction sigs arbitrary: msgs)
  case (Cons s sigs)
  show ?case
  proof (cases "lookup s")
    case (Inl e)
    with Cons show ?thesis by (cases e) (auto simp: map_filter_simps)
  next
    case (Inr m)
    then show ?thesis using Cons by (auto simp: map_filter_simps bindR_Inr_iff)
  qed
qed (auto simp: map_filter_simps)

text \<open>A transaction with one message: its emitter is found, wherever the instruction is.\<close>

definition emitter_step :: "'pk \<Rightarrow> 'pk option \<Rightarrow> 'pk tx_instruction \<Rightarrow> 'pk option" where
  "emitter_step w emitter ix =
     (if is_postMessage w ix then (if length (ti_accounts ix) > 2 then Some (ti_accounts ix ! 2) else None) else emitter)"

lemma emitter_of_step: "emitter_of w ixs = foldl (emitter_step w) None ixs"
  by (simp add: emitter_of_def emitter_step_def [abs_def])

lemma foldl_emitter_none: "\<forall>y \<in> set ys. \<not> is_postMessage w y \<Longrightarrow> foldl (emitter_step w) e ys = e"
  by (induction ys) (simp_all add: emitter_step_def)

lemma emitter_of_single:
  assumes "is_postMessage w ix" "length (ti_accounts ix) > 2" "\<forall>y \<in> set ys. \<not> is_postMessage w y"
  shows "emitter_of w (xs @ ix # ys) = Some (ti_accounts ix ! 2)"
  using assms foldl_emitter_none [of ys w] by (simp add: emitter_of_step emitter_step_def)

text \<open>Guardian sets: a chain on which an upgrade takes effect after some time. \<open>pending s\<close> is the index once the submitted
  upgrades have taken effect, and \<open>delay s\<close> bounds how often it is asked for before.\<close>

locale guardian_contract =
  fixes C :: "'s WormholeContract_io" and vaas :: "string list"
    and index :: "'s \<Rightarrow> nat" and pending :: "'s \<Rightarrow> nat" and delay :: "'s \<Rightarrow> nat" and history :: "'s \<Rightarrow> bytes list"
  assumes poll: "wc_getCurrentGuardianSetIndex C s = (r, s') \<Longrightarrow>
      r = Inr (index s) \<and> history s' = history s \<and> pending s' = pending s \<and> (index s' = pending s \<or> index s' = index s \<and> delay s' < delay s)"
    and upgrade: "index s = pending s \<Longrightarrow> index s < length vaas \<Longrightarrow> wc_upgradeGuardianSets C (from_hex (vaas ! index s)) s = (q, s') \<Longrightarrow>
      q = Inr () \<and> history s' = history s @ [from_hex (vaas ! index s)] \<and> pending s' = Suc (index s) \<and> (index s' = index s \<or> index s' = Suc (index s))"
begin

lemma await_returns:
  "pending s = Suc i \<Longrightarrow> index s = i \<or> index s = Suc i \<Longrightarrow>
   \<exists>u. await_index C i s = Some (Inr (), u) \<and> index u = Suc i \<and> pending u = Suc i \<and> history u = history s"
proof (induction "if index s = i then Suc (delay s) else 0" arbitrary: s rule: less_induct)
  case less
  obtain r s' where p: "wc_getCurrentGuardianSetIndex C s = (r, s')" by fastforce
  note s' = poll [OF p]
  show ?case
  proof (cases "index s = i")
    case False
    then show ?thesis using p s' less.prems by (subst await_index.simps) auto
  next
    case True
    have "\<exists>u. await_index C i s' = Some (Inr (), u) \<and> index u = Suc i \<and> pending u = Suc i \<and> history u = history s'"
      using s' less.prems True by (intro less.hyps) auto
    then show ?thesis using p s' True by (subst await_index.simps) auto
  qed
qed

lemma sync_loop_returns:
  "index s = pending s \<Longrightarrow> index s \<le> length vaas \<Longrightarrow>
   \<exists>u. sync_loop C vaas [index s..<length vaas] s = Some (Inr (), u) \<and> history u = history s @ map from_hex (drop (index s) vaas) \<and>
     index u = length vaas"
proof (induction "length vaas - index s" arbitrary: s)
  case 0
  then show ?case by auto
next
  case (Suc n)
  then have less: "index s < length vaas" by simp
  obtain r s' where up: "wc_upgradeGuardianSets C (from_hex (vaas ! index s)) s = (r, s')" by fastforce
  note s' = upgrade [OF Suc.prems(1) less up]
  then obtain u where u: "await_index C (index s) s' = Some (Inr (), u)" "index u = Suc (index s)" "pending u = Suc (index s)" "history u = history s'"
    using await_returns [of s' "index s"] by auto
  have "n = length vaas - index u" "index u = pending u" "index u \<le> length vaas" using Suc.hyps(2) u less by auto
  from Suc.hyps(1) [OF this] obtain v where v: "sync_loop C vaas [index u..<length vaas] u = Some (Inr (), v)"
    "history v = history u @ map from_hex (drop (index u) vaas)" "index v = length vaas" by blast
  have "[index s..<length vaas] = index s # [index u..<length vaas]" using less u(2) by (simp add: upt_conv_Cons)
  moreover have "drop (index s) vaas = vaas ! index s # drop (index u) vaas" using less u(2) by (simp add: Cons_nth_drop_Suc)
  ultimately show ?case using up s' u(1,4) v by simp
qed

end

text \<open>A chain that has had \<open>n\<close> polls since the last upgrade: it takes effect at the second one.\<close>

definition doc_guardians :: "(nat \<times> nat \<times> nat \<times> bytes list) WormholeContract_io" where
  "doc_guardians =
     \<lparr> wc_getCurrentGuardianSetIndex = (\<lambda>(i, p, d, l). (Inr i, (if d = 0 then p else i, p, d - 1, l))),
       wc_upgradeGuardianSets = (\<lambda>v (i, p, d, l). (Inr (), (i, Suc i, 1, l @ [v]))) \<rparr>"

interpretation doc_guardians: guardian_contract doc_guardians vaas fst "\<lambda>(i, p, d, l). p" "\<lambda>(i, p, d, l). d" "\<lambda>(i, p, d, l). l"
  by unfold_locales (auto simp: doc_guardians_def split: if_splits)

text \<open>Governance: a contract keeps the sequence number of the last VAA it executed, and the VAAs it executed. A request can fail, and an
  execution that fails may have happened all the same.\<close>

definition runs_vaa ::
  "(target \<Rightarrow> 's \<Rightarrow> nat) \<Rightarrow> (target \<Rightarrow> 's \<Rightarrow> bytes list) \<Rightarrow> target \<Rightarrow> bytes \<Rightarrow> nat \<Rightarrow> 's \<Rightarrow> 's \<Rightarrow> bool" where
  "runs_vaa last_seq history k vaa seq s s' \<longleftrightarrow>
     last_seq k s' = seq \<and> history k s' = history k s @ [vaa] \<and> (\<forall>j. j \<noteq> k \<longrightarrow> last_seq j s' = last_seq j s \<and> history j s' = history j s)"

definition same_governance :: "(target \<Rightarrow> 's \<Rightarrow> nat) \<Rightarrow> (target \<Rightarrow> 's \<Rightarrow> bytes list) \<Rightarrow> 's \<Rightarrow> 's \<Rightarrow> bool" where
  "same_governance last_seq history s s' \<longleftrightarrow> (\<forall>j. last_seq j s' = last_seq j s \<and> history j s' = history j s)"

definition accepts_source :: "DataSource \<Rightarrow> parsed_vaa \<Rightarrow> bool" where
  "accepts_source d v \<longleftrightarrow> emitterAddress d = to_hex (pv_emitterAddress v) \<and> emitterChain d = pv_emitterChain v"

locale governed_contracts =
  fixes parse :: "bytes \<Rightarrow> parsed_vaa result" and source :: "target \<Rightarrow> DataSource"
    and last_seq :: "target \<Rightarrow> 's \<Rightarrow> nat" and history :: "target \<Rightarrow> 's \<Rightarrow> bytes list" and E :: "'s governance_env"
  assumes parser: "ge_parseVaa E = parse"
    and source_read: "gc_getGovernanceDataSource (ge_contract E k) s = Inr d \<Longrightarrow> d = source k"
    and last_read: "gc_getLastExecutedGovernanceSequence (ge_contract E k) s = Inr n \<Longrightarrow> n = last_seq k s"
    and execute_ok: "parse vaa = Inr v \<Longrightarrow> gc_executeGovernanceInstruction (ge_contract E k) vaa s = (Inr (), s') \<Longrightarrow>
      runs_vaa last_seq history k vaa (pv_sequence v) s s'"
    and execute_failed: "parse vaa = Inr v \<Longrightarrow> gc_executeGovernanceInstruction (ge_contract E k) vaa s = (Inl e, s') \<Longrightarrow>
      same_governance last_seq history s s' \<or> runs_vaa last_seq history k vaa (pv_sequence v) s s'"
begin

text \<open>From the state \<open>a\<close> on, the VAA has been executed at most once on each of the targets, and nowhere else.\<close>

definition once :: "bytes \<Rightarrow> parsed_vaa \<Rightarrow> target set \<Rightarrow> 's \<Rightarrow> 's \<Rightarrow> bool" where
  "once vaa v T a s \<longleftrightarrow>
     (\<forall>k. last_seq k s = last_seq k a \<and> history k s = history k a \<or>
       k \<in> T \<and> accepts_source (source k) v \<and> last_seq k a < pv_sequence v \<and> last_seq k s = pv_sequence v \<and> history k s = history k a @ [vaa])"

lemma execute_one:
  assumes "parse vaa = Inr v" "once vaa v T a s" "k \<in> T"
    and "executeForGovernanceContract (ge_parseVaa E) (ge_contract E k) vaa s = (r, s')"
  shows "once vaa v T a s' \<and> (\<forall>j. history j s = history j a @ [vaa] \<longrightarrow> history j s' = history j a @ [vaa]) \<and>
    (r = Inr () \<and> accepts_source (source k) v \<and> last_seq k a < pv_sequence v \<longrightarrow> history k s' = history k a @ [vaa])"
proof (cases "accepts_source (source k) v \<and> last_seq k s < pv_sequence v \<and>
    (\<exists>q. gc_executeGovernanceInstruction (ge_contract E k) vaa s = (r, s'))")
  case True
  then have k: "last_seq k s = last_seq k a \<and> history k s = history k a" using assms(2) unfolding once_def by (metis less_irrefl)
  have "same_governance last_seq history s s' \<and> r \<noteq> Inr () \<or> runs_vaa last_seq history k vaa (pv_sequence v) s s'"
    using True execute_ok [OF assms(1), of k s s'] execute_failed [OF assms(1), of k s _ s'] by (cases r) auto
  then show ?thesis
  proof
    assume "same_governance last_seq history s s' \<and> r \<noteq> Inr ()"
    then show ?thesis using assms(2) by (simp add: once_def same_governance_def)
  next
    assume run: "runs_vaa last_seq history k vaa (pv_sequence v) s s'"
    have "once vaa v T a s'"
      unfolding once_def
    proof
      fix j
      show "last_seq j s' = last_seq j a \<and> history j s' = history j a \<or>
          j \<in> T \<and> accepts_source (source j) v \<and> last_seq j a < pv_sequence v \<and> last_seq j s' = pv_sequence v \<and> history j s' = history j a @ [vaa]"
        using assms(2,3) True k run unfolding once_def runs_vaa_def by (cases "j = k") simp_all
    qed
    moreover have "history j s' = history j a @ [vaa]" if "history j s = history j a @ [vaa]" for j
      using that k run unfolding runs_vaa_def by (cases "j = k") simp_all
    ultimately show ?thesis using k run by (simp add: runs_vaa_def)
  qed
next
  case False
  then have "s' = s" and "r = Inr () \<Longrightarrow> accepts_source (source k) v \<Longrightarrow> pv_sequence v \<le> last_seq k s"
    using assms(1,4) source_read [of k s] last_read [of k s] parser
    by (auto simp: executeForGovernanceContract_def accepts_source_def split: sum.splits if_splits)
  then show ?thesis using assms(2) unfolding once_def by (metis leD)
qed

lemma execute_on_once:
  assumes "parse vaa = Inr v"
  shows "once vaa v T a s \<Longrightarrow> set ts \<subseteq> T \<Longrightarrow> execute_on E vaa ts s = (r, s') \<Longrightarrow>
    once vaa v T a s' \<and> (\<forall>j. history j s = history j a @ [vaa] \<longrightarrow> history j s' = history j a @ [vaa]) \<and>
    (r = Inr () \<longrightarrow> (\<forall>k \<in> set ts. accepts_source (source k) v \<and> last_seq k a < pv_sequence v \<longrightarrow> history k s' = history k a @ [vaa]))"
proof (induction ts arbitrary: s)
  case (Cons t ts)
  obtain q u where q: "executeForGovernanceContract (ge_parseVaa E) (ge_contract E t) vaa s = (q, u)" by fastforce
  note one = execute_one [OF assms Cons.prems(1) _ q]
  show ?case
  proof (cases q)
    case (Inl e)
    then show ?thesis using one Cons.prems q by auto
  next
    case (Inr x)
    then have "execute_on E vaa ts u = (r, s')" using Cons.prems(3) q by simp
    from Cons.IH [OF _ _ this] one Cons.prems(2) Inr show ?thesis by auto
  qed
qed simp

end

text \<open>A small chain on which requests fail as the list of booleans tells, for any parser; and a parser for which the payload of a VAA
  is all of it.\<close>

definition doc_contract ::
  "(bytes \<Rightarrow> parsed_vaa result) \<Rightarrow> target \<Rightarrow> (bool list \<times> (target \<Rightarrow> nat) \<times> (target \<Rightarrow> bytes list)) GovernanceContract" where
  "doc_contract parse k =
     \<lparr> gc_getGovernanceDataSource = (\<lambda>_. Inr \<lparr> emitterChain = 1, emitterAddress = ''07'' \<rparr>),
       gc_getLastExecutedGovernanceSequence = (\<lambda>(fails, l, h). Inr (l k)),
       gc_executeGovernanceInstruction = (\<lambda>vaa (fails, l, h).
         (case (fails, parse vaa) of
            (True # fs, _) \<Rightarrow> (Inl (JsError ''RPC''), (fs, l, h))
          | (_, Inl e) \<Rightarrow> (Inl e, (fails, l, h))
          | (_, Inr v) \<Rightarrow> (Inr (), (tl fails, l(k := pv_sequence v), h(k := h k @ [vaa]))))) \<rparr>"

definition doc_governance :: "(bytes \<Rightarrow> parsed_vaa result) \<Rightarrow> (bool list \<times> (target \<Rightarrow> nat) \<times> (target \<Rightarrow> bytes list)) governance_env" where
  "doc_governance parse = \<lparr> ge_parseVaa = parse, ge_contract = doc_contract parse \<rparr>"

interpretation doc_governance: governed_contracts parse "\<lambda>_. \<lparr> emitterChain = 1, emitterAddress = ''07'' \<rparr>" "\<lambda>k (fails, l, h). l k"
  "\<lambda>k (fails, l, h). h k" "doc_governance parse" for parse
  by unfold_locales
    (auto simp: doc_governance_def doc_contract_def runs_vaa_def same_governance_def split: list.splits bool.splits if_splits sum.splits)

definition doc_parse_vaa :: "bytes \<Rightarrow> parsed_vaa result" where
  "doc_parse_vaa vaa = Inr \<lparr> pv_emitterChain = 1, pv_emitterAddress = [7], pv_sequence = 5, pv_payload = vaa \<rparr>"

section \<open>Properties\<close>

text \<open>Waiting for a VAA ends: as every answer that there is no VAA yet is followed by a wait of a second, \<open>fetchVaa\<close> returns after at most
  as many of these answers as it may wait seconds, with the first other answer or, when the time is over, the error; with the default of
  one second the API is asked once.\<close>

theorem fetchVaa_returns:
  assumes "\<And>i. answer i = Not_found \<Longrightarrow> now i + 1000 \<le> now (Suc i)"
  shows "\<exists>n \<le> waitingSeconds. (\<forall>i < n. answer i = Not_found) \<and>
    fetchVaa now answer waitingSeconds = Some
      (if now n < waitingSeconds * 1000
       then (case answer n of Signed b \<Rightarrow> Inr (from_base64 b) | Fetch_thrown e \<Rightarrow> Inl e | Not_found \<Rightarrow> Inr [])
       else Inl (JsError ''VAA not found, maybe too soon to fetch?'')) \<and>
    (now n < waitingSeconds * 1000 \<longrightarrow> answer n \<noteq> Not_found)"
proof -
  let ?limit = "waitingSeconds * 1000"
  let ?result = "\<lambda>n. if now n < ?limit
      then (case answer n of Signed b \<Rightarrow> Inr (from_base64 b) | Fetch_thrown e \<Rightarrow> Inl e | Not_found \<Rightarrow> Inr [])
      else Inl (JsError ''VAA not found, maybe too soon to fetch?'')"
  have loop: "\<exists>n \<ge> i. (\<forall>j. i \<le> j \<and> j < n \<longrightarrow> answer j = Not_found \<and> now j < ?limit) \<and> fetch_loop now answer ?limit i = Some (?result n) \<and>
      (now n < ?limit \<longrightarrow> answer n \<noteq> Not_found)" for i
  proof (induction "?limit - now i" arbitrary: i rule: less_induct)
    case less
    show ?case
    proof (cases "now i < ?limit \<and> answer i = Not_found")
      case False
      then show ?thesis by (intro exI [of _ i]) (subst fetch_loop.simps, auto split: fetch_answer.splits)
    next
      case True
      then have "?limit - now (Suc i) < ?limit - now i" using assms [of i] by linarith
      from less [OF this] obtain n where n: "Suc i \<le> n" "\<forall>j. Suc i \<le> j \<and> j < n \<longrightarrow> answer j = Not_found \<and> now j < ?limit"
        "fetch_loop now answer ?limit (Suc i) = Some (?result n)" "now n < ?limit \<longrightarrow> answer n \<noteq> Not_found" by blast
      have "fetch_loop now answer ?limit i = Some (?result n)" using True n(3) by (subst fetch_loop.simps) simp
      moreover have "answer j = Not_found \<and> now j < ?limit" if "i \<le> j" "j < n" for j using that n(2) True by (cases "j = i") auto
      ultimately show ?thesis using n(1,4) by (intro exI [of _ n]) auto
    qed
  qed
  from loop [of 0] obtain n where n: "\<forall>j < n. answer j = Not_found \<and> now j < ?limit" "fetch_loop now answer ?limit 0 = Some (?result n)"
    "now n < ?limit \<longrightarrow> answer n \<noteq> Not_found" by auto
  have "1000 * j \<le> now j" if "j \<le> n" for j
    using that
  proof (induction j)
    case (Suc j)
    then show ?case using assms [of j] n(1) by auto
  qed simp
  from this [of "n - 1"] n(1) have "n \<le> waitingSeconds" by (cases n) auto
  with n show ?thesis by (auto simp: fetchVaa_def)
qed

lemma fetchVaa_returns_witness:
  "fetchVaa (\<lambda>i. 1000 * i + 7) (\<lambda>_. Not_found) 1 = Some (Inl (JsError ''VAA not found, maybe too soon to fetch?''))"
  using fetchVaa_returns [of "\<lambda>_. Not_found" "\<lambda>i. 1000 * i + 7" 1] by (auto split: if_splits)

text \<open>Guardian sets: on a Wormhole contract on which upgrades take effect in time, \<open>syncMainnetGuardianSets\<close> returns, having submitted
  exactly the upgrades that the contract does not have, each once and in order, each when the one before it was complete.\<close>

theorem guardian_sets_synced:
  assumes "guardian_contract C vaas index pending delay history" "index s = pending s"
  shows "\<exists>u. syncMainnetGuardianSets C vaas s = Some (Inr (), u) \<and> history u = history s @ map from_hex (drop (index s) vaas) \<and>
    (index s \<le> length vaas \<longrightarrow> index u = length vaas)"
proof -
  obtain r s' where p: "wc_getCurrentGuardianSetIndex C s = (r, s')" by fastforce
  note s' = guardian_contract.poll [OF assms(1) p]
  have same: "index s' = index s" "pending s' = index s" "history s' = history s" "r = Inr (index s)" using s' assms(2) by auto
  show ?thesis
  proof (cases "index s \<le> length vaas")
    case True
    with guardian_contract.sync_loop_returns [OF assms(1), of s'] same p show ?thesis by (auto simp: syncMainnetGuardianSets_def)
  next
    case False
    then show ?thesis using p same by (auto simp: syncMainnetGuardianSets_def)
  qed
qed

lemma guardian_sets_synced_witness:
  "\<exists>u. syncMainnetGuardianSets doc_guardians [''00'', ''01'', ''02''] (1, 1, 0, []) = Some (Inr (), u) \<and> (\<lambda>(i, p, d, l). l) u = [[1], [2]]"
  using guardian_sets_synced [OF doc_guardians.guardian_contract_axioms, of "(1, 1, 0, [])" "[''00'', ''01'', ''02'']"]
  by (auto simp: unhex_char_def)

text \<open>Executing a governance VAA, however often this is tried and wherever requests fail: no contract executes it twice, and none
  executes it that is not one of its targets, has another governance source, or has already executed its sequence number; when a
  run returns, all the others have executed it.\<close>

theorem executeVaa_exactly_once:
  assumes "\<And>E. E \<in> set (E' # Es) \<Longrightarrow> governed_contracts parse source last_seq history E"
    and "parse vaa = Inr v" "decodeGovernancePayload wh L W (pv_payload v) = Inr (Some action)"
    and "t = fold (\<lambda>E s. snd (executeVaa wh L W table st E vaa s)) Es s" "executeVaa wh L W table st E' vaa t = (r, u)"
  defines "due \<equiv> \<lambda>k. k \<in> set (targets table st action) \<and> accepts_source (source k) v \<and> last_seq k s < pv_sequence v"
  shows "(\<forall>k. history k u = history k s \<or> due k \<and> history k u = history k s @ [vaa]) \<and>
    (r = Inr () \<longrightarrow> (\<forall>k. due k \<longrightarrow> history k u = history k s @ [vaa]))"
proof -
  let ?T = "targets table st action"
  let ?once = "governed_contracts.once source last_seq history vaa v (set ?T) s"
  have step: "?once q' \<and> (q = Inr () \<longrightarrow> (\<forall>k \<in> set ?T. accepts_source (source k) v \<and> last_seq k s < pv_sequence v \<longrightarrow> history k q' = history k s @ [vaa]))"
    if "E \<in> set (E' # Es)" "?once p" "executeVaa wh L W table st E vaa p = (q, q')" for E p q q'
  proof -
    note gov = assms(1) [OF that(1)]
    have "execute_on E vaa ?T p = (q, q')"
      using that(3) assms(2,3) governed_contracts.parser [OF gov] by (simp add: executeVaa_def)
    from governed_contracts.execute_on_once [OF gov assms(2) that(2) _ this] show ?thesis by simp
  qed
  note once_def = governed_contracts.once_def [OF assms(1) [OF list.set_intros(1)]]
  have "?once s" by (simp add: once_def)
  moreover have "?once (fold (\<lambda>E s. snd (executeVaa wh L W table st E vaa s)) Fs p)" if "?once p" "set Fs \<subseteq> set Es" for Fs p
    using that
  proof (induction Fs arbitrary: p)
    case (Cons F Fs)
    obtain q q' where "executeVaa wh L W table st F vaa p = (q, q')" by fastforce
    with step [of F p q q'] Cons show ?case by simp
  qed simp
  ultimately have "?once t" unfolding assms(4) by blast
  from step [OF list.set_intros(1) this assms(5)] show ?thesis by (auto simp: once_def due_def)
qed

definition sample_fee_vaa :: bytes where
  "sample_fee_vaa = header_bytes SetFee_name 2 @ payload_bytes (w3_toBytes doc_web3) (SetFee ''ethereum'' 1 0)"

definition sample_feed_contract :: Contract where
  "sample_feed_contract = EvmPriceFeedContract
     (EvmChain \<lparr> ch_id = Some (Str ''ethereum''), ch_mainnet = Some (Bool True), ch_wormholeChainName = Some (Str ''ethereum''), ch_nativeToken = None \<rparr>
       None None) (Some (Str ''0x1''))"

lemma sample_fee_vaa_decodes: "decodeGovernancePayload sample_wormhole doc_lib doc_web3 sample_fee_vaa = Inr (Some (SetFee ''ethereum'' 1 0))"
proof -
  have "chain_ok sample_wormhole (action_chain (SetFee ''ethereum'' 1 0)) 2" "wf_action (w3_toBytes doc_web3) (SetFee ''ethereum'' 1 0)"
    using sample_chain_ok by (simp_all add: fits_def)
  from doc_codec.decode_wire [OF this] show ?thesis by (simp add: sample_fee_vaa_def)
qed

lemma executeVaa_exactly_once_witness:
  "\<exists>u. executeVaa sample_wormhole doc_lib doc_web3 [] (no_contracts\<lparr> st_contracts := [(''ethereum_0x1'', sample_feed_contract)] \<rparr>) (doc_governance doc_parse_vaa) sample_fee_vaa
      ([], \<lambda>_. 0, \<lambda>_. []) = (Inr (), u) \<and> (\<lambda>(fails, l, h). h (Feed_contract sample_feed_contract)) u = [sample_fee_vaa]"
proof -
  let ?st = "no_contracts\<lparr> st_contracts := [(''ethereum_0x1'', sample_feed_contract)] \<rparr>"
  have parsed: "doc_parse_vaa sample_fee_vaa = Inr \<lparr> pv_emitterChain = 1, pv_emitterAddress = [7], pv_sequence = 5, pv_payload = sample_fee_vaa \<rparr>"
    by (simp add: doc_parse_vaa_def)
  have hex: "to_hex [7] = ''07''" by (simp add: to_hex_def hex_byte_def hex_char_def hex_digits_def)
  have targets: "targets [] ?st (SetFee ''ethereum'' 1 0 :: 256 word PythGovernanceAction) = [Feed_contract sample_feed_contract]"
    by (simp add: targets_def sample_feed_contract_def)
  let ?run = "executeVaa sample_wormhole doc_lib doc_web3 [] ?st (doc_governance doc_parse_vaa) sample_fee_vaa ([], \<lambda>_. 0, \<lambda>_. [])"
  have run: "?run = (fst ?run, snd ?run)" by simp
  have "fst ?run = Inr ()"
    using sample_fee_vaa_decodes targets
    by (simp add: executeVaa_def doc_governance_def doc_parse_vaa_def doc_contract_def executeForGovernanceContract_def)
  moreover have "(\<lambda>(fails, l, h). h (Feed_contract sample_feed_contract)) (snd ?run) = [sample_fee_vaa]"
  proof -
    have gov: "E \<in> set [doc_governance doc_parse_vaa] \<Longrightarrow> governed_contracts doc_parse_vaa (\<lambda>_. \<lparr> emitterChain = 1, emitterAddress = ''07'' \<rparr>)
        (\<lambda>k (fails, l, h). l k) (\<lambda>k (fails, l, h). h k) E" for E
      using doc_governance.governed_contracts_axioms by simp
    have decoded: "decodeGovernancePayload sample_wormhole doc_lib doc_web3
        (pv_payload \<lparr> pv_emitterChain = 1, pv_emitterAddress = [7], pv_sequence = 5, pv_payload = sample_fee_vaa \<rparr>) = Inr (Some (SetFee ''ethereum'' 1 0))"
      using sample_fee_vaa_decodes by simp
    have start: "([], \<lambda>_. 0, \<lambda>_. []) = fold (\<lambda>E s. snd (executeVaa sample_wormhole doc_lib doc_web3 [] ?st E sample_fee_vaa s)) [] ([], \<lambda>_. 0, \<lambda>_. [])"
      by simp
    from executeVaa_exactly_once [OF gov parsed decoded start run] targets \<open>fst ?run = Inr ()\<close> hex show ?thesis
      by (auto simp: accepts_source_def case_prod_beta)
  qed
  ultimately show ?thesis using run by (intro exI [of _ "snd ?run"]) (metis)
qed

end
