(* ===== verification/Governance_Scripts.thy ===== *)
theory Governance_Scripts
  imports Contract_Governance
begin

text \<open>
  \<open>contract_manager/scripts/execute_vaas.ts\<close> and \<open>sync_governance_vaas.ts\<close>: the programs that execute the governance VAAs of a vault
  on the contracts of the store. The arguments of the command line, the vaults, and what a vault answers are arguments; \<open>fetch v n\<close> is
  what \<open>fetchVaa\<close> returns for the message of the vault \<open>v\<close> with sequence number \<open>n\<close>. The emitter of a vault is computed from its key,
  without a request.
\<close>

section \<open>The programs\<close>

text \<open>\<open>decodeGovernancePayload(parseVaa(vaa).payload)\<close>\<close>

definition decode_vaa ::
  "chain_table \<Rightarrow> buffer_layout_lib \<Rightarrow> 'pk web3_lib \<Rightarrow> (bytes \<Rightarrow> parsed_vaa result) \<Rightarrow> bytes \<Rightarrow> 'pk PythGovernanceAction option result" where
  "decode_vaa wh L W parse vaa = bindR (parse vaa) (\<lambda>parsedVaa. decodeGovernancePayload wh L W (pv_payload parsedVaa))"

definition mainnet_vault_id :: string where
  "mainnet_vault_id = ''mainnet-beta_FVQyHcooAtThJ83XFrNnv74BcinbRH3bRmfFamAHBfuj''"

definition devnet_vault_id :: string where
  "devnet_vault_id = ''devnet_6baWtW1zTUVMSJHJQVxDUXWzqrQeYBr6mu31j3bTKwY3''"

text \<open>A vault that the store does not have is \<open>undefined\<close>, and the first access to it throws.\<close>

definition vault_of :: "(string \<times> 'v) list \<Rightarrow> string \<Rightarrow> 'v result" where
  "vault_of vaults vaultId = (case map_of vaults vaultId of None \<Rightarrow> Inl TypeError | Some v \<Rightarrow> Inr v)"

subsection \<open>\<open>execute_vaas\<close>\<close>

fun execute_vaas_loop ::
  "chain_table \<Rightarrow> buffer_layout_lib \<Rightarrow> 'pk web3_lib \<Rightarrow> chains \<Rightarrow> contracts \<Rightarrow> 's governance_env \<Rightarrow> string \<Rightarrow> bool \<Rightarrow> (int \<Rightarrow> bytes result) \<Rightarrow>
   int list \<Rightarrow> 's \<Rightarrow> unit result \<times> 's" where
  "execute_vaas_loop wh L W table st E key dryrun fetch [] s = (Inr (), s)"
| "execute_vaas_loop wh L W table st E key dryrun fetch (seqNumber # rest) s =
     (case fetch seqNumber of
        Inl e \<Rightarrow> (Inl e, s)
      | Inr vaa \<Rightarrow>
          (case decode_vaa wh L W (ge_parseVaa E) vaa of
             Inl e \<Rightarrow> (Inl e, s)
           | Inr None \<Rightarrow> execute_vaas_loop wh L W table st E key dryrun fetch rest s
           | Inr (Some decodedAction) \<Rightarrow>
               if dryrun then execute_vaas_loop wh L W table st E key dryrun fetch rest s
               else (case toPrivateKey key of
                       Inl e \<Rightarrow> (Inl e, s)
                     | Inr _ \<Rightarrow>
                         (case executeVaa wh L W table st E vaa s of
                            (Inl e, s') \<Rightarrow> (Inl e, s')
                          | (Inr _, s') \<Rightarrow> execute_vaas_loop wh L W table st E key dryrun fetch rest s'))))"

definition execute_vaas ::
  "chain_table \<Rightarrow> buffer_layout_lib \<Rightarrow> 'pk web3_lib \<Rightarrow> chains \<Rightarrow> contracts \<Rightarrow> 's governance_env \<Rightarrow> (string \<times> 'v) list \<Rightarrow>
   ('v \<Rightarrow> int result) \<Rightarrow> ('v \<Rightarrow> int \<Rightarrow> bytes result) \<Rightarrow> string \<Rightarrow> string \<Rightarrow> int \<Rightarrow> bool \<Rightarrow> 's \<Rightarrow> unit result \<times> 's" where
  "execute_vaas wh L W table st E vaults getLastSequenceNumber fetch vaultName key offset dryrun s =
     (case vault_of vaults (if vaultName = ''mainnet'' then mainnet_vault_id else devnet_vault_id) of
        Inl e \<Rightarrow> (Inl e, s)
      | Inr vault \<Rightarrow>
          (case getLastSequenceNumber vault of
             Inl e \<Rightarrow> (Inl e, s)
           | Inr lastSequenceNumber \<Rightarrow>
               execute_vaas_loop wh L W table st E key dryrun (fetch vault) [lastSequenceNumber - offset..lastSequenceNumber] s))"

subsection \<open>\<open>sync_governance_vaas\<close>\<close>

definition for_chain :: "Chain \<Rightarrow> 'pk PythGovernanceAction \<Rightarrow> bool" where
  "for_chain c a \<longleftrightarrow> action_chain a = ''unset'' \<or> ch_wormholeChainName (chain_base c) = Some (Str (action_chain a))"

text \<open>The loop ends when a VAA cannot be fetched.\<close>

partial_function (option) sync_vaas ::
  "(bytes \<Rightarrow> 'pk PythGovernanceAction option result) \<Rightarrow> string \<Rightarrow> Chain \<Rightarrow> 's GovernanceContract \<Rightarrow> (nat \<Rightarrow> bytes result) \<Rightarrow> nat \<Rightarrow> 's \<Rightarrow>
   (unit result \<times> 's) option" where
  "sync_vaas decode key chain C fetch lastExecuted s =
     (case fetch (lastExecuted + 1) of
        Inl _ \<Rightarrow> Some (Inr (), s)
      | Inr vaa \<Rightarrow>
          (case decode vaa of
             Inl e \<Rightarrow> Some (Inl e, s)
           | Inr None \<Rightarrow> sync_vaas decode key chain C fetch (lastExecuted + 1) s
           | Inr (Some action) \<Rightarrow>
               if for_chain chain action
               then (case toPrivateKey key of
                       Inl e \<Rightarrow> Some (Inl e, s)
                     | Inr _ \<Rightarrow>
                         (case gc_executeGovernanceInstruction C vaa s of
                            (Inl e, s') \<Rightarrow> Some (Inl e, s')
                          | (Inr _, s') \<Rightarrow> sync_vaas decode key chain C fetch (lastExecuted + 1) s'))
               else sync_vaas decode key chain C fetch (lastExecuted + 1) s))"

declare sync_vaas.simps [code]

definition matched_vault :: "(string \<times> 'v) list \<Rightarrow> ('v \<Rightarrow> bytes result) \<Rightarrow> DataSource \<Rightarrow> 'v result" where
  "matched_vault vaults getEmitter governanceSource =
     bindR (vault_of vaults devnet_vault_id) (\<lambda>devnetVault. bindR (getEmitter devnetVault) (\<lambda>devnetEmitter.
       if to_hex devnetEmitter = emitterAddress governanceSource then Inr devnetVault
       else bindR (vault_of vaults mainnet_vault_id) (\<lambda>mainnetVault. bindR (getEmitter mainnetVault) (\<lambda>mainnetEmitter.
         if to_hex mainnetEmitter = emitterAddress governanceSource then Inr mainnetVault
         else Inl (JsError ''can not find a multisig that matches the governance source of the contract'')))))"

definition sync_start :: "nat option \<Rightarrow> nat \<Rightarrow> nat" where
  "sync_start offset lastExecuted = (case offset of Some n \<Rightarrow> if n > lastExecuted then n - 1 else lastExecuted | None \<Rightarrow> lastExecuted)"

definition sync_governance_vaas ::
  "(bytes \<Rightarrow> 'pk PythGovernanceAction option result) \<Rightarrow> (string \<times> Contract) list \<Rightarrow> (Contract \<Rightarrow> 's GovernanceContract) \<Rightarrow> (string \<times> 'v) list \<Rightarrow>
   ('v \<Rightarrow> bytes result) \<Rightarrow> ('v \<Rightarrow> nat \<Rightarrow> bytes result) \<Rightarrow> string \<Rightarrow> string \<Rightarrow> nat option \<Rightarrow> 's \<Rightarrow> (unit result \<times> 's) option" where
  "sync_governance_vaas decode feeds io vaults getEmitter fetch contractId key offset s =
     (case map_of feeds contractId of
        None \<Rightarrow> Some (Inl (JsError (''Contract '' @ contractId @ '' not found'')), s)
      | Some contract \<Rightarrow>
          (case bindR (gc_getGovernanceDataSource (io contract) s) (\<lambda>governanceSource.
                  bindR (matched_vault vaults getEmitter governanceSource) (\<lambda>matchedVault.
                  bindR (gc_getLastExecutedGovernanceSequence (io contract) s) (\<lambda>lastExecuted. Inr (matchedVault, lastExecuted)))) of
             Inl e \<Rightarrow> Some (Inl e, s)
           | Inr (matchedVault, lastExecuted) \<Rightarrow>
               sync_vaas decode key (co_chain contract) (io contract) (fetch matchedVault) (sync_start offset lastExecuted) s))"

section \<open>Lemmas\<close>

text \<open>The sequence numbers from \<open>first\<close> to \<open>m\<close> that satisfy \<open>P\<close>, and how far a contract is that executes these messages in order:
  \<open>done\<close> are its VAAs, \<open>old\<close> the last sequence number it had before.\<close>

lemma filter_upto_snoc: "first \<le> n \<Longrightarrow> filter P [first..n] = filter P [first..n - 1] @ (if P n then [n] else [])" for n :: int
  by (simp add: upto_rec2)

definition newest :: "nat \<Rightarrow> int list \<Rightarrow> nat" where
  "newest old ns = (if ns = [] then old else nat (last ns))"

lemma newest_snoc [simp]: "newest old (ns @ [n]) = nat n"
  by (simp add: newest_def)

lemma newest_cases: "newest old ns = old \<and> ns = [] \<or> (\<exists>n \<in> set ns. newest old ns = nat n)"
  using last_in_set [of ns] by (auto simp: newest_def)

lemma newest_ge: "n \<in> set (filter P [first..m]) \<Longrightarrow> nat n \<le> newest old (filter P [first..m])"
proof (induction "nat (m - first)" arbitrary: m)
  case 0
  then have "m = first" by auto
  with 0 show ?case by (auto simp: newest_def)
next
  case (Suc i)
  then have "i = nat (m - 1 - first)" "first \<le> m" by auto
  with Suc(1) [of "m - 1"] Suc(3) show ?case
    by (auto simp: filter_upto_snoc [of first m] newest_def split: if_splits)
qed

text \<open>How far a contract is with the VAAs: those that are due up to \<open>m\<close>, in order, and no others.\<close>

definition executed_to ::
  "(int \<Rightarrow> bytes) \<Rightarrow> (int \<Rightarrow> bool) \<Rightarrow> int \<Rightarrow> nat \<Rightarrow> bytes list \<Rightarrow> int \<Rightarrow> nat \<Rightarrow> bytes list \<Rightarrow> bool" where
  "executed_to vaa due first old before m now after \<longleftrightarrow>
     after = before @ map vaa (filter due [first..m]) \<and> now = newest old (filter due [first..m])"

text \<open>A contract that accepts the messages for which \<open>P\<close> holds and that are newer than the last one it executed.\<close>

lemma executed_to_fresh:
  assumes "executed_to vaa (\<lambda>n. P n \<and> old < nat n) first old before m now after" "m < n"
  shows "P n \<and> now < nat n \<longleftrightarrow> P n \<and> old < nat n"
  using assms newest_cases [of old "filter (\<lambda>n. P n \<and> old < nat n) [first..m]"] unfolding executed_to_def by auto

lemma executed_to_stale:
  assumes "executed_to vaa (\<lambda>n. P n \<and> old < nat n) first old before m now after" "first \<le> n" "n \<le> m"
  shows "\<not> (P n \<and> now < nat n)"
  using assms newest_cases [of old "filter (\<lambda>n. P n \<and> old < nat n) [first..m]"]
    newest_ge [of n "\<lambda>n. P n \<and> old < nat n" first m old] unfolding executed_to_def by auto

lemma executed_to_next:
  assumes "executed_to vaa due first old before (n - 1) now after" "first \<le> n"
  shows "due n \<Longrightarrow> executed_to vaa due first old before n (nat n) (after @ [vaa n])"
    and "\<not> due n \<Longrightarrow> executed_to vaa due first old before n now after"
  using assms by (simp_all add: executed_to_def filter_upto_snoc [of first n])

lemma executed_to_start: "m < first \<Longrightarrow> executed_to vaa due first old before m old before"
  by (simp add: executed_to_def newest_def)

text \<open>The message \<open>n\<close> is executed or not; \<open>ok\<close> says that the run went on.\<close>

lemma executed_to_step:
  fixes first :: int and vaa P old before
  defines "pos \<equiv> executed_to vaa (\<lambda>n. P n \<and> old < nat n) first old before"
  assumes "pos m now after" "n - 1 \<le> m" "first \<le> n"
    and "now' = now \<and> after' = after \<and> (ok \<longrightarrow> \<not> (P n \<and> now < nat n)) \<or> (P n \<and> now < nat n) \<and> now' = nat n \<and> after' = after @ [vaa n]"
  shows "\<exists>m' \<ge> (if ok then n else n - 1). m' \<le> max m n \<and> pos m' now' after'"
proof (cases "n \<le> m")
  case True
  with executed_to_stale [OF assms(2) [unfolded pos_def] assms(4)] assms(5) have "now' = now" "after' = after" by auto
  with True assms(2) show ?thesis by (intro exI [of _ m]) auto
next
  case False
  with assms(2,3) have at: "pos (n - 1) now after" by (cases "m = n - 1") auto
  note fresh = executed_to_fresh [OF at [unfolded pos_def], of n] and step = executed_to_next [OF at [unfolded pos_def] assms(4)]
  show ?thesis
  proof (cases "now' = now \<and> after' = after \<and> \<not> ok")
    case True
    with at show ?thesis by (intro exI [of _ "n - 1"]) auto
  next
    case False
    with assms(5) fresh step have "pos n now' after'" unfolding pos_def by auto
    then show ?thesis by (intro exI [of _ n]) auto
  qed
qed

text \<open>The contract \<open>k\<close> is a target of the action of message \<open>n\<close>, and its governance source is the emitter.\<close>

definition concerned ::
  "(target \<Rightarrow> DataSource) \<Rightarrow> chains \<Rightarrow> contracts \<Rightarrow> (int \<Rightarrow> 'pk PythGovernanceAction option) \<Rightarrow> (int \<Rightarrow> parsed_vaa) \<Rightarrow> target \<Rightarrow> int \<Rightarrow> bool" where
  "concerned source table st act pv k n \<longleftrightarrow> (\<exists>a. act n = Some a \<and> k \<in> set (targets table st a)) \<and> accepts_source (source k) (pv n)"

context governed_contracts begin

lemma executeVaa_step:
  fixes k :: target
  assumes "parse v = Inr p" "decodeGovernancePayload wh L W (pv_payload p) = Inr (Some a)" "executeVaa wh L W table st E v s = (r, s')"
  defines "eligible \<equiv> k \<in> set (targets table st a) \<and> accepts_source (source k) p \<and> last_seq k s < pv_sequence p"
  shows "last_seq k s' = last_seq k s \<and> history k s' = history k s \<and> (r = Inr () \<longrightarrow> \<not> eligible) \<or>
    eligible \<and> last_seq k s' = pv_sequence p \<and> history k s' = history k s @ [v]"
proof -
  have "execute_on E v (targets table st a) s = (r, s')"
    using assms(1-3) parser by (simp add: executeVaa_def)
  moreover have "once v p (set (targets table st a)) s s" by (simp add: once_def)
  ultimately have "once v p (set (targets table st a)) s s' \<and>
      (r = Inr () \<longrightarrow> (\<forall>k \<in> set (targets table st a). accepts_source (source k) p \<and> last_seq k s < pv_sequence p \<longrightarrow>
        history k s' = history k s @ [v]))"
    using execute_on_once [OF assms(1), of "set (targets table st a)" s s "targets table st a"] by blast
  then show ?thesis unfolding once_def eligible_def by (metis append_self_conv list.distinct(1))
qed

text \<open>The loop on the VAAs \<open>vaa n\<close> of a vault, which are parsed as \<open>pv n\<close> and decoded as \<open>act n\<close>: all contracts have executed what they
  are due up to some message from \<open>lo\<close> on.\<close>

definition all_from ::
  "(int \<Rightarrow> bytes) \<Rightarrow> (target \<Rightarrow> int \<Rightarrow> bool) \<Rightarrow> int \<Rightarrow> int \<Rightarrow> 's \<Rightarrow> int \<Rightarrow> 's \<Rightarrow> bool" where
  "all_from vaa P first bound s0 lo s \<longleftrightarrow>
     (\<forall>k. \<exists>m. lo \<le> m \<and> m \<le> bound \<and>
       executed_to vaa (\<lambda>n. P k n \<and> last_seq k s0 < nat n) first (last_seq k s0) (history k s0) m (last_seq k s) (history k s))"

lemma all_from_mono: "all_from vaa P first bound s0 lo s \<Longrightarrow> lo' \<le> lo \<Longrightarrow> all_from vaa P first bound s0 lo' s"
  unfolding all_from_def by (meson order_trans)

lemma all_from_step:
  assumes "all_from vaa P first bound s0 (n - 1) s" "first \<le> n" "n \<le> bound"
    and "\<And>k. last_seq k t = last_seq k s \<and> history k t = history k s \<and> (ok \<longrightarrow> \<not> (P k n \<and> last_seq k s < nat n)) \<or>
      (P k n \<and> last_seq k s < nat n) \<and> last_seq k t = nat n \<and> history k t = history k s @ [vaa n]"
  shows "all_from vaa P first bound s0 (if ok then n else n - 1) t"
  unfolding all_from_def
proof
  fix k
  let ?at = "executed_to vaa (\<lambda>n. P k n \<and> last_seq k s0 < nat n) first (last_seq k s0) (history k s0)"
  from assms(1) obtain m where m: "n - 1 \<le> m" "m \<le> bound" "?at m (last_seq k s) (history k s)" unfolding all_from_def by blast
  from executed_to_step [OF m(3,1) assms(2,4)] obtain m' where "(if ok then n else n - 1) \<le> m'" "m' \<le> max m n"
    "?at m' (last_seq k t) (history k t)" by blast
  with m(2) assms(3) show "\<exists>m. (if ok then n else n - 1) \<le> m \<and> m \<le> bound \<and> ?at m (last_seq k t) (history k t)"
    by (intro exI [of _ m']) auto
qed

lemma execute_vaas_loop_in_order:
  assumes fetch: "\<And>n v. fetch n = Inr v \<Longrightarrow> v = vaa n"
    and parsed: "\<And>n. parse (vaa n) = Inr (pv n)" "\<And>n. pv_sequence (pv n) = nat n"
    and decoded: "\<And>n. decodeGovernancePayload wh L W (pv_payload (pv n)) = Inr (act n)"
  shows "all_from vaa (concerned source table st act pv) first bound s0 (n - 1) s \<Longrightarrow> first \<le> n \<Longrightarrow> n \<le> l + 1 \<Longrightarrow> l \<le> bound \<Longrightarrow>
    execute_vaas_loop wh L W table st E key False fetch [n..l] s = (r, u) \<Longrightarrow>
    all_from vaa (concerned source table st act pv) first bound s0 (n - 1) u \<and> (r = Inr () \<longrightarrow> all_from vaa (concerned source table st act pv) first bound s0 l u)"
proof (induction "nat (l + 1 - n)" arbitrary: n s)
  case 0
  then show ?case by auto
next
  case (Suc i)
  let ?P = "concerned source table st act pv"
  from Suc have n: "n \<le> l" "[n..l] = n # [n + 1..l]" and i: "i = nat (l + 1 - (n + 1))" by (auto simp: upto_rec1)
  have again: "all_from vaa ?P first bound s0 (n - 1) u \<and> (r = Inr () \<longrightarrow> all_from vaa ?P first bound s0 l u)"
    if "all_from vaa ?P first bound s0 n s1" "execute_vaas_loop wh L W table st E key False fetch [n + 1..l] s1 = (r, u)" for s1
    using Suc.hyps(1) [OF i _ _ _ Suc.prems(4) that(2)] that(1) Suc.prems(2) n(1) all_from_mono [of vaa ?P first bound s0 n u "n - 1"] by auto
  have decode: "decode_vaa wh L W (ge_parseVaa E) (vaa n) = Inr (act n)" by (simp add: decode_vaa_def parser parsed decoded)
  note step = all_from_step [OF Suc.prems(1,2)]
  consider (not_fetched) e where "fetch n = Inl e" | (unknown) "fetch n = Inr (vaa n)" "act n = None"
    | (no_key) a e where "fetch n = Inr (vaa n)" "act n = Some a" "toPrivateKey key = Inl e"
    | (executed) a x where "fetch n = Inr (vaa n)" "act n = Some a" "toPrivateKey key = Inr x"
    using fetch [of n] by (cases "fetch n"; cases "act n"; cases "toPrivateKey key"; auto)
  then show ?case
  proof cases
    case unknown
    with step [of s True] n(1) Suc.prems(4) have "all_from vaa ?P first bound s0 n s" by (simp add: concerned_def)
    with again show ?thesis using Suc.prems(5) n(2) unknown decode by simp
  next
    case executed
    obtain q t where q: "executeVaa wh L W table st E (vaa n) s = (q, t)" by fastforce
    have "decodeGovernancePayload wh L W (pv_payload (pv n)) = Inr (Some a)" using decoded [of n] executed by simp
    from executeVaa_step [OF parsed(1) this q]
    have "all_from vaa ?P first bound s0 (if q = Inr () then n else n - 1) t"
      using n(1) Suc.prems(4) by (intro step) (auto simp: concerned_def parsed(2) executed)
    with again show ?thesis using Suc.prems(5) n(2) executed decode q by (cases q) auto
  qed (use Suc.prems n(2) decode in auto)
qed

end

subsection \<open>\<open>sync_governance_vaas\<close>\<close>

text \<open>A price feed contract with its chain: it executes a VAA that is newer than the last one it executed and that it accepts, and rejects
  every other; a transaction that fails for another reason may have happened all the same.\<close>

locale synced_contract =
  fixes C :: "'s GovernanceContract" and accepts :: "bytes \<Rightarrow> bool" and seq :: "bytes \<Rightarrow> nat"
    and last_seq :: "'s \<Rightarrow> nat" and history :: "'s \<Rightarrow> bytes list"
  assumes last_read: "gc_getLastExecutedGovernanceSequence C s = Inr n \<Longrightarrow> n = last_seq s"
    and executed: "gc_executeGovernanceInstruction C v s = (Inr (), s') \<Longrightarrow>
      accepts v \<and> last_seq s < seq v \<and> last_seq s' = seq v \<and> history s' = history s @ [v]"
    and not_executed: "gc_executeGovernanceInstruction C v s = (Inl e, s') \<Longrightarrow>
      last_seq s' = last_seq s \<and> history s' = history s \<or>
      accepts v \<and> last_seq s < seq v \<and> last_seq s' = seq v \<and> history s' = history s @ [v]"
begin

text \<open>The contract has executed the VAAs of the messages for its chain up to \<open>m\<close>, all of which it accepts.\<close>

definition synced_to :: "(nat \<Rightarrow> bytes) \<Rightarrow> (nat \<Rightarrow> bool) \<Rightarrow> 's \<Rightarrow> nat \<Rightarrow> 's \<Rightarrow> bool" where
  "synced_to vaa P s0 m s \<longleftrightarrow> last_seq s0 \<le> m \<and> history s = history s0 @ map vaa (filter P [Suc (last_seq s0)..<Suc m]) \<and>
     last_seq s = last (last_seq s0 # filter P [Suc (last_seq s0)..<Suc m]) \<and> (\<forall>n \<in> {last_seq s0<..m}. P n \<longrightarrow> accepts (vaa n))"

lemma synced_to_start: "synced_to vaa P s0 (last_seq s0) s0"
  by (simp add: synced_to_def)

lemma synced_to_skip: "synced_to vaa P s0 m s \<Longrightarrow> \<not> P (Suc m) \<Longrightarrow> synced_to vaa P s0 (Suc m) s"
  by (auto simp: synced_to_def le_Suc_eq)

lemma synced_to_next:
  "synced_to vaa P s0 m s \<Longrightarrow> P (Suc m) \<Longrightarrow> accepts (vaa (Suc m)) \<Longrightarrow> last_seq s' = Suc m \<Longrightarrow> history s' = history s @ [vaa (Suc m)] \<Longrightarrow>
   synced_to vaa P s0 (Suc m) s'"
  by (auto simp: synced_to_def le_Suc_eq)

lemma synced_to_same: "synced_to vaa P s0 m s \<Longrightarrow> last_seq s' = last_seq s \<Longrightarrow> history s' = history s \<Longrightarrow> synced_to vaa P s0 m s'"
  by (simp add: synced_to_def)

text \<open>The next run starts from the last VAA that was executed.\<close>

lemma synced_to_back:
  assumes "synced_to vaa P s0 m s"
  shows "synced_to vaa P s0 (last_seq s) s"
proof -
  let ?old = "last_seq s0" and ?done = "\<lambda>m. filter P [Suc (last_seq s0)..<Suc m]"
  have "\<exists>n \<le> m. ?old \<le> n \<and> last (?old # ?done m) = n \<and> ?done m = ?done n" if "?old \<le> m" for m
    using that
  proof (induction m)
    case (Suc m)
    show ?case
    proof (cases "?old = Suc m \<or> P (Suc m)")
      case True
      then show ?thesis using Suc.prems by (intro exI [of _ "Suc m"]) auto
    next
      case False
      then have "?old \<le> m" using Suc.prems by simp
      from Suc.IH [OF this] obtain n where "n \<le> m" "?old \<le> n" "last (?old # ?done m) = n" "?done m = ?done n" by blast
      moreover have "?done (Suc m) = ?done m" using False Suc.prems by simp
      ultimately show ?thesis by (metis le_SucI)
    qed
  qed simp
  with assms obtain n where n: "n \<le> m" "?old \<le> n" "last_seq s = n" "?done m = ?done n" unfolding synced_to_def by metis
  then have "\<forall>i \<in> {?old<..n}. P i \<longrightarrow> accepts (vaa i)" using assms unfolding synced_to_def by auto
  with assms n show ?thesis unfolding synced_to_def by metis
qed

lemma sync_vaas_synced:
  "sync_vaas decode key chain G fetch n s = Some ru \<Longrightarrow> G = C \<Longrightarrow> (\<And>n v. fetch n = Inr v \<Longrightarrow> v = vaa n) \<Longrightarrow> (\<And>n. seq (vaa n) = n) \<Longrightarrow>
   (\<And>n. decode (vaa n) = Inr (act n)) \<Longrightarrow> P = (\<lambda>n. \<exists>a. act n = Some a \<and> for_chain chain a) \<Longrightarrow> synced_to vaa P s0 n s \<Longrightarrow>
   \<exists>m. synced_to vaa P s0 m (snd ru) \<and> (fst ru = Inr () \<longrightarrow> (\<exists>e. fetch (Suc m) = Inl e))"
proof (induction arbitrary: vaa act rule: sync_vaas.raw_induct [rotated, consumes 1, case_names step])
  case (step sync decode key chain G fetch n s ru)
  note body = step(2) and facts = step(3-7) and at = step(8)
  have again: "\<exists>m. synced_to vaa P s0 m (snd ru) \<and> (fst ru = Inr () \<longrightarrow> (\<exists>e. fetch (Suc m) = Inl e))"
    if "sync decode key chain G fetch (Suc n) s1 = Some ru" "synced_to vaa P s0 (Suc n) s1" for s1
    using step(1) [OF that(1) facts that(2)] .
  consider (not_fetched) e where "fetch (Suc n) = Inl e" | (other) "fetch (Suc n) = Inr (vaa (Suc n))" "\<not> P (Suc n)"
    | (mine) a where "fetch (Suc n) = Inr (vaa (Suc n))" "act (Suc n) = Some a" "for_chain chain a"
    using facts(2) [of "Suc n"] by (cases "fetch (Suc n)") (auto simp: facts(5))
  then show ?case
  proof cases
    case not_fetched
    then show ?thesis using body at by (intro exI [of _ n]) auto
  next
    case other
    then have "sync decode key chain G fetch (Suc n) s = Some ru"
      using body facts(4) [of "Suc n"] by (auto simp: facts(5) split: option.splits if_splits)
    then show ?thesis using again synced_to_skip [OF at other(2)] by blast
  next
    case mine
    then have now: "P (Suc n)" by (simp add: facts(5))
    obtain q t where q: "gc_executeGovernanceInstruction C (vaa (Suc n)) s = (q, t)" by fastforce
    note next_state = synced_to_next [OF at now, of t]
    show ?thesis
    proof (cases "toPrivateKey key")
      case (Inl e)
      then have "ru = (Inl e, s)" using body mine facts(4) [of "Suc n"] by simp
      then show ?thesis using at by auto
    next
      case (Inr x)
      show ?thesis
      proof (cases q)
        case (Inl e)
        then have "ru = (Inl e, t)" using body mine facts(1) facts(4) [of "Suc n"] q \<open>toPrivateKey key = Inr x\<close> by simp
        with not_executed [OF q [unfolded Inl]] next_state synced_to_same [OF at, of t] facts(3) show ?thesis by auto
      next
        case (Inr y)
        then have "sync decode key chain G fetch (Suc n) t = Some ru"
          using body mine facts(1) facts(4) [of "Suc n"] q \<open>toPrivateKey key = Inr x\<close> by simp
        then show ?thesis using again next_state executed [of "vaa (Suc n)" s t] q Inr facts(3) by auto
      qed
    qed
  qed
qed

end

text \<open>A contract that accepts the VAAs it is told to.\<close>

definition doc_feed :: "(bytes \<Rightarrow> bool) \<Rightarrow> (bytes \<Rightarrow> nat) \<Rightarrow> (nat \<times> bytes list) GovernanceContract" where
  "doc_feed accepts seq =
     \<lparr> gc_getGovernanceDataSource = (\<lambda>_. Inr \<lparr> emitterChain = 1, emitterAddress = ''07'' \<rparr>),
       gc_getLastExecutedGovernanceSequence = (\<lambda>(l, h). Inr l),
       gc_executeGovernanceInstruction = (\<lambda>v (l, h).
         if accepts v \<and> l < seq v then (Inr (), (seq v, h @ [v])) else (Inl (JsError ''execution reverted''), (l, h))) \<rparr>"

interpretation doc_feed: synced_contract "doc_feed accepts seq" accepts seq fst snd for accepts seq
  by unfold_locales (auto simp: doc_feed_def split: if_splits)

text \<open>The loop ends, as there is a first VAA that does not exist.\<close>

lemma sync_vaas_returns: "n < m \<Longrightarrow> fetch m = Inl e \<Longrightarrow> \<exists>ru. sync_vaas decode key chain C fetch n s = Some ru"
proof (induction "m - n" arbitrary: n s)
  case (Suc i)
  have again: "\<exists>ru. sync_vaas decode key chain C fetch (Suc n) t = Some ru" if "fetch (Suc n) = Inr v" for t v
  proof -
    have "Suc n < m" using that Suc.prems by (cases "Suc n = m") auto
    with Suc show ?thesis by auto
  qed
  then show ?case
    by (subst sync_vaas.simps) (auto split: sum.splits option.splits prod.splits)
qed simp

section \<open>Properties\<close>

text \<open>A run of \<open>execute_vaas\<close>: what its requests answer, and its option \<open>--offset\<close>.\<close>

record ('s, 'v) script_run =
  sr_env :: "'s governance_env"
  sr_getLastSequenceNumber :: "'v \<Rightarrow> int result"
  sr_fetch :: "'v \<Rightarrow> int \<Rightarrow> bytes result"
  sr_offset :: int

definition run_execute_vaas ::
  "chain_table \<Rightarrow> buffer_layout_lib \<Rightarrow> 'pk web3_lib \<Rightarrow> chains \<Rightarrow> contracts \<Rightarrow> (string \<times> 'v) list \<Rightarrow> string \<Rightarrow> string \<Rightarrow> ('s, 'v) script_run \<Rightarrow>
   's \<Rightarrow> unit result \<times> 's" where
  "run_execute_vaas wh L W table st vaults vaultName key R =
     execute_vaas wh L W table st (sr_env R) vaults (sr_getLastSequenceNumber R) (sr_fetch R) vaultName key (sr_offset R) False"



section \<open>Witnesses\<close>

text \<open>VAAs whose sequence number is the number of ones they begin with; the second one of the vault is for the executor contract.\<close>

definition doc_message :: "nat \<Rightarrow> bytes \<Rightarrow> bytes" where
  "doc_message n payload = replicate n 1 @ 0 # payload"

definition doc_sequence :: "bytes \<Rightarrow> nat" where
  "doc_sequence vaa = length (takeWhile (\<lambda>b. b = 1) vaa)"

definition doc_parse_message :: "bytes \<Rightarrow> parsed_vaa result" where
  "doc_parse_message vaa = Inr \<lparr> pv_emitterChain = 1, pv_emitterAddress = [7], pv_sequence = doc_sequence vaa,
     pv_payload = tl (dropWhile (\<lambda>b. b = 1) vaa) \<rparr>"

lemma doc_message_parsed [simp]:
  "doc_sequence (doc_message n payload) = n"
  "doc_parse_message (doc_message n payload) = Inr \<lparr> pv_emitterChain = 1, pv_emitterAddress = [7], pv_sequence = n, pv_payload = payload \<rparr>"
  by (simp_all add: doc_message_def doc_sequence_def doc_parse_message_def takeWhile_append dropWhile_append takeWhile_eq_all_conv [THEN iffD2])

definition sample_execute :: "256 word PythGovernanceAction" where
  "sample_execute = EvmExecute ''ethereum'' (replicate 40 CHR ''0'') (replicate 40 CHR ''0'') 0 [1]"

definition scripted_action :: "nat \<Rightarrow> 256 word PythGovernanceAction" where
  "scripted_action n = (if n = 2 then sample_execute else SetFee ''ethereum'' 1 0)"

definition scripted_payload :: "nat \<Rightarrow> bytes" where
  "scripted_payload n = header_bytes (action_name (scripted_action n)) 2 @ payload_bytes (w3_toBytes doc_web3) (scripted_action n)"

lemma scripted_payload_decodes: "decodeGovernancePayload sample_wormhole doc_lib doc_web3 (scripted_payload n) = Inr (Some (scripted_action n))"
proof -
  have "hex_of 20 (replicate 40 CHR ''0'')"
    using hex_digits_canonical [of "replicate 40 CHR ''0''"] by (simp add: hex_of_def hex_digits_def)
  then have "chain_ok sample_wormhole (action_chain (scripted_action n)) 2" "wf_action (w3_toBytes doc_web3) (scripted_action n)"
    using sample_chain_ok by (simp_all add: fits_def scripted_action_def sample_execute_def)
  from doc_codec.decode_wire [OF this] show ?thesis by (simp add: scripted_payload_def)
qed

definition numbered_vaa :: "nat \<Rightarrow> bytes" where
  "numbered_vaa n = doc_message n (scripted_payload n)"

definition sample_key :: string where
  "sample_key = replicate 64 CHR ''0''"

lemma length_zeros: "length (from_hex (replicate (2 * n) CHR ''0'')) = n"
  by (induction n) (simp_all add: unhex_char_def)

lemma sample_key_valid: "toPrivateKey sample_key = Inr sample_key"
  using length_zeros [of 32] by (simp add: toPrivateKey_def sample_key_def)

definition sample_store :: contracts where
  "sample_store = no_contracts\<lparr> st_contracts := [(''ethereum_0x1'', sample_feed_contract)] \<rparr>"

lemma sample_targets: "n \<noteq> 2 \<Longrightarrow> targets [] sample_store (scripted_action n) = [Feed_contract sample_feed_contract]"
  by (simp add: targets_def sample_store_def sample_feed_contract_def scripted_action_def)

text \<open>Two VAAs that set fees: the first run fails at the second one, and the next run completes it.\<close>

definition scripted_run :: "(bool list \<times> (target \<Rightarrow> nat) \<times> (target \<Rightarrow> bytes list), unit) script_run" where
  "scripted_run = \<lparr> sr_env = doc_governance doc_parse_message, sr_getLastSequenceNumber = (\<lambda>_. Inr 4),
     sr_fetch = (\<lambda>_ n. Inr (numbered_vaa (nat n))), sr_offset = 1 \<rparr>"

abbreviation sample_execute_vaas :: "bool list \<times> (target \<Rightarrow> nat) \<times> (target \<Rightarrow> bytes list) \<Rightarrow> unit result \<times> _" where
  "sample_execute_vaas \<equiv> run_execute_vaas sample_wormhole doc_lib doc_web3 [] sample_store [(mainnet_vault_id, ())] ''mainnet'' sample_key scripted_run"

lemmas scripted_run_simps =
  run_execute_vaas_def execute_vaas_def scripted_run_def vault_of_def decode_vaa_def numbered_vaa_def scripted_payload_decodes executeVaa_def
  doc_governance_def sample_targets sample_key_valid executeForGovernanceContract_def doc_contract_def

lemma sample_hex: "to_hex [7] = ''07''"
  by (simp add: to_hex_def hex_byte_def hex_char_def hex_digits_def)

lemma sample_first_run:
  "fst (sample_execute_vaas ([False, True], \<lambda>_. 0, \<lambda>_. [])) = Inl (JsError ''RPC'')"
  "fst (sample_execute_vaas (snd (sample_execute_vaas ([False, True], \<lambda>_. 0, \<lambda>_. [])))) = Inr ()"
  by (simp_all add: scripted_run_simps sample_hex upto_rec1)


text \<open>A store with one price feed contract, which rejects what is for the executor contract, and a vault with messages of all numbers.\<close>

definition sample_decode :: "bytes \<Rightarrow> 256 word PythGovernanceAction option result" where
  "sample_decode = decode_vaa sample_wormhole doc_lib doc_web3 doc_parse_message"

definition sample_accepts :: "bytes \<Rightarrow> bool" where
  "sample_accepts vaa = (case sample_decode vaa of Inr (Some (EvmExecute _ _ _ _ _)) \<Rightarrow> False | _ \<Rightarrow> True)"

definition sample_sync :: "nat \<times> bytes list \<Rightarrow> (unit result \<times> nat \<times> bytes list) option" where
  "sample_sync = sync_governance_vaas sample_decode [(''ethereum_0x1'', sample_feed_contract)] (\<lambda>_. doc_feed sample_accepts doc_sequence)
     [(devnet_vault_id, ()), (mainnet_vault_id, ())] (\<lambda>_. Inr [7]) (\<lambda>_ n. Inr (numbered_vaa n)) ''ethereum_0x1'' sample_key None"

lemma decodes_numbered_vaa [simp]: "sample_decode (numbered_vaa n) = Inr (Some (scripted_action n))"
  by (simp add: sample_decode_def decode_vaa_def numbered_vaa_def scripted_payload_decodes)

lemma sample_sequence [simp]: "doc_sequence (numbered_vaa n) = n"
  by (simp add: numbered_vaa_def)

lemma sample_for_chain [simp]: "for_chain (co_chain sample_feed_contract) (scripted_action n)"
  by (simp add: for_chain_def sample_feed_contract_def scripted_action_def sample_execute_def)

lemma acceptss_numbered_vaa [simp]: "sample_accepts (numbered_vaa n) \<longleftrightarrow> n \<noteq> 2"
  by (simp add: sample_accepts_def scripted_action_def sample_execute_def)

lemmas sample_sync_simps =
  sample_sync_def sync_governance_vaas_def matched_vault_def vault_of_def doc_feed_def sample_hex sample_key_valid sync_start_def

lemma sample_sync_runs:
  "sample_sync (1, [numbered_vaa 1]) = Some (Inl (JsError ''execution reverted''), 1, [numbered_vaa 1])"
  "sample_sync (0, []) = Some (Inl (JsError ''execution reverted''), 1, [numbered_vaa 1])"
  by (simp_all add: sample_sync_simps sync_vaas.simps [where lastExecuted = 0] sync_vaas.simps [where lastExecuted = 1]
      sync_vaas.simps [where lastExecuted = "Suc 0"])


end
