(* ===== verification/Spec2Isabelle.thy ===== *)
theory Spec2Isabelle
  imports Governance_Codec Executor Relayer Price_Service_Client Solana_Pusher Sui_Pusher Chain_Sdks Chain_Pushers Lazer_Client Lazer_Socket Staking_App Hermes_Client Governance_Scripts
begin

text \<open>
  This development models and verifies the TypeScript core of the Pyth cross-chain repository: the code
  that encodes and decodes what crosses chain boundaries, that batches and posts transactions, and
  that keeps subscriptions and price updates going.

  \<^bold>\<open>The program and its theories.\<close>

  \<^item> \<open>Js_Prelude\<close> holds what the sources share of JavaScript and Node: thrown errors as the left side of a
    sum (\<open>bindR\<close>, \<open>mapR\<close>), buffers as lists of bytes with clamped slices, big- and little-endian
    integers, hexadecimal and base64 strings. \<open>Js_Number\<close> holds JavaScript numbers: binary64 values
    with rounding to nearest even, infinities and NaN, as an executable function on rationals.

  \<^item> Governance messages (\<open>governance/xc_admin/packages/xc_admin_common\<close>). \<open>Chains\<close> is the registry of
    \<open>chains.ts\<close>; \<open>Buffer_Layout\<close> the layouts of \<open>@solana/buffer-layout\<close> (a parameter with the locale
    \<open>buffer_layout\<close>) and of \<open>BufferLayoutExt.ts\<close>; \<open>Governance_Payload\<close> the header and the actions of
    \<open>governance_payload/*.ts\<close> with their \<open>encode\<close> and \<open>decode\<close>; \<open>Governance_Codec\<close> an independent wire format
    specification. \<open>toChainName_sound\<close> is about the registry, C1 is the round trip over all actions, C2 the
    refinement of the wire format, C3 that the header decoder accepts nothing else, \<open>encode_errors\<close> the errors.

  \<^item> Proposals (the same package). \<open>Price_Store\<close> is \<open>price_store.ts\<close>, whose parser shows reviewers exactly the
    instructions that \<open>createPriceStoreInstruction\<close> makes (C4; locale \<open>pubkeys\<close>). \<open>Proposals\<close> is \<open>propose.ts\<close>,
    \<open>multisig.ts\<close> and \<open>remote_executor.ts\<close>: batches for the remote executor, the instructions of new and resumed
    proposals, sending, and reading back. \<open>Squads_Vault\<close> runs those instructions against the contract
    \<open>squads_program\<close> of the multisig program: C5 is about the batches, C6 and
    C7 say that the proposals hold what was asked for (for a remote cluster as messages that the governance
    decoder reads back) and C8 that an interrupted run can be completed; \<open>many_proposals_as_each\<close> is about
    reading back. \<open>Multisig_Parser\<close> is what reviewers are shown (\<open>multisig_transaction/*.ts\<close>, \<open>cluster.ts\<close>, \<open>wormhole.ts\<close>):
    \<open>governance_action_shown\<close> connects it with the encoder and \<open>parsed_instruction_shown\<close> says that program and accounts are the instruction's.

  \<^item> Execution of governance. \<open>Executor\<close> is \<open>executor.ts\<close>: against the contract \<open>squads_execution\<close> every
    instruction of a proposal is executed once and in order (C9). \<open>Relayer\<close> holds the services
    \<open>crank_pythnet_relayer\<close> and \<open>crank_executor\<close>: against the contract \<open>remote_executor\<close> the VAAs for Pythnet are executed in
    order, each once, over any number of interrupted runs (C10); \<open>relay_loop_ends\<close> says when a run ends and
    \<open>crank_loop_executes\<close> what the other crank executes.

  \<^item> Price updates (\<open>price_service/sdk/js\<close>). \<open>Accumulator\<close> is \<open>AccumulatorUpdateData.ts\<close>, parser and slicer
    (C15 exactness, C16 that slicing commutes with parsing, C17 the prices);
    \<open>Price_Sdk\<close> the schema checker and the classes \<open>Price\<close> and \<open>PriceFeed\<close> (C18 exactness of the checker;
    \<open>PriceFeed_json_roundtrip\<close>).

  \<^item> Solana (\<open>target_chains/solana/sdk/js\<close>). \<open>Solana_Transaction\<close> is \<open>transaction.ts\<close> and \<open>jito.ts\<close>: sizes,
    batching, building and confirming (C19, \<open>batchIntoVersionedTransactions_carries\<close>, C20; the locale \<open>packing\<close> carries both builders).
    \<open>Vaa\<close> is \<open>vaa.ts\<close> and \<open>address.ts\<close> against the contract \<open>wormhole_core\<close> of the Wormhole program
    (C21; \<open>trimSignatures_correct\<close>); \<open>Solana_Receiver\<close> is \<open>PythSolanaReceiver.ts\<close> and composes the two
    (C22, C23).

  \<^item> The price service client (\<open>price_service/client/js\<close>). \<open>Price_Service_Client\<close> models the reconnecting
    socket and the subscriptions as state machines (C24, C25). \<open>Hermes_Client\<close>
    (\<open>apps/hermes/client/js\<close>) is the newer client: its retries (\<open>hermes_request_exact\<close>), what its timeout bounds
    (C34), and the URLs of its endpoints (\<open>price_updates_url\<close>).

  \<^item> The price pusher (\<open>apps/price_pusher\<close>). \<open>Price_Pusher\<close> is the update condition, the listeners (locales
    \<open>price_listener\<close> and \<open>monotone_listener\<close>) and the controller, run concurrently as a state machine
    (C26, C27); \<open>Evm_Pusher\<close> is \<open>updatePriceFeed\<close> on EVM chains with its gas price, nonce and
    errors (C28). The controller does not wait for a push, so pushes overlap: \<open>Sui_Pusher\<close> (\<open>sui.ts\<close>) models the pool
    of gas coins with transactions in flight (C29) and its initialisation (C30); \<open>Solana_Pusher\<close>
    (\<open>solana.ts\<close>, \<open>jito.ts\<close>) the bundles of the Jito pusher with its tip and retries (C31; \<open>jito_push_ends\<close>);
    \<open>Chain_Pushers\<close> Aptos as a step relation over overlapping pushes (C32), Injective, NEAR
    (C33), TON and Fuel.

  \<^item> \<open>Sui_Client\<close> (\<open>target_chains/sui/sdk/js\<close>): the commands of an update and the VAA of an accumulator message, which is the one
    that the parser of \<open>Accumulator\<close> reads (\<open>extracted_vaa_is_parsed_vaa\<close>, \<open>update_transaction_commands\<close>). \<open>Chain_Sdks\<close> holds the byte buffers of the Starknet SDK, read back
    the way its contract does (\<open>fromBuffer_roundtrip\<close>), the update data of the EVM, Aptos and Sui connections
    (\<open>serializeUpdateData_roundtrip\<close>), and the signature instruction of Lazer against the native program that reads it (C37).
    \<open>Ton_Sdk\<close> (\<open>target_chains/ton/sdk/js\<close>): cell chains, messages and parsers (C35). \<open>Lazer_Client\<close>
    (\<open>lazer/sdk/js\<close>): the binary parser and the socket pool (C36; \<open>dedupe_once\<close>), and
    \<open>Lazer_Socket\<close> its reconnecting socket with the connection promises (C40).

  \<^item> Staking (\<open>governance/pyth_staking_sdk\<close>). \<open>Staking_Sdk\<close> holds positions, yields, publisher data and vesting
    (\<open>position_states_partition\<close>); \<open>Staking_Client\<close> the instructions that the client sends for each operation, claimable rewards
    and voter weight (C38). \<open>Staking_App\<close> (\<open>apps/staking/src/api.ts\<close>) is what the application shows for an
    account and the operations it offers, composed from the client (C39).

  \<^item> The contract manager (\<open>contract_manager/src\<close>), which deploys and governs the contracts of all chains.
    \<open>Contract_Chains\<close> holds the chain classes: their JSON form (\<open>chain_json_exact\<close>), the governance payloads
    they generate (\<open>chain_payloads_decode\<close>) and deployments. \<open>Contract_Store\<close> holds the contract classes,
    tokens, vaults and the store with its YAML files: C14 and \<open>vault_json_roundtrip\<close> say what
    saving keeps, C13 that saved chains cannot be loaded. \<open>Contract_Governance\<close> waits for VAAs and executes
    them on the contracts of the store (locales \<open>guardian_contract\<close> and \<open>governed_contracts\<close>): over any number of
    interrupted runs no contract executes a VAA twice (\<open>executeVaa_exactly_once\<close>). \<open>Governance_Scripts\<close> holds the programs
    \<open>execute_vaas.ts\<close>, which brings all contracts up to date with a vault (C11), and \<open>sync_governance_vaas.ts\<close>,
    which does so for one contract (locale \<open>synced_contract\<close>) up to the first VAA that it rejects (C12).

  \<^bold>\<open>How the code is represented.\<close> A class is a record and a method a function from the record to the record
  and its result; a handler that throws after it has changed the state returns both. Asynchronous
  code runs between two of its \<open>await\<close>s without interruption: where the state can change at an \<open>await\<close>
  (the sleeping close handler and the waiting restart of the two \<open>ResilientWebSocket\<close>s, the listeners and rounds of the
  pusher) each part is a step of its own, and elsewhere a method is one step. Packages
  that are not in the repository (\<open>bn.js\<close>, \<open>@solana/web3.js\<close>, Anchor programs, \<open>@ton/core\<close>,
  \<open>@isaacs/ttlcache\<close>) and services (nodes, Hermes) are arguments; what the proofs use of them is
  stated in a locale, which is interpreted on a concrete instance. Safe integers are integers,
  \<open>bigint\<close>s are integers, prices and yields that are computed in floating point are JavaScript numbers. Log
  output and the wording of some error messages are not kept.

  \<^bold>\<open>Loops and fuel.\<close> Loops over lists are structural recursions; \<open>parse_payloads\<close> and the packing loops
  terminate by a measure. \<open>chunks_from\<close> has fuel one more than the number of bytes, and its lemma shows that
  it then covers the buffer. The confirmation loop of \<open>sendTransactions\<close> consumes the list of the
  node's answers and returns \<open>None\<close> when they run out; \<open>sendTransactions_bounded\<close> states when it ends. Loops that the other
  side may keep going for ever (the pages and the retries of the Sui gas pool, the sequence numbers of the relayer, the
  waiting loops of the contract manager) are partial functions, and C30, \<open>relay_loop_ends\<close>,
  \<open>fetchVaa_returns\<close>, \<open>sync_vaas_returns\<close> and \<open>guardian_sets_synced\<close> state when they return.

  \<^bold>\<open>Not modelled.\<close> The pages of the web applications, the command line tools, the proposer server, the other scripts of the
  contract manager and the Fuel SDK mostly pass data between third-party libraries, and so do the requests of the contract
  manager's classes to their chains; interface
  descriptions are generated; the Rust, Solidity, Move, FunC and Cairo programs are other code bases.
\<close>

end
